(* ===== verification/ErpPrelude.thy ===== *)
theory ErpPrelude
  imports Complex_Main
begin

text \<open>
  Prelude of the development: the types, tables and list lemmas the components share.

  \<^item> A UUID primary key is a natural number, a \<open>Decimal\<close> is an exact rational, a
    UTC timestamp is an integer. \<open>uuid4()\<close> never returns a key twice: every state
    has a counter from which new keys are drawn.
  \<^item> A service method that may raise is a function into \<open>exn + 'a\<close>; \<open>Inl\<close> is the
    exception. A request whose exception escapes leaves the database as its last
    commit left it, because \<open>get_db\<close> (\<^verbatim>\<open>src/app/db/session.py\<close>) closes the session.
  \<^item> A database table is the list of its rows in insertion order, each with its key.
    The locale \<open>keyed_store\<close> states what the repositories promise of it
    (\<^verbatim>\<open>src/app/repositories/base_repository.py\<close>), \<open>tbl\<close> interprets it.
\<close>

named_theorems table_simps "what a table holds after one of its operations"

section \<open>Basic types\<close>

type_synonym uuid = nat
type_synonym decimal = rat
type_synonym timestamp = int

datatype exn =
    NotFoundException string
  | ValidationException string
  | DuplicateResourceException string
  | ValueErr string
  | IntegrityErr string
  | ApnaError string
  | AttributeErr string
  | TypeErr string
  | OverflowErr string
  | NameErr string
  | ArithmeticErr string

type_synonym 'a result = "exn + 'a"

text \<open>What a request leaves behind besides its rows: audit records, published domain
  events, queued notification tasks.\<close>

datatype effect =
    Audit string string uuid
  | Publish string uuid
  | Notify string uuid

section \<open>Results\<close>

fun is_ok :: "'a result \<Rightarrow> bool" where
  "is_ok (Inl e) = False"
| "is_ok (Inr x) = True"

text \<open>A \<open>for\<close> loop whose body may raise.\<close>

fun fold_res :: "('a \<Rightarrow> 's \<Rightarrow> 's result) \<Rightarrow> 'a list \<Rightarrow> 's \<Rightarrow> 's result" where
  "fold_res f [] s = Inr s"
| "fold_res f (x # xs) s = (case f x s of Inl e \<Rightarrow> Inl e | Inr s' \<Rightarrow> fold_res f xs s')"

lemma fold_res_append:
  "fold_res f (xs @ ys) s = (case fold_res f xs s of Inl e \<Rightarrow> Inl e | Inr s' \<Rightarrow> fold_res f ys s')"
  by (induction xs arbitrary: s) (auto split: sum.splits)

lemma fold_res_invariant:
  assumes "\<And>x s s'. x \<in> set xs \<Longrightarrow> I s \<Longrightarrow> f x s = Inr s' \<Longrightarrow> I s'"
    and "fold_res f xs s = Inr s'" and "I s"
  shows "I s'"
  using assms
  by (induction xs arbitrary: s) (auto split: sum.splits)

lemma fold_res_additive:
  fixes m :: "'s \<Rightarrow> 'v::comm_monoid_add"
  assumes "\<And>x s s'. x \<in> set xs \<Longrightarrow> I s \<Longrightarrow> f x s = Inr s' \<Longrightarrow> I s' \<and> m s' = m s + d x"
    and "fold_res f xs s = Inr s'" and "I s"
  shows "I s' \<and> m s' = m s + sum_list (map d xs)"
  using assms
proof (induction xs arbitrary: s)
  case Nil
  then show ?case by simp
next
  case (Cons x xs)
  from Cons.prems(2) obtain t where t: "f x s = Inr t" and rest: "fold_res f xs t = Inr s'"
    by (auto split: sum.splits)
  from Cons.prems(1) [of x s t] t Cons.prems(3) have step: "I t" "m t = m s + d x" by auto
  have "I s' \<and> m s' = m t + sum_list (map d xs)"
    using Cons.prems(1) rest step(1) by (intro Cons.IH) auto
  with step(2) show ?case by (simp add: add.assoc)
qed

section \<open>Strings\<close>

text \<open>\<open>str.upper\<close> and \<open>str.lower\<close> on ASCII letters.\<close>

definition upper_table :: "(char \<times> char) list" where
  "upper_table = zip ''abcdefghijklmnopqrstuvwxyz'' ''ABCDEFGHIJKLMNOPQRSTUVWXYZ''"

definition upper_char :: "char \<Rightarrow> char" where
  "upper_char c = (case map_of upper_table c of Some d \<Rightarrow> d | None \<Rightarrow> c)"

definition py_upper :: "string \<Rightarrow> string" where
  "py_upper s = map upper_char s"

definition lower_char :: "char \<Rightarrow> char" where
  "lower_char c = (case map_of (map (\<lambda>(a, b). (b, a)) upper_table) c of Some d \<Rightarrow> d | None \<Rightarrow> c)"

definition py_lower :: "string \<Rightarrow> string" where
  "py_lower s = map lower_char s"

text \<open>\<open>str.strip\<close> on blanks.\<close>

definition py_strip :: "string \<Rightarrow> string" where
  "py_strip s = rev (dropWhile (\<lambda>c. c = CHR '' '') (rev (dropWhile (\<lambda>c. c = CHR '' '') s)))"

text \<open>\<open>str\<close> of a non-negative integer.\<close>

definition digit_char :: "nat \<Rightarrow> char" where
  "digit_char d = ''0123456789'' ! (d mod 10)"

fun str_nat :: "nat \<Rightarrow> string" where
  "str_nat n = (if n < 10 then [digit_char n] else str_nat (n div 10) @ [digit_char n])"

declare str_nat.simps [simp del]

section \<open>Decimal rounding\<close>

text \<open>Rounding to \<open>n\<close> decimal places, ties to even.\<close>

definition round_half_even :: "rat \<Rightarrow> int" where
  "round_half_even x =
     (let f = \<lfloor>x\<rfloor>; r = x - of_int f
      in if r < 1 / 2 then f else if r > 1 / 2 then f + 1 else if even f then f else f + 1)"

definition round_dp :: "nat \<Rightarrow> decimal \<Rightarrow> decimal" where
  "round_dp n x = of_int (round_half_even (x * 10 ^ n)) / 10 ^ n"

lemma round_half_even_near: "\<bar>of_int (round_half_even x) - x\<bar> \<le> 1 / 2"
proof -
  have "of_int \<lfloor>x\<rfloor> \<le> x" "x < of_int \<lfloor>x\<rfloor> + 1" by linarith+
  then show ?thesis by (auto simp: round_half_even_def Let_def abs_le_iff)
qed

lemma round_half_even_of_int [simp]: "round_half_even (of_int k) = k"
  by (simp add: round_half_even_def)

lemma round_dp_near: "\<bar>round_dp n x - x\<bar> \<le> 1 / (2 * 10 ^ n)"
proof -
  have "round_dp n x - x = (of_int (round_half_even (x * 10 ^ n)) - x * 10 ^ n) / 10 ^ n"
    by (simp add: round_dp_def diff_divide_distrib)
  moreover have "\<bar>(of_int (round_half_even (x * 10 ^ n)) - x * 10 ^ n) / 10 ^ n\<bar>
      \<le> (1 / 2) / \<bar>10 ^ n :: rat\<bar>"
    unfolding abs_divide by (rule divide_right_mono [OF round_half_even_near abs_ge_zero])
  ultimately show ?thesis by simp
qed

section \<open>Tables\<close>

type_synonym 'r table = "(uuid \<times> 'r) list"

definition get :: "'r table \<Rightarrow> uuid \<Rightarrow> 'r option" where
  "get t i = map_of t i"

definition modify :: "uuid \<Rightarrow> ('r \<Rightarrow> 'r) \<Rightarrow> 'r table \<Rightarrow> 'r table" where
  "modify i f t = map (\<lambda>(k, r). (k, if k = i then f r else r)) t"

definition add_row :: "uuid \<Rightarrow> 'r \<Rightarrow> 'r table \<Rightarrow> 'r table" where
  "add_row i r t = t @ [(i, r)]"

definition remove_row :: "uuid \<Rightarrow> 'r table \<Rightarrow> 'r table" where
  "remove_row i t = filter (\<lambda>(k, r). k \<noteq> i) t"

definition first_where :: "('r \<Rightarrow> bool) \<Rightarrow> 'r table \<Rightarrow> (uuid \<times> 'r) option" where
  "first_where P t = find (\<lambda>(k, r). P r) t"

definition exists_where :: "('r \<Rightarrow> bool) \<Rightarrow> 'r table \<Rightarrow> bool" where
  "exists_where P t = list_ex (\<lambda>(k, r). P r) t"

definition keys :: "'r table \<Rightarrow> uuid list" where
  "keys t = map fst t"

definition all_rows :: "('r \<Rightarrow> bool) \<Rightarrow> 'r table \<Rightarrow> bool" where
  "all_rows P t = list_all (\<lambda>(k, r). P r) t"

definition sum_rows :: "('r \<Rightarrow> 'v::comm_monoid_add) \<Rightarrow> 'r table \<Rightarrow> 'v" where
  "sum_rows f t = sum_list (map (\<lambda>(k, r). f r) t)"

text \<open>Every key is distinct and was drawn from the counter.\<close>

definition wf_table :: "uuid \<Rightarrow> 'r table \<Rightarrow> bool" where
  "wf_table n t = (distinct (keys t) \<and> list_all (\<lambda>k. k < n) (keys t))"

lemma keys_simps [table_simps]:
  "keys [] = []" "keys ((i, r) # t) = i # keys t"
  "keys (modify i f t) = keys t" "keys (add_row i r t) = keys t @ [i]"
  by (auto simp: keys_def modify_def add_row_def case_prod_unfold)

lemma get_modify_eq:
  "get (modify i f t) j = (if j = i then map_option f (get t j) else get t j)"
  unfolding get_def modify_def by (induction t) auto

lemma get_add_row_eq:
  "get (add_row i r t) j = (case get t j of Some r' \<Rightarrow> Some r' | None \<Rightarrow> if j = i then Some r else None)"
  unfolding get_def add_row_def by (induction t) auto

lemma get_Some_key: "get t i = Some r \<Longrightarrow> i \<in> set (keys t)"
  unfolding get_def keys_def by (force dest: map_of_SomeD)

lemma get_None_fresh: "i \<notin> set (keys t) \<Longrightarrow> get t i = None"
  by (cases "get t i") (auto dest: get_Some_key)

lemma get_None_iff: "get t i = None \<longleftrightarrow> i \<notin> set (keys t)"
  unfolding get_def keys_def by (simp add: map_of_eq_None_iff image_iff)

lemma get_add_row_fresh:
  "i \<notin> set (keys t) \<Longrightarrow> get (add_row i r t) j = (if j = i then Some r else get t j)"
  by (auto simp: get_add_row_eq get_None_fresh split: option.splits)

lemma get_remove_row: "get (remove_row i t) j = (if j = i then None else get t j)"
  unfolding get_def remove_row_def by (induction t) auto

lemma get_in_set: "get t i = Some r \<Longrightarrow> (i, r) \<in> set t"
  unfolding get_def by (rule map_of_SomeD)

lemma in_set_get: "distinct (keys t) \<Longrightarrow> (i, r) \<in> set t \<Longrightarrow> get t i = Some r"
  by (simp add: get_def keys_def)

section \<open>The contract of a repository\<close>

text \<open>What a client of a keyed table relies on, with what follows from it once and for all:
  a property of every row survives a modification that keeps it and the insertion of a
  row that has it.\<close>

locale keyed_store =
  fixes lookup :: "'t \<Rightarrow> uuid \<Rightarrow> 'r option"
    and upd :: "uuid \<Rightarrow> ('r \<Rightarrow> 'r) \<Rightarrow> 't \<Rightarrow> 't"
    and ins :: "uuid \<Rightarrow> 'r \<Rightarrow> 't \<Rightarrow> 't"
    and dom_list :: "'t \<Rightarrow> uuid list"
  assumes lookup_upd:
      "lookup (upd i f t) j = (if j = i then map_option f (lookup t j) else lookup t j)"
    and lookup_ins:
      "i \<notin> set (dom_list t) \<Longrightarrow> lookup (ins i r t) j = (if j = i then Some r else lookup t j)"
    and dom_upd: "dom_list (upd i f t) = dom_list t"
    and dom_ins: "dom_list (ins i r t) = dom_list t @ [i]"
    and lookup_dom: "lookup t i = Some r \<Longrightarrow> i \<in> set (dom_list t)"
begin

lemma lookup_upd_same: "lookup t i = Some r \<Longrightarrow> lookup (upd i f t) i = Some (f r)"
  by (simp add: lookup_upd)

lemma lookup_upd_other: "j \<noteq> i \<Longrightarrow> lookup (upd i f t) j = lookup t j"
  by (simp add: lookup_upd)

lemma lookup_upd_cases:
  assumes "lookup (upd i f t) j = Some r"
  obtains "j \<noteq> i" "lookup t j = Some r"
  | r0 where "j = i" "lookup t i = Some r0" "r = f r0"
  using assms by (auto simp: lookup_upd split: if_splits)

lemma rows_upd:
  assumes "\<And>j r. lookup t j = Some r \<Longrightarrow> P j r"
    and "\<And>r. lookup t i = Some r \<Longrightarrow> P i (f r)"
    and "lookup (upd i f t) j = Some r"
  shows "P j r"
  using assms by (auto simp: lookup_upd split: if_splits)

lemma rows_ins:
  assumes "\<And>j r. lookup t j = Some r \<Longrightarrow> P j r"
    and "i \<notin> set (dom_list t)" and "P i r0"
    and "lookup (ins i r0 t) j = Some r"
  shows "P j r"
  using assms by (auto simp: lookup_ins split: if_splits)

end

interpretation tbl: keyed_store get modify add_row keys
  by unfold_locales
    (simp_all add: get_modify_eq get_add_row_fresh keys_simps get_Some_key)

lemmas table_facts [table_simps] =
  tbl.lookup_upd tbl.lookup_upd_same get_remove_row

section \<open>Well-formed tables and sums over their rows\<close>

lemma wf_table_modify [table_simps]: "wf_table n (modify i f t) = wf_table n t"
  by (simp add: wf_table_def tbl.dom_upd)

lemma wf_table_mono: "wf_table n t \<Longrightarrow> n \<le> m \<Longrightarrow> wf_table m t"
  by (auto simp: wf_table_def list_all_iff)

lemma wf_table_fresh: "wf_table n t \<Longrightarrow> n \<le> i \<Longrightarrow> i \<notin> set (keys t)"
  by (auto simp: wf_table_def list_all_iff)

lemma wf_table_fresh_get: "wf_table n t \<Longrightarrow> n \<le> i \<Longrightarrow> get t i = None"
  by (simp add: wf_table_fresh get_None_fresh)

lemma wf_table_add_row:
  "wf_table n t \<Longrightarrow> n \<le> i \<Longrightarrow> i < m \<Longrightarrow> wf_table m (add_row i r t)"
  by (auto simp: wf_table_def tbl.dom_ins list_all_iff)

lemma wf_table_get_add_row:
  "wf_table n t \<Longrightarrow> n \<le> i \<Longrightarrow> get (add_row i r t) j = (if j = i then Some r else get t j)"
  by (simp add: wf_table_fresh tbl.lookup_ins)

lemma wf_table_Nil [simp]: "wf_table n []"
  by (simp add: wf_table_def keys_def)

lemma wf_table_distinct: "wf_table n t \<Longrightarrow> distinct (keys t)"
  by (simp add: wf_table_def)

lemma all_rows_iff: "all_rows P t = (\<forall>(k, r)\<in>set t. P r)"
  by (simp add: all_rows_def list_all_iff)

lemma all_rows_get: "all_rows P t \<Longrightarrow> get t i = Some r \<Longrightarrow> P r"
  by (auto simp: all_rows_iff dest: get_in_set)

lemma all_rows_modify:
  assumes "all_rows P t" and "distinct (keys t)" and "\<And>r. get t i = Some r \<Longrightarrow> P (f r)"
  shows "all_rows P (modify i f t)"
  using assms by (auto simp: all_rows_iff modify_def in_set_get)

lemma all_rows_add_row: "all_rows P (add_row i r t) = (all_rows P t \<and> P r)"
  by (auto simp: all_rows_iff add_row_def)

lemma sum_rows_add_row: "sum_rows f (add_row i r t) = sum_rows f t + f r"
  by (simp add: sum_rows_def add_row_def)

lemma modify_absent: "get t i = None \<Longrightarrow> modify i f t = t"
  unfolding get_def modify_def by (induction t) (auto split: if_splits)

lemma sum_rows_modify:
  fixes f :: "'r \<Rightarrow> 'v::ab_group_add"
  assumes "distinct (keys t)" and "get t i = Some r"
  shows "sum_rows f (modify i g t) = sum_rows f t + (f (g r) - f r)"
  using assms
proof (induction t)
  case Nil
  then show ?case by (simp add: get_def)
next
  case (Cons x t)
  obtain k r0 where x: "x = (k, r0)" by force
  show ?case
  proof (cases "k = i")
    case True
    with Cons.prems x have "r0 = r" "i \<notin> set (keys t)" by (auto simp: get_def keys_def)
    moreover from this have "modify i g t = t" by (simp add: modify_absent get_None_fresh)
    ultimately show ?thesis using x True by (simp add: modify_def sum_rows_def)
  next
    case False
    with Cons x show ?thesis by (simp add: modify_def sum_rows_def get_def keys_def)
  qed
qed

lemma sum_rows_modify_same:
  fixes f :: "'r \<Rightarrow> 'v::ab_group_add"
  assumes "distinct (keys t)" and "\<And>r. f (g r) = f r"
  shows "sum_rows f (modify i g t) = sum_rows f t"
  using assms by (cases "get t i") (simp_all add: modify_absent sum_rows_modify)

text \<open>A sum over rows is the sum over their keys of the sums over the rows of one key.\<close>

lemma sum_rows_by_key:
  fixes v :: "'r \<Rightarrow> 'v::ab_group_add"
  assumes "finite K" and "\<forall>(i, r)\<in>set t. key r \<in> K"
  shows "sum_rows (\<lambda>r. if P (key r) then v r else 0) t
    = (\<Sum>k\<in>{k \<in> K. P k}. sum_rows (\<lambda>r. if key r = k then v r else 0) t)"
  using assms(2)
proof (induction t)
  case Nil
  then show ?case by (simp add: sum_rows_def)
next
  case (Cons x t)
  obtain i r where x: "x = (i, r)" by force
  have "(\<Sum>k\<in>{k \<in> K. P k}. if key r = k then v r else 0) = (if P (key r) then v r else 0)"
    using assms(1) Cons.prems x by (simp add: sum.delta')
  with Cons x show ?case by (simp add: sum_rows_def sum.distrib)
qed

lemma modify_cong:
  "distinct (keys t) \<Longrightarrow> get t i = Some r \<Longrightarrow> f r = g r \<Longrightarrow> modify i f t = modify i g t"
  unfolding modify_def by (auto intro!: map_cong dest!: in_set_get)

lemma first_where_Some: "first_where P t = Some (i, r) \<Longrightarrow> (i, r) \<in> set t \<and> P r"
  unfolding first_where_def by (induction t) (auto split: if_splits)

lemma first_where_None: "first_where P t = None \<longleftrightarrow> (\<forall>(k, r)\<in>set t. \<not> P r)"
  unfolding first_where_def by (auto simp: find_None_iff)

lemma first_where_modify:
  assumes "\<And>r. P (f r) = P r"
  shows "first_where P (modify i f t) = map_option (\<lambda>(k, r). (k, if k = i then f r else r)) (first_where P t)"
  unfolding first_where_def modify_def
proof (induction t)
  case (Cons x t)
  show ?case using assms [of "snd x"] Cons.IH by (cases x) simp
qed simp

lemma exists_where_iff: "exists_where P t \<longleftrightarrow> (\<exists>(k, r)\<in>set t. P r)"
  by (simp add: exists_where_def list_ex_iff)

text \<open>A column, or a tuple of columns, that no two rows share.\<close>

definition unique_on :: "('r \<Rightarrow> 'k) \<Rightarrow> 'r table \<Rightarrow> bool" where
  "unique_on f t = distinct (map (\<lambda>(i, r). f r) t)"

lemma first_where_add_row:
  "first_where P (add_row i r t) = (case first_where P t of Some x \<Rightarrow> Some x | None \<Rightarrow> if P r then Some (i, r) else None)"
  unfolding first_where_def add_row_def by (induction t) auto

lemma unique_on_first:
  assumes "unique_on f t" and "(i, r) \<in> set t"
  shows "first_where (\<lambda>x. f x = f r) t = Some (i, r)"
  using assms unfolding unique_on_def first_where_def
  by (induction t) (force simp: image_iff)+

lemma unique_on_modify:
  assumes "\<And>r. f (g r) = f r"
  shows "unique_on f (modify i g t) = unique_on f t"
  unfolding unique_on_def modify_def by (simp add: case_prod_unfold comp_def assms if_distrib [of f] cong: if_cong)

lemma unique_on_add_row:
  "unique_on f (add_row i r t) = (unique_on f t \<and> first_where (\<lambda>x. f x = f r) t = None)"
  unfolding unique_on_def add_row_def first_where_def by (induction t) (auto simp: image_iff)

lemma first_where_get:
  "distinct (keys t) \<Longrightarrow> first_where P t = Some (i, r) \<Longrightarrow> get t i = Some r"
  by (auto dest: first_where_Some intro: in_set_get)

lemma first_where_row: "distinct (keys t) \<Longrightarrow> first_where P t = Some (i, r) \<Longrightarrow> get t i = Some r \<and> P r"
  by (auto dest: first_where_Some intro: in_set_get)

lemma unique_on_same:
  "unique_on f t \<Longrightarrow> (i, r) \<in> set t \<Longrightarrow> (j, q) \<in> set t \<Longrightarrow> f r = f q \<Longrightarrow> i = j"
  unfolding unique_on_def by (induction t) (force simp: image_iff)+

lemma unique_on_modify_row:
  assumes "distinct (keys t)" and "get t i = Some r" and "f (g r) = f r"
  shows "unique_on f (modify i g t) = unique_on f t"
proof -
  have "map (\<lambda>(k, q). f q) (modify i g t) = map (\<lambda>(k, q). f q) t"
    using assms in_set_get [OF assms(1)] by (force simp: modify_def)
  then show ?thesis by (simp only: unique_on_def)
qed

text \<open>The first row of a kind, after another row changes or after it is replaced itself.\<close>

lemma first_where_other:
  assumes "distinct (keys t)" and "get t i = Some r" and "\<not> P r" and "\<not> P (g r)"
  shows "first_where P (modify i g t) = first_where P t"
  using assms
proof (induction t)
  case (Cons x t)
  obtain k q where x: "x = (k, q)" by force
  show ?case
  proof (cases "k = i")
    case True
    with Cons.prems x have "modify i g (x # t) = (k, g q) # t"
      by (simp add: keys_def modify_absent [OF get_None_fresh, unfolded modify_def] modify_def)
    with Cons.prems True x show ?thesis by (simp add: first_where_def get_def)
  next
    case False
    with Cons x show ?thesis by (auto simp: first_where_def get_def keys_def modify_def)
  qed
qed (simp add: get_def)

lemma first_where_replace:
  assumes "distinct (keys t)" and "first_where P t = Some (i, r)" and "P (g r)"
  shows "first_where P (modify i g t) = Some (i, g r)"
  using assms
proof (induction t)
  case (Cons x t)
  obtain k q where x: "x = (k, q)" by force
  show ?case
  proof (cases "P q")
    case True
    with Cons.prems x have "k = i" "q = r" by (simp_all add: first_where_def)
    with Cons.prems x show ?thesis by (simp add: first_where_def modify_def)
  next
    case False
    with Cons.prems x have f: "first_where P t = Some (i, r)" by (simp add: first_where_def)
    then have "i \<in> set (keys t)" by (force dest: first_where_Some simp: keys_def)
    with Cons.prems(1) x have "k \<noteq> i" by (auto simp: keys_def)
    with Cons.IH [OF _ f Cons.prems(3)] Cons.prems(1) False x show ?thesis
      by (simp add: first_where_def keys_def modify_def)
  qed
qed (simp add: first_where_def)

end
