(* ===== verification/Calendar.thy ===== *)
theory Calendar
  imports ErpPrelude
begin

text \<open>
  Calendar dates as \<open>datetime.date\<close> has them: year, month and day, compared in that
  order, with the length of a month as \<open>calendar.monthrange\<close> gives it and the proleptic
  Gregorian ordinal of \<open>date.toordinal\<close> for differences in days.
\<close>

datatype date = Date (year: int) (month: int) (day: int)

instantiation date :: linorder
begin

definition less_eq_date :: "date \<Rightarrow> date \<Rightarrow> bool" where
  "less_eq_date a b =
     (year a < year b \<or> year a = year b \<and>
       (month a < month b \<or> month a = month b \<and> day a \<le> day b))"

definition less_date :: "date \<Rightarrow> date \<Rightarrow> bool" where
  "less_date a b =
     (year a < year b \<or> year a = year b \<and>
       (month a < month b \<or> month a = month b \<and> day a < day b))"

instance
  by standard (auto simp: less_eq_date_def less_date_def date.expand)

end

lemmas date_order_simps = less_eq_date_def less_date_def

definition is_leap :: "int \<Rightarrow> bool" where
  "is_leap y = (y mod 4 = 0 \<and> (y mod 100 \<noteq> 0 \<or> y mod 400 = 0))"

text \<open>\<open>calendar.monthrange(y, m)[1]\<close>.\<close>

definition days_in_month :: "int \<Rightarrow> int \<Rightarrow> int" where
  "days_in_month y m =
     (if m = 2 then (if is_leap y then 29 else 28)
      else if m = 4 \<or> m = 6 \<or> m = 9 \<or> m = 11 then 30 else 31)"

definition valid_date :: "date \<Rightarrow> bool" where
  "valid_date d = (1 \<le> month d \<and> month d \<le> 12 \<and> 1 \<le> day d \<and> day d \<le> days_in_month (year d) (month d))"

lemma days_in_month_bounds: "28 \<le> days_in_month y m" "days_in_month y m \<le> 31"
  by (auto simp: days_in_month_def)

lemma days_in_month_pos [simp]: "1 \<le> days_in_month y m"
  by (simp add: days_in_month_def)

definition days_before_year :: "int \<Rightarrow> int" where
  "days_before_year y = (let p = y - 1 in p * 365 + p div 4 - p div 100 + p div 400)"

fun days_before_month_aux :: "int \<Rightarrow> nat \<Rightarrow> int" where
  "days_before_month_aux y 0 = 0"
| "days_before_month_aux y (Suc m) = days_before_month_aux y m + days_in_month y (int m + 1)"

definition toordinal :: "date \<Rightarrow> int" where
  "toordinal d = days_before_year (year d) + days_before_month_aux (year d) (nat (month d - 1)) + day d"

text \<open>\<open>(b - a).days\<close>.\<close>

definition date_diff_days :: "date \<Rightarrow> date \<Rightarrow> int" where
  "date_diff_days b a = toordinal b - toordinal a"

lemma toordinal_known: "toordinal (Date 2024 2 29) = 738945" "toordinal (Date 1 1 1) = 1"
  by (simp_all add: toordinal_def days_before_year_def days_in_month_def is_leap_def
      eval_nat_numeral)

section \<open>Walking through the days\<close>

text \<open>\<open>d + timedelta(days=1)\<close>; the last day Python has is 9999-12-31.\<close>

definition next_day :: "date \<Rightarrow> date option" where
  "next_day d =
     (if day d < days_in_month (year d) (month d) then Some (Date (year d) (month d) (day d + 1))
      else if month d < 12 then Some (Date (year d) (month d + 1) 1)
      else if year d < 9999 then Some (Date (year d + 1) 1 1)
      else None)"

text \<open>\<open>date.weekday()\<close>: Monday is 0.\<close>

definition weekday :: "date \<Rightarrow> int" where
  "weekday d = (toordinal d + 6) mod 7"

definition day_name :: "date \<Rightarrow> string" where
  "day_name d = [''Monday'', ''Tuesday'', ''Wednesday'', ''Thursday'', ''Friday'', ''Saturday'', ''Sunday'']
     ! nat (weekday d)"

text \<open>\<open>datetime.combine(d, t)\<close> in microseconds, and back to its date.\<close>

definition day_us :: int where
  "day_us = 86400000000"

definition combine :: "date \<Rightarrow> int \<Rightarrow> int" where
  "combine d t = toordinal d * day_us + t"

lemma next_day_less: "next_day d = Some e \<Longrightarrow> d < e"
  by (auto simp: next_day_def date_order_simps split: if_splits)

lemma next_day_valid: "valid_date d \<Longrightarrow> next_day d = Some e \<Longrightarrow> valid_date e"
  using days_in_month_bounds by (auto simp: next_day_def valid_date_def split: if_splits intro: order_trans)

text \<open>Between a day and the next there is no other.\<close>

lemma next_day_adjacent:
  assumes "valid_date d" and "next_day d = Some e" and "valid_date x"
  shows "d < x \<longleftrightarrow> e \<le> x"
  using assms by (auto simp: next_day_def valid_date_def date_order_simps split: if_splits)

lemma next_day_last: "valid_date d \<Longrightarrow> year d \<le> 9999 \<Longrightarrow> next_day d = None \<longleftrightarrow> d = Date 9999 12 31"
  by (cases d) (auto simp: next_day_def valid_date_def days_in_month_def)

lemma div_before:
  fixes y k :: int
  assumes "0 < k"
  shows "y div k = (y - 1) div k + (if y mod k = 0 then 1 else 0)"
proof -
  have "y - 1 = (y mod k - 1) + y div k * k" by simp
  then have "(y - 1) div k = ((y mod k - 1) + y div k * k) div k" by (rule arg_cong)
  also have "\<dots> = y div k + (y mod k - 1) div k" using assms by simp
  finally have *: "(y - 1) div k = y div k + (y mod k - 1) div k" .
  have b: "0 \<le> y mod k" "y mod k < k" using assms by simp_all
  have "(y mod k - 1) div k = (if y mod k = 0 then - 1 else 0)"
  proof (cases "y mod k = 0")
    case True
    then show ?thesis using assms by (simp add: div_eq_minus1)
  next
    case False
    with b have "0 \<le> y mod k - 1" "y mod k - 1 < k" by linarith+
    with False show ?thesis by (simp add: div_pos_pos_trivial)
  qed
  with * show ?thesis by simp
qed

lemma days_before_next_year: "days_before_year (y + 1) = days_before_year y + 365 + (if is_leap y then 1 else 0)"
proof -
  have gen: "(b \<longrightarrow> a) \<Longrightarrow> (c \<longrightarrow> b) \<Longrightarrow>
      (if a \<and> (\<not> b \<or> c) then 1 else 0 :: int) = (if a then 1 else 0) - (if b then 1 else 0) + (if c then 1 else 0)"
    for a b c by (cases a; cases b; cases c) simp_all
  have m: "y mod 100 mod 4 = y mod 4" "y mod 400 mod 100 = y mod 100" by (simp_all add: mod_mod_cancel)
  have h: "y mod 100 = 0 \<longrightarrow> y mod 4 = 0"
  proof
    assume "y mod 100 = 0"
    with m(1) show "y mod 4 = 0" unfolding \<open>y mod 100 = 0\<close> by (metis mod_0)
  qed
  have f: "y mod 400 = 0 \<longrightarrow> y mod 100 = 0"
  proof
    assume "y mod 400 = 0"
    with m(2) show "y mod 100 = 0" unfolding \<open>y mod 400 = 0\<close> by (metis mod_0)
  qed
  have leap: "(if is_leap y then 1 else 0 :: int) =
      (if y mod 4 = 0 then 1 else 0) - (if y mod 100 = 0 then 1 else 0) + (if y mod 400 = 0 then 1 else 0)"
    unfolding is_leap_def by (rule gen [OF h f])
  have "days_before_year (y + 1) = y * 365 + y div 4 - y div 100 + y div 400"
    by (simp add: days_before_year_def Let_def)
  also have "\<dots> = days_before_year y + 365 + (if is_leap y then 1 else 0)"
  proof -
    have *: "y * 365 + (A + a) - (B + b) + (C + c) = ((y - 1) * 365 + A - B + C) + 365 + (a - b + c)"
      for A B C a b c :: int by (simp add: left_diff_distrib)
    show ?thesis
      unfolding leap days_before_year_def Let_def div_before [of 4 y, OF zero_less_numeral]
        div_before [of 100 y, OF zero_less_numeral] div_before [of 400 y, OF zero_less_numeral]
      by (rule *)
  qed
  finally show ?thesis .
qed

lemma days_of_months: "days_before_month_aux y 11 + 31 = 365 + (if is_leap y then 1 else 0)"
  by (simp add: eval_nat_numeral days_in_month_def)

text \<open>A day later is one more in the ordinal count.\<close>

lemma toordinal_next:
  assumes "valid_date d" and "next_day d = Some e"
  shows "toordinal e = toordinal d + 1"
proof -
  consider (day) "e = Date (year d) (month d) (day d + 1)"
    | (month) "day d = days_in_month (year d) (month d)" "month d < 12" "e = Date (year d) (month d + 1) 1"
    | (year) "day d = 31" "month d = 12" "e = Date (year d + 1) 1 1"
    using assms by (auto simp: next_day_def valid_date_def days_in_month_def split: if_splits)
  then show ?thesis
  proof cases
    case day
    then show ?thesis by (simp add: toordinal_def)
  next
    case month
    have "nat (month d) = Suc (nat (month d - 1))" "int (nat (month d - 1)) + 1 = month d"
      using assms(1) unfolding valid_date_def by linarith+
    with month show ?thesis by (simp add: toordinal_def)
  next
    case year
    with days_of_months [of "year d"] show ?thesis
      by (simp add: toordinal_def days_before_next_year)
  qed
qed

lemma weekday_next: "valid_date d \<Longrightarrow> next_day d = Some e \<Longrightarrow> weekday e = (weekday d + 1) mod 7"
  unfolding weekday_def by (simp only: toordinal_next) presburger

lemma weekday_known: "weekday (Date 2026 1 1) = 3" "weekday (Date 2024 2 29) = 3"
  by (simp_all add: weekday_def toordinal_def days_before_year_def days_in_month_def is_leap_def eval_nat_numeral)

end
