(* ===== verification/FinanceModel.thy ===== *)
theory FinanceModel
  imports Calendar
begin

text \<open>
  The data of the finance core (\<^verbatim>\<open>src/app/models/finance.py\<close>): general-ledger accounts,
  fiscal years and periods, journal types, journals with their lines, and the state that
  the services of \<^verbatim>\<open>src/app/services/finance_services.py\<close> work on. Each table is a field
  of \<open>fin\<close>; \<open>next_id\<close> draws primary keys; \<open>fin_effects\<close> records audit entries and
  domain events in the order the code emits them. The relationship \<open>Journal.lines\<close> is a
  field of the journal row.
\<close>

section \<open>Rows\<close>

record account =
  account_code :: string
  acc_name :: string
  account_type :: string
  account_group_id :: "uuid option"
  acc_parent_id :: "uuid option"
  acc_currency_code :: string
  is_system :: bool
  is_control :: bool
  acc_is_active :: bool
  opening_balance :: decimal
  current_balance :: decimal
  acc_notes :: "string option"
  acc_is_deleted :: bool

datatype year_status = YDraft | YOpen | YClosed

record fiscal_year =
  fy_code :: string
  fy_name :: string
  fy_start :: date
  fy_end :: date
  fy_status :: year_status

record fiscal_period =
  fp_year_id :: uuid
  fp_number :: int
  fp_name :: string
  fp_start :: date
  fp_end :: date
  is_locked :: bool
  is_closed :: bool

record journal_type =
  jt_code :: string
  jt_name :: string
  jt_prefix :: string
  requires_approval :: bool
  approval_threshold :: decimal

record journal_line =
  line_number :: nat
  jl_account_id :: uuid
  jl_cost_center_id :: "uuid option"
  debit :: decimal
  credit :: decimal
  jl_description :: "string option"
  jl_dimensions :: "string option"

datatype journal_status = JDraft | JPendingApproval | JApproved | JPosted | JCancelled | JReversed

record journal =
  journal_number :: string
  j_type_id :: uuid
  posting_date :: date
  fiscal_period_id :: "uuid option"
  j_currency_code :: string
  exchange_rate :: decimal
  j_description :: string
  reference_module :: "string option"
  reference_id :: "string option"
  j_status :: journal_status
  total_debit :: decimal
  total_credit :: decimal
  posted_at :: "timestamp option"
  posted_by_id :: "uuid option"
  reversed_journal_id :: "uuid option"
  reversal_reason :: "string option"
  j_is_deleted :: bool
  lines :: "journal_line list"

text \<open>\<open>FinancialPostingQueue\<close>: the \<open>reference_id\<close> of its payload and its posting status.\<close>

record queue_row =
  q_reference :: "string option"
  q_status :: string
  q_posted_at :: "timestamp option"

record fin =
  accounts :: "account table"
  fiscal_years :: "fiscal_year table"
  fiscal_periods :: "fiscal_period table"
  journal_types :: "journal_type table"
  journals :: "journal table"
  posting_queue :: "queue_row list"
  fin_effects :: "effect list"
  next_id :: uuid

section \<open>Request bodies\<close>

text \<open>\<open>JournalLineCreate\<close> and \<open>JournalCreate\<close> (\<^verbatim>\<open>src/app/schemas/finance.py\<close>) with the
  checks pydantic runs on them.\<close>

record line_in =
  li_account_id :: uuid
  li_cost_center_id :: "uuid option"
  li_debit :: decimal
  li_credit :: decimal
  li_description :: "string option"
  li_dimensions :: "string option"

definition validate_debit_or_credit :: "line_in \<Rightarrow> unit result" where
  "validate_debit_or_credit l =
     (if \<not> (0 \<le> li_debit l \<and> 0 \<le> li_credit l) then Inl (ValueErr ''Input should be greater than or equal to 0'')
      else if li_debit l = 0 \<and> li_credit l = 0
        then Inl (ValueErr ''Journal line must have either debit or credit greater than 0'')
      else if li_debit l > 0 \<and> li_credit l > 0
        then Inl (ValueErr ''Journal line cannot have both debit and credit greater than 0'')
      else Inr ())"

record journal_create =
  jc_type_id :: uuid
  jc_posting_date :: date
  jc_currency_code :: string
  jc_exchange_rate :: decimal
  jc_description :: string
  jc_reference_module :: "string option"
  jc_reference_id :: "string option"
  jc_lines :: "line_in list"

definition validate_double_entry_balance :: "journal_create \<Rightarrow> unit result" where
  "validate_double_entry_balance jc =
     (if length (jc_lines jc) < 2
        then Inl (ValueErr ''Journal entry must contain at least 2 line items for double-entry accounting'')
      else let td = sum_list (map li_debit (jc_lines jc)); tc = sum_list (map li_credit (jc_lines jc))
        in if td \<noteq> tc then Inl (ValueErr ''Unbalanced Journal'')
           else if td \<le> 0 then Inl (ValueErr ''Total Journal Debit/Credit must be greater than 0'')
           else Inr ())"

text \<open>What FastAPI does with the body before the service sees it: every line, then the journal.\<close>

definition parse_journal_create :: "journal_create \<Rightarrow> journal_create result" where
  "parse_journal_create jc =
     (if \<not> list_all (\<lambda>l. is_ok (validate_debit_or_credit l)) (jc_lines jc)
        then Inl (ValueErr ''invalid journal line'')
      else case validate_double_entry_balance jc of Inl e \<Rightarrow> Inl e | Inr _ \<Rightarrow> Inr jc)"

record journal_update =
  ju_type_id :: "uuid option"
  ju_posting_date :: "date option"
  ju_currency_code :: "string option"
  ju_exchange_rate :: "decimal option"
  ju_description :: "string option"
  ju_reference_module :: "string option"
  ju_reference_id :: "string option"
  ju_lines :: "line_in list option"

section \<open>Repositories\<close>

text \<open>\<open>get_by_id\<close> on a model with \<open>SoftDeleteMixin\<close> does not see soft-deleted rows.\<close>

definition get_account :: "fin \<Rightarrow> uuid \<Rightarrow> account option" where
  "get_account s i =
     (case get (accounts s) i of None \<Rightarrow> None
      | Some a \<Rightarrow> if acc_is_deleted a then None else Some a)"

definition get_journal :: "fin \<Rightarrow> uuid \<Rightarrow> journal option" where
  "get_journal s i =
     (case get (journals s) i of None \<Rightarrow> None
      | Some j \<Rightarrow> if j_is_deleted j then None else Some j)"

text \<open>\<open>get_period_for_date\<close> takes, of the periods of existing years that hold the date,
  the one created last.\<close>

definition get_period_for_date :: "fin \<Rightarrow> date \<Rightarrow> (uuid \<times> fiscal_period) option" where
  "get_period_for_date s d =
     first_where (\<lambda>p. get (fiscal_years s) (fp_year_id p) \<noteq> None \<and> fp_start p \<le> d \<and> d \<le> fp_end p)
       (rev (fiscal_periods s))"

definition period_blocked :: "fiscal_period \<Rightarrow> bool" where
  "period_blocked p = (is_locked p \<or> is_closed p)"

text \<open>The period a posting or reversal of a journal is checked against.\<close>

definition journal_period :: "fin \<Rightarrow> journal \<Rightarrow> (uuid \<times> fiscal_period) option" where
  "journal_period s j =
     (case fiscal_period_id j of
        Some pid \<Rightarrow> map_option (\<lambda>p. (pid, p)) (get (fiscal_periods s) pid)
      | None \<Rightarrow> get_period_for_date s (posting_date j))"

text \<open>\<open>journal_number\<close> is unique: an insertion that repeats one fails.\<close>

definition insert_journal :: "journal \<Rightarrow> fin \<Rightarrow> fin result" where
  "insert_journal j s =
     (if exists_where (\<lambda>k. journal_number k = journal_number j) (journals s)
        then Inl (IntegrityErr ''journals.journal_number'')
      else Inr (s\<lparr>journals := add_row (next_id s) j (journals s), next_id := next_id s + 1\<rparr>))"

definition emit :: "effect list \<Rightarrow> fin \<Rightarrow> fin" where
  "emit es s = s\<lparr>fin_effects := fin_effects s @ es\<rparr>"

lemma emit_fields [simp]:
  "accounts (emit es s) = accounts s" "fiscal_years (emit es s) = fiscal_years s"
  "fiscal_periods (emit es s) = fiscal_periods s" "journal_types (emit es s) = journal_types s"
  "journals (emit es s) = journals s" "posting_queue (emit es s) = posting_queue s"
  "next_id (emit es s) = next_id s" "fin_effects (emit es s) = fin_effects s @ es"
  by (simp_all add: emit_def)

section \<open>Well-formed states\<close>

text \<open>Keys are distinct and come from the counter.\<close>

definition wf_fin :: "fin \<Rightarrow> bool" where
  "wf_fin s =
     (wf_table (next_id s) (accounts s) \<and> wf_table (next_id s) (fiscal_years s) \<and>
      wf_table (next_id s) (fiscal_periods s) \<and> wf_table (next_id s) (journal_types s) \<and>
      wf_table (next_id s) (journals s))"

lemma wf_fin_emit [simp]: "wf_fin (emit es s) = wf_fin s"
  by (simp add: wf_fin_def)

lemma wf_fin_distinct:
  assumes "wf_fin s"
  shows "distinct (keys (accounts s))" "distinct (keys (journals s))"
    "distinct (keys (fiscal_periods s))" "distinct (keys (fiscal_years s))"
  using assms by (auto simp: wf_fin_def wf_table_def)

lemma get_accountD: "get_account s i = Some a \<Longrightarrow> get (accounts s) i = Some a \<and> \<not> acc_is_deleted a"
  by (auto simp: get_account_def split: option.splits if_splits)

lemma get_journalD: "get_journal s i = Some j \<Longrightarrow> get (journals s) i = Some j \<and> \<not> j_is_deleted j"
  by (auto simp: get_journal_def split: option.splits if_splits)

lemma insert_journalD:
  assumes "insert_journal j s = Inr s'"
  shows "s' = s\<lparr>journals := add_row (next_id s) j (journals s), next_id := next_id s + 1\<rparr>"
  using assms by (auto simp: insert_journal_def split: if_splits)

text \<open>The balance of a list of lines: what a journal adds to the debit side minus the credit side.\<close>

definition sum_debit :: "journal_line list \<Rightarrow> decimal" where
  "sum_debit ls = sum_list (map debit ls)"

definition sum_credit :: "journal_line list \<Rightarrow> decimal" where
  "sum_credit ls = sum_list (map credit ls)"

end
