(* ===== verification/ChartOfAccounts.thy ===== *)
theory ChartOfAccounts
  imports FinanceModel
begin

text \<open>
  \<open>ChartOfAccountsService\<close> (\<^verbatim>\<open>src/app/services/finance_services.py\<close>): creating, updating
  and deleting general-ledger accounts, with the breadth-first search over the account
  hierarchy that refuses circular parents (\<open>get_descendant_ids\<close>,
  \<^verbatim>\<open>src/app/repositories/finance_repos.py\<close>).

  The lemmas show that the search terminates, returns exactly the descendants, and that
  every operation keeps the hierarchy of live accounts acyclic.
\<close>

section \<open>Descendants\<close>

definition children :: "account table \<Rightarrow> uuid \<Rightarrow> uuid list" where
  "children t p = map fst (filter (\<lambda>(c, a). acc_parent_id a = Some p \<and> \<not> acc_is_deleted a) t)"

fun visit_children :: "uuid list \<Rightarrow> uuid list \<times> uuid list \<times> uuid list \<Rightarrow> uuid list \<times> uuid list \<times> uuid list" where
  "visit_children [] (queue, visited, desc) = (queue, visited, desc)"
| "visit_children (ch # chs) (queue, visited, desc) =
     (if ch \<in> set visited then visit_children chs (queue, visited, desc)
      else visit_children chs (queue @ [ch], ch # visited, desc @ [ch]))"

fun unvisited :: "uuid list \<Rightarrow> uuid list \<Rightarrow> uuid list" where
  "unvisited [] v = []"
| "unvisited (c # cs) v = (if c \<in> set v then unvisited cs v else c # unvisited cs (c # v))"

lemma visit_children_eq:
  "visit_children cs (q, v, d) = (q @ unvisited cs v, rev (unvisited cs v) @ v, d @ unvisited cs v)"
  by (induction cs arbitrary: q v d) auto

lemma set_unvisited: "set (unvisited cs v) = set cs - set v"
  by (induction cs v rule: unvisited.induct) auto

lemma children_iff:
  "c \<in> set (children t p) \<longleftrightarrow> (\<exists>a. (c, a) \<in> set t \<and> acc_parent_id a = Some p \<and> \<not> acc_is_deleted a)"
  unfolding children_def by force

lemma children_keys: "set (children t p) \<subseteq> set (keys t)"
  unfolding children_def keys_def by auto

text \<open>A round that finds an unvisited child leaves fewer unvisited rows.\<close>

lemma unvisited_card:
  assumes "unvisited (children t cur) visited \<noteq> []"
  shows "card (set (keys t) - (set visited \<union> set (unvisited (children t cur) visited)))
    < card (set (keys t) - set visited)"
proof -
  obtain c where c: "c \<in> set (unvisited (children t cur) visited)"
    using assms by (cases "unvisited (children t cur) visited") auto
  then have "c \<in> set (keys t) - set visited" using children_keys by (auto simp: set_unvisited)
  with c have "set (keys t) - (set visited \<union> set (unvisited (children t cur) visited)) \<subset> set (keys t) - set visited"
    by auto
  then show ?thesis by (intro psubset_card_mono) auto
qed

function descend :: "account table \<Rightarrow> uuid list \<Rightarrow> uuid list \<Rightarrow> uuid list \<Rightarrow> uuid list" where
  "descend t [] visited desc = desc"
| "descend t (cur # queue) visited desc =
     (case visit_children (children t cur) (queue, visited, desc) of
        (queue', visited', desc') \<Rightarrow> descend t queue' visited' desc')"
  by pat_completeness auto

termination
proof (relation "measures [\<lambda>(t, q, v, d). card (set (keys t) - set v), \<lambda>(t, q, v, d). length q]", goal_cases)
  case 1
  then show ?case by simp
next
  case (2 t cur queue visited desc queue' y visited' desc')
  then have "queue' = queue @ unvisited (children t cur) visited"
    "set visited' = set visited \<union> set (unvisited (children t cur) visited)"
    by (auto simp: visit_children_eq)
  then show ?case
    using unvisited_card [of t cur visited]
    by (cases "unvisited (children t cur) visited = []") auto
qed

declare descend.simps [simp del]

definition get_descendant_ids :: "account table \<Rightarrow> uuid \<Rightarrow> uuid list" where
  "get_descendant_ids t i = descend t [i] [i] []"

text \<open>The edges from parent to live child, and what the search returns along them.\<close>

definition child_rel :: "account table \<Rightarrow> (uuid \<times> uuid) set" where
  "child_rel t = {(p, c). c \<in> set (children t p)}"

lemma descend_closed:
  assumes "set visited = insert r (set desc)"
    and "\<And>x c. x \<in> set visited \<Longrightarrow> x \<notin> set queue \<Longrightarrow> (x, c) \<in> child_rel t \<Longrightarrow> c \<in> set visited"
    and "set queue \<subseteq> set visited"
  shows "child_rel t `` insert r (set (descend t queue visited desc)) \<subseteq> insert r (set (descend t queue visited desc))
    \<and> set desc \<subseteq> set (descend t queue visited desc)"
  using assms
proof (induction t queue visited desc rule: descend.induct)
  case (1 t visited desc)
  then show ?case by (auto simp: descend.simps)
next
  case (2 t cur queue visited desc)
  let ?new = "unvisited (children t cur) visited"
  have eq: "visit_children (children t cur) (queue, visited, desc) =
      (queue @ ?new, rev ?new @ visited, desc @ ?new)"
    by (rule visit_children_eq)
  have "child_rel t `` insert r (set (descend t (queue @ ?new) (rev ?new @ visited) (desc @ ?new)))
      \<subseteq> insert r (set (descend t (queue @ ?new) (rev ?new @ visited) (desc @ ?new)))
    \<and> set (desc @ ?new) \<subseteq> set (descend t (queue @ ?new) (rev ?new @ visited) (desc @ ?new))"
  proof (rule "2.IH")
    fix x c
    assume x: "x \<in> set (rev ?new @ visited)" "x \<notin> set (queue @ ?new)" and c: "(x, c) \<in> child_rel t"
    show "c \<in> set (rev ?new @ visited)"
    proof (cases "x = cur")
      case True
      with c have "c \<in> set (children t cur)" by (simp add: child_rel_def)
      then show ?thesis by (auto simp: set_unvisited)
    next
      case False
      with x c "2.prems"(2) [of x c] show ?thesis by auto
    qed
  qed (use eq "2.prems" in auto)
  then show ?case by (simp add: eq descend.simps)
qed

lemma descend_sound:
  assumes "set queue \<subseteq> (child_rel t)\<^sup>* `` {r}" and "set desc \<subseteq> (child_rel t)\<^sup>+ `` {r}"
  shows "set (descend t queue visited desc) \<subseteq> (child_rel t)\<^sup>+ `` {r}"
  using assms
proof (induction t queue visited desc rule: descend.induct)
  case (1 t visited desc)
  then show ?case by (simp add: descend.simps)
next
  case (2 t cur queue visited desc)
  let ?new = "unvisited (children t cur) visited"
  have eq: "visit_children (children t cur) (queue, visited, desc) =
      (queue @ ?new, rev ?new @ visited, desc @ ?new)"
    by (rule visit_children_eq)
  have "(r, cur) \<in> (child_rel t)\<^sup>*" using "2.prems"(1) by auto
  then have new: "set ?new \<subseteq> (child_rel t)\<^sup>+ `` {r}"
    by (auto simp: set_unvisited child_rel_def intro: rtrancl_into_trancl1)
  then have "set (queue @ ?new) \<subseteq> (child_rel t)\<^sup>* `` {r}"
    using "2.prems"(1) by (auto dest: trancl_into_rtrancl)
  moreover have "set (desc @ ?new) \<subseteq> (child_rel t)\<^sup>+ `` {r}" using new "2.prems"(2) by auto
  ultimately have "set (descend t (queue @ ?new) (rev ?new @ visited) (desc @ ?new)) \<subseteq> (child_rel t)\<^sup>+ `` {r}"
    using "2.IH" [OF eq [symmetric] refl] by blast
  then show ?case by (simp add: eq descend.simps)
qed

lemma get_descendant_ids_complete:
  "(i, j) \<in> (child_rel t)\<^sup>* \<Longrightarrow> j = i \<or> j \<in> set (get_descendant_ids t i)"
proof (induction rule: rtrancl_induct)
  case base
  then show ?case by simp
next
  case (step y z)
  have "child_rel t `` insert i (set (get_descendant_ids t i)) \<subseteq> insert i (set (get_descendant_ids t i))"
    unfolding get_descendant_ids_def using descend_closed [of "[i]" i "[]" "[i]" t] by auto
  with step show ?case by blast
qed

lemma get_descendant_ids_sound:
  "j \<in> set (get_descendant_ids t i) \<Longrightarrow> (i, j) \<in> (child_rel t)\<^sup>+"
  unfolding get_descendant_ids_def using descend_sound [of "[i]" t i "[]" "[i]"] by auto

section \<open>The operations\<close>

record account_create =
  ac_code :: string
  ac_name :: string
  ac_type :: string
  ac_group_id :: "uuid option"
  ac_parent_id :: "uuid option"
  ac_currency_code :: string
  ac_is_system :: bool
  ac_is_control :: bool
  ac_is_active :: bool
  ac_opening_balance :: decimal
  ac_notes :: "string option"

definition account_by_code :: "fin \<Rightarrow> string \<Rightarrow> (uuid \<times> account) option" where
  "account_by_code s code = first_where (\<lambda>a. account_code a = code \<and> \<not> acc_is_deleted a) (accounts s)"

definition account_row :: "account_create \<Rightarrow> account" where
  "account_row ac =
     \<lparr>account_code = ac_code ac, acc_name = ac_name ac, account_type = ac_type ac,
      account_group_id = ac_group_id ac, acc_parent_id = ac_parent_id ac,
      acc_currency_code = ac_currency_code ac, is_system = ac_is_system ac,
      is_control = ac_is_control ac, acc_is_active = ac_is_active ac,
      opening_balance = ac_opening_balance ac, current_balance = ac_opening_balance ac,
      acc_notes = ac_notes ac, acc_is_deleted = False\<rparr>"

text \<open>The unique constraint on \<open>account_code\<close> counts soft-deleted rows too.\<close>

definition create_account :: "fin \<Rightarrow> account_create \<Rightarrow> (uuid \<times> fin) result" where
  "create_account s ac =
     (if account_by_code s (ac_code ac) \<noteq> None then Inl (ValueErr ''Chart of Account already exists'')
      else if ac_parent_id ac \<noteq> None \<and> get_account s (the (ac_parent_id ac)) = None
        then Inl (ValueErr ''Parent account not found'')
      else if exists_where (\<lambda>a. account_code a = ac_code ac) (accounts s)
        then Inl (IntegrityErr ''chart_of_accounts.account_code'')
      else let i = next_id s
           in Inr (i, emit [Publish ''AccountCreated'' i, Audit ''CREATE'' ''ChartOfAccount'' i]
                (s\<lparr>accounts := add_row i (account_row ac) (accounts s), next_id := i + 1\<rparr>)))"

text \<open>\<open>model_dump(exclude_unset=True)\<close>: \<open>None\<close> is a field the client left out,
  \<open>Some None\<close> an explicit null.\<close>

record account_update =
  au_name :: "string option option"
  au_type :: "string option option"
  au_group_id :: "uuid option option"
  au_parent_id :: "uuid option option"
  au_currency_code :: "string option option"
  au_is_active :: "bool option option"
  au_opening_balance :: "decimal option option"
  au_notes :: "string option option"

definition set_field :: "'a option option \<Rightarrow> 'a \<Rightarrow> 'a" where
  "set_field u old = (case u of Some (Some v) \<Rightarrow> v | _ \<Rightarrow> old)"

definition set_nullable :: "'a option option \<Rightarrow> 'a option \<Rightarrow> 'a option" where
  "set_nullable u old = (case u of Some v \<Rightarrow> v | None \<Rightarrow> old)"

definition null_in_not_null :: "account_update \<Rightarrow> bool" where
  "null_in_not_null u =
     (au_name u = Some None \<or> au_type u = Some None \<or> au_currency_code u = Some None \<or>
      au_is_active u = Some None \<or> au_opening_balance u = Some None)"

definition apply_account_update :: "account_update \<Rightarrow> account \<Rightarrow> account" where
  "apply_account_update u a =
     a\<lparr>acc_name := set_field (au_name u) (acc_name a),
       account_type := set_field (au_type u) (account_type a),
       account_group_id := set_nullable (au_group_id u) (account_group_id a),
       acc_parent_id := set_nullable (au_parent_id u) (acc_parent_id a),
       acc_currency_code := set_field (au_currency_code u) (acc_currency_code a),
       acc_is_active := set_field (au_is_active u) (acc_is_active a),
       opening_balance := set_field (au_opening_balance u) (opening_balance a),
       acc_notes := set_nullable (au_notes u) (acc_notes a)\<rparr>"

definition new_parent :: "account_update \<Rightarrow> uuid option" where
  "new_parent u = (case au_parent_id u of Some (Some p) \<Rightarrow> Some p | _ \<Rightarrow> None)"

definition update_account :: "fin \<Rightarrow> uuid \<Rightarrow> account_update \<Rightarrow> fin result" where
  "update_account s i u =
     (case get_account s i of
        None \<Rightarrow> Inl (ValueErr ''Account not found'')
      | Some a \<Rightarrow>
        if is_system a \<and> ((\<exists>g. au_group_id u = Some (Some g)) \<or> au_is_active u = Some (Some False))
          then Inl (ValueErr ''System reserved accounts cannot be disabled or moved'')
        else if new_parent u = Some i
          then Inl (ValueErr ''Circular reference detected in account hierarchy: account cannot be its own parent'')
        else if new_parent u \<noteq> None \<and> the (new_parent u) \<in> set (get_descendant_ids (accounts s) i)
          then Inl (ValueErr ''Circular reference detected in account hierarchy: cannot set a descendant as parent'')
        else if null_in_not_null u then Inl (IntegrityErr ''NOT NULL'')
        else if new_parent u \<noteq> None \<and> get (accounts s) (the (new_parent u)) = None
          then Inl (IntegrityErr ''chart_of_accounts.parent_id'')
        else Inr (emit [Audit ''UPDATE'' ''ChartOfAccount'' i]
               (s\<lparr>accounts := modify i (apply_account_update u) (accounts s)\<rparr>)))"

definition has_posted_transactions :: "fin \<Rightarrow> uuid \<Rightarrow> bool" where
  "has_posted_transactions s i =
     exists_where (\<lambda>j. j_status j = JPosted \<and> \<not> j_is_deleted j \<and>
       list_ex (\<lambda>l. jl_account_id l = i) (lines j)) (journals s)"

definition delete_account :: "fin \<Rightarrow> uuid \<Rightarrow> fin result" where
  "delete_account s i =
     (case get_account s i of
        None \<Rightarrow> Inl (ValueErr ''Account not found'')
      | Some a \<Rightarrow>
        if is_system a then Inl (ValueErr ''System reserved accounts cannot be deleted'')
        else if has_posted_transactions s i then Inl (ValueErr ''Cannot delete account with posted transactions'')
        else Inr (emit [Audit ''DELETE'' ''ChartOfAccount'' i]
               (s\<lparr>accounts := modify i (\<lambda>a. a\<lparr>acc_is_deleted := True\<rparr>) (accounts s)\<rparr>)))"

section \<open>The hierarchy stays acyclic\<close>

text \<open>Live accounts point to their parent without a cycle, and every parent key exists.\<close>

definition hierarchy_ok :: "fin \<Rightarrow> bool" where
  "hierarchy_ok s =
     (acyclic (child_rel (accounts s)) \<and>
      all_rows (\<lambda>a. \<forall>p. acc_parent_id a = Some p \<longrightarrow> p \<in> set (keys (accounts s))) (accounts s))"

lemma child_relI:
  "(c, a) \<in> set t \<Longrightarrow> acc_parent_id a = Some p \<Longrightarrow> \<not> acc_is_deleted a \<Longrightarrow> (p, c) \<in> child_rel t"
  by (auto simp: child_rel_def children_iff)

lemma child_relE:
  assumes "(p, c) \<in> child_rel t"
  obtains a where "(c, a) \<in> set t" "acc_parent_id a = Some p" "\<not> acc_is_deleted a"
  using assms by (auto simp: child_rel_def children_iff)

lemma child_rel_modify_subset:
  assumes "\<And>a. acc_is_deleted a \<Longrightarrow> acc_is_deleted (f a)"
    and "\<And>a p. acc_parent_id (f a) = Some p \<Longrightarrow> \<not> acc_is_deleted (f a) \<Longrightarrow> acc_parent_id a = Some p \<or> q = Some p"
  shows "child_rel (modify i f t) \<subseteq> child_rel t \<union> {(p, i) |p. q = Some p}"
proof
  fix e assume "e \<in> child_rel (modify i f t)"
  moreover obtain p c where e: "e = (p, c)" by force
  ultimately obtain a where a: "(c, a) \<in> set (modify i f t)" "acc_parent_id a = Some p" "\<not> acc_is_deleted a"
    by (auto elim: child_relE)
  then obtain b where b: "(c, b) \<in> set t" "a = (if c = i then f b else b)"
    by (auto simp: modify_def split: if_splits)
  show "e \<in> child_rel t \<union> {(p, i) |p. q = Some p}"
  proof (cases "c = i")
    case True
    with a b have "acc_parent_id b = Some p \<or> q = Some p" "\<not> acc_is_deleted b"
      using assms(1) [of b] assms(2) [of b p] by auto
    with b True e show ?thesis by (auto intro: child_relI)
  next
    case False
    with a b e show ?thesis by (auto intro: child_relI)
  qed
qed

lemma parents_known_modify:
  assumes "all_rows (\<lambda>a. \<forall>p. acc_parent_id a = Some p \<longrightarrow> p \<in> K) t"
    and "\<And>a p. acc_parent_id (f a) = Some p \<Longrightarrow> acc_parent_id a = Some p \<or> p \<in> K"
  shows "all_rows (\<lambda>a. \<forall>p. acc_parent_id a = Some p \<longrightarrow> p \<in> K) (modify i f t)"
  using assms unfolding all_rows_iff modify_def by (auto split: if_splits) fastforce+

lemma acyclic_add_parent:
  assumes "acyclic (child_rel t)" and "(i, p) \<notin> (child_rel t)\<^sup>*"
  shows "acyclic (insert (p, i) (child_rel t))"
  using assms by (simp add: acyclic_insert)

lemma update_account_hierarchy:
  assumes ok: "hierarchy_ok s" and upd: "update_account s i u = Inr s'"
  shows "hierarchy_ok s'"
proof -
  let ?t = "accounts s"
  let ?f = "apply_account_update u"
  from upd have s': "accounts s' = modify i ?f ?t"
    and fresh: "\<And>p. new_parent u = Some p \<Longrightarrow> p \<noteq> i \<and> p \<notin> set (get_descendant_ids ?t i) \<and> get ?t p \<noteq> None"
    by (auto simp: update_account_def split: option.splits if_splits)
  have parent: "acc_parent_id a = Some p \<or> new_parent u = Some p"
    if "acc_parent_id (?f a) = Some p" for a p
    using that by (auto simp: apply_account_update_def set_nullable_def new_parent_def split: option.splits)
  have sub: "child_rel (accounts s') \<subseteq> child_rel ?t \<union> {(p, i) |p. new_parent u = Some p}"
    unfolding s'
  proof (rule child_rel_modify_subset)
    show "acc_is_deleted a \<Longrightarrow> acc_is_deleted (?f a)" for a
      by (simp add: apply_account_update_def)
  qed (rule parent)
  have "acyclic (child_rel ?t \<union> {(p, i) |p. new_parent u = Some p})"
  proof (cases "new_parent u")
    case None
    with ok show ?thesis by (simp add: hierarchy_ok_def)
  next
    case (Some p)
    with fresh have "(i, p) \<notin> (child_rel ?t)\<^sup>*" using get_descendant_ids_complete by blast
    with ok have "acyclic (insert (p, i) (child_rel ?t))"
      by (simp add: hierarchy_ok_def acyclic_add_parent)
    moreover have "child_rel ?t \<union> {(q, i) |q. new_parent u = Some q} = insert (p, i) (child_rel ?t)"
      using Some by auto
    ultimately show ?thesis by simp
  qed
  with sub have "acyclic (child_rel (accounts s'))" by (rule acyclic_subset [rotated])
  moreover have "all_rows (\<lambda>a. \<forall>p. acc_parent_id a = Some p \<longrightarrow> p \<in> set (keys (accounts s'))) (accounts s')"
    unfolding s' tbl.dom_upd
  proof (rule parents_known_modify)
    show "all_rows (\<lambda>a. \<forall>p. acc_parent_id a = Some p \<longrightarrow> p \<in> set (keys ?t)) ?t"
      using ok by (simp add: hierarchy_ok_def)
    show "acc_parent_id a = Some p \<or> p \<in> set (keys ?t)" if "acc_parent_id (?f a) = Some p" for a p
      using parent [OF that] fresh [of p] by (auto dest: get_Some_key)
  qed
  ultimately show ?thesis by (simp add: hierarchy_ok_def)
qed

lemma delete_account_hierarchy:
  assumes ok: "hierarchy_ok s" and del: "delete_account s i = Inr s'"
  shows "hierarchy_ok s'"
proof -
  let ?f = "\<lambda>a::account. a\<lparr>acc_is_deleted := True\<rparr>"
  from del have s': "accounts s' = modify i ?f (accounts s)"
    by (auto simp: delete_account_def split: option.splits if_splits)
  have "child_rel (accounts s') \<subseteq> child_rel (accounts s) \<union> {(p, i) |p. (None :: uuid option) = Some p}"
    unfolding s' by (rule child_rel_modify_subset) auto
  then have "acyclic (child_rel (accounts s'))"
    using ok by (auto simp: hierarchy_ok_def intro: acyclic_subset)
  moreover have "all_rows (\<lambda>a. \<forall>p. acc_parent_id a = Some p \<longrightarrow> p \<in> set (keys (accounts s'))) (accounts s')"
    unfolding s' tbl.dom_upd using ok
    by (intro parents_known_modify) (auto simp: hierarchy_ok_def)
  ultimately show ?thesis by (simp add: hierarchy_ok_def)
qed

lemma child_rel_add_row:
  "child_rel (add_row i a t) = child_rel t \<union> {(p, i) |p. acc_parent_id a = Some p \<and> \<not> acc_is_deleted a}"
  unfolding child_rel_def children_iff add_row_def by auto

lemma create_account_hierarchy:
  assumes ok: "hierarchy_ok s" and wf: "wf_fin s" and cr: "create_account s ac = Inr (i, s')"
  shows "hierarchy_ok s'"
proof -
  let ?t = "accounts s"
  let ?a = "account_row ac"
  from cr have s': "accounts s' = add_row i ?a ?t" and i: "i = next_id s"
    and ex: "ac_parent_id ac \<noteq> None \<longrightarrow> get_account s (the (ac_parent_id ac)) \<noteq> None"
    by (auto simp: create_account_def Let_def split: if_splits)
  have par: "acc_parent_id ?a = ac_parent_id ac" by (simp add: account_row_def)
  from wf i have fresh: "i \<notin> set (keys ?t)" by (auto simp: wf_fin_def dest: wf_table_fresh)
  have known: "p \<in> set (keys ?t)" if "acc_parent_id ?a = Some p" for p
    using that par ex by (auto dest!: get_accountD get_Some_key)
  have no_child: "(i, c) \<notin> child_rel ?t" for c
    using ok fresh by (auto simp: hierarchy_ok_def all_rows_iff elim!: child_relE)
  have nr: "(i, p) \<notin> (child_rel ?t)\<^sup>*" if "acc_parent_id ?a = Some p" for p
  proof
    assume "(i, p) \<in> (child_rel ?t)\<^sup>*"
    then show False using known [OF that] fresh no_child by (auto elim: converse_rtranclE)
  qed
  have "acyclic (child_rel (accounts s'))"
  proof (cases "acc_parent_id ?a")
    case None
    with ok show ?thesis by (simp add: s' child_rel_add_row hierarchy_ok_def)
  next
    case (Some p)
    with ok nr have "acyclic (insert (p, i) (child_rel ?t))"
      by (simp add: hierarchy_ok_def acyclic_add_parent)
    then show ?thesis by (rule acyclic_subset) (auto simp: s' child_rel_add_row Some)
  qed
  moreover have "all_rows (\<lambda>a. \<forall>p. acc_parent_id a = Some p \<longrightarrow> p \<in> set (keys (accounts s'))) (accounts s')"
    using ok known by (auto simp: s' hierarchy_ok_def all_rows_iff add_row_def keys_def)
  ultimately show ?thesis by (simp add: hierarchy_ok_def)
qed

end
