(* ===== verification/FiscalCalendar.thy ===== *)
theory FiscalCalendar
  imports FinanceModel
begin

text \<open>
  \<open>FiscalService\<close> (\<^verbatim>\<open>src/app/services/finance_services.py\<close>): fiscal years with their twelve
  generated periods, further periods, locking and closing.

  The lemmas show which dates the generated periods cover, that periods added to one year
  never overlap, and that no operation of the service reopens a closed period.
\<close>

section \<open>The operations\<close>

record year_create =
  yc_code :: string
  yc_name :: string
  yc_start :: date
  yc_end :: date
  yc_status :: year_status

text \<open>The two digits of \<open>{month:02d}\<close>.\<close>

definition two_digits :: "nat \<Rightarrow> string" where
  "two_digits n = [digit_char (n div 10), digit_char n]"

definition monthly_period :: "uuid \<Rightarrow> int \<Rightarrow> nat \<Rightarrow> fiscal_period" where
  "monthly_period fy_id y m =
     \<lparr>fp_year_id = fy_id, fp_number = int m, fp_name = ''P'' @ two_digits m @ ''-'' @ str_nat (nat y),
      fp_start = Date y (int m) 1, fp_end = Date y (int m) (days_in_month y (int m)),
      is_locked = False, is_closed = False\<rparr>"

fun add_monthly_periods :: "uuid \<Rightarrow> int \<Rightarrow> nat list \<Rightarrow> fin \<Rightarrow> fin" where
  "add_monthly_periods fy_id y [] s = s"
| "add_monthly_periods fy_id y (m # ms) s =
     add_monthly_periods fy_id y ms
       (s\<lparr>fiscal_periods := add_row (next_id s) (monthly_period fy_id y m) (fiscal_periods s),
         next_id := next_id s + 1\<rparr>)"

definition create_fiscal_year :: "fin \<Rightarrow> year_create \<Rightarrow> (uuid \<times> fin) result" where
  "create_fiscal_year s yc =
     (if yc_start yc > yc_end yc then Inl (ValueErr ''Fiscal Year start_date cannot be after end_date'')
      else if exists_where (\<lambda>y. fy_code y = yc_code yc) (fiscal_years s)
        then Inl (ValueErr ''Fiscal Year already exists'')
      else let i = next_id s;
               fy = \<lparr>fy_code = yc_code yc, fy_name = yc_name yc, fy_start = yc_start yc,
                     fy_end = yc_end yc, fy_status = yc_status yc\<rparr>;
               s1 = s\<lparr>fiscal_years := add_row i fy (fiscal_years s), next_id := i + 1\<rparr>
           in Inr (i, emit [Audit ''CREATE'' ''FiscalYear'' i]
                (add_monthly_periods i (year (yc_start yc)) [1..<13] s1)))"

definition check_overlap :: "fin \<Rightarrow> uuid \<Rightarrow> date \<Rightarrow> date \<Rightarrow> bool" where
  "check_overlap s fy_id a b =
     exists_where (\<lambda>p. fp_year_id p = fy_id \<and> fp_start p \<le> b \<and> fp_end p \<ge> a) (fiscal_periods s)"

text \<open>\<open>uq_fiscal_year_period\<close>: a period number occurs once in its year.\<close>

definition create_fiscal_period :: "fin \<Rightarrow> fiscal_period \<Rightarrow> (uuid \<times> fin) result" where
  "create_fiscal_period s p =
     (if fp_start p > fp_end p then Inl (ValueErr ''Fiscal Period start_date cannot be after end_date'')
      else if get (fiscal_years s) (fp_year_id p) = None then Inl (ValueErr ''Fiscal Year not found'')
      else if check_overlap s (fp_year_id p) (fp_start p) (fp_end p)
        then Inl (ValueErr ''Fiscal Period dates overlap with an existing period in the same fiscal year'')
      else if exists_where (\<lambda>q. fp_year_id q = fp_year_id p \<and> fp_number q = fp_number p) (fiscal_periods s)
        then Inl (IntegrityErr ''uq_fiscal_year_period'')
      else let i = next_id s
           in Inr (i, emit [Audit ''CREATE'' ''FiscalPeriod'' i]
                (s\<lparr>fiscal_periods := add_row i p (fiscal_periods s), next_id := i + 1\<rparr>)))"

definition lock_period :: "fin \<Rightarrow> uuid \<Rightarrow> bool \<Rightarrow> fin result" where
  "lock_period s i locked =
     (case get (fiscal_periods s) i of
        None \<Rightarrow> Inl (ValueErr ''Fiscal period not found'')
      | Some p \<Rightarrow>
        if is_closed p \<and> \<not> locked then Inl (ValueErr ''Closed fiscal periods cannot be unlocked directly'')
        else Inr (emit ((if locked then [Publish ''FiscalPeriodClosed'' i] else []) @
                 [Audit (if locked then ''LOCK'' else ''UNLOCK'') ''FiscalPeriod'' i])
               (s\<lparr>fiscal_periods := modify i (\<lambda>p. p\<lparr>is_locked := locked\<rparr>) (fiscal_periods s)\<rparr>)))"

definition close_period :: "fin \<Rightarrow> uuid \<Rightarrow> fin result" where
  "close_period s i =
     (case get (fiscal_periods s) i of
        None \<Rightarrow> Inl (ValueErr ''Fiscal period not found'')
      | Some p \<Rightarrow>
        Inr (emit [Publish ''FiscalPeriodClosed'' i, Audit ''CLOSE'' ''FiscalPeriod'' i]
          (s\<lparr>fiscal_periods := modify i (\<lambda>p. p\<lparr>is_closed := True, is_locked := True\<rparr>) (fiscal_periods s)\<rparr>)))"

definition close_periods_of_year :: "uuid \<Rightarrow> fiscal_period table \<Rightarrow> fiscal_period table" where
  "close_periods_of_year y t =
     map (\<lambda>(k, p). (k, if fp_year_id p = y then p\<lparr>is_closed := True, is_locked := True\<rparr> else p)) t"

definition close_fiscal_year :: "fin \<Rightarrow> uuid \<Rightarrow> fin result" where
  "close_fiscal_year s i =
     (case get (fiscal_years s) i of
        None \<Rightarrow> Inl (ValueErr ''Fiscal Year not found'')
      | Some fy \<Rightarrow>
        Inr (emit [Audit ''CLOSE'' ''FiscalYear'' i]
          (s\<lparr>fiscal_periods := close_periods_of_year i (fiscal_periods s),
             fiscal_years := modify i (\<lambda>y. y\<lparr>fy_status := YClosed\<rparr>) (fiscal_years s)\<rparr>)))"

section \<open>Periods of a year\<close>

lemma get_close_periods:
  "get (close_periods_of_year y t) i =
     map_option (\<lambda>p. if fp_year_id p = y then p\<lparr>is_closed := True, is_locked := True\<rparr> else p) (get t i)"
  by (simp add: get_def close_periods_of_year_def map_of_map)

lemma keys_close_periods [table_simps]: "keys (close_periods_of_year y t) = keys t"
  by (simp add: keys_def close_periods_of_year_def case_prod_unfold)

lemma add_monthly_periods_frame [simp]:
  "accounts (add_monthly_periods f y ms s) = accounts s"
  "fiscal_years (add_monthly_periods f y ms s) = fiscal_years s"
  "journals (add_monthly_periods f y ms s) = journals s"
  "journal_types (add_monthly_periods f y ms s) = journal_types s"
  by (induction ms arbitrary: s) auto

lemma add_monthly_periods_rows:
  "fiscal_periods (add_monthly_periods f y ms s) =
     fiscal_periods s @ zip [next_id s..<next_id s + length ms] (map (monthly_period f y) ms)
   \<and> next_id (add_monthly_periods f y ms s) = next_id s + length ms"
proof (induction ms arbitrary: s)
  case Nil
  then show ?case by simp
next
  case (Cons m ms)
  have "[next_id s..<next_id s + length (m # ms)] = next_id s # [Suc (next_id s)..<Suc (next_id s) + length ms]"
    by (subst upt_conv_Cons) (simp_all del: upt_Suc)
  then show ?case
    by (simp del: upt_Suc add: Cons.IH add_row_def)
qed

text \<open>Of the twelve generated periods exactly the one of the date's month holds a date of
  that year.\<close>

definition covers :: "fiscal_period \<Rightarrow> date \<Rightarrow> bool" where
  "covers p d = (fp_start p \<le> d \<and> d \<le> fp_end p)"

lemma monthly_period_covers:
  assumes "valid_date d"
  shows "covers (monthly_period f y m) d \<longleftrightarrow> year d = y \<and> month d = int m"
  using assms days_in_month_bounds [of y "month d"]
  by (auto simp: covers_def monthly_period_def date_order_simps valid_date_def)

lemma create_fiscal_year_periods:
  assumes "create_fiscal_year s yc = Inr (i, s')"
  shows "fiscal_periods s' = fiscal_periods s @
           zip [i + 1..<i + 13] (map (monthly_period i (year (yc_start yc))) [1..<13])"
  using assms
  by (auto simp: create_fiscal_year_def Let_def add_monthly_periods_rows add.commute split: if_splits)

section \<open>Closed periods stay closed\<close>

definition closed_in :: "fin \<Rightarrow> uuid \<Rightarrow> bool" where
  "closed_in s i = (case get (fiscal_periods s) i of None \<Rightarrow> False | Some p \<Rightarrow> is_closed p \<and> is_locked p)"

lemma get_append_old: "get t i = Some p \<Longrightarrow> get (t @ u) i = Some p"
  by (simp add: get_def map_add_Some_iff)

lemma closed_stays:
  assumes "closed_in s i"
  shows "create_fiscal_year s yc = Inr (k, s') \<Longrightarrow> closed_in s' i"
    and "create_fiscal_period s p = Inr (k, s') \<Longrightarrow> closed_in s' i"
    and "lock_period s k b = Inr s' \<Longrightarrow> closed_in s' i"
    and "close_period s k = Inr s' \<Longrightarrow> closed_in s' i"
    and "close_fiscal_year s k = Inr s' \<Longrightarrow> closed_in s' i"
proof -
  from assms obtain q where q: "get (fiscal_periods s) i = Some q" "is_closed q" "is_locked q"
    by (auto simp: closed_in_def split: option.splits)
  show "create_fiscal_year s yc = Inr (k, s') \<Longrightarrow> closed_in s' i"
    using q by (auto dest!: create_fiscal_year_periods simp: closed_in_def get_append_old)
  show "create_fiscal_period s p = Inr (k, s') \<Longrightarrow> closed_in s' i"
    using q by (auto simp: create_fiscal_period_def Let_def closed_in_def get_add_row_eq split: if_splits)
  show "lock_period s k b = Inr s' \<Longrightarrow> closed_in s' i"
    using q by (auto simp: lock_period_def closed_in_def table_simps split: option.splits if_splits)
  show "close_period s k = Inr s' \<Longrightarrow> closed_in s' i"
    using q by (auto simp: close_period_def closed_in_def table_simps split: option.splits if_splits)
  show "close_fiscal_year s k = Inr s' \<Longrightarrow> closed_in s' i"
    using q by (auto simp: close_fiscal_year_def closed_in_def get_close_periods split: option.splits if_splits)
qed

section \<open>Periods of one year do not overlap\<close>

definition disjoint_periods :: "fiscal_period table \<Rightarrow> bool" where
  "disjoint_periods t =
     sorted_wrt (\<lambda>(i, p) (j, q). fp_year_id p = fp_year_id q \<longrightarrow> fp_end p < fp_start q \<or> fp_end q < fp_start p) t"

lemma create_fiscal_period_disjoint:
  assumes ok: "disjoint_periods (fiscal_periods s)" and cr: "create_fiscal_period s p = Inr (i, s')"
  shows "disjoint_periods (fiscal_periods s')"
proof -
  from cr have s': "fiscal_periods s' = fiscal_periods s @ [(i, p)]"
    and no: "\<not> check_overlap s (fp_year_id p) (fp_start p) (fp_end p)"
    by (auto simp: create_fiscal_period_def Let_def add_row_def split: if_splits)
  have "fp_end q < fp_start p \<or> fp_end p < fp_start q"
    if "(k, q) \<in> set (fiscal_periods s)" "fp_year_id q = fp_year_id p" for k q
    using no that unfolding check_overlap_def exists_where_iff by (fastforce simp: not_le)
  with ok show ?thesis by (auto simp: s' disjoint_periods_def sorted_wrt_append)
qed

end
