(* ===== verification/Journals.thy ===== *)
theory Journals
  imports FinanceModel
begin

text \<open>
  \<open>JournalService\<close> (\<^verbatim>\<open>src/app/services/finance_services.py\<close>): creating, updating,
  cancelling and deleting journals.

  The lemmas show that the amount checks of the service are those of the request schema
  again, that every journal the service writes is a balanced double entry with at least two
  one-sided lines, and what each operation does to the status of a journal.
\<close>

section \<open>The amount checks\<close>

definition check_line :: "fin \<Rightarrow> line_in \<Rightarrow> decimal \<times> decimal \<Rightarrow> (decimal \<times> decimal) result" where
  "check_line s l tot =
     (if li_debit l < 0 \<or> li_credit l < 0
        then Inl (ValueErr ''Journal line debit and credit amounts must be non-negative'')
      else if li_debit l > 0 \<and> li_credit l > 0
        then Inl (ValueErr ''A journal line cannot have both debit and credit amounts'')
      else if li_debit l = 0 \<and> li_credit l = 0
        then Inl (ValueErr ''A journal line must have either a debit or credit amount greater than zero'')
      else case get_account s (li_account_id l) of
          None \<Rightarrow> Inl (ValueErr ''Account not found'')
        | Some a \<Rightarrow>
          if \<not> acc_is_active a then Inl (ValueErr ''Account is inactive and cannot be used in journal entries'')
          else Inr (fst tot + li_debit l, snd tot + li_credit l))"

definition check_lines :: "fin \<Rightarrow> line_in list \<Rightarrow> decimal result" where
  "check_lines s ls =
     (if length ls < 2 then Inl (ValueErr ''Every journal entry must contain at least two lines'')
      else case fold_res (check_line s) ls (0, 0) of
          Inl e \<Rightarrow> Inl e
        | Inr (td, tc) \<Rightarrow>
          if td \<noteq> tc then Inl (ValueErr ''Total debit must equal total credit'')
          else if td \<le> 0 then Inl (ValueErr ''Journal entry total amount must be greater than zero'')
          else Inr td)"

definition line_row :: "nat \<times> line_in \<Rightarrow> journal_line" where
  "line_row = (\<lambda>(k, l).
     \<lparr>line_number = k, jl_account_id = li_account_id l, jl_cost_center_id = li_cost_center_id l,
      debit = li_debit l, credit = li_credit l, jl_description = li_description l,
      jl_dimensions = li_dimensions l\<rparr>)"

definition line_rows :: "line_in list \<Rightarrow> journal_line list" where
  "line_rows ls = map line_row (enumerate 1 ls)"

text \<open>The columns \<open>debit\<close> and \<open>credit\<close> are \<open>Numeric(18, 2)\<close>: the database keeps the amount \<open>rnd\<close> rounds
  to, the nearest multiple of a cent. The checks above run before, on the amounts of the request.\<close>

definition stored_line :: "(decimal \<Rightarrow> decimal) \<Rightarrow> journal_line \<Rightarrow> journal_line" where
  "stored_line rnd l = l\<lparr>debit := rnd (debit l), credit := rnd (credit l)\<rparr>"

definition nearest_cent :: "(decimal \<Rightarrow> decimal) \<Rightarrow> bool" where
  "nearest_cent rnd = (\<forall>x. \<bar>rnd x - x\<bar> \<le> 1 / 200 \<and> 100 * rnd x \<in> \<int>)"

definition blocked :: "(uuid \<times> fiscal_period) option \<Rightarrow> bool" where
  "blocked po = (case po of None \<Rightarrow> False | Some (k, p) \<Rightarrow> period_blocked p)"

section \<open>The operations\<close>

definition draft_journal :: "journal_create \<Rightarrow> uuid option \<Rightarrow> string \<Rightarrow> journal_status \<Rightarrow> decimal \<Rightarrow> journal" where
  "draft_journal jc period num st amount =
     \<lparr>journal_number = num, j_type_id = jc_type_id jc, posting_date = jc_posting_date jc,
      fiscal_period_id = period, j_currency_code = jc_currency_code jc,
      exchange_rate = jc_exchange_rate jc, j_description = jc_description jc,
      reference_module = jc_reference_module jc, reference_id = jc_reference_id jc,
      j_status = st, total_debit = amount, total_credit = amount, posted_at = None,
      posted_by_id = None, reversed_journal_id = None, reversal_reason = None,
      j_is_deleted = False, lines = line_rows (jc_lines jc)\<rparr>"

text \<open>\<open>suffix\<close> stands for the date and the random digits of the journal number. The hand-over
  of a \<open>PendingApproval\<close> journal to the approval engine has no effect: the request schema it
  fills has none of the fields it passes, and the exception is swallowed.\<close>

definition create_journal :: "fin \<Rightarrow> journal_create \<Rightarrow> string \<Rightarrow> (uuid \<times> fin) result" where
  "create_journal s jc suffix =
     (case get (journal_types s) (jc_type_id jc) of
        None \<Rightarrow> Inl (ValueErr ''Journal Type not found'')
      | Some jt \<Rightarrow>
        let period = get_period_for_date s (jc_posting_date jc) in
        if blocked period then Inl (ValueErr ''Posting Date falls in closed or locked fiscal period'')
        else case check_lines s (jc_lines jc) of
            Inl e \<Rightarrow> Inl e
          | Inr td \<Rightarrow>
            let st = (if requires_approval jt \<and> td \<ge> approval_threshold jt then JPendingApproval else JDraft);
                j = draft_journal jc (map_option fst period) (jt_prefix jt @ ''-'' @ suffix) st td
            in case insert_journal j s of
                 Inl e \<Rightarrow> Inl e
               | Inr s' \<Rightarrow> Inr (next_id s, emit [Audit ''CREATE'' ''Journal'' (next_id s)] s'))"

definition upd_opt :: "'a option \<Rightarrow> 'a \<Rightarrow> 'a" where
  "upd_opt u old = (case u of None \<Rightarrow> old | Some v \<Rightarrow> v)"

definition upd_some :: "'a option \<Rightarrow> 'a option \<Rightarrow> 'a option" where
  "upd_some u old = (case u of None \<Rightarrow> old | Some v \<Rightarrow> Some v)"

definition update_header :: "fin \<Rightarrow> journal_update \<Rightarrow> journal \<Rightarrow> journal result" where
  "update_header s u j =
     (let dated = (case ju_posting_date u of
                     None \<Rightarrow> Inr j
                   | Some d \<Rightarrow>
                     let period = get_period_for_date s d in
                     if blocked period then Inl (ValueErr ''Posting Date falls in closed or locked fiscal period'')
                     else Inr (j\<lparr>posting_date := d, fiscal_period_id := map_option fst period\<rparr>))
      in case dated of
           Inl e \<Rightarrow> Inl e
         | Inr j1 \<Rightarrow>
           if ju_type_id u \<noteq> None \<and> get (journal_types s) (the (ju_type_id u)) = None
             then Inl (ValueErr ''Journal Type not found'')
           else Inr (j1\<lparr>j_type_id := upd_opt (ju_type_id u) (j_type_id j1),
                  j_currency_code := upd_opt (ju_currency_code u) (j_currency_code j1),
                  exchange_rate := upd_opt (ju_exchange_rate u) (exchange_rate j1),
                  j_description := upd_opt (ju_description u) (j_description j1),
                  reference_module := upd_some (ju_reference_module u) (reference_module j1),
                  reference_id := upd_some (ju_reference_id u) (reference_id j1)\<rparr>))"

definition update_lines :: "fin \<Rightarrow> journal_update \<Rightarrow> journal \<Rightarrow> journal result" where
  "update_lines s u j =
     (case ju_lines u of
        None \<Rightarrow> Inr j
      | Some ls \<Rightarrow>
        (case check_lines s ls of
           Inl e \<Rightarrow> Inl e
         | Inr td \<Rightarrow> Inr (j\<lparr>total_debit := td, total_credit := td, lines := line_rows ls\<rparr>)))"

definition update_journal :: "fin \<Rightarrow> uuid \<Rightarrow> journal_update \<Rightarrow> fin result" where
  "update_journal s i u =
     (case get_journal s i of
        None \<Rightarrow> Inl (ValueErr ''Journal not found'')
      | Some j \<Rightarrow>
        if j_status j = JPosted \<or> j_status j = JCancelled \<or> j_status j = JReversed
          then Inl (ValueErr ''Only Draft or PendingApproval journals may be modified'')
        else case update_header s u j of
            Inl e \<Rightarrow> Inl e
          | Inr j1 \<Rightarrow>
            (case update_lines s u j1 of
               Inl e \<Rightarrow> Inl e
             | Inr j2 \<Rightarrow> Inr (emit [Audit ''UPDATE'' ''Journal'' i]
                          (s\<lparr>journals := modify i (\<lambda>_. j2) (journals s)\<rparr>))))"

definition delete_journal :: "fin \<Rightarrow> uuid \<Rightarrow> fin result" where
  "delete_journal s i =
     (case get_journal s i of
        None \<Rightarrow> Inl (ValueErr ''Journal not found'')
      | Some j \<Rightarrow>
        if j_status j = JPosted then Inl (ValueErr ''Posted journals cannot be deleted'')
        else Inr (emit [Audit ''DELETE'' ''Journal'' i]
               (s\<lparr>journals := modify i (\<lambda>j. j\<lparr>j_is_deleted := True\<rparr>) (journals s)\<rparr>)))"

definition cancel_journal :: "fin \<Rightarrow> uuid \<Rightarrow> fin result" where
  "cancel_journal s i =
     (case get_journal s i of
        None \<Rightarrow> Inl (ValueErr ''Journal not found'')
      | Some j \<Rightarrow>
        if j_status j = JPosted then Inl (ValueErr ''Posted journals cannot be cancelled. Use reverse_journal instead.'')
        else Inr (emit [Audit ''CANCEL'' ''Journal'' i]
               (s\<lparr>journals := modify i (\<lambda>j. j\<lparr>j_status := JCancelled\<rparr>) (journals s)\<rparr>)))"

section \<open>What the checks establish\<close>

text \<open>A line with exactly one positive side.\<close>

definition one_sided :: "journal_line \<Rightarrow> bool" where
  "one_sided l = (0 \<le> debit l \<and> 0 \<le> credit l \<and> (debit l = 0 \<longleftrightarrow> credit l \<noteq> 0))"

text \<open>A balanced double entry: totals that are the sums of the lines, equal and positive, over
  at least two one-sided lines.\<close>

definition journal_ok :: "journal \<Rightarrow> bool" where
  "journal_ok j =
     (total_debit j = sum_debit (lines j) \<and> total_credit j = sum_credit (lines j) \<and>
      total_debit j = total_credit j \<and> 0 < total_debit j \<and> 2 \<le> length (lines j) \<and>
      list_all one_sided (lines j))"

definition line_valid :: "fin \<Rightarrow> line_in \<Rightarrow> bool" where
  "line_valid s l =
     (0 \<le> li_debit l \<and> 0 \<le> li_credit l \<and> (li_debit l = 0 \<longleftrightarrow> li_credit l \<noteq> 0) \<and>
      (case get_account s (li_account_id l) of None \<Rightarrow> False | Some a \<Rightarrow> acc_is_active a))"

lemma check_line_iff:
  "check_line s l tot = Inr tot' \<longleftrightarrow>
     line_valid s l \<and> tot' = (fst tot + li_debit l, snd tot + li_credit l)"
  by (cases "get_account s (li_account_id l)") (auto simp: check_line_def line_valid_def)

lemma fold_check_line_iff:
  "fold_res (check_line s) ls tot = Inr tot' \<longleftrightarrow>
     list_all (line_valid s) ls \<and>
     tot' = (fst tot + sum_list (map li_debit ls), snd tot + sum_list (map li_credit ls))"
proof (induction ls arbitrary: tot)
  case Nil
  then show ?case by auto
next
  case (Cons l ls)
  show ?case
  proof (cases "line_valid s l")
    case True
    then have "check_line s l tot = Inr (fst tot + li_debit l, snd tot + li_credit l)"
      by (simp add: check_line_iff)
    with True show ?thesis by (auto simp: Cons.IH add.assoc)
  next
    case False
    then obtain e where "check_line s l tot = Inl e"
      using check_line_iff [of s l tot] by (cases "check_line s l tot") auto
    with False show ?thesis by simp
  qed
qed

lemma check_lines_iff:
  "check_lines s ls = Inr td \<longleftrightarrow>
     2 \<le> length ls \<and> list_all (line_valid s) ls \<and> td = sum_list (map li_debit ls) \<and>
     td = sum_list (map li_credit ls) \<and> 0 < td"
proof (cases "fold_res (check_line s) ls (0, 0)")
  case (Inl e)
  then have "\<not> list_all (line_valid s) ls"
    using fold_check_line_iff [of s ls "(0, 0)" "(sum_list (map li_debit ls), sum_list (map li_credit ls))"]
    by auto
  with Inl show ?thesis by (simp add: check_lines_def)
next
  case (Inr tot)
  then have "list_all (line_valid s) ls" "tot = (sum_list (map li_debit ls), sum_list (map li_credit ls))"
    using fold_check_line_iff [of s ls "(0, 0)" tot] by auto
  with Inr show ?thesis by (auto simp: check_lines_def)
qed

lemma map_snd_enumerate: "map (\<lambda>p. g (snd p)) (enumerate n ls) = map g ls"
  by (induction ls arbitrary: n) auto

lemma map_line_rows:
  "map debit (line_rows ls) = map li_debit ls" "map credit (line_rows ls) = map li_credit ls"
  "map jl_account_id (line_rows ls) = map li_account_id ls" "length (line_rows ls) = length ls"
  using map_snd_enumerate [of li_debit 1 ls] map_snd_enumerate [of li_credit 1 ls]
    map_snd_enumerate [of li_account_id 1 ls]
  by (simp_all add: line_rows_def line_row_def case_prod_unfold comp_def)

lemma line_rows_one_sided:
  assumes "list_all (line_valid s) ls"
  shows "list_all one_sided (line_rows ls)"
proof -
  have "snd p \<in> set ls" if "p \<in> set (enumerate 1 ls)" for p
    using that by (metis enumerate_eq_zip prod.collapse set_zip_rightD)
  with assms show ?thesis
    by (force simp: line_rows_def list_all_iff one_sided_def line_row_def line_valid_def)
qed

lemma check_lines_journal_ok:
  assumes "check_lines s ls = Inr td"
  shows "td = sum_debit (line_rows ls)" "td = sum_credit (line_rows ls)" "0 < td"
    "2 \<le> length (line_rows ls)" "list_all one_sided (line_rows ls)"
  using assms
  by (auto simp: check_lines_iff sum_debit_def sum_credit_def map_line_rows intro: line_rows_one_sided)

text \<open>What the request schema has checked, the amount checks of the service accept.\<close>

lemma parsed_amounts_accepted:
  assumes "parse_journal_create jc = Inr jc'"
    and "\<And>l. l \<in> set (jc_lines jc) \<Longrightarrow>
           \<exists>a. get_account s (li_account_id l) = Some a \<and> acc_is_active a"
  shows "\<exists>td. check_lines s (jc_lines jc') = Inr td"
proof -
  from assms(1) have jc: "jc' = jc"
    and l: "\<And>l. l \<in> set (jc_lines jc) \<Longrightarrow> is_ok (validate_debit_or_credit l)"
    and b: "is_ok (validate_double_entry_balance jc)"
    by (auto simp: parse_journal_create_def list_all_iff split: if_splits sum.splits)
  have "line_valid s l" if "l \<in> set (jc_lines jc)" for l
    using l [OF that] assms(2) [OF that]
    by (auto simp: validate_debit_or_credit_def line_valid_def split: if_splits)
  with b show ?thesis
    by (auto simp: jc check_lines_iff validate_double_entry_balance_def Let_def list_all_iff split: if_splits)
qed

section \<open>What each operation does\<close>

lemma create_journalD:
  assumes "create_journal s jc suffix = Inr (i, s')"
  obtains jt td where "get (journal_types s) (jc_type_id jc) = Some jt"
    "\<not> blocked (get_period_for_date s (jc_posting_date jc))"
    "check_lines s (jc_lines jc) = Inr td" "i = next_id s"
    "s' = emit [Audit ''CREATE'' ''Journal'' i]
       (s\<lparr>journals := add_row i (draft_journal jc (map_option fst (get_period_for_date s (jc_posting_date jc)))
            (jt_prefix jt @ ''-'' @ suffix)
            (if requires_approval jt \<and> td \<ge> approval_threshold jt then JPendingApproval else JDraft) td)
            (journals s), next_id := next_id s + 1\<rparr>)"
proof -
  from assms obtain jt where jt: "get (journal_types s) (jc_type_id jc) = Some jt"
    by (auto simp: create_journal_def split: option.splits)
  with assms have nb: "\<not> blocked (get_period_for_date s (jc_posting_date jc))"
    by (auto simp: create_journal_def Let_def split: if_splits)
  with assms jt obtain td where td: "check_lines s (jc_lines jc) = Inr td"
    by (auto simp: create_journal_def Let_def split: sum.splits)
  let ?st = "if requires_approval jt \<and> td \<ge> approval_threshold jt then JPendingApproval else JDraft"
  let ?j = "draft_journal jc (map_option fst (get_period_for_date s (jc_posting_date jc))) (jt_prefix jt @ ''-'' @ suffix) ?st td"
  from assms jt nb td obtain s1 where s1: "insert_journal ?j s = Inr s1" and i: "i = next_id s"
    and s': "s' = emit [Audit ''CREATE'' ''Journal'' i] s1"
    by (auto simp: create_journal_def Let_def split: sum.splits)
  from that [OF jt nb td i] s' insert_journalD [OF s1] i show thesis by simp
qed

lemma update_headerD:
  assumes "update_header s u j = Inr j'"
  shows "j_status j' = j_status j" "total_debit j' = total_debit j" "total_credit j' = total_credit j"
    "lines j' = lines j" "j_is_deleted j' = j_is_deleted j"
  using assms
  by (auto simp: update_header_def Let_def split: option.splits if_splits sum.splits)

lemma update_linesD:
  assumes "update_lines s u j = Inr j'" and "journal_ok j"
  shows "journal_ok j'" "j_status j' = j_status j" "j_is_deleted j' = j_is_deleted j"
  using assms
  by (auto simp: update_lines_def journal_ok_def dest: check_lines_journal_ok split: option.splits sum.splits)

lemma update_journalD:
  assumes "update_journal s i u = Inr s'"
  obtains j j1 j2 where "get (journals s) i = Some j" "\<not> j_is_deleted j"
    "j_status j \<notin> {JPosted, JCancelled, JReversed}"
    "update_header s u j = Inr j1" "update_lines s u j1 = Inr j2"
    "s' = emit [Audit ''UPDATE'' ''Journal'' i] (s\<lparr>journals := modify i (\<lambda>_. j2) (journals s)\<rparr>)"
  using assms
  by (auto simp: update_journal_def dest: get_journalD split: option.splits if_splits sum.splits)

lemma delete_journalD:
  assumes "delete_journal s i = Inr s'"
  obtains j where "get (journals s) i = Some j" "\<not> j_is_deleted j" "j_status j \<noteq> JPosted"
    "s' = emit [Audit ''DELETE'' ''Journal'' i]
       (s\<lparr>journals := modify i (\<lambda>j. j\<lparr>j_is_deleted := True\<rparr>) (journals s)\<rparr>)"
  using assms by (auto simp: delete_journal_def dest: get_journalD split: option.splits if_splits)

lemma cancel_journalD:
  assumes "cancel_journal s i = Inr s'"
  obtains j where "get (journals s) i = Some j" "\<not> j_is_deleted j" "j_status j \<noteq> JPosted"
    "s' = emit [Audit ''CANCEL'' ''Journal'' i]
       (s\<lparr>journals := modify i (\<lambda>j. j\<lparr>j_status := JCancelled\<rparr>) (journals s)\<rparr>)"
  using assms by (auto simp: cancel_journal_def dest: get_journalD split: option.splits if_splits)

section \<open>Every journal the service writes is a balanced double entry\<close>

definition journals_ok :: "fin \<Rightarrow> bool" where
  "journals_ok s = all_rows journal_ok (journals s)"

lemma create_journal_ok:
  assumes "journals_ok s" and "create_journal s jc suffix = Inr (i, s')"
  shows "journals_ok s'"
proof -
  from assms(2) obtain jt td where "get (journal_types s) (jc_type_id jc) = Some jt"
    and "\<not> blocked (get_period_for_date s (jc_posting_date jc))"
    and td: "check_lines s (jc_lines jc) = Inr td" and "i = next_id s"
    and s': "s' = emit [Audit ''CREATE'' ''Journal'' i]
       (s\<lparr>journals := add_row i (draft_journal jc (map_option fst (get_period_for_date s (jc_posting_date jc)))
            (jt_prefix jt @ ''-'' @ suffix)
            (if requires_approval jt \<and> td \<ge> approval_threshold jt then JPendingApproval else JDraft) td)
            (journals s), next_id := next_id s + 1\<rparr>)"
    by (rule create_journalD)
  have "journal_ok (draft_journal jc p num st td)" for p num st
    using check_lines_journal_ok [OF td] by (simp add: journal_ok_def draft_journal_def)
  with assms(1) show ?thesis by (simp add: s' journals_ok_def all_rows_add_row)
qed

lemma update_journal_ok:
  assumes "journals_ok s" and "wf_fin s" and "update_journal s i u = Inr s'"
  shows "journals_ok s'"
proof -
  from assms(3) obtain j j1 j2 where j: "get (journals s) i = Some j"
    and "\<not> j_is_deleted j" and "j_status j \<notin> {JPosted, JCancelled, JReversed}"
    and h: "update_header s u j = Inr j1" and l: "update_lines s u j1 = Inr j2"
    and s': "s' = emit [Audit ''UPDATE'' ''Journal'' i] (s\<lparr>journals := modify i (\<lambda>_. j2) (journals s)\<rparr>)"
    by (rule update_journalD)
  have "journal_ok j" using assms(1) j by (auto simp: journals_ok_def dest: all_rows_get)
  then have "journal_ok j1" using update_headerD [OF h] by (simp add: journal_ok_def)
  then have "journal_ok j2" using update_linesD [OF l] by simp
  with assms(1,2) show ?thesis
    by (simp add: s' journals_ok_def all_rows_modify wf_fin_distinct)
qed

lemma journal_ok_flags [simp]:
  "journal_ok (j\<lparr>j_is_deleted := b\<rparr>) = journal_ok j" "journal_ok (j\<lparr>j_status := st\<rparr>) = journal_ok j"
  by (simp_all add: journal_ok_def)

lemma journals_ok_modify:
  assumes "journals_ok s" and "wf_fin s" and "\<And>j. journal_ok j \<Longrightarrow> journal_ok (f j)"
  shows "all_rows journal_ok (modify i f (journals s))"
  using assms by (auto simp: journals_ok_def intro!: all_rows_modify wf_fin_distinct dest: all_rows_get)

lemma delete_journal_ok:
  "journals_ok s \<Longrightarrow> wf_fin s \<Longrightarrow> delete_journal s i = Inr s' \<Longrightarrow> journals_ok s'"
  by (auto elim!: delete_journalD simp: journals_ok_def intro!: journals_ok_modify [unfolded journals_ok_def])

lemma cancel_journal_ok:
  "journals_ok s \<Longrightarrow> wf_fin s \<Longrightarrow> cancel_journal s i = Inr s' \<Longrightarrow> journals_ok s'"
  by (auto elim!: cancel_journalD simp: journals_ok_def intro!: journals_ok_modify [unfolded journals_ok_def])

end
