(* ===== verification/PostingEngine.thy ===== *)
theory PostingEngine
  imports Journals
begin

text \<open>
  \<open>PostingEngineService\<close> (\<^verbatim>\<open>src/app/services/finance_services.py\<close>): posting a journal into
  the account balances and reversing a posted journal.

  The lemmas give the effect on every account, show that both operations keep the accounting
  equation, and that a reversal undoes the balances of the posting.
\<close>

section \<open>Account balances\<close>

text \<open>Assets and expenses grow with a debit, every other account with a credit.\<close>

definition debit_normal :: "account \<Rightarrow> bool" where
  "debit_normal a = (py_upper (account_type a) = ''ASSET'' \<or> py_upper (account_type a) = ''EXPENSE'')"

definition add_balance :: "decimal \<Rightarrow> decimal \<Rightarrow> account \<Rightarrow> account" where
  "add_balance d c a =
     a\<lparr>current_balance := current_balance a + (if debit_normal a then d - c else c - d)\<rparr>"

definition change_balance :: "uuid \<Rightarrow> decimal \<Rightarrow> decimal \<Rightarrow> fin \<Rightarrow> fin" where
  "change_balance i d c s = s\<lparr>accounts := modify i (add_balance d c) (accounts s)\<rparr>"

section \<open>Posting\<close>

definition post_line :: "journal_line \<Rightarrow> fin \<Rightarrow> fin result" where
  "post_line l s =
     (case get_account s (jl_account_id l) of
        None \<Rightarrow> Inl (ValueErr ''Account not found'')
      | Some a \<Rightarrow>
        if \<not> acc_is_active a then Inl (ValueErr ''Account is inactive and cannot be posted to'')
        else Inr (change_balance (jl_account_id l) (debit l) (credit l) s))"

definition update_queue :: "string option \<Rightarrow> timestamp \<Rightarrow> queue_row list \<Rightarrow> queue_row list" where
  "update_queue ref now q =
     (case ref of
        None \<Rightarrow> q
      | Some r \<Rightarrow> if r = '''' then q
          else map (\<lambda>row. if q_reference row = Some r
                 then row\<lparr>q_status := ''Posted'', q_posted_at := Some now\<rparr> else row) q)"

definition post_journal :: "fin \<Rightarrow> uuid \<Rightarrow> uuid option \<Rightarrow> timestamp \<Rightarrow> fin result" where
  "post_journal s i user now =
     (case get_journal s i of
        None \<Rightarrow> Inl (ValueErr ''Journal not found'')
      | Some j \<Rightarrow>
        if j_status j = JPosted then Inl (ValueErr ''Journal is already posted'')
        else if j_status j \<noteq> JDraft \<and> j_status j \<noteq> JApproved
          then Inl (ValueErr ''Only Draft or Approved journals may be posted'')
        else if blocked (journal_period s j)
          then Inl (ValueErr ''Cannot post journal: Fiscal Period is closed or locked'')
        else if total_debit j \<noteq> total_credit j \<or> total_debit j \<le> 0
          then Inl (ValueErr ''Unbalanced journal entries cannot be posted into General Ledger'')
        else if length (lines j) < 2
          then Inl (ValueErr ''Every journal entry must contain at least two lines to be posted'')
        else case fold_res post_line (lines j) s of
            Inl e \<Rightarrow> Inl e
          | Inr s1 \<Rightarrow>
            Inr (emit [Audit ''POST'' ''Journal'' i, Publish ''JournalPosted'' i]
              (s1\<lparr>journals := modify i (\<lambda>j. j\<lparr>j_status := JPosted, posted_at := Some now, posted_by_id := user\<rparr>) (journals s1),
                  posting_queue := update_queue (reference_id j) now (posting_queue s1)\<rparr>)))"

section \<open>Reversal\<close>

definition swap_line :: "nat \<times> journal_line \<Rightarrow> journal_line" where
  "swap_line = (\<lambda>(k, l). l\<lparr>line_number := k, debit := credit l, credit := debit l,
      jl_description := Some (''Reversal line for line '' @ str_nat (line_number l))\<rparr>)"

definition reversal_journal :: "journal \<Rightarrow> uuid \<Rightarrow> uuid option \<Rightarrow> string \<Rightarrow> uuid option \<Rightarrow> timestamp \<Rightarrow> journal" where
  "reversal_journal j i period reason user now =
     \<lparr>journal_number = ''REV-'' @ journal_number j, j_type_id = j_type_id j, posting_date = posting_date j,
      fiscal_period_id = (case period of None \<Rightarrow> fiscal_period_id j | Some p \<Rightarrow> Some p),
      j_currency_code = j_currency_code j, exchange_rate = exchange_rate j,
      j_description = ''Reversal of '' @ journal_number j @ '': '' @ reason,
      reference_module = reference_module j, reference_id = reference_id j, j_status = JPosted,
      total_debit = total_credit j, total_credit = total_debit j, posted_at = Some now,
      posted_by_id = user, reversed_journal_id = Some i, reversal_reason = Some reason,
      j_is_deleted = False, lines = map swap_line (enumerate 1 (lines j))\<rparr>"

text \<open>An account that no longer exists is skipped.\<close>

definition reverse_line :: "journal_line \<Rightarrow> fin \<Rightarrow> fin" where
  "reverse_line l s =
     (case get_account s (jl_account_id l) of
        None \<Rightarrow> s
      | Some a \<Rightarrow> change_balance (jl_account_id l) (credit l) (debit l) s)"

definition reverse_journal :: "fin \<Rightarrow> uuid \<Rightarrow> string \<Rightarrow> uuid option \<Rightarrow> timestamp \<Rightarrow> (uuid \<times> fin) result" where
  "reverse_journal s i reason user now =
     (case get_journal s i of
        None \<Rightarrow> Inl (ValueErr ''Original journal not found'')
      | Some j \<Rightarrow>
        if j_status j \<noteq> JPosted then Inl (ValueErr ''Only Posted journals can be reversed'')
        else let period = journal_period s j in
          if blocked period then Inl (ValueErr ''Cannot reverse journal: Fiscal Period is closed or locked'')
          else case insert_journal (reversal_journal j i (map_option fst period) reason user now) s of
              Inl e \<Rightarrow> Inl e
            | Inr s1 \<Rightarrow>
              let r = next_id s; s2 = fold reverse_line (lines j) s1
              in Inr (r, emit [Audit ''REVERSE'' ''Journal'' i, Publish ''JournalReversed'' i]
                   (s2\<lparr>journals := modify i (\<lambda>j. j\<lparr>j_status := JReversed, reversed_journal_id := Some r,
                          reversal_reason := Some reason\<rparr>) (journals s2)\<rparr>)))"

section \<open>Effect on the accounts\<close>

text \<open>What a line does to the accounts, seen from the debit side: debits minus credits for
  one account.\<close>

definition net_on :: "uuid \<Rightarrow> journal_line list \<Rightarrow> decimal" where
  "net_on i ls = sum_list (map (\<lambda>l. if jl_account_id l = i then debit l - credit l else 0) ls)"

lemma net_on_simps [simp]:
  "net_on i [] = 0"
  "net_on i (l # ls) = (if jl_account_id l = i then debit l - credit l else 0) + net_on i ls"
  "net_on i (ls @ ms) = net_on i ls + net_on i ms"
  by (simp_all add: net_on_def)

text \<open>The balance of an account on the debit side.\<close>

definition debit_side :: "account \<Rightarrow> decimal" where
  "debit_side a = (if debit_normal a then current_balance a else - current_balance a)"

lemma add_balance_simps [simp]:
  "debit_side (add_balance d c a) = debit_side a + (d - c)"
  "debit_normal (add_balance d c a) = debit_normal a"
  "acc_is_deleted (add_balance d c a) = acc_is_deleted a"
  "acc_is_active (add_balance d c a) = acc_is_active a"
  "account_type (add_balance d c a) = account_type a"
  "opening_balance (add_balance d c a) = opening_balance a"
  "acc_parent_id (add_balance d c a) = acc_parent_id a"
  by (simp_all add: add_balance_def debit_side_def debit_normal_def)

lemma change_balance_frame [simp]:
  "journals (change_balance i d c s) = journals s" "journal_types (change_balance i d c s) = journal_types s"
  "fiscal_periods (change_balance i d c s) = fiscal_periods s" "fiscal_years (change_balance i d c s) = fiscal_years s"
  "next_id (change_balance i d c s) = next_id s" "fin_effects (change_balance i d c s) = fin_effects s"
  "posting_queue (change_balance i d c s) = posting_queue s"
  "keys (accounts (change_balance i d c s)) = keys (accounts s)"
  by (simp_all add: change_balance_def tbl.dom_upd)

text \<open>Two account tables that differ in balances only.\<close>

definition balances_moved :: "fin \<Rightarrow> fin \<Rightarrow> (uuid \<Rightarrow> decimal) \<Rightarrow> bool" where
  "balances_moved s s' net =
     (s' = s\<lparr>accounts := accounts s'\<rparr> \<and> keys (accounts s') = keys (accounts s) \<and>
      (\<forall>i. get (accounts s') i =
         map_option (\<lambda>a. a\<lparr>current_balance := current_balance a + (if debit_normal a then net i else - net i)\<rparr>)
           (get (accounts s) i)))"

lemma balances_moved_refl: "balances_moved s s (\<lambda>_. 0)"
  by (simp add: balances_moved_def option.map_ident_strong)

lemma balances_moved_trans:
  assumes "balances_moved s t f" and "balances_moved t u g"
  shows "balances_moved s u (\<lambda>i. f i + g i)"
proof -
  have "u = s\<lparr>accounts := accounts u\<rparr>" using assms
    unfolding balances_moved_def by (cases s; cases t; cases u) simp
  with assms show ?thesis
    by (auto simp: balances_moved_def option.map_comp comp_def debit_normal_def add.assoc
        intro!: option.map_cong)
qed

lemma balances_moved_change:
  "balances_moved s (change_balance k d c s) (\<lambda>i. if i = k then d - c else 0)"
proof -
  have "get (accounts (change_balance k d c s)) i =
      map_option (\<lambda>a. a\<lparr>current_balance := current_balance a + (if debit_normal a
        then if i = k then d - c else 0 else - (if i = k then d - c else 0))\<rparr>) (get (accounts s) i)" for i
    by (cases "get (accounts s) i") (auto simp: change_balance_def tbl.lookup_upd add_balance_def)
  then show ?thesis by (simp add: balances_moved_def change_balance_def tbl.dom_upd)
qed

lemma balances_moved_get_account:
  assumes "balances_moved s s' net"
  shows "get_account s' i =
     map_option (\<lambda>a. a\<lparr>current_balance := current_balance a + (if debit_normal a then net i else - net i)\<rparr>)
       (get_account s i)"
  using assms by (auto simp: get_account_def balances_moved_def split: option.splits)

lemma balances_moved_frame:
  assumes "balances_moved s s' net"
  shows "journals s' = journals s" "journal_types s' = journal_types s" "fiscal_periods s' = fiscal_periods s"
    "fiscal_years s' = fiscal_years s" "next_id s' = next_id s" "keys (accounts s') = keys (accounts s)"
    "posting_queue s' = posting_queue s" "fin_effects s' = fin_effects s"
  using assms unfolding balances_moved_def by (cases s; cases s'; simp)+

lemma post_lineD:
  assumes "post_line l s = Inr t"
  obtains a where "get_account s (jl_account_id l) = Some a" "acc_is_active a"
    "t = change_balance (jl_account_id l) (debit l) (credit l) s"
  using assms by (auto simp: post_line_def split: option.splits if_splits)

lemma post_lines_balances:
  assumes "fold_res post_line ls s = Inr s'"
  shows "balances_moved s s' (\<lambda>i. net_on i ls)
    \<and> list_all (\<lambda>l. case get_account s (jl_account_id l) of None \<Rightarrow> False | Some a \<Rightarrow> acc_is_active a) ls"
  using assms
proof (induction ls arbitrary: s)
  case Nil
  then show ?case by (simp add: balances_moved_refl)
next
  case (Cons l ls)
  let ?t = "change_balance (jl_account_id l) (debit l) (credit l) s"
  from Cons.prems obtain a where a: "get_account s (jl_account_id l) = Some a" "acc_is_active a"
    and rest: "fold_res post_line ls ?t = Inr s'"
    by (auto elim: post_lineD split: sum.splits)
  have move: "balances_moved s ?t (\<lambda>i. if i = jl_account_id l then debit l - credit l else 0)"
    by (rule balances_moved_change)
  have acc: "(case get_account ?t i of None \<Rightarrow> False | Some a \<Rightarrow> acc_is_active a)
      = (case get_account s i of None \<Rightarrow> False | Some a \<Rightarrow> acc_is_active a)" for i
    by (simp add: balances_moved_get_account [OF move] split: option.splits)
  have "balances_moved s s' (\<lambda>i. (if i = jl_account_id l then debit l - credit l else 0) + net_on i ls)"
    using balances_moved_trans [OF move] Cons.IH [OF rest] by blast
  then have "balances_moved s s' (\<lambda>i. net_on i (l # ls))" by (simp add: eq_commute)
  with a Cons.IH [OF rest] show ?case by (simp add: acc)
qed

lemma reverse_lines_balances:
  assumes "list_all (\<lambda>l. get_account s (jl_account_id l) \<noteq> None) ls"
  shows "balances_moved s (fold reverse_line ls s) (\<lambda>i. - net_on i ls)"
  using assms
proof (induction ls arbitrary: s)
  case Nil
  then show ?case by (simp add: balances_moved_refl)
next
  case (Cons l ls)
  let ?t = "change_balance (jl_account_id l) (credit l) (debit l) s"
  from Cons.prems have t: "reverse_line l s = ?t" by (auto simp: reverse_line_def)
  have move: "balances_moved s ?t (\<lambda>i. if i = jl_account_id l then credit l - debit l else 0)"
    by (rule balances_moved_change)
  have "list_all (\<lambda>l. get_account ?t (jl_account_id l) \<noteq> None) ls"
    using Cons.prems by (simp add: balances_moved_get_account [OF move])
  then have "balances_moved ?t (fold reverse_line ls ?t) (\<lambda>i. - net_on i ls)" by (rule Cons.IH)
  from balances_moved_trans [OF move this] show ?case
    by (auto simp: t elim!: back_subst [where P = "balances_moved s (fold reverse_line ls ?t)"])
qed

section \<open>The accounting equation\<close>

text \<open>Debit-normal balances minus credit-normal balances over the whole chart.\<close>

definition equation_total :: "fin \<Rightarrow> decimal" where
  "equation_total s = sum_rows debit_side (accounts s)"

lemma equation_total_change:
  assumes "distinct (keys (accounts s))" and "get_account s i \<noteq> None"
  shows "equation_total (change_balance i d c s) = equation_total s + (d - c)"
  using assms
  by (auto simp: equation_total_def change_balance_def sum_rows_modify dest!: get_accountD)

lemma post_lines_equation:
  assumes "distinct (keys (accounts s))" and "fold_res post_line ls s = Inr s'"
  shows "equation_total s' = equation_total s + (sum_debit ls - sum_credit ls)"
proof -
  have "distinct (keys (accounts s')) \<and> equation_total s' = equation_total s + sum_list (map (\<lambda>l. debit l - credit l) ls)"
  proof (rule fold_res_additive [OF _ assms(2), where I = "\<lambda>s. distinct (keys (accounts s))"])
    fix l s t
    assume "distinct (keys (accounts s))" "post_line l s = Inr t"
    then show "distinct (keys (accounts t)) \<and> equation_total t = equation_total s + (debit l - credit l)"
      by (auto simp: post_line_def equation_total_change split: option.splits if_splits)
  qed (rule assms(1))
  then show ?thesis by (simp add: sum_debit_def sum_credit_def sum_list_subtractf)
qed

lemma reverse_lines_equation:
  assumes "distinct (keys (accounts s))" and "list_all (\<lambda>l. get_account s (jl_account_id l) \<noteq> None) ls"
  shows "equation_total (fold reverse_line ls s) = equation_total s - (sum_debit ls - sum_credit ls)"
  using assms
proof (induction ls arbitrary: s)
  case Nil
  then show ?case by (simp add: sum_debit_def sum_credit_def)
next
  case (Cons l ls)
  let ?t = "change_balance (jl_account_id l) (credit l) (debit l) s"
  from Cons.prems have t: "reverse_line l s = ?t" by (auto simp: reverse_line_def)
  have "list_all (\<lambda>l. get_account ?t (jl_account_id l) \<noteq> None) ls"
    using Cons.prems by (simp add: balances_moved_get_account [OF balances_moved_change])
  with Cons.prems(1) have "equation_total (fold reverse_line ls ?t) = equation_total ?t - (sum_debit ls - sum_credit ls)"
    by (intro Cons.IH) simp_all
  moreover have "equation_total ?t = equation_total s + (credit l - debit l)"
    using Cons.prems by (intro equation_total_change) auto
  ultimately show ?case by (simp add: t sum_debit_def sum_credit_def)
qed

section \<open>What a successful call has done\<close>

definition mark_posted :: "uuid option \<Rightarrow> timestamp \<Rightarrow> journal \<Rightarrow> journal" where
  "mark_posted user now j = j\<lparr>j_status := JPosted, posted_at := Some now, posted_by_id := user\<rparr>"

lemma post_journalD:
  assumes "post_journal s i user now = Inr s'"
  obtains j s1 where "get (journals s) i = Some j" "\<not> j_is_deleted j"
    "j_status j = JDraft \<or> j_status j = JApproved" "\<not> blocked (journal_period s j)"
    "total_debit j = total_credit j" "0 < total_debit j" "2 \<le> length (lines j)"
    "fold_res post_line (lines j) s = Inr s1"
    "s' = emit [Audit ''POST'' ''Journal'' i, Publish ''JournalPosted'' i]
       (s1\<lparr>journals := modify i (mark_posted user now) (journals s),
           posting_queue := update_queue (reference_id j) now (posting_queue s)\<rparr>)"
proof -
  from assms obtain j where j: "get_journal s i = Some j"
    by (auto simp: post_journal_def split: option.splits)
  with assms have g: "j_status j = JDraft \<or> j_status j = JApproved" "\<not> blocked (journal_period s j)"
    "total_debit j = total_credit j" "0 < total_debit j" "2 \<le> length (lines j)"
    by (auto simp: post_journal_def not_le not_less split: if_splits)
  with assms j obtain s1 where s1: "fold_res post_line (lines j) s = Inr s1"
    by (auto simp: post_journal_def split: sum.splits if_splits)
  note fr = balances_moved_frame [OF conjunct1 [OF post_lines_balances [OF s1]]]
  from assms j g s1 have "s' = emit [Audit ''POST'' ''Journal'' i, Publish ''JournalPosted'' i]
       (s1\<lparr>journals := modify i (mark_posted user now) (journals s),
           posting_queue := update_queue (reference_id j) now (posting_queue s)\<rparr>)"
    by (auto simp: post_journal_def mark_posted_def [abs_def] fr split: if_splits)
  with that j g s1 show thesis by (blast dest: get_journalD)
qed

definition mark_reversed :: "uuid \<Rightarrow> string \<Rightarrow> journal \<Rightarrow> journal" where
  "mark_reversed r reason j =
     j\<lparr>j_status := JReversed, reversed_journal_id := Some r, reversal_reason := Some reason\<rparr>"

lemma reverse_journalD:
  assumes "reverse_journal s i reason user now = Inr (r, s')"
  obtains j p s1 where "get (journals s) i = Some j" "\<not> j_is_deleted j" "j_status j = JPosted"
    "\<not> blocked (journal_period s j)" "r = next_id s" "p = map_option fst (journal_period s j)"
    "s1 = s\<lparr>journals := add_row r (reversal_journal j i p reason user now) (journals s), next_id := next_id s + 1\<rparr>"
    "s' = emit [Audit ''REVERSE'' ''Journal'' i, Publish ''JournalReversed'' i]
       ((fold reverse_line (lines j) s1)\<lparr>journals := modify i (mark_reversed r reason) (journals (fold reverse_line (lines j) s1))\<rparr>)"
proof -
  from assms obtain j where j: "get_journal s i = Some j"
    by (auto simp: reverse_journal_def split: option.splits)
  with assms have g: "j_status j = JPosted" "\<not> blocked (journal_period s j)"
    by (auto simp: reverse_journal_def Let_def split: if_splits)
  let ?p = "map_option fst (journal_period s j)"
  from assms j g obtain s1 where s1: "insert_journal (reversal_journal j i ?p reason user now) s = Inr s1"
    by (auto simp: reverse_journal_def Let_def split: sum.splits if_splits)
  from assms j g s1 have r: "r = next_id s"
    and s': "s' = emit [Audit ''REVERSE'' ''Journal'' i, Publish ''JournalReversed'' i]
       ((fold reverse_line (lines j) s1)\<lparr>journals := modify i (mark_reversed r reason) (journals (fold reverse_line (lines j) s1))\<rparr>)"
    by (auto simp: reverse_journal_def Let_def mark_reversed_def [abs_def])
  show thesis
    using that [OF _ _ g r refl _ s'] j insert_journalD [OF s1] r by (auto dest: get_journalD)
qed

end
