(* ===== verification/GeneralLedger.thy ===== *)
theory GeneralLedger
  imports PostingEngine "HOL-Library.Multiset"
begin

text \<open>
  \<open>GeneralLedgerRepository\<close> (\<^verbatim>\<open>src/app/repositories/finance_repos.py\<close>): the account ledger
  with its running balance and the trial balance, both over the lines of posted journals that
  are not deleted.

  The lemmas relate the ledger to the account balances the posting engine keeps, and show when
  the trial balance balances. Rows come in the order of the tables where the query sorts by
  account code, since that order is the collation of the database.
\<close>

section \<open>Posted lines\<close>

definition counted :: "journal \<Rightarrow> bool" where
  "counted j = (j_status j = JPosted \<and> \<not> j_is_deleted j)"

definition in_range :: "date option \<Rightarrow> date option \<Rightarrow> date \<Rightarrow> bool" where
  "in_range a b d =
     ((case a of None \<Rightarrow> True | Some x \<Rightarrow> x \<le> d) \<and> (case b of None \<Rightarrow> True | Some y \<Rightarrow> d \<le> y))"

definition lines_of :: "uuid \<Rightarrow> journal_line list \<Rightarrow> journal_line list" where
  "lines_of i ls = filter (\<lambda>l. jl_account_id l = i) ls"

text \<open>\<open>sum(JournalLine.debit)\<close> and \<open>sum(JournalLine.credit)\<close> of one account over the counted
  journals whose date satisfies \<open>P\<close>.\<close>

definition sum_over :: "(journal_line \<Rightarrow> decimal) \<Rightarrow> fin \<Rightarrow> uuid \<Rightarrow> (date \<Rightarrow> bool) \<Rightarrow> decimal" where
  "sum_over f s i P =
     sum_rows (\<lambda>j. if counted j \<and> P (posting_date j) then sum_list (map f (lines_of i (lines j))) else 0) (journals s)"

section \<open>Account ledger\<close>

record ledger_entry =
  le_journal_number :: string
  le_line_number :: nat
  le_debit :: decimal
  le_credit :: decimal
  le_running :: decimal

record account_ledger =
  lv_opening :: decimal
  lv_period_debit :: decimal
  lv_period_credit :: decimal
  lv_closing :: decimal
  lv_entries :: "ledger_entry list"
  lv_total :: nat

text \<open>The rows of the query: by posting date, then creation, then line number.\<close>

definition ledger_rows :: "fin \<Rightarrow> uuid \<Rightarrow> date option \<Rightarrow> date option \<Rightarrow> (journal \<times> journal_line) list" where
  "ledger_rows s i a b =
     concat (map (\<lambda>j. map (Pair j) (lines_of i (lines j)))
       (sort_key posting_date (filter (\<lambda>j. counted j \<and> in_range a b (posting_date j)) (map snd (journals s)))))"

definition signed_delta :: "bool \<Rightarrow> decimal \<Rightarrow> decimal \<Rightarrow> decimal" where
  "signed_delta dn d c = (if dn then d - c else c - d)"

fun run_entries :: "bool \<Rightarrow> decimal \<Rightarrow> (journal \<times> journal_line) list \<Rightarrow> ledger_entry list \<times> decimal" where
  "run_entries dn running [] = ([], running)"
| "run_entries dn running ((j, l) # rows) =
     (let r = running + signed_delta dn (debit l) (credit l); (es, final) = run_entries dn r rows
      in (\<lparr>le_journal_number = journal_number j, le_line_number = line_number l,
           le_debit = debit l, le_credit = credit l, le_running = r\<rparr> # es, final))"

definition get_account_ledger ::
  "fin \<Rightarrow> uuid \<Rightarrow> date option \<Rightarrow> date option \<Rightarrow> nat \<Rightarrow> nat \<Rightarrow> account_ledger option" where
  "get_account_ledger s i from_date to_date skip limit =
     (case get_account s i of
        None \<Rightarrow> None
      | Some a \<Rightarrow>
        let dn = debit_normal a;
            prior = (case from_date of
                       None \<Rightarrow> 0
                     | Some d \<Rightarrow> signed_delta dn (sum_over debit s i (\<lambda>x. x < d)) (sum_over credit s i (\<lambda>x. x < d)));
            opening = opening_balance a + prior;
            rows = ledger_rows s i from_date to_date;
            page = take limit (drop skip rows);
            (es, final) = run_entries dn opening page
        in Some \<lparr>lv_opening = opening, lv_period_debit = sum_list (map (debit \<circ> snd) page),
             lv_period_credit = sum_list (map (credit \<circ> snd) page), lv_closing = final,
             lv_entries = es, lv_total = length rows\<rparr>)"

section \<open>Trial balance\<close>

record tb_line =
  tb_account :: uuid
  tb_opening :: decimal
  tb_period_debit :: decimal
  tb_period_credit :: decimal
  tb_debit_balance :: decimal
  tb_credit_balance :: decimal
  tb_net :: decimal

definition tb_row :: "fin \<Rightarrow> date \<Rightarrow> uuid \<times> account \<Rightarrow> tb_line" where
  "tb_row s as_of = (\<lambda>(i, a).
     let pd = sum_over debit s i (\<lambda>d. d \<le> as_of); pc = sum_over credit s i (\<lambda>d. d \<le> as_of);
         net = signed_delta (debit_normal a) pd pc;
         pos = (if net \<ge> 0 then net else 0); neg = (if net < 0 then \<bar>net\<bar> else 0)
     in \<lparr>tb_account = i, tb_opening = opening_balance a, tb_period_debit = pd, tb_period_credit = pc,
         tb_debit_balance = (if debit_normal a then pos else neg),
         tb_credit_balance = (if debit_normal a then neg else pos), tb_net = net\<rparr>)"

record trial_balance =
  tb_total_debit :: decimal
  tb_total_credit :: decimal
  is_balanced :: bool
  tb_lines :: "tb_line list"

definition get_trial_balance :: "fin \<Rightarrow> date \<Rightarrow> trial_balance" where
  "get_trial_balance s as_of =
     (let rows = map (tb_row s as_of) (filter (\<lambda>(i, a). \<not> acc_is_deleted a \<and> acc_is_active a) (accounts s));
          td = sum_list (map tb_debit_balance rows); tc = sum_list (map tb_credit_balance rows)
      in \<lparr>tb_total_debit = td, tb_total_credit = tc, is_balanced = (td = tc), tb_lines = rows\<rparr>)"

section \<open>The ledger of one account\<close>

lemma run_entries_final:
  "snd (run_entries dn r rows) = r + sum_list (map (\<lambda>(j, l). signed_delta dn (debit l) (credit l)) rows)"
  by (induction dn r rows rule: run_entries.induct) (auto simp: Let_def case_prod_unfold add.assoc)

lemma length_run_entries: "length (fst (run_entries dn r rows)) = length rows"
  by (induction dn r rows rule: run_entries.induct) (auto simp: Let_def case_prod_unfold)

lemma run_entries_nth:
  "k < length rows \<Longrightarrow> le_running (fst (run_entries dn r rows) ! k) =
     r + sum_list (map (\<lambda>(j, l). signed_delta dn (debit l) (credit l)) (take (Suc k) rows))"
  by (induction dn r rows arbitrary: k rule: run_entries.induct)
    (auto simp: Let_def case_prod_unfold nth_Cons' add.assoc take_Cons' less_Suc_eq_0_disj)

lemma sum_list_map_signed:
  "sum_list (map (\<lambda>(j, l). signed_delta dn (debit l) (credit l)) rows) =
     signed_delta dn (sum_list (map (debit \<circ> snd) rows)) (sum_list (map (credit \<circ> snd) rows))"
  by (induction rows) (auto simp: signed_delta_def)

lemma sum_list_sort_key:
  fixes f :: "'a \<Rightarrow> 'v::comm_monoid_add"
  shows "sum_list (map f (sort_key k xs)) = sum_list (map f xs)"
  by (metis mset_map mset_sort sum_mset_sum_list)

lemma sum_list_filter_if:
  "sum_list (map f (filter P xs)) = sum_list (map (\<lambda>x. if P x then f x else (0::'v::comm_monoid_add)) xs)"
  by (induction xs) auto

lemma sum_list_line_rows:
  "sum_list (map (f \<circ> snd) (concat (map (\<lambda>j. map (Pair j) (g j)) js))) =
     sum_list (map (\<lambda>j. sum_list (map f (g j))) js)"
  by (induction js) (simp_all add: comp_def)

lemma ledger_rows_sum:
  "sum_list (map (f \<circ> snd) (ledger_rows s i a b)) = sum_over f s i (in_range a b)"
  unfolding ledger_rows_def sum_list_line_rows
  by (simp add: sum_list_sort_key sum_list_filter_if sum_over_def sum_rows_def case_prod_unfold comp_def)

section \<open>The ledger against the account balances\<close>

definition ledger_net :: "fin \<Rightarrow> uuid \<Rightarrow> decimal" where
  "ledger_net s i = sum_rows (\<lambda>j. if counted j then net_on i (lines j) else 0) (journals s)"

lemma net_on_lines_of:
  "net_on i ls = sum_list (map debit (lines_of i ls)) - sum_list (map credit (lines_of i ls))"
  by (induction ls) (auto simp: lines_of_def)

lemma sum_over_net: "sum_over debit s i (\<lambda>_. True) - sum_over credit s i (\<lambda>_. True) = ledger_net s i"
  unfolding sum_over_def ledger_net_def sum_rows_def
  by (simp add: sum_list_subtractf [symmetric] net_on_lines_of case_prod_unfold if_distrib cong: if_cong)

text \<open>The balance of each account is its opening balance plus what the ledger says.\<close>

definition account_agrees :: "fin \<Rightarrow> uuid \<Rightarrow> account \<Rightarrow> bool" where
  "account_agrees s i a =
     (current_balance a = opening_balance a + signed_delta (debit_normal a) (ledger_net s i) 0)"

definition books_agree :: "fin \<Rightarrow> bool" where
  "books_agree s = list_all (\<lambda>(i, a). account_agrees s i a) (accounts s)"

lemma books_agree_get:
  "books_agree s \<Longrightarrow> get (accounts s) i = Some a \<Longrightarrow> account_agrees s i a"
  by (auto simp: books_agree_def list_all_iff dest: get_in_set)

lemma books_agreeI:
  assumes "distinct (keys (accounts s))"
    and "\<And>i a. get (accounts s) i = Some a \<Longrightarrow> account_agrees s i a"
  shows "books_agree s"
  using assms by (auto simp: books_agree_def list_all_iff intro: in_set_get)

lemma ledger_net_modify:
  assumes "distinct (keys (journals s))" and "get (journals s) k = Some j" and "lines (f j) = lines j"
  shows "ledger_net (s\<lparr>journals := modify k f (journals s)\<rparr>) i =
     ledger_net s i + ((if counted (f j) then 1 else 0) - (if counted j then 1 else 0)) * net_on i (lines j)"
  using assms by (auto simp: ledger_net_def sum_rows_modify)

lemma ledger_net_cong: "journals s' = journals s \<Longrightarrow> ledger_net s' i = ledger_net s i"
  by (simp add: ledger_net_def)

lemma post_journal_ledger_net:
  assumes wf: "wf_fin s" and post: "post_journal s k user now = Inr s'" and j: "get (journals s) k = Some j"
  shows "ledger_net s' i = ledger_net s i + net_on i (lines j)"
proof -
  from post obtain j0 s1 where j0: "get (journals s) k = Some j0" "\<not> j_is_deleted j0"
    "j_status j0 = JDraft \<or> j_status j0 = JApproved" "\<not> blocked (journal_period s j0)"
    "total_debit j0 = total_credit j0" "0 < total_debit j0" "2 \<le> length (lines j0)"
    "fold_res post_line (lines j0) s = Inr s1"
    and s': "s' = emit [Audit ''POST'' ''Journal'' k, Publish ''JournalPosted'' k]
       (s1\<lparr>journals := modify k (mark_posted user now) (journals s),
           posting_queue := update_queue (reference_id j0) now (posting_queue s)\<rparr>)"
    by (rule post_journalD)
  have "ledger_net s' i = ledger_net (s\<lparr>journals := modify k (mark_posted user now) (journals s)\<rparr>) i"
    by (rule ledger_net_cong) (simp add: s')
  also have "\<dots> = ledger_net s i + net_on i (lines j)"
    using ledger_net_modify [OF wf_fin_distinct(2) [OF wf] j, of "mark_posted user now" i] j0 j
    by (auto simp: counted_def mark_posted_def)
  finally show ?thesis .
qed

lemma post_journal_accounts:
  assumes post: "post_journal s k user now = Inr s'" and j: "get (journals s) k = Some j"
  shows "keys (accounts s') = keys (accounts s)"
    and "get (accounts s') i = map_option (\<lambda>a. a\<lparr>current_balance := current_balance a +
           signed_delta (debit_normal a) (net_on i (lines j)) 0\<rparr>) (get (accounts s) i)"
proof -
  from post obtain j0 s1 where j0: "get (journals s) k = Some j0" "\<not> j_is_deleted j0"
    "j_status j0 = JDraft \<or> j_status j0 = JApproved" "\<not> blocked (journal_period s j0)"
    "total_debit j0 = total_credit j0" "0 < total_debit j0" "2 \<le> length (lines j0)"
    and f: "fold_res post_line (lines j0) s = Inr s1"
    and s': "s' = emit [Audit ''POST'' ''Journal'' k, Publish ''JournalPosted'' k]
       (s1\<lparr>journals := modify k (mark_posted user now) (journals s),
           posting_queue := update_queue (reference_id j0) now (posting_queue s)\<rparr>)"
    by (rule post_journalD)
  from post_lines_balances [OF f] j j0 have m: "balances_moved s s1 (\<lambda>i. net_on i (lines j))" by simp
  then show "keys (accounts s') = keys (accounts s)" by (simp add: s' balances_moved_frame)
  from m show "get (accounts s') i = map_option (\<lambda>a. a\<lparr>current_balance := current_balance a +
           signed_delta (debit_normal a) (net_on i (lines j)) 0\<rparr>) (get (accounts s) i)"
    by (auto simp: s' balances_moved_def signed_delta_def intro!: option.map_cong)
qed

lemma post_journal_agree:
  assumes wf: "wf_fin s" and ok: "books_agree s" and post: "post_journal s k user now = Inr s'"
  shows "books_agree s'"
proof -
  from post obtain j where j: "get (journals s) k = Some j" by (elim post_journalD)
  show ?thesis
  proof (rule books_agreeI)
    show "distinct (keys (accounts s'))"
      using wf by (simp add: post_journal_accounts(1) [OF post j] wf_fin_distinct)
    fix i a assume "get (accounts s') i = Some a"
    then obtain a0 where a0: "get (accounts s) i = Some a0"
      and a: "a = a0\<lparr>current_balance := current_balance a0 + signed_delta (debit_normal a0) (net_on i (lines j)) 0\<rparr>"
      by (auto simp: post_journal_accounts(2) [OF post j])
    from ok a0 have "account_agrees s i a0" by (rule books_agree_get)
    then show "account_agrees s' i a"
      by (simp add: a account_agrees_def post_journal_ledger_net [OF wf post j] signed_delta_def debit_normal_def)
  qed
qed

section \<open>The trial balance balances\<close>

definition touches_listed :: "fin \<Rightarrow> bool" where
  "touches_listed s =
     all_rows (\<lambda>j. counted j \<longrightarrow>
       list_all (\<lambda>l. case get (accounts s) (jl_account_id l) of
           None \<Rightarrow> False | Some a \<Rightarrow> \<not> acc_is_deleted a \<and> acc_is_active a) (lines j)) (journals s)"

lemma sum_list_single:
  "distinct ks \<Longrightarrow> k \<in> set ks \<Longrightarrow> sum_list (map (\<lambda>i. if k = i then x else (0::decimal)) ks) = x"
proof (induction ks)
  case (Cons a ks)
  have "sum_list (map (\<lambda>i. if k = i then x else (0::decimal)) ks) = 0" if "k \<notin> set ks"
    using that by (induction ks) auto
  with Cons show ?case by auto
qed simp

lemma sum_net_on:
  assumes "distinct is" and "list_all (\<lambda>l. jl_account_id l \<in> set is) ls"
  shows "sum_list (map (\<lambda>i. net_on i ls) is) = sum_debit ls - sum_credit ls"
  using assms(2)
proof (induction ls)
  case Nil
  then show ?case by (simp add: sum_debit_def sum_credit_def)
next
  case (Cons l ls)
  have "sum_list (map (\<lambda>i. if jl_account_id l = i then debit l - credit l else 0) is) = debit l - credit l"
    using Cons.prems assms(1) by (simp add: sum_list_single)
  with Cons show ?case by (simp add: sum_list_addf sum_debit_def sum_credit_def)
qed

lemma tb_row_diff:
  "tb_debit_balance (tb_row s d (i, a)) - tb_credit_balance (tb_row s d (i, a)) =
     sum_over debit s i (\<lambda>x. x \<le> d) - sum_over credit s i (\<lambda>x. x \<le> d)"
  by (auto simp: tb_row_def Let_def signed_delta_def)

lemma sum_over_diff:
  "sum_over debit s i P - sum_over credit s i P =
     sum_rows (\<lambda>j. if counted j \<and> P (posting_date j) then net_on i (lines j) else 0) (journals s)"
  unfolding sum_over_def sum_rows_def
  by (simp add: sum_list_subtractf [symmetric] net_on_lines_of case_prod_unfold if_distrib cong: if_cong)

lemma sum_list_swap:
  fixes f :: "'a \<Rightarrow> 'b \<Rightarrow> 'v::comm_monoid_add"
  shows "sum_list (map (\<lambda>x. sum_list (map (f x) ys)) xs) = sum_list (map (\<lambda>y. sum_list (map (\<lambda>x. f x y) xs)) ys)"
  by (induction xs) (simp_all add: sum_list_addf)

lemma trial_balance_difference:
  assumes wf: "wf_fin s" and ok: "journals_ok s" and listed: "touches_listed s"
  shows "tb_total_debit (get_trial_balance s d) = tb_total_credit (get_trial_balance s d)"
proof -
  define act where "act = filter (\<lambda>(i, a). \<not> acc_is_deleted a \<and> acc_is_active a) (accounts s)"
  have dist: "distinct (map fst act)"
    using wf_fin_distinct(1) [OF wf] unfolding act_def keys_def by (simp add: distinct_map_filter)
  have row: "(if counted j \<and> posting_date j \<le> d then sum_list (map (\<lambda>i. net_on i (lines j)) (map fst act)) else 0) = 0"
    if "(k, j) \<in> set (journals s)" for k j
  proof (cases "counted j")
    case True
    from listed that True have "list_all (\<lambda>l. jl_account_id l \<in> set (map fst act)) (lines j)"
      by (force simp: touches_listed_def all_rows_iff list_all_iff act_def dest: get_in_set split: option.splits)
    then have "sum_list (map (\<lambda>i. net_on i (lines j)) (map fst act)) = sum_debit (lines j) - sum_credit (lines j)"
      by (rule sum_net_on [OF dist])
    moreover have "journal_ok j" using ok that by (auto simp: journals_ok_def all_rows_iff)
    ultimately show ?thesis by (simp add: journal_ok_def)
  qed simp
  have "tb_total_debit (get_trial_balance s d) - tb_total_credit (get_trial_balance s d)
      = sum_list (map (\<lambda>p. sum_over debit s (fst p) (\<lambda>x. x \<le> d) - sum_over credit s (fst p) (\<lambda>x. x \<le> d)) act)"
    by (simp add: get_trial_balance_def Let_def act_def [symmetric] sum_list_subtractf [symmetric] comp_def)
      (rule arg_cong [where f = sum_list], auto simp: tb_row_diff)
  also have "\<dots> = sum_list (map (\<lambda>i. sum_list (map (\<lambda>p. if counted (snd p) \<and> posting_date (snd p) \<le> d
      then net_on i (lines (snd p)) else 0) (journals s))) (map fst act))"
    by (simp add: sum_over_diff sum_rows_def case_prod_unfold comp_def)
  also have "\<dots> = sum_list (map (\<lambda>p. sum_list (map (\<lambda>i. if counted (snd p) \<and> posting_date (snd p) \<le> d
      then net_on i (lines (snd p)) else 0) (map fst act))) (journals s))"
    by (rule sum_list_swap)
  also have "\<dots> = sum_list (map (\<lambda>p. 0) (journals s))"
  proof (intro arg_cong [where f = sum_list] map_cong refl)
    fix p assume "p \<in> set (journals s)"
    with row [of "fst p" "snd p"]
    show "sum_list (map (\<lambda>i. if counted (snd p) \<and> posting_date (snd p) \<le> d
      then net_on i (lines (snd p)) else 0) (map fst act)) = 0"
      by (auto simp: comp_def split: if_splits)
  qed
  finally show ?thesis by simp
qed

end
