(* ===== verification/FinanceSystem.thy ===== *)
theory FinanceSystem
  imports ChartOfAccounts FiscalCalendar GeneralLedger
begin

text \<open>
  The finance core as a transition system: one step is one successful call of an operation of
  \<open>ChartOfAccountsService\<close>, \<open>FiscalService\<close>, \<open>JournalService\<close> or \<open>PostingEngineService\<close>
  (\<^verbatim>\<open>src/app/services/finance_services.py\<close>), a call that raises changes nothing. Journal types
  are configuration: the initial states hold any of them.

  The lemmas show the invariant of the reachable states and how a step moves journals, periods
  and the accounting equation.
\<close>

section \<open>Steps\<close>

inductive fin_step :: "fin \<Rightarrow> fin \<Rightarrow> bool" where
  create_account: "create_account s ac = Inr (i, s') \<Longrightarrow> fin_step s s'"
| update_account: "update_account s i au = Inr s' \<Longrightarrow> fin_step s s'"
| delete_account: "delete_account s i = Inr s' \<Longrightarrow> fin_step s s'"
| create_year: "create_fiscal_year s yc = Inr (i, s') \<Longrightarrow> fin_step s s'"
| create_period: "create_fiscal_period s p = Inr (i, s') \<Longrightarrow> fin_step s s'"
| lock: "lock_period s i b = Inr s' \<Longrightarrow> fin_step s s'"
| close: "close_period s i = Inr s' \<Longrightarrow> fin_step s s'"
| close_year: "close_fiscal_year s i = Inr s' \<Longrightarrow> fin_step s s'"
| create_journal: "create_journal s jc suffix = Inr (i, s') \<Longrightarrow> fin_step s s'"
| update_journal: "update_journal s i ju = Inr s' \<Longrightarrow> fin_step s s'"
| delete_journal: "delete_journal s i = Inr s' \<Longrightarrow> fin_step s s'"
| cancel_journal: "cancel_journal s i = Inr s' \<Longrightarrow> fin_step s s'"
| post_journal: "post_journal s i user now = Inr s' \<Longrightarrow> fin_step s s'"
| reverse_journal: "reverse_journal s i reason user now = Inr (r, s') \<Longrightarrow> fin_step s s'"

definition fin_init :: "fin \<Rightarrow> bool" where
  "fin_init s =
     (accounts s = [] \<and> fiscal_years s = [] \<and> fiscal_periods s = [] \<and> journals s = [] \<and>
      wf_table (next_id s) (journal_types s))"

inductive fin_reachable :: "fin \<Rightarrow> bool" where
  init: "fin_init s \<Longrightarrow> fin_reachable s"
| step: "fin_reachable s \<Longrightarrow> fin_step s s' \<Longrightarrow> fin_reachable s'"

section \<open>What a step leaves alone\<close>

text \<open>An operation on the chart: journals and periods are untouched.\<close>

definition same_books :: "fin \<Rightarrow> fin \<Rightarrow> bool" where
  "same_books s s' = (journals s' = journals s \<and> fiscal_periods s' = fiscal_periods s \<and>
     fiscal_years s' = fiscal_years s \<and> journal_types s' = journal_types s)"

text \<open>An operation on the calendar: accounts and journals are untouched.\<close>

definition same_entries :: "fin \<Rightarrow> fin \<Rightarrow> bool" where
  "same_entries s s' = (journals s' = journals s \<and> accounts s' = accounts s \<and> journal_types s' = journal_types s)"

text \<open>An operation on journals: the calendar is untouched.\<close>

definition same_calendar :: "fin \<Rightarrow> fin \<Rightarrow> bool" where
  "same_calendar s s' = (fiscal_periods s' = fiscal_periods s \<and> fiscal_years s' = fiscal_years s \<and>
     journal_types s' = journal_types s)"

lemma chart_frame:
  "create_account s ac = Inr (i, s') \<Longrightarrow> same_books s s'"
  "update_account s i au = Inr s' \<Longrightarrow> same_books s s'"
  "delete_account s i = Inr s' \<Longrightarrow> same_books s s'"
  by (auto simp: same_books_def create_account_def update_account_def delete_account_def Let_def
      split: option.splits if_splits)

lemma calendar_frame:
  "create_fiscal_year s yc = Inr (i, s') \<Longrightarrow> same_entries s s'"
  "create_fiscal_period s p = Inr (i, s') \<Longrightarrow> same_entries s s'"
  "lock_period s i b = Inr s' \<Longrightarrow> same_entries s s'"
  "close_period s i = Inr s' \<Longrightarrow> same_entries s s'"
  "close_fiscal_year s i = Inr s' \<Longrightarrow> same_entries s s'"
  by (auto simp: same_entries_def create_fiscal_year_def create_fiscal_period_def lock_period_def
      close_period_def close_fiscal_year_def Let_def split: option.splits if_splits)

lemma reverse_lines_frame [simp]:
  "fiscal_periods (fold reverse_line ls s) = fiscal_periods s"
  "fiscal_years (fold reverse_line ls s) = fiscal_years s"
  "journal_types (fold reverse_line ls s) = journal_types s"
  "journals (fold reverse_line ls s) = journals s"
  "next_id (fold reverse_line ls s) = next_id s"
  "keys (accounts (fold reverse_line ls s)) = keys (accounts s)"
  by (induction ls arbitrary: s) (auto simp: reverse_line_def split: option.splits)

lemma post_journal_frame:
  assumes "post_journal s i user now = Inr s'"
  shows "same_calendar s s'" "keys (journals s') = keys (journals s)" "next_id s' = next_id s"
    "keys (accounts s') = keys (accounts s)"
    "journals s' = modify i (mark_posted user now) (journals s)"
proof -
  from assms obtain j s1 where "get (journals s) i = Some j" "\<not> j_is_deleted j"
    "j_status j = JDraft \<or> j_status j = JApproved" "\<not> blocked (journal_period s j)"
    "total_debit j = total_credit j" "0 < total_debit j" "2 \<le> length (lines j)"
    and f: "fold_res post_line (lines j) s = Inr s1"
    and s': "s' = emit [Audit ''POST'' ''Journal'' i, Publish ''JournalPosted'' i]
       (s1\<lparr>journals := modify i (mark_posted user now) (journals s),
           posting_queue := update_queue (reference_id j) now (posting_queue s)\<rparr>)"
    by (rule post_journalD)
  note fr = balances_moved_frame [OF conjunct1 [OF post_lines_balances [OF f]]]
  show "same_calendar s s'" "keys (journals s') = keys (journals s)" "next_id s' = next_id s"
    "keys (accounts s') = keys (accounts s)"
    "journals s' = modify i (mark_posted user now) (journals s)"
    by (simp_all add: s' same_calendar_def fr tbl.dom_upd)
qed

lemma journals_frame:
  "create_journal s jc suffix = Inr (i, s') \<Longrightarrow> same_calendar s s'"
  "update_journal s i ju = Inr s' \<Longrightarrow> same_calendar s s'"
  "delete_journal s i = Inr s' \<Longrightarrow> same_calendar s s'"
  "cancel_journal s i = Inr s' \<Longrightarrow> same_calendar s s'"
  "reverse_journal s i reason user now = Inr (r, s') \<Longrightarrow> same_calendar s s'"
  by (auto simp: same_calendar_def elim!: create_journalD update_journalD delete_journalD cancel_journalD
      reverse_journalD)

section \<open>Keys stay distinct and fresh\<close>

lemma chart_wf:
  "wf_fin s \<Longrightarrow> create_account s ac = Inr (i, s') \<Longrightarrow> wf_fin s'"
  "wf_fin s \<Longrightarrow> update_account s i au = Inr s' \<Longrightarrow> wf_fin s'"
  "wf_fin s \<Longrightarrow> delete_account s i = Inr s' \<Longrightarrow> wf_fin s'"
  by (auto simp: create_account_def update_account_def delete_account_def Let_def wf_fin_def table_simps
      intro: wf_table_add_row wf_table_mono split: option.splits if_splits)

lemma wf_table_zip:
  assumes "wf_table n t" and "n \<le> m" and "length xs = k"
  shows "wf_table (m + k) (t @ zip [m..<m + k] xs)"
proof -
  have "keys (t @ zip [m..<m + k] xs) = keys t @ [m..<m + k]" using assms(3) by (simp add: keys_def)
  with assms show ?thesis by (force simp: wf_table_def list_all_iff)
qed

lemma create_year_wf:
  assumes wf: "wf_fin s" and cr: "create_fiscal_year s yc = Inr (i, s')"
  shows "wf_fin s'"
proof -
  from cr have i: "i = next_id s" and n: "next_id s' = i + 13"
    and y: "\<exists>fy. fiscal_years s' = add_row i fy (fiscal_years s)"
    by (auto simp: create_fiscal_year_def Let_def add_monthly_periods_rows split: if_splits)
  have p: "fiscal_periods s' = fiscal_periods s @
      zip [i + 1..<i + 1 + 12] (map (monthly_period i (year (yc_start yc))) [1..<13])"
    using create_fiscal_year_periods [OF cr] by (simp add: add.commute)
  have "wf_table (i + 1 + 12) (fiscal_periods s')"
    unfolding p using wf i by (intro wf_table_zip) (auto simp: wf_fin_def)
  moreover from y obtain fy where "fiscal_years s' = add_row i fy (fiscal_years s)" ..
  then have "wf_table (i + 13) (fiscal_years s')"
    using wf i by (auto simp: wf_fin_def intro: wf_table_add_row)
  ultimately show ?thesis
    using wf i n calendar_frame(1) [OF cr] by (auto simp: wf_fin_def same_entries_def intro: wf_table_mono)
qed

lemma wf_close_periods [simp]: "wf_table n (close_periods_of_year y t) = wf_table n t"
  by (simp add: wf_table_def keys_close_periods)

lemma calendar_wf:
  "wf_fin s \<Longrightarrow> create_fiscal_period s p = Inr (i, s') \<Longrightarrow> wf_fin s'"
  "wf_fin s \<Longrightarrow> lock_period s i b = Inr s' \<Longrightarrow> wf_fin s'"
  "wf_fin s \<Longrightarrow> close_period s i = Inr s' \<Longrightarrow> wf_fin s'"
  "wf_fin s \<Longrightarrow> close_fiscal_year s i = Inr s' \<Longrightarrow> wf_fin s'"
  by (auto simp: create_fiscal_period_def lock_period_def close_period_def close_fiscal_year_def Let_def
      wf_fin_def table_simps intro: wf_table_add_row wf_table_mono split: option.splits if_splits)

lemma journals_wf:
  "wf_fin s \<Longrightarrow> create_journal s jc suffix = Inr (i, s') \<Longrightarrow> wf_fin s'"
  "wf_fin s \<Longrightarrow> update_journal s i ju = Inr s' \<Longrightarrow> wf_fin s'"
  "wf_fin s \<Longrightarrow> delete_journal s i = Inr s' \<Longrightarrow> wf_fin s'"
  "wf_fin s \<Longrightarrow> cancel_journal s i = Inr s' \<Longrightarrow> wf_fin s'"
  by (auto simp: wf_fin_def table_simps intro: wf_table_add_row wf_table_mono
      elim!: create_journalD update_journalD delete_journalD cancel_journalD)

lemma wf_fin_keys:
  assumes "wf_fin s" and "keys (accounts s') = keys (accounts s)" and "same_calendar s s'"
    and "wf_table (next_id s') (journals s')" and "next_id s \<le> next_id s'"
  shows "wf_fin s'"
  using assms unfolding wf_fin_def same_calendar_def wf_table_def by (auto simp: list_all_iff)

lemma post_wf: "wf_fin s \<Longrightarrow> post_journal s i user now = Inr s' \<Longrightarrow> wf_fin s'"
  by (rule wf_fin_keys [where s = s])
    (use post_journal_frame in \<open>force simp: wf_fin_def wf_table_def\<close>)+

lemma reverse_wf:
  assumes "wf_fin s" and "reverse_journal s i reason user now = Inr (r, s')"
  shows "wf_fin s'"
  using assms(2)
  by (rule reverse_journalD)
    (rule wf_fin_keys [OF assms(1)],
     use assms(1) in \<open>auto simp: same_calendar_def wf_fin_def table_simps intro: wf_table_add_row\<close>)

section \<open>Reversals are balanced too\<close>

lemma map_swap_lines:
  "map debit (map swap_line (enumerate n ls)) = map credit ls"
  "map credit (map swap_line (enumerate n ls)) = map debit ls"
  "map jl_account_id (map swap_line (enumerate n ls)) = map jl_account_id ls"
  by (induction ls arbitrary: n) (auto simp: swap_line_def)

lemma swap_lines_one_sided: "list_all one_sided ls \<Longrightarrow> list_all one_sided (map swap_line (enumerate n ls))"
  by (induction ls arbitrary: n) (auto simp: swap_line_def one_sided_def)

lemma net_on_swap: "net_on i (map swap_line (enumerate n ls)) = - net_on i ls"
  by (induction ls arbitrary: n) (auto simp: swap_line_def)

lemma reversal_journal_fields [simp]:
  "lines (reversal_journal j i p reason user now) = map swap_line (enumerate 1 (lines j))"
  "total_debit (reversal_journal j i p reason user now) = total_credit j"
  "total_credit (reversal_journal j i p reason user now) = total_debit j"
  "j_status (reversal_journal j i p reason user now) = JPosted"
  "j_is_deleted (reversal_journal j i p reason user now) = False"
  by (simp_all add: reversal_journal_def)

lemma reversal_journal_ok: "journal_ok j \<Longrightarrow> journal_ok (reversal_journal j i p reason user now)"
  by (auto simp: journal_ok_def sum_debit_def sum_credit_def map_swap_lines swap_lines_one_sided simp del: map_map)

lemma mark_posted_fields [simp]:
  "lines (mark_posted user now j) = lines j" "j_status (mark_posted user now j) = JPosted"
  "j_is_deleted (mark_posted user now j) = j_is_deleted j"
  "journal_ok (mark_posted user now j) = journal_ok j"
  by (simp_all add: mark_posted_def journal_ok_def)

lemma mark_reversed_fields [simp]:
  "lines (mark_reversed r reason j) = lines j" "j_status (mark_reversed r reason j) = JReversed"
  "j_is_deleted (mark_reversed r reason j) = j_is_deleted j"
  "journal_ok (mark_reversed r reason j) = journal_ok j"
  by (simp_all add: mark_reversed_def journal_ok_def)

lemma post_journals_ok:
  assumes "journals_ok s" and "wf_fin s" and "post_journal s i user now = Inr s'"
  shows "journals_ok s'"
  unfolding journals_ok_def post_journal_frame(5) [OF assms(3)]
  using assms(1,2) by (rule journals_ok_modify) simp

lemma reverse_journals:
  assumes wf: "wf_fin s" and rev: "reverse_journal s i reason user now = Inr (r, s')"
  obtains j p where "get (journals s) i = Some j" "j_status j = JPosted" "\<not> j_is_deleted j" "r = next_id s"
    "\<not> blocked (journal_period s j)"
    "journals s' = modify i (mark_reversed r reason) (add_row r (reversal_journal j i p reason user now) (journals s))"
    "accounts s' = accounts (fold reverse_line (lines j) (s\<lparr>journals :=
        add_row r (reversal_journal j i p reason user now) (journals s), next_id := next_id s + 1\<rparr>))"
  using rev by (rule reverse_journalD) (auto intro: that)

lemma reverse_journals_ok:
  assumes ok: "journals_ok s" and wf: "wf_fin s" and rev: "reverse_journal s i reason user now = Inr (r, s')"
  shows "journals_ok s'"
  using wf rev
proof (rule reverse_journals)
  fix j p
  assume j: "get (journals s) i = Some j" and r: "r = next_id s"
    and s': "journals s' = modify i (mark_reversed r reason) (add_row r (reversal_journal j i p reason user now) (journals s))"
  have "journal_ok j" using ok j by (auto simp: journals_ok_def dest: all_rows_get)
  then have "all_rows journal_ok (add_row r (reversal_journal j i p reason user now) (journals s))"
    using ok by (simp add: journals_ok_def all_rows_add_row reversal_journal_ok)
  moreover have "distinct (keys (add_row r (reversal_journal j i p reason user now) (journals s)))"
    using wf r by (auto simp: wf_fin_def wf_table_def table_simps list_all_iff)
  ultimately show ?thesis
    unfolding s' journals_ok_def by (intro all_rows_modify) (auto dest: all_rows_get)
qed

section \<open>Posted journals and the accounts they use\<close>

text \<open>Every account of a journal that is posted and not deleted is still there.\<close>

definition uses_live :: "fin \<Rightarrow> journal \<Rightarrow> bool" where
  "uses_live s j = (counted j \<longrightarrow> list_all (\<lambda>l. get_account s (jl_account_id l) \<noteq> None) (lines j))"

definition posted_live :: "fin \<Rightarrow> bool" where
  "posted_live s = all_rows (uses_live s) (journals s)"

lemma posted_live_mono:
  assumes "posted_live s" and "journals s' = journals s"
    and "\<And>i. get_account s i \<noteq> None \<Longrightarrow> get_account s' i \<noteq> None"
  shows "posted_live s'"
proof -
  have "uses_live s' j" if "uses_live s j" for j
    using that assms(3) by (auto simp: uses_live_def list_all_iff)
  with assms(1,2) show ?thesis by (auto simp: posted_live_def all_rows_iff)
qed

lemma get_account_cong: "accounts s' = accounts s \<Longrightarrow> get_account s' i = get_account s i"
  by (simp add: get_account_def)

lemma uses_live_cong: "accounts s' = accounts s \<Longrightarrow> uses_live s' j = uses_live s j"
  by (simp add: uses_live_def get_account_def)

lemma uses_live_same:
  "(\<And>k. (get_account s' k = None) = (get_account s k = None)) \<Longrightarrow> uses_live s' = uses_live s"
  by (rule ext) (simp add: uses_live_def)

lemma calendar_posted_live:
  assumes "posted_live s" and "same_entries s s'"
  shows "posted_live s'"
  by (rule posted_live_mono [OF assms(1)]) (use assms(2) in \<open>simp_all add: same_entries_def get_account_def\<close>)

lemma create_account_posted_live:
  assumes "posted_live s" and "create_account s ac = Inr (i, s')"
  shows "posted_live s'"
proof (rule posted_live_mono [OF assms(1)])
  show "journals s' = journals s" using chart_frame(1) [OF assms(2)] by (simp add: same_books_def)
  have "accounts s' = add_row i (account_row ac) (accounts s)"
    using assms(2) by (auto simp: create_account_def Let_def split: if_splits)
  then show "get_account s k \<noteq> None \<Longrightarrow> get_account s' k \<noteq> None" for k
    by (auto simp: get_account_def get_add_row_eq split: option.splits if_splits)
qed

lemma update_account_posted_live:
  assumes "posted_live s" and "update_account s i u = Inr s'"
  shows "posted_live s'"
proof (rule posted_live_mono [OF assms(1)])
  show "journals s' = journals s" using chart_frame(2) [OF assms(2)] by (simp add: same_books_def)
  have "accounts s' = modify i (apply_account_update u) (accounts s)"
    using assms(2) by (auto simp: update_account_def split: option.splits if_splits)
  then show "get_account s k \<noteq> None \<Longrightarrow> get_account s' k \<noteq> None" for k
    by (auto simp: get_account_def tbl.lookup_upd apply_account_update_def split: option.splits if_splits)
qed

text \<open>The guard of the deletion is what keeps the accounts of posted journals.\<close>

lemma delete_account_posted_live:
  assumes ok: "posted_live s" and del: "delete_account s i = Inr s'"
  shows "posted_live s'"
proof -
  from del have acc: "accounts s' = modify i (\<lambda>a. a\<lparr>acc_is_deleted := True\<rparr>) (accounts s)"
    and unused: "\<not> has_posted_transactions s i"
    by (auto simp: delete_account_def split: option.splits if_splits)
  have j: "journals s' = journals s" using chart_frame(3) [OF del] by (simp add: same_books_def)
  have keep: "get_account s k \<noteq> None \<Longrightarrow> k \<noteq> i \<Longrightarrow> get_account s' k \<noteq> None" for k
    by (auto simp: acc get_account_def tbl.lookup_upd split: option.splits if_splits)
  have "uses_live s' r" if "(k, r) \<in> set (journals s)" for k r
    using ok unused that keep
    by (fastforce simp: posted_live_def all_rows_iff uses_live_def counted_def has_posted_transactions_def
        exists_where_iff list_all_iff list_ex_iff)
  then show ?thesis by (auto simp: posted_live_def all_rows_iff j)
qed

lemma all_rows_cong:
  "all_rows P t \<Longrightarrow> (\<And>r. P r \<Longrightarrow> Q r) \<Longrightarrow> all_rows Q t"
  by (auto simp: all_rows_iff)

lemma journal_edit_posted_live:
  assumes "posted_live s" and "wf_fin s" and "accounts s' = accounts s"
    and "journals s' = modify i f (journals s)"
    and "\<And>j. get (journals s) i = Some j \<Longrightarrow> \<not> counted (f j)"
  shows "posted_live s'"
proof -
  have "all_rows (uses_live s) (modify i f (journals s))"
    using assms(1,2,5) by (intro all_rows_modify) (auto simp: posted_live_def uses_live_def wf_fin_distinct)
  then show ?thesis by (simp add: posted_live_def assms(3,4) uses_live_cong [OF assms(3), abs_def])
qed

lemma journals_posted_live:
  assumes ok: "posted_live s" and wf: "wf_fin s"
  shows "create_journal s jc suffix = Inr (i, s') \<Longrightarrow> posted_live s'"
    and "update_journal s i ju = Inr s' \<Longrightarrow> posted_live s'"
    and "delete_journal s i = Inr s' \<Longrightarrow> posted_live s'"
    and "cancel_journal s i = Inr s' \<Longrightarrow> posted_live s'"
proof -
  show "create_journal s jc suffix = Inr (i, s') \<Longrightarrow> posted_live s'"
  proof -
    assume cr: "create_journal s jc suffix = Inr (i, s')"
    then obtain j where "journals s' = add_row i j (journals s)" "\<not> counted j" and acc: "accounts s' = accounts s"
      by (rule create_journalD) (auto simp: counted_def draft_journal_def)
    with ok show "posted_live s'"
      by (simp add: posted_live_def all_rows_add_row uses_live_cong [OF acc, abs_def]) (simp add: uses_live_def)
  qed
  show "update_journal s i ju = Inr s' \<Longrightarrow> posted_live s'"
  proof (erule update_journalD)
    fix j j1 j2
    assume j: "j_status j \<notin> {JPosted, JCancelled, JReversed}" and h: "update_header s ju j = Inr j1"
      and l: "update_lines s ju j1 = Inr j2"
      and s': "s' = emit [Audit ''UPDATE'' ''Journal'' i] (s\<lparr>journals := modify i (\<lambda>_. j2) (journals s)\<rparr>)"
    have "j_status j2 = j_status j1" using l
      by (auto simp: update_lines_def split: option.splits sum.splits)
    with update_headerD(1) [OF h] j have "\<not> counted j2" by (auto simp: counted_def)
    then show "posted_live s'"
      using s' by (intro journal_edit_posted_live [OF ok wf, of s' i "\<lambda>_. j2"]) simp_all
  qed
  show "delete_journal s i = Inr s' \<Longrightarrow> posted_live s'"
    by (erule delete_journalD)
      (rule journal_edit_posted_live [OF ok wf, where i = i and f = "\<lambda>j. j\<lparr>j_is_deleted := True\<rparr>"], auto simp: counted_def)
  show "cancel_journal s i = Inr s' \<Longrightarrow> posted_live s'"
    by (erule cancel_journalD)
      (rule journal_edit_posted_live [OF ok wf, where i = i and f = "\<lambda>j. j\<lparr>j_status := JCancelled\<rparr>"], auto simp: counted_def)
qed

lemma post_posted_live:
  assumes ok: "posted_live s" and wf: "wf_fin s" and post: "post_journal s i user now = Inr s'"
  shows "posted_live s'"
proof -
  from post obtain j s1 where j: "get (journals s) i = Some j" "\<not> j_is_deleted j"
    "j_status j = JDraft \<or> j_status j = JApproved" "\<not> blocked (journal_period s j)"
    "total_debit j = total_credit j" "0 < total_debit j" "2 \<le> length (lines j)"
    and f: "fold_res post_line (lines j) s = Inr s1"
    and s': "s' = emit [Audit ''POST'' ''Journal'' i, Publish ''JournalPosted'' i]
       (s1\<lparr>journals := modify i (mark_posted user now) (journals s),
           posting_queue := update_queue (reference_id j) now (posting_queue s)\<rparr>)"
    by (rule post_journalD)
  from post_lines_balances [OF f] have m: "balances_moved s s1 (\<lambda>i. net_on i (lines j))"
    and live: "list_all (\<lambda>l. get_account s (jl_account_id l) \<noteq> None) (lines j)"
    by (auto simp: list_all_iff split: option.splits)
  have same: "get_account s' k = None \<longleftrightarrow> get_account s k = None" for k
    using balances_moved_get_account [OF m, of k] by (simp add: s' get_account_def)
  have "all_rows (uses_live s) (modify i (mark_posted user now) (journals s))"
    using ok wf live j(1) by (intro all_rows_modify) (auto simp: posted_live_def uses_live_def wf_fin_distinct)
  then show ?thesis by (simp add: posted_live_def uses_live_same [OF same]) (simp add: s')
qed

lemma fold_reverse_get_account:
  "get_account (fold reverse_line ls s) i = None \<longleftrightarrow> get_account s i = None"
proof (induction ls arbitrary: s)
  case (Cons l ls)
  have "get_account (reverse_line l s) i = None \<longleftrightarrow> get_account s i = None"
    by (auto simp: reverse_line_def balances_moved_get_account [OF balances_moved_change] split: option.splits)
  with Cons show ?case by simp
qed simp

lemma reverse_posted_live:
  assumes ok: "posted_live s" and wf: "wf_fin s" and rev: "reverse_journal s i reason user now = Inr (r, s')"
  shows "posted_live s'"
  using wf rev
proof (rule reverse_journals)
  fix j p
  let ?r = "reversal_journal j i p reason user now"
  assume j: "get (journals s) i = Some j" "j_status j = JPosted" "\<not> j_is_deleted j" and r: "r = next_id s"
    and s': "journals s' = modify i (mark_reversed r reason) (add_row r ?r (journals s))"
    and acc: "accounts s' = accounts (fold reverse_line (lines j)
      (s\<lparr>journals := add_row r ?r (journals s), next_id := next_id s + 1\<rparr>))"
  have same: "get_account s' k = None \<longleftrightarrow> get_account s k = None" for k
    using fold_reverse_get_account [of "lines j" _ k] get_account_cong [OF acc, of k]
    by (simp add: get_account_def)
  have "uses_live s j" using ok j by (auto simp: posted_live_def dest: all_rows_get)
  then have "list_all (\<lambda>a. get_account s a \<noteq> None) (map jl_account_id (lines j))"
    using j by (simp add: uses_live_def counted_def list.pred_map comp_def)
  then have "list_all (\<lambda>a. get_account s a \<noteq> None) (map jl_account_id (lines ?r))"
    by (simp add: map_swap_lines del: map_map)
  then have "uses_live s ?r" by (simp add: uses_live_def list.pred_map comp_def)
  then have "all_rows (uses_live s) (add_row r ?r (journals s))"
    using ok by (simp add: posted_live_def all_rows_add_row)
  moreover have "distinct (keys (add_row r ?r (journals s)))"
    using wf r by (auto simp: wf_fin_def wf_table_def table_simps list_all_iff)
  ultimately have "all_rows (uses_live s) (journals s')"
    unfolding s' by (intro all_rows_modify) (auto simp: uses_live_def counted_def)
  then show ?thesis by (simp add: posted_live_def uses_live_same [OF same])
qed

section \<open>The hierarchy through the other operations\<close>

lemma hierarchy_cong:
  "accounts s' = accounts s \<Longrightarrow> hierarchy_ok s \<Longrightarrow> hierarchy_ok s'"
  by (simp add: hierarchy_ok_def)

lemma child_rel_change:
  "child_rel (modify i (add_balance d c) t) = child_rel t"
proof -
  have "children (modify i (add_balance d c) t) p = children t p" for p
    unfolding children_def modify_def by (induction t) (auto split: if_splits)
  then show ?thesis by (simp add: child_rel_def)
qed

lemma change_balance_hierarchy: "hierarchy_ok s \<Longrightarrow> hierarchy_ok (change_balance i d c s)"
proof -
  assume ok: "hierarchy_ok s"
  have "all_rows (\<lambda>a. \<forall>p. acc_parent_id a = Some p \<longrightarrow> p \<in> K) (modify i (add_balance d c) t)
      = all_rows (\<lambda>a. \<forall>p. acc_parent_id a = Some p \<longrightarrow> p \<in> K) t" for K t
    unfolding all_rows_def modify_def by (induction t) (auto split: if_splits)
  with ok show ?thesis by (simp add: hierarchy_ok_def change_balance_def tbl.dom_upd child_rel_change)
qed

lemma post_lines_hierarchy:
  "fold_res post_line ls s = Inr s' \<Longrightarrow> hierarchy_ok s \<Longrightarrow> hierarchy_ok s'"
  by (rule fold_res_invariant [where I = hierarchy_ok])
    (auto elim!: post_lineD intro: change_balance_hierarchy)

lemma reverse_lines_hierarchy: "hierarchy_ok s \<Longrightarrow> hierarchy_ok (fold reverse_line ls s)"
  by (induction ls arbitrary: s)
    (auto simp: reverse_line_def change_balance_hierarchy split: option.splits)

lemma post_hierarchy:
  assumes ok: "hierarchy_ok s" and post: "post_journal s i user now = Inr s'"
  shows "hierarchy_ok s'"
  using post
proof (rule post_journalD)
  fix j s1
  assume f: "fold_res post_line (lines j) s = Inr s1"
    and s': "s' = emit [Audit ''POST'' ''Journal'' i, Publish ''JournalPosted'' i]
       (s1\<lparr>journals := modify i (mark_posted user now) (journals s),
           posting_queue := update_queue (reference_id j) now (posting_queue s)\<rparr>)"
  from post_lines_hierarchy [OF f ok] show ?thesis by (rule hierarchy_cong [rotated]) (simp add: s')
qed

lemma reverse_hierarchy:
  assumes ok: "hierarchy_ok s" and wf: "wf_fin s" and rev: "reverse_journal s i reason user now = Inr (r, s')"
  shows "hierarchy_ok s'"
  using wf rev
proof (rule reverse_journals)
  fix j p
  assume acc: "accounts s' = accounts (fold reverse_line (lines j) (s\<lparr>journals :=
        add_row r (reversal_journal j i p reason user now) (journals s), next_id := next_id s + 1\<rparr>))"
  show ?thesis
    by (rule hierarchy_cong [OF acc reverse_lines_hierarchy]) (rule hierarchy_cong [OF _ ok], simp)
qed

section \<open>The invariant\<close>

definition fin_inv :: "fin \<Rightarrow> bool" where
  "fin_inv s = (wf_fin s \<and> journals_ok s \<and> posted_live s \<and> hierarchy_ok s)"

lemma same_journals_ok: "journals_ok s \<Longrightarrow> journals s' = journals s \<Longrightarrow> journals_ok s'"
  by (simp add: journals_ok_def)

lemma calendar_inv: "fin_inv s \<Longrightarrow> same_entries s s' \<Longrightarrow> wf_fin s' \<Longrightarrow> fin_inv s'"
  by (auto simp: fin_inv_def same_entries_def intro: same_journals_ok hierarchy_cong
      calendar_posted_live [unfolded same_entries_def])

lemma journals_same_accounts:
  "create_journal s jc suffix = Inr (i, s') \<Longrightarrow> accounts s' = accounts s"
  "update_journal s i ju = Inr s' \<Longrightarrow> accounts s' = accounts s"
  "delete_journal s i = Inr s' \<Longrightarrow> accounts s' = accounts s"
  "cancel_journal s i = Inr s' \<Longrightarrow> accounts s' = accounts s"
  by (auto elim!: create_journalD update_journalD delete_journalD cancel_journalD)

lemma fin_step_inv:
  assumes "fin_step s s'" and inv: "fin_inv s"
  shows "fin_inv s'"
proof -
  have ok: "wf_fin s" "journals_ok s" "posted_live s" "hierarchy_ok s" using inv by (auto simp: fin_inv_def)
  show ?thesis
    using assms(1)
  proof cases
    case (create_account ac i)
    from create_account_posted_live [OF ok(3) this] create_account_hierarchy [OF ok(4) ok(1) this]
      chart_wf(1) [OF ok(1) this] chart_frame(1) [OF this] same_journals_ok [OF ok(2)]
    show ?thesis by (simp add: fin_inv_def same_books_def)
  next
    case (update_account i au)
    from update_account_posted_live [OF ok(3) this] update_account_hierarchy [OF ok(4) this]
      chart_wf(2) [OF ok(1) this] chart_frame(2) [OF this] same_journals_ok [OF ok(2)]
    show ?thesis by (simp add: fin_inv_def same_books_def)
  next
    case (delete_account i)
    from delete_account_posted_live [OF ok(3) this] delete_account_hierarchy [OF ok(4) this]
      chart_wf(3) [OF ok(1) this] chart_frame(3) [OF this] same_journals_ok [OF ok(2)]
    show ?thesis by (simp add: fin_inv_def same_books_def)
  next
    case (create_year yc i)
    from calendar_inv [OF inv calendar_frame(1) [OF this] create_year_wf [OF ok(1) this]] show ?thesis .
  next
    case (create_period p i)
    from calendar_inv [OF inv calendar_frame(2) [OF this] calendar_wf(1) [OF ok(1) this]] show ?thesis .
  next
    case (lock i b)
    from calendar_inv [OF inv calendar_frame(3) [OF this] calendar_wf(2) [OF ok(1) this]] show ?thesis .
  next
    case (close i)
    from calendar_inv [OF inv calendar_frame(4) [OF this] calendar_wf(3) [OF ok(1) this]] show ?thesis .
  next
    case (close_year i)
    from calendar_inv [OF inv calendar_frame(5) [OF this] calendar_wf(4) [OF ok(1) this]] show ?thesis .
  next
    case (create_journal jc suffix i)
    from journals_wf(1) [OF ok(1) this] create_journal_ok [OF ok(2) this] journals_posted_live(1) [OF ok(3,1) this]
      hierarchy_cong [OF journals_same_accounts(1) [OF this] ok(4)]
    show ?thesis by (simp add: fin_inv_def)
  next
    case (update_journal i ju)
    from journals_wf(2) [OF ok(1) this] update_journal_ok [OF ok(2,1) this] journals_posted_live(2) [OF ok(3,1) this]
      hierarchy_cong [OF journals_same_accounts(2) [OF this] ok(4)]
    show ?thesis by (simp add: fin_inv_def)
  next
    case (delete_journal i)
    from journals_wf(3) [OF ok(1) this] delete_journal_ok [OF ok(2,1) this] journals_posted_live(3) [OF ok(3,1) this]
      hierarchy_cong [OF journals_same_accounts(3) [OF this] ok(4)]
    show ?thesis by (simp add: fin_inv_def)
  next
    case (cancel_journal i)
    from journals_wf(4) [OF ok(1) this] cancel_journal_ok [OF ok(2,1) this] journals_posted_live(4) [OF ok(3,1) this]
      hierarchy_cong [OF journals_same_accounts(4) [OF this] ok(4)]
    show ?thesis by (simp add: fin_inv_def)
  next
    case (post_journal i user now)
    from post_wf [OF ok(1) this] post_journals_ok [OF ok(2,1) this] post_posted_live [OF ok(3,1) this]
      post_hierarchy [OF ok(4) this]
    show ?thesis by (simp add: fin_inv_def)
  next
    case (reverse_journal i reason user now r)
    from reverse_wf [OF ok(1) this] reverse_journals_ok [OF ok(2,1) this] reverse_posted_live [OF ok(3,1) this]
      reverse_hierarchy [OF ok(4,1) this]
    show ?thesis by (simp add: fin_inv_def)
  qed
qed

lemma fin_init_inv: "fin_init s \<Longrightarrow> fin_inv s"
  by (auto simp: fin_init_def fin_inv_def wf_fin_def journals_ok_def posted_live_def hierarchy_ok_def
      all_rows_def acyclic_def child_rel_def children_def)

lemma fin_reachable_inv: "fin_reachable s \<Longrightarrow> fin_inv s"
  by (induction rule: fin_reachable.induct) (auto intro: fin_init_inv fin_step_inv)

section \<open>The life cycle of a journal\<close>

text \<open>The transitions the four journal operations and the posting engine can make.\<close>

definition life_cycle :: "journal_status \<Rightarrow> journal_status list" where
  "life_cycle st = (case st of
      JDraft \<Rightarrow> [JDraft, JPosted, JCancelled]
    | JApproved \<Rightarrow> [JApproved, JPosted, JCancelled]
    | JPendingApproval \<Rightarrow> [JPendingApproval, JCancelled]
    | JPosted \<Rightarrow> [JPosted, JReversed]
    | JReversed \<Rightarrow> [JReversed, JCancelled]
    | JCancelled \<Rightarrow> [JCancelled])"

text \<open>One step on one journal: its status follows the life cycle, and a posted journal keeps
  its lines, its totals and its row.\<close>

definition journal_moves :: "journal \<Rightarrow> journal \<Rightarrow> bool" where
  "journal_moves j j' =
     (j_status j' \<in> set (life_cycle (j_status j)) \<and>
      (j_status j = JPosted \<longrightarrow> lines j' = lines j \<and> total_debit j' = total_debit j \<and>
         total_credit j' = total_credit j \<and> posting_date j' = posting_date j \<and>
         journal_number j' = journal_number j \<and> j_is_deleted j' = j_is_deleted j))"

lemma journal_moves_refl [simp]: "journal_moves j j"
  by (cases "j_status j") (simp_all add: journal_moves_def life_cycle_def)

lemma journal_moves_modify:
  assumes "get t i = Some j" and "\<And>r. get t k = Some r \<Longrightarrow> journal_moves r (f r)"
  shows "\<exists>j'. get (modify k f t) i = Some j' \<and> journal_moves j j'"
  using assms by (cases "i = k") (auto simp: tbl.lookup_upd)

lemma journal_moves_edits:
  "j_status j \<noteq> JPosted \<Longrightarrow> journal_moves j (j\<lparr>j_is_deleted := b\<rparr>)"
  "j_status j \<noteq> JPosted \<Longrightarrow> journal_moves j (j\<lparr>j_status := JCancelled\<rparr>)"
  "j_status j = JDraft \<or> j_status j = JApproved \<Longrightarrow> journal_moves j (mark_posted user now j)"
  "j_status j = JPosted \<Longrightarrow> journal_moves j (mark_reversed r reason j)"
  by (cases "j_status j"; auto simp: journal_moves_def life_cycle_def mark_reversed_def)+

lemma fin_step_journal:
  assumes "fin_step s s'" and wf: "wf_fin s" and j: "get (journals s) i = Some j"
  shows "\<exists>j'. get (journals s') i = Some j' \<and> journal_moves j j'"
  using assms(1)
proof cases
  case (update_journal k ju)
  then show ?thesis
  proof (rule update_journalD)
    fix j0 j1 j2
    assume j0: "get (journals s) k = Some j0" "j_status j0 \<notin> {JPosted, JCancelled, JReversed}"
      and h: "update_header s ju j0 = Inr j1" and l: "update_lines s ju j1 = Inr j2"
      and s': "s' = emit [Audit ''UPDATE'' ''Journal'' k] (s\<lparr>journals := modify k (\<lambda>_. j2) (journals s)\<rparr>)"
    have "j_status j2 = j_status j0" using l update_headerD(1) [OF h]
      by (auto simp: update_lines_def split: option.splits sum.splits)
    then have "journal_moves j0 j2" using j0
      by (cases "j_status j0") (simp_all add: journal_moves_def life_cycle_def)
    with j0 have "\<And>r. get (journals s) k = Some r \<Longrightarrow> journal_moves r j2" by simp
    from journal_moves_modify [OF j this] show ?thesis by (simp add: s')
  qed
next
  case (delete_journal k)
  then show ?thesis
    by (rule delete_journalD)
      (use j in \<open>auto intro!: journal_moves_modify journal_moves_edits\<close>)
next
  case (cancel_journal k)
  then show ?thesis
    by (rule cancel_journalD)
      (use j in \<open>auto intro!: journal_moves_modify journal_moves_edits\<close>)
next
  case (create_journal jc suffix k)
  then show ?thesis
    by (rule create_journalD) (use j in \<open>simp add: get_add_row_eq\<close>)
next
  case (post_journal k user now)
  then obtain j0 where "get (journals s) k = Some j0" "j_status j0 = JDraft \<or> j_status j0 = JApproved"
    by (auto elim: post_journalD)
  with j show ?thesis
    unfolding post_journal_frame(5) [OF post_journal]
    by (intro journal_moves_modify) (auto intro: journal_moves_edits)
next
  case (reverse_journal k reason user now r)
  from wf reverse_journal show ?thesis
  proof (rule reverse_journals)
    fix j0 p
    let ?r = "reversal_journal j0 k p reason user now"
    assume j0: "get (journals s) k = Some j0" "j_status j0 = JPosted"
      and s': "journals s' = modify k (mark_reversed r reason) (add_row r ?r (journals s))"
    have "get (add_row r ?r (journals s)) i = Some j" "get (add_row r ?r (journals s)) k = Some j0"
      using j j0 by (simp_all add: get_add_row_eq)
    then show ?thesis unfolding s' using j0
      by (intro journal_moves_modify) (auto intro: journal_moves_edits)
  qed
qed (use j in \<open>auto dest!: chart_frame calendar_frame simp: same_books_def same_entries_def\<close>)

end
