(* ===== verification/FinanceProperties.thy ===== *)
theory FinanceProperties
  imports FinanceSystem
begin

text \<open>
  What the finance core (\<^verbatim>\<open>src/app/services/finance_services.py\<close>) promises, stated over the
  reachable states of \<open>fin_step\<close> and over single calls, each with a concrete run that meets
  its hypotheses.
\<close>

section \<open>A concrete run\<close>

text \<open>Two accounts, a drafted sale of 100 and its posting.\<close>

definition demo_type :: journal_type where
  "demo_type = \<lparr>jt_code = ''GEN'', jt_name = ''General'', jt_prefix = ''JV'',
     requires_approval = True, approval_threshold = 1000\<rparr>"

definition demo0 :: fin where
  "demo0 = \<lparr>accounts = [], fiscal_years = [], fiscal_periods = [], journal_types = [(0, demo_type)],
     journals = [], posting_queue = [], fin_effects = [], next_id = 1\<rparr>"

definition demo_account :: "string \<Rightarrow> string \<Rightarrow> account_create" where
  "demo_account code ty = \<lparr>ac_code = code, ac_name = code, ac_type = ty, ac_group_id = None,
     ac_parent_id = None, ac_currency_code = ''INR'', ac_is_system = False, ac_is_control = False,
     ac_is_active = True, ac_opening_balance = 0, ac_notes = None\<rparr>"

definition demo_line :: "uuid \<Rightarrow> decimal \<Rightarrow> decimal \<Rightarrow> line_in" where
  "demo_line i d c = \<lparr>li_account_id = i, li_cost_center_id = None, li_debit = d, li_credit = c,
     li_description = None, li_dimensions = None\<rparr>"

definition demo_sale :: "decimal \<Rightarrow> journal_create" where
  "demo_sale x = \<lparr>jc_type_id = 0, jc_posting_date = Date 2024 4 15, jc_currency_code = ''INR'',
     jc_exchange_rate = 1, jc_description = ''sale'', jc_reference_module = None, jc_reference_id = None,
     jc_lines = [demo_line 1 x 0, demo_line 2 0 x]\<rparr>"

definition ok_state :: "(uuid \<times> fin) result \<Rightarrow> fin" where
  "ok_state r = (case r of Inl _ \<Rightarrow> demo0 | Inr (i, s) \<Rightarrow> s)"

definition ok_only :: "fin result \<Rightarrow> fin" where
  "ok_only r = (case r of Inl _ \<Rightarrow> demo0 | Inr s \<Rightarrow> s)"

definition "demo1 = ok_state (create_account demo0 (demo_account ''1000'' ''Asset''))"
definition "demo2 = ok_state (create_account demo1 (demo_account ''4000'' ''Income''))"
definition "demo3 = ok_state (create_journal demo2 (demo_sale 100) ''1'')"
definition "demo4 = ok_only (post_journal demo3 3 (Some 7) 5)"
definition "demo5 = ok_state (reverse_journal demo4 3 ''typo'' (Some 7) 6)"
definition "demo_big = ok_state (create_journal demo2 (demo_sale 5000) ''2'')"

definition demo_year :: year_create where
  "demo_year = \<lparr>yc_code = ''FY24'', yc_name = ''2024-25'', yc_start = Date 2024 4 1, yc_end = Date 2025 3 31,
     yc_status = YOpen\<rparr>"

definition "demo_y1 = ok_state (create_fiscal_year demo2 demo_year)"
definition "demo_y2 = ok_state (create_journal demo_y1 (demo_sale 100) ''1'')"
definition "demo_y3 = ok_only (close_period demo_y2 7)"

text \<open>The definitions a concrete call unfolds.\<close>

lemmas run_tables = get_def add_row_def modify_def exists_where_def first_where_def keys_def emit_def

lemmas run_finance =
  run_tables Let_def ok_state_def ok_only_def get_account_def get_journal_def account_by_code_def
  create_account_def account_row_def create_journal_def check_lines_def check_line_def line_rows_def line_row_def
  draft_journal_def insert_journal_def get_period_for_date_def blocked_def period_blocked_def journal_period_def
  post_journal_def post_line_def change_balance_def add_balance_def debit_normal_def update_queue_def
  reverse_journal_def reversal_journal_def swap_line_def reverse_line_def
  demo0_def demo_type_def demo_account_def demo_line_def demo_sale_def

lemma upper_demo [simp]: "py_upper ''Asset'' = ''ASSET''" "py_upper ''Income'' = ''INCOME''"
  by code_simp+

lemma demo1_eq: "create_account demo0 (demo_account ''1000'' ''Asset'') = Inr (1, demo1)" and
  demo1_state: "demo1 = demo0\<lparr>accounts := [(1, account_row (demo_account ''1000'' ''Asset''))],
     fin_effects := [Publish ''AccountCreated'' 1, Audit ''CREATE'' ''ChartOfAccount'' 1], next_id := 2\<rparr>"
  by (simp_all add: demo1_def run_finance)

lemma demo2_eq: "create_account demo1 (demo_account ''4000'' ''Income'') = Inr (2, demo2)" and
  demo2_state: "demo2 = demo1\<lparr>accounts := accounts demo1 @ [(2, account_row (demo_account ''4000'' ''Income''))],
     fin_effects := fin_effects demo1 @ [Publish ''AccountCreated'' 2, Audit ''CREATE'' ''ChartOfAccount'' 2],
     next_id := 3\<rparr>"
  by (simp_all add: demo2_def demo1_state run_finance)

lemma demo3_eq: "create_journal demo2 (demo_sale 100) ''1'' = Inr (3, demo3)" and
  demo3_state: "demo3 = demo2\<lparr>journals := [(3, draft_journal (demo_sale 100) None ''JV-1'' JDraft 100)],
     fin_effects := fin_effects demo2 @ [Audit ''CREATE'' ''Journal'' 3], next_id := 4\<rparr>"
  by (simp_all add: demo3_def demo2_state demo1_state run_finance enumerate_eq_zip)

lemmas demo_states = demo3_state demo2_state demo1_state

lemma demo4_eq: "post_journal demo3 3 (Some 7) 5 = Inr demo4"
  by (simp add: demo4_def demo_states run_finance enumerate_eq_zip)

lemma demo4_rows:
  "map snd (accounts demo4) = [(account_row (demo_account ''1000'' ''Asset''))\<lparr>current_balance := 100\<rparr>,
     (account_row (demo_account ''4000'' ''Income''))\<lparr>current_balance := 100\<rparr>]"
  "journals demo4 = [(3, (draft_journal (demo_sale 100) None ''JV-1'' JDraft 100)\<lparr>j_status := JPosted,
     posted_at := Some 5, posted_by_id := Some 7\<rparr>)]"
  by (simp_all add: demo4_def demo_states run_finance enumerate_eq_zip)

lemma demo5_eq: "reverse_journal demo4 3 ''typo'' (Some 7) 6 = Inr (4, demo5)"
  by (simp add: demo5_def demo4_def demo_states run_finance enumerate_eq_zip)

lemma demo_big_eq: "create_journal demo2 (demo_sale 5000) ''2'' = Inr (3, demo_big)" and
  demo_big_rows: "journals demo_big = [(3, draft_journal (demo_sale 5000) None ''JV-2'' JPendingApproval 5000)]"
  by (simp_all add: demo_big_def demo2_state demo1_state run_finance enumerate_eq_zip)

lemma demo_y1_eq: "create_fiscal_year demo2 demo_year = Inr (3, demo_y1)"
  by (simp add: demo_y1_def demo2_state demo1_state run_finance create_fiscal_year_def demo_year_def
      add_monthly_periods_rows date_order_simps)

lemma demo_y1_rows:
  "fiscal_periods demo_y1 = zip [4..<16] (map (monthly_period 3 2024) [1..<13])"
  "next_id demo_y1 = 16" "journal_types demo_y1 = [(0, demo_type)]" "journals demo_y1 = []"
  "accounts demo_y1 = accounts demo2" "get (fiscal_years demo_y1) 3 \<noteq> None"
  by (simp_all add: demo_y1_def demo2_state demo1_state run_finance create_fiscal_year_def demo_year_def
      add_monthly_periods_rows date_order_simps)

lemma four: "Suc (Suc (Suc (Suc 0))) = 4"
  by simp

text \<open>The sale is dated in April, the period with key 7.\<close>

lemma demo_y1_period: "get_period_for_date demo_y1 (Date 2024 4 15) = Some (7, monthly_period 3 2024 4)"
  using demo_y1_rows(6)
  by (simp add: four get_period_for_date_def demo_y1_rows(1) first_where_def upt_conv_Cons monthly_period_def
      date_order_simps days_in_month_def is_leap_def del: upt_Suc)

lemma demo_y2_eq: "create_journal demo_y1 (demo_sale 100) ''1'' = Inr (16, demo_y2)" and
  demo_y2_rows: "journals demo_y2 = [(16, draft_journal (demo_sale 100) (Some 7) ''JV-1'' JDraft 100)]"
     "fiscal_periods demo_y2 = fiscal_periods demo_y1"
  using demo_y1_period
  by (simp_all add: demo_y2_def demo_y1_rows demo2_state demo1_state run_finance enumerate_eq_zip
      monthly_period_def del: upt_Suc get_period_for_date_def)

lemma demo_y3_eq: "close_period demo_y2 7 = Inr demo_y3" and
  demo_y3_rows: "journals demo_y3 = journals demo_y2" "closed_in demo_y3 7"
proof -
  have p: "get (fiscal_periods demo_y2) 7 \<noteq> None"
    by (simp add: demo_y2_rows demo_y1_rows get_def upt_conv_Cons del: upt_Suc)
  then show eq: "close_period demo_y2 7 = Inr demo_y3"
    by (auto simp: demo_y3_def ok_only_def close_period_def)
  from p eq have y3: "demo_y3 = emit [Publish ''FiscalPeriodClosed'' 7, Audit ''CLOSE'' ''FiscalPeriod'' 7]
      (demo_y2\<lparr>fiscal_periods := modify 7 (\<lambda>p. p\<lparr>is_closed := True, is_locked := True\<rparr>) (fiscal_periods demo_y2)\<rparr>)"
    by (auto simp: close_period_def)
  from p show "closed_in demo_y3 7" unfolding closed_in_def y3 by (auto simp: table_simps)
  show "journals demo_y3 = journals demo_y2"
    using calendar_frame(4) [OF eq] by (simp add: same_entries_def)
qed

lemma demo_reachable:
  "fin_reachable demo0" "fin_reachable demo1" "fin_reachable demo2" "fin_reachable demo3"
  "fin_reachable demo4" "fin_reachable demo5" "fin_reachable demo_big" "fin_reachable demo_y1"
  "fin_reachable demo_y2" "fin_reachable demo_y3"
proof -
  show 0: "fin_reachable demo0"
    by (rule fin_reachable.init) (simp add: fin_init_def demo0_def wf_table_def keys_def)
  show 1: "fin_reachable demo1" by (rule fin_reachable.step [OF 0 fin_step.create_account [OF demo1_eq]])
  show 2: "fin_reachable demo2" by (rule fin_reachable.step [OF 1 fin_step.create_account [OF demo2_eq]])
  show 3: "fin_reachable demo3" by (rule fin_reachable.step [OF 2 fin_step.create_journal [OF demo3_eq]])
  show 4: "fin_reachable demo4" by (rule fin_reachable.step [OF 3 fin_step.post_journal [OF demo4_eq]])
  show "fin_reachable demo5" by (rule fin_reachable.step [OF 4 fin_step.reverse_journal [OF demo5_eq]])
  show "fin_reachable demo_big" by (rule fin_reachable.step [OF 2 fin_step.create_journal [OF demo_big_eq]])
  show y1: "fin_reachable demo_y1" by (rule fin_reachable.step [OF 2 fin_step.create_year [OF demo_y1_eq]])
  show y2: "fin_reachable demo_y2" by (rule fin_reachable.step [OF y1 fin_step.create_journal [OF demo_y2_eq]])
  show "fin_reachable demo_y3" by (rule fin_reachable.step [OF y2 fin_step.close [OF demo_y3_eq]])
qed

section \<open>Double entry\<close>



text \<open>the amount checks of the request schema and of the service agree: a body that parses is accepted
  by \<open>create_journal\<close>'s line checks exactly when every line names a live, active account.\<close>
theorem parsed_journal_lines:
  assumes "parse_journal_create jc = Inr jc'"
  shows "is_ok (check_lines s (jc_lines jc')) =
    list_all (\<lambda>l. case get_account s (li_account_id l) of None \<Rightarrow> False | Some a \<Rightarrow> acc_is_active a) (jc_lines jc)"
    (is "?l = ?r")
proof
  have jc: "jc' = jc" using assms by (auto simp: parse_journal_create_def split: if_splits sum.splits)
  { assume ?l
    then obtain td where "check_lines s (jc_lines jc) = Inr td" using jc
      by (cases "check_lines s (jc_lines jc)") auto
    then show ?r by (auto simp: check_lines_iff list_all_iff line_valid_def) }
  { assume ?r
    then have "\<exists>a. get_account s (li_account_id l) = Some a \<and> acc_is_active a" if "l \<in> set (jc_lines jc)" for l
      using that by (auto simp: list_all_iff split: option.splits)
    from parsed_amounts_accepted [OF assms this] show ?l by auto }
qed

lemma parsed_journal_lines_witness: "is_ok (check_lines demo2 (jc_lines (demo_sale 100)))"
  by (subst parsed_journal_lines [of "demo_sale 100"])
    (simp_all add: parse_journal_create_def validate_debit_or_credit_def validate_double_entry_balance_def
      demo2_state demo1_state run_finance)

section \<open>Posting and reversal\<close>

text \<open>C3: posting a journal adds its debits minus credits to each debit-normal account it names and credits
  minus debits to each other one, and changes no account besides; the row becomes \<open>Posted\<close> by the caller.\<close>
theorem post_journal_effect:
  assumes "post_journal s k user now = Inr s'" and "get (journals s) k = Some j"
  shows "get (accounts s') i = map_option (\<lambda>a. a\<lparr>current_balance := current_balance a +
      (if debit_normal a then net_on i (lines j) else - net_on i (lines j))\<rparr>) (get (accounts s) i)
    \<and> get (journals s') k = Some (j\<lparr>j_status := JPosted, posted_at := Some now, posted_by_id := user\<rparr>)"
  using post_journal_accounts(2) [OF assms, of i] post_journal_frame(5) [OF assms(1)] assms(2)
  by (auto simp: signed_delta_def tbl.lookup_upd mark_posted_def intro!: option.map_cong)

lemma post_journal_effect_witness:
  "map_option current_balance (get (accounts demo4) 1) = Some 100"
  using post_journal_effect [OF demo4_eq, of "draft_journal (demo_sale 100) None ''JV-1'' JDraft 100" 1]
  by (simp add: demo_states run_finance enumerate_eq_zip)

text \<open>in every reachable state posting and reversing keep the accounting equation: debit-normal
  balances minus credit-normal balances do not change.\<close>
theorem posting_keeps_equation:
  assumes "fin_reachable s"
    and "post_journal s k user now = Inr s' \<or> reverse_journal s k reason user now = Inr (r, s')"
  shows "equation_total s' = equation_total s"
proof -
  have inv: "wf_fin s" "journals_ok s" "posted_live s"
    using fin_reachable_inv [OF assms(1)] by (auto simp: fin_inv_def)
  have bal: "sum_debit (lines j) = sum_credit (lines j)" if "get (journals s) k = Some j" for j
    using that inv(2) by (auto simp: journals_ok_def journal_ok_def dest: all_rows_get)
  from assms(2) show ?thesis
  proof
    assume "post_journal s k user now = Inr s'"
    then show ?thesis
      by (rule post_journalD)
        (use post_lines_equation [OF wf_fin_distinct(1) [OF inv(1)]] bal in \<open>simp add: equation_total_def\<close>)
  next
    assume "reverse_journal s k reason user now = Inr (r, s')"
    from inv(1) this show ?thesis
    proof (rule reverse_journals)
      fix j p
      let ?s1 = "s\<lparr>journals := add_row r (reversal_journal j k p reason user now) (journals s), next_id := next_id s + 1\<rparr>"
      assume j: "get (journals s) k = Some j" "j_status j = JPosted" "\<not> j_is_deleted j"
        and acc: "accounts s' = accounts (fold reverse_line (lines j) ?s1)"
      have "uses_live s j" using inv(3) j by (auto simp: posted_live_def dest: all_rows_get)
      then have "list_all (\<lambda>l. get_account ?s1 (jl_account_id l) \<noteq> None) (lines j)"
        using j by (simp add: uses_live_def counted_def get_account_def)
      from reverse_lines_equation [OF _ this] wf_fin_distinct(1) [OF inv(1)] bal [OF j(1)]
      show ?thesis by (simp add: equation_total_def acc)
    qed
  qed
qed

lemma posting_keeps_equation_witness: "equation_total demo4 = equation_total demo3"
  by (rule posting_keeps_equation [OF demo_reachable(4), of 3 "Some 7" 5]) (simp add: demo4_eq)

text \<open>in every reachable state reversing a posted journal takes its effect off every account again and
  leaves the original \<open>Reversed\<close> beside a \<open>Posted\<close> journal with debit and credit of each line swapped.\<close>
theorem reverse_journal_effect:
  assumes "fin_reachable s" and "reverse_journal s k reason user now = Inr (r, s')"
    and "get (journals s) k = Some j"
  shows "get (accounts s') i = map_option (\<lambda>a. a\<lparr>current_balance := current_balance a -
      (if debit_normal a then net_on i (lines j) else - net_on i (lines j))\<rparr>) (get (accounts s) i)
    \<and> map_option j_status (get (journals s') k) = Some JReversed
    \<and> map_option (\<lambda>j'. (j_status j', map debit (lines j'), map credit (lines j'))) (get (journals s') r)
      = Some (JPosted, map credit (lines j), map debit (lines j))"
proof -
  have inv: "wf_fin s" "posted_live s" using fin_reachable_inv [OF assms(1)] by (auto simp: fin_inv_def)
  from inv(1) assms(2) show ?thesis
  proof (rule reverse_journals)
    fix j0 p
    let ?r = "reversal_journal j0 k p reason user now"
    let ?s1 = "s\<lparr>journals := add_row r ?r (journals s), next_id := next_id s + 1\<rparr>"
    assume j0: "get (journals s) k = Some j0" "j_status j0 = JPosted" "\<not> j_is_deleted j0" and r: "r = next_id s"
      and s': "journals s' = modify k (mark_reversed r reason) (add_row r ?r (journals s))"
      and acc: "accounts s' = accounts (fold reverse_line (lines j0) ?s1)"
    have eq: "j0 = j" using j0 assms(3) by simp
    have fresh: "get (journals s) r = None" "r \<noteq> k"
      using inv(1) r j0 by (auto simp: wf_fin_def dest: wf_table_fresh_get)
    have "uses_live s j0" using inv(2) j0 by (auto simp: posted_live_def dest: all_rows_get)
    then have "list_all (\<lambda>l. get_account ?s1 (jl_account_id l) \<noteq> None) (lines j0)"
      using j0 by (simp add: uses_live_def counted_def get_account_def)
    from reverse_lines_balances [OF this]
    have "get (accounts s') i = map_option (\<lambda>a. a\<lparr>current_balance := current_balance a -
      (if debit_normal a then net_on i (lines j) else - net_on i (lines j))\<rparr>) (get (accounts s) i)"
      by (auto simp: balances_moved_def acc eq intro!: option.map_cong)
    then show ?thesis using fresh j0
      by (simp add: s' tbl.lookup_upd get_add_row_eq eq map_swap_lines del: map_map)
  qed
qed

lemma reverse_journal_effect_witness:
  "map_option current_balance (get (accounts demo5) 1) = Some 0"
  using reverse_journal_effect [OF demo_reachable(5) demo5_eq, of
      "(draft_journal (demo_sale 100) None ''JV-1'' JDraft 100)\<lparr>j_status := JPosted, posted_at := Some 5, posted_by_id := Some 7\<rparr>" 1]
  by (simp add: demo4_def demo_states run_finance enumerate_eq_zip)

text \<open>posting adds to the ledger of each account exactly what it adds to its balance, so books whose
  account balances are the opening balances plus the ledger stay so.\<close>
theorem posting_keeps_books:
  assumes "fin_reachable s" and "books_agree s" and "post_journal s k user now = Inr s'"
  shows "books_agree s'"
  using fin_reachable_inv [OF assms(1)] by (intro post_journal_agree [OF _ assms(2,3)]) (simp add: fin_inv_def)

lemma posting_keeps_books_witness: "books_agree demo4"
  by (rule posting_keeps_books [OF demo_reachable(4) _ demo4_eq])
    (simp add: books_agree_def account_agrees_def ledger_net_def sum_rows_def counted_def demo_states run_finance
      signed_delta_def)



section \<open>Life cycle, periods, hierarchy\<close>

text \<open>C8: every step moves every journal along the life cycle (Draft or Approved to Posted or Cancelled,
  PendingApproval to Cancelled, Posted to Reversed, Reversed to Cancelled) and leaves the lines, the totals,
  the date and the row of a posted journal as they are.\<close>
theorem journals_follow_life_cycle:
  assumes "fin_reachable s" and "fin_step s s'" and "get (journals s) i = Some j"
  shows "\<exists>j'. get (journals s') i = Some j' \<and> journal_moves j j'"
  using fin_reachable_inv [OF assms(1)] by (intro fin_step_journal [OF assms(2) _ assms(3)]) (simp add: fin_inv_def)

lemma journals_follow_life_cycle_witness: "\<exists>j'. get (journals demo4) 3 = Some j' \<and>
    journal_moves (draft_journal (demo_sale 100) None ''JV-1'' JDraft 100) j'"
  by (rule journals_follow_life_cycle [OF demo_reachable(4) fin_step.post_journal [OF demo4_eq]])
    (simp add: demo3_state get_def)

lemma fin_steps_reachable: "fin_step\<^sup>*\<^sup>* s s' \<Longrightarrow> fin_reachable s \<Longrightarrow> fin_reachable s'"
  by (induction rule: rtranclp_induct) (auto intro: fin_reachable.step)

text \<open>a journal at or above its type's approval threshold is created \<open>PendingApproval\<close>, and no sequence of
  calls ever posts it: from then on it is pending or cancelled.\<close>
theorem pending_never_posts:
  assumes "fin_reachable s" and "create_journal s jc suffix = Inr (i, s0)"
    and "get (journal_types s) (jc_type_id jc) = Some jt" and "requires_approval jt"
    and "approval_threshold jt \<le> sum_list (map li_debit (jc_lines jc))"
    and "fin_step\<^sup>*\<^sup>* s0 s'"
  shows "map_option j_status (get (journals s') i) \<in> {Some JPendingApproval, Some JCancelled}"
  using assms(6)
proof (induction rule: rtranclp_induct)
  case base
  from assms(1) have "wf_fin s" by (auto simp: fin_inv_def dest: fin_reachable_inv)
  with assms(2-5) show ?case
    by (elim create_journalD) (auto simp: check_lines_iff wf_fin_def wf_table_get_add_row draft_journal_def)
next
  case (step t u)
  have "fin_reachable s0" using assms(1,2) by (blast intro: fin_reachable.step fin_step.create_journal)
  then have "wf_fin t" using fin_steps_reachable [OF step.hyps(1)] by (auto simp: fin_inv_def dest: fin_reachable_inv)
  moreover from step.IH obtain j where j: "get (journals t) i = Some j" "j_status j \<in> {JPendingApproval, JCancelled}"
    by auto
  ultimately show ?case using fin_step_journal [OF step.hyps(2)]
    by (fastforce simp: journal_moves_def life_cycle_def)
qed

lemma pending_never_posts_witness:
  "map_option j_status (get (journals demo_big) 3) \<in> {Some JPendingApproval, Some JCancelled}"
  by (rule pending_never_posts [OF demo_reachable(3) demo_big_eq, of demo_type])
    (simp_all add: demo2_state demo1_state run_finance)

lemma fin_step_closed:
  assumes "fin_step s s'" and "closed_in s p"
  shows "closed_in s' p"
  using assms(1)
proof cases
  case (create_year yc i)
  with closed_stays(1) [OF assms(2)] show ?thesis by blast
next
  case (create_period q i)
  with closed_stays(2) [OF assms(2)] show ?thesis by blast
next
  case (lock i b)
  with closed_stays(3) [OF assms(2)] show ?thesis by blast
next
  case (close i)
  with closed_stays(4) [OF assms(2)] show ?thesis by blast
next
  case (close_year i)
  with closed_stays(5) [OF assms(2)] show ?thesis by blast
qed (use assms(2) in \<open>auto dest!: chart_frame journals_frame post_journal_frame(1)
      simp: same_books_def same_calendar_def closed_in_def\<close>)

text \<open>C23: once a fiscal period is closed, no sequence of calls lets a journal of that period be posted or
  reversed again: both fail with the period error or an earlier one.\<close>
theorem closed_period_is_final:
  assumes "fin_step\<^sup>*\<^sup>* s s'" and "closed_in s p"
    and "get (journals s') k = Some j" and "fiscal_period_id j = Some p"
  shows "\<not> is_ok (post_journal s' k user now) \<and> \<not> is_ok (reverse_journal s' k reason user now)"
proof -
  from assms(1,2) have "closed_in s' p"
    by (induction rule: rtranclp_induct) (auto intro: fin_step_closed)
  then have "blocked (journal_period s' j)"
    using assms(4) by (auto simp: closed_in_def journal_period_def blocked_def period_blocked_def split: option.splits)
  with assms(3) show ?thesis
    by (auto simp: post_journal_def reverse_journal_def get_journal_def split: option.splits)
qed

lemma closed_period_is_final_witness: "\<not> is_ok (post_journal demo_y3 16 (Some 7) 5)"
  using closed_period_is_final [OF rtranclp.rtrancl_refl demo_y3_rows(2), of 16 "draft_journal (demo_sale 100) (Some 7) ''JV-1'' JDraft 100"]
  by (simp add: demo_y3_rows demo_y2_rows get_def draft_journal_def)

text \<open>C24: the breadth-first search returns exactly the accounts below the given one.\<close>
theorem get_descendant_ids_exact:
  "insert i (set (get_descendant_ids t i)) = (child_rel t)\<^sup>* `` {i}"
  using get_descendant_ids_complete [of i _ t] get_descendant_ids_sound [of _ t i]
  by (auto dest: trancl_into_rtrancl)

text \<open>C25: in every reachable state the parents of live accounts form no cycle.\<close>
theorem reachable_hierarchy_acyclic:
  assumes "fin_reachable s"
  shows "acyclic (child_rel (accounts s))"
  using fin_reachable_inv [OF assms] by (simp add: fin_inv_def hierarchy_ok_def)

lemma reachable_hierarchy_acyclic_witness: "acyclic (child_rel (accounts demo4))"
  by (rule reachable_hierarchy_acyclic [OF demo_reachable(5)])

lemma length_filter_same: "distinct xs \<Longrightarrow> x \<in> set xs \<Longrightarrow> length (filter (\<lambda>k. x = k) xs) = 1"
proof (induction xs)
  case (Cons a xs)
  have "filter (\<lambda>k. a = k) xs = []" if "a \<notin> set xs" using that by (auto simp: filter_empty_conv)
  with Cons show ?case by auto
qed simp

text \<open>creating a fiscal year creates exactly one period for each date of the calendar year of its start
  date and none for any other date, whatever the end date of the fiscal year.\<close>
theorem fiscal_year_covers_calendar_year:
  assumes "create_fiscal_year s yc = Inr (i, s')" and "wf_fin s" and "valid_date d"
    and "list_all (\<lambda>(k, p). fp_year_id p \<noteq> i) (fiscal_periods s)"
  shows "length (filter (\<lambda>(k, p). fp_year_id p = i \<and> covers p d) (fiscal_periods s')) =
    (if year d = year (yc_start yc) then 1 else 0)"
proof -
  let ?y = "year (yc_start yc)"
  have old: "filter (\<lambda>(k, p). fp_year_id p = i \<and> covers p d) (fiscal_periods s) = []"
    using assms(4) by (auto simp: filter_empty_conv list_all_iff)
  have zipf: "length (filter (\<lambda>(k, p). P p) (zip ks (map f ms))) = length (filter (\<lambda>m. P (f m)) ms)"
    if "length ks = length ms" for P f and ks :: "nat list" and ms :: "nat list"
    using that by (induction ks ms rule: list_induct2) auto
  have "length (filter (\<lambda>(k, p). fp_year_id p = i \<and> covers p d) (fiscal_periods s')) =
      length (filter (\<lambda>m. fp_year_id (monthly_period i ?y m) = i \<and> covers (monthly_period i ?y m) d) [1..<13])"
    unfolding create_fiscal_year_periods [OF assms(1)] filter_append old
    using zipf [of "[i + 1..<i + 13]" "[1..<13]" "\<lambda>p. fp_year_id p = i \<and> covers p d" "monthly_period i ?y"]
    by simp
  also have "\<dots> = length (filter (\<lambda>m. year d = ?y \<and> month d = int m) [1..<13])"
    using monthly_period_covers [OF assms(3)] by (simp add: monthly_period_def)
  also have "\<dots> = (if year d = ?y then 1 else 0)"
  proof -
    obtain m where m: "month d = int m" "1 \<le> m" "m < 13"
      using assms(3) by (cases "month d") (auto simp: valid_date_def)
    then have "m \<in> set [1..<13]" by simp
    then have "length (filter (\<lambda>k. m = k) [1..<13]) = 1"
      using length_filter_same [of "[1..<13]" m] by (simp del: upt_Suc)
    with m show ?thesis by (simp del: upt_Suc)
  qed
  finally show ?thesis .
qed

lemma fiscal_year_covers_calendar_year_witness:
  "length (filter (\<lambda>(k, p). fp_year_id p = 3 \<and> covers p (Date 2025 1 15)) (fiscal_periods demo_y1)) = 0"
  by (subst fiscal_year_covers_calendar_year [OF demo_y1_eq])
    (use fin_reachable_inv [OF demo_reachable(3)] in
      \<open>simp_all add: fin_inv_def valid_date_def days_in_month_def demo_year_def demo2_state demo1_state demo0_def\<close>)

section \<open>Reports\<close>



text \<open>read from its first row with room for all of them, the account ledger closes at its opening balance
  plus the debits minus credits (for a debit-normal account) of the counted lines in the range, and its running
  column ends there.\<close>
theorem account_ledger_closes:
  assumes "get_account_ledger s i a b 0 limit = Some v" and "lv_total v \<le> limit" and "get_account s i = Some acc"
  shows "lv_closing v = lv_opening v + signed_delta (debit_normal acc)
      (sum_over debit s i (in_range a b)) (sum_over credit s i (in_range a b))
    \<and> (lv_entries v \<noteq> [] \<longrightarrow> le_running (last (lv_entries v)) = lv_closing v)"
proof -
  obtain r where r: "v = \<lparr>lv_opening = r, lv_period_debit = sum_list (map (debit \<circ> snd) (ledger_rows s i a b)),
      lv_period_credit = sum_list (map (credit \<circ> snd) (ledger_rows s i a b)),
      lv_closing = snd (run_entries (debit_normal acc) r (ledger_rows s i a b)),
      lv_entries = fst (run_entries (debit_normal acc) r (ledger_rows s i a b)), lv_total = length (ledger_rows s i a b)\<rparr>"
    using assms by (auto simp: get_account_ledger_def Let_def split: prod.splits)
  let ?rows = "ledger_rows s i a b" and ?es = "fst (run_entries (debit_normal acc) r (ledger_rows s i a b))"
  have "le_running (last ?es) = snd (run_entries (debit_normal acc) r ?rows)" if "?es \<noteq> []"
    using that run_entries_nth [of "length ?rows - 1" ?rows "debit_normal acc" r]
    by (simp add: last_conv_nth length_run_entries run_entries_final flip: length_greater_0_conv)
  then show ?thesis
    by (simp add: r run_entries_final sum_list_map_signed ledger_rows_sum)
qed

lemma account_ledger_closes_witness:
  "lv_closing (the (get_account_ledger demo4 1 None None 0 50)) = 100"
proof -
  have acc: "get_account demo4 1 = Some ((account_row (demo_account ''1000'' ''Asset''))\<lparr>current_balance := 100\<rparr>)"
    by (simp add: demo4_def demo_states run_finance enumerate_eq_zip)
  have led: "get_account_ledger demo4 1 None None 0 50 = Some (the (get_account_ledger demo4 1 None None 0 50))"
    using acc by (simp add: get_account_ledger_def Let_def split: prod.splits)
  show ?thesis
    using account_ledger_closes [OF led _ acc]
    by (simp add: get_account_ledger_def acc Let_def ledger_rows_def demo4_rows demo4_def demo_states run_finance
        enumerate_eq_zip counted_def in_range_def lines_of_def sum_over_def sum_rows_def signed_delta_def
        split: prod.splits)
qed

section \<open>Amounts and columns\<close>

text \<open>Three debits of a third against one credit.\<close>

definition demo_thirds :: journal_create where
  "demo_thirds = (demo_sale 100)\<lparr>jc_lines := [demo_line 1 (33333 / 1000) 0, demo_line 1 (33333 / 1000) 0,
     demo_line 1 (33334 / 1000) 0, demo_line 2 0 100]\<rparr>"

lemma nearest_centD:
  assumes "nearest_cent rnd" and "\<bar>100 * x - of_int k\<bar> < 1 / 2"
  shows "rnd x = of_int k / 100"
proof -
  have r: "\<bar>rnd x - x\<bar> \<le> 1 / 200" "100 * rnd x \<in> \<int>" using assms(1) by (auto simp: nearest_cent_def)
  from r(2) obtain z where z: "100 * rnd x = of_int z" by (auto elim: Ints_cases)
  have "\<bar>100 * rnd x - 100 * x\<bar> \<le> 1 / 2" using r(1) by linarith
  with assms(2) have "\<bar>of_int z - of_int k :: rat\<bar> < 1" unfolding z by linarith
  then have "z = k" by linarith
  with z show ?thesis by simp
qed

text \<open>the double-entry checks run before the amounts are rounded to the cents of the columns. Whatever way
  the database rounds to the nearest cent, there is a journal that the schema and the service accept as balanced and
  that is stored with a cent less on the debit side.\<close>
theorem column_rounding_unbalances:
  assumes "nearest_cent rnd"
  shows "\<exists>jc s' j. parse_journal_create jc = Inr jc \<and> create_journal demo2 jc ''3'' = Inr (3, s')
    \<and> get_journal s' 3 = Some j \<and> sum_debit (lines j) = sum_credit (lines j)
    \<and> sum_debit (map (stored_line rnd) (lines j)) = sum_credit (map (stored_line rnd) (lines j)) - 1 / 100"
proof -
  have rnd: "rnd (33333 / 1000) = 3333 / 100" "rnd (16667 / 500) = 3333 / 100" "rnd 100 = 100" "rnd 0 = 0"
    using nearest_centD [OF assms, of "33333 / 1000" 3333] nearest_centD [OF assms, of "16667 / 500" 3333]
      nearest_centD [OF assms, of 100 10000] nearest_centD [OF assms, of 0 0] by simp_all
  let ?j = "draft_journal demo_thirds None ''JV-3'' JDraft 100"
  obtain s' where run: "create_journal demo2 demo_thirds ''3'' = Inr (3, s')" and j: "get_journal s' 3 = Some ?j"
    by (simp add: demo_thirds_def demo2_state demo1_state run_finance enumerate_eq_zip)
  have "parse_journal_create demo_thirds = Inr demo_thirds"
    by (simp add: demo_thirds_def run_finance parse_journal_create_def validate_debit_or_credit_def
        validate_double_entry_balance_def)
  moreover have "sum_debit (lines ?j) = sum_credit (lines ?j)"
    "sum_debit (map (stored_line rnd) (lines ?j)) = sum_credit (map (stored_line rnd) (lines ?j)) - 1 / 100"
    by (simp_all add: demo_thirds_def run_finance sum_debit_def sum_credit_def stored_line_def enumerate_eq_zip rnd)
  ultimately show ?thesis using run j by blast
qed

lemma column_rounding_unbalances_witness:
  "\<exists>jc s' j. parse_journal_create jc = Inr jc \<and> create_journal demo2 jc ''3'' = Inr (3, s')
    \<and> get_journal s' 3 = Some j \<and> sum_debit (lines j) = sum_credit (lines j)
    \<and> sum_debit (map (stored_line (round_dp 2)) (lines j)) = sum_credit (map (stored_line (round_dp 2)) (lines j)) - 1 / 100"
proof (rule column_rounding_unbalances)
  show "nearest_cent (round_dp 2)"
    using round_dp_near [of 2] by (simp add: nearest_cent_def round_dp_def)
qed

end
