(* ===== verification/PyFloat.thy ===== *)
theory PyFloat
  imports ErpPrelude "HOL-Library.Log_Nat"
begin

text \<open>
  The floating point numbers of Python, which are IEEE doubles: \<open>fl x\<close> is the double nearest to the
  rational \<open>x\<close>, ties to the even mantissa, so an operation on floats is the exact operation followed
  by \<open>fl\<close>. Range limits (overflow, subnormal numbers) lie far outside the amounts of this program and
  are left out. \<open>round(x, 2)\<close> rounds the exact value of the double to two decimals, ties to even, and
  takes the nearest double of the result.
\<close>

definition fl_exp :: "rat \<Rightarrow> int" where
  "fl_exp x =
     (let (p, q) = quotient_of \<bar>x\<bar>; e = bitlen p - bitlen q
      in if 2 powi e \<le> \<bar>x\<bar> then e else e - 1)"

definition fl :: "rat \<Rightarrow> rat" where
  "fl x = (if x = 0 then 0
     else let u = 2 powi (fl_exp x - 52) in of_int (round_half_even (x / u)) * u)"

definition round2 :: "rat \<Rightarrow> rat" where
  "round2 x = fl (round_dp 2 x)"

text \<open>\<open>int(x)\<close> of a float that is not negative.\<close>

definition trunc :: "rat \<Rightarrow> int" where
  "trunc x = (if 0 \<le> x then \<lfloor>x\<rfloor> else \<lceil>x\<rceil>)"

section \<open>The error of one operation\<close>

lemma powi_pos [simp]: "0 < (2::rat) powi k"
  by (simp add: power_int_def)

lemma powi_Suc: "(2::rat) powi (k + 1) = 2 * 2 powi k"
  by (subst power_int_add) simp_all

lemma bitlen_powi:
  assumes "0 < p"
  shows "(2::rat) powi (bitlen p - 1) \<le> of_int p" "of_int p < (2::rat) powi (bitlen p)"
proof -
  have b: "1 \<le> bitlen p" using assms bitlen_nonneg [of p] bitlen_eq_zero_iff [of p] by linarith
  from bitlen_bounds [OF assms] have "2 ^ nat (bitlen p - 1) \<le> p" "p < 2 ^ nat (bitlen p)" by simp_all
  then have "(of_int (2 ^ nat (bitlen p - 1)) :: rat) \<le> of_int p" "(of_int p :: rat) < of_int (2 ^ nat (bitlen p))"
    by (simp_all only: of_int_le_iff of_int_less_iff)
  with b show "(2::rat) powi (bitlen p - 1) \<le> of_int p" "of_int p < (2::rat) powi (bitlen p)"
    by (simp_all add: power_int_def)
qed

lemma fl_exp_bounds:
  assumes "x \<noteq> 0"
  shows "2 powi fl_exp x \<le> \<bar>x\<bar>" "\<bar>x\<bar> < 2 powi (fl_exp x + 1)"
proof -
  obtain p q where pq: "quotient_of \<bar>x\<bar> = (p, q)" by force
  have q: "0 < q" and x: "\<bar>x\<bar> = of_int p / of_int q"
    using quotient_of_denom_pos [OF pq] quotient_of_div [OF pq] by simp_all
  have "0 < \<bar>x\<bar>" using assms by simp
  with q x have p: "0 < p" by (simp add: zero_less_divide_iff)
  let ?e = "bitlen p - bitlen q"
  have "\<bar>x\<bar> < 2 powi (bitlen p) / 2 powi (bitlen q - 1)"
    unfolding x using bitlen_powi [OF p] bitlen_powi [OF q] p by (intro frac_less) simp_all
  also have "\<dots> = 2 powi (?e + 1)" by (subst power_int_diff [symmetric]) (simp_all add: algebra_simps)
  finally have up: "\<bar>x\<bar> < 2 powi (?e + 1)" .
  have "2 powi (?e - 1) = 2 powi (bitlen p - 1) / (2::rat) powi (bitlen q)"
    by (subst power_int_diff [symmetric]) (simp_all add: algebra_simps)
  also have "\<dots> \<le> \<bar>x\<bar>"
    unfolding x using bitlen_powi [OF p] bitlen_powi [OF q] p q by (intro frac_le) simp_all
  finally have lo: "2 powi (?e - 1) \<le> \<bar>x\<bar>" .
  show "2 powi fl_exp x \<le> \<bar>x\<bar>" "\<bar>x\<bar> < 2 powi (fl_exp x + 1)"
    using up lo by (simp_all add: fl_exp_def pq Let_def)
qed

lemma fl_0 [simp]: "fl 0 = 0"
  by (simp add: fl_def)

lemma fl_error: "\<bar>fl x - x\<bar> \<le> \<bar>x\<bar> / 2 ^ 53"
proof (cases "x = 0")
  case False
  let ?u = "(2::rat) powi (fl_exp x - 52)"
  have "fl x - x = (of_int (round_half_even (x / ?u)) - x / ?u) * ?u"
    using False by (simp add: fl_def Let_def left_diff_distrib)
  then have "\<bar>fl x - x\<bar> = \<bar>of_int (round_half_even (x / ?u)) - x / ?u\<bar> * ?u"
    by (simp add: abs_mult)
  also have "\<dots> \<le> 1 / 2 * ?u"
    by (rule mult_right_mono [OF round_half_even_near]) (rule less_imp_le [OF powi_pos])
  also have "\<dots> = 2 powi (fl_exp x) / 2 ^ 53"
    by (subst power_int_diff) simp_all
  also have "\<dots> \<le> \<bar>x\<bar> / 2 ^ 53"
    using fl_exp_bounds(1) [OF False] by (simp add: divide_right_mono)
  finally show ?thesis .
qed simp

text \<open>A multiple of a power of two with at most 53 bits is a double.\<close>

lemma powi_less_imp: "(2::rat) powi a < 2 powi b \<Longrightarrow> a < b"
  by (rule ccontr) (simp add: not_less power_int_increasing leD)

lemma fl_dyadic:
  assumes x: "x = of_int k / 2 ^ j" and k: "\<bar>k\<bar> < 2 ^ 53"
  shows "fl x = x"
proof (cases "x = 0")
  case False
  let ?e = "fl_exp x"
  have "\<bar>x\<bar> < 2 ^ 53 / 2 ^ j"
  proof -
    have "\<bar>of_int k :: rat\<bar> < of_int (2 ^ 53)" using k by (simp only: of_int_abs [symmetric] of_int_less_iff)
    then show ?thesis by (simp add: x abs_divide divide_strict_right_mono)
  qed
  also have "\<dots> = 2 powi (53 - int j)" by (subst power_int_diff) simp_all
  finally have "2 powi ?e < (2::rat) powi (53 - int j)" using fl_exp_bounds(1) [OF False] by simp
  then have e: "?e < 53 - int j" by (rule powi_less_imp)
  have "x / 2 powi (?e - 52) = of_int k * 2 powi (52 - int j - ?e)"
  proof -
    have "2 powi (52 - int j - ?e) * 2 powi (?e - 52) = (2::rat) powi (- int j)"
      by (subst power_int_add [symmetric]) simp_all
    also have "\<dots> = 1 / 2 ^ j" by (simp add: power_int_minus field_simps)
    finally show ?thesis by (simp add: x field_simps)
  qed
  also have "\<dots> = of_int (k * 2 ^ nat (52 - int j - ?e))"
    using e by (simp add: power_int_def)
  finally have xu: "x / 2 powi (?e - 52) = of_int (k * 2 ^ nat (52 - int j - ?e))" .
  have "x = x / 2 powi (?e - 52) * 2 powi (?e - 52)" by simp
  with False show ?thesis unfolding fl_def Let_def xu round_half_even_of_int by simp
qed simp

corollary fl_of_int: "\<bar>k\<bar> < 2 ^ 53 \<Longrightarrow> fl (of_int k) = of_int k"
  by (rule fl_dyadic [where j = 0]) simp_all

section \<open>Two decimals\<close>

text \<open>A float that holds an amount in hundredths of moderate size differs so little from it that
  rounding to two decimals always finds the amount again.\<close>

definition hundredths :: "rat \<Rightarrow> bool" where
  "hundredths h = (of_int \<lfloor>h * 100\<rfloor> = h * 100)"

lemma hundredths_iff: "hundredths h \<longleftrightarrow> (\<exists>k. h = of_int k / 100)"
proof
  assume "hundredths h"
  then have "h = of_int \<lfloor>h * 100\<rfloor> / 100" unfolding hundredths_def by linarith
  then show "\<exists>k. h = of_int k / 100" by blast
next
  assume "\<exists>k. h = of_int k / 100"
  then show "hundredths h" by (auto simp: hundredths_def)
qed

lemma hundredths_add [intro]: "hundredths g \<Longrightarrow> hundredths h \<Longrightarrow> hundredths (g + h)"
  unfolding hundredths_iff by (metis add_divide_distrib of_int_add)

lemma hundredths_diff [intro]: "hundredths g \<Longrightarrow> hundredths h \<Longrightarrow> hundredths (g - h)"
  unfolding hundredths_iff by (metis diff_divide_distrib of_int_diff)

lemma hundredths_0 [simp]: "hundredths 0"
  by (simp add: hundredths_def)

lemma round_half_even_unique:
  assumes "\<bar>x - of_int k\<bar> < 1 / 2"
  shows "round_half_even x = k"
proof -
  have "\<bar>of_int (round_half_even x) - of_int k\<bar> < (1::rat)"
    using round_half_even_near [of x] assms by linarith
  then have "\<bar>round_half_even x - k\<bar> < 1"
    by (simp only: of_int_diff [symmetric] of_int_abs [symmetric] of_int_less_1_iff)
  then show ?thesis by simp
qed

lemma round_dp_hundredths:
  assumes "hundredths h" and "\<bar>y - h\<bar> < 1 / 200"
  shows "round_dp 2 y = h"
proof -
  from assms(1) obtain k where h: "h = of_int k / 100" by (auto simp: hundredths_iff)
  have "\<bar>y * 100 - of_int k\<bar> < 1 / 2" using assms(2) by (simp add: h abs_less_iff field_simps)
  then have "round_half_even (y * 100) = k" by (rule round_half_even_unique)
  then show ?thesis by (simp add: round_dp_def h)
qed

definition near :: "rat \<Rightarrow> rat \<Rightarrow> rat \<Rightarrow> rat \<Rightarrow> bool" where
  "near x h d b = (\<bar>x - h\<bar> \<le> d \<and> \<bar>h\<bar> \<le> b)"

lemma fl_error_small: "\<bar>z\<bar> \<le> 10000001 \<Longrightarrow> \<bar>fl z - z\<bar> \<le> 1 / 100000000"
  using fl_error [of z] by simp

lemma near_fl: "\<bar>h\<bar> \<le> b \<Longrightarrow> b \<le> 10000000 \<Longrightarrow> near (fl h) h (1 / 100000000) b"
  using fl_error [of h] by (auto simp: near_def)

lemma near_add:
  assumes "near x h d b" and "near y g e c" and "b + c \<le> 10000000" and "d + e \<le> 1"
  shows "near (fl (x + y)) (h + g) (d + e + 1 / 100000000) (b + c)"
proof -
  have "\<bar>x + y\<bar> \<le> 10000001" "\<bar>x + y - (h + g)\<bar> \<le> d + e" "\<bar>h + g\<bar> \<le> b + c"
    using assms by (auto simp: near_def)
  with fl_error_small [of "x + y"] show ?thesis unfolding near_def by (intro conjI; linarith)
qed

lemma near_diff:
  assumes "near x h d b" and "near y g e c" and "b + c \<le> 10000000" and "d + e \<le> 1"
  shows "near (fl (x - y)) (h - g) (d + e + 1 / 100000000) (b + c)"
proof -
  have "\<bar>x - y\<bar> \<le> 10000001" "\<bar>x - y - (h - g)\<bar> \<le> d + e" "\<bar>h - g\<bar> \<le> b + c"
    using assms by (auto simp: near_def)
  with fl_error_small [of "x - y"] show ?thesis unfolding near_def by (intro conjI; linarith)
qed

lemma round2_near:
  assumes "near x h d b" and "hundredths h" and "d < 1 / 200"
  shows "round2 x = fl h"
  using assms round_dp_hundredths [of h x] by (simp add: round2_def near_def)

end
