(* ===== verification/PyDecimal.thy ===== *)
theory PyDecimal
  imports PyFloat
begin

text \<open>
  \<open>Decimal(str(x))\<close> of a float: Python prints the shortest decimal that reads back as \<open>x\<close>, of several the one
  nearest to \<open>x\<close>. The shortest decimal lies on the coarsest grid \<open>10^-p\<close> that has a point which reads back
  as \<open>x\<close>, and then one of the two neighbours of \<open>x\<close> on that grid does, because the reals that read back as \<open>x\<close>
  are an interval. Grids coarser than units make no difference below \<open>10^16\<close>, which the amount columns
  cannot exceed; 25 places are enough for seventeen digits from \<open>10^-8\<close> on, and the amounts are multiples of
  one hundredth.

  The lemmas show that an amount in hundredths goes through a float unharmed, and how far the sum of a list
  of floats can be from the exact sum.
\<close>

definition repr_on :: "nat \<Rightarrow> rat \<Rightarrow> decimal option" where
  "repr_on p x =
     (let lo = of_int \<lfloor>x * 10 ^ p\<rfloor> / 10 ^ p; hi = of_int \<lceil>x * 10 ^ p\<rceil> / 10 ^ p
      in if fl lo = x \<and> fl hi = x then Some (round_dp p x)
         else if fl lo = x then Some lo
         else if fl hi = x then Some hi
         else None)"

fun first_repr :: "nat \<Rightarrow> nat \<Rightarrow> rat \<Rightarrow> decimal" where
  "first_repr 0 p x = x"
| "first_repr (Suc n) p x = (case repr_on p x of Some r \<Rightarrow> r | None \<Rightarrow> first_repr n (Suc p) x)"

definition py_decimal :: "rat \<Rightarrow> decimal" where
  "py_decimal x = first_repr 26 0 x"

text \<open>\<open>sum\<close> over floats: from the left, starting at zero.\<close>

definition float_sum :: "rat list \<Rightarrow> rat" where
  "float_sum xs = foldl (\<lambda>a x. fl (a + x)) 0 xs"

section \<open>Reading back\<close>

lemma round_dp_grid: "round_dp p x = of_int \<lfloor>x * 10 ^ p\<rfloor> / 10 ^ p \<or> round_dp p x = of_int \<lceil>x * 10 ^ p\<rceil> / 10 ^ p"
proof (cases "of_int \<lfloor>x * 10 ^ p\<rfloor> = x * 10 ^ p")
  case True
  then have "round_half_even (x * 10 ^ p) = \<lfloor>x * 10 ^ p\<rfloor>" by (metis round_half_even_of_int)
  then show ?thesis by (simp add: round_dp_def)
next
  case False
  then have "\<lceil>x * 10 ^ p\<rceil> = \<lfloor>x * 10 ^ p\<rfloor> + 1" by linarith
  then show ?thesis by (auto simp: round_dp_def round_half_even_def Let_def)
qed

lemma grid_near:
  assumes "\<bar>a - x * 10 ^ p\<bar> \<le> (1::rat)"
  shows "\<bar>a / 10 ^ p - x\<bar> \<le> 1"
proof -
  have "a / 10 ^ p - x = (a - x * 10 ^ p) / 10 ^ p" by (simp add: field_simps)
  then have "\<bar>a / 10 ^ p - x\<bar> = \<bar>a - x * 10 ^ p\<bar> / 10 ^ p" by (simp add: abs_divide)
  also have "\<dots> \<le> 1 / 1" using assms by (intro frac_le) simp_all
  finally show ?thesis by simp
qed

lemma repr_onD:
  assumes "repr_on p x = Some r"
  shows "fl r = x" and "\<exists>k. r = of_int k / 10 ^ p" and "\<bar>r - x\<bar> \<le> 1"
proof -
  let ?lo = "of_int \<lfloor>x * 10 ^ p\<rfloor> / 10 ^ p :: rat" and ?hi = "of_int \<lceil>x * 10 ^ p\<rceil> / 10 ^ p :: rat"
  from assms have r: "fl r = x" "r = ?lo \<or> r = ?hi"
    using round_dp_grid [of p x] by (auto simp: repr_on_def Let_def split: if_splits)
  then show "fl r = x" "\<exists>k. r = of_int k / 10 ^ p" by blast+
  have "\<bar>?lo - x\<bar> \<le> 1" "\<bar>?hi - x\<bar> \<le> 1" by (rule grid_near, linarith)+
  with r(2) show "\<bar>r - x\<bar> \<le> 1" by presburger
qed

lemma first_repr_cases: "first_repr n p x = x \<or> (\<exists>q. repr_on q x = Some (first_repr n p x))"
  by (induction n p x rule: first_repr.induct) (auto split: option.splits)

lemma py_decimal_reads: "fl (py_decimal x) = x \<or> py_decimal x = x"
  using first_repr_cases [of 26 0 x] repr_onD(1) unfolding py_decimal_def by blast

lemma py_decimal_near: "\<bar>py_decimal x - x\<bar> \<le> (\<bar>x\<bar> + 1) / 2 ^ 53"
proof -
  let ?r = "py_decimal x"
  consider "?r = x" | q where "repr_on q x = Some ?r"
    using first_repr_cases [of 26 0 x] unfolding py_decimal_def by blast
  then show ?thesis
  proof cases
    case (2 q)
    have "\<bar>x - ?r\<bar> \<le> \<bar>?r\<bar> / 2 ^ 53" using fl_error [of ?r] unfolding repr_onD(1) [OF 2] .
    also have "\<dots> \<le> (\<bar>x\<bar> + 1) / 2 ^ 53"
      using repr_onD(3) [OF 2] by (intro divide_right_mono) (linarith, simp)
    finally show ?thesis by (simp only: abs_minus_commute)
  qed simp
qed

text \<open>No two amounts of moderate size share a float.\<close>

lemma hundredths_eq:
  assumes "hundredths g" and "hundredths h" and "\<bar>g - h\<bar> < 1 / 100"
  shows "g = h"
proof -
  from assms(1,2) obtain k l where kl: "g = of_int k / 100" "h = of_int l / 100" by (auto simp: hundredths_iff)
  with assms(3) have "\<bar>of_int k - of_int l\<bar> < (1::rat)" by (simp add: abs_less_iff field_simps)
  then have "k = l" by (simp only: of_int_diff [symmetric] of_int_abs [symmetric] of_int_less_1_iff)
  with kl show ?thesis by simp
qed

lemma hundredths_grid: "p \<le> 2 \<Longrightarrow> hundredths (of_int k / 10 ^ p)"
proof -
  assume "p \<le> 2"
  then consider "p = 0" | "p = 1" | "p = 2" by linarith
  then show ?thesis
  proof cases
    case 1
    have "(of_int k :: rat) = of_int (k * 100) / 100" by simp
    with 1 show ?thesis unfolding hundredths_iff by (metis div_by_1 power_0)
  next
    case 2
    have "(of_int k :: rat) / 10 = of_int (k * 10) / 100" by simp
    with 2 show ?thesis unfolding hundredths_iff by (metis power_one_right)
  next
    case 3
    then show ?thesis by (auto simp: hundredths_iff)
  qed
qed

lemma repr_on_hundredths:
  assumes h: "hundredths h" "\<bar>h\<bar> \<le> 9000000" and p: "p \<le> 2" and r: "repr_on p (fl h) = Some r"
  shows "r = h"
proof -
  have "hundredths r" using repr_onD(2) [OF r] hundredths_grid [OF p] by blast
  moreover have "\<bar>fl h - h\<bar> \<le> 1 / 100000000" using h by (intro fl_error_small) simp
  moreover from this have "\<bar>r\<bar> \<le> 10000001" using repr_onD(3) [OF r] h(2) by linarith
  then have "\<bar>fl r - r\<bar> \<le> 1 / 100000000" by (rule fl_error_small)
  then have "\<bar>fl h - r\<bar> \<le> 1 / 100000000" by (simp add: repr_onD(1) [OF r])
  ultimately show ?thesis using h(1) by (intro hundredths_eq) linarith+
qed

lemma repr_on_2:
  assumes h: "hundredths h" "\<bar>h\<bar> \<le> 9000000"
  shows "repr_on 2 (fl h) \<noteq> None"
proof -
  from h(1) obtain k where k: "h = of_int k / 100" by (auto simp: hundredths_iff)
  have "\<bar>fl h - h\<bar> \<le> 1 / 100000000" using h by (intro fl_error_small) simp
  then have "\<bar>fl h * 100 - of_int k\<bar> < 1" unfolding k by linarith
  then have "k = \<lfloor>fl h * 100\<rfloor> \<or> k = \<lceil>fl h * 100\<rceil>" by linarith
  then have "h = of_int \<lfloor>fl h * 10 ^ 2\<rfloor> / 10 ^ 2 \<or> h = of_int \<lceil>fl h * 10 ^ 2\<rceil> / 10 ^ 2"
    by (auto simp: k)
  then show ?thesis unfolding repr_on_def Let_def by (smt (verit) option.distinct(1))
qed

theorem py_decimal_hundredths:
  assumes "hundredths h" and "\<bar>h\<bar> \<le> 9000000"
  shows "py_decimal (fl h) = h"
proof -
  obtain r where r: "repr_on 2 (fl h) = Some r" using repr_on_2 [OF assms] by auto
  have "py_decimal (fl h) = (case repr_on 0 (fl h) of Some r \<Rightarrow> r | None \<Rightarrow> (case repr_on 1 (fl h) of Some r \<Rightarrow> r | None \<Rightarrow> r))"
    using r by (simp add: py_decimal_def eval_nat_numeral split: option.splits)
  also have "\<dots> = h"
    using repr_on_hundredths [OF assms, of 0] repr_on_hundredths [OF assms, of "Suc 0"]
      repr_on_hundredths [OF assms _ r] by (simp split: option.splits)
  finally show ?thesis .
qed

section \<open>Sums\<close>

text \<open>Rounding a float changes nothing.\<close>

lemma fl_scaled:
  assumes k: "\<bar>k\<bar> < 2 ^ 53"
  shows "fl (of_int k * 2 powi e) = of_int k * 2 powi e"
proof (cases "k = 0")
  case False
  let ?x = "of_int k * 2 powi e :: rat"
  let ?e = "fl_exp ?x"
  have x: "?x \<noteq> 0" using False by simp
  have "\<bar>of_int k :: rat\<bar> < 2 powi 53"
  proof -
    have "\<bar>of_int k :: rat\<bar> < of_int (2 ^ 53)" using k by (simp only: of_int_abs [symmetric] of_int_less_iff)
    then show ?thesis by simp
  qed
  then have "\<bar>?x\<bar> < 2 powi 53 * 2 powi e" unfolding abs_mult by (simp add: abs_of_pos)
  also have "\<dots> = 2 powi (53 + e)" by (subst power_int_add) simp_all
  finally have "2 powi ?e < (2::rat) powi (53 + e)" using fl_exp_bounds(1) [OF x] by (rule le_less_trans [rotated])
  then have e: "?e < 53 + e" by (rule powi_less_imp)
  have "?x / 2 powi (?e - 52) = of_int k * 2 powi (e - (?e - 52))" by (subst power_int_diff) simp_all
  also have "\<dots> = of_int (k * 2 ^ nat (e - (?e - 52)))" using e by (simp add: power_int_def)
  finally have xu: "?x / 2 powi (?e - 52) = of_int (k * 2 ^ nat (e - (?e - 52)))" .
  have "fl ?x = of_int (round_half_even (?x / 2 powi (?e - 52))) * 2 powi (?e - 52)"
    using x by (simp only: fl_def if_False Let_def)
  also have "\<dots> = ?x / 2 powi (?e - 52) * 2 powi (?e - 52)" unfolding xu round_half_even_of_int ..
  also have "\<dots> = ?x" by simp
  finally show ?thesis .
qed simp

lemma fl_idem: "fl (fl z) = fl z"
proof (cases "z = 0")
  case False
  let ?e = "fl_exp z - 52"
  let ?k = "round_half_even (z / 2 powi ?e)"
  have f: "fl z = of_int ?k * 2 powi ?e" using False by (simp only: fl_def if_False Let_def)
  have "\<bar>z\<bar> / 2 powi ?e < 2 powi (fl_exp z + 1) / 2 powi ?e"
    using fl_exp_bounds(2) [OF False] by (intro divide_strict_right_mono) simp_all
  also have "\<dots> = 2 powi (fl_exp z + 1 - ?e)" by (rule power_int_diff [symmetric]) simp
  finally have b: "\<bar>z / 2 powi ?e\<bar> < 2 ^ 53" by (simp add: abs_divide)
  have "\<bar>of_int ?k :: rat\<bar> < 2 ^ 53 + 1"
    using round_half_even_near [of "z / 2 powi ?e"] b by linarith
  then have "\<bar>?k\<bar> < 2 ^ 53 + 1"
    by (simp only: of_int_abs [symmetric] of_int_less_iff [symmetric, where ?'a = rat]) simp
  then consider "\<bar>?k\<bar> < 2 ^ 53" | "?k = 2 ^ 53" | "?k = - (2 ^ 53)" by linarith
  then show ?thesis
  proof cases
    case 1
    from fl_scaled [OF this] show ?thesis by (simp only: f)
  next
    case 2
    have "fl z = of_int 1 * 2 powi (53 + ?e)" unfolding f 2 by (subst power_int_add) simp_all
    then show ?thesis using fl_scaled [of 1 "53 + ?e"] by simp
  next
    case 3
    have "fl z = of_int (- 1) * 2 powi (53 + ?e)" unfolding f 3 by (subst power_int_add) simp_all
    then show ?thesis using fl_scaled [of "- 1" "53 + ?e"] by simp
  qed
qed simp

lemma float_sum_snoc: "float_sum (xs @ [x]) = fl (float_sum xs + x)"
  by (simp add: float_sum_def)

text \<open>The sum of at most \<open>100000\<close> amounts, added as floats.\<close>

lemma float_sum_near:
  assumes "list_all (\<lambda>h. 0 \<le> h) hs" and "sum_list hs \<le> 9000000"
    and "length hs \<le> 100000"
  shows "near (float_sum (map fl hs)) (sum_list hs) (of_nat (length hs) * (1 / 50000000)) (sum_list hs)"
  using assms
proof (induction hs rule: rev_induct)
  case Nil
  then show ?case by (simp add: float_sum_def near_def)
next
  case (snoc h hs)
  then have pos: "0 \<le> h" "0 \<le> sum_list hs" "h + sum_list hs \<le> 9000000"
    by (auto simp: list_all_iff intro: sum_list_nonneg)
  then have "near (float_sum (map fl hs)) (sum_list hs) (of_nat (length hs) * (1 / 50000000)) (sum_list hs)"
    using snoc by auto
  moreover have "near (fl h) h (1 / 100000000) h" using pos by (intro near_fl) auto
  moreover have "of_nat (length hs) * (1 / 50000000) + 1 / 100000000 \<le> (1::rat)"
  proof -
    have "(of_nat (length hs) :: rat) \<le> of_nat 100000" using snoc.prems(3) by (simp only: of_nat_le_iff) simp
    then show ?thesis by simp
  qed
  ultimately have "near (fl (float_sum (map fl hs) + fl h)) (sum_list hs + h)
      (of_nat (length hs) * (1 / 50000000) + 1 / 100000000 + 1 / 100000000) (sum_list hs + h)"
    using pos by (intro near_add) auto
  then show ?case by (simp add: float_sum_snoc algebra_simps add_divide_distrib)
qed

lemma hundredths_sum: "list_all hundredths hs \<Longrightarrow> hundredths (sum_list hs)"
  by (induction hs) auto

text \<open>Two lists of amounts whose float sums print alike have the same exact sum, and what is printed rounds
  to it.\<close>

definition amounts :: "decimal list \<Rightarrow> bool" where
  "amounts hs = (list_all (\<lambda>h. hundredths h \<and> 0 \<le> h) hs \<and> sum_list hs \<le> 9000000 \<and> length hs \<le> 100000)"

lemma py_decimal_sum:
  assumes "amounts hs"
  shows "\<bar>py_decimal (float_sum (map fl hs)) - sum_list hs\<bar> < 1 / 200" and "hundredths (sum_list hs)"
proof -
  let ?f = "float_sum (map fl hs)"
  have pos: "list_all (\<lambda>h. 0 \<le> h) hs" "list_all hundredths hs"
    using assms by (auto simp: amounts_def list_all_iff)
  have n: "(of_nat (length hs) :: rat) \<le> of_nat 100000"
    using assms by (simp only: of_nat_le_iff amounts_def)
  have near: "near ?f (sum_list hs) (of_nat (length hs) * (1 / 50000000)) (sum_list hs)"
    using float_sum_near [OF pos(1)] assms by (auto simp: amounts_def)
  then have d: "\<bar>?f - sum_list hs\<bar> \<le> 1 / 500" using n by (auto simp: near_def)
  moreover have "0 \<le> sum_list hs" using pos(1) by (auto simp: list_all_iff intro: sum_list_nonneg)
  then have "\<bar>sum_list hs\<bar> \<le> 9000000" using assms by (simp add: amounts_def)
  ultimately have "\<bar>?f\<bar> \<le> 9000001" by linarith
  then have "(\<bar>?f\<bar> + 1) / 2 ^ 53 \<le> 1 / 1000" by simp
  with py_decimal_near [of ?f] have "\<bar>py_decimal ?f - ?f\<bar> \<le> 1 / 1000" by linarith
  with d show "\<bar>py_decimal ?f - sum_list hs\<bar> < 1 / 200" by linarith
  show "hundredths (sum_list hs)" by (rule hundredths_sum [OF pos(2)])
qed

lemma zero_sum:
  assumes "amounts hs" and "sum_list hs = 0"
  shows "py_decimal (float_sum (map fl hs)) = 0"
proof -
  have "\<forall>h\<in>set hs. h = 0"
    using assms sum_list_nonneg_eq_0_iff [of hs] by (auto simp: amounts_def list_all_iff)
  then have "float_sum (map fl hs) = 0"
    unfolding float_sum_def by (induction hs) auto
  with py_decimal_hundredths [of 0] show ?thesis by simp
qed

lemma equal_sums:
  assumes "amounts gs" and "amounts hs"
    and "py_decimal (float_sum (map fl gs)) = py_decimal (float_sum (map fl hs))"
  shows "sum_list gs = sum_list hs"
  using py_decimal_sum [OF assms(1)] py_decimal_sum [OF assms(2)] assms(3)
  by (intro hundredths_eq) linarith+

section \<open>Numeric columns\<close>

text \<open>What a column of \<open>n\<close> places keeps: a multiple of \<open>10 ^ -n\<close> at most half a unit away, and a value that
  has no more places as it is.\<close>

definition column_rounding :: "(nat \<Rightarrow> decimal \<Rightarrow> decimal) \<Rightarrow> bool" where
  "column_rounding rnd =
     (\<forall>x. hundredths (rnd 2 x) \<and> \<bar>rnd 2 x - x\<bar> \<le> 1 / 200)"

lemma column_rounding_hundredths:
  assumes "column_rounding rnd"
  shows "hundredths (rnd 2 x)" and "\<bar>rnd 2 x - x\<bar> \<le> 1 / 200"
  using assms by (auto simp: column_rounding_def)

lemma column_rounding_near:
  assumes "column_rounding rnd" and "hundredths h" and "\<bar>x - h\<bar> < 1 / 200"
  shows "rnd 2 x = h"
proof -
  have "\<bar>rnd 2 x - h\<bar> < 1 / 100"
    using column_rounding_hundredths(2) [OF assms(1), of x] assms(3) by linarith
  with column_rounding_hundredths(1) [OF assms(1)] assms(2) show ?thesis by (rule hundredths_eq)
qed

lemma column_rounding_id: "column_rounding rnd \<Longrightarrow> hundredths h \<Longrightarrow> rnd 2 h = h"
  by (rule column_rounding_near) simp_all

lemma column_rounding_exists: "column_rounding round_dp"
proof -
  have "hundredths (round_dp 2 x)" for x by (auto simp: hundredths_iff round_dp_def)
  then show ?thesis using round_dp_near [of 2] by (auto simp: column_rounding_def)
qed

text \<open>A float written to a column of two places.\<close>

definition stored :: "(nat \<Rightarrow> decimal \<Rightarrow> decimal) \<Rightarrow> rat \<Rightarrow> decimal" where
  "stored rnd x = rnd 2 (py_decimal x)"

lemma stored_hundredths: "column_rounding rnd \<Longrightarrow> hundredths (stored rnd x)"
  by (simp add: stored_def column_rounding_hundredths)

lemma stored_fl: "column_rounding rnd \<Longrightarrow> hundredths h \<Longrightarrow> \<bar>h\<bar> \<le> 9000000 \<Longrightarrow> stored rnd (fl h) = h"
  by (simp add: stored_def py_decimal_hundredths column_rounding_id)

lemma stored_sum: "column_rounding rnd \<Longrightarrow> amounts hs \<Longrightarrow> stored rnd (float_sum (map fl hs)) = sum_list hs"
  unfolding stored_def using py_decimal_sum [of hs] by (intro column_rounding_near) simp_all

end
