(* ===== verification/FinanceOpsModel.thy ===== *)
theory FinanceOpsModel
  imports PostingEngine PyDecimal
begin

text \<open>
  The data of finance operations (\<^verbatim>\<open>src/app/models/finance_ops.py\<close>): customer invoices, supplier bills,
  receipt and payment vouchers, the two party ledgers, banks with their transactions, statements and
  reconciliations, fixed assets with their depreciation schedules, and budgets, beside the general ledger
  \<open>gl\<close> that the services post into.

  Amount columns are \<open>Numeric(18, 2)\<close>. The database rounds what it stores to the places of the column;
  \<open>rnd n\<close>, a parameter of the operations that store unrounded values, is this rounding.
\<close>

section \<open>Rows\<close>

datatype fo_status = FDraft | FPosted | FPartiallyPaid | FPaid | FCancelled

text \<open>\<open>CustomerInvoiceLine\<close> and \<open>SupplierBillLine\<close> have the same columns, so have the two ledgers.\<close>

record fo_invoice_line =
  il_product_id :: "uuid option"
  il_account_id :: uuid
  il_description :: string
  il_quantity :: decimal
  il_unit_price :: decimal
  il_subtotal :: decimal
  il_tax_rate_id :: "uuid option"
  il_tax_amount :: decimal
  il_total_amount :: decimal

record customer_invoice =
  invoice_number :: string
  ci_customer_id :: uuid
  ci_sales_order_id :: "uuid option"
  ci_journal_id :: "uuid option"
  invoice_date :: date
  ci_due_date :: date
  ci_currency_code :: string
  ci_exchange_rate :: decimal
  ci_subtotal :: decimal
  ci_tax_amount :: decimal
  ci_total_amount :: decimal
  ci_paid_amount :: decimal
  ci_outstanding_amount :: decimal
  ci_status :: fo_status
  ci_notes :: "string option"
  ci_lines :: "fo_invoice_line list"

record supplier_bill =
  bill_number :: string
  vendor_bill_number :: "string option"
  sb_supplier_id :: uuid
  sb_purchase_order_id :: "uuid option"
  sb_journal_id :: "uuid option"
  bill_date :: date
  sb_due_date :: date
  sb_currency_code :: string
  sb_exchange_rate :: decimal
  sb_subtotal :: decimal
  sb_tax_amount :: decimal
  sb_total_amount :: decimal
  sb_paid_amount :: decimal
  sb_outstanding_amount :: decimal
  sb_status :: fo_status
  sb_notes :: "string option"
  sb_lines :: "fo_invoice_line list"

record party_entry =
  pe_party_id :: uuid
  pe_posting_date :: date
  pe_document_type :: string
  pe_document_number :: string
  pe_journal_id :: "uuid option"
  pe_debit :: decimal
  pe_credit :: decimal
  pe_running_balance :: decimal
  pe_description :: "string option"

text \<open>\<open>ReceiptVoucher\<close> and \<open>PaymentVoucher\<close>; the party is the customer or the supplier.\<close>

record voucher =
  voucher_number :: string
  vo_party_id :: "uuid option"
  payment_mode :: string
  vo_bank_account_id :: "uuid option"
  vo_cash_account_id :: "uuid option"
  vo_journal_id :: "uuid option"
  vo_date :: date
  vo_amount :: decimal
  vo_allocated_amount :: decimal
  vo_unallocated_amount :: decimal
  vo_reference_number :: "string option"
  vo_status :: fo_status
  vo_notes :: "string option"

record bank_account =
  ba_account_name :: string
  ba_account_number :: string
  ba_bank_name :: string
  ba_branch_name :: "string option"
  ba_swift_code :: "string option"
  ba_iban :: "string option"
  ba_currency_code :: string
  gl_account_id :: uuid
  ba_current_balance :: decimal
  ba_is_active :: bool

record bank_transaction =
  bt_bank_account_id :: uuid
  bt_transaction_date :: date
  transaction_type :: string
  bt_amount :: decimal
  bt_reference_number :: "string option"
  payee_or_payer :: "string option"
  bt_description :: "string option"
  is_reconciled :: bool

record bank_statement =
  bs_bank_account_id :: uuid
  statement_number :: string
  bs_start_date :: date
  bs_end_date :: date
  bs_opening_balance :: decimal
  bs_closing_balance :: decimal
  bs_status :: string

record statement_line =
  sl_statement_id :: uuid
  sl_transaction_date :: date
  sl_amount :: decimal
  sl_reference_number :: "string option"
  sl_description :: "string option"
  is_matched :: bool
  matched_transaction_id :: "uuid option"

record reconciliation_item =
  ri_statement_line_id :: uuid
  ri_bank_transaction_id :: uuid
  ri_match_status :: string

record bank_reconciliation =
  br_bank_account_id :: uuid
  reconciliation_date :: date
  statement_balance :: decimal
  gl_balance :: decimal
  unreconciled_amount :: decimal
  br_status :: string
  br_items :: "reconciliation_item list"

record asset_category =
  cat_code :: string
  cat_name :: string
  depreciation_method :: string
  useful_life_years :: int
  asset_account_id :: uuid
  accumulated_depreciation_account_id :: uuid
  depreciation_expense_account_id :: uuid

record fixed_asset =
  asset_code :: string
  fa_name :: string
  fa_category_id :: uuid
  fa_department_id :: "uuid option"
  acquisition_date :: date
  purchase_cost :: decimal
  salvage_value :: decimal
  current_book_value :: decimal
  fa_status :: string

record depreciation_schedule =
  ds_asset_id :: uuid
  schedule_date :: date
  ds_period_name :: string
  depreciation_amount :: decimal
  accumulated_depreciation :: decimal
  ending_book_value :: decimal
  ds_status :: string
  ds_journal_id :: "uuid option"

record budget_line =
  bl_account_id :: uuid
  budgeted_amount :: decimal
  actual_amount :: decimal
  variance_amount :: decimal

record budget =
  bu_code :: string
  bu_name :: string
  bu_fiscal_year_id :: uuid
  bu_department_id :: "uuid option"
  bu_cost_center_id :: "uuid option"
  total_budgeted_amount :: decimal
  total_actual_amount :: decimal
  bu_status :: string
  bu_lines :: "budget_line list"

text \<open>Customers and suppliers with their names; they are kept by other services.\<close>

record fops =
  gl :: fin
  fo_customers :: "string table"
  fo_suppliers :: "string table"
  customer_invoices :: "customer_invoice table"
  customer_ledger :: "party_entry table"
  supplier_bills :: "supplier_bill table"
  supplier_ledger :: "party_entry table"
  receipt_vouchers :: "voucher table"
  payment_vouchers :: "voucher table"
  bank_accounts :: "bank_account table"
  bank_transactions :: "bank_transaction table"
  bank_statements :: "bank_statement table"
  statement_lines :: "statement_line table"
  reconciliations :: "bank_reconciliation table"
  asset_categories :: "asset_category table"
  fixed_assets :: "fixed_asset table"
  depreciation_schedules :: "depreciation_schedule table"
  budgets :: "budget table"
  fo_next :: uuid

section \<open>Requests\<close>

record invoice_line_create =
  lc_product_id :: "uuid option"
  lc_account_id :: uuid
  lc_description :: string
  lc_quantity :: decimal
  lc_unit_price :: decimal
  lc_tax_rate_id :: "uuid option"
  lc_tax_amount :: decimal

record invoice_create =
  ic_customer_id :: uuid
  ic_sales_order_id :: "uuid option"
  ic_invoice_date :: date
  ic_due_date :: date
  ic_currency_code :: string
  ic_exchange_rate :: decimal
  ic_notes :: "string option"
  ic_lines :: "invoice_line_create list"

record bill_create =
  bc_supplier_id :: uuid
  bc_vendor_bill_number :: "string option"
  bc_purchase_order_id :: "uuid option"
  bc_bill_date :: date
  bc_due_date :: date
  bc_currency_code :: string
  bc_exchange_rate :: decimal
  bc_notes :: "string option"
  bc_lines :: "invoice_line_create list"

text \<open>\<open>ReceiptVoucherCreate\<close> and \<open>PaymentVoucherCreate\<close>; no service reads their allocations.\<close>

record voucher_create =
  vc_party_id :: "uuid option"
  vc_payment_mode :: string
  vc_bank_account_id :: "uuid option"
  vc_cash_account_id :: "uuid option"
  vc_date :: date
  vc_amount :: decimal
  vc_reference_number :: "string option"
  vc_notes :: "string option"

text \<open>The checks of pydantic on these bodies.\<close>

definition valid_line :: "invoice_line_create \<Rightarrow> bool" where
  "valid_line l = (0 < lc_quantity l \<and> 0 \<le> lc_unit_price l \<and> 0 \<le> lc_tax_amount l)"

definition valid_lines :: "invoice_line_create list \<Rightarrow> bool" where
  "valid_lines ls = (1 \<le> length ls \<and> list_all valid_line ls)"

definition valid_voucher :: "voucher_create \<Rightarrow> bool" where
  "valid_voucher v = (0 < vc_amount v)"

section \<open>What the services share\<close>

definition fo_emit :: "effect list \<Rightarrow> fops \<Rightarrow> fops" where
  "fo_emit es s = s\<lparr>gl := emit es (gl s)\<rparr>"

text \<open>A foreign key of the schema, and one that may be null.\<close>

definition fk :: "'r table \<Rightarrow> uuid \<Rightarrow> bool" where
  "fk t i = (get t i \<noteq> None)"

definition fk_opt :: "'r table \<Rightarrow> uuid option \<Rightarrow> bool" where
  "fk_opt t i = (case i of None \<Rightarrow> True | Some k \<Rightarrow> fk t k)"

text \<open>The account with a well-known code, and the first account of a type.\<close>

definition account_with_code :: "string \<Rightarrow> fin \<Rightarrow> uuid option" where
  "account_with_code c s = map_option fst (first_where (\<lambda>a. account_code a = c) (accounts s))"

definition account_of_type :: "string \<Rightarrow> fin \<Rightarrow> uuid option" where
  "account_of_type ty s = map_option fst (first_where (\<lambda>a. account_type a = ty) (accounts s))"

definition account_or_type :: "string \<Rightarrow> string \<Rightarrow> fin \<Rightarrow> uuid option" where
  "account_or_type c ty s = (case account_with_code c s of Some i \<Rightarrow> Some i | None \<Rightarrow> account_of_type ty s)"

text \<open>The entry of a party created last, for its running balance.\<close>

definition previous_balance :: "party_entry table \<Rightarrow> uuid \<Rightarrow> decimal" where
  "previous_balance t p =
     (case first_where (\<lambda>e. pe_party_id e = p) (rev t) of
        None \<Rightarrow> 0 | Some (k, e) \<Rightarrow> pe_running_balance e)"

lemma fo_emit_fields [simp]:
  "customer_invoices (fo_emit es s) = customer_invoices s" "customer_ledger (fo_emit es s) = customer_ledger s"
  "supplier_bills (fo_emit es s) = supplier_bills s" "supplier_ledger (fo_emit es s) = supplier_ledger s"
  "receipt_vouchers (fo_emit es s) = receipt_vouchers s" "payment_vouchers (fo_emit es s) = payment_vouchers s"
  "bank_accounts (fo_emit es s) = bank_accounts s" "bank_transactions (fo_emit es s) = bank_transactions s"
  "bank_statements (fo_emit es s) = bank_statements s" "statement_lines (fo_emit es s) = statement_lines s"
  "reconciliations (fo_emit es s) = reconciliations s" "asset_categories (fo_emit es s) = asset_categories s"
  "fixed_assets (fo_emit es s) = fixed_assets s" "budgets (fo_emit es s) = budgets s"
  "depreciation_schedules (fo_emit es s) = depreciation_schedules s" "fo_next (fo_emit es s) = fo_next s"
  "gl (fo_emit es s) = emit es (gl s)" "fo_customers (fo_emit es s) = fo_customers s"
  "fo_suppliers (fo_emit es s) = fo_suppliers s"
  by (simp_all add: fo_emit_def)

end
