(* ===== verification/AutoPosting.thy ===== *)
theory AutoPosting
  imports FinanceOpsModel
begin

text \<open>
  \<open>post_double_entry_journal\<close> of \<open>PostingEngineService\<close> (\<^verbatim>\<open>src/app/services/finance_services.py\<close>), through which
  the services of finance operations write to the general ledger: a journal is created and posted in one
  call. Its lines are dictionaries with amounts as floats, which become decimals again by \<open>Decimal(str(x))\<close>.

  The lemmas show that a journal that passes the comparison of the float sums is balanced in exact amounts,
  what it does to every account, and that it keeps the accounting equation.
\<close>

section \<open>The call\<close>

record entry_line =
  el_account_id :: uuid
  el_debit :: rat
  el_credit :: rat
  el_description :: string

definition general_type :: journal_type where
  "general_type = \<lparr>jt_code = ''GEN'', jt_name = ''General Journal'', jt_prefix = ''JV'',
     requires_approval = False, approval_threshold = 0\<rparr>"

text \<open>The first journal type there is; without any, one is made.\<close>

definition any_journal_type :: "fin \<Rightarrow> uuid \<times> journal_type \<times> fin" where
  "any_journal_type s =
     (case journal_types s of
        (i, t) # _ \<Rightarrow> (i, t, s)
      | [] \<Rightarrow> (next_id s, general_type,
          s\<lparr>journal_types := add_row (next_id s) general_type (journal_types s), next_id := next_id s + 1\<rparr>))"

definition auto_line :: "(nat \<Rightarrow> decimal \<Rightarrow> decimal) \<Rightarrow> nat \<times> entry_line \<Rightarrow> journal_line" where
  "auto_line rnd = (\<lambda>(k, e).
     \<lparr>line_number = k, jl_account_id = el_account_id e, jl_cost_center_id = None,
      debit = rnd 2 (py_decimal (el_debit e)), credit = rnd 2 (py_decimal (el_credit e)),
      jl_description = Some (el_description e), jl_dimensions = None\<rparr>)"

definition auto_journal ::
  "(nat \<Rightarrow> decimal \<Rightarrow> decimal) \<Rightarrow> string \<Rightarrow> uuid \<Rightarrow> date \<Rightarrow> uuid option \<Rightarrow> string \<Rightarrow> string \<Rightarrow> decimal \<Rightarrow> decimal \<Rightarrow>
   entry_line list \<Rightarrow> uuid option \<Rightarrow> timestamp \<Rightarrow> journal" where
  "auto_journal rnd num tid d period desc ref td tc els user now =
     \<lparr>journal_number = num, j_type_id = tid, posting_date = d, fiscal_period_id = period,
      j_currency_code = ''USD'', exchange_rate = 1, j_description = desc, reference_module = None,
      reference_id = Some ref, j_status = JPosted, total_debit = rnd 2 td, total_credit = rnd 2 tc,
      posted_at = Some now, posted_by_id = user, reversed_journal_id = None, reversal_reason = None,
      j_is_deleted = False, lines = map (auto_line rnd) (enumerate 1 els)\<rparr>"

definition auto_post_line :: "entry_line \<Rightarrow> fin \<Rightarrow> fin result" where
  "auto_post_line e s =
     (case get (accounts s) (el_account_id e) of
        None \<Rightarrow> Inr s
      | Some a \<Rightarrow>
        if \<not> acc_is_active a \<or> acc_is_deleted a then Inl (ValueErr ''Account is inactive or deleted'')
        else Inr (change_balance (el_account_id e) (py_decimal (el_debit e)) (py_decimal (el_credit e)) s))"

text \<open>A line whose account does not exist is skipped by the loop and refused by the foreign key at the commit.
  \<open>suffix\<close> is the date and the random digits of the journal number.\<close>

definition post_double_entry_journal ::
  "(nat \<Rightarrow> decimal \<Rightarrow> decimal) \<Rightarrow> fin \<Rightarrow> date \<Rightarrow> string \<Rightarrow> entry_line list \<Rightarrow> string \<Rightarrow> uuid option \<Rightarrow> timestamp \<Rightarrow>
   string \<Rightarrow> (uuid \<times> fin) result" where
  "post_double_entry_journal rnd s d desc els ref user now suffix =
     (case any_journal_type s of (tid, jt, s1) \<Rightarrow>
      let period = get_period_for_date s1 d in
      if blocked period then Inl (ValueErr ''Cannot post journal: Fiscal Period is closed or locked'')
      else
        let td = py_decimal (float_sum (map el_debit els)); tc = py_decimal (float_sum (map el_credit els)) in
        if td \<noteq> tc \<or> td \<le> 0
          then Inl (ValueErr ''Unbalanced journal entries cannot be posted into General Ledger'')
        else case insert_journal (auto_journal rnd (jt_prefix jt @ ''-'' @ suffix) tid d (map_option fst period)
                 desc ref td tc els user now) s1 of
            Inl e \<Rightarrow> Inl e
          | Inr s2 \<Rightarrow>
            (case fold_res auto_post_line els s2 of
               Inl e \<Rightarrow> Inl e
             | Inr s3 \<Rightarrow>
               if \<not> list_all (\<lambda>e. fk (accounts s3) (el_account_id e)) els
                 then Inl (IntegrityErr ''journal_lines.account_id'')
               else Inr (next_id s1, emit [Audit ''POST'' ''Journal'' (next_id s1)] s3)))"

section \<open>Effect on the accounts\<close>

definition entry_net :: "uuid \<Rightarrow> entry_line list \<Rightarrow> decimal" where
  "entry_net i els = sum_list (map (\<lambda>e. if el_account_id e = i
     then py_decimal (el_debit e) - py_decimal (el_credit e) else 0) els)"

lemma entry_net_simps [simp]:
  "entry_net i [] = 0"
  "entry_net i (e # els) = (if el_account_id e = i
     then py_decimal (el_debit e) - py_decimal (el_credit e) else 0) + entry_net i els"
  by (simp_all add: entry_net_def)

definition postable :: "fin \<Rightarrow> uuid \<Rightarrow> bool" where
  "postable s i = (case get (accounts s) i of None \<Rightarrow> True | Some a \<Rightarrow> acc_is_active a \<and> \<not> acc_is_deleted a)"

lemma balances_moved_postable: "balances_moved s s' net \<Longrightarrow> postable s' i = postable s i"
  by (auto simp: postable_def balances_moved_def split: option.splits)

lemma auto_lines_balances:
  assumes "fold_res auto_post_line els s = Inr s'"
    and "list_all (\<lambda>e. fk (accounts s) (el_account_id e)) els"
  shows "balances_moved s s' (\<lambda>i. entry_net i els) \<and> list_all (\<lambda>e. postable s (el_account_id e)) els"
  using assms
proof (induction els arbitrary: s)
  case Nil
  then show ?case by (simp add: balances_moved_refl)
next
  case (Cons e els)
  let ?i = "el_account_id e"
  let ?t = "change_balance ?i (py_decimal (el_debit e)) (py_decimal (el_credit e)) s"
  from Cons.prems have p: "postable s ?i" and rest: "fold_res auto_post_line els ?t = Inr s'"
    by (auto simp: auto_post_line_def [of e] postable_def fk_def split: option.splits if_splits sum.splits)
  have move: "balances_moved s ?t (\<lambda>i. if i = ?i then py_decimal (el_debit e) - py_decimal (el_credit e) else 0)"
    by (rule balances_moved_change)
  have "list_all (\<lambda>e. fk (accounts ?t) (el_account_id e)) els"
    using Cons.prems(2) balances_moved_frame(6) [OF move] by (simp add: fk_def get_None_iff)
  note IH = Cons.IH [OF rest this]
  have "balances_moved s s' (\<lambda>i. (if i = ?i then py_decimal (el_debit e) - py_decimal (el_credit e) else 0)
      + entry_net i els)"
    using balances_moved_trans [OF move] IH by blast
  then have "balances_moved s s' (\<lambda>i. entry_net i (e # els))" by (simp add: eq_commute)
  with p IH show ?case by (simp add: balances_moved_postable [OF move])
qed

lemma auto_lines_frame:
  assumes "fold_res auto_post_line els s = Inr s'"
  shows "journals s' = journals s \<and> next_id s' = next_id s \<and> keys (accounts s') = keys (accounts s) \<and>
    journal_types s' = journal_types s \<and> fiscal_periods s' = fiscal_periods s \<and> fiscal_years s' = fiscal_years s"
  using assms
  by (rule fold_res_invariant [where I = "\<lambda>t. journals t = journals s \<and> next_id t = next_id s \<and>
      keys (accounts t) = keys (accounts s) \<and> journal_types t = journal_types s \<and>
      fiscal_periods t = fiscal_periods s \<and> fiscal_years t = fiscal_years s", rotated])
    (auto simp: auto_post_line_def split: option.splits if_splits)

lemma auto_lines_equation:
  assumes "distinct (keys (accounts s))" and "list_all (\<lambda>e. fk (accounts s) (el_account_id e)) els"
    and "fold_res auto_post_line els s = Inr s'"
  shows "equation_total s' = equation_total s
    + sum_list (map (\<lambda>e. py_decimal (el_debit e) - py_decimal (el_credit e)) els)"
proof -
  let ?I = "\<lambda>t. distinct (keys (accounts t)) \<and> list_all (\<lambda>e. fk (accounts t) (el_account_id e)) els"
  have "?I s' \<and> equation_total s' = equation_total s
    + sum_list (map (\<lambda>e. py_decimal (el_debit e) - py_decimal (el_credit e)) els)"
  proof (rule fold_res_additive [OF _ assms(3), where I = ?I])
    fix e t u
    assume "?I t" "auto_post_line e t = Inr u" "e \<in> set els"
    then show "?I u \<and> equation_total u = equation_total t + (py_decimal (el_debit e) - py_decimal (el_credit e))"
      by (auto simp: auto_post_line_def fk_def list_all_iff get_None_iff get_account_def equation_total_change
          split: option.splits if_splits)
  qed (use assms in simp)
  then show ?thesis ..
qed

lemma any_journal_type_fields:
  assumes "any_journal_type s = (tid, jt, s1)"
  shows "accounts s1 = accounts s" "journals s1 = journals s" "fiscal_periods s1 = fiscal_periods s"
    "fiscal_years s1 = fiscal_years s" "next_id s \<le> next_id s1" "wf_fin s \<Longrightarrow> wf_fin s1"
    "fin_effects s1 = fin_effects s" "posting_queue s1 = posting_queue s"
  using assms by (auto simp: any_journal_type_def wf_fin_def split: list.splits
      intro: wf_table_mono wf_table_add_row [OF wf_table_Nil order_refl])

lemma get_period_cong:
  "fiscal_periods s' = fiscal_periods s \<Longrightarrow> fiscal_years s' = fiscal_years s \<Longrightarrow>
   get_period_for_date s' d = get_period_for_date s d"
  by (simp add: get_period_for_date_def)

text \<open>What a successful call has done.\<close>

lemma post_double_entryD:
  assumes "post_double_entry_journal rnd s d desc els ref user now suffix = Inr (i, s')"
  obtains tid jt s1 td where "any_journal_type s = (tid, jt, s1)" "i = next_id s1"
    "\<not> blocked (get_period_for_date s d)"
    "td = py_decimal (float_sum (map el_debit els))" "td = py_decimal (float_sum (map el_credit els))" "0 < td"
    "list_all (\<lambda>e. fk (accounts s) (el_account_id e) \<and> postable s (el_account_id e)) els"
    "journals s' = add_row i (auto_journal rnd (jt_prefix jt @ ''-'' @ suffix) tid d
       (map_option fst (get_period_for_date s d)) desc ref td td els user now) (journals s)"
    "next_id s' = i + 1" "journal_types s' = journal_types s1"
    "fiscal_periods s' = fiscal_periods s" "fiscal_years s' = fiscal_years s"
    "keys (accounts s') = keys (accounts s)"
    "\<forall>k. get (accounts s') k = map_option (\<lambda>a. a\<lparr>current_balance := current_balance a +
       (if debit_normal a then entry_net k els else - entry_net k els)\<rparr>) (get (accounts s) k)"
    "distinct (keys (accounts s)) \<Longrightarrow> equation_total s' = equation_total s
      + sum_list (map (\<lambda>e. py_decimal (el_debit e) - py_decimal (el_credit e)) els)"
proof -
  obtain tid jt s1 where ty: "any_journal_type s = (tid, jt, s1)" by (metis prod_cases3)
  note f1 = any_journal_type_fields [OF ty]
  have per: "get_period_for_date s1 d = get_period_for_date s d" by (rule get_period_cong) (simp_all add: f1)
  let ?td = "py_decimal (float_sum (map el_debit els))" and ?tc = "py_decimal (float_sum (map el_credit els))"
  let ?j = "auto_journal rnd (jt_prefix jt @ ''-'' @ suffix) tid d (map_option fst (get_period_for_date s d))
      desc ref ?td ?tc els user now"
  from assms have g: "\<not> blocked (get_period_for_date s d)" "?td = ?tc" "0 < ?td"
    by (auto simp: post_double_entry_journal_def ty per Let_def not_le split: if_splits)
  with assms obtain s2 s3 where s2: "insert_journal ?j s1 = Inr s2" and s3: "fold_res auto_post_line els s2 = Inr s3"
    and fk: "list_all (\<lambda>e. fk (accounts s3) (el_account_id e)) els" and i: "i = next_id s1"
    and s': "s' = emit [Audit ''POST'' ''Journal'' i] s3"
    by (auto simp: post_double_entry_journal_def ty per Let_def not_le split: if_splits sum.splits)
  note f2 = insert_journalD [OF s2]
  note f3 = auto_lines_frame [OF s3]
  have fk2: "list_all (\<lambda>e. fk (accounts s2) (el_account_id e)) els"
    using fk f3 by (simp add: fk_def get_None_iff)
  from auto_lines_balances [OF s3 fk2]
  have bal: "balances_moved s2 s3 (\<lambda>i. entry_net i els)" and po: "list_all (\<lambda>e. postable s2 (el_account_id e)) els"
    by simp_all
  show thesis
  proof (rule that [OF ty i g(1) refl g(2) g(3)])
    show "list_all (\<lambda>e. fk (accounts s) (el_account_id e) \<and> postable s (el_account_id e)) els"
      using fk2 po f1 f2 by (auto simp: list_all_iff postable_def)
    show "journals s' = add_row i (auto_journal rnd (jt_prefix jt @ ''-'' @ suffix) tid d
       (map_option fst (get_period_for_date s d)) desc ref ?td ?td els user now) (journals s)"
      using g(2) by (simp add: s' f3 f2 f1 i)
    show "next_id s' = i + 1" "journal_types s' = journal_types s1" "fiscal_periods s' = fiscal_periods s"
      "fiscal_years s' = fiscal_years s" "keys (accounts s') = keys (accounts s)"
      by (simp_all add: s' f3 f2 f1 i)
    show "\<forall>k. get (accounts s') k = map_option (\<lambda>a. a\<lparr>current_balance := current_balance a +
       (if debit_normal a then entry_net k els else - entry_net k els)\<rparr>) (get (accounts s) k)"
      using bal by (simp add: s' balances_moved_def f2 f1)
    assume "distinct (keys (accounts s))"
    moreover have "equation_total s2 = equation_total s" "equation_total s' = equation_total s3"
      by (simp_all add: equation_total_def f2 f1 s')
    ultimately show "equation_total s' = equation_total s
      + sum_list (map (\<lambda>e. py_decimal (el_debit e) - py_decimal (el_credit e)) els)"
      using auto_lines_equation [OF _ fk2 s3] by (simp add: f2 f1)
  qed
qed

lemma post_double_entry_wf:
  assumes "wf_fin s" and "post_double_entry_journal rnd s d desc els ref user now suffix = Inr (i, s')"
  shows "wf_fin s'"
  using assms(2)
proof (rule post_double_entryD)
  fix tid jt s1 td j
  assume ty: "any_journal_type s = (tid, jt, s1)" and s': "i = next_id s1" "next_id s' = i + 1"
    "journal_types s' = journal_types s1" "fiscal_periods s' = fiscal_periods s" "fiscal_years s' = fiscal_years s"
    "keys (accounts s') = keys (accounts s)"
    and j: "journals s' = add_row i (auto_journal rnd (jt_prefix jt @ ''-'' @ suffix) tid d
       (map_option fst (get_period_for_date s d)) desc ref td td els user now) (journals s)"
  note f1 = any_journal_type_fields [OF ty]
  have "wf_table (next_id s') (accounts s')"
    using f1(6) [OF assms(1)] s' f1(1) by (auto simp: wf_fin_def wf_table_def list_all_iff)
  with f1(6) [OF assms(1)] s' j show ?thesis
    by (auto simp: wf_fin_def f1(2-4) intro: wf_table_mono wf_table_add_row)
qed

section \<open>When a call succeeds\<close>

text \<open>The journal number made with this suffix is free.\<close>

definition fresh_suffix :: "fin \<Rightarrow> string \<Rightarrow> bool" where
  "fresh_suffix s suffix =
     (case any_journal_type s of (tid, jt, s1) \<Rightarrow>
      \<not> exists_where (\<lambda>k. journal_number k = jt_prefix jt @ ''-'' @ suffix) (journals s))"

definition float_balanced :: "entry_line list \<Rightarrow> bool" where
  "float_balanced els =
     (py_decimal (float_sum (map el_debit els)) = py_decimal (float_sum (map el_credit els)) \<and>
      0 < py_decimal (float_sum (map el_debit els)))"

lemma auto_lines_succeed:
  assumes "list_all (\<lambda>e. postable s (el_account_id e)) els"
  shows "\<exists>s'. fold_res auto_post_line els s = Inr s'"
  using assms
proof (induction els arbitrary: s)
  case (Cons e els)
  have "\<exists>t. auto_post_line e s = Inr t \<and> (\<forall>i. postable t i = postable s i)"
  proof (cases "get (accounts s) (el_account_id e)")
    case (Some a)
    with Cons.prems balances_moved_postable [OF balances_moved_change] show ?thesis
      by (auto simp: auto_post_line_def postable_def [of s "el_account_id e"])
  qed (simp add: auto_post_line_def)
  then obtain t where t: "auto_post_line e s = Inr t" "\<And>i. postable t i = postable s i" by blast
  have "\<exists>s'. fold_res auto_post_line els t = Inr s'" using Cons.prems by (intro Cons.IH) (simp add: t(2))
  then show ?case by (simp add: t(1))
qed simp

lemma post_double_entry_succeeds:
  assumes "\<not> blocked (get_period_for_date s d)" and "float_balanced els" and "fresh_suffix s suffix"
    and "list_all (\<lambda>e. fk (accounts s) (el_account_id e) \<and> postable s (el_account_id e)) els"
  shows "\<exists>i s'. post_double_entry_journal rnd s d desc els ref user now suffix = Inr (i, s')"
proof -
  obtain tid jt s1 where ty: "any_journal_type s = (tid, jt, s1)" by (metis prod_cases3)
  note f1 = any_journal_type_fields [OF ty]
  have per: "get_period_for_date s1 d = get_period_for_date s d" by (rule get_period_cong) (simp_all add: f1)
  let ?td = "py_decimal (float_sum (map el_debit els))"
  let ?j = "auto_journal rnd (jt_prefix jt @ ''-'' @ suffix) tid d (map_option fst (get_period_for_date s d))
      desc ref ?td (py_decimal (float_sum (map el_credit els))) els user now"
  let ?s2 = "s1\<lparr>journals := add_row (next_id s1) ?j (journals s1), next_id := next_id s1 + 1\<rparr>"
  have ins: "insert_journal ?j s1 = Inr ?s2"
    using assms(3) by (simp add: insert_journal_def fresh_suffix_def ty f1 auto_journal_def)
  have "list_all (\<lambda>e. postable ?s2 (el_account_id e)) els"
    using assms(4) by (auto simp: list_all_iff postable_def f1)
  then obtain s3 where s3: "fold_res auto_post_line els ?s2 = Inr s3" using auto_lines_succeed by blast
  have "list_all (\<lambda>e. fk (accounts s3) (el_account_id e)) els"
    using assms(4) auto_lines_frame [OF s3] by (auto simp: list_all_iff fk_def get_None_iff f1)
  with assms(1,2) ins s3 show ?thesis
    by (simp add: post_double_entry_journal_def ty per Let_def float_balanced_def)
qed

text \<open>After a call the accounts are the same rows with other balances, so the same journal can be posted again.\<close>

lemma table_map:
  assumes "keys t' = keys t" and "distinct (keys t)" and "\<forall>k. get t' k = map_option (f k) (get t k)"
  shows "t' = map (\<lambda>(k, r). (k, f k r)) t"
  using assms
proof (induction t arbitrary: t')
  case Nil
  then show ?case by (simp add: keys_def)
next
  case (Cons x t)
  obtain k r where x: "x = (k, r)" by force
  with Cons.prems(1) obtain r' u where t': "t' = (k, r') # u" "keys u = keys t"
    by (cases t') (auto simp: keys_def)
  have "r' = f k r" using Cons.prems(3) [rule_format, of k] by (simp add: t' x get_def)
  moreover have "get u j = map_option (f j) (get t j)" for j
  proof (cases "j = k")
    case True
    with Cons.prems(2) x t' show ?thesis by (simp add: get_None_fresh keys_def)
  next
    case False
    with Cons.prems(3) [rule_format, of j] show ?thesis by (simp add: t' x get_def)
  qed
  ultimately show ?case using Cons.IH [of u] Cons.prems(2) t' by (simp add: x keys_def)
qed

lemma first_where_map:
  assumes "\<And>k r. P (f k r) = P r"
  shows "map_option fst (first_where P (map (\<lambda>(k, r). (k, f k r)) t)) = map_option fst (first_where P t)"
  by (induction t) (auto simp: first_where_def assms)

lemma post_double_entry_same_accounts:
  assumes "post_double_entry_journal rnd s d desc els ref user now suffix = Inr (i, s')" and "wf_fin s"
  shows "account_with_code c s' = account_with_code c s" "account_or_type c ty s' = account_or_type c ty s"
    "postable s' k = postable s k" "fk (accounts s') k = fk (accounts s) k"
    "get_period_for_date s' d' = get_period_for_date s d'"
proof -
  from assms(1) have k: "keys (accounts s') = keys (accounts s)"
    and g: "\<forall>k. get (accounts s') k = map_option (\<lambda>a. a\<lparr>current_balance := current_balance a +
       (if debit_normal a then entry_net k els else - entry_net k els)\<rparr>) (get (accounts s) k)"
    and p: "fiscal_periods s' = fiscal_periods s" "fiscal_years s' = fiscal_years s"
    by (auto elim: post_double_entryD)
  have m: "accounts s' = map (\<lambda>(k, a). (k, a\<lparr>current_balance := current_balance a +
       (if debit_normal a then entry_net k els else - entry_net k els)\<rparr>)) (accounts s)"
    using table_map [OF k wf_fin_distinct(1) [OF assms(2)] g] .
  show "account_with_code c s' = account_with_code c s"
    unfolding account_with_code_def m by (rule first_where_map) simp
  then show "account_or_type c ty s' = account_or_type c ty s"
    unfolding account_or_type_def account_of_type_def m
    by (simp add: first_where_map [where P = "\<lambda>a. account_type a = ty"] cong: option.case_cong)
  show "postable s' k = postable s k" using g by (simp add: postable_def split: option.splits)
  show "fk (accounts s') k = fk (accounts s) k" using k by (simp add: fk_def get_None_iff)
  show "get_period_for_date s' d' = get_period_for_date s d'" by (rule get_period_cong) (simp_all add: p)
qed

lemma post_double_entry_again:
  assumes "post_double_entry_journal rnd s d desc els ref user now suffix = Inr (i, s')" and "wf_fin s"
    and "fresh_suffix s' suffix'"
  shows "\<exists>j s''. post_double_entry_journal rnd s' d desc els ref user' now' suffix' = Inr (j, s'')"
proof (rule post_double_entry_succeeds)
  note same = post_double_entry_same_accounts [OF assms(1,2)]
  show "\<not> blocked (get_period_for_date s' d)" using assms(1) same(5) by (auto elim: post_double_entryD)
  show "float_balanced els" using assms(1) by (auto simp: float_balanced_def elim: post_double_entryD)
  show "list_all (\<lambda>e. fk (accounts s') (el_account_id e) \<and> postable s' (el_account_id e)) els"
    using assms(1) by (auto simp: same(3,4) elim: post_double_entryD)
qed (rule assms(3))

text \<open>Another suffix is still free after a call.\<close>

lemma fresh_suffix_after:
  assumes post: "post_double_entry_journal rnd s d desc els ref user now suffix = Inr (i, s')"
    and fresh: "fresh_suffix s suffix'" and "suffix' \<noteq> suffix"
  shows "fresh_suffix s' suffix'"
  using post
proof (rule post_double_entryD)
  fix tid jt s1 td
  assume ty: "any_journal_type s = (tid, jt, s1)" and types: "journal_types s' = journal_types s1"
    and j: "journals s' = add_row i (auto_journal rnd (jt_prefix jt @ ''-'' @ suffix) tid d
       (map_option fst (get_period_for_date s d)) desc ref td td els user now) (journals s)"
  have "any_journal_type s' = (tid, jt, s')"
    using ty types by (auto simp: any_journal_type_def add_row_def split: list.splits)
  with fresh ty j assms(3) show ?thesis
    by (auto simp: fresh_suffix_def exists_where_def add_row_def auto_journal_def)
qed

section \<open>Balanced in exact amounts\<close>

text \<open>The lines as the services write them: account, debit, credit and text, with \<open>float(...)\<close> around the
  amounts.\<close>

definition dict_line :: "uuid \<times> decimal \<times> decimal \<times> string \<Rightarrow> entry_line" where
  "dict_line = (\<lambda>(a, d, c, t). \<lparr>el_account_id = a, el_debit = fl d, el_credit = fl c, el_description = t\<rparr>)"

definition dl_debits :: "(uuid \<times> decimal \<times> decimal \<times> string) list \<Rightarrow> decimal list" where
  "dl_debits xs = map (\<lambda>(a, d, c, t). d) xs"

definition dl_credits :: "(uuid \<times> decimal \<times> decimal \<times> string) list \<Rightarrow> decimal list" where
  "dl_credits xs = map (\<lambda>(a, d, c, t). c) xs"

text \<open>Debits minus credits for one account.\<close>

definition dl_net :: "uuid \<Rightarrow> (uuid \<times> decimal \<times> decimal \<times> string) list \<Rightarrow> decimal" where
  "dl_net i xs = sum_list (map (\<lambda>(a, d, c, t). if a = i then d - c else 0) xs)"

definition money_lines :: "(uuid \<times> decimal \<times> decimal \<times> string) list \<Rightarrow> bool" where
  "money_lines xs = (amounts (dl_debits xs) \<and> amounts (dl_credits xs))"

lemma amounts_mem: "amounts hs \<Longrightarrow> h \<in> set hs \<Longrightarrow> hundredths h \<and> \<bar>h\<bar> \<le> 9000000"
proof -
  assume a: "amounts hs" and h: "h \<in> set hs"
  then have pos: "\<forall>x\<in>set hs. 0 \<le> x" and le: "sum_list hs \<le> 9000000" and "hundredths h"
    by (auto simp: amounts_def list_all_iff)
  have "h \<le> sum_list hs" using pos h by (intro member_le_sum_list) auto
  with pos h le \<open>hundredths h\<close> show ?thesis by auto
qed

lemma py_decimal_amount: "amounts hs \<Longrightarrow> h \<in> set hs \<Longrightarrow> py_decimal (fl h) = h"
  using amounts_mem py_decimal_hundredths by blast

lemma money_line:
  assumes "money_lines xs" and "(a, d, c, t) \<in> set xs"
  shows "py_decimal (fl d) = d" "py_decimal (fl c) = c" "hundredths d" "hundredths c"
proof -
  have "d \<in> set (dl_debits xs)" "c \<in> set (dl_credits xs)" using assms(2) by (force simp: dl_debits_def dl_credits_def)+
  with assms(1) show "py_decimal (fl d) = d" "py_decimal (fl c) = c" "hundredths d" "hundredths c"
    unfolding money_lines_def by (auto dest: amounts_mem intro: py_decimal_amount)
qed

lemma dict_line_floats:
  "map el_debit (map dict_line xs) = map fl (dl_debits xs)"
  "map el_credit (map dict_line xs) = map fl (dl_credits xs)"
  by (auto simp: dict_line_def dl_debits_def dl_credits_def)

lemma entry_net_money:
  assumes "money_lines xs"
  shows "entry_net i (map dict_line xs) = dl_net i xs"
proof -
  have "(if el_account_id (dict_line x) = i then py_decimal (el_debit (dict_line x)) - py_decimal (el_credit (dict_line x)) else 0)
      = (case x of (a, d, c, t) \<Rightarrow> if a = i then d - c else 0)" if x: "x \<in> set xs" for x
  proof -
    obtain a d c t where "x = (a, d, c, t)" by (metis prod_cases4)
    with x money_line [OF assms, of a d c t] show ?thesis by (simp add: dict_line_def)
  qed
  then show ?thesis
    unfolding entry_net_def dl_net_def by (intro arg_cong [where f = sum_list]) simp
qed

lemma auto_lines_money:
  assumes "money_lines xs" and "column_rounding rnd"
  shows "map debit (map (auto_line rnd) (enumerate n (map dict_line xs))) = dl_debits xs"
    and "map credit (map (auto_line rnd) (enumerate n (map dict_line xs))) = dl_credits xs"
proof -
  have "rnd 2 (py_decimal (fl d)) = d \<and> rnd 2 (py_decimal (fl c)) = c" if "(a, d, c, t) \<in> set xs" for a d c t
    using money_line [OF assms(1) that] column_rounding_id [OF assms(2)] by auto
  then show "map debit (map (auto_line rnd) (enumerate n (map dict_line xs))) = dl_debits xs"
    and "map credit (map (auto_line rnd) (enumerate n (map dict_line xs))) = dl_credits xs"
    by (induction xs arbitrary: n) (fastforce simp: auto_line_def dict_line_def dl_debits_def dl_credits_def)+
qed

lemma auto_posting_exact:
  assumes post: "post_double_entry_journal rnd s d desc (map dict_line xs) ref user now suffix = Inr (i, s')"
    and rnd: "column_rounding rnd" and money: "money_lines xs" and fresh: "wf_fin s"
  obtains j where "get (journals s') i = Some j" "j_status j = JPosted" "reference_id j = Some ref"
    "sum_debit (lines j) = sum_list (dl_debits xs)" "sum_credit (lines j) = sum_list (dl_debits xs)"
    "total_debit j = sum_list (dl_debits xs)" "total_credit j = sum_list (dl_debits xs)"
    "sum_list (dl_credits xs) = sum_list (dl_debits xs)" "0 < sum_list (dl_debits xs)"
  using post
proof (rule post_double_entryD)
  fix tid jt s1 td
  assume ty: "any_journal_type s = (tid, jt, s1)" and i: "i = next_id s1"
    and td: "td = py_decimal (float_sum (map el_debit (map dict_line xs)))"
      "td = py_decimal (float_sum (map el_credit (map dict_line xs)))" "0 < td"
    and j: "journals s' = add_row i (auto_journal rnd (jt_prefix jt @ ''-'' @ suffix) tid d
       (map_option fst (get_period_for_date s d)) desc ref td td (map dict_line xs) user now) (journals s)"
  from money have am: "amounts (dl_debits xs)" "amounts (dl_credits xs)" by (simp_all add: money_lines_def)
  have eq: "sum_list (dl_debits xs) = sum_list (dl_credits xs)"
    using equal_sums [OF am] td unfolding dict_line_floats by simp
  have near: "\<bar>td - sum_list (dl_debits xs)\<bar> < 1 / 200" and hs: "hundredths (sum_list (dl_debits xs))"
    using py_decimal_sum [OF am(1)] td(1) unfolding dict_line_floats by simp_all
  have r: "rnd 2 td = sum_list (dl_debits xs)" by (rule column_rounding_near [OF rnd hs near])
  have "0 < sum_list (dl_debits xs)"
  proof -
    have "0 \<le> sum_list (dl_debits xs)" using am(1) by (auto simp: amounts_def list_all_iff intro: sum_list_nonneg)
    moreover have "sum_list (dl_debits xs) \<noteq> 0" using zero_sum [OF am(1)] td unfolding dict_line_floats by auto
    ultimately show ?thesis by simp
  qed
  note f1 = any_journal_type_fields [OF ty]
  have "get (journals s) i = None"
    using f1(6) [OF fresh] unfolding i wf_fin_def f1(2) by (simp add: wf_table_fresh_get [OF _ order_refl])
  then show thesis
    by (intro that) (auto simp: j get_add_row_eq auto_journal_def r eq [symmetric] sum_debit_def sum_credit_def
        auto_lines_money [OF money rnd] \<open>0 < sum_list (dl_debits xs)\<close> simp del: map_map)
qed

text \<open>The accounting equation survives, exactly.\<close>

lemma auto_posting_equation:
  assumes post: "post_double_entry_journal rnd s d desc (map dict_line xs) ref user now suffix = Inr (i, s')"
    and rnd: "column_rounding rnd" and money: "money_lines xs" and wf: "wf_fin s"
  shows "equation_total s' = equation_total s"
proof -
  from post wf_fin_distinct(1) [OF wf] have eq: "equation_total s' = equation_total s
      + sum_list (map (\<lambda>e. py_decimal (el_debit e) - py_decimal (el_credit e)) (map dict_line xs))"
    by (auto elim: post_double_entryD)
  have "sum_list (map (\<lambda>e. py_decimal (el_debit e) - py_decimal (el_credit e)) (map dict_line xs))
      = sum_list (dl_debits xs) - sum_list (dl_credits xs)"
  proof -
    have "py_decimal (el_debit (dict_line x)) - py_decimal (el_credit (dict_line x)) = (case x of (a, d, c, t) \<Rightarrow> d - c)"
      if "x \<in> set xs" for x
      using that money_line [OF money, of "fst x" "fst (snd x)" "fst (snd (snd x))" "snd (snd (snd x))"]
      by (simp add: dict_line_def split_beta)
    then have "map (\<lambda>e. py_decimal (el_debit e) - py_decimal (el_credit e)) (map dict_line xs)
        = map (\<lambda>(a, d, c, t). d - c) xs" by simp
    moreover have "sum_list (map (\<lambda>(a, d, c, t). d - c) xs) = sum_list (dl_debits xs) - sum_list (dl_credits xs)"
      by (induction xs) (auto simp: dl_debits_def dl_credits_def)
    ultimately show ?thesis by (simp only:)
  qed
  moreover have "sum_list (dl_credits xs) = sum_list (dl_debits xs)"
    using post rnd money wf by (rule auto_posting_exact)
  ultimately show ?thesis using eq by simp
qed

text \<open>And every account moves by what the lines say.\<close>

lemma auto_posting_accounts:
  assumes post: "post_double_entry_journal rnd s d desc (map dict_line xs) ref user now suffix = Inr (i, s')"
    and money: "money_lines xs"
  shows "get (accounts s') k = map_option (\<lambda>a. a\<lparr>current_balance := current_balance a +
       (if debit_normal a then dl_net k xs else - dl_net k xs)\<rparr>) (get (accounts s) k)"
  using post
proof (rule post_double_entryD)
  assume "\<forall>k. get (accounts s') k = map_option (\<lambda>a. a\<lparr>current_balance := current_balance a +
       (if debit_normal a then entry_net k (map dict_line xs) else - entry_net k (map dict_line xs))\<rparr>) (get (accounts s) k)"
  then show ?thesis unfolding entry_net_money [OF money] by blast
qed

section \<open>Two lines\<close>

text \<open>A debit and a credit of the same amount always pass: the float sums are equal.\<close>

lemma two_line_balanced:
  assumes "0 < x" and "x \<le> 9000000" and "hundredths x"
  shows "float_balanced (map dict_line [(a, x, 0, t), (b, 0, x, u)])"
proof -
  have "float_sum [fl x, fl 0] = fl x" "float_sum [fl 0, fl x] = fl x" by (simp_all add: float_sum_def fl_idem)
  moreover have "py_decimal (fl x) = x" using assms by (intro py_decimal_hundredths) simp_all
  ultimately show ?thesis using assms(1) by (simp add: float_balanced_def dict_line_def)
qed

lemma two_lines_money:
  assumes "0 \<le> x" and "x \<le> 9000000" and "hundredths x"
  shows "money_lines [(a, x, 0, t), (b, 0, x, u)]"
  using assms by (simp add: money_lines_def amounts_def dl_debits_def dl_credits_def)

lemma post_double_entry_unbalanced:
  assumes "\<not> blocked (get_period_for_date s d)" and "\<not> float_balanced els"
  shows "post_double_entry_journal rnd s d desc els ref user now suffix
    = Inl (ValueErr ''Unbalanced journal entries cannot be posted into General Ledger'')"
proof -
  obtain tid jt s1 where ty: "any_journal_type s = (tid, jt, s1)" by (metis prod_cases3)
  note f1 = any_journal_type_fields [OF ty]
  have "get_period_for_date s1 d = get_period_for_date s d" by (rule get_period_cong) (simp_all add: f1)
  with assms show ?thesis
    by (auto simp: post_double_entry_journal_def ty Let_def float_balanced_def not_le)
qed

end
