(* ===== verification/Receivables.thy ===== *)
theory Receivables
  imports AutoPosting
begin

text \<open>
  \<open>AccountsReceivableService\<close> and \<open>AccountsPayableService\<close>
  (\<^verbatim>\<open>src/app/services/finance_ops_services.py\<close>): invoices and bills, their posting into the general ledger
  and the ledger of the customer or supplier, and the statements with aged amounts.

  The numbers, made from random digits, are parameters. A body that fails the checks of \<open>valid_lines\<close> does
  not reach the service.
\<close>

section \<open>Invoices\<close>

definition line_subtotal :: "invoice_line_create \<Rightarrow> decimal" where
  "line_subtotal l = lc_quantity l * lc_unit_price l"

definition stored_invoice_line :: "(nat \<Rightarrow> decimal \<Rightarrow> decimal) \<Rightarrow> invoice_line_create \<Rightarrow> fo_invoice_line" where
  "stored_invoice_line rnd l =
     \<lparr>il_product_id = lc_product_id l, il_account_id = lc_account_id l, il_description = lc_description l,
      il_quantity = rnd 4 (lc_quantity l), il_unit_price = rnd 4 (lc_unit_price l),
      il_subtotal = rnd 2 (line_subtotal l), il_tax_rate_id = lc_tax_rate_id l,
      il_tax_amount = rnd 2 (lc_tax_amount l), il_total_amount = rnd 2 (line_subtotal l + lc_tax_amount l)\<rparr>"

definition new_invoice :: "(nat \<Rightarrow> decimal \<Rightarrow> decimal) \<Rightarrow> invoice_create \<Rightarrow> string \<Rightarrow> customer_invoice" where
  "new_invoice rnd ic num =
     (let subtotal = sum_list (map line_subtotal (ic_lines ic)); tax = sum_list (map lc_tax_amount (ic_lines ic))
      in \<lparr>invoice_number = num, ci_customer_id = ic_customer_id ic, ci_sales_order_id = ic_sales_order_id ic,
          ci_journal_id = None, invoice_date = ic_invoice_date ic, ci_due_date = ic_due_date ic,
          ci_currency_code = ic_currency_code ic, ci_exchange_rate = rnd 6 (ic_exchange_rate ic),
          ci_subtotal = rnd 2 subtotal, ci_tax_amount = rnd 2 tax, ci_total_amount = rnd 2 (subtotal + tax),
          ci_paid_amount = 0, ci_outstanding_amount = rnd 2 (subtotal + tax), ci_status = FDraft,
          ci_notes = ic_notes ic, ci_lines = map (stored_invoice_line rnd) (ic_lines ic)\<rparr>)"

definition create_invoice ::
  "(nat \<Rightarrow> decimal \<Rightarrow> decimal) \<Rightarrow> fops \<Rightarrow> invoice_create \<Rightarrow> string \<Rightarrow> (uuid \<times> fops) result" where
  "create_invoice rnd s ic num =
     (if exists_where (\<lambda>r. invoice_number r = num) (customer_invoices s)
        then Inl (IntegrityErr ''customer_invoices.invoice_number'')
      else if \<not> fk (fo_customers s) (ic_customer_id ic) then Inl (IntegrityErr ''customer_invoices.customer_id'')
      else if \<not> list_all (\<lambda>l. fk (accounts (gl s)) (lc_account_id l)) (ic_lines ic)
        then Inl (IntegrityErr ''customer_invoice_lines.account_id'')
      else Inr (fo_next s, fo_emit [Audit ''CREATE'' ''CustomerInvoice'' (fo_next s)]
        (s\<lparr>customer_invoices := add_row (fo_next s) (new_invoice rnd ic num) (customer_invoices s),
           fo_next := fo_next s + 1\<rparr>)))"

text \<open>The journal of an invoice: receivables against the accounts of the lines and the output tax.\<close>

definition invoice_dicts :: "fin \<Rightarrow> uuid \<Rightarrow> customer_invoice \<Rightarrow> (uuid \<times> decimal \<times> decimal \<times> string) list" where
  "invoice_dicts g ar r =
     (ar, ci_total_amount r, 0, ''AR Invoice '' @ invoice_number r)
     # map (\<lambda>l. (il_account_id l, 0, il_subtotal l, il_description l)) (ci_lines r)
     @ (if ci_tax_amount r > 0
        then [(case account_with_code ''2200'' g of Some t \<Rightarrow> t | None \<Rightarrow> ar, 0, ci_tax_amount r, ''Output Tax Payable'')]
        else [])"

definition invoice_entry :: "party_entry table \<Rightarrow> customer_invoice \<Rightarrow> uuid \<Rightarrow> party_entry" where
  "invoice_entry t r j =
     \<lparr>pe_party_id = ci_customer_id r, pe_posting_date = invoice_date r, pe_document_type = ''Invoice'',
      pe_document_number = invoice_number r, pe_journal_id = Some j, pe_debit = ci_total_amount r, pe_credit = 0,
      pe_running_balance = previous_balance t (ci_customer_id r) + ci_total_amount r,
      pe_description = Some (''Invoice '' @ invoice_number r)\<rparr>"

text \<open>The journal is committed by the posting engine, the invoice and the ledger entry by the insertion of the
  entry.\<close>

definition post_invoice ::
  "(nat \<Rightarrow> decimal \<Rightarrow> decimal) \<Rightarrow> fops \<Rightarrow> uuid \<Rightarrow> uuid option \<Rightarrow> timestamp \<Rightarrow> string \<Rightarrow> fops result" where
  "post_invoice rnd s i user now suffix =
     (case get (customer_invoices s) i of
        None \<Rightarrow> Inl (NotFoundException ''Invoice not found'')
      | Some r \<Rightarrow>
        if ci_status r \<noteq> FDraft then Inl (ValidationException ''Invoice is already posted'')
        else case account_or_type ''1200'' ''Asset'' (gl s) of
            None \<Rightarrow> Inl (ValidationException ''No Accounts Receivable GL account configured'')
          | Some ar \<Rightarrow>
            (case post_double_entry_journal rnd (gl s) (invoice_date r) (''Invoice '' @ invoice_number r)
                    (map dict_line (invoice_dicts (gl s) ar r)) (invoice_number r) user now suffix of
               Inl e \<Rightarrow> Inl e
             | Inr (j, g) \<Rightarrow>
               Inr (fo_emit [Audit ''CREATE'' ''CustomerLedgerEntry'' (fo_next s)]
                 (s\<lparr>gl := g,
                    customer_invoices := modify i (\<lambda>r. r\<lparr>ci_journal_id := Some j, ci_status := FPosted\<rparr>) (customer_invoices s),
                    customer_ledger := add_row (fo_next s) (invoice_entry (customer_ledger s) r j) (customer_ledger s),
                    fo_next := fo_next s + 1\<rparr>))))"

section \<open>Bills\<close>

definition new_bill :: "(nat \<Rightarrow> decimal \<Rightarrow> decimal) \<Rightarrow> bill_create \<Rightarrow> string \<Rightarrow> supplier_bill" where
  "new_bill rnd bc num =
     (let subtotal = sum_list (map line_subtotal (bc_lines bc)); tax = sum_list (map lc_tax_amount (bc_lines bc))
      in \<lparr>bill_number = num, vendor_bill_number = bc_vendor_bill_number bc, sb_supplier_id = bc_supplier_id bc,
          sb_purchase_order_id = bc_purchase_order_id bc, sb_journal_id = None, bill_date = bc_bill_date bc,
          sb_due_date = bc_due_date bc, sb_currency_code = bc_currency_code bc,
          sb_exchange_rate = rnd 6 (bc_exchange_rate bc),
          sb_subtotal = rnd 2 subtotal, sb_tax_amount = rnd 2 tax, sb_total_amount = rnd 2 (subtotal + tax),
          sb_paid_amount = 0, sb_outstanding_amount = rnd 2 (subtotal + tax), sb_status = FDraft,
          sb_notes = bc_notes bc, sb_lines = map (stored_invoice_line rnd) (bc_lines bc)\<rparr>)"

definition create_bill ::
  "(nat \<Rightarrow> decimal \<Rightarrow> decimal) \<Rightarrow> fops \<Rightarrow> bill_create \<Rightarrow> string \<Rightarrow> (uuid \<times> fops) result" where
  "create_bill rnd s bc num =
     (if exists_where (\<lambda>r. bill_number r = num) (supplier_bills s)
        then Inl (IntegrityErr ''supplier_bills.bill_number'')
      else if \<not> fk (fo_suppliers s) (bc_supplier_id bc) then Inl (IntegrityErr ''supplier_bills.supplier_id'')
      else if \<not> list_all (\<lambda>l. fk (accounts (gl s)) (lc_account_id l)) (bc_lines bc)
        then Inl (IntegrityErr ''supplier_bill_lines.account_id'')
      else Inr (fo_next s, fo_emit [Audit ''CREATE'' ''SupplierBill'' (fo_next s)]
        (s\<lparr>supplier_bills := add_row (fo_next s) (new_bill rnd bc num) (supplier_bills s),
           fo_next := fo_next s + 1\<rparr>)))"

definition bill_dicts :: "fin \<Rightarrow> uuid \<Rightarrow> supplier_bill \<Rightarrow> (uuid \<times> decimal \<times> decimal \<times> string) list" where
  "bill_dicts g ap r =
     map (\<lambda>l. (il_account_id l, il_subtotal l, 0, il_description l)) (sb_lines r)
     @ (if sb_tax_amount r > 0
        then [(case account_with_code ''1300'' g of Some t \<Rightarrow> t | None \<Rightarrow> ap, sb_tax_amount r, 0, ''Input Tax Recoverable'')]
        else [])
     @ [(ap, 0, sb_total_amount r, ''AP Bill '' @ bill_number r)]"

definition bill_entry :: "party_entry table \<Rightarrow> supplier_bill \<Rightarrow> uuid \<Rightarrow> party_entry" where
  "bill_entry t r j =
     \<lparr>pe_party_id = sb_supplier_id r, pe_posting_date = bill_date r, pe_document_type = ''Bill'',
      pe_document_number = bill_number r, pe_journal_id = Some j, pe_debit = 0, pe_credit = sb_total_amount r,
      pe_running_balance = previous_balance t (sb_supplier_id r) + sb_total_amount r,
      pe_description = Some (''Supplier Bill '' @ bill_number r)\<rparr>"

definition post_bill ::
  "(nat \<Rightarrow> decimal \<Rightarrow> decimal) \<Rightarrow> fops \<Rightarrow> uuid \<Rightarrow> uuid option \<Rightarrow> timestamp \<Rightarrow> string \<Rightarrow> fops result" where
  "post_bill rnd s i user now suffix =
     (case get (supplier_bills s) i of
        None \<Rightarrow> Inl (NotFoundException ''Supplier bill not found'')
      | Some r \<Rightarrow>
        if sb_status r \<noteq> FDraft then Inl (ValidationException ''Bill is already posted'')
        else case account_or_type ''2100'' ''Liability'' (gl s) of
            None \<Rightarrow> Inl (ValidationException ''No Accounts Payable GL account configured'')
          | Some ap \<Rightarrow>
            (case post_double_entry_journal rnd (gl s) (bill_date r) (''Supplier Bill '' @ bill_number r)
                    (map dict_line (bill_dicts (gl s) ap r)) (bill_number r) user now suffix of
               Inl e \<Rightarrow> Inl e
             | Inr (j, g) \<Rightarrow>
               Inr (fo_emit [Audit ''CREATE'' ''SupplierLedgerEntry'' (fo_next s)]
                 (s\<lparr>gl := g,
                    supplier_bills := modify i (\<lambda>r. r\<lparr>sb_journal_id := Some j, sb_status := FPosted\<rparr>) (supplier_bills s),
                    supplier_ledger := add_row (fo_next s) (bill_entry (supplier_ledger s) r j) (supplier_ledger s),
                    fo_next := fo_next s + 1\<rparr>))))"

section \<open>Statements\<close>

record aging_bucket =
  current_0_30 :: decimal
  days_31_60 :: decimal
  days_61_90 :: decimal
  over_90_days :: decimal
  ab_total_outstanding :: decimal

definition empty_bucket :: aging_bucket where
  "empty_bucket = \<lparr>current_0_30 = 0, days_31_60 = 0, days_61_90 = 0, over_90_days = 0, ab_total_outstanding = 0\<rparr>"

definition age_amount :: "date \<Rightarrow> date \<times> decimal \<Rightarrow> aging_bucket \<Rightarrow> aging_bucket" where
  "age_amount today = (\<lambda>(due, amt) b.
     let days = date_diff_days today due; b = b\<lparr>ab_total_outstanding := ab_total_outstanding b + amt\<rparr>
     in if days \<le> 30 then b\<lparr>current_0_30 := current_0_30 b + amt\<rparr>
        else if days \<le> 60 then b\<lparr>days_31_60 := days_31_60 b + amt\<rparr>
        else if days \<le> 90 then b\<lparr>days_61_90 := days_61_90 b + amt\<rparr>
        else b\<lparr>over_90_days := over_90_days b + amt\<rparr>)"

text \<open>Entries by posting date; of equal dates the database may return either first, here the older one.\<close>

definition entries_of :: "party_entry table \<Rightarrow> uuid \<Rightarrow> party_entry list" where
  "entries_of t p = sort_key pe_posting_date (filter (\<lambda>e. pe_party_id e = p) (map snd t))"

record party_statement =
  ps_name :: string
  ps_as_of_date :: date
  ps_total_outstanding :: decimal
  ps_aging :: aging_bucket
  ps_entries :: "party_entry list"

definition statement_of :: "string \<Rightarrow> date \<Rightarrow> party_entry list \<Rightarrow> (date \<times> decimal) list \<Rightarrow> party_statement" where
  "statement_of name today es open_docs =
     \<lparr>ps_name = name, ps_as_of_date = today,
      ps_total_outstanding = (if es = [] then 0 else pe_running_balance (last es)),
      ps_aging = fold (age_amount today) open_docs empty_bucket, ps_entries = es\<rparr>"

definition open_invoices :: "fops \<Rightarrow> uuid \<Rightarrow> (date \<times> decimal) list" where
  "open_invoices s c =
     map (\<lambda>(k, r). (ci_due_date r, ci_outstanding_amount r))
       (filter (\<lambda>(k, r). ci_customer_id r = c \<and> (ci_status r = FPosted \<or> ci_status r = FPartiallyPaid)) (customer_invoices s))"

definition get_customer_statement :: "fops \<Rightarrow> uuid \<Rightarrow> date \<Rightarrow> party_statement" where
  "get_customer_statement s c today =
     statement_of (case get (fo_customers s) c of Some n \<Rightarrow> n | None \<Rightarrow> ''Customer'') today
       (entries_of (customer_ledger s) c) (open_invoices s c)"

definition open_bills :: "fops \<Rightarrow> uuid \<Rightarrow> (date \<times> decimal) list" where
  "open_bills s p =
     map (\<lambda>(k, r). (sb_due_date r, sb_outstanding_amount r))
       (filter (\<lambda>(k, r). sb_supplier_id r = p \<and> (sb_status r = FPosted \<or> sb_status r = FPartiallyPaid)) (supplier_bills s))"

definition get_vendor_statement :: "fops \<Rightarrow> uuid \<Rightarrow> date \<Rightarrow> party_statement" where
  "get_vendor_statement s p today =
     statement_of (case get (fo_suppliers s) p of Some n \<Rightarrow> n | None \<Rightarrow> ''Supplier'') today
       (entries_of (supplier_ledger s) p) (open_bills s p)"

section \<open>What a successful posting has done\<close>

lemma post_invoiceD:
  assumes "post_invoice rnd s i user now suffix = Inr s'"
  obtains r ar j g where "get (customer_invoices s) i = Some r" "ci_status r = FDraft"
    "account_or_type ''1200'' ''Asset'' (gl s) = Some ar"
    "post_double_entry_journal rnd (gl s) (invoice_date r) (''Invoice '' @ invoice_number r)
       (map dict_line (invoice_dicts (gl s) ar r)) (invoice_number r) user now suffix = Inr (j, g)"
    "s' = fo_emit [Audit ''CREATE'' ''CustomerLedgerEntry'' (fo_next s)]
       (s\<lparr>gl := g,
          customer_invoices := modify i (\<lambda>r. r\<lparr>ci_journal_id := Some j, ci_status := FPosted\<rparr>) (customer_invoices s),
          customer_ledger := add_row (fo_next s) (invoice_entry (customer_ledger s) r j) (customer_ledger s),
          fo_next := fo_next s + 1\<rparr>)"
  using assms by (auto simp: post_invoice_def split: option.splits if_splits sum.splits)

lemma post_billD:
  assumes "post_bill rnd s i user now suffix = Inr s'"
  obtains r ap j g where "get (supplier_bills s) i = Some r" "sb_status r = FDraft"
    "account_or_type ''2100'' ''Liability'' (gl s) = Some ap"
    "post_double_entry_journal rnd (gl s) (bill_date r) (''Supplier Bill '' @ bill_number r)
       (map dict_line (bill_dicts (gl s) ap r)) (bill_number r) user now suffix = Inr (j, g)"
    "s' = fo_emit [Audit ''CREATE'' ''SupplierLedgerEntry'' (fo_next s)]
       (s\<lparr>gl := g,
          supplier_bills := modify i (\<lambda>r. r\<lparr>sb_journal_id := Some j, sb_status := FPosted\<rparr>) (supplier_bills s),
          supplier_ledger := add_row (fo_next s) (bill_entry (supplier_ledger s) r j) (supplier_ledger s),
          fo_next := fo_next s + 1\<rparr>)"
  using assms by (auto simp: post_bill_def split: option.splits if_splits sum.splits)

text \<open>The buckets of a statement add up.\<close>

definition bucket_sum :: "aging_bucket \<Rightarrow> decimal" where
  "bucket_sum b = current_0_30 b + days_31_60 b + days_61_90 b + over_90_days b"

lemma age_amount_sum:
  "bucket_sum (age_amount today x b) = bucket_sum b + snd x"
  "ab_total_outstanding (age_amount today x b) = ab_total_outstanding b + snd x"
  by (cases x; simp add: age_amount_def bucket_sum_def Let_def)+

lemma aging_sums:
  "bucket_sum (fold (age_amount today) xs b) = bucket_sum b + sum_list (map snd xs)"
  "ab_total_outstanding (fold (age_amount today) xs b) = ab_total_outstanding b + sum_list (map snd xs)"
  by (induction xs arbitrary: b) (simp_all add: age_amount_sum)

end
