(* ===== verification/Payments.thy ===== *)
theory Payments
  imports Receivables
begin

text \<open>
  \<open>PaymentService\<close> (\<^verbatim>\<open>src/app/services/finance_ops_services.py\<close>): vouchers for money received from customers and
  paid to suppliers.

  The posting engine commits the session in the middle of a posting. What the service changes before, the balance
  of the bank, is stored with the journal; what it changes after, the status of the voucher and the entry in the
  ledger of the party, is never committed: neither the service nor the endpoint does, and \<open>get_db\<close> closes the
  session. So a posting returns the state as the session has it when the response is made together with the database
  it leaves.
\<close>

section \<open>Receipts\<close>

definition new_voucher :: "(nat \<Rightarrow> decimal \<Rightarrow> decimal) \<Rightarrow> voucher_create \<Rightarrow> string \<Rightarrow> voucher" where
  "new_voucher rnd vc num =
     \<lparr>voucher_number = num, vo_party_id = vc_party_id vc, payment_mode = vc_payment_mode vc,
      vo_bank_account_id = vc_bank_account_id vc, vo_cash_account_id = vc_cash_account_id vc, vo_journal_id = None,
      vo_date = vc_date vc, vo_amount = rnd 2 (vc_amount vc), vo_allocated_amount = 0,
      vo_unallocated_amount = rnd 2 (vc_amount vc), vo_reference_number = vc_reference_number vc,
      vo_status = FDraft, vo_notes = vc_notes vc\<rparr>"

definition create_receipt_voucher ::
  "(nat \<Rightarrow> decimal \<Rightarrow> decimal) \<Rightarrow> fops \<Rightarrow> voucher_create \<Rightarrow> string \<Rightarrow> (uuid \<times> fops) result" where
  "create_receipt_voucher rnd s vc num =
     (if exists_where (\<lambda>r. voucher_number r = num) (receipt_vouchers s)
        then Inl (IntegrityErr ''receipt_vouchers.voucher_number'')
      else if \<not> (fk_opt (fo_customers s) (vc_party_id vc) \<and> fk_opt (bank_accounts s) (vc_bank_account_id vc)
          \<and> fk_opt (accounts (gl s)) (vc_cash_account_id vc))
        then Inl (IntegrityErr ''receipt_vouchers'')
      else Inr (fo_next s, fo_emit [Audit ''CREATE'' ''ReceiptVoucher'' (fo_next s)]
        (s\<lparr>receipt_vouchers := add_row (fo_next s) (new_voucher rnd vc num) (receipt_vouchers s),
           fo_next := fo_next s + 1\<rparr>)))"

definition add_bank_balance :: "decimal \<Rightarrow> bank_account \<Rightarrow> bank_account" where
  "add_bank_balance x b = b\<lparr>ba_current_balance := ba_current_balance b + x\<rparr>"

text \<open>The account the money goes to or comes from, with the change of the bank balance made in the session.\<close>

definition money_account :: "fops \<Rightarrow> voucher \<Rightarrow> decimal \<Rightarrow> (uuid \<times> bank_account table) result" where
  "money_account s r x =
     (case (if payment_mode r = ''Bank'' then vo_bank_account_id r else None) of
        Some k \<Rightarrow>
         (case get (bank_accounts s) k of
            None \<Rightarrow> Inl (ValidationException ''Bank account not found'')
          | Some b \<Rightarrow> Inr (gl_account_id b, modify k (add_bank_balance x) (bank_accounts s)))
      | None \<Rightarrow>
         (case account_or_type ''1010'' ''Asset'' (gl s) of
            None \<Rightarrow> Inl (AttributeErr ''NoneType object has no attribute id'')
          | Some c \<Rightarrow> Inr (c, bank_accounts s)))"

definition receipt_dicts :: "uuid \<Rightarrow> uuid \<Rightarrow> voucher \<Rightarrow> (uuid \<times> decimal \<times> decimal \<times> string) list" where
  "receipt_dicts debit_account ar r =
     [(debit_account, vo_amount r, 0, ''Receipt '' @ voucher_number r),
      (ar, 0, vo_amount r, ''Customer Receipt '' @ voucher_number r)]"

definition posted_voucher :: "uuid \<Rightarrow> voucher \<Rightarrow> voucher" where
  "posted_voucher j r = r\<lparr>vo_journal_id := Some j, vo_status := FPosted\<rparr>"

text \<open>The entry in the ledger of the party, when the voucher names one.\<close>

definition receipt_entry :: "party_entry table \<Rightarrow> uuid \<Rightarrow> voucher \<Rightarrow> uuid \<Rightarrow> party_entry" where
  "receipt_entry t c r j =
     \<lparr>pe_party_id = c, pe_posting_date = vo_date r, pe_document_type = ''Receipt'',
      pe_document_number = voucher_number r, pe_journal_id = Some j, pe_debit = 0, pe_credit = vo_amount r,
      pe_running_balance = previous_balance t c - vo_amount r,
      pe_description = Some (''Receipt '' @ voucher_number r)\<rparr>"

definition post_receipt_voucher ::
  "(nat \<Rightarrow> decimal \<Rightarrow> decimal) \<Rightarrow> fops \<Rightarrow> uuid \<Rightarrow> uuid option \<Rightarrow> timestamp \<Rightarrow> string \<Rightarrow> (fops \<times> fops) result" where
  "post_receipt_voucher rnd s i user now suffix =
     (case get (receipt_vouchers s) i of
        None \<Rightarrow> Inl (NotFoundException ''Receipt voucher not found'')
      | Some r \<Rightarrow>
        if vo_status r \<noteq> FDraft then Inl (ValidationException ''Voucher is already posted'')
        else case money_account s r (vo_amount r) of
            Inl e \<Rightarrow> Inl e
          | Inr (debit_account, banks) \<Rightarrow>
            (case account_or_type ''1200'' ''Asset'' (gl s) of
               None \<Rightarrow> Inl (AttributeErr ''NoneType object has no attribute id'')
             | Some ar \<Rightarrow>
               (case post_double_entry_journal rnd (gl s) (vo_date r) (''Receipt Voucher '' @ voucher_number r)
                       (map dict_line (receipt_dicts debit_account ar r)) (voucher_number r) user now suffix of
                  Inl e \<Rightarrow> Inl e
                | Inr (j, g) \<Rightarrow>
                  let kept = s\<lparr>gl := g, bank_accounts := banks\<rparr>;
                      live = kept\<lparr>receipt_vouchers := modify i (posted_voucher j) (receipt_vouchers s),
                        customer_ledger := (case vo_party_id r of None \<Rightarrow> customer_ledger s
                          | Some c \<Rightarrow> add_row (fo_next s) (receipt_entry (customer_ledger s) c r j) (customer_ledger s))\<rparr>
                  in Inr (live, fo_emit [Publish ''FINANCE_PAYMENT_RECEIVED'' i] kept))))"

section \<open>Payments\<close>

definition create_payment_voucher ::
  "(nat \<Rightarrow> decimal \<Rightarrow> decimal) \<Rightarrow> fops \<Rightarrow> voucher_create \<Rightarrow> string \<Rightarrow> (uuid \<times> fops) result" where
  "create_payment_voucher rnd s vc num =
     (if exists_where (\<lambda>r. voucher_number r = num) (payment_vouchers s)
        then Inl (IntegrityErr ''payment_vouchers.voucher_number'')
      else if \<not> (fk_opt (fo_suppliers s) (vc_party_id vc) \<and> fk_opt (bank_accounts s) (vc_bank_account_id vc)
          \<and> fk_opt (accounts (gl s)) (vc_cash_account_id vc))
        then Inl (IntegrityErr ''payment_vouchers'')
      else Inr (fo_next s, fo_emit [Audit ''CREATE'' ''PaymentVoucher'' (fo_next s)]
        (s\<lparr>payment_vouchers := add_row (fo_next s) (new_voucher rnd vc num) (payment_vouchers s),
           fo_next := fo_next s + 1\<rparr>)))"

definition payment_dicts :: "uuid \<Rightarrow> uuid \<Rightarrow> voucher \<Rightarrow> (uuid \<times> decimal \<times> decimal \<times> string) list" where
  "payment_dicts ap credit_account r =
     [(ap, vo_amount r, 0, ''Supplier Payment '' @ voucher_number r),
      (credit_account, 0, vo_amount r, ''Payment Outflow '' @ voucher_number r)]"

text \<open>The entry in the ledger of the party, when the voucher names one.\<close>

definition payment_entry :: "party_entry table \<Rightarrow> uuid \<Rightarrow> voucher \<Rightarrow> uuid \<Rightarrow> party_entry" where
  "payment_entry t c r j =
     \<lparr>pe_party_id = c, pe_posting_date = vo_date r, pe_document_type = ''Payment'',
      pe_document_number = voucher_number r, pe_journal_id = Some j, pe_debit = vo_amount r, pe_credit = 0,
      pe_running_balance = previous_balance t c - vo_amount r,
      pe_description = Some (''Payment '' @ voucher_number r)\<rparr>"

definition post_payment_voucher ::
  "(nat \<Rightarrow> decimal \<Rightarrow> decimal) \<Rightarrow> fops \<Rightarrow> uuid \<Rightarrow> uuid option \<Rightarrow> timestamp \<Rightarrow> string \<Rightarrow> (fops \<times> fops) result" where
  "post_payment_voucher rnd s i user now suffix =
     (case get (payment_vouchers s) i of
        None \<Rightarrow> Inl (NotFoundException ''Payment voucher not found'')
      | Some r \<Rightarrow>
        if vo_status r \<noteq> FDraft then Inl (ValidationException ''Voucher is already posted'')
        else case money_account s r (- vo_amount r) of
            Inl e \<Rightarrow> Inl e
          | Inr (credit_account, banks) \<Rightarrow>
            (case account_or_type ''2100'' ''Liability'' (gl s) of
               None \<Rightarrow> Inl (AttributeErr ''NoneType object has no attribute id'')
             | Some ap \<Rightarrow>
               (case post_double_entry_journal rnd (gl s) (vo_date r) (''Payment Voucher '' @ voucher_number r)
                       (map dict_line (payment_dicts ap credit_account r)) (voucher_number r) user now suffix of
                  Inl e \<Rightarrow> Inl e
                | Inr (j, g) \<Rightarrow>
                  let kept = s\<lparr>gl := g, bank_accounts := banks\<rparr>;
                      live = kept\<lparr>payment_vouchers := modify i (posted_voucher j) (payment_vouchers s),
                        supplier_ledger := (case vo_party_id r of None \<Rightarrow> supplier_ledger s
                          | Some c \<Rightarrow> add_row (fo_next s) (payment_entry (supplier_ledger s) c r j) (supplier_ledger s))\<rparr>
                  in Inr (live, fo_emit [Publish ''FINANCE_PAYMENT_MADE'' i] kept))))"

section \<open>What a posting leaves behind\<close>

lemma post_receiptD:
  assumes "post_receipt_voucher rnd s i user now suffix = Inr (live, s')"
  obtains r acc banks ar j g where "get (receipt_vouchers s) i = Some r" "vo_status r = FDraft"
    "money_account s r (vo_amount r) = Inr (acc, banks)" "account_or_type ''1200'' ''Asset'' (gl s) = Some ar"
    "post_double_entry_journal rnd (gl s) (vo_date r) (''Receipt Voucher '' @ voucher_number r)
       (map dict_line (receipt_dicts acc ar r)) (voucher_number r) user now suffix = Inr (j, g)"
    "get (receipt_vouchers live) i = Some (posted_voucher j r)"
    "s' = fo_emit [Publish ''FINANCE_PAYMENT_RECEIVED'' i] (s\<lparr>gl := g, bank_accounts := banks\<rparr>)"
  using assms by (auto simp: post_receipt_voucher_def Let_def table_simps split: option.splits if_splits sum.splits)

lemma post_paymentD:
  assumes "post_payment_voucher rnd s i user now suffix = Inr (live, s')"
  obtains r acc banks ap j g where "get (payment_vouchers s) i = Some r" "vo_status r = FDraft"
    "money_account s r (- vo_amount r) = Inr (acc, banks)" "account_or_type ''2100'' ''Liability'' (gl s) = Some ap"
    "post_double_entry_journal rnd (gl s) (vo_date r) (''Payment Voucher '' @ voucher_number r)
       (map dict_line (payment_dicts ap acc r)) (voucher_number r) user now suffix = Inr (j, g)"
    "get (payment_vouchers live) i = Some (posted_voucher j r)"
    "s' = fo_emit [Publish ''FINANCE_PAYMENT_MADE'' i] (s\<lparr>gl := g, bank_accounts := banks\<rparr>)"
  using assms by (auto simp: post_payment_voucher_def Let_def table_simps split: option.splits if_splits sum.splits)

lemma money_account_keys:
  "money_account s r x = Inr (acc, banks) \<Longrightarrow> keys banks = keys (bank_accounts s)"
  by (auto simp: money_account_def table_simps split: option.splits if_splits)

text \<open>In the next request the same account is found, and the balance of the bank can be changed again.\<close>

lemma money_account_again:
  assumes "money_account s r x = Inr (acc, banks)"
    and "account_or_type ''1010'' ''Asset'' (gl s') = account_or_type ''1010'' ''Asset'' (gl s)"
    and "bank_accounts s' = banks"
  shows "\<exists>banks'. money_account s' r x = Inr (acc, banks')"
proof (cases "if payment_mode r = ''Bank'' then vo_bank_account_id r else None")
  case None
  with assms show ?thesis by (auto simp: money_account_def split: option.splits)
next
  case (Some k)
  with assms(1) obtain b where "get (bank_accounts s) k = Some b" "acc = gl_account_id b"
    "banks = modify k (add_bank_balance x) (bank_accounts s)"
    by (auto simp: money_account_def split: option.splits)
  with Some assms(3) show ?thesis by (simp add: money_account_def table_simps add_bank_balance_def)
qed

lemma account_lookup_emit [simp]: "account_or_type c ty (emit es g) = account_or_type c ty g"
  by (simp add: account_or_type_def account_with_code_def account_of_type_def split: option.splits)

lemma get_period_emit [simp]: "get_period_for_date (emit es g) d = get_period_for_date g d"
  by (rule get_period_cong) simp_all

lemma postable_emit [simp]: "postable (emit es g) k = postable g k"
  by (simp add: postable_def)

lemma post_receipt_again:
  assumes ok: "post_receipt_voucher rnd s i user now suffix = Inr (live, s')" and wf: "wf_fin (gl s)"
    and fresh: "fresh_suffix (gl s') suffix'"
  shows "\<exists>live' s''. post_receipt_voucher rnd s' i user' now' suffix' = Inr (live', s'')"
  using ok
proof (rule post_receiptD)
  fix r acc banks ar j g
  assume r: "get (receipt_vouchers s) i = Some r" "vo_status r = FDraft"
    and m: "money_account s r (vo_amount r) = Inr (acc, banks)"
    and ar: "account_or_type ''1200'' ''Asset'' (gl s) = Some ar"
    and p: "post_double_entry_journal rnd (gl s) (vo_date r) (''Receipt Voucher '' @ voucher_number r)
       (map dict_line (receipt_dicts acc ar r)) (voucher_number r) user now suffix = Inr (j, g)"
    and s': "s' = fo_emit [Publish ''FINANCE_PAYMENT_RECEIVED'' i] (s\<lparr>gl := g, bank_accounts := banks\<rparr>)"
  note same = post_double_entry_same_accounts [OF p wf]
  obtain banks' where m': "money_account s' r (vo_amount r) = Inr (acc, banks')"
    using money_account_again [OF m, of s'] same(2) s' by auto
  have "\<exists>k h. post_double_entry_journal rnd (gl s') (vo_date r) (''Receipt Voucher '' @ voucher_number r)
       (map dict_line (receipt_dicts acc ar r)) (voucher_number r) user' now' suffix' = Inr (k, h)"
  proof (rule post_double_entry_succeeds [OF _ _ fresh])
    show "\<not> blocked (get_period_for_date (gl s') (vo_date r))"
      using p same(5) by (auto simp: s' elim: post_double_entryD)
    show "float_balanced (map dict_line (receipt_dicts acc ar r))"
      using p by (auto simp: float_balanced_def elim: post_double_entryD)
    show "list_all (\<lambda>e. fk (accounts (gl s')) (el_account_id e) \<and> postable (gl s') (el_account_id e))
        (map dict_line (receipt_dicts acc ar r))"
      using p same(3,4) by (auto simp: s' elim: post_double_entryD)
  qed
  then obtain k h where q: "post_double_entry_journal rnd (gl s') (vo_date r) (''Receipt Voucher '' @ voucher_number r)
       (map dict_line (receipt_dicts acc ar r)) (voucher_number r) user' now' suffix' = Inr (k, h)" by blast
  have "get (receipt_vouchers s') i = Some r" "account_or_type ''1200'' ''Asset'' (gl s') = Some ar"
    using r ar same(2) by (simp_all add: s')
  with r(2) m' q show ?thesis by (simp add: post_receipt_voucher_def Let_def)
qed

end
