(* ===== verification/Banking.thy ===== *)
theory Banking
  imports Payments
begin

text \<open>
  \<open>BankService\<close> and \<open>ReconciliationService\<close> (\<^verbatim>\<open>src/app/services/finance_ops_services.py\<close>): bank accounts and
  their transactions, imported statements, and the automatic matching of statement lines with transactions.
\<close>

section \<open>Banks\<close>

record bank_account_create =
  bn_account_name :: string
  bn_account_number :: string
  bn_bank_name :: string
  bn_branch_name :: "string option"
  bn_swift_code :: "string option"
  bn_iban :: "string option"
  bn_currency_code :: string
  bn_gl_account_id :: uuid

definition create_bank_account :: "fops \<Rightarrow> bank_account_create \<Rightarrow> (uuid \<times> fops) result" where
  "create_bank_account s d =
     (if exists_where (\<lambda>b. ba_account_number b = bn_account_number d) (bank_accounts s)
        then Inl (IntegrityErr ''bank_accounts.account_number'')
      else if \<not> fk (accounts (gl s)) (bn_gl_account_id d) then Inl (IntegrityErr ''bank_accounts.gl_account_id'')
      else Inr (fo_next s, fo_emit [Audit ''CREATE'' ''BankAccount'' (fo_next s)]
        (s\<lparr>bank_accounts := add_row (fo_next s)
             \<lparr>ba_account_name = bn_account_name d, ba_account_number = bn_account_number d,
              ba_bank_name = bn_bank_name d, ba_branch_name = bn_branch_name d, ba_swift_code = bn_swift_code d,
              ba_iban = bn_iban d, ba_currency_code = bn_currency_code d, gl_account_id = bn_gl_account_id d,
              ba_current_balance = 0, ba_is_active = True\<rparr> (bank_accounts s),
           fo_next := fo_next s + 1\<rparr>)))"

record bank_transaction_create =
  tc_bank_account_id :: uuid
  tc_transaction_date :: date
  tc_transaction_type :: string
  tc_amount :: decimal
  tc_reference_number :: "string option"
  tc_payee_or_payer :: "string option"
  tc_description :: "string option"

definition bank_effect :: "string \<Rightarrow> decimal \<Rightarrow> decimal" where
  "bank_effect ty x =
     (if ty = ''Deposit'' then x else if ty \<in> {''Withdrawal'', ''Fee'', ''Cheque''} then - x else 0)"

definition record_transaction ::
  "(nat \<Rightarrow> decimal \<Rightarrow> decimal) \<Rightarrow> fops \<Rightarrow> bank_transaction_create \<Rightarrow> (uuid \<times> fops) result" where
  "record_transaction rnd s d =
     (case get (bank_accounts s) (tc_bank_account_id d) of
        None \<Rightarrow> Inl (NotFoundException ''Bank account not found'')
      | Some b \<Rightarrow>
        Inr (fo_next s, fo_emit [Audit ''CREATE'' ''BankTransaction'' (fo_next s)]
          (s\<lparr>bank_transactions := add_row (fo_next s)
               \<lparr>bt_bank_account_id = tc_bank_account_id d, bt_transaction_date = tc_transaction_date d,
                transaction_type = tc_transaction_type d, bt_amount = rnd 2 (tc_amount d),
                bt_reference_number = tc_reference_number d, payee_or_payer = tc_payee_or_payer d,
                bt_description = tc_description d, is_reconciled = False\<rparr> (bank_transactions s),
             bank_accounts := modify (tc_bank_account_id d) (\<lambda>b. b\<lparr>ba_current_balance :=
                rnd 2 (ba_current_balance b + bank_effect (tc_transaction_type d) (tc_amount d))\<rparr>) (bank_accounts s),
             fo_next := fo_next s + 1\<rparr>)))"

section \<open>Statements\<close>

record statement_line_create =
  sc_transaction_date :: date
  sc_amount :: decimal
  sc_reference_number :: "string option"
  sc_description :: "string option"

record statement_create =
  si_bank_account_id :: uuid
  si_statement_number :: string
  si_start_date :: date
  si_end_date :: date
  si_opening_balance :: decimal
  si_closing_balance :: decimal
  si_lines :: "statement_line_create list"

definition new_statement_line :: "(nat \<Rightarrow> decimal \<Rightarrow> decimal) \<Rightarrow> uuid \<Rightarrow> statement_line_create \<Rightarrow> statement_line" where
  "new_statement_line rnd st l =
     \<lparr>sl_statement_id = st, sl_transaction_date = sc_transaction_date l, sl_amount = rnd 2 (sc_amount l),
      sl_reference_number = sc_reference_number l, sl_description = sc_description l, is_matched = False,
      matched_transaction_id = None\<rparr>"

definition import_statement ::
  "(nat \<Rightarrow> decimal \<Rightarrow> decimal) \<Rightarrow> fops \<Rightarrow> statement_create \<Rightarrow> (uuid \<times> fops) result" where
  "import_statement rnd s d =
     (if \<not> fk (bank_accounts s) (si_bank_account_id d) then Inl (IntegrityErr ''bank_statements.bank_account_id'')
      else let i = fo_next s; n = length (si_lines d)
        in Inr (i, fo_emit [Audit ''CREATE'' ''BankStatement'' i]
          (s\<lparr>bank_statements := add_row i
               \<lparr>bs_bank_account_id = si_bank_account_id d, statement_number = si_statement_number d,
                bs_start_date = si_start_date d, bs_end_date = si_end_date d,
                bs_opening_balance = rnd 2 (si_opening_balance d), bs_closing_balance = rnd 2 (si_closing_balance d),
                bs_status = ''Uploaded''\<rparr> (bank_statements s),
             statement_lines := statement_lines s @ zip [i + 1..<i + 1 + n] (map (new_statement_line rnd i) (si_lines d)),
             fo_next := i + 1 + n\<rparr>)))"

section \<open>Matching\<close>

text \<open>One round of the outer loop: the first transaction of the bank with the amount of the line that is not yet
  reconciled is taken. The query for the lines does not look at the bank of their statements.\<close>

definition candidate :: "uuid \<Rightarrow> decimal \<Rightarrow> bank_transaction \<Rightarrow> bool" where
  "candidate bank x t = (bt_bank_account_id t = bank \<and> \<not> is_reconciled t \<and> bt_amount t = x)"

definition match_line ::
  "uuid \<Rightarrow> uuid \<times> statement_line \<Rightarrow> statement_line table \<times> bank_transaction table \<times> reconciliation_item list \<Rightarrow>
   statement_line table \<times> bank_transaction table \<times> reconciliation_item list" where
  "match_line bank = (\<lambda>(k, l) (sls, txs, items).
     case first_where (candidate bank (sl_amount l)) txs of
       None \<Rightarrow> (sls, txs, items)
     | Some (ti, t) \<Rightarrow>
       (modify k (\<lambda>l. l\<lparr>is_matched := True, matched_transaction_id := Some ti\<rparr>) sls,
        modify ti (\<lambda>t. t\<lparr>is_reconciled := True\<rparr>) txs,
        items @ [\<lparr>ri_statement_line_id = k, ri_bank_transaction_id = ti, ri_match_status = ''Matched''\<rparr>]))"

definition unmatched :: "statement_line table \<Rightarrow> (uuid \<times> statement_line) list" where
  "unmatched sls = filter (\<lambda>(k, l). \<not> is_matched l) sls"

definition match_all ::
  "uuid \<Rightarrow> statement_line table \<Rightarrow> bank_transaction table \<Rightarrow>
   statement_line table \<times> bank_transaction table \<times> reconciliation_item list" where
  "match_all bank sls txs = fold (match_line bank) (unmatched sls) (sls, txs, [])"

definition perform_auto_matching :: "fops \<Rightarrow> uuid \<Rightarrow> date \<Rightarrow> (uuid \<times> fops) result" where
  "perform_auto_matching s bank today =
     (let balance = (case get (bank_accounts s) bank of Some b \<Rightarrow> ba_current_balance b | None \<Rightarrow> 0) in
      case match_all bank (statement_lines s) (bank_transactions s) of (sls, txs, items) \<Rightarrow>
        if \<not> fk (bank_accounts s) bank then Inl (IntegrityErr ''bank_reconciliations.bank_account_id'')
        else Inr (fo_next s, fo_emit [Audit ''CREATE'' ''BankReconciliation'' (fo_next s), Publish ''FINANCE_BANK_RECONCILED'' bank]
          (s\<lparr>statement_lines := sls, bank_transactions := txs,
             reconciliations := add_row (fo_next s)
               \<lparr>br_bank_account_id = bank, reconciliation_date = today, statement_balance = balance,
                gl_balance = balance, unreconciled_amount = 0, br_status = ''Completed'', br_items = items\<rparr> (reconciliations s),
             fo_next := fo_next s + 1\<rparr>)))"

section \<open>What the matching achieves\<close>

text \<open>Lines and transactions of one amount that are still open.\<close>

definition open_lines :: "decimal \<Rightarrow> statement_line table \<Rightarrow> nat" where
  "open_lines x sls = length (filter (\<lambda>(k, l). \<not> is_matched l \<and> sl_amount l = x) sls)"

definition open_txns :: "uuid \<Rightarrow> decimal \<Rightarrow> bank_transaction table \<Rightarrow> nat" where
  "open_txns bank x txs = length (filter (\<lambda>(k, t). candidate bank x t) txs)"

text \<open>Changing one row changes the number of rows with a property by what it does to that row.\<close>

lemma length_filter_modify:
  assumes "distinct (keys t)" and "get t i = Some r"
  shows "length (filter (\<lambda>(k, r). P r) (modify i f t)) + (if P r then 1 else 0)
    = length (filter (\<lambda>(k, r). P r) t) + (if P (f r) then 1 else 0)"
  using assms
proof (induction t)
  case Nil
  then show ?case by (simp add: get_def)
next
  case (Cons x t)
  obtain k r0 where x: "x = (k, r0)" by force
  show ?case
  proof (cases "k = i")
    case True
    with Cons.prems x have "r0 = r" "modify i f t = t"
      by (auto simp: get_def keys_def intro!: modify_absent get_None_fresh)
    with Cons.prems x True show ?thesis by (simp add: modify_def)
  next
    case False
    with Cons x show ?thesis by (auto simp: modify_def get_def keys_def)
  qed
qed

text \<open>One round takes nothing, and then no transaction of the amount is open, or takes one of each.\<close>

lemma match_line_counts:
  assumes "distinct (keys sls)" and "distinct (keys txs)" and "get sls k = Some l" and "\<not> is_matched l"
    and m: "match_line bank (k, l) (sls, txs, items) = (sls', txs', items')"
  shows "keys sls' = keys sls" "keys txs' = keys txs"
    "open_lines x sls' + open_txns bank x txs = open_lines x sls + open_txns bank x txs'"
    "open_txns bank x txs' \<le> open_txns bank x txs"
    "sl_amount l = x \<Longrightarrow> open_txns bank x txs' = 0 \<or> (\<exists>l'. get sls' k = Some l' \<and> is_matched l')"
    "j \<noteq> k \<Longrightarrow> get sls' j = get sls j"
    "get sls' j = Some l' \<Longrightarrow> \<not> is_matched l' \<Longrightarrow> get sls j = Some l'"
proof -
  have "keys sls' = keys sls \<and> keys txs' = keys txs \<and>
    open_lines x sls' + open_txns bank x txs = open_lines x sls + open_txns bank x txs' \<and>
    open_txns bank x txs' \<le> open_txns bank x txs \<and>
    (sl_amount l = x \<longrightarrow> open_txns bank x txs' = 0 \<or> (\<exists>l'. get sls' k = Some l' \<and> is_matched l')) \<and>
    (j \<noteq> k \<longrightarrow> get sls' j = get sls j) \<and>
    (get sls' j = Some l' \<longrightarrow> \<not> is_matched l' \<longrightarrow> get sls j = Some l')"
  proof (cases "first_where (candidate bank (sl_amount l)) txs")
    case None
    then have "open_txns bank (sl_amount l) txs = 0"
      by (auto simp: open_txns_def first_where_None filter_empty_conv)
    with None m show ?thesis by (auto simp: match_line_def)
  next
    case (Some p)
    obtain ti t where p: "p = (ti, t)" by force
    with Some m have sls': "sls' = modify k (\<lambda>l. l\<lparr>is_matched := True, matched_transaction_id := Some ti\<rparr>) sls"
      and txs': "txs' = modify ti (\<lambda>t. t\<lparr>is_reconciled := True\<rparr>) txs"
      by (simp_all add: match_line_def)
    from first_where_row [OF assms(2) Some [unfolded p]]
    have t: "get txs ti = Some t" "candidate bank (sl_amount l) t" by simp_all
    have "open_lines x sls' + (if sl_amount l = x then 1 else 0) = open_lines x sls"
      using length_filter_modify [OF assms(1,3), of "\<lambda>l. \<not> is_matched l \<and> sl_amount l = x"] assms(4)
      by (simp add: open_lines_def sls')
    moreover have "open_txns bank x txs' + (if sl_amount l = x then 1 else 0) = open_txns bank x txs"
      using length_filter_modify [OF assms(2) t(1), of "candidate bank x"] t(2)
      by (simp add: open_txns_def txs' candidate_def)
    ultimately show ?thesis using assms(3) by (auto simp: sls' txs' table_simps split: if_splits)
  qed
  then show "keys sls' = keys sls" "keys txs' = keys txs"
    "open_lines x sls' + open_txns bank x txs = open_lines x sls + open_txns bank x txs'"
    "open_txns bank x txs' \<le> open_txns bank x txs"
    "sl_amount l = x \<Longrightarrow> open_txns bank x txs' = 0 \<or> (\<exists>l'. get sls' k = Some l' \<and> is_matched l')"
    "j \<noteq> k \<Longrightarrow> get sls' j = get sls j"
    "get sls' j = Some l' \<Longrightarrow> \<not> is_matched l' \<Longrightarrow> get sls j = Some l'"
    by simp_all
qed

lemma match_fold_counts:
  assumes "distinct (keys sls)" and "distinct (keys txs)" and "distinct (map fst ls)"
    and "\<forall>(k, l)\<in>set ls. get sls k = Some l \<and> \<not> is_matched l"
    and "fold (match_line bank) ls (sls, txs, items) = (sls', txs', items')"
  shows "keys sls' = keys sls \<and> keys txs' = keys txs \<and>
    open_lines x sls' + open_txns bank x txs = open_lines x sls + open_txns bank x txs' \<and>
    open_txns bank x txs' \<le> open_txns bank x txs \<and>
    (open_txns bank x txs' = 0 \<or> (\<forall>(k, l)\<in>set ls. sl_amount l = x \<longrightarrow> (\<exists>l'. get sls' k = Some l' \<and> is_matched l'))) \<and>
    (\<forall>j. j \<notin> fst ` set ls \<longrightarrow> get sls' j = get sls j) \<and>
    (\<forall>j l'. get sls' j = Some l' \<longrightarrow> \<not> is_matched l' \<longrightarrow> get sls j = Some l')"
  using assms
proof (induction ls arbitrary: sls txs items)
  case Nil
  then show ?case by simp
next
  case (Cons y ls)
  obtain k l where y: "y = (k, l)" by force
  obtain sls1 txs1 items1 where m: "match_line bank (k, l) (sls, txs, items) = (sls1, txs1, items1)"
    by (metis prod_cases3)
  have kl: "get sls k = Some l" "\<not> is_matched l" using Cons.prems(4) y by auto
  note c = match_line_counts [OF Cons.prems(1,2) kl m]
  have other: "j \<noteq> k \<Longrightarrow> get sls1 j = get sls j" for j by (rule c(6))
  have "\<forall>(k, l)\<in>set ls. get sls1 k = Some l \<and> \<not> is_matched l"
    using Cons.prems(3,4) other y by (force simp: image_iff)
  note IH = Cons.IH [of sls1 txs1 items1, OF _ _ _ this]
  have ih: "keys sls' = keys sls1 \<and> keys txs' = keys txs1 \<and>
    open_lines x sls' + open_txns bank x txs1 = open_lines x sls1 + open_txns bank x txs' \<and>
    open_txns bank x txs' \<le> open_txns bank x txs1 \<and>
    (open_txns bank x txs' = 0 \<or> (\<forall>(k, l)\<in>set ls. sl_amount l = x \<longrightarrow> (\<exists>l'. get sls' k = Some l' \<and> is_matched l'))) \<and>
    (\<forall>j. j \<notin> fst ` set ls \<longrightarrow> get sls' j = get sls1 j) \<and>
    (\<forall>j l'. get sls' j = Some l' \<longrightarrow> \<not> is_matched l' \<longrightarrow> get sls1 j = Some l')"
    using Cons.prems c(1,2) y m by (intro IH) simp_all
  from ih have ih1: "keys sls' = keys sls1" "keys txs' = keys txs1"
    and ih2: "open_lines x sls' + open_txns bank x txs1 = open_lines x sls1 + open_txns bank x txs'"
    and ih3: "open_txns bank x txs' \<le> open_txns bank x txs1"
    and ih4: "open_txns bank x txs' = 0 \<or> (\<forall>(k, l)\<in>set ls. sl_amount l = x \<longrightarrow> (\<exists>l'. get sls' k = Some l' \<and> is_matched l'))"
    and ih5: "\<forall>j. j \<notin> fst ` set ls \<longrightarrow> get sls' j = get sls1 j"
    and ih6: "\<forall>j l'. get sls' j = Some l' \<longrightarrow> \<not> is_matched l' \<longrightarrow> get sls1 j = Some l'"
    by - (elim conjE, assumption)+
  have "k \<notin> fst ` set ls" using Cons.prems(3) y by simp
  with ih5 have same: "get sls' k = get sls1 k" by blast
  have "open_txns bank x txs' = 0 \<or> (\<forall>(k, l)\<in>set (y # ls). sl_amount l = x \<longrightarrow> (\<exists>l'. get sls' k = Some l' \<and> is_matched l'))"
  proof (cases "open_txns bank x txs' = 0")
    case False
    with ih3 have "sl_amount l = x \<Longrightarrow> \<exists>l'. get sls' k = Some l' \<and> is_matched l'"
      using c(5) [of x] unfolding same by (metis le_zero_eq)
    with False ih4 show ?thesis unfolding y by simp
  qed simp
  moreover have "open_lines x sls' + open_txns bank x txs = open_lines x sls + open_txns bank x txs'"
    "open_txns bank x txs' \<le> open_txns bank x txs"
    using c(3,4) [of x] ih2 ih3 by linarith+
  moreover have "\<forall>j. j \<notin> fst ` set (y # ls) \<longrightarrow> get sls' j = get sls j"
    using ih5 other unfolding y by simp
  moreover have "\<forall>j l'. get sls' j = Some l' \<longrightarrow> \<not> is_matched l' \<longrightarrow> get sls j = Some l'"
  proof (intro allI impI)
    fix j m
    assume "get sls' j = Some m" "\<not> is_matched m"
    with ih6 show "get sls j = Some m" by (intro c(7)) blast+
  qed
  moreover have "keys sls' = keys sls" "keys txs' = keys txs" using ih1 c(1,2) by simp_all
  ultimately show ?case by (intro conjI) assumption+
qed

text \<open>The greedy matching is as large as it can be: for every amount, all open lines or all open transactions of the
  bank are used up.\<close>

lemma match_all_counts:
  assumes "distinct (keys sls)" and "distinct (keys txs)" and "match_all bank sls txs = (sls', txs', items)"
  shows "open_lines x sls' = open_lines x sls - min (open_lines x sls) (open_txns bank x txs)"
    and "open_txns bank x txs' = open_txns bank x txs - min (open_lines x sls) (open_txns bank x txs)"
    and "keys sls' = keys sls" and "keys txs' = keys txs"
proof -
  have d: "distinct (map fst (unmatched sls))"
    using assms(1) unfolding unmatched_def keys_def by (rule distinct_map_filter)
  have r: "\<forall>(k, l)\<in>set (unmatched sls). get sls k = Some l \<and> \<not> is_matched l"
    using assms(1) by (auto simp: unmatched_def in_set_get)
  note c = match_fold_counts [OF assms(1,2) d r assms(3) [unfolded match_all_def], of x]
  have "open_txns bank x txs' = 0 \<or> open_lines x sls' = 0"
  proof (rule disjCI)
    assume "open_lines x sls' \<noteq> 0"
    then obtain k l where "(k, l) \<in> set sls'" "\<not> is_matched l" "sl_amount l = x"
      by (auto simp: open_lines_def filter_empty_conv)
    then have l: "get sls' k = Some l" "\<not> is_matched l" using assms(1) c by (auto intro: in_set_get)
    then have "(k, l) \<in> set (unmatched sls)" using c by (auto simp: unmatched_def intro: get_in_set)
    with c l \<open>sl_amount l = x\<close> show "open_txns bank x txs' = 0" by fastforce
  qed
  with c show "open_lines x sls' = open_lines x sls - min (open_lines x sls) (open_txns bank x txs)"
    "open_txns bank x txs' = open_txns bank x txs - min (open_lines x sls) (open_txns bank x txs)"
    "keys sls' = keys sls" "keys txs' = keys txs"
    by auto
qed

section \<open>Matched lines and reconciled transactions belong together\<close>

text \<open>A matched line names a reconciled transaction of its amount, no two lines name the same one, and every
  reconciled transaction is named.\<close>

definition links :: "statement_line table \<Rightarrow> uuid \<Rightarrow> uuid \<Rightarrow> bool" where
  "links sls k ti = (\<exists>l. get sls k = Some l \<and> is_matched l \<and> matched_transaction_id l = Some ti)"

definition match_ok :: "statement_line table \<Rightarrow> bank_transaction table \<Rightarrow> bool" where
  "match_ok sls txs =
     ((\<forall>k l. get sls k = Some l \<longrightarrow> is_matched l \<longrightarrow> (\<exists>ti t. matched_transaction_id l = Some ti \<and>
         get txs ti = Some t \<and> is_reconciled t \<and> bt_amount t = sl_amount l)) \<and>
      (\<forall>k k' ti. links sls k ti \<longrightarrow> links sls k' ti \<longrightarrow> k = k') \<and>
      (\<forall>ti t. get txs ti = Some t \<longrightarrow> is_reconciled t \<longrightarrow> (\<exists>k. links sls k ti)))"

lemma match_okD:
  assumes "match_ok sls txs"
  shows "get sls k = Some l \<Longrightarrow> is_matched l \<Longrightarrow> \<exists>ti t. matched_transaction_id l = Some ti \<and>
         get txs ti = Some t \<and> is_reconciled t \<and> bt_amount t = sl_amount l"
    and "links sls k ti \<Longrightarrow> links sls k' ti \<Longrightarrow> k = k'"
    and "get txs ti = Some t \<Longrightarrow> is_reconciled t \<Longrightarrow> \<exists>k. links sls k ti"
  using assms unfolding match_ok_def by blast+

lemma match_line_ok:
  assumes ok: "match_ok sls txs" and d: "distinct (keys txs)" and l: "get sls k = Some l" "\<not> is_matched l"
    and m: "match_line bank (k, l) (sls, txs, items) = (sls', txs', items')"
  shows "match_ok sls' txs'"
proof (cases "first_where (candidate bank (sl_amount l)) txs")
  case None
  with m ok show ?thesis by (simp add: match_line_def)
next
  case (Some p)
  obtain ti t where p: "p = (ti, t)" by force
  with Some m have sls': "sls' = modify k (\<lambda>l. l\<lparr>is_matched := True, matched_transaction_id := Some ti\<rparr>) sls"
    and txs': "txs' = modify ti (\<lambda>t. t\<lparr>is_reconciled := True\<rparr>) txs"
    by (simp_all add: match_line_def)
  from first_where_row [OF d Some [unfolded p]]
  have t: "get txs ti = Some t" "\<not> is_reconciled t" "bt_amount t = sl_amount l" by (auto simp: candidate_def)
  note o1 = match_okD(1) [OF ok] and o2 = match_okD(2) [OF ok] and o3 = match_okD(3) [OF ok]
  have free: "\<not> links sls j ti" for j using o1 t by (fastforce simp: links_def)
  have new: "links sls' j u \<longleftrightarrow> (if j = k then u = ti else links sls j u)" for j u
    using l by (auto simp: links_def sls' table_simps)
  show ?thesis unfolding match_ok_def
  proof (intro conjI allI impI)
    fix j m
    assume j: "get sls' j = Some m" "is_matched m"
    show "\<exists>ti t. matched_transaction_id m = Some ti \<and> get txs' ti = Some t \<and> is_reconciled t \<and> bt_amount t = sl_amount m"
    proof (cases "j = k")
      case True
      with j l t show ?thesis by (auto simp: sls' txs' table_simps)
    next
      case False
      with j have "get sls j = Some m" by (simp add: sls' table_simps)
      from o1 [OF this j(2)] obtain u v where "matched_transaction_id m = Some u" "get txs u = Some v"
        "is_reconciled v" "bt_amount v = sl_amount m" by blast
      with t show ?thesis by (auto simp: txs' table_simps)
    qed
  next
    fix j j' u
    assume "links sls' j u" "links sls' j' u"
    then show "j = j'" using free o2 by (auto simp: new split: if_splits)
  next
    fix u v
    assume v: "get txs' u = Some v" "is_reconciled v"
    show "\<exists>j. links sls' j u"
    proof (cases "u = ti")
      case True
      then show ?thesis by (auto simp: new)
    next
      case False
      with v have "get txs u = Some v" by (simp add: txs' table_simps)
      from o3 [OF this v(2)] obtain j where j: "links sls j u" ..
      with l have "j \<noteq> k" by (auto simp: links_def)
      with j show ?thesis by (auto simp: new)
    qed
  qed
qed

lemma match_fold_ok:
  assumes "match_ok sls txs" and "distinct (keys sls)" and "distinct (keys txs)" and "distinct (map fst ls)"
    and "\<forall>(k, l)\<in>set ls. get sls k = Some l \<and> \<not> is_matched l"
    and "fold (match_line bank) ls (sls, txs, items) = (sls', txs', items')"
  shows "match_ok sls' txs'"
  using assms
proof (induction ls arbitrary: sls txs items)
  case Nil
  then show ?case by simp
next
  case (Cons y ls)
  obtain k l where y: "y = (k, l)" by force
  obtain sls1 txs1 items1 where m: "match_line bank (k, l) (sls, txs, items) = (sls1, txs1, items1)"
    by (metis prod_cases3)
  have kl: "get sls k = Some l" "\<not> is_matched l" using Cons.prems(5) y by auto
  note c = match_line_counts [OF Cons.prems(2,3) kl m]
  have "\<forall>(k, l)\<in>set ls. get sls1 k = Some l \<and> \<not> is_matched l"
    using Cons.prems(4,5) c(6) y by (force simp: image_iff)
  moreover have "match_ok sls1 txs1" by (rule match_line_ok [OF Cons.prems(1,3) kl m])
  ultimately show ?case using Cons.prems(2,3,4,6) c(1,2) y m by (intro Cons.IH [of sls1 txs1 items1]) simp_all
qed

lemma match_all_ok:
  assumes "match_ok sls txs" and "distinct (keys sls)" and "distinct (keys txs)"
    and "match_all bank sls txs = (sls', txs', items)"
  shows "match_ok sls' txs'"
proof (rule match_fold_ok [OF assms(1-3) _ _ assms(4) [unfolded match_all_def]])
  show "distinct (map fst (unmatched sls))"
    using assms(2) unfolding unmatched_def keys_def by (rule distinct_map_filter)
  show "\<forall>(k, l)\<in>set (unmatched sls). get sls k = Some l \<and> \<not> is_matched l"
    using assms(2) by (auto simp: unmatched_def in_set_get)
qed

end
