(* ===== verification/FixedAssets.thy ===== *)
theory FixedAssets
  imports Banking
begin

text \<open>
  \<open>AssetService\<close> and \<open>DepreciationService\<close> (\<^verbatim>\<open>src/app/services/finance_ops_services.py\<close>): the acquisition of an
  asset is posted and committed before the asset is stored, so a call can fail with the journal kept;
  \<open>generate_schedule\<close> only flushes its rows, and what \<open>post_depreciation\<close> changes after its journal is not
  committed either. Each operation therefore returns its result together with the database it leaves.
\<close>

section \<open>Days\<close>

text \<open>\<open>date + timedelta(days=n)\<close>, which raises after 9999-12-31.\<close>

primrec plus_days :: "nat \<Rightarrow> date \<Rightarrow> date option" where
  "plus_days 0 d = Some d"
| "plus_days (Suc n) d = (case next_day d of None \<Rightarrow> None | Some e \<Rightarrow> plus_days n e)"

lemma plus_days_ordinal:
  "valid_date d \<Longrightarrow> plus_days n d = Some e \<Longrightarrow> valid_date e \<and> toordinal e = toordinal d + int n"
proof (induction n arbitrary: d)
  case (Suc n)
  then obtain d' where d': "next_day d = Some d'" "plus_days n d' = Some e" by (auto split: option.splits)
  with Suc.IH [OF next_day_valid [OF Suc.prems(1) d'(1)]] toordinal_next [OF Suc.prems(1)] show ?case by simp
qed simp

definition pad2 :: "nat \<Rightarrow> string" where
  "pad2 n = replicate (2 - length (str_nat n)) CHR ''0'' @ str_nat n"

section \<open>Categories and assets\<close>

definition create_category :: "fops \<Rightarrow> asset_category \<Rightarrow> (uuid \<times> fops) result" where
  "create_category s c =
     (if exists_where (\<lambda>r. cat_code r = cat_code c) (asset_categories s) then Inl (IntegrityErr ''asset_categories.code'')
      else if \<not> (fk (accounts (gl s)) (asset_account_id c) \<and> fk (accounts (gl s)) (accumulated_depreciation_account_id c)
          \<and> fk (accounts (gl s)) (depreciation_expense_account_id c))
        then Inl (IntegrityErr ''asset_categories'')
      else Inr (fo_next s, fo_emit [Audit ''CREATE'' ''AssetCategory'' (fo_next s)]
        (s\<lparr>asset_categories := add_row (fo_next s) c (asset_categories s), fo_next := fo_next s + 1\<rparr>)))"

record fixed_asset_create =
  fc_asset_code :: string
  fc_name :: string
  fc_category_id :: uuid
  fc_department_id :: "uuid option"
  fc_acquisition_date :: date
  fc_purchase_cost :: decimal
  fc_salvage_value :: decimal

definition valid_asset :: "fixed_asset_create \<Rightarrow> bool" where
  "valid_asset d = (0 < fc_purchase_cost d \<and> 0 \<le> fc_salvage_value d)"

definition new_asset :: "(nat \<Rightarrow> decimal \<Rightarrow> decimal) \<Rightarrow> fixed_asset_create \<Rightarrow> fixed_asset" where
  "new_asset rnd d =
     \<lparr>asset_code = fc_asset_code d, fa_name = fc_name d, fa_category_id = fc_category_id d,
      fa_department_id = fc_department_id d, acquisition_date = fc_acquisition_date d,
      purchase_cost = rnd 2 (fc_purchase_cost d), salvage_value = rnd 2 (fc_salvage_value d),
      current_book_value = rnd 2 (fc_purchase_cost d), fa_status = ''Active''\<rparr>"

definition acquisition_dicts :: "uuid \<Rightarrow> uuid \<Rightarrow> fixed_asset_create \<Rightarrow> (uuid \<times> decimal \<times> decimal \<times> string) list" where
  "acquisition_dicts asset_account cash d =
     [(asset_account, fc_purchase_cost d, 0, ''Asset Acquisition '' @ fc_asset_code d),
      (cash, 0, fc_purchase_cost d, ''Acquisition Outflow '' @ fc_asset_code d)]"

definition store_asset ::
  "(nat \<Rightarrow> decimal \<Rightarrow> decimal) \<Rightarrow> fops \<Rightarrow> fixed_asset_create \<Rightarrow> uuid result \<times> fops" where
  "store_asset rnd s d =
     (if exists_where (\<lambda>r. asset_code r = fc_asset_code d) (fixed_assets s)
        then (Inl (IntegrityErr ''fixed_assets.asset_code''), s)
      else (Inr (fo_next s),
        fo_emit [Audit ''CREATE'' ''FixedAsset'' (fo_next s), Publish ''FINANCE_ASSET_CREATED'' (fo_next s)]
          (s\<lparr>fixed_assets := add_row (fo_next s) (new_asset rnd d) (fixed_assets s), fo_next := fo_next s + 1\<rparr>)))"

definition create_asset ::
  "(nat \<Rightarrow> decimal \<Rightarrow> decimal) \<Rightarrow> fops \<Rightarrow> fixed_asset_create \<Rightarrow> uuid option \<Rightarrow> timestamp \<Rightarrow> string \<Rightarrow> uuid result \<times> fops" where
  "create_asset rnd s d user now suffix =
     (case get (asset_categories s) (fc_category_id d) of
        None \<Rightarrow> (Inl (NotFoundException ''Asset Category not found''), s)
      | Some c \<Rightarrow>
        let cash = (case account_with_code ''1010'' (gl s) of Some i \<Rightarrow> i | None \<Rightarrow> asset_account_id c) in
        case post_double_entry_journal rnd (gl s) (fc_acquisition_date d) (''Asset Acquisition '' @ fc_name d)
               (map dict_line (acquisition_dicts (asset_account_id c) cash d)) (fc_asset_code d) user now suffix of
          Inl e \<Rightarrow> (Inl e, s)
        | Inr (j, g) \<Rightarrow> store_asset rnd (s\<lparr>gl := g\<rparr>) d)"

section \<open>Depreciation\<close>

definition schedule_row :: "uuid \<Rightarrow> date \<Rightarrow> nat \<Rightarrow> decimal \<Rightarrow> decimal \<Rightarrow> decimal \<Rightarrow> depreciation_schedule" where
  "schedule_row i d m amount acc book =
     \<lparr>ds_asset_id = i, schedule_date = d, ds_period_name = ''M'' @ pad2 m,
      depreciation_amount = amount, accumulated_depreciation = acc, ending_book_value = book,
      ds_status = ''Scheduled'', ds_journal_id = None\<rparr>"

text \<open>Month \<open>m\<close> is due thirty days after month \<open>m - 1\<close>.\<close>

definition schedule_dates :: "date \<Rightarrow> nat \<Rightarrow> date list option" where
  "schedule_dates d months = those (map (\<lambda>m. plus_days (m * 30) d) [1..<months + 1])"

text \<open>The loop over the months, from month \<open>m\<close> on.\<close>

fun schedule_rows ::
  "uuid \<Rightarrow> decimal \<Rightarrow> decimal \<Rightarrow> nat \<Rightarrow> date list \<Rightarrow> nat \<Rightarrow> decimal \<Rightarrow> decimal \<Rightarrow> depreciation_schedule list" where
  "schedule_rows i depreciable monthly months [] m acc book = []"
| "schedule_rows i depreciable monthly months (d # ds) m acc book =
     (let amount = (if m = months then depreciable - acc else monthly)
      in schedule_row i d m amount (acc + amount) (book - amount)
         # schedule_rows i depreciable monthly months ds (Suc m) (acc + amount) (book - amount))"

definition schedule_of :: "uuid \<Rightarrow> fixed_asset \<Rightarrow> int \<Rightarrow> depreciation_schedule list result" where
  "schedule_of i a months =
     (let depreciable = purchase_cost a - salvage_value a in
      if months = 0 then Inl (ArithmeticErr ''DivisionByZero'')
      else let monthly = round_dp 2 (depreciable / of_int months) in
        case schedule_dates (acquisition_date a) (nat months) of
          None \<Rightarrow> Inl (OverflowErr ''date value out of range'')
        | Some ds \<Rightarrow> Inr (schedule_rows i depreciable monthly (nat months) ds 1 0 (purchase_cost a)))"

definition generate_schedule :: "fops \<Rightarrow> uuid \<Rightarrow> depreciation_schedule list result \<times> fops" where
  "generate_schedule s i =
     (case get (fixed_assets s) i of
        None \<Rightarrow> (Inl (NotFoundException ''Fixed Asset not found''), s)
      | Some a \<Rightarrow>
        (case get (asset_categories s) (fa_category_id a) of
           None \<Rightarrow> (Inl (AttributeErr ''NoneType object has no attribute useful_life_years''), s)
         | Some c \<Rightarrow> (schedule_of i a (useful_life_years c * 12), s)))"

definition depreciation_dicts :: "asset_category \<Rightarrow> fixed_asset \<Rightarrow> depreciation_schedule \<Rightarrow> (uuid \<times> decimal \<times> decimal \<times> string) list" where
  "depreciation_dicts c a d =
     [(depreciation_expense_account_id c, depreciation_amount d, 0, ''Depreciation '' @ asset_code a @ '' '' @ ds_period_name d),
      (accumulated_depreciation_account_id c, 0, depreciation_amount d, ''Accumulated Depreciation '' @ asset_code a)]"

text \<open>The session at the end and the database.\<close>

definition post_depreciation ::
  "(nat \<Rightarrow> decimal \<Rightarrow> decimal) \<Rightarrow> fops \<Rightarrow> uuid \<Rightarrow> uuid option \<Rightarrow> timestamp \<Rightarrow> string \<Rightarrow> (fops \<times> fops) result" where
  "post_depreciation rnd s i user now suffix =
     (case get (depreciation_schedules s) i of
        None \<Rightarrow> Inl (NotFoundException ''Depreciation schedule item not found'')
      | Some d \<Rightarrow>
        if ds_status d = ''Posted'' then Inl (ValidationException ''Schedule entry is already posted'')
        else case get (fixed_assets s) (ds_asset_id d) of
            None \<Rightarrow> Inl (AttributeErr ''NoneType object has no attribute category'')
          | Some a \<Rightarrow>
            (case get (asset_categories s) (fa_category_id a) of
               None \<Rightarrow> Inl (AttributeErr ''NoneType object has no attribute depreciation_expense_account_id'')
             | Some c \<Rightarrow>
               (case post_double_entry_journal rnd (gl s) (schedule_date d)
                       (''Depreciation '' @ fa_name a @ '' '' @ ds_period_name d)
                       (map dict_line (depreciation_dicts c a d)) (asset_code a) user now suffix of
                  Inl e \<Rightarrow> Inl e
                | Inr (j, g) \<Rightarrow>
                  let kept = s\<lparr>gl := g\<rparr>;
                      live = kept\<lparr>
                        depreciation_schedules := modify i (\<lambda>d. d\<lparr>ds_journal_id := Some j, ds_status := ''Posted''\<rparr>) (depreciation_schedules s),
                        fixed_assets := modify (ds_asset_id d) (\<lambda>a. a\<lparr>current_book_value := ending_book_value d\<rparr>) (fixed_assets s)\<rparr>
                  in Inr (live, fo_emit [Publish ''FINANCE_DEPRECIATION_POSTED'' (ds_asset_id d)] kept))))"

section \<open>What a schedule adds up to\<close>

lemma schedule_rows_length [simp]: "length (schedule_rows i depreciable monthly months ds m acc book) = length ds"
  by (induction ds arbitrary: m acc book) (simp_all add: Let_def)

lemma schedule_rows_Nil [simp]: "schedule_rows i depreciable monthly months ds m acc book = [] \<longleftrightarrow> ds = []"
  by (cases ds) (simp_all add: Let_def)

lemma schedule_rows_last:
  assumes "ds \<noteq> []" and "m + length ds = months + 1"
  shows "(let r = last (schedule_rows i depreciable monthly months ds m acc book)
     in accumulated_depreciation r = depreciable \<and> ending_book_value r = book + acc - depreciable \<and>
        depreciation_amount r = depreciable - acc - of_nat (length ds - 1) * monthly)"
  using assms
proof (induction ds arbitrary: m acc book)
  case (Cons d ds)
  show ?case
  proof (cases "ds = []")
    case True
    with Cons.prems show ?thesis by (simp add: Let_def schedule_row_def)
  next
    case False
    with Cons.prems have m: "m \<noteq> months" by (cases ds) auto
    let ?rest = "schedule_rows i depreciable monthly months ds (Suc m) (acc + monthly) (book - monthly)"
    have l: "last (schedule_rows i depreciable monthly months (d # ds) m acc book) = last ?rest"
      using m False by (simp add: Let_def)
    have n: "of_nat (length ds) = (of_nat (length ds - 1) + 1 :: rat)" using False by (cases ds) simp_all
    have "(of_nat (length ds - 1) + 1) * monthly = of_nat (length ds - 1) * monthly + monthly"
      by (simp only: distrib_right mult_1)
    with Cons.IH [OF False, of "Suc m" "acc + monthly" "book - monthly"] Cons.prems show ?thesis
      unfolding l by (simp add: Let_def n)
  qed
qed simp

lemma schedule_rows_sum:
  "ds \<noteq> [] \<Longrightarrow> m + length ds = months + 1 \<Longrightarrow>
   sum_list (map depreciation_amount (schedule_rows i depreciable monthly months ds m acc book)) = depreciable - acc"
proof (induction ds arbitrary: m acc book)
  case (Cons d ds)
  show ?case
  proof (cases "ds = []")
    case True
    with Cons.prems show ?thesis by (simp add: Let_def schedule_row_def)
  next
    case False
    with Cons.prems have m: "m \<noteq> months" by (cases ds) auto
    with Cons.IH [OF False, of "Suc m" "acc + monthly" "book - monthly"] Cons.prems show ?thesis
      by (simp add: Let_def schedule_row_def)
  qed
qed simp

text \<open>In between the amounts accumulate and the book value falls.\<close>

lemma schedule_rows_running:
  assumes "k < length ds"
  shows "let rows = schedule_rows i depreciable monthly months ds m acc book;
      taken = sum_list (map depreciation_amount (take (Suc k) rows))
    in accumulated_depreciation (rows ! k) = acc + taken \<and> ending_book_value (rows ! k) = book - taken"
  using assms
proof (induction ds arbitrary: k m acc book)
  case (Cons d ds)
  let ?amount = "if m = months then depreciable - acc else monthly"
  show ?case
  proof (cases k)
    case 0
    then show ?thesis by (simp add: Let_def schedule_row_def)
  next
    case (Suc j)
    with Cons.IH [of j "Suc m" "acc + ?amount" "book - ?amount"] Cons.prems show ?thesis
      by (simp add: Let_def schedule_row_def add.assoc diff_diff_eq)
  qed
qed simp

lemma schedule_rows_nth:
  "k < length ds \<Longrightarrow> schedule_date (schedule_rows i depreciable monthly months ds m acc book ! k) = ds ! k"
proof (induction ds arbitrary: k m acc book)
  case (Cons d ds)
  then show ?case by (cases k) (simp_all add: Let_def schedule_row_def)
qed simp

lemma those_Some: "those xs = Some ys \<Longrightarrow> length ys = length xs \<and> (\<forall>k<length xs. xs ! k = Some (ys ! k))"
proof (induction xs arbitrary: ys)
  case (Cons x xs)
  then obtain y zs where x: "x = Some y" and zs: "those xs = Some zs" "ys = y # zs"
    by (auto split: option.splits)
  from Cons.IH [OF zs(1)] show ?case by (auto simp: x zs(2) nth_Cons split: nat.splits)
qed simp

lemma schedule_dates_Some:
  assumes "schedule_dates d months = Some ds" and "valid_date d"
  shows "length ds = months" and "k < months \<Longrightarrow> toordinal (ds ! k) = toordinal d + 30 * (int k + 1)"
proof -
  from those_Some [OF assms(1) [unfolded schedule_dates_def]]
  have l: "length ds = months" and n: "\<forall>k<months. plus_days ((k + 1) * 30) d = Some (ds ! k)"
    by (auto simp del: upt_Suc)
  show "length ds = months" by (rule l)
  assume "k < months"
  with n have "plus_days ((k + 1) * 30) d = Some (ds ! k)" by blast
  from plus_days_ordinal [OF assms(2) this] show "toordinal (ds ! k) = toordinal d + 30 * (int k + 1)" by simp
qed

end
