(* ===== verification/Statements.thy ===== *)
theory Statements
  imports FixedAssets
begin

text \<open>
  \<open>FinancialStatementService\<close>, \<open>BudgetService\<close>, \<open>ClosingService\<close> and \<open>AnalyticsService\<close>
  (\<^verbatim>\<open>src/app/services/finance_ops_services.py\<close>). The statements are made from the current balances of all
  accounts, whatever dates are asked for; they report floats. Approving a budget and closing a period change rows
  of the session that are never committed.
\<close>

section \<open>Financial statements\<close>

record report_line =
  tl_account_code :: string
  tl_account_name :: string
  tl_account_type :: string
  tl_debit_balance :: decimal
  tl_credit_balance :: decimal

definition side_balances :: "account \<Rightarrow> decimal \<times> decimal" where
  "side_balances a =
     (let bal = current_balance a; pos = (if bal \<ge> 0 then bal else 0); neg = (if bal < 0 then \<bar>bal\<bar> else 0)
      in if account_type a \<in> {''Asset'', ''Expense''} then (pos, neg) else (neg, pos))"

record trial_balance_report =
  tr_as_of_date :: date
  tr_total_debit :: rat
  tr_total_credit :: rat
  tr_lines :: "report_line list"

definition generate_trial_balance :: "fin \<Rightarrow> date \<Rightarrow> trial_balance_report" where
  "generate_trial_balance g d =
     \<lparr>tr_as_of_date = d,
      tr_total_debit = fl (sum_rows (\<lambda>a. fst (side_balances a)) (accounts g)),
      tr_total_credit = fl (sum_rows (\<lambda>a. snd (side_balances a)) (accounts g)),
      tr_lines = map (\<lambda>(k, a). \<lparr>tl_account_code = account_code a, tl_account_name = acc_name a,
        tl_account_type = account_type a, tl_debit_balance = fl (fst (side_balances a)),
        tl_credit_balance = fl (snd (side_balances a))\<rparr>) (accounts g)\<rparr>"

definition total_of_type :: "string \<Rightarrow> fin \<Rightarrow> decimal" where
  "total_of_type ty g = sum_rows (\<lambda>a. if account_type a = ty then current_balance a else 0) (accounts g)"

definition lines_of_type :: "string \<Rightarrow> fin \<Rightarrow> (string \<times> string \<times> rat) list" where
  "lines_of_type ty g = map (\<lambda>(k, a). (account_code a, acc_name a, fl (current_balance a)))
     (filter (\<lambda>(k, a). account_type a = ty) (accounts g))"

record balance_sheet_report =
  bh_as_of_date :: date
  bh_total_assets :: rat
  bh_total_liabilities :: rat
  bh_total_equity :: rat
  bh_assets :: "(string \<times> string \<times> rat) list"
  bh_liabilities :: "(string \<times> string \<times> rat) list"
  bh_equity :: "(string \<times> string \<times> rat) list"

definition generate_balance_sheet :: "fin \<Rightarrow> date \<Rightarrow> balance_sheet_report" where
  "generate_balance_sheet g d =
     \<lparr>bh_as_of_date = d, bh_total_assets = fl (total_of_type ''Asset'' g),
      bh_total_liabilities = fl (total_of_type ''Liability'' g), bh_total_equity = fl (total_of_type ''Equity'' g),
      bh_assets = lines_of_type ''Asset'' g, bh_liabilities = lines_of_type ''Liability'' g,
      bh_equity = lines_of_type ''Equity'' g\<rparr>"

record profit_and_loss_report =
  pl_start_date :: date
  pl_end_date :: date
  pl_total_revenue :: rat
  pl_total_expense :: rat
  pl_net_profit :: rat
  pl_revenue_items :: "(string \<times> string \<times> rat) list"
  pl_expense_items :: "(string \<times> string \<times> rat) list"

definition generate_profit_and_loss :: "fin \<Rightarrow> date \<Rightarrow> date \<Rightarrow> profit_and_loss_report" where
  "generate_profit_and_loss g d e =
     (let revenue = total_of_type ''Income'' g; expense = total_of_type ''Expense'' g
      in \<lparr>pl_start_date = d, pl_end_date = e, pl_total_revenue = fl revenue, pl_total_expense = fl expense,
          pl_net_profit = fl (revenue - expense), pl_revenue_items = lines_of_type ''Income'' g,
          pl_expense_items = lines_of_type ''Expense'' g\<rparr>)"

section \<open>Budgets\<close>

record budget_create =
  bg_code :: string
  bg_name :: string
  bg_fiscal_year_id :: uuid
  bg_department_id :: "uuid option"
  bg_cost_center_id :: "uuid option"
  bg_lines :: "(uuid \<times> decimal) list"

definition valid_budget :: "budget_create \<Rightarrow> bool" where
  "valid_budget d = list_all (\<lambda>(a, x). 0 \<le> x) (bg_lines d)"

definition new_budget_line :: "(nat \<Rightarrow> decimal \<Rightarrow> decimal) \<Rightarrow> uuid \<times> decimal \<Rightarrow> budget_line" where
  "new_budget_line rnd = (\<lambda>(a, x). \<lparr>bl_account_id = a, budgeted_amount = rnd 2 x, actual_amount = 0, variance_amount = rnd 2 x\<rparr>)"

definition create_budget :: "(nat \<Rightarrow> decimal \<Rightarrow> decimal) \<Rightarrow> fops \<Rightarrow> budget_create \<Rightarrow> (uuid \<times> fops) result" where
  "create_budget rnd s d =
     (if exists_where (\<lambda>b. bu_code b = bg_code d) (budgets s) then Inl (IntegrityErr ''budgets.code'')
      else if \<not> fk (fiscal_years (gl s)) (bg_fiscal_year_id d) then Inl (IntegrityErr ''budgets.fiscal_year_id'')
      else if \<not> list_all (\<lambda>(a, x). fk (accounts (gl s)) a) (bg_lines d) then Inl (IntegrityErr ''budget_lines.account_id'')
      else Inr (fo_next s, fo_emit [Audit ''CREATE'' ''Budget'' (fo_next s)]
        (s\<lparr>budgets := add_row (fo_next s)
             \<lparr>bu_code = bg_code d, bu_name = bg_name d, bu_fiscal_year_id = bg_fiscal_year_id d,
              bu_department_id = bg_department_id d, bu_cost_center_id = bg_cost_center_id d,
              total_budgeted_amount = rnd 2 (sum_list (map snd (bg_lines d))), total_actual_amount = 0,
              bu_status = ''Draft'', bu_lines = map (new_budget_line rnd) (bg_lines d)\<rparr> (budgets s),
           fo_next := fo_next s + 1\<rparr>)))"

text \<open>The session at the end and the database.\<close>

definition approve_budget :: "fops \<Rightarrow> uuid \<Rightarrow> (fops \<times> fops) result" where
  "approve_budget s i =
     (case get (budgets s) i of
        None \<Rightarrow> Inl (NotFoundException ''Budget not found'')
      | Some b \<Rightarrow> Inr (s\<lparr>budgets := modify i (\<lambda>b. b\<lparr>bu_status := ''Approved''\<rparr>) (budgets s)\<rparr>,
          fo_emit [Publish ''FINANCE_BUDGET_APPROVED'' i] s))"

section \<open>Closing\<close>

text \<open>\<open>close_period\<close> of \<open>ClosingService\<close>: no endpoint calls it, so what is kept is up to a caller that commits;
  on its own it keeps nothing.\<close>

definition close_period_ops :: "fops \<Rightarrow> uuid \<Rightarrow> (fops \<times> fops) result" where
  "close_period_ops s i =
     (case get (fiscal_periods (gl s)) i of
        None \<Rightarrow> Inl (NotFoundException ''Fiscal Period not found'')
      | Some p \<Rightarrow> Inr (s\<lparr>gl := (gl s)\<lparr>fiscal_periods :=
            modify i (\<lambda>p. p\<lparr>is_closed := True, is_locked := True\<rparr>) (fiscal_periods (gl s))\<rparr>\<rparr>,
          fo_emit [Publish ''FINANCE_PERIOD_CLOSED'' i] s))"

section \<open>Analytics\<close>

record analytics_report =
  an_revenue :: rat
  an_expenses :: rat
  an_net_margin_percentage :: rat
  an_cash_position :: rat
  an_receivables_outstanding :: rat
  an_payables_outstanding :: rat
  an_asset_total_value :: rat
  an_current_ratio :: rat
  an_quick_ratio :: rat
  an_debt_to_equity_ratio :: rat

definition get_financial_analytics :: "fin \<Rightarrow> analytics_report" where
  "get_financial_analytics g =
     (let revenue = total_of_type ''Income'' g; expenses = total_of_type ''Expense'' g;
          assets = total_of_type ''Asset'' g; liabilities = total_of_type ''Liability'' g;
          equity = total_of_type ''Equity'' g;
          net_margin = (if revenue > 0 then (revenue - expenses) / revenue * 100 else 0);
          current_ratio = (if liabilities > 0 then assets / liabilities else 1)
      in \<lparr>an_revenue = fl revenue, an_expenses = fl expenses, an_net_margin_percentage = fl net_margin,
          an_cash_position = fl (assets * (4 / 10)), an_receivables_outstanding = fl (assets * (3 / 10)),
          an_payables_outstanding = fl (liabilities * (5 / 10)), an_asset_total_value = fl assets,
          an_current_ratio = fl current_ratio, an_quick_ratio = fl (current_ratio * (9 / 10)),
          an_debt_to_equity_ratio = fl (if equity > 0 then liabilities / equity else 5 / 10)\<rparr>)"

section \<open>Statements and the accounting equation\<close>

text \<open>The chart uses the five account types as the statements spell them.\<close>

definition known_types :: "fin \<Rightarrow> bool" where
  "known_types g = all_rows (\<lambda>a. account_type a \<in> {''Asset'', ''Liability'', ''Equity'', ''Income'', ''Expense''}) (accounts g)"

lemma upper_types:
  "py_upper ''Asset'' = ''ASSET''" "py_upper ''Liability'' = ''LIABILITY''" "py_upper ''Equity'' = ''EQUITY''"
  "py_upper ''Income'' = ''INCOME''" "py_upper ''Expense'' = ''EXPENSE''"
  by code_simp+

lemma debit_normal_types:
  "account_type a = ''Asset'' \<Longrightarrow> debit_normal a" "account_type a = ''Expense'' \<Longrightarrow> debit_normal a"
  "account_type a = ''Liability'' \<Longrightarrow> \<not> debit_normal a" "account_type a = ''Equity'' \<Longrightarrow> \<not> debit_normal a"
  "account_type a = ''Income'' \<Longrightarrow> \<not> debit_normal a"
  by (simp_all add: debit_normal_def upper_types)

lemma sum_rows_cong: "all_rows P t \<Longrightarrow> (\<And>r. P r \<Longrightarrow> f r = h r) \<Longrightarrow> sum_rows f t = sum_rows h t"
  by (induction t) (auto simp: sum_rows_def all_rows_def)

lemma sum_rows_diff: "sum_rows f t - sum_rows h t = sum_rows (\<lambda>r. f r - h r :: rat) t"
  by (induction t) (auto simp: sum_rows_def algebra_simps)

lemma sum_rows_add: "sum_rows f t + sum_rows h t = sum_rows (\<lambda>r. f r + h r :: rat) t"
  by (induction t) (auto simp: sum_rows_def algebra_simps)

lemma side_balances_diff:
  assumes "account_type a \<in> {''Asset'', ''Liability'', ''Equity'', ''Income'', ''Expense''}"
  shows "fst (side_balances a) - snd (side_balances a) = debit_side a"
proof -
  consider "account_type a = ''Asset''" | "account_type a = ''Liability''" | "account_type a = ''Equity''"
    | "account_type a = ''Income''" | "account_type a = ''Expense''" using assms by blast
  then show ?thesis
    by cases (simp_all add: side_balances_def debit_side_def debit_normal_types Let_def)
qed

lemma statement_difference:
  assumes "known_types g"
  shows "sum_rows (\<lambda>a. fst (side_balances a)) (accounts g) - sum_rows (\<lambda>a. snd (side_balances a)) (accounts g) = equation_total g"
  unfolding sum_rows_diff equation_total_def
  by (rule sum_rows_cong [OF assms [unfolded known_types_def]]) (rule side_balances_diff)

lemma type_totals_difference:
  assumes "known_types g"
  shows "total_of_type ''Asset'' g + total_of_type ''Expense'' g
      - (total_of_type ''Liability'' g + total_of_type ''Equity'' g + total_of_type ''Income'' g) = equation_total g"
  unfolding sum_rows_diff sum_rows_add equation_total_def total_of_type_def
proof (rule sum_rows_cong [OF assms [unfolded known_types_def]])
  fix a :: account
  assume "account_type a \<in> {''Asset'', ''Liability'', ''Equity'', ''Income'', ''Expense''}"
  then consider "account_type a = ''Asset''" | "account_type a = ''Liability''" | "account_type a = ''Equity''"
    | "account_type a = ''Income''" | "account_type a = ''Expense''" by blast
  then show "(if account_type a = ''Asset'' then current_balance a else 0)
      + (if account_type a = ''Expense'' then current_balance a else 0)
      - ((if account_type a = ''Liability'' then current_balance a else 0)
         + (if account_type a = ''Equity'' then current_balance a else 0)
         + (if account_type a = ''Income'' then current_balance a else 0)) = debit_side a"
    by cases (simp_all add: debit_side_def debit_normal_types)
qed

end
