(* ===== verification/FinanceOpsSystem.thy ===== *)
theory FinanceOpsSystem
  imports Statements FinanceSystem
begin

text \<open>
  Finance operations as a transition system: a step is one request to a service of
  \<^verbatim>\<open>src/app/services/finance_ops_services.py\<close>, seen as what it leaves in the database, or a step of the general
  ledger underneath. Customers and suppliers are kept by other services: any change of their tables is a step.

  The invariant says what the tables of reachable states have in common: the two party ledgers are running sums
  and agree with the posted documents, amounts are whole hundredths, matched lines and reconciled transactions
  belong together, and what the services never commit is not there.
\<close>

section \<open>Steps\<close>

inductive fops_step :: "(nat \<Rightarrow> decimal \<Rightarrow> decimal) \<Rightarrow> fops \<Rightarrow> fops \<Rightarrow> bool" for rnd where
  ledger: "fin_step (gl s) g \<Longrightarrow> fops_step rnd s (s\<lparr>gl := g\<rparr>)"
| parties: "fops_step rnd s (s\<lparr>fo_customers := cs, fo_suppliers := ps\<rparr>)"
| create_invoice: "valid_lines (ic_lines ic) \<Longrightarrow> create_invoice rnd s ic num = Inr (i, s') \<Longrightarrow> fops_step rnd s s'"
| post_invoice: "post_invoice rnd s i user now suffix = Inr s' \<Longrightarrow> fops_step rnd s s'"
| create_bill: "valid_lines (bc_lines bc) \<Longrightarrow> create_bill rnd s bc num = Inr (i, s') \<Longrightarrow> fops_step rnd s s'"
| post_bill: "post_bill rnd s i user now suffix = Inr s' \<Longrightarrow> fops_step rnd s s'"
| create_receipt: "valid_voucher vc \<Longrightarrow> create_receipt_voucher rnd s vc num = Inr (i, s') \<Longrightarrow> fops_step rnd s s'"
| post_receipt: "post_receipt_voucher rnd s i user now suffix = Inr (live, s') \<Longrightarrow> fops_step rnd s s'"
| create_payment: "valid_voucher vc \<Longrightarrow> create_payment_voucher rnd s vc num = Inr (i, s') \<Longrightarrow> fops_step rnd s s'"
| post_payment: "post_payment_voucher rnd s i user now suffix = Inr (live, s') \<Longrightarrow> fops_step rnd s s'"
| create_bank: "create_bank_account s bd = Inr (i, s') \<Longrightarrow> fops_step rnd s s'"
| record_txn: "record_transaction rnd s td = Inr (i, s') \<Longrightarrow> fops_step rnd s s'"
| import_statement: "import_statement rnd s sd = Inr (i, s') \<Longrightarrow> fops_step rnd s s'"
| auto_match: "perform_auto_matching s bank today = Inr (i, s') \<Longrightarrow> fops_step rnd s s'"
| create_category: "create_category s c = Inr (i, s') \<Longrightarrow> fops_step rnd s s'"
| create_asset: "valid_asset d \<Longrightarrow> create_asset rnd s d user now suffix = (res, s') \<Longrightarrow> fops_step rnd s s'"
| schedule: "generate_schedule s i = (rows, s') \<Longrightarrow> fops_step rnd s s'"
| depreciate: "post_depreciation rnd s i user now suffix = Inr (live, s') \<Longrightarrow> fops_step rnd s s'"
| create_budget: "valid_budget bg \<Longrightarrow> create_budget rnd s bg = Inr (i, s') \<Longrightarrow> fops_step rnd s s'"
| approve_budget: "approve_budget s i = Inr (live, s') \<Longrightarrow> fops_step rnd s s'"
| close_period: "close_period_ops s i = Inr (live, s') \<Longrightarrow> fops_step rnd s s'"

definition fops_init :: "fops \<Rightarrow> bool" where
  "fops_init s =
     (wf_fin (gl s) \<and> customer_invoices s = [] \<and> customer_ledger s = [] \<and> supplier_bills s = [] \<and>
      supplier_ledger s = [] \<and> receipt_vouchers s = [] \<and> payment_vouchers s = [] \<and> bank_accounts s = [] \<and>
      bank_transactions s = [] \<and> bank_statements s = [] \<and> statement_lines s = [] \<and> reconciliations s = [] \<and>
      asset_categories s = [] \<and> fixed_assets s = [] \<and> depreciation_schedules s = [] \<and> budgets s = [])"

inductive fops_reachable :: "(nat \<Rightarrow> decimal \<Rightarrow> decimal) \<Rightarrow> fops \<Rightarrow> bool" for rnd where
  init: "fops_init s \<Longrightarrow> fops_reachable rnd s"
| step: "fops_reachable rnd s \<Longrightarrow> fops_step rnd s s' \<Longrightarrow> fops_reachable rnd s'"

section \<open>Running balances\<close>

definition entry_amount :: "party_entry \<Rightarrow> decimal" where
  "entry_amount e = pe_debit e + pe_credit e"

definition party_sum :: "party_entry table \<Rightarrow> uuid \<Rightarrow> decimal" where
  "party_sum t p = sum_rows (\<lambda>e. if pe_party_id e = p then entry_amount e else 0) t"

text \<open>Every entry carries the sum of the entries of its party up to it.\<close>

definition running_ok :: "party_entry table \<Rightarrow> bool" where
  "running_ok t =
     (\<forall>k<length t. pe_running_balance (snd (t ! k)) = party_sum (take (Suc k) t) (pe_party_id (snd (t ! k))))"

lemma running_ok_Nil [simp]: "running_ok []"
  by (simp add: running_ok_def)

lemma running_ok_add_row:
  "running_ok (add_row i e t) \<longleftrightarrow>
     running_ok t \<and> pe_running_balance e = party_sum t (pe_party_id e) + entry_amount e"
proof -
  have "party_sum (t @ [(i, e)]) (pe_party_id e) = party_sum t (pe_party_id e) + entry_amount e"
    by (simp add: party_sum_def sum_rows_def)
  then show ?thesis
    by (auto simp: running_ok_def add_row_def nth_append less_Suc_eq all_conj_distrib)
qed

lemma previous_balance_sum:
  assumes "running_ok t"
  shows "previous_balance t p = party_sum t p"
  using assms
proof (induction t rule: rev_induct)
  case Nil
  then show ?case by (simp add: previous_balance_def first_where_def party_sum_def sum_rows_def)
next
  case (snoc x t)
  obtain i e where x: "x = (i, e)" by force
  from snoc.prems have ok: "running_ok t" "pe_running_balance e = party_sum t (pe_party_id e) + entry_amount e"
    using running_ok_add_row [of i e t] by (simp_all add: x add_row_def)
  have s: "party_sum (t @ [x]) p = party_sum t p + (if pe_party_id e = p then entry_amount e else 0)"
    by (simp add: party_sum_def sum_rows_def x)
  show ?case
  proof (cases "pe_party_id e = p")
    case True
    with ok s show ?thesis by (simp add: previous_balance_def first_where_def x)
  next
    case False
    with snoc.IH [OF ok(1)] s show ?thesis by (simp add: previous_balance_def first_where_def x)
  qed
qed

text \<open>A party ledger agrees with the documents posted for each party.\<close>

definition ledger_books :: "party_entry table \<Rightarrow> (uuid \<Rightarrow> decimal) \<Rightarrow> bool" where
  "ledger_books t f = (running_ok t \<and> (\<forall>p. party_sum t p = f p))"

lemma ledger_books_add:
  assumes "ledger_books t f" and "pe_running_balance e = previous_balance t (pe_party_id e) + entry_amount e"
    and "\<And>p. g p = f p + (if p = pe_party_id e then entry_amount e else 0)"
  shows "ledger_books (add_row i e t) g"
  using assms previous_balance_sum [of t]
  by (auto simp: ledger_books_def running_ok_add_row party_sum_def sum_rows_add_row)

definition posted_invoices :: "customer_invoice table \<Rightarrow> uuid \<Rightarrow> decimal" where
  "posted_invoices t c = sum_rows (\<lambda>r. if ci_customer_id r = c \<and> ci_status r = FPosted then ci_total_amount r else 0) t"

definition posted_bills :: "supplier_bill table \<Rightarrow> uuid \<Rightarrow> decimal" where
  "posted_bills t p = sum_rows (\<lambda>r. if sb_supplier_id r = p \<and> sb_status r = FPosted then sb_total_amount r else 0) t"

section \<open>Amounts of documents\<close>

definition money :: "decimal \<Rightarrow> bool" where
  "money x = (hundredths x \<and> 0 \<le> x)"

definition lines_money :: "fo_invoice_line list \<Rightarrow> bool" where
  "lines_money ls = list_all (\<lambda>l. money (il_subtotal l) \<and> money (il_tax_amount l)) ls"

definition invoice_ok :: "customer_invoice \<Rightarrow> bool" where
  "invoice_ok r = (money (ci_subtotal r) \<and> money (ci_tax_amount r) \<and> money (ci_total_amount r) \<and>
     ci_paid_amount r = 0 \<and> ci_outstanding_amount r = ci_total_amount r \<and> ci_status r \<in> {FDraft, FPosted} \<and>
     ci_lines r \<noteq> [] \<and> lines_money (ci_lines r))"

definition bill_ok :: "supplier_bill \<Rightarrow> bool" where
  "bill_ok r = (money (sb_subtotal r) \<and> money (sb_tax_amount r) \<and> money (sb_total_amount r) \<and>
     sb_paid_amount r = 0 \<and> sb_outstanding_amount r = sb_total_amount r \<and> sb_status r \<in> {FDraft, FPosted} \<and>
     sb_lines r \<noteq> [] \<and> lines_money (sb_lines r))"

definition voucher_ok :: "voucher \<Rightarrow> bool" where
  "voucher_ok r = (money (vo_amount r) \<and> vo_status r = FDraft \<and> vo_journal_id r = None)"

lemma money_rnd: "column_rounding rnd \<Longrightarrow> 0 \<le> x \<Longrightarrow> money (rnd 2 x)"
proof -
  assume rnd: "column_rounding rnd" and x: "0 \<le> x"
  obtain k where k: "rnd 2 x = of_int k / 100"
    using column_rounding_hundredths(1) [OF rnd] by (auto simp: hundredths_iff)
  have "- 1 < (of_int k :: rat)" using column_rounding_hundredths(2) [OF rnd, of x] x unfolding k by linarith
  then have "0 \<le> k" by linarith
  with column_rounding_hundredths(1) [OF rnd] k show ?thesis by (simp add: money_def)
qed

lemma valid_line_nonneg: "valid_line l \<Longrightarrow> 0 \<le> line_subtotal l \<and> 0 \<le> lc_tax_amount l"
  by (simp add: valid_line_def line_subtotal_def)

lemma stored_lines_money:
  assumes "column_rounding rnd" and "valid_lines ls"
  shows "lines_money (map (stored_invoice_line rnd) ls)" and "map (stored_invoice_line rnd) ls \<noteq> []"
    and "0 \<le> sum_list (map line_subtotal ls)" and "0 \<le> sum_list (map lc_tax_amount ls)"
  using assms valid_line_nonneg
  by (auto simp: valid_lines_def lines_money_def stored_invoice_line_def list_all_iff money_rnd intro!: sum_list_nonneg)

lemma new_invoice_ok: "column_rounding rnd \<Longrightarrow> valid_lines (ic_lines ic) \<Longrightarrow> invoice_ok (new_invoice rnd ic num)"
  using stored_lines_money [of rnd "ic_lines ic"]
  by (auto simp: invoice_ok_def new_invoice_def Let_def money_rnd)

lemma new_bill_ok: "column_rounding rnd \<Longrightarrow> valid_lines (bc_lines bc) \<Longrightarrow> bill_ok (new_bill rnd bc num)"
  using stored_lines_money [of rnd "bc_lines bc"]
  by (auto simp: bill_ok_def new_bill_def Let_def money_rnd)

lemma new_voucher_ok: "column_rounding rnd \<Longrightarrow> valid_voucher vc \<Longrightarrow> voucher_ok (new_voucher rnd vc num)"
  by (auto simp: voucher_ok_def new_voucher_def valid_voucher_def money_rnd)

section \<open>The invariant\<close>

definition fops_tables :: "fops \<Rightarrow> bool" where
  "fops_tables s =
     (wf_table (fo_next s) (customer_invoices s) \<and> wf_table (fo_next s) (customer_ledger s) \<and>
      wf_table (fo_next s) (supplier_bills s) \<and> wf_table (fo_next s) (supplier_ledger s) \<and>
      wf_table (fo_next s) (receipt_vouchers s) \<and> wf_table (fo_next s) (payment_vouchers s) \<and>
      wf_table (fo_next s) (bank_accounts s) \<and> wf_table (fo_next s) (bank_transactions s) \<and>
      wf_table (fo_next s) (statement_lines s) \<and> wf_table (fo_next s) (asset_categories s) \<and>
      wf_table (fo_next s) (fixed_assets s) \<and> wf_table (fo_next s) (budgets s))"

definition fops_inv :: "fops \<Rightarrow> bool" where
  "fops_inv s =
     (wf_fin (gl s) \<and> fops_tables s \<and>
      ledger_books (customer_ledger s) (posted_invoices (customer_invoices s)) \<and>
      ledger_books (supplier_ledger s) (posted_bills (supplier_bills s)) \<and>
      all_rows invoice_ok (customer_invoices s) \<and> all_rows bill_ok (supplier_bills s) \<and>
      all_rows voucher_ok (receipt_vouchers s) \<and> all_rows voucher_ok (payment_vouchers s) \<and>
      match_ok (statement_lines s) (bank_transactions s) \<and>
      depreciation_schedules s = [] \<and> all_rows (\<lambda>b. bu_status b = ''Draft'') (budgets s))"

lemma fops_init_inv: "fops_init s \<Longrightarrow> fops_inv s"
  by (simp add: fops_init_def fops_inv_def fops_tables_def ledger_books_def party_sum_def posted_invoices_def
      posted_bills_def sum_rows_def all_rows_def match_ok_def links_def get_def)

lemma fin_step_wf: "fin_step s s' \<Longrightarrow> wf_fin s \<Longrightarrow> wf_fin s'"
  by (induction rule: fin_step.induct)
    (auto dest: chart_wf calendar_wf create_year_wf journals_wf post_wf reverse_wf)

section \<open>Every step keeps it\<close>

lemmas fops_inv_simps = fops_inv_def fops_tables_def all_rows_add_row table_simps

text \<open>A step that changes none of the tables the invariant speaks of.\<close>

lemma gl_inv: "fops_inv s \<Longrightarrow> wf_fin g \<Longrightarrow> fops_inv (s\<lparr>gl := g\<rparr>)"
  by (simp add: fops_inv_def fops_tables_def)

lemma emit_inv [simp]: "fops_inv (fo_emit es s) = fops_inv s" "fops_tables (fo_emit es s) = fops_tables s"
  by (simp_all add: fops_inv_def fops_tables_def)

lemma posted_invoices_add:
  "ci_status r = FDraft \<Longrightarrow> posted_invoices (add_row i r t) = posted_invoices t"
  "sb_status b = FDraft \<Longrightarrow> posted_bills (add_row i b u) = posted_bills u"
  by (auto simp: posted_invoices_def posted_bills_def sum_rows_add_row)

lemma posted_invoices_post:
  assumes "distinct (keys t)" and "get t i = Some r" and "ci_status r = FDraft"
  shows "posted_invoices (modify i (\<lambda>r. r\<lparr>ci_journal_id := Some j, ci_status := FPosted\<rparr>) t) c
    = posted_invoices t c + (if c = ci_customer_id r then ci_total_amount r else 0)"
  using assms by (simp add: posted_invoices_def sum_rows_modify [OF assms(1,2)])

lemma posted_bills_post:
  assumes "distinct (keys t)" and "get t i = Some r" and "sb_status r = FDraft"
  shows "posted_bills (modify i (\<lambda>r. r\<lparr>sb_journal_id := Some j, sb_status := FPosted\<rparr>) t) p
    = posted_bills t p + (if p = sb_supplier_id r then sb_total_amount r else 0)"
  using assms by (simp add: posted_bills_def sum_rows_modify [OF assms(1,2)])

text \<open>Tables stay well-formed when rows are added with fresh keys.\<close>

lemma fops_tables_mono:
  assumes "fops_tables s" and "fo_next s \<le> n"
  shows "wf_table n (customer_invoices s)" "wf_table n (customer_ledger s)" "wf_table n (supplier_bills s)"
    "wf_table n (supplier_ledger s)" "wf_table n (receipt_vouchers s)" "wf_table n (payment_vouchers s)"
    "wf_table n (bank_accounts s)" "wf_table n (bank_transactions s)" "wf_table n (statement_lines s)"
    "wf_table n (asset_categories s)" "wf_table n (fixed_assets s)" "wf_table n (budgets s)"
  using assms by (auto simp: fops_tables_def intro: wf_table_mono)

lemma fops_tables_add:
  assumes "fops_tables s"
  shows "wf_table (Suc (fo_next s)) (add_row (fo_next s) a (customer_invoices s))"
    "wf_table (Suc (fo_next s)) (add_row (fo_next s) b (customer_ledger s))"
    "wf_table (Suc (fo_next s)) (add_row (fo_next s) c (supplier_bills s))"
    "wf_table (Suc (fo_next s)) (add_row (fo_next s) b (supplier_ledger s))"
    "wf_table (Suc (fo_next s)) (add_row (fo_next s) v (receipt_vouchers s))"
    "wf_table (Suc (fo_next s)) (add_row (fo_next s) v (payment_vouchers s))"
    "wf_table (Suc (fo_next s)) (add_row (fo_next s) d (bank_accounts s))"
    "wf_table (Suc (fo_next s)) (add_row (fo_next s) e (bank_transactions s))"
    "wf_table (Suc (fo_next s)) (add_row (fo_next s) f (asset_categories s))"
    "wf_table (Suc (fo_next s)) (add_row (fo_next s) g (fixed_assets s))"
    "wf_table (Suc (fo_next s)) (add_row (fo_next s) h (budgets s))"
  using assms by (auto simp: fops_tables_def intro: wf_table_add_row)

lemmas next_row_facts = fops_tables_mono [OF _ le_SucI [OF order_refl]]

lemma new_row_tables:
  assumes "fops_tables s"
  shows "fops_tables (s\<lparr>customer_invoices := add_row (fo_next s) a (customer_invoices s), fo_next := Suc (fo_next s)\<rparr>)"
    "fops_tables (s\<lparr>supplier_bills := add_row (fo_next s) c (supplier_bills s), fo_next := Suc (fo_next s)\<rparr>)"
    "fops_tables (s\<lparr>receipt_vouchers := add_row (fo_next s) v (receipt_vouchers s), fo_next := Suc (fo_next s)\<rparr>)"
    "fops_tables (s\<lparr>payment_vouchers := add_row (fo_next s) v (payment_vouchers s), fo_next := Suc (fo_next s)\<rparr>)"
    "fops_tables (s\<lparr>bank_accounts := add_row (fo_next s) d (bank_accounts s), fo_next := Suc (fo_next s)\<rparr>)"
    "fops_tables (s\<lparr>asset_categories := add_row (fo_next s) f (asset_categories s), fo_next := Suc (fo_next s)\<rparr>)"
    "fops_tables (s\<lparr>fixed_assets := add_row (fo_next s) g (fixed_assets s), fo_next := Suc (fo_next s)\<rparr>)"
    "fops_tables (s\<lparr>budgets := add_row (fo_next s) h (budgets s), fo_next := Suc (fo_next s)\<rparr>)"
  using next_row_facts [OF assms] fops_tables_add [OF assms]
  by (simp_all add: fops_tables_def)

lemma create_invoice_inv:
  assumes "fops_inv s" and "column_rounding rnd" and "valid_lines (ic_lines ic)" and "create_invoice rnd s ic num = Inr (i, s')"
  shows "fops_inv s'"
proof -
  from assms(4) have s': "s' = fo_emit [Audit ''CREATE'' ''CustomerInvoice'' (fo_next s)]
      (s\<lparr>customer_invoices := add_row (fo_next s) (new_invoice rnd ic num) (customer_invoices s), fo_next := Suc (fo_next s)\<rparr>)"
    by (auto simp: create_invoice_def split: if_splits)
  have "ci_status (new_invoice rnd ic num) = FDraft" by (simp add: new_invoice_def Let_def)
  with new_invoice_ok [OF assms(2,3), of num] assms(1) new_row_tables(1) [of s] show ?thesis
    by (simp add: s' fops_inv_def all_rows_add_row posted_invoices_add)
qed

lemma create_bill_inv:
  assumes "fops_inv s" and "column_rounding rnd" and "valid_lines (bc_lines bc)" and "create_bill rnd s bc num = Inr (i, s')"
  shows "fops_inv s'"
proof -
  from assms(4) have s': "s' = fo_emit [Audit ''CREATE'' ''SupplierBill'' (fo_next s)]
      (s\<lparr>supplier_bills := add_row (fo_next s) (new_bill rnd bc num) (supplier_bills s), fo_next := Suc (fo_next s)\<rparr>)"
    by (auto simp: create_bill_def split: if_splits)
  have "sb_status (new_bill rnd bc num) = FDraft" by (simp add: new_bill_def Let_def)
  with new_bill_ok [OF assms(2,3), of num] assms(1) new_row_tables(2) [of s] show ?thesis
    by (simp add: s' fops_inv_def all_rows_add_row posted_invoices_add)
qed

lemma create_voucher_inv:
  assumes "fops_inv s" and "column_rounding rnd" and "valid_voucher vc"
  shows "create_receipt_voucher rnd s vc num = Inr (i, s') \<Longrightarrow> fops_inv s'"
    and "create_payment_voucher rnd s vc num = Inr (i, s') \<Longrightarrow> fops_inv s'"
  using assms new_voucher_ok [OF assms(2,3), of num] new_row_tables(3,4) [of s]
  by (auto simp: create_receipt_voucher_def create_payment_voucher_def fops_inv_def all_rows_add_row split: if_splits)

lemma create_bank_inv:
  assumes "fops_inv s" and "create_bank_account s d = Inr (i, s')"
  shows "fops_inv s'"
  using assms new_row_tables(5) [of s] by (auto simp: create_bank_account_def fops_inv_def split: if_splits)

lemma create_category_inv:
  assumes "fops_inv s" and "create_category s c = Inr (i, s')"
  shows "fops_inv s'"
  using assms new_row_tables(6) [of s] by (auto simp: create_category_def fops_inv_def split: if_splits)

lemma create_budget_inv:
  assumes "fops_inv s" and "create_budget rnd s d = Inr (i, s')"
  shows "fops_inv s'"
  using assms new_row_tables(8) [of s]
  by (auto simp: create_budget_def fops_inv_def all_rows_add_row split: if_splits)

lemma create_asset_inv:
  assumes "fops_inv s" and "create_asset rnd s d user now suffix = (res, s')"
  shows "fops_inv s'"
proof -
  have store: "fops_inv t' " if "fops_inv t" "store_asset rnd t d = (res, t')" for t t'
    using that new_row_tables(7) [of t] by (auto simp: store_asset_def fops_inv_def split: if_splits)
  have gl: "fops_inv (s\<lparr>gl := g\<rparr>)"
    if "post_double_entry_journal rnd (gl s) e desc els ref user now suffix = Inr (j, g)" for e desc els ref j g
    using gl_inv [OF assms(1)] post_double_entry_wf [OF _ that] assms(1) by (simp add: fops_inv_def)
  show ?thesis
    using assms by (auto simp: create_asset_def Let_def split: option.splits sum.splits intro: store gl)
qed

lemma posting_tables:
  assumes "fops_tables s"
  shows "fops_tables (s\<lparr>gl := g, customer_invoices := modify i f (customer_invoices s),
      customer_ledger := add_row (fo_next s) e (customer_ledger s), fo_next := Suc (fo_next s)\<rparr>)"
    "fops_tables (s\<lparr>gl := g, supplier_bills := modify i f' (supplier_bills s),
      supplier_ledger := add_row (fo_next s) e (supplier_ledger s), fo_next := Suc (fo_next s)\<rparr>)"
  using next_row_facts [OF assms] fops_tables_add(2,4) [OF assms, of e]
  by (simp_all add: fops_tables_def wf_table_modify)

lemma post_invoice_inv:
  assumes inv: "fops_inv s" and "post_invoice rnd s i user now suffix = Inr s'"
  shows "fops_inv s'"
  using assms(2)
proof (rule post_invoiceD)
  fix r ar j g
  let ?f = "\<lambda>r. r\<lparr>ci_journal_id := Some j, ci_status := FPosted\<rparr>"
  assume r: "get (customer_invoices s) i = Some r" "ci_status r = FDraft"
    and p: "post_double_entry_journal rnd (gl s) (invoice_date r) (''Invoice '' @ invoice_number r)
       (map dict_line (invoice_dicts (gl s) ar r)) (invoice_number r) user now suffix = Inr (j, g)"
    and s': "s' = fo_emit [Audit ''CREATE'' ''CustomerLedgerEntry'' (fo_next s)]
       (s\<lparr>gl := g, customer_invoices := modify i ?f (customer_invoices s),
          customer_ledger := add_row (fo_next s) (invoice_entry (customer_ledger s) r j) (customer_ledger s),
          fo_next := fo_next s + 1\<rparr>)"
  have d: "distinct (keys (customer_invoices s))" using inv by (auto simp: fops_inv_def fops_tables_def wf_table_def)
  have wf: "wf_fin g" using post_double_entry_wf [OF _ p] inv by (simp add: fops_inv_def)
  have "invoice_ok r" using inv r(1) by (auto simp: fops_inv_def dest: all_rows_get)
  then have ok: "all_rows invoice_ok (modify i ?f (customer_invoices s))"
    using inv d r(1) by (intro all_rows_modify) (auto simp: fops_inv_def invoice_ok_def)
  have books: "ledger_books (add_row (fo_next s) (invoice_entry (customer_ledger s) r j) (customer_ledger s))
      (posted_invoices (modify i ?f (customer_invoices s)))"
  proof (rule ledger_books_add)
    show "ledger_books (customer_ledger s) (posted_invoices (customer_invoices s))" using inv by (simp add: fops_inv_def)
  qed (simp_all add: invoice_entry_def entry_amount_def posted_invoices_post [OF d r])
  show ?thesis
    using inv wf ok books posting_tables(1) [of s] by (simp add: s' fops_inv_def)
qed

lemma post_bill_inv:
  assumes inv: "fops_inv s" and "post_bill rnd s i user now suffix = Inr s'"
  shows "fops_inv s'"
  using assms(2)
proof (rule post_billD)
  fix r ap j g
  let ?f = "\<lambda>r. r\<lparr>sb_journal_id := Some j, sb_status := FPosted\<rparr>"
  assume r: "get (supplier_bills s) i = Some r" "sb_status r = FDraft"
    and p: "post_double_entry_journal rnd (gl s) (bill_date r) (''Supplier Bill '' @ bill_number r)
       (map dict_line (bill_dicts (gl s) ap r)) (bill_number r) user now suffix = Inr (j, g)"
    and s': "s' = fo_emit [Audit ''CREATE'' ''SupplierLedgerEntry'' (fo_next s)]
       (s\<lparr>gl := g, supplier_bills := modify i ?f (supplier_bills s),
          supplier_ledger := add_row (fo_next s) (bill_entry (supplier_ledger s) r j) (supplier_ledger s),
          fo_next := fo_next s + 1\<rparr>)"
  have d: "distinct (keys (supplier_bills s))" using inv by (auto simp: fops_inv_def fops_tables_def wf_table_def)
  have wf: "wf_fin g" using post_double_entry_wf [OF _ p] inv by (simp add: fops_inv_def)
  have "bill_ok r" using inv r(1) by (auto simp: fops_inv_def dest: all_rows_get)
  then have ok: "all_rows bill_ok (modify i ?f (supplier_bills s))"
    using inv d r(1) by (intro all_rows_modify) (auto simp: fops_inv_def bill_ok_def)
  have books: "ledger_books (add_row (fo_next s) (bill_entry (supplier_ledger s) r j) (supplier_ledger s))
      (posted_bills (modify i ?f (supplier_bills s)))"
  proof (rule ledger_books_add)
    show "ledger_books (supplier_ledger s) (posted_bills (supplier_bills s))" using inv by (simp add: fops_inv_def)
  qed (simp_all add: bill_entry_def entry_amount_def posted_bills_post [OF d r])
  show ?thesis
    using inv wf ok books posting_tables(2) [of s] by (simp add: s' fops_inv_def)
qed

lemma bank_tables:
  assumes "fops_tables s" and "keys banks = keys (bank_accounts s)"
  shows "fops_tables (s\<lparr>gl := g, bank_accounts := banks\<rparr>)"
  using assms by (simp add: fops_tables_def wf_table_def)

lemma post_voucher_inv:
  assumes inv: "fops_inv s"
  shows "post_receipt_voucher rnd s i user now suffix = Inr (live, s') \<Longrightarrow> fops_inv s'"
    and "post_payment_voucher rnd s i user now suffix = Inr (live, s') \<Longrightarrow> fops_inv s'"
proof -
  have kept: "fops_inv (s\<lparr>gl := g, bank_accounts := banks\<rparr>)"
    if "money_account s r x = Inr (acc, banks)"
      and "post_double_entry_journal rnd (gl s) d desc els ref user now suffix = Inr (j, g)" for r x acc banks d desc els ref j g
    using inv money_account_keys [OF that(1)] post_double_entry_wf [OF _ that(2)] bank_tables [of s]
    by (simp add: fops_inv_def)
  show "post_receipt_voucher rnd s i user now suffix = Inr (live, s') \<Longrightarrow> fops_inv s'"
    by (erule post_receiptD) (simp add: kept)
  show "post_payment_voucher rnd s i user now suffix = Inr (live, s') \<Longrightarrow> fops_inv s'"
    by (erule post_paymentD) (simp add: kept)
qed

lemma match_ok_new_txn:
  assumes ok: "match_ok sls txs" and wf: "wf_table n txs" and t: "\<not> is_reconciled t"
  shows "match_ok sls (add_row n t txs)"
proof -
  have g: "get (add_row n t txs) i = (if i = n then Some t else get txs i)" for i
    using wf_table_get_add_row [OF wf order_refl] .
  have n: "get txs n = None" using wf_table_fresh_get [OF wf order_refl] .
  show ?thesis unfolding match_ok_def
  proof (intro conjI allI impI)
    fix k l
    assume "get sls k = Some l" "is_matched l"
    from match_okD(1) [OF ok this] obtain ti u where u: "matched_transaction_id l = Some ti"
      "get txs ti = Some u" "is_reconciled u" "bt_amount u = sl_amount l" by blast
    with n have "ti \<noteq> n" by auto
    with u g show "\<exists>ti t'. matched_transaction_id l = Some ti \<and> get (add_row n t txs) ti = Some t' \<and>
        is_reconciled t' \<and> bt_amount t' = sl_amount l" by simp
  next
    fix k k' ti
    assume "links sls k ti" "links sls k' ti"
    then show "k = k'" by (rule match_okD(2) [OF ok])
  next
    fix ti u
    assume u: "get (add_row n t txs) ti = Some u" "is_reconciled u"
    with g t have "get txs ti = Some u" by (auto split: if_splits)
    from match_okD(3) [OF ok this u(2)] show "\<exists>k. links sls k ti" .
  qed
qed

lemma record_txn_inv:
  assumes inv: "fops_inv s" and "record_transaction rnd s d = Inr (i, s')"
  shows "fops_inv s'"
proof -
  from assms(2) obtain t f where s': "s' = fo_emit [Audit ''CREATE'' ''BankTransaction'' (fo_next s)]
      (s\<lparr>bank_transactions := add_row (fo_next s) t (bank_transactions s),
         bank_accounts := modify (tc_bank_account_id d) f (bank_accounts s), fo_next := Suc (fo_next s)\<rparr>)"
    and t: "\<not> is_reconciled t"
    by (auto simp: record_transaction_def split: option.splits)
  have "match_ok (statement_lines s) (add_row (fo_next s) t (bank_transactions s))"
    using inv t by (intro match_ok_new_txn) (auto simp: fops_inv_def fops_tables_def)
  moreover have t: "fops_tables s" using inv by (simp add: fops_inv_def)
  have "fops_tables (s\<lparr>bank_transactions := add_row (fo_next s) t (bank_transactions s),
         bank_accounts := modify (tc_bank_account_id d) f (bank_accounts s), fo_next := Suc (fo_next s)\<rparr>)"
    using next_row_facts [OF t] fops_tables_add(8) [OF t] by (simp add: fops_tables_def wf_table_modify)
  ultimately show ?thesis using inv by (simp add: s' fops_inv_def)
qed

lemma get_zip_unmatched:
  assumes "get (t @ zip ks ls) k = Some l" and "\<forall>l\<in>set ls. \<not> is_matched l" and "is_matched l"
  shows "get t k = Some l"
proof (cases "get t k")
  case None
  then have "get (zip ks ls) k = Some l" using assms(1) by (simp add: get_def map_add_def)
  then have "l \<in> set ls" by (auto dest!: get_in_set set_zip_rightD)
  with assms show ?thesis by blast
next
  case (Some m)
  with assms(1) show ?thesis by (simp add: get_def map_add_def)
qed

lemma match_ok_new_lines:
  assumes "match_ok sls txs" and "\<forall>l\<in>set ls. \<not> is_matched l"
  shows "match_ok (sls @ zip ks ls) txs"
proof -
  have same: "get (sls @ zip ks ls) k = Some l \<longleftrightarrow> get sls k = Some l" if "is_matched l" for k l
  proof
    assume "get (sls @ zip ks ls) k = Some l"
    from get_zip_unmatched [OF this assms(2) that] show "get sls k = Some l" .
  next
    assume "get sls k = Some l"
    then show "get (sls @ zip ks ls) k = Some l" by (simp add: get_def map_add_def)
  qed
  then have l: "links (sls @ zip ks ls) k ti = links sls k ti" for k ti unfolding links_def by blast
  show ?thesis unfolding match_ok_def l
  proof (intro conjI allI impI)
    fix k l
    assume "get (sls @ zip ks ls) k = Some l" "is_matched l"
    then have "get sls k = Some l" using same by blast
    then show "\<exists>ti t. matched_transaction_id l = Some ti \<and> get txs ti = Some t \<and>
        is_reconciled t \<and> bt_amount t = sl_amount l" using \<open>is_matched l\<close> by (rule match_okD(1) [OF assms(1)])
  next
    fix k k' ti
    assume "links sls k ti" "links sls k' ti"
    then show "k = k'" by (rule match_okD(2) [OF assms(1)])
  next
    fix ti t
    assume "get txs ti = Some t" "is_reconciled t"
    then show "\<exists>k. links sls k ti" by (rule match_okD(3) [OF assms(1)])
  qed
qed

lemma import_statement_inv:
  assumes inv: "fops_inv s" and "import_statement rnd s d = Inr (i, s')"
  shows "fops_inv s'"
proof -
  let ?n = "length (si_lines d)" and ?i = "fo_next s"
  let ?ls = "map (new_statement_line rnd ?i) (si_lines d)"
  from assms(2) obtain bs where s': "s' = fo_emit [Audit ''CREATE'' ''BankStatement'' ?i]
      (s\<lparr>bank_statements := bs, statement_lines := statement_lines s @ zip [?i + 1..<?i + 1 + ?n] ?ls,
         fo_next := ?i + 1 + ?n\<rparr>)"
    by (auto simp: import_statement_def Let_def split: if_splits)
  have "wf_table (?i + 1 + ?n) (statement_lines s @ zip [?i + 1..<?i + 1 + ?n] ?ls)"
    using inv by (intro wf_table_zip) (auto simp: fops_inv_def fops_tables_def)
  moreover have "match_ok (statement_lines s @ zip [?i + 1..<?i + 1 + ?n] ?ls) (bank_transactions s)"
    using inv by (intro match_ok_new_lines) (auto simp: fops_inv_def new_statement_line_def)
  moreover have t: "fops_tables s" using inv by (simp add: fops_inv_def)
  have "fops_tables (s\<lparr>bank_statements := bs, statement_lines := statement_lines s @ zip [?i + 1..<?i + 1 + ?n] ?ls,
         fo_next := ?i + 1 + ?n\<rparr>)"
    using fops_tables_mono(1-8,10-12) [OF t, of "?i + 1 + ?n"] calculation(1) by (simp add: fops_tables_def del: upt_Suc)
  ultimately show ?thesis using inv by (simp add: s' fops_inv_def del: upt_Suc)
qed

lemma auto_match_inv:
  assumes inv: "fops_inv s" and "perform_auto_matching s bank today = Inr (i, s')"
  shows "fops_inv s'"
proof -
  obtain sls txs items where m: "match_all bank (statement_lines s) (bank_transactions s) = (sls, txs, items)"
    by (metis prod_cases3)
  with assms(2) obtain rs es where s': "s' = fo_emit es
      (s\<lparr>statement_lines := sls, bank_transactions := txs, reconciliations := rs, fo_next := Suc (fo_next s)\<rparr>)"
    by (auto simp: perform_auto_matching_def Let_def split: if_splits)
  have d: "distinct (keys (statement_lines s))" "distinct (keys (bank_transactions s))"
    using inv by (auto simp: fops_inv_def fops_tables_def wf_table_def)
  have "match_ok (statement_lines s) (bank_transactions s)" and t: "fops_tables s" using inv by (simp_all add: fops_inv_def)
  then have "match_ok sls txs" using match_all_ok [OF _ d m] by blast
  moreover have "wf_table (Suc (fo_next s)) sls" "wf_table (Suc (fo_next s)) txs"
    using next_row_facts(8,9) [OF t] match_all_counts(3,4) [OF d m] by (simp_all add: wf_table_def)
  then have "fops_tables (s\<lparr>statement_lines := sls, bank_transactions := txs, reconciliations := rs, fo_next := Suc (fo_next s)\<rparr>)"
    using next_row_facts(1-7,10-12) [OF t] by (simp add: fops_tables_def)
  ultimately show ?thesis using inv by (simp add: s' fops_inv_def)
qed

lemma fops_step_inv:
  assumes "fops_step rnd s s'" and inv: "fops_inv s" and rnd: "column_rounding rnd"
  shows "fops_inv s'"
  using assms(1)
proof cases
  case (ledger g)
  have "wf_fin (gl s)" using inv by (simp add: fops_inv_def)
  from gl_inv [OF inv fin_step_wf [OF ledger(2) this]] show ?thesis by (simp add: ledger(1))
next
  case (parties cs ps)
  with inv show ?thesis by (simp add: fops_inv_def fops_tables_def)
next
  case (create_invoice ic num i)
  with create_invoice_inv [OF inv rnd] show ?thesis by blast
next
  case (create_bill bc num i)
  with create_bill_inv [OF inv rnd] show ?thesis by blast
next
  case (create_receipt vc num i)
  with create_voucher_inv(1) [OF inv rnd] show ?thesis by blast
next
  case (create_payment vc num i)
  with create_voucher_inv(2) [OF inv rnd] show ?thesis by blast
next
  case (schedule i rows)
  then have "s' = s" by (auto simp: generate_schedule_def split: option.splits)
  with inv show ?thesis by simp
next
  case (depreciate i user now suffix live)
  with inv show ?thesis by (simp add: fops_inv_def post_depreciation_def get_def)
next
  case (approve_budget i live)
  with inv show ?thesis by (auto simp: approve_budget_def split: option.splits)
next
  case (close_period i live)
  with inv show ?thesis by (auto simp: close_period_ops_def split: option.splits)
qed (use inv in \<open>auto intro: post_invoice_inv post_bill_inv post_voucher_inv create_bank_inv record_txn_inv
      import_statement_inv auto_match_inv create_category_inv create_asset_inv create_budget_inv\<close>)

lemma fops_reachable_inv: "fops_reachable rnd s \<Longrightarrow> column_rounding rnd \<Longrightarrow> fops_inv s"
  by (induction rule: fops_reachable.induct) (auto intro: fops_init_inv fops_step_inv)

end
