(* ===== verification/FinanceOpsProperties.thy ===== *)
theory FinanceOpsProperties
  imports FinanceOpsSystem
begin

text \<open>
  What finance operations (\<^verbatim>\<open>src/app/services/finance_ops_services.py\<close>) promise and where they fall short of it,
  over the reachable states of \<open>fops_step\<close> and over single calls, each with a concrete run that meets its
  hypotheses.
\<close>

section \<open>A concrete run\<close>

text \<open>A ledger with receivables, sales and cash, a customer, and one invoice of 100.\<close>

definition fo_account :: "string \<Rightarrow> string \<Rightarrow> account" where
  "fo_account c ty =
     \<lparr>account_code = c, acc_name = c, account_type = ty, account_group_id = None, acc_parent_id = None,
      acc_currency_code = ''USD'', is_system = False, is_control = False, acc_is_active = True, opening_balance = 0,
      current_balance = 0, acc_notes = None, acc_is_deleted = False\<rparr>"

definition fo_gl :: fin where
  "fo_gl = \<lparr>accounts = [(10, fo_account ''1200'' ''Asset''), (20, fo_account ''4000'' ''Income''), (30, fo_account ''1010'' ''Asset'')],
     fiscal_years = [], fiscal_periods = [], journal_types = [], journals = [], posting_queue = [], fin_effects = [],
     next_id = 40\<rparr>"

definition fo0 :: fops where
  "fo0 = \<lparr>gl = fo_gl, fo_customers = [(5, ''Acme'')], fo_suppliers = [], customer_invoices = [], customer_ledger = [],
     supplier_bills = [], supplier_ledger = [], receipt_vouchers = [], payment_vouchers = [], bank_accounts = [],
     bank_transactions = [], bank_statements = [], statement_lines = [], reconciliations = [], asset_categories = [],
     fixed_assets = [], depreciation_schedules = [], budgets = [], fo_next = 6\<rparr>"

lemma fo_gl_simps [simp]:
  "accounts fo_gl = [(10, fo_account ''1200'' ''Asset''), (20, fo_account ''4000'' ''Income''), (30, fo_account ''1010'' ''Asset'')]"
  "fiscal_years fo_gl = []" "fiscal_periods fo_gl = []" "journal_types fo_gl = []" "journals fo_gl = []" "next_id fo_gl = 40"
  by (simp_all add: fo_gl_def)

lemma fo0_init: "fops_init fo0"
  by (simp add: fops_init_def fo0_def wf_fin_def wf_table_def keys_def)

lemma fo_gl_lookup [simp]:
  "get_period_for_date fo_gl d = None"
  "account_or_type ''1200'' ''Asset'' fo_gl = Some 10" "account_or_type ''1010'' ''Asset'' fo_gl = Some 30"
  "account_with_code ''2200'' fo_gl = None" "fresh_suffix fo_gl suffix"
  "postable fo_gl 10" "postable fo_gl 20" "postable fo_gl 30"
  "fk (accounts fo_gl) 10" "fk (accounts fo_gl) 20" "fk (accounts fo_gl) 30"
  by (simp_all add: get_period_for_date_def first_where_def account_or_type_def account_with_code_def fo_account_def
      fresh_suffix_def any_journal_type_def exists_where_def postable_def fk_def get_def)

definition fo_line :: "decimal \<Rightarrow> invoice_line_create" where
  "fo_line x = \<lparr>lc_product_id = None, lc_account_id = 20, lc_description = ''work'', lc_quantity = 1, lc_unit_price = x,
     lc_tax_rate_id = None, lc_tax_amount = 0\<rparr>"

definition fo_invoice :: "decimal list \<Rightarrow> invoice_create" where
  "fo_invoice xs = \<lparr>ic_customer_id = 5, ic_sales_order_id = None, ic_invoice_date = Date 2026 1 15,
     ic_due_date = Date 2026 2 15, ic_currency_code = ''USD'', ic_exchange_rate = 1, ic_notes = None,
     ic_lines = map fo_line xs\<rparr>"

definition fo1 :: "decimal list \<Rightarrow> fops" where
  "fo1 xs = fo_emit [Audit ''CREATE'' ''CustomerInvoice'' 6]
     (fo0\<lparr>customer_invoices := [(6, new_invoice round_dp (fo_invoice xs) ''INV-1'')], fo_next := 7\<rparr>)"

lemma fo1_eq: "create_invoice round_dp fo0 (fo_invoice xs) ''INV-1'' = Inr (6, fo1 xs)"
proof -
  have "list_all (\<lambda>l. fk (accounts fo_gl) (lc_account_id l)) (map fo_line xs)"
    by (induction xs) (simp_all add: fo_line_def fk_def get_def)
  then show ?thesis
    by (simp add: create_invoice_def fo1_def fo0_def fo_invoice_def exists_where_def add_row_def fk_def [of "[(5, ''Acme'')]"] get_def)
qed

lemma fo1_reachable:
  assumes "xs \<noteq> []" and "list_all (\<lambda>x. 0 \<le> x) xs"
  shows "fops_reachable round_dp (fo1 xs)"
proof -
  have "valid_lines (ic_lines (fo_invoice xs))"
    using assms by (simp add: fo_invoice_def valid_lines_def fo_line_def valid_line_def list_all_iff Suc_le_eq)
  from fops_step.create_invoice [OF this fo1_eq] have "fops_step round_dp fo0 (fo1 xs)" .
  with fops_reachable.init [OF fo0_init] show ?thesis by (rule fops_reachable.step)
qed

lemma fo1_simps [simp]:
  "gl (fo1 xs) = emit [Audit ''CREATE'' ''CustomerInvoice'' 6] fo_gl"
  "get (customer_invoices (fo1 xs)) 6 = Some (new_invoice round_dp (fo_invoice xs) ''INV-1'')"
  "customer_ledger (fo1 xs) = []" "fo_next (fo1 xs) = 7"
  by (simp_all add: fo1_def fo0_def get_def)

lemma round_100 [simp]: "round_dp 2 100 = 100" "round_dp 2 0 = 0"
  using round_half_even_of_int [of 10000] round_half_even_of_int [of 0] by (simp_all add: round_dp_def)

lemma round_cents [simp]: "round_dp 2 (1 / 10) = 1 / 10" "round_dp 2 (1 / 5) = 1 / 5" "round_dp 2 (3 / 10) = 3 / 10"
  by code_simp+

lemma invoice_100:
  "new_invoice round_dp (fo_invoice [100]) ''INV-1'' =
     \<lparr>invoice_number = ''INV-1'', ci_customer_id = 5, ci_sales_order_id = None, ci_journal_id = None,
      invoice_date = Date 2026 1 15, ci_due_date = Date 2026 2 15, ci_currency_code = ''USD'',
      ci_exchange_rate = round_dp 6 1, ci_subtotal = 100, ci_tax_amount = 0, ci_total_amount = 100, ci_paid_amount = 0,
      ci_outstanding_amount = 100, ci_status = FDraft, ci_notes = None,
      ci_lines = [stored_invoice_line round_dp (fo_line 100)]\<rparr>"
  by (simp add: new_invoice_def fo_invoice_def fo_line_def line_subtotal_def)

lemma dicts_100:
  "invoice_dicts (gl (fo1 [100])) 10 (new_invoice round_dp (fo_invoice [100]) ''INV-1'') =
     [(10, 100, 0, ''AR Invoice INV-1''), (20, 0, 100, ''work'')]"
  by (simp add: invoice_dicts_def invoice_100 stored_invoice_line_def fo_line_def line_subtotal_def)

lemma post_100: "\<exists>s'. post_invoice round_dp (fo1 [100]) 6 (Some 7) 5 ''A'' = Inr s'"
proof -
  let ?r = "new_invoice round_dp (fo_invoice [100]) ''INV-1''"
  have "hundredths 100" by (simp add: hundredths_def)
  then have "\<exists>j g. post_double_entry_journal round_dp (gl (fo1 [100])) (invoice_date ?r) (''Invoice '' @ invoice_number ?r)
      (map dict_line (invoice_dicts (gl (fo1 [100])) 10 ?r)) (invoice_number ?r) (Some 7) 5 ''A'' = Inr (j, g)"
    unfolding dicts_100 by (intro post_double_entry_succeeds two_line_balanced)
      (simp_all add: dict_line_def get_period_for_date_def first_where_def blocked_def fresh_suffix_def any_journal_type_def exists_where_def
        postable_def fk_def get_def fo_account_def)
  then show ?thesis by (auto simp: post_invoice_def invoice_100)
qed

definition fo_sale :: "(uuid \<times> decimal \<times> decimal \<times> string) list" where
  "fo_sale = [(10, 100, 0, ''debtor''), (20, 0, 100, ''sale'')]"

lemma hundredths_100: "hundredths 100"
  by (simp add: hundredths_def)

lemma fo_gl_wf: "wf_fin fo_gl"
  by (simp add: wf_fin_def wf_table_def keys_def)

lemma fo_sale_posts:
  "\<exists>i g. post_double_entry_journal rnd fo_gl (Date 2026 1 15) ''sale'' (map dict_line fo_sale) ''R1'' None 5 ''A'' = Inr (i, g)"
  unfolding fo_sale_def using two_line_balanced [OF _ _ hundredths_100]
  by (intro post_double_entry_succeeds) (simp_all add: blocked_def dict_line_def fk_def get_def)

section \<open>Posting\<close>

text \<open>C11: a journal that the float comparison of \<open>post_double_entry_journal\<close> lets through is balanced in exact
  amounts: for lines in hundredths that sum up to nine million at most, the stored totals and the sums of the
  stored lines are one and the same amount, every account moves by exactly what the lines say, and the accounting
  equation keeps its value.\<close>
theorem auto_posting_balanced:
  assumes "post_double_entry_journal rnd s d desc (map dict_line xs) ref user now suffix = Inr (i, s')"
    and "column_rounding rnd" and "money_lines xs" and "wf_fin s"
  shows "(\<exists>j. get (journals s') i = Some j \<and> j_status j = JPosted \<and> total_debit j = sum_list (dl_debits xs) \<and>
        total_credit j = total_debit j \<and> sum_debit (lines j) = total_debit j \<and> sum_credit (lines j) = total_debit j \<and>
        0 < total_debit j) \<and>
    (\<forall>k. get (accounts s') k = map_option (\<lambda>a. a\<lparr>current_balance := current_balance a +
       (if debit_normal a then dl_net k xs else - dl_net k xs)\<rparr>) (get (accounts s) k)) \<and>
    equation_total s' = equation_total s \<and> \<not> blocked (get_period_for_date s d)"
proof (intro conjI allI)
  show "\<exists>j. get (journals s') i = Some j \<and> j_status j = JPosted \<and> total_debit j = sum_list (dl_debits xs) \<and>
        total_credit j = total_debit j \<and> sum_debit (lines j) = total_debit j \<and> sum_credit (lines j) = total_debit j \<and>
        0 < total_debit j"
    using assms by (rule auto_posting_exact) auto
  show "equation_total s' = equation_total s" using assms by (rule auto_posting_equation)
  show "\<not> blocked (get_period_for_date s d)" using assms(1) by (auto elim: post_double_entryD)
qed (rule auto_posting_accounts [OF assms(1,3)])

lemma auto_posting_balanced_witness:
  "\<exists>i g j. post_double_entry_journal round_dp fo_gl (Date 2026 1 15) ''sale'' (map dict_line fo_sale) ''R1'' None 5 ''A'' = Inr (i, g)
     \<and> get (journals g) i = Some j \<and> total_debit j = 100 \<and> total_credit j = 100 \<and> equation_total g = equation_total fo_gl"
proof -
  obtain i g where p: "post_double_entry_journal round_dp fo_gl (Date 2026 1 15) ''sale'' (map dict_line fo_sale) ''R1'' None 5 ''A'' = Inr (i, g)"
    using fo_sale_posts by blast
  have "money_lines fo_sale" unfolding fo_sale_def by (rule two_lines_money [OF _ _ hundredths_100]) simp_all
  from auto_posting_balanced [OF p column_rounding_exists this fo_gl_wf] p show ?thesis
    by (auto simp: fo_sale_def dl_debits_def)
qed

text \<open>the comparison of float sums refuses some invoices that are balanced: two lines of 0.10 and 0.20 against
  receivables of 0.30 can never be posted, because the floats of the lines add up to 0.30000000000000004.\<close>
theorem float_sums_refuse_balanced:
  "\<exists>s r. fops_reachable round_dp s \<and> get (customer_invoices s) 6 = Some r \<and> ci_status r = FDraft \<and>
     ci_total_amount r = sum_list (map il_subtotal (ci_lines r)) + ci_tax_amount r \<and>
     map il_subtotal (ci_lines r) = [1 / 10, 2 / 10] \<and>
     (\<forall>user now suffix. post_invoice round_dp s 6 user now suffix =
        Inl (ValueErr ''Unbalanced journal entries cannot be posted into General Ledger''))"
proof -
  let ?xs = "[1 / 10, 2 / 10]"
  let ?r = "new_invoice round_dp (fo_invoice ?xs) ''INV-1''"
  have r: "ci_status ?r = FDraft" "ci_total_amount ?r = 3 / 10" "ci_tax_amount ?r = 0"
    "map il_subtotal (ci_lines ?r) = ?xs" "ci_lines ?r = map (stored_invoice_line round_dp) (map fo_line ?xs)"
    by (simp_all add: new_invoice_def Let_def fo_invoice_def fo_line_def line_subtotal_def stored_invoice_line_def)
  have l: "il_account_id (stored_invoice_line round_dp (fo_line x)) = 20"
    "il_subtotal (stored_invoice_line round_dp (fo_line x)) = round_dp 2 x"
    "il_description (stored_invoice_line round_dp (fo_line x)) = ''work''" for x
    by (simp_all add: stored_invoice_line_def fo_line_def line_subtotal_def)
  have d: "map dict_line (invoice_dicts (gl (fo1 ?xs)) 10 ?r)
     = map dict_line [(10, 3 / 10, 0, ''AR Invoice '' @ invoice_number ?r), (20, 0, 1 / 10, ''work''), (20, 0, 2 / 10, ''work'')]"
    unfolding invoice_dicts_def r(2,3,5) by (simp add: l)
  have "\<not> float_balanced (map dict_line (invoice_dicts (gl (fo1 ?xs)) 10 ?r))"
  proof
    assume "float_balanced (map dict_line (invoice_dicts (gl (fo1 ?xs)) 10 ?r))"
    then have eq: "py_decimal (float_sum [fl (3 / 10), fl 0, fl 0]) = py_decimal (float_sum [fl 0, fl (1 / 10), fl (2 / 10)])"
      unfolding d by (simp add: float_balanced_def dict_line_def)
    have "py_decimal (float_sum [fl (3 / 10), fl 0, fl 0]) = 3 / 10"
      by (simp add: float_sum_def fl_idem py_decimal_hundredths hundredths_def)
    with eq have "py_decimal (float_sum [fl 0, fl (1 / 10), fl (2 / 10)]) = 3 / 10" by (rule trans [OF sym])
    from py_decimal_reads [of "float_sum [fl 0, fl (1 / 10), fl (2 / 10)]", unfolded this]
    have "fl (3 / 10) = float_sum [fl 0, fl (1 / 10), fl (2 / 10)] \<or> 3 / 10 = float_sum [fl 0, fl (1 / 10), fl (2 / 10)]" .
    moreover have "fl (3 / 10) \<noteq> float_sum [fl 0, fl (1 / 10), fl (2 / 10)] \<and> 3 / 10 \<noteq> float_sum [fl 0, fl (1 / 10), fl (2 / 10)]"
      by code_simp
    ultimately show False by blast
  qed
  then have "post_double_entry_journal round_dp (gl (fo1 ?xs)) (invoice_date ?r) (''Invoice '' @ invoice_number ?r)
      (map dict_line (invoice_dicts (gl (fo1 ?xs)) 10 ?r)) (invoice_number ?r) user now suffix
      = Inl (ValueErr ''Unbalanced journal entries cannot be posted into General Ledger'')" for user now suffix
    by (intro post_double_entry_unbalanced) (simp_all add: blocked_def)
  then have "post_invoice round_dp (fo1 ?xs) 6 user now suffix =
      Inl (ValueErr ''Unbalanced journal entries cannot be posted into General Ledger'')" for user now suffix
    using r(1) unfolding post_invoice_def by simp
  with fo1_reachable [of ?xs] r show ?thesis by (intro exI [of _ "fo1 ?xs"] exI [of _ ?r]) simp
qed

section \<open>Invoices and party ledgers\<close>

text \<open>posting an invoice turns a draft into a posted invoice with its journal, appends one entry to the ledger of
  the customer, whose running balance is what was posted for the customer before plus this invoice, leaves every
  other invoice as it was, and a second attempt to post it is refused.\<close>
theorem posted_invoice_effect:
  assumes "fops_reachable rnd s" and "column_rounding rnd" and "post_invoice rnd s i user now suffix = Inr s'"
  shows "\<exists>r j e. get (customer_invoices s) i = Some r \<and> ci_status r = FDraft \<and>
    get (customer_invoices s') i = Some (r\<lparr>ci_journal_id := Some j, ci_status := FPosted\<rparr>) \<and>
    (\<forall>k. k \<noteq> i \<longrightarrow> get (customer_invoices s') k = get (customer_invoices s) k) \<and>
    customer_ledger s' = add_row (fo_next s) e (customer_ledger s) \<and>
    pe_party_id e = ci_customer_id r \<and> pe_debit e = ci_total_amount r \<and> pe_credit e = 0 \<and> pe_journal_id e = Some j \<and>
    pe_running_balance e = posted_invoices (customer_invoices s) (ci_customer_id r) + ci_total_amount r \<and>
    get (journals (gl s')) j \<noteq> None \<and>
    (\<forall>user now suffix. post_invoice rnd s' i user now suffix = Inl (ValidationException ''Invoice is already posted''))"
  using assms(3)
proof (rule post_invoiceD)
  fix r ar j g
  assume r: "get (customer_invoices s) i = Some r" "ci_status r = FDraft"
    and p: "post_double_entry_journal rnd (gl s) (invoice_date r) (''Invoice '' @ invoice_number r)
       (map dict_line (invoice_dicts (gl s) ar r)) (invoice_number r) user now suffix = Inr (j, g)"
    and s': "s' = fo_emit [Audit ''CREATE'' ''CustomerLedgerEntry'' (fo_next s)]
       (s\<lparr>gl := g, customer_invoices := modify i (\<lambda>r. r\<lparr>ci_journal_id := Some j, ci_status := FPosted\<rparr>) (customer_invoices s),
          customer_ledger := add_row (fo_next s) (invoice_entry (customer_ledger s) r j) (customer_ledger s),
          fo_next := fo_next s + 1\<rparr>)"
  have books: "ledger_books (customer_ledger s) (posted_invoices (customer_invoices s))"
    using fops_reachable_inv [OF assms(1,2)] by (simp add: fops_inv_def)
  then have run: "previous_balance (customer_ledger s) (ci_customer_id r) = posted_invoices (customer_invoices s) (ci_customer_id r)"
    by (simp add: ledger_books_def previous_balance_sum)
  have j: "get (journals g) j \<noteq> None" using p by (auto simp: get_add_row_eq split: option.splits elim: post_double_entryD)
  show ?thesis
    using r run j
    by (intro exI [of _ r] exI [of _ j] exI [of _ "invoice_entry (customer_ledger s) r j"])
      (simp add: s' table_simps invoice_entry_def post_invoice_def)
qed

lemma posted_invoice_effect_witness:
  "\<exists>s'. post_invoice round_dp (fo1 [100]) 6 (Some 7) 5 ''A'' = Inr s' \<and>
     post_invoice round_dp s' 6 None 6 ''B'' = Inl (ValidationException ''Invoice is already posted'')"
proof -
  obtain s' where p: "post_invoice round_dp (fo1 [100]) 6 (Some 7) 5 ''A'' = Inr s'" using post_100 by blast
  have "fops_reachable round_dp (fo1 [100])" by (rule fo1_reachable) simp_all
  from posted_invoice_effect [OF this column_rounding_exists p] p show ?thesis by blast
qed

lemma open_invoices_sum:
  assumes "all_rows invoice_ok t"
  shows "sum_list (map snd (map (\<lambda>(k, r). (ci_due_date r, ci_outstanding_amount r))
       (filter (\<lambda>(k, r). ci_customer_id r = c \<and> (ci_status r = FPosted \<or> ci_status r = FPartiallyPaid)) t)))
    = posted_invoices t c"
  using assms
proof (induction t)
  case (Cons x t)
  obtain k r where x: "x = (k, r)" by force
  with Cons.prems have "ci_status r = FDraft \<or> ci_status r = FPosted" "ci_outstanding_amount r = ci_total_amount r"
    by (auto simp: all_rows_def invoice_ok_def)
  with Cons x show ?case by (auto simp: posted_invoices_def sum_rows_def all_rows_def)
qed (simp add: posted_invoices_def sum_rows_def)

lemma open_bills_sum:
  assumes "all_rows bill_ok t"
  shows "sum_list (map snd (map (\<lambda>(k, r). (sb_due_date r, sb_outstanding_amount r))
       (filter (\<lambda>(k, r). sb_supplier_id r = p \<and> (sb_status r = FPosted \<or> sb_status r = FPartiallyPaid)) t)))
    = posted_bills t p"
  using assms
proof (induction t)
  case (Cons x t)
  obtain k r where x: "x = (k, r)" by force
  with Cons.prems have "sb_status r = FDraft \<or> sb_status r = FPosted" "sb_outstanding_amount r = sb_total_amount r"
    by (auto simp: all_rows_def bill_ok_def)
  with Cons x show ?case by (auto simp: posted_bills_def sum_rows_def all_rows_def)
qed (simp add: posted_bills_def sum_rows_def)

lemma ledger_sums:
  assumes "fops_reachable rnd s" and "column_rounding rnd"
  shows "running_ok (customer_ledger s)" and "running_ok (supplier_ledger s)"
    and "party_sum (customer_ledger s) c = posted_invoices (customer_invoices s) c"
    and "bucket_sum (ps_aging (get_customer_statement s c today)) = party_sum (customer_ledger s) c"
    and "ab_total_outstanding (ps_aging (get_customer_statement s c today)) = party_sum (customer_ledger s) c"
    and "party_sum (supplier_ledger s) p = posted_bills (supplier_bills s) p"
    and "bucket_sum (ps_aging (get_vendor_statement s p today)) = party_sum (supplier_ledger s) p"
    and "ab_total_outstanding (ps_aging (get_vendor_statement s p today)) = party_sum (supplier_ledger s) p"
proof -
  note inv = fops_reachable_inv [OF assms]
  have b: "ledger_books (customer_ledger s) (posted_invoices (customer_invoices s))"
    "ledger_books (supplier_ledger s) (posted_bills (supplier_bills s))"
    "all_rows invoice_ok (customer_invoices s)" "all_rows bill_ok (supplier_bills s)"
    using inv by (simp_all add: fops_inv_def)
  have e: "bucket_sum empty_bucket = 0" "ab_total_outstanding empty_bucket = 0"
    by (simp_all add: bucket_sum_def empty_bucket_def)
  show "running_ok (customer_ledger s)" "running_ok (supplier_ledger s)"
    "party_sum (customer_ledger s) c = posted_invoices (customer_invoices s) c"
    "party_sum (supplier_ledger s) p = posted_bills (supplier_bills s) p"
    using b(1,2) by (simp_all add: ledger_books_def)
  show "bucket_sum (ps_aging (get_customer_statement s c today)) = party_sum (customer_ledger s) c"
    "ab_total_outstanding (ps_aging (get_customer_statement s c today)) = party_sum (customer_ledger s) c"
    "bucket_sum (ps_aging (get_vendor_statement s p today)) = party_sum (supplier_ledger s) p"
    "ab_total_outstanding (ps_aging (get_vendor_statement s p today)) = party_sum (supplier_ledger s) p"
    using b open_invoices_sum [OF b(3)] open_bills_sum [OF b(4)] e
    by (simp_all add: ledger_books_def get_customer_statement_def get_vendor_statement_def statement_of_def
        open_invoices_def open_bills_def aging_sums)
qed

text \<open>C12: in every reachable state each entry of the customer and of the supplier ledger carries the sum of the
  entries of its party up to it, the entries of a party add up to the totals of its posted documents, and so do the
  aging buckets of its statement.\<close>
theorem party_ledgers_agree:
  assumes "fops_reachable rnd s" and "column_rounding rnd"
  shows "running_ok (customer_ledger s) \<and> running_ok (supplier_ledger s) \<and>
    (\<forall>c today. party_sum (customer_ledger s) c = posted_invoices (customer_invoices s) c \<and>
       bucket_sum (ps_aging (get_customer_statement s c today)) = party_sum (customer_ledger s) c \<and>
       ab_total_outstanding (ps_aging (get_customer_statement s c today)) = party_sum (customer_ledger s) c) \<and>
    (\<forall>p today. party_sum (supplier_ledger s) p = posted_bills (supplier_bills s) p \<and>
       bucket_sum (ps_aging (get_vendor_statement s p today)) = party_sum (supplier_ledger s) p \<and>
       ab_total_outstanding (ps_aging (get_vendor_statement s p today)) = party_sum (supplier_ledger s) p)"
  using ledger_sums [OF assms] by blast

lemma party_ledgers_agree_witness:
  "\<exists>s'. post_invoice round_dp (fo1 [100]) 6 (Some 7) 5 ''A'' = Inr s' \<and> running_ok (customer_ledger s') \<and>
     party_sum (customer_ledger s') 5 = posted_invoices (customer_invoices s') 5"
proof -
  obtain s' where p: "post_invoice round_dp (fo1 [100]) 6 (Some 7) 5 ''A'' = Inr s'" using post_100 by blast
  have "fops_reachable round_dp (fo1 [100])" by (rule fo1_reachable) simp_all
  then have "fops_reachable round_dp s'" using fops_step.post_invoice [OF p] by (rule fops_reachable.step)
  from party_ledgers_agree [OF this column_rounding_exists] p show ?thesis by blast
qed

text \<open>A statement shows the running balance of the entry with the latest date as the amount outstanding. It is
  what the buckets add up to when the documents were posted in the order of their dates.\<close>

theorem statement_agrees_in_order:
  assumes "fops_reachable rnd s" and "column_rounding rnd"
    and "sorted (map pe_posting_date (filter (\<lambda>e. pe_party_id e = c) (map snd (customer_ledger s))))"
  shows "ps_total_outstanding (get_customer_statement s c today) = ab_total_outstanding (ps_aging (get_customer_statement s c today))"
proof -
  let ?es = "filter (\<lambda>e. pe_party_id e = c) (map snd (customer_ledger s))"
  have run: "running_ok (customer_ledger s)" by (rule ledger_sums(1) [OF assms(1,2)])
  have last: "previous_balance t c = (let es = filter (\<lambda>e. pe_party_id e = c) (map snd t) in if es = [] then 0 else pe_running_balance (last es))"
    for t
  proof (induction t rule: rev_induct)
    case (snoc x t)
    obtain k e where x: "x = (k, e)" by force
    show ?case
    proof (cases "pe_party_id e = c")
      case False
      with snoc.IH show ?thesis by (simp add: previous_balance_def first_where_def x)
    qed (simp add: previous_balance_def first_where_def x)
  qed (simp add: previous_balance_def first_where_def)
  have "entries_of (customer_ledger s) c = ?es" using assms(3) by (simp add: entries_of_def sorted_sort_id sort_key_id_if_sorted)
  with last [of "customer_ledger s"] previous_balance_sum [OF run, of c] ledger_sums(5) [OF assms(1,2)] show ?thesis
    by (auto simp: get_customer_statement_def statement_of_def Let_def)
qed

end
