(* ===== verification/CashProperties.thy ===== *)
theory CashProperties
  imports FinanceOpsProperties
begin

text \<open>
  What payments, banking, fixed assets, budgets and statements
  (\<^verbatim>\<open>src/app/services/finance_ops_services.py\<close>) promise and where they fall short of it.
\<close>

section \<open>Vouchers\<close>

definition fo_receipt :: voucher_create where
  "fo_receipt = \<lparr>vc_party_id = Some 5, vc_payment_mode = ''Cash'', vc_bank_account_id = None, vc_cash_account_id = None,
     vc_date = Date 2026 1 20, vc_amount = 100, vc_reference_number = None, vc_notes = None\<rparr>"

definition fo_voucher :: voucher where
  "fo_voucher = new_voucher round_dp fo_receipt ''RV-1''"

definition fo2 :: fops where
  "fo2 = fo_emit [Audit ''CREATE'' ''ReceiptVoucher'' 6] (fo0\<lparr>receipt_vouchers := [(6, fo_voucher)], fo_next := 7\<rparr>)"

lemma fo2_reachable: "fops_reachable round_dp fo2"
proof -
  have "create_receipt_voucher round_dp fo0 fo_receipt ''RV-1'' = Inr (6, fo2)"
    by (simp add: create_receipt_voucher_def fo2_def fo0_def fo_receipt_def fo_voucher_def exists_where_def add_row_def
        fk_def fk_opt_def get_def)
  moreover have "valid_voucher fo_receipt" by (simp add: valid_voucher_def fo_receipt_def)
  ultimately have "fops_step round_dp fo0 fo2" by (intro fops_step.create_receipt)
  with fops_reachable.init [OF fo0_init] show ?thesis by (rule fops_reachable.step)
qed

lemma fo_voucher_simps [simp]:
  "vo_status fo_voucher = FDraft" "vo_amount fo_voucher = 100" "payment_mode fo_voucher = ''Cash''"
  "voucher_number fo_voucher = ''RV-1''" "vo_date fo_voucher = Date 2026 1 20" "vo_party_id fo_voucher = Some 5"
  by (simp_all add: fo_voucher_def new_voucher_def fo_receipt_def)

lemma fo2_simps [simp]:
  "gl fo2 = emit [Audit ''CREATE'' ''ReceiptVoucher'' 6] fo_gl" "get (receipt_vouchers fo2) 6 = Some fo_voucher"
  "bank_accounts fo2 = []" "customer_ledger fo2 = []"
  by (simp_all add: fo2_def fo0_def get_def)

lemma fresh_suffix_emit [simp]: "fresh_suffix (emit es g) suffix = fresh_suffix g suffix"
  by (cases "journal_types g") (auto simp: fresh_suffix_def any_journal_type_def split: prod.splits)

lemma post_fo2: "\<exists>live s'. post_receipt_voucher round_dp fo2 6 None 5 ''A'' = Inr (live, s')"
proof -
  have "\<exists>j g. post_double_entry_journal round_dp (gl fo2) (vo_date fo_voucher) (''Receipt Voucher '' @ voucher_number fo_voucher)
      (map dict_line (receipt_dicts 30 10 fo_voucher)) (voucher_number fo_voucher) None 5 ''A'' = Inr (j, g)"
    unfolding receipt_dicts_def using two_line_balanced [OF _ _ hundredths_100]
    by (intro post_double_entry_succeeds) (simp_all add: blocked_def dict_line_def fk_def get_def)
  then show ?thesis by (auto simp: post_receipt_voucher_def money_account_def Let_def)
qed

text \<open>C13: posting a receipt voucher answers with a posted voucher and stores its journal, but the voucher in the database
  is still a draft without a journal and the ledger of the customer has no entry for it; so the voucher can be
  posted again, under any journal suffix that is free.\<close>
theorem voucher_posted_again:
  assumes "fops_reachable rnd s" and "column_rounding rnd"
    and "post_receipt_voucher rnd s i user now suffix = Inr (live, s')" and "fresh_suffix (gl s') suffix'"
  shows "\<exists>r j. get (receipt_vouchers live) i = Some (posted_voucher j r) \<and> get (journals (gl s')) j \<noteq> None \<and>
    get (receipt_vouchers s') i = Some r \<and> vo_status r = FDraft \<and> vo_journal_id r = None \<and>
    customer_ledger s' = customer_ledger s \<and>
    (\<exists>live' s''. post_receipt_voucher rnd s' i user' now' suffix' = Inr (live', s''))"
proof -
  have inv: "wf_fin (gl s)" "all_rows voucher_ok (receipt_vouchers s)"
    using fops_reachable_inv [OF assms(1,2)] by (simp_all add: fops_inv_def)
  note again = post_receipt_again [OF assms(3) inv(1) assms(4)]
  from assms(3) show ?thesis
  proof (rule post_receiptD)
    fix r acc banks ar j g
    assume r: "get (receipt_vouchers s) i = Some r" "vo_status r = FDraft" "get (receipt_vouchers live) i = Some (posted_voucher j r)"
      and p: "post_double_entry_journal rnd (gl s) (vo_date r) (''Receipt Voucher '' @ voucher_number r)
         (map dict_line (receipt_dicts acc ar r)) (voucher_number r) user now suffix = Inr (j, g)"
      and s': "s' = fo_emit [Publish ''FINANCE_PAYMENT_RECEIVED'' i] (s\<lparr>gl := g, bank_accounts := banks\<rparr>)"
    have "voucher_ok r" using inv(2) r(1) by (rule all_rows_get)
    moreover have "get (journals g) j \<noteq> None" using p by (auto simp: get_add_row_eq split: option.splits elim: post_double_entryD)
    ultimately show ?thesis using r again by (auto simp: s' voucher_ok_def)
  qed
qed

lemma voucher_posted_again_witness:
  "\<exists>live s' live' s''. post_receipt_voucher round_dp fo2 6 None 5 ''A'' = Inr (live, s') \<and>
     post_receipt_voucher round_dp s' 6 None 6 ''B'' = Inr (live', s'') \<and> customer_ledger s' = []"
proof -
  obtain live s' where p: "post_receipt_voucher round_dp fo2 6 None 5 ''A'' = Inr (live, s')" using post_fo2 by blast
  from p have "fresh_suffix (gl s') ''B''"
  proof (rule post_receiptD)
    fix r acc banks ar j g
    assume q: "post_double_entry_journal round_dp (gl fo2) (vo_date r) (''Receipt Voucher '' @ voucher_number r)
         (map dict_line (receipt_dicts acc ar r)) (voucher_number r) None 5 ''A'' = Inr (j, g)"
      and s': "s' = fo_emit [Publish ''FINANCE_PAYMENT_RECEIVED'' 6] (fo2\<lparr>gl := g, bank_accounts := banks\<rparr>)"
    have "fresh_suffix g ''B''" using q by (rule fresh_suffix_after) simp_all
    then show ?thesis by (simp add: s')
  qed
  from voucher_posted_again [OF fo2_reachable column_rounding_exists p this, of None 6] p show ?thesis by auto
qed


text \<open>what the services change without committing is never in the database: in every reachable state all vouchers
  and all budgets are drafts, there is no depreciation schedule, and so no depreciation can ever be posted.\<close>
theorem uncommitted_work_is_lost:
  assumes "fops_reachable rnd s" and "column_rounding rnd"
  shows "(\<forall>i r. get (receipt_vouchers s) i = Some r \<or> get (payment_vouchers s) i = Some r \<longrightarrow>
      vo_status r = FDraft \<and> vo_journal_id r = None) \<and>
    (\<forall>i b. get (budgets s) i = Some b \<longrightarrow> bu_status b = ''Draft'') \<and>
    (\<forall>i user now suffix. post_depreciation rnd s i user now suffix =
       Inl (NotFoundException ''Depreciation schedule item not found'')) \<and>
    (\<forall>i rows s'. generate_schedule s i = (rows, s') \<longrightarrow> s' = s)"
proof -
  have inv: "all_rows voucher_ok (receipt_vouchers s)" "all_rows voucher_ok (payment_vouchers s)"
    "depreciation_schedules s = []" "all_rows (\<lambda>b. bu_status b = ''Draft'') (budgets s)"
    using fops_reachable_inv [OF assms] by (simp_all add: fops_inv_def)
  have "vo_status r = FDraft \<and> vo_journal_id r = None"
    if "get (receipt_vouchers s) i = Some r \<or> get (payment_vouchers s) i = Some r" for i r
    using that all_rows_get [OF inv(1)] all_rows_get [OF inv(2)] by (auto simp: voucher_ok_def)
  moreover have "bu_status b = ''Draft''" if "get (budgets s) i = Some b" for i b
    using inv(4) that by (rule all_rows_get)
  moreover have "post_depreciation rnd s i user now suffix = Inl (NotFoundException ''Depreciation schedule item not found'')"
    for i user now suffix
    by (simp add: post_depreciation_def inv(3) get_def)
  moreover have "s' = s" if "generate_schedule s i = (rows, s')" for i rows s'
    using that by (auto simp: generate_schedule_def split: option.splits)
  ultimately show ?thesis by blast
qed

lemma uncommitted_work_is_lost_witness:
  "\<exists>live s'. post_receipt_voucher round_dp fo2 6 None 5 ''A'' = Inr (live, s') \<and>
     post_depreciation round_dp s' 7 None 6 ''B'' = Inl (NotFoundException ''Depreciation schedule item not found'')"
proof -
  obtain live s' where p: "post_receipt_voucher round_dp fo2 6 None 5 ''A'' = Inr (live, s')" using post_fo2 by blast
  then have "fops_reachable round_dp s'"
    using fops_reachable.step [OF fo2_reachable fops_step.post_receipt] by blast
  from uncommitted_work_is_lost [OF this column_rounding_exists] p show ?thesis by blast
qed

section \<open>Bank reconciliation\<close>

text \<open>automatic matching is as large as it can be: for every amount either all open statement lines or all open
  transactions of the bank are used up; afterwards matched lines and reconciled transactions are paired one to
  one and with equal amounts, and the reconciliation always reports no difference.\<close>
theorem auto_matching_largest:
  assumes "fops_reachable rnd s" and "column_rounding rnd" and "perform_auto_matching s bank today = Inr (i, s')"
  shows "(\<forall>x. open_lines x (statement_lines s') =
        open_lines x (statement_lines s) - min (open_lines x (statement_lines s)) (open_txns bank x (bank_transactions s)) \<and>
      open_txns bank x (bank_transactions s') =
        open_txns bank x (bank_transactions s) - min (open_lines x (statement_lines s)) (open_txns bank x (bank_transactions s))) \<and>
    match_ok (statement_lines s') (bank_transactions s') \<and>
    (\<exists>r. reconciliations s' = add_row i r (reconciliations s) \<and> statement_balance r = gl_balance r \<and>
       unreconciled_amount r = 0 \<and> br_status r = ''Completed'')"
proof -
  obtain sls txs items where m: "match_all bank (statement_lines s) (bank_transactions s) = (sls, txs, items)"
    by (metis prod_cases3)
  have inv: "match_ok (statement_lines s) (bank_transactions s)"
    "distinct (keys (statement_lines s))" "distinct (keys (bank_transactions s))"
    using fops_reachable_inv [OF assms(1,2)] by (auto simp: fops_inv_def fops_tables_def wf_table_def)
  have s': "statement_lines s' = sls" "bank_transactions s' = txs"
    and r: "\<exists>r. reconciliations s' = add_row i r (reconciliations s) \<and> statement_balance r = gl_balance r \<and>
       unreconciled_amount r = 0 \<and> br_status r = ''Completed''"
    using assms(3) m by (auto simp: perform_auto_matching_def Let_def split: if_splits)
  from match_all_counts(1,2) [OF inv(2,3) m] match_all_ok [OF inv m] r show ?thesis unfolding s' by blast
qed

text \<open>A bank account, one deposit of 100 and a statement with lines of 100 and 40.\<close>

definition fo_bank :: bank_account_create where
  "fo_bank = \<lparr>bn_account_name = ''Main'', bn_account_number = ''B-1'', bn_bank_name = ''Bank'', bn_branch_name = None,
     bn_swift_code = None, bn_iban = None, bn_currency_code = ''USD'', bn_gl_account_id = 30\<rparr>"

definition fo_deposit :: bank_transaction_create where
  "fo_deposit = \<lparr>tc_bank_account_id = 6, tc_transaction_date = Date 2026 1 20, tc_transaction_type = ''Deposit'',
     tc_amount = 100, tc_reference_number = None, tc_payee_or_payer = None, tc_description = None\<rparr>"

definition fo_stmt_line :: "decimal \<Rightarrow> statement_line_create" where
  "fo_stmt_line x = \<lparr>sc_transaction_date = Date 2026 1 21, sc_amount = x, sc_reference_number = None, sc_description = None\<rparr>"

definition fo_stmt :: statement_create where
  "fo_stmt = \<lparr>si_bank_account_id = 6, si_statement_number = ''S-1'', si_start_date = Date 2026 1 1,
     si_end_date = Date 2026 1 31, si_opening_balance = 0, si_closing_balance = 100,
     si_lines = [fo_stmt_line 100, fo_stmt_line 40]\<rparr>"

lemma round_40 [simp]: "round_dp 2 40 = 40"
  using round_half_even_of_int [of 4000] by (simp add: round_dp_def)

lemma fo_bank_run:
  "\<exists>s. fops_reachable round_dp s \<and> fk (bank_accounts s) 6 \<and>
     open_lines 100 (statement_lines s) = 1 \<and> open_lines 40 (statement_lines s) = 1 \<and>
     open_txns 6 100 (bank_transactions s) = 1 \<and> open_txns 6 40 (bank_transactions s) = 0"
proof -
  obtain s1 where s1: "create_bank_account fo0 fo_bank = Inr (6, s1)" "keys (bank_accounts s1) = [6]" "fo_next s1 = 7"
    "bank_transactions s1 = []" "statement_lines s1 = []"
    by (simp add: create_bank_account_def fo0_def fo_bank_def exists_where_def fk_def get_def add_row_def keys_def)
  from s1(2) have fk1: "get (bank_accounts s1) 6 \<noteq> None" by (simp add: get_None_iff)
  then obtain s2 where s2: "record_transaction round_dp s1 fo_deposit = Inr (7, s2)" "keys (bank_accounts s2) = [6]" "fo_next s2 = 8"
    "bank_transactions s2 = [(7, \<lparr>bt_bank_account_id = 6, bt_transaction_date = Date 2026 1 20, transaction_type = ''Deposit'',
       bt_amount = 100, bt_reference_number = None, payee_or_payer = None, bt_description = None, is_reconciled = False\<rparr>)]"
    "statement_lines s2 = []"
    using s1 by (auto simp: record_transaction_def fo_deposit_def add_row_def table_simps)
  from s2(2) have fk2: "fk (bank_accounts s2) 6" by (simp add: fk_def get_None_iff)
  have u: "[Suc 8..<Suc (Suc (Suc 8))] = [9, 10]" by (simp add: upt_rec)
  from fk2 obtain s3 where s3: "import_statement round_dp s2 fo_stmt = Inr (8, s3)" "bank_accounts s3 = bank_accounts s2"
    "bank_transactions s3 = bank_transactions s2"
    "statement_lines s3 = [(9, new_statement_line round_dp 8 (fo_stmt_line 100)), (10, new_statement_line round_dp 8 (fo_stmt_line 40))]"
    using s2 by (auto simp: import_statement_def fo_stmt_def Let_def u)
  have "fops_reachable round_dp s3"
    using fops_reachable.step [OF fops_reachable.step [OF fops_reachable.step [OF fops_reachable.init [OF fo0_init]
      fops_step.create_bank [OF s1(1)]] fops_step.record_txn [OF s2(1)]] fops_step.import_statement [OF s3(1)]] .
  then show ?thesis
    using fk2 s2(4) s3(2-4)
    by (intro exI [of _ s3]) (simp add: open_lines_def open_txns_def candidate_def new_statement_line_def fo_stmt_line_def)
qed

lemma auto_matching_largest_witness:
  "\<exists>s i s'. perform_auto_matching s 6 (Date 2026 1 31) = Inr (i, s') \<and> open_lines 100 (statement_lines s') = 0 \<and>
     open_lines 40 (statement_lines s') = 1 \<and> open_txns 6 100 (bank_transactions s') = 0"
proof -
  obtain s where s: "fops_reachable round_dp s" "fk (bank_accounts s) 6"
    "open_lines 100 (statement_lines s) = 1" "open_lines 40 (statement_lines s) = 1"
    "open_txns 6 100 (bank_transactions s) = 1" "open_txns 6 40 (bank_transactions s) = 0"
    using fo_bank_run by blast
  obtain sls txs items where "match_all 6 (statement_lines s) (bank_transactions s) = (sls, txs, items)"
    by (metis prod_cases3)
  with s(2) obtain i s' where p: "perform_auto_matching s 6 (Date 2026 1 31) = Inr (i, s')"
    by (simp add: perform_auto_matching_def Let_def)
  from auto_matching_largest [OF s(1) column_rounding_exists p] s(3-6)
  have "open_lines 100 (statement_lines s') = 0 \<and> open_lines 40 (statement_lines s') = 1 \<and> open_txns 6 100 (bank_transactions s') = 0"
    by simp
  with p show ?thesis by blast
qed

section \<open>Depreciation schedules\<close>






text \<open>The rest that the last month takes can be negative: 0.36 over five years is 0.006 a month, stored as 0.01, so that
  after 59 months 0.59 have been written off and the last row adds 0.23 back.\<close>

theorem last_depreciation_negative:
  "rows = schedule_rows i (36 / 100) (round_dp 2 (36 / 100 / 60)) 60 ds 1 0 cost \<Longrightarrow> length ds = 60 \<Longrightarrow>
   depreciation_amount (last rows) = - (23 / 100)"
proof -
  assume rows: "rows = schedule_rows i (36 / 100) (round_dp 2 (36 / 100 / 60)) 60 ds 1 0 cost" and l: "length ds = 60"
  have "round_dp 2 (36 / 100 / 60) = 1 / 100" by code_simp
  moreover have "ds \<noteq> []" using l by auto
  ultimately show ?thesis
    using schedule_rows_last [of ds 1 60 i "36 / 100" "round_dp 2 (36 / 100 / 60)" 0 cost] l by (simp add: Let_def rows)
qed

section \<open>Assets\<close>

text \<open>The purchase of an asset is posted and committed before the asset is stored: when its code is taken, the call
  fails and leaves the journal.\<close>

theorem failed_asset_keeps_journal:
  assumes "create_asset rnd s d user now suffix = (Inl (IntegrityErr ''fixed_assets.asset_code''), s')" and "s' \<noteq> s"
  shows "fixed_assets s' = fixed_assets s \<and>
    (\<exists>j desc els. post_double_entry_journal rnd (gl s) (fc_acquisition_date d) desc els (fc_asset_code d) user now suffix
       = Inr (j, gl s'))"
  using assms by (auto simp: create_asset_def store_asset_def Let_def split: option.splits sum.splits if_splits) blast+

section \<open>Statements\<close>

text \<open>for a chart with the five account types, the trial balance of the statements balances exactly when the accounting
  equation holds, and so does the identity that assets less liabilities and equity are revenue less expenses. Then
  the reported column totals are equal, the reported profit is what the balance sheet is short of, and the balance
  sheet, which leaves the profit out, balances only when there is none.\<close>
theorem statements_state_equation:
  assumes "known_types g"
  shows "(equation_total g = 0 \<longleftrightarrow>
      sum_rows (\<lambda>a. fst (side_balances a)) (accounts g) = sum_rows (\<lambda>a. snd (side_balances a)) (accounts g)) \<and>
    (equation_total g = 0 \<longleftrightarrow>
      total_of_type ''Asset'' g - (total_of_type ''Liability'' g + total_of_type ''Equity'' g)
        = total_of_type ''Income'' g - total_of_type ''Expense'' g) \<and>
    (equation_total g = 0 \<longrightarrow>
      tr_total_debit (generate_trial_balance g d) = tr_total_credit (generate_trial_balance g d) \<and>
      pl_net_profit (generate_profit_and_loss g d e)
        = fl (total_of_type ''Asset'' g - (total_of_type ''Liability'' g + total_of_type ''Equity'' g)) \<and>
      (total_of_type ''Asset'' g = total_of_type ''Liability'' g + total_of_type ''Equity'' g \<longleftrightarrow>
        total_of_type ''Income'' g = total_of_type ''Expense'' g))"
proof -
  note d = statement_difference [OF assms] and t = type_totals_difference [OF assms]
  have columns: "equation_total g = 0 \<longleftrightarrow>
      sum_rows (\<lambda>a. fst (side_balances a)) (accounts g) = sum_rows (\<lambda>a. snd (side_balances a)) (accounts g)"
    unfolding d [symmetric] by simp
  have profit: "equation_total g = 0 \<longleftrightarrow>
      total_of_type ''Asset'' g - (total_of_type ''Liability'' g + total_of_type ''Equity'' g)
        = total_of_type ''Income'' g - total_of_type ''Expense'' g"
    using t by linarith
  have "tr_total_debit (generate_trial_balance g d) = tr_total_credit (generate_trial_balance g d) \<and>
      pl_net_profit (generate_profit_and_loss g d e)
        = fl (total_of_type ''Asset'' g - (total_of_type ''Liability'' g + total_of_type ''Equity'' g)) \<and>
      (total_of_type ''Asset'' g = total_of_type ''Liability'' g + total_of_type ''Equity'' g \<longleftrightarrow>
        total_of_type ''Income'' g = total_of_type ''Expense'' g)"
    if z: "equation_total g = 0"
  proof (intro conjI)
    show "tr_total_debit (generate_trial_balance g d) = tr_total_credit (generate_trial_balance g d)"
      using columns z by (simp add: generate_trial_balance_def)
    show "pl_net_profit (generate_profit_and_loss g d e)
        = fl (total_of_type ''Asset'' g - (total_of_type ''Liability'' g + total_of_type ''Equity'' g))"
      using profit z by (simp add: generate_profit_and_loss_def Let_def)
    show "total_of_type ''Asset'' g = total_of_type ''Liability'' g + total_of_type ''Equity'' g \<longleftrightarrow>
        total_of_type ''Income'' g = total_of_type ''Expense'' g"
      using profit z by linarith
  qed
  with columns profit show ?thesis by blast
qed

definition fo_sold :: fin where
  "fo_sold = fo_gl\<lparr>accounts := [(10, (fo_account ''1200'' ''Asset'')\<lparr>current_balance := 100\<rparr>),
     (20, (fo_account ''4000'' ''Income'')\<lparr>current_balance := 100\<rparr>)]\<rparr>"

lemma statements_state_equation_witness:
  "tr_total_debit (generate_trial_balance fo_sold (Date 2026 1 31)) = tr_total_credit (generate_trial_balance fo_sold (Date 2026 1 31)) \<and>
     total_of_type ''Asset'' fo_sold \<noteq> total_of_type ''Liability'' fo_sold + total_of_type ''Equity'' fo_sold"
proof -
  have k: "known_types fo_sold" by (simp add: known_types_def all_rows_def fo_sold_def fo_account_def)
  have t: "total_of_type ''Income'' fo_sold = 100" "total_of_type ''Expense'' fo_sold = 0"
    "total_of_type ''Asset'' fo_sold = 100" "total_of_type ''Liability'' fo_sold = 0" "total_of_type ''Equity'' fo_sold = 0"
    by (simp_all add: total_of_type_def sum_rows_def fo_sold_def fo_account_def)
  from statements_state_equation [OF k, of "Date 2026 1 31" "Date 2026 1 31"] t show ?thesis by simp
qed

end
