(* ===== verification/StockModel.thy ===== *)
theory StockModel
  imports ErpPrelude
begin

text \<open>
  The data of the inventory engine: product, warehouse, storage location and policy masters,
  batches, serial numbers, the stock balances, the immutable stock ledger, opening stocks and
  inventory adjustments (\<^verbatim>\<open>src/app/models/\<close>), with the queries of
  \<^verbatim>\<open>src/app/repositories/stock_engine_repos.py\<close>. The fields of \<open>stk\<close> are the tables.

  Quantities are \<open>Numeric(18, 4)\<close> columns, here exact rationals; a batch quantity passes
  through a \<open>float\<close>, which is exact up to fifteen significant digits.
\<close>

section \<open>Rows\<close>

record product =
  sku :: string
  base_unit_id :: uuid
  p_is_active :: bool
  is_stockable :: bool
  track_inventory :: bool
  allow_negative_stock :: bool
  tracking_type :: string
  p_status :: string

definition is_batch_tracked :: "product \<Rightarrow> bool" where
  "is_batch_tracked p = (py_upper (tracking_type p) = ''BATCH'')"

definition is_serial_tracked :: "product \<Rightarrow> bool" where
  "is_serial_tracked p = (py_upper (tracking_type p) = ''SERIAL'')"

record warehouse =
  wh_code :: string
  wh_is_active :: bool

record location =
  loc_warehouse_id :: uuid
  loc_is_active :: bool

record policy =
  pol_warehouse_id :: "uuid option"
  negative_stock_allowed :: bool
  pol_is_active :: bool

record batch =
  batch_number :: string
  b_product_id :: uuid
  expiry_date :: "timestamp option"
  current_quantity :: decimal
  b_status :: string

record sn_event =
  ev_event :: string
  ev_movement_type :: string
  ev_warehouse_id :: uuid
  ev_location_id :: "uuid option"
  ev_timestamp :: timestamp

record serial =
  serial_number :: string
  sn_product_id :: uuid
  sn_warehouse_id :: "uuid option"
  sn_location_id :: "uuid option"
  sn_batch_id :: "uuid option"
  sn_status :: string
  sn_history :: "sn_event list"

record balance =
  bal_product_id :: uuid
  bal_warehouse_id :: uuid
  bal_location_id :: "uuid option"
  available_quantity :: decimal
  reserved_quantity :: decimal
  damaged_quantity :: decimal
  in_transit_quantity :: decimal
  last_calculated :: timestamp

datatype direction = DirIn | DirOut

record ledger_row =
  l_product_id :: uuid
  l_warehouse_id :: uuid
  l_location_id :: "uuid option"
  l_batch_id :: "uuid option"
  l_movement_type :: string
  l_direction :: direction
  l_quantity :: decimal
  quantity_before :: decimal
  quantity_after :: decimal
  running_balance :: decimal
  transaction_type_id :: "uuid option"
  l_unit_id :: uuid
  l_reference_type :: "string option"
  l_reference_id :: "uuid option"
  idempotency_key :: "string option"
  l_reason :: "string option"
  l_notes :: "string option"
  l_remarks :: "string option"
  l_serial_numbers :: "string list"
  transaction_date :: timestamp
  l_created_by :: "uuid option"
  l_created_at :: timestamp

record opening_stock =
  op_product_id :: uuid
  op_warehouse_id :: uuid
  op_location_id :: "uuid option"
  op_quantity :: decimal
  op_reference :: string
  op_created_by :: "uuid option"
  op_approved_by :: "uuid option"

datatype adjustment_status = AdjDraft | AdjApproved | AdjApplied

record adjustment_row =
  adj_product_id :: uuid
  adj_warehouse_id :: uuid
  adj_location_id :: "uuid option"
  adjustment_type :: string
  adj_reason :: string
  expected_quantity :: decimal
  actual_quantity :: decimal
  difference :: decimal
  adj_status :: adjustment_status
  adj_created_by :: "uuid option"
  adj_approved_by :: "uuid option"
  adj_approved_at :: "timestamp option"

record stk =
  products :: "product table"
  warehouses :: "warehouse table"
  locations :: "location table"
  policies :: "policy table"
  type_codes :: "string table"
  batches :: "batch table"
  serials :: "serial table"
  balances :: "balance table"
  ledger :: "ledger_row table"
  openings :: "opening_stock table"
  adjustments :: "adjustment_row table"
  stk_effects :: "effect list"
  stk_next :: uuid

definition stk_emit :: "effect list \<Rightarrow> stk \<Rightarrow> stk" where
  "stk_emit es s = s\<lparr>stk_effects := stk_effects s @ es\<rparr>"

lemma stk_emit_fields [simp]:
  "products (stk_emit es s) = products s" "warehouses (stk_emit es s) = warehouses s"
  "locations (stk_emit es s) = locations s" "policies (stk_emit es s) = policies s"
  "type_codes (stk_emit es s) = type_codes s" "batches (stk_emit es s) = batches s"
  "serials (stk_emit es s) = serials s" "balances (stk_emit es s) = balances s"
  "ledger (stk_emit es s) = ledger s" "openings (stk_emit es s) = openings s"
  "adjustments (stk_emit es s) = adjustments s" "stk_next (stk_emit es s) = stk_next s"
  by (simp_all add: stk_emit_def)

section \<open>The grain of stock: product, warehouse, location\<close>

type_synonym stock_key = "uuid \<times> uuid \<times> uuid option"

definition bal_key :: "balance \<Rightarrow> stock_key" where
  "bal_key b = (bal_product_id b, bal_warehouse_id b, bal_location_id b)"

definition l_key :: "ledger_row \<Rightarrow> stock_key" where
  "l_key e = (l_product_id e, l_warehouse_id e, l_location_id e)"

text \<open>\<open>get_by_keys\<close>: the first row of the key; a missing location is \<open>IS NULL\<close>.\<close>

definition get_by_keys :: "stk \<Rightarrow> stock_key \<Rightarrow> (uuid \<times> balance) option" where
  "get_by_keys s k = first_where (\<lambda>b. bal_key b = k) (balances s)"

definition new_balance :: "stock_key \<Rightarrow> timestamp \<Rightarrow> balance" where
  "new_balance k now = (case k of (p, w, l) \<Rightarrow>
     \<lparr>bal_product_id = p, bal_warehouse_id = w, bal_location_id = l, available_quantity = 0,
      reserved_quantity = 0, damaged_quantity = 0, in_transit_quantity = 0, last_calculated = now\<rparr>)"

definition get_or_create_for_update :: "stk \<Rightarrow> stock_key \<Rightarrow> timestamp \<Rightarrow> (uuid \<times> balance) \<times> stk" where
  "get_or_create_for_update s k now =
     (case get_by_keys s k of
        Some ib \<Rightarrow> (ib, s)
      | None \<Rightarrow> let b = new_balance k now
          in ((stk_next s, b), s\<lparr>balances := add_row (stk_next s) b (balances s), stk_next := stk_next s + 1\<rparr>))"

definition upsert_balance ::
  "stk \<Rightarrow> stock_key \<Rightarrow> decimal \<Rightarrow> decimal \<Rightarrow> decimal \<Rightarrow> decimal \<Rightarrow> timestamp \<Rightarrow> stk" where
  "upsert_balance s k avail res dam transit now =
     (case get_by_keys s k of
        Some (i, b) \<Rightarrow> s\<lparr>balances := modify i (\<lambda>b. b\<lparr>available_quantity := avail, reserved_quantity := res,
            damaged_quantity := dam, in_transit_quantity := transit, last_calculated := now\<rparr>) (balances s)\<rparr>
      | None \<Rightarrow> s\<lparr>balances := add_row (stk_next s) ((new_balance k now)\<lparr>available_quantity := avail,
            reserved_quantity := res, damaged_quantity := dam, in_transit_quantity := transit\<rparr>) (balances s),
          stk_next := stk_next s + 1\<rparr>)"

definition find_by_idempotency_key :: "stk \<Rightarrow> string \<Rightarrow> (uuid \<times> ledger_row) option" where
  "find_by_idempotency_key s key = first_where (\<lambda>e. idempotency_key e = Some key) (ledger s)"

text \<open>The column \<open>idempotency_key\<close> is unique where it is not null.\<close>

definition insert_ledger :: "ledger_row \<Rightarrow> stk \<Rightarrow> (uuid \<times> stk) result" where
  "insert_ledger e s =
     (if idempotency_key e \<noteq> None \<and> exists_where (\<lambda>x. idempotency_key x = idempotency_key e) (ledger s)
        then Inl (IntegrityErr ''stock_ledgers.idempotency_key'')
      else Inr (stk_next s, s\<lparr>ledger := add_row (stk_next s) e (ledger s), stk_next := stk_next s + 1\<rparr>))"

text \<open>\<open>signed\<close> is what a ledger row adds to the stock of its key.\<close>

definition signed :: "direction \<Rightarrow> decimal \<Rightarrow> decimal" where
  "signed d q = (case d of DirIn \<Rightarrow> q | DirOut \<Rightarrow> - q)"

text \<open>Without a location the query sums over every location of the warehouse.\<close>

definition calculate_derived_balance_from_history :: "stk \<Rightarrow> stock_key \<Rightarrow> decimal" where
  "calculate_derived_balance_from_history s = (\<lambda>(p, w, l).
     sum_rows (\<lambda>e. if l_product_id e = p \<and> l_warehouse_id e = w \<and> (l = None \<or> l_location_id e = l)
       then signed (l_direction e) (l_quantity e) else 0) (ledger s))"

text \<open>The code of a transaction type is compared without case.\<close>

definition type_by_code :: "stk \<Rightarrow> string \<Rightarrow> uuid option" where
  "type_by_code s c = map_option fst (first_where (\<lambda>x. py_upper x = py_upper c) (type_codes s))"

section \<open>Stock of a key\<close>

definition stock_of :: "stk \<Rightarrow> stock_key \<Rightarrow> decimal" where
  "stock_of s k = (case get_by_keys s k of None \<Rightarrow> 0 | Some (i, b) \<Rightarrow> available_quantity b)"

definition ledger_stock :: "stk \<Rightarrow> stock_key \<Rightarrow> decimal" where
  "ledger_stock s k = sum_rows (\<lambda>e. if l_key e = k then signed (l_direction e) (l_quantity e) else 0) (ledger s)"

section \<open>Well-formed states\<close>

definition wf_stk :: "stk \<Rightarrow> bool" where
  "wf_stk s =
     (wf_table (stk_next s) (balances s) \<and> wf_table (stk_next s) (ledger s) \<and>
      wf_table (stk_next s) (serials s) \<and> wf_table (stk_next s) (batches s) \<and>
      unique_on bal_key (balances s) \<and> unique_on serial_number (serials s))"

end
