(* ===== verification/StockMovement.thy ===== *)
theory StockMovement
  imports StockModel
begin

text \<open>
  \<open>StockMovementService\<close> (\<^verbatim>\<open>src/app/services/stock_engine_services.py\<close>): one movement of
  stock, checked, applied to batch, serial numbers and balance, and written to the ledger.
  \<open>process_movement\<close> is cut along the numbered steps of the method.

  The lemmas state what each step changes, that a movement moves the stock of exactly one key by
  its signed quantity and records the balances around it, and what it does to batches and serials.
\<close>

section \<open>The request\<close>

record movement =
  m_product_id :: uuid
  m_warehouse_id :: uuid
  m_location_id :: "uuid option"
  m_movement_type :: string
  m_direction :: "string option"
  m_quantity :: decimal
  m_idempotency_key :: "string option"
  m_reference_type :: "string option"
  m_reference_id :: "uuid option"
  m_batch_id :: "uuid option"
  m_serial_numbers :: "string list"
  m_reason :: "string option"
  m_notes :: "string option"

definition m_key :: "movement \<Rightarrow> stock_key" where
  "m_key m = (m_product_id m, m_warehouse_id m, m_location_id m)"

text \<open>Python's \<open>or\<close> on optional strings: an empty one counts as missing.\<close>

definition truthy :: "string option \<Rightarrow> bool" where
  "truthy x = (case x of None \<Rightarrow> False | Some v \<Rightarrow> v \<noteq> '''')"

definition py_or :: "string option \<Rightarrow> string option \<Rightarrow> string option" where
  "py_or x y = (if truthy x then x else y)"

section \<open>The steps\<close>

definition resolve_negative_stock_policy :: "stk \<Rightarrow> uuid \<Rightarrow> product \<Rightarrow> bool" where
  "resolve_negative_stock_policy s w p =
     (case first_where (\<lambda>q. pol_warehouse_id q = Some w \<and> pol_is_active q) (rev (policies s)) of
        Some (_, q) \<Rightarrow> negative_stock_allowed q
      | None \<Rightarrow>
        (case first_where (\<lambda>q. pol_warehouse_id q = None \<and> pol_is_active q) (rev (policies s)) of
           Some (_, q) \<Rightarrow> negative_stock_allowed q
         | None \<Rightarrow> allow_negative_stock p))"

definition validate_product :: "stk \<Rightarrow> uuid \<Rightarrow> product result" where
  "validate_product s i =
     (case get (products s) i of
        None \<Rightarrow> Inl (NotFoundException ''Product'')
      | Some p \<Rightarrow>
        if \<not> p_is_active p then Inl (ValidationException ''Product is inactive'')
        else if p_status p = ''Archived'' then Inl (ValidationException ''Product is archived and read-only'')
        else if \<not> is_stockable p then Inl (ValidationException ''Product is not stockable'')
        else if \<not> track_inventory p then Inl (ValidationException ''Product does not track inventory'')
        else Inr p)"

definition validate_place :: "stk \<Rightarrow> uuid \<Rightarrow> uuid option \<Rightarrow> unit result" where
  "validate_place s w l =
     (case get (warehouses s) w of
        None \<Rightarrow> Inl (NotFoundException ''Warehouse not found or inactive'')
      | Some wh \<Rightarrow>
        if \<not> wh_is_active wh then Inl (NotFoundException ''Warehouse not found or inactive'')
        else (case l of
            None \<Rightarrow> Inr ()
          | Some li \<Rightarrow>
            (case get (locations s) li of
               None \<Rightarrow> Inl (NotFoundException ''Storage location'')
             | Some loc \<Rightarrow>
               if \<not> loc_is_active loc then Inl (ValidationException ''Storage location is inactive'')
               else if loc_warehouse_id loc \<noteq> w
                 then Inl (ValidationException ''Storage location does not belong to the specified warehouse.'')
               else Inr ())))"

definition normalize_type :: "string \<Rightarrow> string" where
  "normalize_type t =
     (let u = py_upper (if t = '''' then ''STOCK_IN'' else t)
      in if u \<in> {''STOCK_IN'', ''STOCK_OUT'', ''ADJUSTMENT''} then u else ''STOCK_IN'')"

definition normalize_direction :: "string \<Rightarrow> string option \<Rightarrow> direction result" where
  "normalize_direction ty d =
     (if truthy d
      then (if py_upper (the d) = ''IN'' then Inr DirIn else if py_upper (the d) = ''OUT'' then Inr DirOut
            else Inl (ValidationException ''Movement direction must be IN or OUT''))
      else Inr (if ty = ''STOCK_OUT'' then DirOut else DirIn))"

definition batch_out :: "timestamp \<Rightarrow> decimal \<Rightarrow> batch \<Rightarrow> batch result" where
  "batch_out now qty b =
     (if (case expiry_date b of None \<Rightarrow> False | Some e \<Rightarrow> e \<le> now)
        then Inl (ValidationException ''Batch expired and cannot be issued.'')
      else if qty > current_quantity b then Inl (ValidationException ''Insufficient stock in batch'')
      else let left = current_quantity b - qty
           in Inr (b\<lparr>current_quantity := left, b_status := (if left \<le> 0 then ''Consumed'' else b_status b)\<rparr>))"

definition batch_in :: "decimal \<Rightarrow> batch \<Rightarrow> batch" where
  "batch_in qty b =
     (let now_has = current_quantity b + qty
      in b\<lparr>current_quantity := now_has,
           b_status := (if b_status b = ''Consumed'' \<and> now_has > 0 then ''Active'' else b_status b)\<rparr>)"

definition batch_step :: "movement \<Rightarrow> product \<Rightarrow> decimal \<Rightarrow> direction \<Rightarrow> timestamp \<Rightarrow> stk \<Rightarrow> stk result" where
  "batch_step m p qty d now s =
     (case m_batch_id m of
        None \<Rightarrow> if is_batch_tracked p then Inl (ValidationException ''batch_id is required'') else Inr s
      | Some bi \<Rightarrow>
        (case get (batches s) bi of
           None \<Rightarrow> Inl (NotFoundException ''Batch'')
         | Some b \<Rightarrow>
           if b_product_id b \<noteq> m_product_id m then Inl (ValidationException ''Batch does not belong to product'')
           else (case (case d of DirOut \<Rightarrow> batch_out now qty b | DirIn \<Rightarrow> Inr (batch_in qty b)) of
               Inl e \<Rightarrow> Inl e
             | Inr b' \<Rightarrow> Inr (s\<lparr>batches := modify bi (\<lambda>_. b') (batches s)\<rparr>))))"

definition serial_by_number :: "stk \<Rightarrow> string \<Rightarrow> (uuid \<times> serial) option" where
  "serial_by_number s sn = first_where (\<lambda>x. serial_number x = sn) (serials s)"

definition sn_log :: "string \<Rightarrow> string \<Rightarrow> uuid \<Rightarrow> uuid option \<Rightarrow> timestamp \<Rightarrow> sn_event" where
  "sn_log ev ty w l now =
     \<lparr>ev_event = ev, ev_movement_type = ty, ev_warehouse_id = w, ev_location_id = l, ev_timestamp = now\<rparr>"

definition serial_in :: "movement \<Rightarrow> string \<Rightarrow> timestamp \<Rightarrow> string \<Rightarrow> stk \<Rightarrow> stk result" where
  "serial_in m ty now sn s =
     (case serial_by_number s sn of
        Some (i, x) \<Rightarrow>
          if sn_product_id x \<noteq> m_product_id m
            then Inl (ValidationException ''Serial number belongs to a different product.'')
          else if sn_status x = ''Available''
            then Inl (ValidationException ''Serial number is already active and available in stock.'')
          else Inr (s\<lparr>serials := modify i (\<lambda>x. x\<lparr>sn_status := ''Available'', sn_warehouse_id := Some (m_warehouse_id m),
              sn_location_id := m_location_id m,
              sn_batch_id := (case m_batch_id m of None \<Rightarrow> sn_batch_id x | Some b \<Rightarrow> Some b),
              sn_history := sn_history x @ [sn_log ''STOCK_IN'' ty (m_warehouse_id m) (m_location_id m) now]\<rparr>) (serials s)\<rparr>)
      | None \<Rightarrow> Inr (s\<lparr>serials := add_row (stk_next s)
            \<lparr>serial_number = sn, sn_product_id = m_product_id m, sn_warehouse_id = Some (m_warehouse_id m),
             sn_location_id = m_location_id m, sn_batch_id = m_batch_id m, sn_status = ''Available'',
             sn_history = [sn_log ''INITIAL_RECEIPT'' ty (m_warehouse_id m) (m_location_id m) now]\<rparr> (serials s),
          stk_next := stk_next s + 1\<rparr>))"

definition serial_out :: "movement \<Rightarrow> string \<Rightarrow> timestamp \<Rightarrow> string \<Rightarrow> stk \<Rightarrow> stk result" where
  "serial_out m ty now sn s =
     (case serial_by_number s sn of
        None \<Rightarrow> Inl (NotFoundException ''Serial number'')
      | Some (i, x) \<Rightarrow>
        if sn_product_id x \<noteq> m_product_id m
          then Inl (ValidationException ''Serial number does not belong to product'')
        else if sn_status x \<noteq> ''Available'' \<and> sn_status x \<noteq> ''Reserved''
          then Inl (ValidationException ''Serial number is not available for issue'')
        else if sn_warehouse_id x \<noteq> Some (m_warehouse_id m)
          then Inl (ValidationException ''Serial number is located at a different warehouse.'')
        else Inr (s\<lparr>serials := modify i (\<lambda>x. x\<lparr>sn_status := ''Issued'',
              sn_history := sn_history x @ [sn_log ''STOCK_OUT'' ty (m_warehouse_id m) None now]\<rparr>) (serials s)\<rparr>))"

definition serial_step :: "movement \<Rightarrow> product \<Rightarrow> decimal \<Rightarrow> string \<Rightarrow> direction \<Rightarrow> timestamp \<Rightarrow> stk \<Rightarrow> stk result" where
  "serial_step m p qty ty d now s =
     (let sns = m_serial_numbers m in
      if sns = [] then (if is_serial_tracked p then Inl (ValidationException ''serial_numbers list is required'') else Inr s)
      else if \<lfloor>qty\<rfloor> \<noteq> int (length sns) \<or> qty \<noteq> of_nat (length sns)
        then Inl (ValidationException ''Quantity does not match the count of serial numbers provided'')
      else if \<not> distinct sns then Inl (ValidationException ''Duplicate serial numbers found in the supplied list.'')
      else fold_res (case d of DirIn \<Rightarrow> serial_in m ty now | DirOut \<Rightarrow> serial_out m ty now) sns s)"

definition movement_entry ::
  "movement \<Rightarrow> product \<Rightarrow> string \<Rightarrow> direction \<Rightarrow> decimal \<Rightarrow> decimal \<Rightarrow> decimal \<Rightarrow> uuid option \<Rightarrow> timestamp \<Rightarrow> ledger_row" where
  "movement_entry m p ty d qty before after user now =
     \<lparr>l_product_id = m_product_id m, l_warehouse_id = m_warehouse_id m, l_location_id = m_location_id m,
      l_batch_id = m_batch_id m, l_movement_type = ty, l_direction = d, l_quantity = qty,
      quantity_before = before, quantity_after = after, running_balance = after, transaction_type_id = None,
      l_unit_id = base_unit_id p, l_reference_type = py_or (m_reference_type m) (Some ''ManualMovement''),
      l_reference_id = m_reference_id m, idempotency_key = m_idempotency_key m, l_reason = m_reason m,
      l_notes = m_notes m, l_remarks = py_or (m_notes m) (m_reason m), l_serial_numbers = m_serial_numbers m,
      transaction_date = now, l_created_by = user, l_created_at = now\<rparr>"

definition movement_action :: "string \<Rightarrow> direction \<Rightarrow> string" where
  "movement_action ty d = ''STOCK_'' @ ty @ (case d of DirIn \<Rightarrow> ''_IN'' | DirOut \<Rightarrow> ''_OUT'')"

definition apply_balance :: "stk \<Rightarrow> stock_key \<Rightarrow> direction \<Rightarrow> decimal \<Rightarrow> bool \<Rightarrow> timestamp \<Rightarrow> ((decimal \<times> decimal) \<times> stk) result" where
  "apply_balance s k d qty allow_negative now =
     (case get_or_create_for_update s k now of ((i, b), s1) \<Rightarrow>
        let before = available_quantity b; after = before + signed d qty in
        if after < 0 \<and> \<not> allow_negative then Inl (ValidationException ''Insufficient stock'')
        else Inr ((before, after),
               s1\<lparr>balances := modify i (\<lambda>b. b\<lparr>available_quantity := after, last_calculated := now\<rparr>) (balances s1)\<rparr>))"

section \<open>The movement\<close>

definition movement_checks :: "stk \<Rightarrow> movement \<Rightarrow> (product \<times> string \<times> direction) result" where
  "movement_checks s m =
     (case validate_product s (m_product_id m) of
        Inl e \<Rightarrow> Inl e
      | Inr p \<Rightarrow>
        (case validate_place s (m_warehouse_id m) (m_location_id m) of
           Inl e \<Rightarrow> Inl e
         | Inr _ \<Rightarrow>
           if m_quantity m \<le> 0 then Inl (ValidationException ''Movement quantity must be strictly positive.'')
           else let ty = normalize_type (m_movement_type m) in
             (case normalize_direction ty (m_direction m) of
                Inl e \<Rightarrow> Inl e
              | Inr d \<Rightarrow> Inr (p, ty, d))))"

definition known_key :: "stk \<Rightarrow> string option \<Rightarrow> uuid option" where
  "known_key s key = (if truthy key then map_option fst (find_by_idempotency_key s (the key)) else None)"

definition process_movement :: "stk \<Rightarrow> movement \<Rightarrow> uuid option \<Rightarrow> timestamp \<Rightarrow> bool \<Rightarrow> (uuid \<times> stk) result" where
  "process_movement s m user now commit =
     (case known_key s (m_idempotency_key m) of
        Some i \<Rightarrow> Inr (i, s)
      | None \<Rightarrow>
        (case movement_checks s m of
           Inl e \<Rightarrow> Inl e
         | Inr (p, ty, d) \<Rightarrow>
           (case batch_step m p (m_quantity m) d now s of
              Inl e \<Rightarrow> Inl e
            | Inr s1 \<Rightarrow>
              (case serial_step m p (m_quantity m) ty d now s1 of
                 Inl e \<Rightarrow> Inl e
               | Inr s2 \<Rightarrow>
                 (case apply_balance s2 (m_key m) d (m_quantity m)
                        (resolve_negative_stock_policy s2 (m_warehouse_id m) p) now of
                    Inl e \<Rightarrow> Inl e
                  | Inr ((before, after), s3) \<Rightarrow>
                    (case insert_ledger (movement_entry m p ty d (m_quantity m) before after user now) s3 of
                       Inl e \<Rightarrow> Inl e
                     | Inr (i, s4) \<Rightarrow>
                       Inr (i, if commit then stk_emit [Audit (movement_action ty d) ''StockLedger'' i] s4 else s4)))))))"

definition move_request :: "string \<Rightarrow> string \<Rightarrow> movement \<Rightarrow> movement" where
  "move_request ty d m = m\<lparr>m_movement_type := ty, m_direction := Some d\<rparr>"

definition stock_in :: "stk \<Rightarrow> movement \<Rightarrow> uuid option \<Rightarrow> timestamp \<Rightarrow> bool \<Rightarrow> (uuid \<times> stk) result" where
  "stock_in s m user now commit =
     (if m_quantity m \<le> 0 then Inl (ValidationException ''Movement quantity must be strictly positive.'')
      else process_movement s (move_request ''STOCK_IN'' ''IN'' m) user now commit)"

definition stock_out :: "stk \<Rightarrow> movement \<Rightarrow> uuid option \<Rightarrow> timestamp \<Rightarrow> bool \<Rightarrow> (uuid \<times> stk) result" where
  "stock_out s m user now commit =
     (if m_quantity m \<le> 0 then Inl (ValidationException ''Movement quantity must be strictly positive.'')
      else process_movement s (move_request ''STOCK_OUT'' ''OUT'' m) user now commit)"

definition adjustment :: "stk \<Rightarrow> movement \<Rightarrow> string \<Rightarrow> uuid option \<Rightarrow> timestamp \<Rightarrow> bool \<Rightarrow> (uuid \<times> stk) result" where
  "adjustment s m d user now commit =
     (if m_quantity m \<le> 0 then Inl (ValidationException ''Movement quantity must be strictly positive.'')
      else process_movement s (move_request ''ADJUSTMENT'' d m) user now commit)"

section \<open>What the steps leave alone\<close>

text \<open>The masters and the documents, which no movement touches.\<close>

definition rest where
  "rest s = (products s, warehouses s, locations s, policies s, type_codes s, openings s, adjustments s)"

lemma rest_simps [simp]:
  "rest (s\<lparr>batches := b\<rparr>) = rest s" "rest (s\<lparr>serials := sn\<rparr>) = rest s" "rest (s\<lparr>balances := bl\<rparr>) = rest s"
  "rest (s\<lparr>ledger := le\<rparr>) = rest s" "rest (s\<lparr>stk_next := n\<rparr>) = rest s" "rest (stk_emit es s) = rest s"
  by (simp_all add: rest_def)

lemma rest_fields:
  assumes "rest s' = rest s"
  shows "products s' = products s" "warehouses s' = warehouses s" "locations s' = locations s"
    "policies s' = policies s" "type_codes s' = type_codes s" "openings s' = openings s"
    "adjustments s' = adjustments s"
  using assms by (simp_all add: rest_def)

lemma batch_step_frame:
  assumes "batch_step m p qty d now s = Inr s'"
  shows "balances s' = balances s" "ledger s' = ledger s" "serials s' = serials s" "stk_next s' = stk_next s"
    "keys (batches s') = keys (batches s)" "rest s' = rest s"
  using assms by (auto simp: batch_step_def table_simps split: option.splits if_splits sum.splits direction.splits)

text \<open>States that differ in the serial numbers only, with no key lost.\<close>

definition serials_moved :: "stk \<Rightarrow> stk \<Rightarrow> bool" where
  "serials_moved s s' = (balances s' = balances s \<and> ledger s' = ledger s \<and> batches s' = batches s \<and> rest s' = rest s \<and>
     stk_next s \<le> stk_next s' \<and>
     (wf_table (stk_next s) (serials s) \<longrightarrow> wf_table (stk_next s') (serials s')) \<and>
     (unique_on serial_number (serials s) \<longrightarrow> unique_on serial_number (serials s')))"

lemma serials_moved_refl: "serials_moved s s"
  by (simp add: serials_moved_def)

lemma serials_moved_trans: "serials_moved s t \<Longrightarrow> serials_moved t u \<Longrightarrow> serials_moved s u"
  by (auto simp: serials_moved_def)

lemma serial_in_moved: "serial_in m ty now sn s = Inr s' \<Longrightarrow> serials_moved s s'"
  by (auto simp: serial_in_def serials_moved_def serial_by_number_def table_simps unique_on_modify
      unique_on_add_row intro: wf_table_add_row split: option.splits if_splits)

lemma serial_out_moved: "serial_out m ty now sn s = Inr s' \<Longrightarrow> serials_moved s s'"
  by (auto simp: serial_out_def serials_moved_def table_simps unique_on_modify split: option.splits if_splits)

lemma fold_res_moved:
  assumes "\<And>x s s'. f x s = Inr s' \<Longrightarrow> serials_moved s s'" and "fold_res f xs s = Inr s'"
  shows "serials_moved s s'"
  using assms(2)
proof (induction xs arbitrary: s)
  case (Cons x xs)
  from Cons.prems obtain t where "f x s = Inr t" "fold_res f xs t = Inr s'" by (auto split: sum.splits)
  with assms(1) Cons.IH show ?case by (blast intro: serials_moved_trans)
qed (simp add: serials_moved_refl)

lemma serial_step_moved:
  assumes "serial_step m p qty ty d now s = Inr s'"
  shows "serials_moved s s'"
proof (cases "m_serial_numbers m = []")
  case True
  with assms show ?thesis by (auto simp: serial_step_def serials_moved_refl split: if_splits)
next
  case False
  with assms have "fold_res (case d of DirIn \<Rightarrow> serial_in m ty now | DirOut \<Rightarrow> serial_out m ty now) (m_serial_numbers m) s = Inr s'"
    by (auto simp: serial_step_def Let_def split: if_splits)
  then show ?thesis
    by (rule fold_res_moved [rotated]) (cases d; simp add: serial_in_moved serial_out_moved)
qed

lemma stock_of_cong: "balances s' = balances s \<Longrightarrow> stock_of s' k = stock_of s k"
  by (simp add: stock_of_def get_by_keys_def)

lemma ledger_stock_cong: "ledger s' = ledger s \<Longrightarrow> ledger_stock s' k = ledger_stock s k"
  by (simp add: ledger_stock_def)

section \<open>The balance step\<close>

lemma get_or_create_cases:
  assumes "get_or_create_for_update s k now = ((i, b), s')"
  obtains "get_by_keys s k = Some (i, b)" "s' = s"
  | "get_by_keys s k = None" "i = stk_next s" "b = new_balance k now"
    "s' = s\<lparr>balances := add_row i b (balances s), stk_next := stk_next s + 1\<rparr>"
proof (cases "get_by_keys s k")
  case None
  with assms have "i = stk_next s" "b = new_balance k now"
    "s' = s\<lparr>balances := add_row i b (balances s), stk_next := stk_next s + 1\<rparr>"
    by (auto simp: get_or_create_for_update_def Let_def)
  with None show thesis by (rule that(2))
next
  case (Some x)
  with assms have "get_by_keys s k = Some (i, b)" "s' = s" by (simp_all add: get_or_create_for_update_def)
  then show thesis by (rule that(1))
qed

lemma new_balance_fields [simp]:
  "bal_key (new_balance k now) = k" "available_quantity (new_balance k now) = 0"
  by (cases k, simp add: new_balance_def bal_key_def)+

lemma get_by_keys_bal_key: "get_by_keys s k = Some (i, b) \<Longrightarrow> bal_key b = k"
  by (auto simp: get_by_keys_def dest: first_where_Some)

lemma get_or_create:
  assumes wf: "wf_stk s" and g: "get_or_create_for_update s k now = ((i, b), s')"
  shows "available_quantity b = stock_of s k" "bal_key b = k" "wf_stk s'"
    "get (balances s') i = Some b" "stock_of s' k' = stock_of s k'" "get_by_keys s' k = Some (i, b)"
    "ledger s' = ledger s" "serials s' = serials s" "batches s' = batches s" "rest s' = rest s" "stk_next s \<le> stk_next s'"
proof -
  have t: "wf_table (stk_next s) (balances s)" "distinct (keys (balances s))"
    using wf by (auto simp: wf_stk_def wf_table_def)
  have "available_quantity b = stock_of s k \<and> bal_key b = k \<and> wf_stk s' \<and> get (balances s') i = Some b \<and>
      stock_of s' k' = stock_of s k' \<and> get_by_keys s' k = Some (i, b) \<and> ledger s' = ledger s \<and>
      serials s' = serials s \<and> batches s' = batches s \<and> rest s' = rest s \<and> stk_next s \<le> stk_next s'"
    using g
  proof (cases rule: get_or_create_cases)
    case 1
    with wf t get_by_keys_bal_key [OF 1(1)] show ?thesis
      by (simp add: stock_of_def) (simp add: get_by_keys_def first_where_get)
  next
    case 2
    then have none: "first_where (\<lambda>x. bal_key x = bal_key b) (balances s) = None" by (simp add: get_by_keys_def)
    have look: "get_by_keys s' q = (case get_by_keys s q of Some x \<Rightarrow> Some x | None \<Rightarrow> if q = k then Some (i, b) else None)" for q
      by (auto simp: 2(2-4) get_by_keys_def first_where_add_row split: option.splits)
    have "wf_stk s'" using wf 2 none
      by (auto simp: wf_stk_def unique_on_add_row intro: wf_table_mono wf_table_add_row)
    moreover have "stock_of s' k' = stock_of s k'" using 2(1,3)
      by (auto simp: stock_of_def look split: option.splits)
    moreover have "get_by_keys s' k = Some (i, b)" using 2(1) by (simp add: look)
    moreover have "stock_of s k = 0" using 2(1) by (simp add: stock_of_def)
    ultimately show ?thesis using t 2(2,3) by (simp add: 2(4) wf_table_get_add_row)
  qed
  then show "available_quantity b = stock_of s k" "bal_key b = k" "wf_stk s'"
    "get (balances s') i = Some b" "stock_of s' k' = stock_of s k'" "get_by_keys s' k = Some (i, b)"
    "ledger s' = ledger s" "serials s' = serials s" "batches s' = batches s" "rest s' = rest s" "stk_next s \<le> stk_next s'"
    by simp_all
qed

lemma apply_balanceD:
  assumes wf: "wf_stk s" and ap: "apply_balance s k d qty neg now = Inr ((before, after), s')"
  shows "before = stock_of s k" "after = before + signed d qty" "after \<ge> 0 \<or> neg" "wf_stk s'"
    "stock_of s' k' = (if k' = k then after else stock_of s k')"
    "ledger s' = ledger s" "serials s' = serials s" "batches s' = batches s" "rest s' = rest s" "stk_next s \<le> stk_next s'"
proof -
  obtain i b s1 where g: "get_or_create_for_update s k now = ((i, b), s1)"
    by (cases "get_or_create_for_update s k now") force
  note gc = get_or_create [OF wf g]
  from ap g have d: "before = available_quantity b" "after = before + signed d qty" "after \<ge> 0 \<or> neg"
    and s': "s' = s1\<lparr>balances := modify i (\<lambda>b. b\<lparr>available_quantity := after, last_calculated := now\<rparr>) (balances s1)\<rparr>"
    by (auto simp: apply_balance_def Let_def split: if_splits)
  from d gc(1) show "before = stock_of s k" "after = before + signed d qty" "after \<ge> 0 \<or> neg" by auto
  have dist: "distinct (keys (balances s1))" using gc(3) by (simp add: wf_stk_def wf_table_def)
  show "wf_stk s'" using gc(3) by (simp add: s' wf_stk_def table_simps unique_on_modify bal_key_def)
  have look: "get_by_keys s' k' = map_option (\<lambda>(j, r). (j, if j = i then r\<lparr>available_quantity := after, last_calculated := now\<rparr> else r))
      (get_by_keys s1 k')" for k'
    unfolding get_by_keys_def s' using dist by (simp add: first_where_modify bal_key_def)
  show "stock_of s' k' = (if k' = k then after else stock_of s k')"
  proof (cases "k' = k")
    case True
    then show ?thesis using gc(6) by (simp add: stock_of_def look)
  next
    case False
    have "j \<noteq> i" if "get_by_keys s1 k' = Some (j, r)" for j r
    proof
      assume "j = i"
      with that dist have "get (balances s1) i = Some r" "bal_key r = k'"
        by (auto simp: get_by_keys_def dest: first_where_Some first_where_get)
      with gc(2,4) False show False by simp
    qed
    with False gc(5) [of k'] show ?thesis by (auto simp: stock_of_def look split: option.splits)
  qed
  show "ledger s' = ledger s" "serials s' = serials s" "batches s' = batches s" "rest s' = rest s" "stk_next s \<le> stk_next s'"
    using gc(7-11) by (simp_all add: s')
qed

lemma apply_balance_ok:
  assumes "wf_stk s"
  shows "is_ok (apply_balance s k d qty neg now) \<longleftrightarrow> 0 \<le> stock_of s k + signed d qty \<or> neg"
proof -
  obtain i b s1 where g: "get_or_create_for_update s k now = ((i, b), s1)"
    by (cases "get_or_create_for_update s k now") force
  with get_or_create(1) [OF assms g] show ?thesis by (auto simp: apply_balance_def Let_def)
qed

section \<open>The whole movement\<close>

lemma movement_checksD:
  assumes "movement_checks s m = Inr (p, ty, d)"
  shows "get (products s) (m_product_id m) = Some p" "p_is_active p" "0 < m_quantity m"
    "ty = normalize_type (m_movement_type m)" "normalize_direction ty (m_direction m) = Inr d"
    "p_status p \<noteq> ''Archived''" "is_stockable p" "track_inventory p"
  using assms
  by (auto simp: movement_checks_def validate_product_def Let_def split: sum.splits option.splits if_splits)

lemma insert_ledgerD:
  assumes "insert_ledger e s = Inr (i, s')"
  shows "i = stk_next s" "s' = s\<lparr>ledger := add_row (stk_next s) e (ledger s), stk_next := stk_next s + 1\<rparr>"
    "idempotency_key e = None \<or> \<not> exists_where (\<lambda>x. idempotency_key x = idempotency_key e) (ledger s)"
  using assms by (auto simp: insert_ledger_def split: if_splits)

text \<open>A successful call that is not a repetition went through every step.\<close>

lemma process_movementD:
  assumes "process_movement s m user now commit = Inr (i, s')" and "known_key s (m_idempotency_key m) = None"
  obtains p ty d s1 s2 s3 before after where
    "movement_checks s m = Inr (p, ty, d)" "batch_step m p (m_quantity m) d now s = Inr s1"
    "serial_step m p (m_quantity m) ty d now s1 = Inr s2"
    "apply_balance s2 (m_key m) d (m_quantity m) (resolve_negative_stock_policy s2 (m_warehouse_id m) p) now
       = Inr ((before, after), s3)"
    "i = stk_next s3"
    "s' = (if commit then stk_emit [Audit (movement_action ty d) ''StockLedger'' i] else id)
       (s3\<lparr>ledger := add_row i (movement_entry m p ty d (m_quantity m) before after user now) (ledger s3),
           stk_next := i + 1\<rparr>)"
proof -
  from assms obtain x where c: "movement_checks s m = Inr x"
    by (auto simp: process_movement_def split: sum.splits option.splits)
  obtain p ty d where x: "x = (p, ty, d)" by (cases x) auto
  from assms c x obtain s1 where b: "batch_step m p (m_quantity m) d now s = Inr s1"
    by (auto simp: process_movement_def split: sum.splits)
  from assms c x b obtain s2 where sn: "serial_step m p (m_quantity m) ty d now s1 = Inr s2"
    by (auto simp: process_movement_def split: sum.splits)
  from assms c x b sn obtain y where ap: "apply_balance s2 (m_key m) d (m_quantity m)
      (resolve_negative_stock_policy s2 (m_warehouse_id m) p) now = Inr y"
    by (auto simp: process_movement_def split: sum.splits)
  obtain before after s3 where y: "y = ((before, after), s3)" by (cases y) auto
  from assms c x b sn ap y obtain z where ins:
    "insert_ledger (movement_entry m p ty d (m_quantity m) before after user now) s3 = Inr z"
    by (auto simp: process_movement_def split: sum.splits)
  obtain k s4 where z: "z = (k, s4)" by (cases z) auto
  note il = insert_ledgerD [OF ins [unfolded z]]
  from assms c x b sn ap y ins z have i: "i = k"
    and s': "s' = (if commit then stk_emit [Audit (movement_action ty d) ''StockLedger'' i] s4 else s4)"
    by (auto simp: process_movement_def)
  show thesis
    using that [OF c [unfolded x] b sn ap [unfolded y]] i s' il by (cases commit) simp_all
qed

lemma process_movement_known:
  "known_key s (m_idempotency_key m) = Some i \<Longrightarrow> process_movement s m user now commit = Inr (i, s)"
  by (simp add: process_movement_def)

text \<open>The quantity a movement adds to its key.\<close>

definition moved :: "movement \<Rightarrow> decimal" where
  "moved m = (case normalize_direction (normalize_type (m_movement_type m)) (m_direction m) of
      Inl e \<Rightarrow> 0 | Inr d \<Rightarrow> signed d (m_quantity m))"

lemma wf_table_keys: "keys t' = keys t \<Longrightarrow> wf_table n t' = wf_table n t"
  by (simp add: wf_table_def)

lemma steps_wf:
  assumes wf: "wf_stk s" and b: "batch_step m p q d now s = Inr s1" and sn: "serial_step m p q ty d now s1 = Inr s2"
  shows "wf_stk s2"
proof -
  note bf = batch_step_frame [OF b] and sf = serial_step_moved [OF sn, unfolded serials_moved_def]
  have "wf_table (stk_next s2) (batches s2)"
    using wf bf sf wf_table_keys [OF bf(5)] by (auto simp: wf_stk_def intro: wf_table_mono)
  with wf bf sf show ?thesis by (auto simp: wf_stk_def intro: wf_table_mono)
qed

lemma movement_entry_fields [simp]:
  "l_key (movement_entry m p ty d q b a u now) = m_key m"
  "l_quantity (movement_entry m p ty d q b a u now) = q"
  "l_direction (movement_entry m p ty d q b a u now) = d"
  "quantity_before (movement_entry m p ty d q b a u now) = b"
  "quantity_after (movement_entry m p ty d q b a u now) = a"
  "idempotency_key (movement_entry m p ty d q b a u now) = m_idempotency_key m"
  by (simp_all add: movement_entry_def l_key_def m_key_def)

lemma process_movement_effect:
  assumes wf: "wf_stk s" and run: "process_movement s m user now commit = Inr (i, s')"
    and fresh: "known_key s (m_idempotency_key m) = None"
  shows "wf_stk s'" "stock_of s' k = stock_of s k + (if k = m_key m then moved m else 0)"
    "ledger_stock s' k = ledger_stock s k + (if k = m_key m then moved m else 0)"
    "\<exists>e. ledger s' = add_row i e (ledger s) \<and> i \<ge> stk_next s \<and> l_key e = m_key m \<and> l_quantity e = m_quantity m \<and>
       quantity_before e = stock_of s (m_key m) \<and> quantity_after e = stock_of s (m_key m) + moved m \<and>
       signed (l_direction e) (l_quantity e) = moved m \<and> idempotency_key e = m_idempotency_key m"
    "rest s' = rest s" "stk_next s \<le> stk_next s'"
proof -
  from run fresh obtain p ty d s1 s2 s3 before after where c: "movement_checks s m = Inr (p, ty, d)"
    and b: "batch_step m p (m_quantity m) d now s = Inr s1"
    and sn: "serial_step m p (m_quantity m) ty d now s1 = Inr s2"
    and ap: "apply_balance s2 (m_key m) d (m_quantity m) (resolve_negative_stock_policy s2 (m_warehouse_id m) p) now
       = Inr ((before, after), s3)"
    and i: "i = stk_next s3"
    and s': "s' = (if commit then stk_emit [Audit (movement_action ty d) ''StockLedger'' i] else id)
       (s3\<lparr>ledger := add_row i (movement_entry m p ty d (m_quantity m) before after user now) (ledger s3),
           stk_next := i + 1\<rparr>)"
    by (rule process_movementD)
  let ?e = "movement_entry m p ty d (m_quantity m) before after user now"
  note bf = batch_step_frame [OF b] and sf = serial_step_moved [OF sn, unfolded serials_moved_def]
  note a = apply_balanceD [OF steps_wf [OF wf b sn] ap]
  have bal: "balances s2 = balances s" and led: "ledger s3 = ledger s" using bf sf a(6) by auto
  have mv: "moved m = signed d (m_quantity m)" using movement_checksD(4,5) [OF c] by (simp add: moved_def)
  have fields: "balances s' = balances s3" "ledger s' = add_row i ?e (ledger s)" "serials s' = serials s3"
    "batches s' = batches s3" "stk_next s' = i + 1" "rest s' = rest s3"
    by (simp_all add: s' led)
  show "wf_stk s'" using a(4) i by (auto simp: wf_stk_def fields led intro: wf_table_mono wf_table_add_row)
  show "stock_of s' k = stock_of s k + (if k = m_key m then moved m else 0)"
    using a(1,2) a(5) [of k] stock_of_cong [OF bal] stock_of_cong [OF fields(1)] mv by simp
  show "ledger_stock s' k = ledger_stock s k + (if k = m_key m then moved m else 0)"
    by (auto simp: ledger_stock_def fields sum_rows_add_row mv)
  show "stk_next s \<le> stk_next s'" using a(10) bf sf i by (simp add: fields)
  show "rest s' = rest s" using a(9) bf sf by (simp add: fields)
  show "\<exists>e. ledger s' = add_row i e (ledger s) \<and> i \<ge> stk_next s \<and> l_key e = m_key m \<and> l_quantity e = m_quantity m \<and>
       quantity_before e = stock_of s (m_key m) \<and> quantity_after e = stock_of s (m_key m) + moved m \<and>
       signed (l_direction e) (l_quantity e) = moved m \<and> idempotency_key e = m_idempotency_key m"
    using a(1,2,10) bf sf i mv stock_of_cong [OF bal] by (intro exI [of _ ?e]) (simp add: fields)
qed

end
