(* ===== verification/StockServices.thy ===== *)
theory StockServices
  imports StockMovement
begin

text \<open>
  The services around the movement engine (\<^verbatim>\<open>src/app/services/stock_engine_services.py\<close>): the
  legacy ledger adapter, the balance projection and its summaries, opening stock and inventory
  adjustments. An operation that commits half-way returns the database it leaves together with
  its result.

  The lemmas show that the legacy adapter keeps the same accounts as \<open>process_movement\<close>, what a
  recalculation does, and the life cycle of adjustments.
\<close>

section \<open>The legacy adapter\<close>

record ledger_request =
  lr_key :: stock_key
  lr_type_code :: string
  lr_quantity :: decimal
  lr_direction :: string
  lr_reference_type :: "string option"
  lr_reference_id :: "uuid option"
  lr_unit_id :: "uuid option"
  lr_remarks :: "string option"

text \<open>Every word that is not an outgoing one counts as incoming.\<close>

definition legacy_direction :: "string \<Rightarrow> direction" where
  "legacy_direction d =
     (if py_upper d \<in> {''OUT'', ''SALES_ISSUE'', ''PRODUCTION_CONSUMPTION'', ''RETURN_OUT''} then DirOut else DirIn)"

definition legacy_checks :: "stk \<Rightarrow> stock_key \<Rightarrow> product result" where
  "legacy_checks s = (\<lambda>(p, w, l).
     case get (products s) p of
       None \<Rightarrow> Inl (NotFoundException ''Product'')
     | Some pr \<Rightarrow>
       if p_status pr = ''Archived'' then Inl (ValidationException ''Product is archived and read-only'')
       else (case get (warehouses s) w of
           None \<Rightarrow> Inl (NotFoundException ''Warehouse not found or inactive'')
         | Some wh \<Rightarrow>
           if \<not> wh_is_active wh then Inl (NotFoundException ''Warehouse not found or inactive'')
           else (case l of
               None \<Rightarrow> Inr pr
             | Some li \<Rightarrow>
               (case get (locations s) li of
                  None \<Rightarrow> Inl (NotFoundException ''Storage location'')
                | Some loc \<Rightarrow>
                  if loc_warehouse_id loc \<noteq> w
                    then Inl (ValidationException ''Storage location does not belong to the specified warehouse.'')
                  else Inr pr))))"

definition legacy_entry ::
  "ledger_request \<Rightarrow> product \<Rightarrow> uuid option \<Rightarrow> decimal \<Rightarrow> decimal \<Rightarrow> uuid option \<Rightarrow> timestamp \<Rightarrow> ledger_row" where
  "legacy_entry r p type_id before after user now =
     (let d = legacy_direction (lr_direction r) in
     \<lparr>l_product_id = fst (lr_key r), l_warehouse_id = fst (snd (lr_key r)), l_location_id = snd (snd (lr_key r)),
      l_batch_id = None, l_movement_type = (case d of DirIn \<Rightarrow> ''STOCK_IN'' | DirOut \<Rightarrow> ''STOCK_OUT''),
      l_direction = d, l_quantity = lr_quantity r, quantity_before = before, quantity_after = after,
      running_balance = after, transaction_type_id = type_id,
      l_unit_id = (case lr_unit_id r of None \<Rightarrow> base_unit_id p | Some u \<Rightarrow> u),
      l_reference_type = lr_reference_type r, l_reference_id = lr_reference_id r, idempotency_key = None,
      l_reason = None, l_notes = lr_remarks r, l_remarks = lr_remarks r, l_serial_numbers = [],
      transaction_date = now, l_created_by = user, l_created_at = now\<rparr>)"

definition create_ledger_entry :: "stk \<Rightarrow> ledger_request \<Rightarrow> uuid option \<Rightarrow> timestamp \<Rightarrow> (uuid \<times> stk) result" where
  "create_ledger_entry s r user now =
     (case legacy_checks s (lr_key r) of
        Inl e \<Rightarrow> Inl e
      | Inr p \<Rightarrow>
        if lr_quantity r \<le> 0 then Inl (ValidationException ''Transaction quantity must be strictly positive.'')
        else (case apply_balance s (lr_key r) (legacy_direction (lr_direction r)) (lr_quantity r)
                     (resolve_negative_stock_policy s (fst (snd (lr_key r))) p) now of
            Inl e \<Rightarrow> Inl e
          | Inr ((before, after), s1) \<Rightarrow>
            (case insert_ledger (legacy_entry r p (type_by_code s (lr_type_code r)) before after user now) s1 of
               Inl e \<Rightarrow> Inl e
             | Inr (i, s2) \<Rightarrow> Inr (i, stk_emit [Audit ''STOCK_LEDGER_CREATE'' ''StockLedger'' i] s2))))"

section \<open>The balance projection\<close>

definition recalculate_balance_projection :: "stk \<Rightarrow> stock_key \<Rightarrow> timestamp \<Rightarrow> stk" where
  "recalculate_balance_projection s k now =
     upsert_balance s k (calculate_derived_balance_from_history s k) 0 0 0 now"

definition get_or_create_balance :: "stk \<Rightarrow> stock_key \<Rightarrow> timestamp \<Rightarrow> stk" where
  "get_or_create_balance s k now =
     (case get_by_keys s k of Some _ \<Rightarrow> s | None \<Rightarrow> upsert_balance s k 0 0 0 0 now)"

record stock_summary =
  total_products :: nat
  total_available_stock :: decimal
  total_reserved_stock :: decimal
  total_damaged_stock :: decimal

definition summarize :: "balance list \<Rightarrow> stock_summary" where
  "summarize bs =
     \<lparr>total_products = length bs, total_available_stock = sum_list (map available_quantity bs),
      total_reserved_stock = sum_list (map reserved_quantity bs),
      total_damaged_stock = sum_list (map damaged_quantity bs)\<rparr>"

definition balances_where :: "(balance \<Rightarrow> bool) \<Rightarrow> stk \<Rightarrow> balance list" where
  "balances_where P s = filter P (map snd (balances s))"

definition get_warehouse_stock_summary :: "stk \<Rightarrow> uuid \<Rightarrow> stock_summary result" where
  "get_warehouse_stock_summary s w =
     (if get (warehouses s) w = None then Inl (NotFoundException ''Warehouse'')
      else Inr (summarize (balances_where (\<lambda>b. bal_warehouse_id b = w) s)))"

text \<open>The answer for a product holds the three totals and its balances, that for a location the
  number of its balances, what is available and the balances.\<close>

definition get_product_stock_summary ::
  "stk \<Rightarrow> uuid \<Rightarrow> (decimal \<times> decimal \<times> decimal \<times> balance list) result" where
  "get_product_stock_summary s p =
     (if get (products s) p = None then Inl (NotFoundException ''Product'')
      else let bs = balances_where (\<lambda>b. bal_product_id b = p) s
           in Inr (sum_list (map available_quantity bs), sum_list (map reserved_quantity bs),
                sum_list (map damaged_quantity bs), bs))"

definition get_location_stock_summary :: "stk \<Rightarrow> uuid \<Rightarrow> (nat \<times> decimal \<times> balance list) result" where
  "get_location_stock_summary s l =
     (if get (locations s) l = None then Inl (NotFoundException ''Storage location'')
      else let bs = balances_where (\<lambda>b. bal_location_id b = Some l) s
           in Inr (length bs, sum_list (map available_quantity bs), bs))"

section \<open>Opening stock\<close>

record opening_create =
  oc_key :: stock_key
  oc_quantity :: decimal
  oc_reference :: string

definition opening_row :: "opening_create \<Rightarrow> uuid option \<Rightarrow> opening_stock" where
  "opening_row oc user =
     \<lparr>op_product_id = fst (oc_key oc), op_warehouse_id = fst (snd (oc_key oc)),
      op_location_id = snd (snd (oc_key oc)), op_quantity = oc_quantity oc, op_reference = oc_reference oc,
      op_created_by = user, op_approved_by = user\<rparr>"

definition op_key :: "opening_stock \<Rightarrow> stock_key" where
  "op_key x = (op_product_id x, op_warehouse_id x, op_location_id x)"

definition opening_request :: "opening_create \<Rightarrow> uuid \<Rightarrow> ledger_request" where
  "opening_request oc i =
     \<lparr>lr_key = oc_key oc, lr_type_code = ''OPENING_STOCK'', lr_quantity = oc_quantity oc, lr_direction = ''IN'',
      lr_reference_type = Some ''OpeningStock'', lr_reference_id = Some i, lr_unit_id = None,
      lr_remarks = Some (''Opening stock reference #'' @ oc_reference oc)\<rparr>"

text \<open>The opening row is committed before the ledger entry is tried.\<close>

definition create_opening_stock :: "stk \<Rightarrow> opening_create \<Rightarrow> uuid option \<Rightarrow> timestamp \<Rightarrow> uuid result \<times> stk" where
  "create_opening_stock s oc user now =
     (if exists_where (\<lambda>x. op_reference x = oc_reference oc) (openings s)
        then (Inl (DuplicateResourceException ''Opening stock reference number already exists.''), s)
      else if exists_where (\<lambda>x. op_key x = oc_key oc) (openings s)
        then (Inl (DuplicateResourceException ''Opening stock has already been initialized''), s)
      else let i = stk_next s;
               s1 = s\<lparr>openings := add_row i (opening_row oc user) (openings s), stk_next := i + 1\<rparr>
           in case create_ledger_entry s1 (opening_request oc i) user now of
                Inl e \<Rightarrow> (Inl e, s1)
              | Inr (_, s2) \<Rightarrow> (Inr i, stk_emit [Audit ''OPENING_STOCK_CREATE'' ''OpeningStock'' i,
                    Notify ''OPENING_STOCK_CREATED'' i] s2))"

section \<open>Inventory adjustments\<close>

record adjustment_create =
  adc_key :: stock_key
  adc_type :: string
  adc_reason :: string
  adc_actual :: decimal

definition create_adjustment :: "stk \<Rightarrow> adjustment_create \<Rightarrow> uuid option \<Rightarrow> (uuid \<times> stk) result" where
  "create_adjustment s ac user =
     (case legacy_checks s (adc_key ac) of
        Inl e \<Rightarrow> Inl e
      | Inr _ \<Rightarrow>
        let expected = stock_of s (adc_key ac); diff = adc_actual ac - expected in
        if adc_type ac = ''Increase'' \<and> diff < 0
          then Inl (ValidationException ''Adjustment type is Increase but actual quantity is lower'')
        else if adc_type ac = ''Decrease'' \<and> diff > 0
          then Inl (ValidationException ''Adjustment type is Decrease but actual quantity is higher'')
        else let i = stk_next s;
                 adj = \<lparr>adj_product_id = fst (adc_key ac), adj_warehouse_id = fst (snd (adc_key ac)),
                   adj_location_id = snd (snd (adc_key ac)), adjustment_type = adc_type ac,
                   adj_reason = adc_reason ac, expected_quantity = expected, actual_quantity = adc_actual ac,
                   difference = diff, adj_status = AdjDraft, adj_created_by = user, adj_approved_by = None,
                   adj_approved_at = None\<rparr>
             in Inr (i, stk_emit [Audit ''INVENTORY_ADJUSTMENT_CREATE'' ''InventoryAdjustment'' i]
                  (s\<lparr>adjustments := add_row i adj (adjustments s), stk_next := i + 1\<rparr>)))"

definition update_adjustment :: "stk \<Rightarrow> uuid \<Rightarrow> string option \<Rightarrow> decimal option \<Rightarrow> stk result" where
  "update_adjustment s i reason actual =
     (case get (adjustments s) i of
        None \<Rightarrow> Inl (NotFoundException ''Inventory adjustment'')
      | Some a \<Rightarrow>
        if adj_status a \<noteq> AdjDraft then Inl (ValidationException ''Only Draft adjustments can be modified.'')
        else let a1 = (case reason of None \<Rightarrow> a | Some r \<Rightarrow> a\<lparr>adj_reason := r\<rparr>);
                 a2 = (case actual of None \<Rightarrow> a1
                       | Some q \<Rightarrow> a1\<lparr>actual_quantity := q, difference := q - expected_quantity a1\<rparr>)
             in Inr (stk_emit [Audit ''INVENTORY_ADJUSTMENT_UPDATE'' ''InventoryAdjustment'' i]
                  (s\<lparr>adjustments := modify i (\<lambda>_. a2) (adjustments s)\<rparr>)))"

definition approve_adjustment :: "stk \<Rightarrow> uuid \<Rightarrow> uuid option \<Rightarrow> timestamp \<Rightarrow> stk result" where
  "approve_adjustment s i user now =
     (case get (adjustments s) i of
        None \<Rightarrow> Inl (NotFoundException ''Inventory adjustment'')
      | Some a \<Rightarrow>
        if adj_status a \<noteq> AdjDraft then Inl (ValidationException ''Only Draft adjustments can be approved.'')
        else Inr (stk_emit [Audit ''INVENTORY_ADJUSTMENT_APPROVE'' ''InventoryAdjustment'' i,
                 Notify ''INVENTORY_ADJUSTMENT_APPROVED'' i]
               (s\<lparr>adjustments := modify i (\<lambda>a. a\<lparr>adj_status := AdjApproved, adj_approved_by := user,
                    adj_approved_at := Some now\<rparr>) (adjustments s)\<rparr>)))"

definition adjustment_request :: "adjustment_row \<Rightarrow> uuid \<Rightarrow> ledger_request" where
  "adjustment_request a i =
     \<lparr>lr_key = (adj_product_id a, adj_warehouse_id a, adj_location_id a), lr_type_code = ''STOCK_ADJUSTMENT'',
      lr_quantity = \<bar>difference a\<bar>, lr_direction = (if difference a > 0 then ''IN'' else ''OUT''),
      lr_reference_type = Some ''InventoryAdjustment'', lr_reference_id = Some i, lr_unit_id = None,
      lr_remarks = Some (''Stock adjustment: '' @ adj_reason a)\<rparr>"

definition set_applied :: "uuid \<Rightarrow> stk \<Rightarrow> stk" where
  "set_applied i s = s\<lparr>adjustments := modify i (\<lambda>a. a\<lparr>adj_status := AdjApplied\<rparr>) (adjustments s)\<rparr>"

text \<open>The ledger entry and the status are two commits; nothing between them can fail.\<close>

definition apply_adjustment :: "stk \<Rightarrow> uuid \<Rightarrow> uuid option \<Rightarrow> timestamp \<Rightarrow> stk result" where
  "apply_adjustment s i user now =
     (case get (adjustments s) i of
        None \<Rightarrow> Inl (NotFoundException ''Inventory adjustment'')
      | Some a \<Rightarrow>
        if adj_status a \<noteq> AdjApproved then Inl (ValidationException ''Only Approved adjustments can be applied.'')
        else if difference a = 0 then Inr (set_applied i s)
        else (case create_ledger_entry s (adjustment_request a i) user now of
            Inl e \<Rightarrow> Inl e
          | Inr (_, s1) \<Rightarrow>
            Inr (stk_emit [Audit ''INVENTORY_ADJUSTMENT_APPLY'' ''InventoryAdjustment'' i,
                Notify ''INVENTORY_ADJUSTMENT_APPLIED'' i] (set_applied i s1))))"

section \<open>The legacy adapter keeps the accounts\<close>

definition legacy_moved :: "ledger_request \<Rightarrow> decimal" where
  "legacy_moved r = signed (legacy_direction (lr_direction r)) (lr_quantity r)"

lemma create_ledger_entryD:
  assumes "create_ledger_entry s r user now = Inr (i, s')"
  obtains p before after s1 where "legacy_checks s (lr_key r) = Inr p" "0 < lr_quantity r"
    "apply_balance s (lr_key r) (legacy_direction (lr_direction r)) (lr_quantity r)
       (resolve_negative_stock_policy s (fst (snd (lr_key r))) p) now = Inr ((before, after), s1)"
    "i = stk_next s1"
    "s' = stk_emit [Audit ''STOCK_LEDGER_CREATE'' ''StockLedger'' i]
       (s1\<lparr>ledger := add_row i (legacy_entry r p (type_by_code s (lr_type_code r)) before after user now) (ledger s1),
           stk_next := i + 1\<rparr>)"
proof -
  from assms obtain p where p: "legacy_checks s (lr_key r) = Inr p"
    by (auto simp: create_ledger_entry_def split: sum.splits)
  with assms have q: "0 < lr_quantity r" by (auto simp: create_ledger_entry_def split: if_splits)
  from assms p q obtain x where ap: "apply_balance s (lr_key r) (legacy_direction (lr_direction r)) (lr_quantity r)
       (resolve_negative_stock_policy s (fst (snd (lr_key r))) p) now = Inr x"
    by (auto simp: create_ledger_entry_def split: sum.splits)
  obtain before after s1 where x: "x = ((before, after), s1)" by (cases x) auto
  from assms p q ap x obtain z where ins:
    "insert_ledger (legacy_entry r p (type_by_code s (lr_type_code r)) before after user now) s1 = Inr z"
    by (auto simp: create_ledger_entry_def split: sum.splits)
  obtain k s2 where z: "z = (k, s2)" by (cases z) auto
  from assms p q ap x ins z have "i = k" "s' = stk_emit [Audit ''STOCK_LEDGER_CREATE'' ''StockLedger'' i] s2"
    by (auto simp: create_ledger_entry_def)
  with that [OF p q ap [unfolded x]] insert_ledgerD [OF ins [unfolded z]] show thesis by simp
qed

lemma legacy_entry_fields [simp]:
  "l_key (legacy_entry r p t b a u now) = lr_key r" "l_quantity (legacy_entry r p t b a u now) = lr_quantity r"
  "l_direction (legacy_entry r p t b a u now) = legacy_direction (lr_direction r)"
  by (cases "lr_key r", simp add: legacy_entry_def l_key_def Let_def)+

lemma create_ledger_entry_effect:
  assumes wf: "wf_stk s" and run: "create_ledger_entry s r user now = Inr (i, s')"
  shows "wf_stk s'" "stock_of s' k = stock_of s k + (if k = lr_key r then legacy_moved r else 0)"
    "ledger_stock s' k = ledger_stock s k + (if k = lr_key r then legacy_moved r else 0)"
    "rest s' = rest s" "serials s' = serials s" "batches s' = batches s" "stk_next s \<le> stk_next s'"
proof -
  from run obtain p before after s1 where "legacy_checks s (lr_key r) = Inr p" "0 < lr_quantity r"
    and ap: "apply_balance s (lr_key r) (legacy_direction (lr_direction r)) (lr_quantity r)
       (resolve_negative_stock_policy s (fst (snd (lr_key r))) p) now = Inr ((before, after), s1)"
    and i: "i = stk_next s1"
    and s': "s' = stk_emit [Audit ''STOCK_LEDGER_CREATE'' ''StockLedger'' i]
       (s1\<lparr>ledger := add_row i (legacy_entry r p (type_by_code s (lr_type_code r)) before after user now) (ledger s1),
           stk_next := i + 1\<rparr>)"
    by (rule create_ledger_entryD)
  let ?e = "legacy_entry r p (type_by_code s (lr_type_code r)) before after user now"
  note a = apply_balanceD [OF wf ap]
  have fields: "balances s' = balances s1" "ledger s' = add_row i ?e (ledger s)" "serials s' = serials s1"
    "batches s' = batches s1" "stk_next s' = i + 1" "rest s' = rest s1"
    using a(6) by (simp_all add: s')
  show "wf_stk s'" using a(4,6) i by (auto simp: wf_stk_def fields intro: wf_table_mono wf_table_add_row)
  show "stock_of s' k = stock_of s k + (if k = lr_key r then legacy_moved r else 0)"
    using a(1,2) a(5) [of k] stock_of_cong [OF fields(1)] by (simp add: legacy_moved_def)
  show "ledger_stock s' k = ledger_stock s k + (if k = lr_key r then legacy_moved r else 0)"
    by (auto simp: ledger_stock_def fields sum_rows_add_row legacy_moved_def)
  show "rest s' = rest s" "serials s' = serials s" "batches s' = batches s" "stk_next s \<le> stk_next s'"
    using a(7-10) i by (simp_all add: fields)
qed

section \<open>Recalculation\<close>

lemma derived_with_location:
  "calculate_derived_balance_from_history s (p, w, Some l) = ledger_stock s (p, w, Some l)"
  by (auto simp: calculate_derived_balance_from_history_def ledger_stock_def l_key_def
      intro: arg_cong [where f = "\<lambda>f. sum_rows f (ledger s)"])

lemma stock_of_upsert:
  assumes wf: "wf_stk s"
  shows "stock_of (upsert_balance s k q r d t now) k' = (if k' = k then q else stock_of s k')"
proof -
  have dist: "distinct (keys (balances s))" using wf by (simp add: wf_stk_def wf_table_def)
  show ?thesis
  proof (cases "get_by_keys s k")
    case None
    then show ?thesis
      by (auto simp: upsert_balance_def stock_of_def get_by_keys_def first_where_add_row bal_key_def new_balance_def
          split: option.splits prod.splits)
  next
    case (Some x)
    obtain i b where x: "x = (i, b)" by (cases x)
    have look: "get_by_keys (upsert_balance s k q r d t now) k'' = map_option (\<lambda>(j, y). (j, if j = i then
        y\<lparr>available_quantity := q, reserved_quantity := r, damaged_quantity := d, in_transit_quantity := t,
          last_calculated := now\<rparr> else y)) (get_by_keys s k'')" for k''
      using Some x dist by (simp add: upsert_balance_def get_by_keys_def first_where_modify bal_key_def)
    show ?thesis
    proof (cases "k' = k")
      case True
      with Some x show ?thesis by (simp add: stock_of_def look)
    next
      case False
      have "j \<noteq> i" if "get_by_keys s k' = Some (j, y)" for j y
      proof
        assume "j = i"
        with that have "get (balances s) i = Some y" using dist by (auto simp: get_by_keys_def intro: first_where_get)
        moreover have "get (balances s) i = Some b" using Some x dist by (auto simp: get_by_keys_def intro: first_where_get)
        ultimately have "y = b" by simp
        with that Some x False show False by (auto dest: get_by_keys_bal_key)
      qed
      with False show ?thesis by (auto simp: stock_of_def look split: option.splits)
    qed
  qed
qed

end
