(* ===== verification/StockSystem.thy ===== *)
theory StockSystem
  imports StockServices
begin

text \<open>
  The inventory engine as a transition system over the movement engine, the legacy adapter,
  opening stock and adjustments (\<^verbatim>\<open>src/app/services/stock_engine_services.py\<close>), and the contract
  that the documents of the warehouse rely on, the locale \<open>stock_port\<close>.

  The lemmas show that the ledger only grows, that the stock of every key is the sum of its
  ledger rows, and what a movement does to serial numbers and batches.
\<close>

section \<open>Serial numbers\<close>

definition sn_status_of :: "stk \<Rightarrow> string \<Rightarrow> string option" where
  "sn_status_of s sn = map_option (\<lambda>(i, x). sn_status x) (serial_by_number s sn)"

definition wf_serials :: "stk \<Rightarrow> bool" where
  "wf_serials s = (wf_table (stk_next s) (serials s) \<and> unique_on serial_number (serials s))"

lemma wf_stk_serials: "wf_stk s \<Longrightarrow> wf_serials s"
  by (simp add: wf_stk_def wf_serials_def)

lemma serials_moved_wf: "serials_moved s s' \<Longrightarrow> wf_serials s \<Longrightarrow> wf_serials s'"
  by (simp add: serials_moved_def wf_serials_def)

lemma serial_rows_distinct:
  assumes "wf_serials s" and "serial_by_number s a = Some (i, x)" and "serial_by_number s b = Some (i, y)"
  shows "a = b"
proof -
  have dist: "distinct (keys (serials s))" using assms(1) by (simp add: wf_serials_def wf_table_def)
  have "get (serials s) i = Some x" "get (serials s) i = Some y"
    using assms(2,3) dist by (auto simp: serial_by_number_def intro: first_where_get)
  then have "x = y" by simp
  with assms(2,3) show ?thesis by (auto simp: serial_by_number_def dest!: first_where_Some)
qed

lemma sn_status_modify:
  assumes wf: "wf_serials s" and at: "serial_by_number s sn = Some (i, x)"
    and num: "\<And>r. serial_number (f r) = serial_number r" and st: "\<And>r. sn_status (f r) = v"
  shows "sn_status_of (s\<lparr>serials := modify i f (serials s)\<rparr>) k = (if k = sn then Some v else sn_status_of s k)"
proof -
  have "distinct (keys (serials s))" using wf by (simp add: wf_serials_def wf_table_def)
  then have look: "serial_by_number (s\<lparr>serials := modify i f (serials s)\<rparr>) k =
      map_option (\<lambda>(j, r). (j, if j = i then f r else r)) (serial_by_number s k)" for k
    by (simp add: serial_by_number_def first_where_modify num)
  show ?thesis
  proof (cases "k = sn")
    case True
    with at show ?thesis by (simp add: sn_status_of_def look st)
  next
    case False
    have "j \<noteq> i" if "serial_by_number s k = Some (j, y)" for j y
      using serial_rows_distinct [OF wf at, of k y] that False by auto
    with False show ?thesis by (cases "serial_by_number s k") (force simp: sn_status_of_def look)+
  qed
qed

lemma serial_out_status:
  assumes "wf_serials s" and "serial_out m ty now sn s = Inr s'"
  shows "sn_status_of s' k = (if k = sn then Some ''Issued'' else sn_status_of s k)"
    "sn_status_of s sn = Some ''Available'' \<or> sn_status_of s sn = Some ''Reserved''"
proof -
  from assms(2) obtain i x where x: "serial_by_number s sn = Some (i, x)"
    and st: "sn_status x = ''Available'' \<or> sn_status x = ''Reserved''"
    and s': "s' = s\<lparr>serials := modify i (\<lambda>x. x\<lparr>sn_status := ''Issued'',
              sn_history := sn_history x @ [sn_log ''STOCK_OUT'' ty (m_warehouse_id m) None now]\<rparr>) (serials s)\<rparr>"
    by (auto simp: serial_out_def split: option.splits if_splits)
  show "sn_status_of s' k = (if k = sn then Some ''Issued'' else sn_status_of s k)"
    unfolding s' by (rule sn_status_modify [OF assms(1) x]) simp_all
  show "sn_status_of s sn = Some ''Available'' \<or> sn_status_of s sn = Some ''Reserved''"
    using x st by (simp add: sn_status_of_def)
qed

lemma serial_in_status:
  assumes "wf_serials s" and "serial_in m ty now sn s = Inr s'"
  shows "sn_status_of s' k = (if k = sn then Some ''Available'' else sn_status_of s k)"
    "sn_status_of s sn \<noteq> Some ''Available''"
proof -
  have "sn_status_of s' k = (if k = sn then Some ''Available'' else sn_status_of s k) \<and>
      sn_status_of s sn \<noteq> Some ''Available''"
  proof (cases "serial_by_number s sn")
    case None
    with assms(2) show ?thesis
      by (auto simp: serial_in_def sn_status_of_def serial_by_number_def first_where_add_row split: option.splits)
  next
    case (Some ix)
    obtain i x where ix: "ix = (i, x)" by (cases ix)
    with Some assms(2) have st: "sn_status x \<noteq> ''Available''" and s': "s' = s\<lparr>serials := modify i
        (\<lambda>x. x\<lparr>sn_status := ''Available'', sn_warehouse_id := Some (m_warehouse_id m), sn_location_id := m_location_id m,
          sn_batch_id := (case m_batch_id m of None \<Rightarrow> sn_batch_id x | Some b \<Rightarrow> Some b),
          sn_history := sn_history x @ [sn_log ''STOCK_IN'' ty (m_warehouse_id m) (m_location_id m) now]\<rparr>) (serials s)\<rparr>"
      by (auto simp: serial_in_def split: if_splits)
    have "sn_status_of s' k = (if k = sn then Some ''Available'' else sn_status_of s k)"
      unfolding s' using Some ix by (intro sn_status_modify [OF assms(1)]) simp_all
    with st Some ix show ?thesis by (simp add: sn_status_of_def)
  qed
  then show "sn_status_of s' k = (if k = sn then Some ''Available'' else sn_status_of s k)"
    "sn_status_of s sn \<noteq> Some ''Available''" by auto
qed

lemma fold_serial_status:
  assumes step: "\<And>sn s s' k. wf_serials s \<Longrightarrow> f sn s = Inr s' \<Longrightarrow>
      sn_status_of s' k = (if k = sn then Some v else sn_status_of s k) \<and> P (sn_status_of s sn) \<and> serials_moved s s'"
    and "distinct sns" and "wf_serials s" and "fold_res f sns s = Inr s'"
  shows "sn_status_of s' k = (if k \<in> set sns then Some v else sn_status_of s k) \<and>
    (\<forall>sn\<in>set sns. P (sn_status_of s sn))"
  using assms(2-4)
proof (induction sns arbitrary: s)
  case (Cons sn sns)
  from Cons.prems obtain t where t: "f sn s = Inr t" "fold_res f sns t = Inr s'" by (auto split: sum.splits)
  note st = step [OF Cons.prems(2) t(1)]
  have "wf_serials t" using st Cons.prems(2) by (blast intro: serials_moved_wf)
  with Cons.IH [of t] Cons.prems(1) t(2)
  have "sn_status_of s' k = (if k \<in> set sns then Some v else sn_status_of t k)"
    "\<forall>x\<in>set sns. P (sn_status_of t x)" by auto
  moreover have "sn_status_of t x = sn_status_of s x" if "x \<in> set sns" for x
    using st that Cons.prems(1) by auto
  ultimately show ?case using st by auto
qed simp

lemma serial_step_status:
  assumes wf: "wf_serials s" and run: "serial_step m p qty ty d now s = Inr s'"
  shows "sn_status_of s' k = (if k \<in> set (m_serial_numbers m)
      then Some (case d of DirIn \<Rightarrow> ''Available'' | DirOut \<Rightarrow> ''Issued'') else sn_status_of s k)"
    "sn \<in> set (m_serial_numbers m) \<Longrightarrow> (case d of DirIn \<Rightarrow> sn_status_of s sn \<noteq> Some ''Available''
      | DirOut \<Rightarrow> sn_status_of s sn = Some ''Available'' \<or> sn_status_of s sn = Some ''Reserved'')"
    "m_serial_numbers m \<noteq> [] \<Longrightarrow> qty = of_nat (length (m_serial_numbers m)) \<and> distinct (m_serial_numbers m)"
proof -
  have "sn_status_of s' k = (if k \<in> set (m_serial_numbers m)
      then Some (case d of DirIn \<Rightarrow> ''Available'' | DirOut \<Rightarrow> ''Issued'') else sn_status_of s k) \<and>
    (\<forall>sn\<in>set (m_serial_numbers m). (case d of DirIn \<Rightarrow> sn_status_of s sn \<noteq> Some ''Available''
      | DirOut \<Rightarrow> sn_status_of s sn = Some ''Available'' \<or> sn_status_of s sn = Some ''Reserved'')) \<and>
    (m_serial_numbers m \<noteq> [] \<longrightarrow> qty = of_nat (length (m_serial_numbers m)) \<and> distinct (m_serial_numbers m))"
  proof (cases "m_serial_numbers m = []")
    case True
    with run show ?thesis by (auto simp: serial_step_def split: if_splits)
  next
    case False
    with run have q: "qty = of_nat (length (m_serial_numbers m))" "distinct (m_serial_numbers m)"
      and f: "fold_res (case d of DirIn \<Rightarrow> serial_in m ty now | DirOut \<Rightarrow> serial_out m ty now) (m_serial_numbers m) s = Inr s'"
      by (auto simp: serial_step_def Let_def split: if_splits)
    show ?thesis
    proof (cases d)
      case DirIn
      with f fold_serial_status [where f = "serial_in m ty now" and v = "''Available''" and P = "\<lambda>x. x \<noteq> Some ''Available''",
          OF _ q(2) wf, of s' k] q show ?thesis
        by (simp add: serial_in_status serial_in_moved)
    next
      case DirOut
      with f fold_serial_status [where f = "serial_out m ty now" and v = "''Issued''"
          and P = "\<lambda>x. x = Some ''Available'' \<or> x = Some ''Reserved''", OF _ q(2) wf, of s' k] q show ?thesis
        by (simp add: serial_out_status serial_out_moved)
    qed
  qed
  then show "sn_status_of s' k = (if k \<in> set (m_serial_numbers m)
      then Some (case d of DirIn \<Rightarrow> ''Available'' | DirOut \<Rightarrow> ''Issued'') else sn_status_of s k)"
    "sn \<in> set (m_serial_numbers m) \<Longrightarrow> (case d of DirIn \<Rightarrow> sn_status_of s sn \<noteq> Some ''Available''
      | DirOut \<Rightarrow> sn_status_of s sn = Some ''Available'' \<or> sn_status_of s sn = Some ''Reserved'')"
    "m_serial_numbers m \<noteq> [] \<Longrightarrow> qty = of_nat (length (m_serial_numbers m)) \<and> distinct (m_serial_numbers m)"
    by auto
qed

section \<open>Steps\<close>

text \<open>Successful calls; opening stock is listed with the database it leaves, failed or not.
  The recalculation of a key with a location is a step, that of a key without one is not: it
  replaces the stock of the key by that of the whole warehouse.\<close>

inductive stk_step :: "stk \<Rightarrow> stk \<Rightarrow> bool" where
  movement: "process_movement s m user now commit = Inr (i, s') \<Longrightarrow> stk_step s s'"
| legacy: "create_ledger_entry s r user now = Inr (i, s') \<Longrightarrow> stk_step s s'"
| recalculate: "stk_step s (recalculate_balance_projection s (p, w, Some l) now)"
| touch_balance: "stk_step s (get_or_create_balance s k now)"
| open_stock: "create_opening_stock s oc user now = (r, s') \<Longrightarrow> stk_step s s'"
| draft: "create_adjustment s ac user = Inr (i, s') \<Longrightarrow> stk_step s s'"
| amend: "update_adjustment s i reason actual = Inr s' \<Longrightarrow> stk_step s s'"
| approve: "approve_adjustment s i user now = Inr s' \<Longrightarrow> stk_step s s'"
| apply_it: "apply_adjustment s i user now = Inr s' \<Longrightarrow> stk_step s s'"

text \<open>Masters, batches and serial numbers are there from the start; nothing has moved yet.\<close>

definition stk_init :: "stk \<Rightarrow> bool" where
  "stk_init s = (wf_stk s \<and> balances s = [] \<and> ledger s = [] \<and> openings s = [] \<and> adjustments s = [])"

inductive stk_reachable :: "stk \<Rightarrow> bool" where
  init: "stk_init s \<Longrightarrow> stk_reachable s"
| step: "stk_reachable s \<Longrightarrow> stk_step s s' \<Longrightarrow> stk_reachable s'"

definition stk_inv :: "stk \<Rightarrow> bool" where
  "stk_inv s = (wf_stk s \<and> (\<forall>k. stock_of s k = ledger_stock s k))"

lemma stk_inv_stock: "stk_inv s \<Longrightarrow> stock_of s k = ledger_stock s k"
  by (cases k) (simp add: stk_inv_def)

text \<open>A step that moves stock and ledger of every key alike.\<close>

lemma stk_inv_moved:
  assumes "stk_inv s" and "wf_stk s'"
    and "\<And>k. stock_of s' k = stock_of s k + d k" and "\<And>k. ledger_stock s' k = ledger_stock s k + d k"
  shows "stk_inv s'"
  using assms by (simp add: stk_inv_def)

lemma stk_inv_docs:
  assumes "stk_inv s" and "balances s' = balances s" and "ledger s' = ledger s" and "serials s' = serials s"
    and "batches s' = batches s" and "stk_next s \<le> stk_next s'"
  shows "stk_inv s'"
  using assms stock_of_cong [OF assms(2)] ledger_stock_cong [OF assms(3)]
  by (auto simp: stk_inv_def wf_stk_def intro: wf_table_mono)

lemma upsert_wf:
  assumes "wf_stk s"
  shows "wf_stk (upsert_balance s k q r d t now)"
proof (cases "get_by_keys s k")
  case None
  with assms show ?thesis
    by (auto simp: upsert_balance_def wf_stk_def unique_on_add_row get_by_keys_def bal_key_def new_balance_def
        intro: wf_table_add_row wf_table_mono split: prod.splits)
next
  case (Some x)
  with assms show ?thesis
    by (cases x) (simp add: upsert_balance_def wf_stk_def table_simps unique_on_modify bal_key_def)
qed

lemma upsert_frame [simp]:
  "ledger (upsert_balance s k q r d t now) = ledger s" "serials (upsert_balance s k q r d t now) = serials s"
  "batches (upsert_balance s k q r d t now) = batches s" "rest (upsert_balance s k q r d t now) = rest s"
  by (auto simp: upsert_balance_def split: option.splits)

lemma stk_inv_upsert:
  assumes "stk_inv s" and "q = ledger_stock s k"
  shows "stk_inv (upsert_balance s k q r d t now)"
  using assms
  by (auto simp: stk_inv_def upsert_wf stock_of_upsert ledger_stock_cong [OF upsert_frame(1)])

lemma legacy_inv:
  assumes "stk_inv s" and "create_ledger_entry s r user now = Inr (i, s')"
  shows "stk_inv s'"
  using create_ledger_entry_effect [OF _ assms(2)] assms(1) by (auto simp: stk_inv_def)

lemma movement_inv:
  assumes "stk_inv s" and "process_movement s m user now commit = Inr (i, s')"
  shows "stk_inv s'"
proof (cases "known_key s (m_idempotency_key m)")
  case None
  from process_movement_effect [OF _ assms(2) None] assms(1) show ?thesis by (auto simp: stk_inv_def)
next
  case (Some j)
  with assms show ?thesis by (simp add: process_movement_known)
qed

lemma set_applied_frame [simp]:
  "balances (set_applied i s) = balances s" "ledger (set_applied i s) = ledger s"
  "serials (set_applied i s) = serials s" "batches (set_applied i s) = batches s"
  "stk_next (set_applied i s) = stk_next s"
  by (simp_all add: set_applied_def)

lemma stk_step_inv:
  assumes "stk_step s s'" and inv: "stk_inv s"
  shows "stk_inv s'"
  using assms(1)
proof cases
  case (movement m user now commit i)
  then show ?thesis by (rule movement_inv [OF inv])
next
  case (legacy r user now i)
  then show ?thesis by (rule legacy_inv [OF inv])
next
  case (recalculate p w l now)
  with stk_inv_upsert [OF inv, of _ "(p, w, Some l)"] show ?thesis
    by (simp add: recalculate_balance_projection_def derived_with_location)
next
  case (touch_balance k now)
  show ?thesis
  proof (cases "get_by_keys s k")
    case None
    then have "0 = ledger_stock s k" using stk_inv_stock [OF inv, of k] by (simp add: stock_of_def)
    from stk_inv_upsert [OF inv this] None touch_balance show ?thesis by (simp add: get_or_create_balance_def)
  next
    case (Some x)
    with inv touch_balance show ?thesis by (simp add: get_or_create_balance_def)
  qed
next
  case (open_stock oc user now r)
  let ?i = "stk_next s"
  let ?s1 = "s\<lparr>openings := add_row ?i (opening_row oc user) (openings s), stk_next := ?i + 1\<rparr>"
  have s1: "stk_inv ?s1" by (rule stk_inv_docs [OF inv]) simp_all
  have "stk_inv (stk_emit es t)" if "create_ledger_entry ?s1 (opening_request oc ?i) user now = Inr (j, t)" for j t es
    by (rule stk_inv_docs [OF legacy_inv [OF s1 that]]) simp_all
  with open_stock inv s1 show ?thesis
    by (auto simp: create_opening_stock_def Let_def split: if_splits sum.splits)
next
  case (draft ac user i)
  then show ?thesis
    by (intro stk_inv_docs [OF inv]) (auto simp: create_adjustment_def Let_def split: sum.splits if_splits)
next
  case (amend i reason actual)
  then show ?thesis
    by (intro stk_inv_docs [OF inv]) (auto simp: update_adjustment_def Let_def split: option.splits if_splits)
next
  case (approve i user now)
  then show ?thesis
    by (intro stk_inv_docs [OF inv]) (auto simp: approve_adjustment_def split: option.splits if_splits)
next
  case (apply_it i user now)
  then obtain a where a: "get (adjustments s) i = Some a"
    by (auto simp: apply_adjustment_def split: option.splits)
  show ?thesis
  proof (cases "difference a = 0")
    case True
    with apply_it a show ?thesis
      by (intro stk_inv_docs [OF inv]) (auto simp: apply_adjustment_def split: if_splits)
  next
    case False
    with apply_it a obtain j t where t: "create_ledger_entry s (adjustment_request a i) user now = Inr (j, t)"
      and s': "s' = stk_emit [Audit ''INVENTORY_ADJUSTMENT_APPLY'' ''InventoryAdjustment'' i,
                Notify ''INVENTORY_ADJUSTMENT_APPLIED'' i] (set_applied i t)"
      by (auto simp: apply_adjustment_def split: if_splits sum.splits)
    show ?thesis by (rule stk_inv_docs [OF legacy_inv [OF inv t]]) (simp_all add: s')
  qed
qed

lemma stk_init_inv: "stk_init s \<Longrightarrow> stk_inv s"
  by (simp add: stk_init_def stk_inv_def stock_of_def get_by_keys_def first_where_def ledger_stock_def sum_rows_def)

lemma stk_reachable_inv: "stk_reachable s \<Longrightarrow> stk_inv s"
  by (induction rule: stk_reachable.induct) (auto intro: stk_init_inv stk_step_inv)

section \<open>The ledger only grows\<close>

definition ledger_extends :: "stk \<Rightarrow> stk \<Rightarrow> bool" where
  "ledger_extends s s' = (\<exists>rows. ledger s' = ledger s @ rows)"

lemma ledger_extends_refl [simp]: "ledger_extends s s"
  by (simp add: ledger_extends_def)

lemma ledger_extends_same: "ledger s' = ledger s \<Longrightarrow> ledger_extends s s'"
  by (simp add: ledger_extends_def)

lemma legacy_extends:
  assumes "create_ledger_entry s r user now = Inr (i, s')" and "wf_stk s"
  shows "ledger_extends s s'"
  using assms(1)
  by (rule create_ledger_entryD)
    (auto simp: ledger_extends_def add_row_def dest!: apply_balanceD(6) [OF assms(2)])

lemma movement_extends:
  assumes "process_movement s m user now commit = Inr (i, s')" and "wf_stk s"
  shows "ledger_extends s s'"
proof (cases "known_key s (m_idempotency_key m)")
  case None
  from process_movement_effect(4) [OF assms(2,1) None] show ?thesis
    by (auto simp: ledger_extends_def add_row_def)
next
  case (Some j)
  with assms show ?thesis by (simp add: process_movement_known)
qed

lemma stk_step_extends:
  assumes "stk_step s s'" and wf: "wf_stk s"
  shows "ledger_extends s s'"
  using assms(1)
proof cases
  case (movement m user now commit i)
  then show ?thesis by (rule movement_extends [OF _ wf])
next
  case (legacy r user now i)
  then show ?thesis by (rule legacy_extends [OF _ wf])
next
  case (open_stock oc user now r)
  let ?i = "stk_next s"
  let ?s1 = "s\<lparr>openings := add_row ?i (opening_row oc user) (openings s), stk_next := ?i + 1\<rparr>"
  have "wf_stk ?s1" using wf by (auto simp: wf_stk_def intro: wf_table_mono)
  from legacy_extends [OF _ this] open_stock show ?thesis
    by (fastforce simp: create_opening_stock_def Let_def ledger_extends_def split: if_splits sum.splits)
next
  case (apply_it i user now)
  then show ?thesis
    by (fastforce simp: apply_adjustment_def ledger_extends_def split: option.splits if_splits sum.splits
        dest: legacy_extends [OF _ wf])
qed (auto intro!: ledger_extends_same simp: recalculate_balance_projection_def get_or_create_balance_def
    create_adjustment_def update_adjustment_def approve_adjustment_def Let_def split: option.splits sum.splits if_splits)

text \<open>Keys are drawn upwards.\<close>

lemma upsert_next: "stk_next s \<le> stk_next (upsert_balance s k q r d t now)"
  by (auto simp: upsert_balance_def split: option.splits)

lemma stk_step_next:
  assumes "stk_step s s'" and wf: "wf_stk s"
  shows "stk_next s \<le> stk_next s'"
  using assms(1)
proof cases
  case (movement m user now commit i)
  then show ?thesis
    using process_movement_effect(6) [OF wf movement] by (cases "known_key s (m_idempotency_key m)") (auto simp: process_movement_known)
next
  case (legacy r user now i)
  then show ?thesis by (rule create_ledger_entry_effect(7) [OF wf])
next
  case (open_stock oc user now r)
  let ?i = "stk_next s"
  let ?s1 = "s\<lparr>openings := add_row ?i (opening_row oc user) (openings s), stk_next := ?i + 1\<rparr>"
  have "wf_stk ?s1" using wf by (auto simp: wf_stk_def intro: wf_table_mono)
  from create_ledger_entry_effect(7) [OF this] open_stock show ?thesis
    by (fastforce simp: create_opening_stock_def Let_def split: if_splits sum.splits)
next
  case (apply_it i user now)
  then show ?thesis
    by (fastforce simp: apply_adjustment_def split: option.splits if_splits sum.splits
        dest: create_ledger_entry_effect(7) [OF wf])
qed (auto simp: recalculate_balance_projection_def get_or_create_balance_def upsert_next
    create_adjustment_def update_adjustment_def approve_adjustment_def Let_def split: option.splits sum.splits if_splits)

section \<open>The contract of the movement engine\<close>

text \<open>What a warehouse document relies on: a request moves the level of its key by its quantity
  and of no other key.\<close>

locale stock_port =
  fixes move :: "'r \<Rightarrow> 's \<Rightarrow> 's result" and level :: "'s \<Rightarrow> 'k \<Rightarrow> decimal"
    and key :: "'r \<Rightarrow> 'k" and amount :: "'r \<Rightarrow> decimal" and fresh :: "'r \<Rightarrow> bool" and good :: "'s \<Rightarrow> bool"
  assumes move_good: "good s \<Longrightarrow> fresh r \<Longrightarrow> move r s = Inr s' \<Longrightarrow> good s'"
    and move_level: "good s \<Longrightarrow> fresh r \<Longrightarrow> move r s = Inr s' \<Longrightarrow>
      level s' k = level s k + (if k = key r then amount r else 0)"
begin

definition amount_at :: "'r list \<Rightarrow> 'k \<Rightarrow> decimal" where
  "amount_at rs k = sum_list (map (\<lambda>r. if k = key r then amount r else 0) rs)"

lemma moves_level:
  assumes "good s" and "list_all fresh rs" and "fold_res move rs s = Inr s'"
  shows "good s' \<and> level s' k = level s k + amount_at rs k"
  using assms
proof (induction rs arbitrary: s)
  case (Cons r rs)
  from Cons.prems(3) obtain t where t: "move r s = Inr t" "fold_res move rs t = Inr s'" by (auto split: sum.splits)
  have "good t" using Cons.prems(1,2) t(1) by (auto intro: move_good)
  with Cons.IH [of t] Cons.prems(2) t(2) move_level [OF Cons.prems(1) _ t(1), of k]
  show ?case by (simp add: amount_at_def)
qed (simp add: amount_at_def)

text \<open>Over keys that hold every request, the levels grow by the sum of the amounts.\<close>

lemma moves_total:
  assumes "good s" and "list_all fresh rs" and "fold_res move rs s = Inr s'"
    and "distinct ks" and "list_all (\<lambda>r. key r \<in> set ks) rs"
  shows "sum_list (map (level s') ks) = sum_list (map (level s) ks) + sum_list (map amount rs)"
proof -
  have one: "sum_list (map (\<lambda>k. if k = key r then amount r else 0) ks) = amount r" if "key r \<in> set ks" for r
    using assms(4) that
  proof (induction ks)
    case (Cons a ks)
    have "sum_list (map (\<lambda>k. if k = key r then amount r else 0) ks) = 0" if "key r \<notin> set ks"
      using that by (induction ks) auto
    with Cons show ?case by auto
  qed simp
  have "sum_list (map (amount_at rs) ks) = sum_list (map amount rs)"
    using assms(5)
  proof (induction rs)
    case Nil
    show ?case by (induction ks) (simp_all add: amount_at_def)
  next
    case (Cons r rs)
    then show ?case using one [of r] by (simp add: amount_at_def sum_list_addf)
  qed
  moreover have "sum_list (map (level s') ks) = sum_list (map (level s) ks) + sum_list (map (amount_at rs) ks)"
  proof -
    have "level s' = (\<lambda>k. level s k + amount_at rs k)" using moves_level [OF assms(1-3)] by auto
    then show ?thesis by (simp add: sum_list_addf)
  qed
  ultimately show ?thesis by simp
qed

end

text \<open>The two calls the documents make, without an idempotency key.\<close>

definition run_in :: "uuid option \<Rightarrow> timestamp \<Rightarrow> movement \<Rightarrow> stk \<Rightarrow> stk result" where
  "run_in user now m s = (case stock_in s m user now False of Inl e \<Rightarrow> Inl e | Inr (i, s') \<Rightarrow> Inr s')"

definition run_out :: "uuid option \<Rightarrow> timestamp \<Rightarrow> movement \<Rightarrow> stk \<Rightarrow> stk result" where
  "run_out user now m s = (case stock_out s m user now False of Inl e \<Rightarrow> Inl e | Inr (i, s') \<Rightarrow> Inr s')"

definition unkeyed :: "movement \<Rightarrow> bool" where
  "unkeyed m = (m_idempotency_key m = None)"

lemma upper_words [simp]:
  "py_upper ''IN'' = ''IN''" "py_upper ''OUT'' = ''OUT''" "py_upper ''STOCK_IN'' = ''STOCK_IN''"
  "py_upper ''STOCK_OUT'' = ''STOCK_OUT''" "py_upper ''ADJUSTMENT'' = ''ADJUSTMENT''"
  by code_simp+

lemma move_request_fields [simp]:
  "m_key (move_request ty d m) = m_key m" "m_idempotency_key (move_request ty d m) = m_idempotency_key m"
  "m_quantity (move_request ty d m) = m_quantity m" "m_serial_numbers (move_request ty d m) = m_serial_numbers m"
  "m_batch_id (move_request ty d m) = m_batch_id m" "m_warehouse_id (move_request ty d m) = m_warehouse_id m"
  by (simp_all add: move_request_def m_key_def)

lemma moved_request [simp]:
  "moved (move_request ''STOCK_IN'' ''IN'' m) = m_quantity m"
  "moved (move_request ''STOCK_OUT'' ''OUT'' m) = - m_quantity m"
  by (simp_all add: moved_def move_request_def normalize_type_def normalize_direction_def truthy_def signed_def)

lemma run_inD:
  assumes "run_in user now m s = Inr s'"
  obtains i where "process_movement s (move_request ''STOCK_IN'' ''IN'' m) user now False = Inr (i, s')" "0 < m_quantity m"
  using assms by (auto simp: run_in_def stock_in_def split: sum.splits if_splits)

lemma run_outD:
  assumes "run_out user now m s = Inr s'"
  obtains i where "process_movement s (move_request ''STOCK_OUT'' ''OUT'' m) user now False = Inr (i, s')" "0 < m_quantity m"
  using assms by (auto simp: run_out_def stock_out_def split: sum.splits if_splits)

lemma unkeyed_fresh: "unkeyed m \<Longrightarrow> known_key s (m_idempotency_key (move_request ty d m)) = None"
  by (simp add: unkeyed_def known_key_def truthy_def)

interpretation inward: stock_port "run_in user now" stock_of m_key m_quantity unkeyed wf_stk for user now
proof
  fix s r s' k
  assume wf: "wf_stk s" and u: "unkeyed r" and run: "run_in user now r s = Inr s'"
  from run obtain i where p: "process_movement s (move_request ''STOCK_IN'' ''IN'' r) user now False = Inr (i, s')"
    by (rule run_inD)
  note eff = process_movement_effect [OF wf p unkeyed_fresh [OF u]]
  show "wf_stk s'" by (rule eff(1))
  show "stock_of s' k = stock_of s k + (if k = m_key r then m_quantity r else 0)" using eff(2) [of k] by simp
qed

interpretation outward: stock_port "run_out user now" stock_of m_key "\<lambda>m. - m_quantity m" unkeyed wf_stk for user now
proof
  fix s r s' k
  assume wf: "wf_stk s" and u: "unkeyed r" and run: "run_out user now r s = Inr s'"
  from run obtain i where p: "process_movement s (move_request ''STOCK_OUT'' ''OUT'' r) user now False = Inr (i, s')"
    by (rule run_outD)
  note eff = process_movement_effect [OF wf p unkeyed_fresh [OF u]]
  show "wf_stk s'" by (rule eff(1))
  show "stock_of s' k = stock_of s k + (if k = m_key r then - m_quantity r else 0)" using eff(2) [of k] by simp
qed

end
