(* ===== verification/StockProperties.thy ===== *)
theory StockProperties
  imports StockSystem
begin

text \<open>
  What the inventory engine (\<^verbatim>\<open>src/app/services/stock_engine_services.py\<close>) promises, over the
  reachable states of \<open>stk_step\<close> and over single calls, each with a concrete run that meets its
  hypotheses.
\<close>

section \<open>A concrete run\<close>

definition demo_product :: "string \<Rightarrow> product" where
  "demo_product tracking = \<lparr>sku = ''P'', base_unit_id = 0, p_is_active = True, is_stockable = True,
     track_inventory = True, allow_negative_stock = False, tracking_type = tracking, p_status = ''Active''\<rparr>"

definition stk0 :: stk where
  "stk0 = \<lparr>products = [(1, demo_product ''NONE''), (2, demo_product ''SERIAL''), (3, demo_product ''BATCH'')],
     warehouses = [(1, \<lparr>wh_code = ''W1'', wh_is_active = True\<rparr>), (2, \<lparr>wh_code = ''W2'', wh_is_active = True\<rparr>)],
     locations = [(5, \<lparr>loc_warehouse_id = 1, loc_is_active = True\<rparr>)], policies = [], type_codes = [],
     batches = [(9, \<lparr>batch_number = ''B'', b_product_id = 3, expiry_date = None, current_quantity = 8,
       b_status = ''Active''\<rparr>)],
     serials = [], balances = [], ledger = [], openings = [], adjustments = [], stk_effects = [], stk_next = 100\<rparr>"

definition demo_move :: "uuid \<Rightarrow> uuid option \<Rightarrow> string \<Rightarrow> decimal \<Rightarrow> movement" where
  "demo_move p l ty q = \<lparr>m_product_id = p, m_warehouse_id = 1, m_location_id = l, m_movement_type = ty,
     m_direction = None, m_quantity = q, m_idempotency_key = None, m_reference_type = None,
     m_reference_id = None, m_batch_id = None, m_serial_numbers = [], m_reason = None, m_notes = None\<rparr>"

definition keyed_move :: movement where
  "keyed_move = (demo_move 1 None ''STOCK_IN'' 10)\<lparr>m_idempotency_key := Some ''k1''\<rparr>"

definition stk_of :: "(uuid \<times> stk) result \<Rightarrow> stk" where
  "stk_of r = (case r of Inl _ \<Rightarrow> stk0 | Inr (i, s) \<Rightarrow> s)"

definition "stk1 = stk_of (process_movement stk0 keyed_move None 3 True)"
definition "stk2 = stk_of (process_movement stk1 (demo_move 1 (Some 5) ''STOCK_IN'' 4) None 4 True)"
definition "stk3 = stk_of (process_movement stk2 (demo_move 1 None ''STOCK_OUT'' 7) None 5 True)"

definition serial_move :: "string \<Rightarrow> movement" where
  "serial_move ty = (demo_move 2 None ty 2)\<lparr>m_serial_numbers := [''S1'', ''S2'']\<rparr>"

definition "stk_s1 = stk_of (process_movement stk0 (serial_move ''STOCK_IN'') None 3 True)"
definition "stk_s2 = stk_of (process_movement stk_s1 (serial_move ''STOCK_OUT'') None 4 True)"

lemmas run_stock =
  get_def add_row_def modify_def exists_where_def first_where_def keys_def Let_def stk_of_def known_key_def truthy_def
  process_movement_def movement_checks_def validate_product_def validate_place_def normalize_type_def
  normalize_direction_def batch_step_def serial_step_def apply_balance_def get_or_create_for_update_def
  get_by_keys_def bal_key_def new_balance_def insert_ledger_def movement_entry_def py_or_def m_key_def
  resolve_negative_stock_policy_def find_by_idempotency_key_def signed_def is_batch_tracked_def is_serial_tracked_def
  serial_in_def serial_out_def serial_by_number_def sn_log_def stk_emit_def stk0_def demo_product_def
  demo_move_def keyed_move_def serial_move_def

lemma upper_tracking [simp]:
  "py_upper ''NONE'' = ''NONE''" "py_upper ''SERIAL'' = ''SERIAL''" "py_upper ''BATCH'' = ''BATCH''"
  by code_simp+

lemma stk1_eq: "process_movement stk0 keyed_move None 3 True = Inr (101, stk1)"
  by (simp add: stk1_def run_stock)

lemma stk2_eq: "process_movement stk1 (demo_move 1 (Some 5) ''STOCK_IN'' 4) None 4 True = Inr (103, stk2)"
  by (simp add: stk2_def stk1_def run_stock)

lemma stk3_eq: "process_movement stk2 (demo_move 1 None ''STOCK_OUT'' 7) None 5 True = Inr (104, stk3)"
  by (simp add: stk3_def stk2_def stk1_def run_stock)

lemma stk_s1_eq: "process_movement stk0 (serial_move ''STOCK_IN'') None 3 True = Inr (103, stk_s1)"
  by (simp add: stk_s1_def run_stock)

lemma stk_s2_eq: "process_movement stk_s1 (serial_move ''STOCK_OUT'') None 4 True = Inr (104, stk_s2)"
  by (simp add: stk_s2_def stk_s1_def run_stock)

lemma stk_runs:
  "stk_reachable stk0" "stk_reachable stk1" "stk_reachable stk2" "stk_reachable stk3" "stk_reachable stk_s1"
proof -
  show 0: "stk_reachable stk0"
    by (rule stk_reachable.init) (simp add: stk_init_def stk0_def wf_stk_def wf_table_def keys_def unique_on_def)
  show 1: "stk_reachable stk1" by (rule stk_reachable.step [OF 0 stk_step.movement [OF stk1_eq]])
  show 2: "stk_reachable stk2" by (rule stk_reachable.step [OF 1 stk_step.movement [OF stk2_eq]])
  show "stk_reachable stk3" by (rule stk_reachable.step [OF 2 stk_step.movement [OF stk3_eq]])
  show "stk_reachable stk_s1" by (rule stk_reachable.step [OF 0 stk_step.movement [OF stk_s1_eq]])
qed

lemma reachable_wf: "stk_reachable s \<Longrightarrow> wf_stk s"
  using stk_reachable_inv by (simp add: stk_inv_def)

lemma policy_cong:
  "policies s' = policies s \<Longrightarrow> resolve_negative_stock_policy s' w p = resolve_negative_stock_policy s w p"
  unfolding resolve_negative_stock_policy_def by (erule ssubst) (rule refl)

section \<open>Stock is the sum of its movements\<close>



text \<open>C4: a movement that is not a repetition moves the stock of its own key by its signed quantity and of no
  other key, and appends one ledger row that records the stock before and after.\<close>
theorem movement_effect:
  assumes "stk_reachable s" and "process_movement s m user now commit = Inr (i, s')"
    and "known_key s (m_idempotency_key m) = None"
  shows "stock_of s' k = stock_of s k + (if k = m_key m then moved m else 0)
    \<and> (\<exists>e. ledger s' = ledger s @ [(i, e)] \<and> l_key e = m_key m \<and> l_quantity e = m_quantity m \<and>
         quantity_before e = stock_of s (m_key m) \<and> quantity_after e = stock_of s' (m_key m))"
  using process_movement_effect(2,4) [OF reachable_wf [OF assms(1)] assms(2,3)]
  by (auto simp: add_row_def)

lemma movement_effect_witness: "stock_of stk3 (1, 1, None) = stock_of stk2 (1, 1, None) - 7"
  using movement_effect [OF stk_runs(3) stk3_eq, of "(1, 1, None)"]
  by (simp add: known_key_def truthy_def demo_move_def m_key_def moved_def normalize_type_def normalize_direction_def signed_def)

text \<open>C7: a movement that succeeds while the policy in force for its warehouse and product forbids negative
  stock leaves its key at zero or more.\<close>
theorem no_negative_stock:
  assumes "stk_reachable s" and "process_movement s m user now commit = Inr (i, s')"
    and "known_key s (m_idempotency_key m) = None" and "get (products s) (m_product_id m) = Some p"
    and "\<not> resolve_negative_stock_policy s (m_warehouse_id m) p"
  shows "0 \<le> stock_of s' (m_key m)"
proof -
  note wf = reachable_wf [OF assms(1)]
  from assms(2,3) obtain q ty d s1 s2 s3 before after where c: "movement_checks s m = Inr (q, ty, d)"
    and b: "batch_step m q (m_quantity m) d now s = Inr s1"
    and sn: "serial_step m q (m_quantity m) ty d now s1 = Inr s2"
    and ap: "apply_balance s2 (m_key m) d (m_quantity m) (resolve_negative_stock_policy s2 (m_warehouse_id m) q) now
       = Inr ((before, after), s3)"
    and i: "i = stk_next s3"
    and s': "s' = (if commit then stk_emit [Audit (movement_action ty d) ''StockLedger'' i] else id)
       (s3\<lparr>ledger := add_row i (movement_entry m q ty d (m_quantity m) before after user now) (ledger s3),
           stk_next := i + 1\<rparr>)"
    by (rule process_movementD)
  have "policies s2 = policies s"
    using batch_step_frame(6) [OF b] serial_step_moved [OF sn] by (simp add: rest_def serials_moved_def)
  moreover have "q = p" using movement_checksD(1) [OF c] assms(4) by simp
  ultimately have "\<not> resolve_negative_stock_policy s2 (m_warehouse_id m) q"
    using assms(5) policy_cong [of s2 s "m_warehouse_id m" p] by simp
  then have "0 \<le> after" using apply_balanceD(3) [OF steps_wf [OF wf b sn] ap] by blast
  moreover have "stock_of s' (m_key m) = after"
    using apply_balanceD(5) [OF steps_wf [OF wf b sn] ap, of "m_key m"] stock_of_cong [of s' s3 "m_key m"] by (simp add: s')
  ultimately show ?thesis by simp
qed

lemma no_negative_stock_witness: "0 \<le> stock_of stk3 (1, 1, None)"
  using no_negative_stock [OF stk_runs(3) stk3_eq, of "demo_product ''NONE''"]
    rest_fields(1,4) [OF process_movement_effect(5) [OF reachable_wf [OF stk_runs(2)] stk2_eq]]
    rest_fields(1,4) [OF process_movement_effect(5) [OF reachable_wf [OF stk_runs(1)] stk1_eq]]
  by (simp add: known_key_def truthy_def find_by_idempotency_key_def demo_move_def keyed_move_def m_key_def
      first_where_def get_def stk0_def resolve_negative_stock_policy_def demo_product_def)

section \<open>Repeated requests\<close>

lemma stk_steps_extend: "stk_step\<^sup>*\<^sup>* s s' \<Longrightarrow> stk_reachable s \<Longrightarrow> stk_reachable s' \<and> ledger_extends s s'"
proof (induction rule: rtranclp_induct)
  case (step t u)
  then have t: "stk_reachable t" "ledger_extends s t" by auto
  have "ledger_extends t u" using stk_step_extends [OF step.hyps(2) reachable_wf [OF t(1)]] .
  with t step.hyps(2) show ?case by (auto simp: ledger_extends_def intro: stk_reachable.step)
qed simp

text \<open>ledger rows are never changed or removed: whatever is called, the ledger of a later state is the
  earlier one with rows appended.\<close>
theorem ledger_append_only:
  assumes "stk_reachable s" and "stk_step\<^sup>*\<^sup>* s s'"
  shows "\<exists>rows. ledger s' = ledger s @ rows"
  using stk_steps_extend [OF assms(2,1)] by (simp add: ledger_extends_def)

lemma ledger_append_only_witness: "\<exists>rows. ledger stk3 = ledger stk2 @ rows"
  by (rule ledger_append_only [OF stk_runs(3)]) (rule r_into_rtranclp, rule stk_step.movement [OF stk3_eq])

text \<open>C9: a movement with an idempotency key happens once: after it succeeded, every later movement with
  that key, whatever else it asks for, changes nothing and returns the row of the first.\<close>
theorem idempotent_movement:
  assumes "stk_reachable s" and "process_movement s m user now commit = Inr (i, s')"
    and "known_key s (m_idempotency_key m) = None" and "truthy (m_idempotency_key m)"
    and "stk_step\<^sup>*\<^sup>* s' s''" and "m_idempotency_key m' = m_idempotency_key m"
  shows "process_movement s'' m' user' now' commit' = Inr (i, s'')"
proof -
  from process_movement_effect(4) [OF reachable_wf [OF assms(1)] assms(2,3)] obtain e
    where e: "ledger s' = add_row i e (ledger s)" "idempotency_key e = m_idempotency_key m" by blast
  have "stk_reachable s'" using assms(1,2) by (blast intro: stk_reachable.step stk_step.movement)
  with stk_steps_extend [OF assms(5)] obtain rows where r: "ledger s'' = ledger s' @ rows"
    by (auto simp: ledger_extends_def)
  obtain key where key: "m_idempotency_key m = Some key" "key \<noteq> ''''"
    using assms(4) by (auto simp: truthy_def split: option.splits)
  have "first_where P (t @ u) = (case first_where P t of Some x \<Rightarrow> Some x | None \<Rightarrow> first_where P u)" for P and t u :: "ledger_row table"
    by (induction t) (auto simp: first_where_def)
  moreover have "first_where (\<lambda>x. idempotency_key x = Some key) (ledger s) = None"
    using assms(3) key by (simp add: known_key_def truthy_def find_by_idempotency_key_def)
  ultimately have "find_by_idempotency_key s'' key = Some (i, e)"
    using e key by (simp add: find_by_idempotency_key_def r first_where_add_row)
  then show ?thesis using assms(6) key by (intro process_movement_known) (simp add: known_key_def truthy_def)
qed

lemma idempotent_movement_witness:
  "process_movement stk2 (keyed_move\<lparr>m_quantity := 99\<rparr>) None 9 True = Inr (101, stk2)"
  by (rule idempotent_movement [OF stk_runs(1) stk1_eq])
    (auto simp: known_key_def truthy_def find_by_idempotency_key_def first_where_def stk0_def keyed_move_def
      intro!: r_into_rtranclp stk_step.movement [OF stk2_eq])

section \<open>Serial numbers and batches\<close>

text \<open>a movement with serial numbers moves as many pieces as it names, every name once; an issue takes
  only numbers that were available or reserved and leaves them issued, a receipt takes only numbers that
  were not available and leaves them available; no other number changes its status.\<close>
theorem movement_serials:
  assumes "stk_reachable s" and "process_movement s m user now commit = Inr (i, s')"
    and "known_key s (m_idempotency_key m) = None" and "m_serial_numbers m \<noteq> []"
    and "normalize_direction (normalize_type (m_movement_type m)) (m_direction m) = Inr d"
  shows "m_quantity m = of_nat (length (m_serial_numbers m)) \<and> distinct (m_serial_numbers m)
    \<and> list_all (\<lambda>sn. case d of DirIn \<Rightarrow> sn_status_of s sn \<noteq> Some ''Available''
        | DirOut \<Rightarrow> sn_status_of s sn = Some ''Available'' \<or> sn_status_of s sn = Some ''Reserved'') (m_serial_numbers m)
    \<and> sn_status_of s' k = (if k \<in> set (m_serial_numbers m)
        then Some (case d of DirIn \<Rightarrow> ''Available'' | DirOut \<Rightarrow> ''Issued'') else sn_status_of s k)"
proof -
  note wf = reachable_wf [OF assms(1)]
  from assms(2,3) obtain q ty d' s1 s2 s3 before after where c: "movement_checks s m = Inr (q, ty, d')"
    and b: "batch_step m q (m_quantity m) d' now s = Inr s1"
    and sn: "serial_step m q (m_quantity m) ty d' now s1 = Inr s2"
    and ap: "apply_balance s2 (m_key m) d' (m_quantity m) (resolve_negative_stock_policy s2 (m_warehouse_id m) q) now
       = Inr ((before, after), s3)"
    and i: "i = stk_next s3"
    and s': "s' = (if commit then stk_emit [Audit (movement_action ty d') ''StockLedger'' i] else id)
       (s3\<lparr>ledger := add_row i (movement_entry m q ty d' (m_quantity m) before after user now) (ledger s3),
           stk_next := i + 1\<rparr>)"
    by (rule process_movementD)
  have d: "d' = d" using movement_checksD(4,5) [OF c] assms(5) by simp
  have s1: "sn_status_of s1 x = sn_status_of s x" for x
    using batch_step_frame(3) [OF b] by (simp add: sn_status_of_def serial_by_number_def)
  have s3: "sn_status_of s' x = sn_status_of s2 x" for x
    using apply_balanceD(7) [OF steps_wf [OF wf b sn] ap] by (simp add: s' sn_status_of_def serial_by_number_def)
  have "wf_serials s1" using wf_stk_serials [OF wf] batch_step_frame(3,4) [OF b] by (simp add: wf_serials_def)
  from serial_step_status [OF this sn] assms(4) d s1 s3 show ?thesis by (cases d) (simp_all add: list_all_iff)
qed

lemma movement_serials_witness: "sn_status_of stk_s2 ''S1'' = Some ''Issued''"
  using movement_serials [OF stk_runs(5) stk_s2_eq, of DirOut "''S1''"]
  by (simp add: serial_move_def demo_move_def known_key_def truthy_def normalize_type_def normalize_direction_def)

text \<open>an issue from a batch succeeds only while the batch is not expired and holds the quantity; it
  leaves the batch with the quantity less, never below zero, and marks it consumed when it is empty.\<close>
theorem batch_issue:
  assumes "stk_reachable s" and "process_movement s m user now commit = Inr (i, s')"
    and "known_key s (m_idempotency_key m) = None" and "m_batch_id m = Some bi"
    and "normalize_direction (normalize_type (m_movement_type m)) (m_direction m) = Inr DirOut"
    and "get (batches s) bi = Some b"
  shows "m_quantity m \<le> current_quantity b \<and> (\<forall>e. expiry_date b = Some e \<longrightarrow> now < e)
    \<and> get (batches s') bi = Some (b\<lparr>current_quantity := current_quantity b - m_quantity m,
        b_status := (if current_quantity b = m_quantity m then ''Consumed'' else b_status b)\<rparr>)"
proof -
  note wf = reachable_wf [OF assms(1)]
  from assms(2,3) obtain q ty d' s1 s2 s3 before after where c: "movement_checks s m = Inr (q, ty, d')"
    and b: "batch_step m q (m_quantity m) d' now s = Inr s1"
    and sn: "serial_step m q (m_quantity m) ty d' now s1 = Inr s2"
    and ap: "apply_balance s2 (m_key m) d' (m_quantity m) (resolve_negative_stock_policy s2 (m_warehouse_id m) q) now
       = Inr ((before, after), s3)"
    and i: "i = stk_next s3"
    and s': "s' = (if commit then stk_emit [Audit (movement_action ty d') ''StockLedger'' i] else id)
       (s3\<lparr>ledger := add_row i (movement_entry m q ty d' (m_quantity m) before after user now) (ledger s3),
           stk_next := i + 1\<rparr>)"
    by (rule process_movementD)
  have d: "d' = DirOut" using movement_checksD(4,5) [OF c] assms(5) by simp
  have same: "batches s' = batches s1"
    using apply_balanceD(8) [OF steps_wf [OF wf b sn] ap] serial_step_moved [OF sn]
    by (simp add: s' serials_moved_def)
  obtain b' where b': "batch_out now (m_quantity m) b = Inr b'" "batches s1 = modify bi (\<lambda>_. b') (batches s)"
    using b assms(4,6) d by (auto simp: batch_step_def split: if_splits sum.splits)
  then show ?thesis
    by (auto simp: same assms(6) tbl.lookup_upd batch_out_def Let_def split: if_splits option.splits)
qed

lemma batch_issue_witness:
  "map_option current_quantity (get (batches (stk_of (process_movement
     (stk_of (process_movement stk0 ((demo_move 3 None ''STOCK_IN'' 2)\<lparr>m_batch_id := Some 9\<rparr>) None 3 True))
     ((demo_move 3 None ''STOCK_OUT'' 1)\<lparr>m_batch_id := Some 9\<rparr>) None 4 True))) 9) = Some 9"
proof -
  let ?in = "(demo_move 3 None ''STOCK_IN'' 2)\<lparr>m_batch_id := Some 9\<rparr>"
  let ?out = "(demo_move 3 None ''STOCK_OUT'' 1)\<lparr>m_batch_id := Some 9\<rparr>"
  let ?t = "stk_of (process_movement stk0 ?in None 3 True)"
  let ?u = "stk_of (process_movement ?t ?out None 4 True)"
  let ?b = "\<lparr>batch_number = ''B'', b_product_id = 3, expiry_date = None, current_quantity = 10, b_status = ''Active''\<rparr>"
  have t: "process_movement stk0 ?in None 3 True = Inr (101, ?t)" by (simp add: run_stock batch_in_def)
  have u: "process_movement ?t ?out None 4 True = Inr (102, ?u)" by (simp add: run_stock batch_in_def batch_out_def)
  have reach: "stk_reachable ?t" by (rule stk_reachable.step [OF stk_runs(1) stk_step.movement [OF t]])
  have b: "get (batches ?t) 9 = Some ?b" by (simp add: run_stock batch_in_def)
  from batch_issue [OF reach u _ _ _ b] show ?thesis
    by (simp add: demo_move_def known_key_def truthy_def normalize_type_def normalize_direction_def)
qed

section \<open>The services around the engine\<close>

text \<open>The legacy request that means the same as a movement.\<close>

definition legacy_of :: "movement \<Rightarrow> direction \<Rightarrow> ledger_request" where
  "legacy_of m d = \<lparr>lr_key = m_key m, lr_type_code = m_movement_type m, lr_quantity = m_quantity m,
     lr_direction = (case d of DirIn \<Rightarrow> ''IN'' | DirOut \<Rightarrow> ''OUT''), lr_reference_type = m_reference_type m,
     lr_reference_id = m_reference_id m, lr_unit_id = None, lr_remarks = m_notes m\<rparr>"

lemma legacy_direction_of [simp]: "legacy_direction (lr_direction (legacy_of m d)) = d"
  by (cases d) (simp_all add: legacy_of_def legacy_direction_def)

lemma insert_ledger_unkeyed: "idempotency_key e = None \<Longrightarrow> is_ok (insert_ledger e s)"
  by (simp add: insert_ledger_def)

lemma legacy_entry_unkeyed [simp]: "idempotency_key (legacy_entry r p t b a u now) = None"
  by (simp add: legacy_entry_def Let_def)

lemma movement_checks_legacy:
  assumes "movement_checks s m = Inr (p, ty, d)"
  shows "legacy_checks s (m_key m) = Inr p"
  using assms
  by (auto simp: movement_checks_def validate_product_def validate_place_def legacy_checks_def m_key_def Let_def
      split: sum.splits option.splits if_splits)

text \<open>for a product that is neither batch- nor serial-tracked and a plain request that passes the checks of
  \<open>process_movement\<close>, the legacy ledger adapter accepts exactly what the movement engine accepts and leaves
  the same stock under every key.\<close>
theorem legacy_adapter_equivalent:
  assumes "stk_reachable s" and "movement_checks s m = Inr (p, ty, d)"
    and "\<not> is_batch_tracked p" and "\<not> is_serial_tracked p" and "m_batch_id m = None"
    and "m_serial_numbers m = []" and "m_idempotency_key m = None"
  shows "(case process_movement s m user now commit of Inl _ \<Rightarrow> None | Inr (i, t) \<Rightarrow> Some (stock_of t k)) =
    (case create_ledger_entry s (legacy_of m d) user' now' of Inl _ \<Rightarrow> None | Inr (i, t) \<Rightarrow> Some (stock_of t k))"
proof -
  note wf = reachable_wf [OF assms(1)]
  have k0: "known_key s (m_idempotency_key m) = None" using assms(7) by (simp add: known_key_def truthy_def)
  have fields: "lr_key (legacy_of m d) = m_key m" "lr_quantity (legacy_of m d) = m_quantity m"
    by (simp_all add: legacy_of_def)
  have wh: "fst (snd (m_key m)) = m_warehouse_id m" by (simp add: m_key_def)
  have steps: "batch_step m p q d n s = Inr s" "serial_step m p q ty d n s = Inr s" for q n
    using assms(3-6) by (simp_all add: batch_step_def serial_step_def)
  have apk: "is_ok (apply_balance s (m_key m) d (m_quantity m) neg n) \<longleftrightarrow>
      0 \<le> stock_of s (m_key m) + signed d (m_quantity m) \<or> neg" for neg n
    by (rule apply_balance_ok [OF wf])
  have pm: "is_ok (process_movement s m user now commit) =
      is_ok (apply_balance s (m_key m) d (m_quantity m) (resolve_negative_stock_policy s (m_warehouse_id m) p) now)"
    using assms(2,7) k0 steps
    by (cases "apply_balance s (m_key m) d (m_quantity m) (resolve_negative_stock_policy s (m_warehouse_id m) p) now")
      (auto simp: process_movement_def insert_ledger_def movement_entry_def)
  have cl: "is_ok (create_ledger_entry s (legacy_of m d) user' now') =
      is_ok (apply_balance s (m_key m) d (m_quantity m) (resolve_negative_stock_policy s (m_warehouse_id m) p) now')"
    using movement_checks_legacy [OF assms(2)] movement_checksD(3) [OF assms(2)]
    by (cases "apply_balance s (m_key m) d (m_quantity m) (resolve_negative_stock_policy s (m_warehouse_id m) p) now'")
      (auto simp: create_ledger_entry_def fields wh insert_ledger_def)
  have mv: "moved m = legacy_moved (legacy_of m d)"
    using movement_checksD(4,5) [OF assms(2)] by (simp add: moved_def legacy_moved_def fields)
  show ?thesis
  proof (cases "is_ok (process_movement s m user now commit)")
    case True
    then obtain i t where t: "process_movement s m user now commit = Inr (i, t)"
      by (cases "process_movement s m user now commit") auto
    from True pm cl apk obtain j u where u: "create_ledger_entry s (legacy_of m d) user' now' = Inr (j, u)"
      by (cases "create_ledger_entry s (legacy_of m d) user' now'") auto
    from process_movement_effect(2) [OF wf t k0, of k] create_ledger_entry_effect(2) [OF wf u, of k] t u mv fields
    show ?thesis by simp
  next
    case False
    then have "\<not> is_ok (create_ledger_entry s (legacy_of m d) user' now')" using pm cl apk by simp
    with False show ?thesis
      by (cases "process_movement s m user now commit"; cases "create_ledger_entry s (legacy_of m d) user' now'") auto
  qed
qed

lemma legacy_adapter_equivalent_witness:
  "(case process_movement stk0 (demo_move 1 None ''STOCK_IN'' 4) None 3 True of Inl _ \<Rightarrow> None
      | Inr (i, t) \<Rightarrow> Some (stock_of t (1, 1, None))) =
   (case create_ledger_entry stk0 (legacy_of (demo_move 1 None ''STOCK_IN'' 4) DirIn) None 3 of Inl _ \<Rightarrow> None
      | Inr (i, t) \<Rightarrow> Some (stock_of t (1, 1, None)))"
  by (rule legacy_adapter_equivalent [OF stk_runs(1), of _ "demo_product ''NONE''" "''STOCK_IN''"])
    (simp_all add: run_stock)

text \<open>recalculating a key with a location leaves every stock as it is; recalculating the key of a
  warehouse without a location replaces its stock by the ledger sum of the whole warehouse, all locations
  included.\<close>
theorem recalculation:
  assumes "stk_reachable s"
  shows "stock_of (recalculate_balance_projection s (p, w, Some l) now) k = stock_of s k
    \<and> stock_of (recalculate_balance_projection s (p, w, None) now) (p, w, None) =
        sum_rows (\<lambda>e. if l_product_id e = p \<and> l_warehouse_id e = w then signed (l_direction e) (l_quantity e) else 0) (ledger s)"
  using stock_of_upsert [OF reachable_wf [OF assms]] stk_inv_stock [OF stk_reachable_inv [OF assms]]
  by (simp add: recalculate_balance_projection_def derived_with_location) (simp add: calculate_derived_balance_from_history_def)

lemma recalculation_witness:
  "stock_of stk2 (1, 1, None) = 10 \<and> stock_of (recalculate_balance_projection stk2 (1, 1, None) 5) (1, 1, None) = 14"
proof -
  have "stock_of stk2 (1, 1, None) = 10"
    by (simp add: stk2_def stk1_def run_stock stock_of_def)
  moreover have "sum_rows (\<lambda>e. if l_product_id e = 1 \<and> l_warehouse_id e = 1 then signed (l_direction e) (l_quantity e) else 0)
      (ledger stk2) = 14"
    by (simp add: stk2_def stk1_def run_stock sum_rows_def)
  ultimately show ?thesis using recalculation [OF stk_runs(3), of 1 1 5 5] by simp
qed

text \<open>when the ledger entry of an opening stock fails, the opening row stays behind without any stock, and
  from then on every attempt to open that product and place is refused as a duplicate.\<close>
theorem failed_opening_blocks:
  assumes "create_opening_stock s oc user now = (Inl e, s')" and "s' \<noteq> s"
    and "oc_key oc' = oc_key oc"
  shows "balances s' = balances s \<and> ledger s' = ledger s
    \<and> (\<exists>msg. create_opening_stock s' oc' user' now' = (Inl (DuplicateResourceException msg), s'))"
proof -
  have s': "s' = s\<lparr>openings := add_row (stk_next s) (opening_row oc user) (openings s), stk_next := stk_next s + 1\<rparr>"
    using assms(1,2) by (auto simp: create_opening_stock_def Let_def split: if_splits sum.splits)
  have "exists_where (\<lambda>x. op_key x = oc_key oc') (openings s')"
    using assms(3) by (cases "oc_key oc") (auto simp: s' exists_where_iff add_row_def op_key_def opening_row_def)
  then show ?thesis by (auto simp: create_opening_stock_def) (simp_all add: s')
qed

lemma failed_opening_blocks_witness:
  "\<exists>s'. create_opening_stock stk0 \<lparr>oc_key = (1, 7, None), oc_quantity = 5, oc_reference = ''R1''\<rparr> None 3
      = (Inl (NotFoundException ''Warehouse not found or inactive''), s') \<and>
    (\<exists>msg. create_opening_stock s' \<lparr>oc_key = (1, 7, None), oc_quantity = 5, oc_reference = ''R2''\<rparr> None 4
      = (Inl (DuplicateResourceException msg), s'))"
proof -
  let ?oc = "\<lparr>oc_key = (1, 7, None), oc_quantity = 5, oc_reference = ''R1''\<rparr>"
  let ?s = "stk0\<lparr>openings := add_row (stk_next stk0) (opening_row ?oc None) (openings stk0), stk_next := stk_next stk0 + 1\<rparr>"
  have run: "create_opening_stock stk0 ?oc None 3 = (Inl (NotFoundException ''Warehouse not found or inactive''), ?s)"
    by (simp add: create_opening_stock_def Let_def exists_where_def stk0_def create_ledger_entry_def opening_request_def
        legacy_checks_def get_def demo_product_def)
  have "?s \<noteq> stk0" by (simp add: stk0_def)
  from failed_opening_blocks [OF run this, of "\<lparr>oc_key = (1, 7, None), oc_quantity = 5, oc_reference = ''R2''\<rparr>" None 4] run
  show ?thesis by auto
qed

text \<open>applying an approved adjustment moves the stock of its key by the recorded difference, of no other
  key, and marks it applied; when the stock is still the expected one, it becomes the counted one.\<close>
theorem adjustment_applies:
  assumes "stk_reachable s" and "apply_adjustment s i user now = Inr s'" and "get (adjustments s) i = Some a"
    and "difference a = actual_quantity a - expected_quantity a"
  shows "stock_of s' k = stock_of s k +
      (if k = (adj_product_id a, adj_warehouse_id a, adj_location_id a) then difference a else 0)
    \<and> map_option adj_status (get (adjustments s') i) = Some AdjApplied
    \<and> (stock_of s (adj_product_id a, adj_warehouse_id a, adj_location_id a) = expected_quantity a \<longrightarrow>
       stock_of s' (adj_product_id a, adj_warehouse_id a, adj_location_id a) = actual_quantity a)"
proof (cases "difference a = 0")
  case True
  with assms(2,3) have "s' = set_applied i s" by (auto simp: apply_adjustment_def split: if_splits)
  with True assms(3,4) show ?thesis
    by (simp add: stock_of_cong [of "set_applied i s" s]) (simp add: set_applied_def tbl.lookup_upd)
next
  case False
  with assms(2,3) obtain j t where t: "create_ledger_entry s (adjustment_request a i) user now = Inr (j, t)"
    and s': "s' = stk_emit [Audit ''INVENTORY_ADJUSTMENT_APPLY'' ''InventoryAdjustment'' i,
              Notify ''INVENTORY_ADJUSTMENT_APPLIED'' i] (set_applied i t)"
    by (auto simp: apply_adjustment_def split: if_splits sum.splits)
  note eff = create_ledger_entry_effect [OF reachable_wf [OF assms(1)] t]
  have mv: "legacy_moved (adjustment_request a i) = difference a"
    using False by (auto simp: legacy_moved_def adjustment_request_def legacy_direction_def signed_def)
  have key: "lr_key (adjustment_request a i) = (adj_product_id a, adj_warehouse_id a, adj_location_id a)"
    by (simp add: adjustment_request_def)
  have st: "stock_of s' q = stock_of t q" for q by (rule stock_of_cong) (simp add: s')
  have "get (adjustments t) i = Some a" using rest_fields(7) [OF eff(4)] assms(3) by simp
  then show ?thesis using eff(2) assms(4)
    by (simp add: st mv key) (simp add: s' set_applied_def tbl.lookup_upd)
qed

lemma adjustment_applies_witness:
  "\<exists>s a t. stk_reachable s \<and> get (adjustments s) 105 = Some a \<and> apply_adjustment s 105 None 8 = Inr t \<and>
     stock_of t (1, 1, None) = actual_quantity a"
proof -
  let ?ac = "\<lparr>adc_key = (1, 1, None), adc_type = ''Decrease'', adc_reason = ''count'', adc_actual = 2\<rparr>"
  define s1 where "s1 = stk_of (create_adjustment stk3 ?ac None)"
  have st: "stock_of stk3 (1, 1, None) = 3" and n: "stk_next stk3 = 105" and no: "adjustments stk3 = []"
    by (simp_all add: stk3_def stk2_def stk1_def run_stock stock_of_def)
  have m: "products stk3 = products stk0" "warehouses stk3 = warehouses stk0"
    by (simp_all add: stk3_def stk2_def stk1_def run_stock)
  have c: "create_adjustment stk3 ?ac None = Inr (105, s1)"
    using st n m by (simp add: s1_def create_adjustment_def legacy_checks_def stk_of_def Let_def get_def stk0_def demo_product_def)
  let ?a = "\<lparr>adj_product_id = 1, adj_warehouse_id = 1, adj_location_id = None, adjustment_type = ''Decrease'',
      adj_reason = ''count'', expected_quantity = 3, actual_quantity = 2, difference = -1, adj_status = AdjDraft,
      adj_created_by = None, adj_approved_by = None, adj_approved_at = None\<rparr>"
  let ?b = "?a\<lparr>adj_status := AdjApproved, adj_approved_by := Some 7, adj_approved_at := Some 6\<rparr>"
  have a: "adjustments s1 = [(105, ?a)]" "balances s1 = balances stk3"
    using st n m no by (simp_all add: s1_def create_adjustment_def legacy_checks_def stk_of_def Let_def get_def stk0_def
        demo_product_def add_row_def)
  define s2 where "s2 = (case approve_adjustment s1 105 (Some 7) 6 of Inl _ \<Rightarrow> s1 | Inr s \<Rightarrow> s)"
  have p: "approve_adjustment s1 105 (Some 7) 6 = Inr s2"
    using a by (simp add: s2_def approve_adjustment_def get_def)
  have b: "get (adjustments s2) 105 = Some ?b" "balances s2 = balances stk3"
    using a by (simp_all add: s2_def approve_adjustment_def get_def modify_def)
  have reach: "stk_reachable s2"
    using stk_runs(4) c p by (blast intro: stk_reachable.step stk_step.draft stk_step.approve)
  have stock: "stock_of s2 (1, 1, None) = 3" using st stock_of_cong [OF b(2)] by simp
  have rest2: "products s2 = products stk0" "warehouses s2 = warehouses stk0" "policies s2 = []" "type_codes s2 = []"
    using a m by (simp_all add: s2_def s1_def approve_adjustment_def create_adjustment_def legacy_checks_def stk_of_def
        Let_def get_def stk0_def demo_product_def stk3_def stk2_def stk1_def run_stock)
  let ?r = "adjustment_request ?b 105"
  have "is_ok (apply_balance s2 (1, 1, None) DirOut 1 False 8)"
    using stock by (simp add: apply_balance_ok [OF reachable_wf [OF reach]] signed_def)
  then have "is_ok (create_ledger_entry s2 ?r None 8)"
    using rest2
    by (cases "apply_balance s2 (1, 1, None) DirOut 1 False 8")
      (auto simp: create_ledger_entry_def adjustment_request_def legacy_checks_def get_def stk0_def demo_product_def
        legacy_direction_def resolve_negative_stock_policy_def first_where_def insert_ledger_def)
  then have "is_ok (apply_adjustment s2 105 None 8)"
    using b by (cases "create_ledger_entry s2 ?r None 8") (auto simp: apply_adjustment_def)
  then obtain t where t: "apply_adjustment s2 105 None 8 = Inr t" by (cases "apply_adjustment s2 105 None 8") auto
  from adjustment_applies [OF reach t b(1)] stock have "stock_of t (1, 1, None) = actual_quantity ?b" by simp
  with reach b(1) t show ?thesis by blast
qed

section \<open>Summaries\<close>

lemma balance_rows_of_key:
  assumes "unique_on bal_key (balances s)"
  shows "sum_rows (\<lambda>b. if bal_key b = k then available_quantity b else 0) (balances s) = stock_of s k"
proof -
  have "sum_rows (\<lambda>b. if bal_key b = k then available_quantity b else 0) t
      = (case first_where (\<lambda>b. bal_key b = k) t of None \<Rightarrow> 0 | Some (i, b) \<Rightarrow> available_quantity b)"
    if "unique_on bal_key t" for t
    using that
  proof (induction t)
    case (Cons x t)
    obtain i b where x: "x = (i, b)" by force
    have "sum_rows (\<lambda>b. if bal_key b = k then available_quantity b else 0) t = 0" if "bal_key b = k"
    proof -
      have "map (\<lambda>(i, b). if bal_key b = k then available_quantity b else 0) t = map (\<lambda>_. 0) t"
        using Cons.prems that x unfolding unique_on_def by (intro map_cong) force+
      then show ?thesis unfolding sum_rows_def by (simp only: sum_list_0)
    qed
    with Cons x show ?case by (simp add: sum_rows_def first_where_def unique_on_def split: option.splits)
  qed (simp add: sum_rows_def first_where_def)
  from this [OF assms] show ?thesis by (simp add: stock_of_def get_by_keys_def)
qed

text \<open>What a summary adds up over balances is what the ledger adds up over movements.\<close>

lemma balances_are_ledger:
  assumes "stk_reachable s"
  shows "sum_list (map available_quantity (balances_where (\<lambda>b. P (bal_key b)) s))
    = sum_rows (\<lambda>e. if P (l_key e) then signed (l_direction e) (l_quantity e) else 0) (ledger s)"
proof -
  let ?K = "(bal_key \<circ> snd) ` set (balances s) \<union> (l_key \<circ> snd) ` set (ledger s)"
  have K: "finite ?K" "\<forall>(i, b)\<in>set (balances s). bal_key b \<in> ?K" "\<forall>(i, e)\<in>set (ledger s). l_key e \<in> ?K"
    by force+
  have "sum_list (map available_quantity (balances_where (\<lambda>b. P (bal_key b)) s))
      = sum_rows (\<lambda>b. if P (bal_key b) then available_quantity b else 0) (balances s)"
    by (simp add: balances_where_def sum_rows_def sum_list_map_filter' comp_def case_prod_unfold)
  also have "\<dots> = (\<Sum>k\<in>{k \<in> ?K. P k}. stock_of s k)"
    using reachable_wf [OF assms]
    by (simp add: sum_rows_by_key [OF K(1,2)] balance_rows_of_key wf_stk_def)
  also have "\<dots> = (\<Sum>k\<in>{k \<in> ?K. P k}. ledger_stock s k)"
    by (simp add: stk_inv_stock [OF stk_reachable_inv [OF assms]])
  also have "\<dots> = sum_rows (\<lambda>e. if P (l_key e) then signed (l_direction e) (l_quantity e) else 0) (ledger s)"
    unfolding ledger_stock_def by (rule sum_rows_by_key [OF K(1,3), symmetric])
  finally show ?thesis .
qed

text \<open>the available totals of the three stock summaries are the signed sums of the ledger rows of the
  warehouse, of the product and of the location.\<close>
theorem summaries_are_ledger_sums:
  assumes "stk_reachable s"
  shows "(get_warehouse_stock_summary s w = Inr r \<longrightarrow> total_available_stock r =
      sum_rows (\<lambda>e. if l_warehouse_id e = w then signed (l_direction e) (l_quantity e) else 0) (ledger s))
    \<and> (get_product_stock_summary s p = Inr (pa, pr, pd, pbs) \<longrightarrow> pa =
      sum_rows (\<lambda>e. if l_product_id e = p then signed (l_direction e) (l_quantity e) else 0) (ledger s))
    \<and> (get_location_stock_summary s l = Inr (n, la, lbs) \<longrightarrow> la =
      sum_rows (\<lambda>e. if l_location_id e = Some l then signed (l_direction e) (l_quantity e) else 0) (ledger s))"
  using balances_are_ledger [OF assms, of "\<lambda>(p, x, l). x = w"] balances_are_ledger [OF assms, of "\<lambda>(x, w, l). x = p"]
    balances_are_ledger [OF assms, of "\<lambda>(p, w, x). x = Some l"]
  by (auto simp: get_warehouse_stock_summary_def get_product_stock_summary_def get_location_stock_summary_def
      summarize_def bal_key_def l_key_def Let_def split: if_splits)

lemma summaries_are_ledger_sums_witness:
  "get_warehouse_stock_summary stk3 1 = Inr (summarize (balances_where (\<lambda>b. bal_warehouse_id b = 1) stk3)) \<and>
   total_available_stock (summarize (balances_where (\<lambda>b. bal_warehouse_id b = 1) stk3)) =
     sum_rows (\<lambda>e. if l_warehouse_id e = 1 then signed (l_direction e) (l_quantity e) else 0) (ledger stk3)"
proof -
  have "get_warehouse_stock_summary stk3 1 = Inr (summarize (balances_where (\<lambda>b. bal_warehouse_id b = 1) stk3))"
    by (simp add: get_warehouse_stock_summary_def stk3_def stk2_def stk1_def run_stock)
  with summaries_are_ledger_sums [OF stk_runs(4)] show ?thesis by blast
qed

end
