(* ===== verification/WarehouseModel.thy ===== *)
theory WarehouseModel
  imports StockSystem
begin

text \<open>
  The data of warehouse operations: reservations, goods receipts, goods issues and stock
  transfers with their lines (\<^verbatim>\<open>src/app/models/stock_reservation.py\<close>, \<^verbatim>\<open>goods_receipt.py\<close>,
  \<^verbatim>\<open>goods_issue.py\<close>, \<^verbatim>\<open>stock_transfer.py\<close>) beside the inventory engine's state, and
  \<open>StockReservationService\<close> (\<^verbatim>\<open>src/app/services/inventory_advanced_services.py\<close>).

  Keys of every table come from the counter of the inventory engine.
\<close>

section \<open>Rows\<close>

datatype reservation_status = ResActive | ResReleased | ResCancelled | ResConsumed

record reservation =
  rs_number :: string
  rs_product_id :: uuid
  rs_warehouse_id :: uuid
  rs_location_id :: "uuid option"
  rs_batch_id :: "uuid option"
  rs_quantity :: decimal
  rs_for_type :: string
  rs_for_id :: "uuid option"
  rs_status :: reservation_status
  rs_expires_at :: "timestamp option"
  rs_released_at :: "timestamp option"
  rs_consumed_at :: "timestamp option"
  rs_remarks :: "string option"
  rs_created_by :: "uuid option"

record receipt_item =
  ri_product_id :: uuid
  ri_location_id :: "uuid option"
  ri_quantity :: decimal
  ri_unit_id :: "uuid option"
  ri_unit_cost :: "decimal option"
  ri_batch_id :: "uuid option"
  ri_batch_number :: "string option"
  ri_expiry_date :: "timestamp option"
  ri_serial_numbers :: "string list"
  ri_remarks :: "string option"

datatype doc_status = DocDraft | DocApproved | DocPosted | DocReceived | DocIssued | DocInTransit | DocCompleted | DocCancelled

record receipt =
  gr_number :: string
  gr_warehouse_id :: uuid
  gr_supplier_reference :: "string option"
  gr_external_reference :: "string option"
  gr_date :: timestamp
  gr_status :: doc_status
  gr_remarks :: "string option"
  gr_created_by :: "uuid option"
  gr_approved_by :: "uuid option"
  gr_approved_at :: "timestamp option"
  gr_items :: "receipt_item list"

record issue_item =
  ii_product_id :: uuid
  ii_location_id :: "uuid option"
  ii_quantity :: decimal
  ii_unit_id :: "uuid option"
  ii_batch_id :: "uuid option"
  ii_serial_numbers :: "string list"
  ii_reservation_id :: "uuid option"
  ii_remarks :: "string option"

record issue =
  gi_number :: string
  gi_warehouse_id :: uuid
  gi_date :: timestamp
  gi_reason :: string
  gi_status :: doc_status
  gi_remarks :: "string option"
  gi_created_by :: "uuid option"
  gi_approved_by :: "uuid option"
  gi_approved_at :: "timestamp option"
  gi_items :: "issue_item list"

record transfer_item =
  ti_product_id :: uuid
  ti_quantity :: decimal
  ti_unit_id :: "uuid option"
  ti_batch_id :: "uuid option"
  ti_serial_numbers :: "string list"
  ti_remarks :: "string option"

record transfer =
  tr_number :: string
  source_warehouse_id :: uuid
  destination_warehouse_id :: uuid
  source_location_id :: "uuid option"
  destination_location_id :: "uuid option"
  tr_date :: timestamp
  tr_status :: doc_status
  tr_remarks :: "string option"
  tr_created_by :: "uuid option"
  tr_approved_by :: "uuid option"
  completed_by :: "uuid option"
  tr_items :: "transfer_item list"

record wms =
  stock :: stk
  reservations :: "reservation table"
  receipts :: "receipt table"
  issues :: "issue table"
  transfers :: "transfer table"
  wms_effects :: "effect list"

definition fresh_id :: "wms \<Rightarrow> uuid" where
  "fresh_id w = stk_next (stock w)"

definition take_id :: "wms \<Rightarrow> wms" where
  "take_id w = w\<lparr>stock := (stock w)\<lparr>stk_next := stk_next (stock w) + 1\<rparr>\<rparr>"

definition wms_emit :: "effect list \<Rightarrow> wms \<Rightarrow> wms" where
  "wms_emit es w = w\<lparr>wms_effects := wms_effects w @ es\<rparr>"

lemma wms_emit_fields [simp]:
  "stock (wms_emit es w) = stock w" "reservations (wms_emit es w) = reservations w"
  "receipts (wms_emit es w) = receipts w" "issues (wms_emit es w) = issues w"
  "transfers (wms_emit es w) = transfers w"
  by (simp_all add: wms_emit_def)

lemma take_id_fields [simp]:
  "reservations (take_id w) = reservations w" "receipts (take_id w) = receipts w"
  "issues (take_id w) = issues w" "transfers (take_id w) = transfers w"
  "balances (stock (take_id w)) = balances (stock w)" "ledger (stock (take_id w)) = ledger (stock w)"
  by (simp_all add: take_id_def)

section \<open>Reservations\<close>

record reservation_create =
  rc_product_id :: uuid
  rc_warehouse_id :: uuid
  rc_location_id :: "uuid option"
  rc_batch_id :: "uuid option"
  rc_quantity :: decimal
  rc_reserved_for_type :: "string option"
  rc_reference_type :: "string option"
  rc_reserved_for_id :: "uuid option"
  rc_reference_id :: "uuid option"
  rc_expires_at :: "timestamp option"
  rc_remarks :: "string option"
  rc_notes :: "string option"

text \<open>Active reservations of a product in a warehouse, at any location.\<close>

definition get_active_reserved_quantity :: "wms \<Rightarrow> uuid \<Rightarrow> uuid \<Rightarrow> decimal" where
  "get_active_reserved_quantity w p wh =
     sum_rows (\<lambda>r. if rs_product_id r = p \<and> rs_status r = ResActive \<and> rs_warehouse_id r = wh
       then rs_quantity r else 0) (reservations w)"

definition reservation_checks :: "wms \<Rightarrow> reservation_create \<Rightarrow> timestamp \<Rightarrow> product result" where
  "reservation_checks w rc now =
     (if rc_quantity rc \<le> 0 then Inl (ValidationException ''Reservation quantity must be strictly positive.'')
      else case get (products (stock w)) (rc_product_id rc) of
        None \<Rightarrow> Inl (NotFoundException ''Product not found or archived'')
      | Some p \<Rightarrow>
        if p_status p = ''Archived'' then Inl (NotFoundException ''Product not found or archived'')
        else if (case get (warehouses (stock w)) (rc_warehouse_id rc) of None \<Rightarrow> True | Some wh \<Rightarrow> \<not> wh_is_active wh)
          then Inl (NotFoundException ''Warehouse not found or inactive'')
        else if (case rc_location_id rc of None \<Rightarrow> False
                 | Some li \<Rightarrow> (case get (locations (stock w)) li of None \<Rightarrow> True
                     | Some l \<Rightarrow> \<not> loc_is_active l \<or> loc_warehouse_id l \<noteq> rc_warehouse_id rc))
          then Inl (ValidationException ''Storage location is invalid or does not belong to the warehouse.'')
        else (case rc_batch_id rc of
            None \<Rightarrow> Inr p
          | Some bi \<Rightarrow>
            (case get (batches (stock w)) bi of
               None \<Rightarrow> Inl (NotFoundException ''Batch'')
             | Some b \<Rightarrow>
               if b_product_id b \<noteq> rc_product_id rc
                 then Inl (ValidationException ''Batch does not belong to the specified product.'')
               else if (case expiry_date b of None \<Rightarrow> False | Some e \<Rightarrow> e \<le> now)
                 then Inl (ValidationException ''Batch is expired and cannot be reserved.'')
               else Inr p)))"

definition new_reservation :: "reservation_create \<Rightarrow> string \<Rightarrow> uuid option \<Rightarrow> reservation" where
  "new_reservation rc num user =
     \<lparr>rs_number = num, rs_product_id = rc_product_id rc, rs_warehouse_id = rc_warehouse_id rc,
      rs_location_id = rc_location_id rc, rs_batch_id = rc_batch_id rc, rs_quantity = rc_quantity rc,
      rs_for_type = (case py_or (rc_reserved_for_type rc) (rc_reference_type rc) of
          Some t \<Rightarrow> if t = '''' then ''Sales'' else t | None \<Rightarrow> ''Sales''),
      rs_for_id = (case rc_reserved_for_id rc of Some i \<Rightarrow> Some i | None \<Rightarrow> rc_reference_id rc),
      rs_status = ResActive, rs_expires_at = rc_expires_at rc, rs_released_at = None, rs_consumed_at = None,
      rs_remarks = py_or (rc_notes rc) (rc_remarks rc), rs_created_by = user\<rparr>"

definition set_reserved :: "uuid \<Rightarrow> decimal \<Rightarrow> stk \<Rightarrow> stk" where
  "set_reserved i q s = s\<lparr>balances := modify i (\<lambda>b. b\<lparr>reserved_quantity := q\<rparr>) (balances s)\<rparr>"

text \<open>\<open>num\<close> stands for the generated reservation number.\<close>

definition create_reservation ::
  "wms \<Rightarrow> reservation_create \<Rightarrow> string \<Rightarrow> uuid option \<Rightarrow> timestamp \<Rightarrow> (uuid \<times> wms) result" where
  "create_reservation w rc num user now =
     (case reservation_checks w rc now of
        Inl e \<Rightarrow> Inl e
      | Inr p \<Rightarrow>
        (case get_or_create_for_update (stock w) (rc_product_id rc, rc_warehouse_id rc, rc_location_id rc) now of
           ((i, b), s1) \<Rightarrow>
           let active = get_active_reserved_quantity w (rc_product_id rc) (rc_warehouse_id rc);
               effective = max (reserved_quantity b) active;
               free = available_quantity b - effective
           in if rc_quantity rc > free \<and> \<not> allow_negative_stock p
                then Inl (ValidationException ''Insufficient unreserved stock available'')
              else if exists_where (\<lambda>r. rs_number r = num) (reservations w)
                then Inl (IntegrityErr ''stock_reservations.reservation_number'')
              else let w1 = w\<lparr>stock := set_reserved i (effective + rc_quantity rc) s1\<rparr>; k = fresh_id w1
                   in Inr (k, wms_emit [Audit ''CREATE'' ''StockReservation'' k,
                        Audit ''STOCK_RESERVATION_CREATE'' ''StockReservation'' k, Publish ''StockReserved'' k]
                        ((take_id w1)\<lparr>reservations := add_row k (new_reservation rc num user) (reservations w)\<rparr>))))"

text \<open>The balance row of a reservation gives back a quantity, never below zero.\<close>

definition give_back :: "reservation \<Rightarrow> decimal \<Rightarrow> timestamp \<Rightarrow> stk \<Rightarrow> stk" where
  "give_back r q now s =
     (case get_or_create_for_update s (rs_product_id r, rs_warehouse_id r, rs_location_id r) now of
        ((i, b), s1) \<Rightarrow> set_reserved i (max 0 (reserved_quantity b - q)) s1)"

definition end_reservation ::
  "wms \<Rightarrow> uuid \<Rightarrow> (reservation \<Rightarrow> reservation) \<Rightarrow> string \<Rightarrow> timestamp \<Rightarrow> wms result" where
  "end_reservation w i f action now =
     (case get (reservations w) i of
        None \<Rightarrow> Inl (NotFoundException ''Stock reservation'')
      | Some r \<Rightarrow>
        if rs_status r \<noteq> ResActive then Inl (ValidationException ''Only Active reservations'')
        else Inr (wms_emit [Audit action ''StockReservation'' i]
               (w\<lparr>stock := give_back r (rs_quantity r) now (stock w), reservations := modify i f (reservations w)\<rparr>)))"

definition release_reservation :: "wms \<Rightarrow> uuid \<Rightarrow> timestamp \<Rightarrow> wms result" where
  "release_reservation w i now =
     end_reservation w i (\<lambda>r. r\<lparr>rs_status := ResReleased, rs_released_at := Some now\<rparr>) ''STOCK_RESERVATION_RELEASE'' now"

definition cancel_reservation :: "wms \<Rightarrow> uuid \<Rightarrow> timestamp \<Rightarrow> wms result" where
  "cancel_reservation w i now =
     end_reservation w i (\<lambda>r. r\<lparr>rs_status := ResCancelled\<rparr>) ''STOCK_RESERVATION_CANCEL'' now"

text \<open>The audit entry at the end commits whatever the session holds, whether \<open>commit\<close> was asked
  for or not.\<close>

definition consume_reservation :: "wms \<Rightarrow> uuid \<Rightarrow> decimal option \<Rightarrow> timestamp \<Rightarrow> wms result" where
  "consume_reservation w i consume_qty now =
     (case get (reservations w) i of
        None \<Rightarrow> Inl (NotFoundException ''Stock reservation'')
      | Some r \<Rightarrow>
        if rs_status r \<noteq> ResActive then Inl (ValidationException ''Only Active reservations can be consumed.'')
        else let q = (case consume_qty of None \<Rightarrow> rs_quantity r | Some x \<Rightarrow> x) in
          if q \<le> 0 then Inl (ValidationException ''Consume quantity must be strictly positive.'')
          else if q > rs_quantity r
            then Inl (ValidationException ''Requested consume quantity exceeds active reserved quantity'')
          else Inr (wms_emit [Audit ''STOCK_RESERVATION_CONSUME'' ''StockReservation'' i]
               (w\<lparr>stock := give_back r q now (stock w),
                  reservations := modify i (\<lambda>r. if q = rs_quantity r
                     then r\<lparr>rs_status := ResConsumed, rs_consumed_at := Some now\<rparr>
                     else r\<lparr>rs_quantity := rs_quantity r - q\<rparr>) (reservations w)\<rparr>)))"

section \<open>What reservations leave alone\<close>

lemma set_reserved_stock:
  assumes "wf_stk s"
  shows "stock_of (set_reserved i q s) k = stock_of s k" "wf_stk (set_reserved i q s)"
    "ledger (set_reserved i q s) = ledger s" "rest (set_reserved i q s) = rest s"
proof -
  have dist: "distinct (keys (balances s))" using assms by (simp add: wf_stk_def wf_table_def)
  have "get_by_keys (set_reserved i q s) k = map_option (\<lambda>(j, r). (j, if j = i then r\<lparr>reserved_quantity := q\<rparr> else r))
      (get_by_keys s k)" for k
    unfolding get_by_keys_def set_reserved_def using dist by (simp add: first_where_modify bal_key_def)
  then show "stock_of (set_reserved i q s) k = stock_of s k"
    by (auto simp: stock_of_def split: option.splits)
  show "wf_stk (set_reserved i q s)"
    using assms by (simp add: set_reserved_def wf_stk_def table_simps unique_on_modify bal_key_def)
  show "ledger (set_reserved i q s) = ledger s" "rest (set_reserved i q s) = rest s"
    by (simp_all add: set_reserved_def)
qed

lemma give_back_stock:
  assumes "wf_stk s"
  shows "stock_of (give_back r q now s) k = stock_of s k" "wf_stk (give_back r q now s)"
    "ledger (give_back r q now s) = ledger s" "rest (give_back r q now s) = rest s"
proof -
  let ?k = "(rs_product_id r, rs_warehouse_id r, rs_location_id r)"
  obtain i b s1 where g: "get_or_create_for_update s ?k now = ((i, b), s1)"
    by (cases "get_or_create_for_update s ?k now") force
  note gc = get_or_create [OF assms g]
  show "stock_of (give_back r q now s) k = stock_of s k" "wf_stk (give_back r q now s)"
    "ledger (give_back r q now s) = ledger s" "rest (give_back r q now s) = rest s"
    using set_reserved_stock [OF gc(3)] gc(5,7,10) by (simp_all add: give_back_def g)
qed

end
