(* ===== verification/WarehouseDocs.thy ===== *)
theory WarehouseDocs
  imports WarehouseModel "HOL-Library.Product_Lexorder"
begin

text \<open>
  Goods receipts, goods issues and stock transfers
  (\<^verbatim>\<open>src/app/services/warehouse_operations_services.py\<close>): validation, the execution service that
  turns document lines into stock movements, and the life cycle of the three documents.

  An execution carries two databases: the session, and what is already committed. Creating a
  batch (\<open>BaseRepository.create\<close>) and writing the audit entry of a consumed reservation commit the
  session half-way, so a failed posting may leave part of its movements behind.
\<close>

section \<open>Line checks\<close>

definition check_stock_product :: "wms \<Rightarrow> uuid \<Rightarrow> product result" where
  "check_stock_product w i =
     (case get (products (stock w)) i of
        None \<Rightarrow> Inl (NotFoundException ''Product'')
      | Some p \<Rightarrow>
        if \<not> p_is_active p then Inl (ValidationException ''Product is inactive.'')
        else if p_status p = ''Archived'' then Inl (ValidationException ''Product is archived and read-only.'')
        else if \<not> is_stockable p then Inl (ValidationException ''Product is not stockable'')
        else if \<not> track_inventory p then Inl (ValidationException ''Product does not track inventory.'')
        else Inr p)"

definition check_serials :: "product \<Rightarrow> decimal \<Rightarrow> string list \<Rightarrow> unit result" where
  "check_serials p qty sns =
     (if \<not> is_serial_tracked p then Inr ()
      else if sns = [] then Inl (ValidationException ''serial_numbers list is required.'')
      else if int (length sns) \<noteq> \<lfloor>qty\<rfloor> then Inl (ValidationException ''Quantity does not match serial numbers count'')
      else if \<not> distinct sns then Inl (ValidationException ''Duplicate serial numbers found in the line item.'')
      else Inr ())"

definition check_location :: "wms \<Rightarrow> uuid \<Rightarrow> uuid option \<Rightarrow> unit result" where
  "check_location w wh l =
     (case l of
        None \<Rightarrow> Inr ()
      | Some li \<Rightarrow>
        (case get (locations (stock w)) li of
           None \<Rightarrow> Inl (NotFoundException ''Storage location'')
         | Some loc \<Rightarrow>
           if \<not> loc_is_active loc then Inl (ValidationException ''Storage location is inactive.'')
           else if loc_warehouse_id loc \<noteq> wh
             then Inl (ValidationException ''Storage location does not belong to the target warehouse.'')
           else Inr ()))"

definition check_warehouse :: "wms \<Rightarrow> uuid \<Rightarrow> unit result" where
  "check_warehouse w wh =
     (case get (warehouses (stock w)) wh of
        None \<Rightarrow> Inl (NotFoundException ''Warehouse not found or inactive.'')
      | Some x \<Rightarrow> if wh_is_active x then Inr () else Inl (NotFoundException ''Warehouse not found or inactive.''))"

text \<open>Checks run one after the other, the first failure wins.\<close>

definition and_then :: "'a result \<Rightarrow> ('a \<Rightarrow> 'b result) \<Rightarrow> 'b result" where
  "and_then r f = (case r of Inl e \<Rightarrow> Inl e | Inr x \<Rightarrow> f x)"

fun each :: "('a \<Rightarrow> unit result) \<Rightarrow> 'a list \<Rightarrow> unit result" where
  "each f [] = Inr ()"
| "each f (x # xs) = (case f x of Inl e \<Rightarrow> Inl e | Inr _ \<Rightarrow> each f xs)"

definition check_receipt_line :: "wms \<Rightarrow> uuid \<Rightarrow> receipt_item \<Rightarrow> unit result" where
  "check_receipt_line w wh it =
     (if ri_quantity it \<le> 0 then Inl (ValidationException ''Receipt line quantity must be strictly positive.'')
      else and_then (check_stock_product w (ri_product_id it)) (\<lambda>p.
        if is_batch_tracked p \<and> ri_batch_id it = None \<and> \<not> truthy (ri_batch_number it)
          then Inl (ValidationException ''batch_id or batch_number is required.'')
        else and_then (check_serials p (ri_quantity it) (ri_serial_numbers it)) (\<lambda>_.
          check_location w wh (ri_location_id it))))"

definition validate_receipt :: "wms \<Rightarrow> uuid \<Rightarrow> receipt_item list \<Rightarrow> unit result" where
  "validate_receipt w wh items =
     (if items = [] then Inl (ValidationException ''Goods receipt must have at least one line item.'')
      else and_then (check_warehouse w wh) (\<lambda>_. each (check_receipt_line w wh) items))"

definition check_issue_line :: "wms \<Rightarrow> uuid \<Rightarrow> issue_item \<Rightarrow> unit result" where
  "check_issue_line w wh it =
     (if ii_quantity it \<le> 0 then Inl (ValidationException ''Issue line quantity must be strictly positive.'')
      else and_then (check_stock_product w (ii_product_id it)) (\<lambda>p.
        if is_batch_tracked p \<and> ii_batch_id it = None then Inl (ValidationException ''batch_id is required.'')
        else and_then (check_serials p (ii_quantity it) (ii_serial_numbers it)) (\<lambda>_.
          check_location w wh (ii_location_id it))))"

definition validate_issue :: "wms \<Rightarrow> uuid \<Rightarrow> issue_item list \<Rightarrow> unit result" where
  "validate_issue w wh items =
     (if items = [] then Inl (ValidationException ''Goods issue must have at least one line item.'')
      else and_then (check_warehouse w wh) (\<lambda>_. each (check_issue_line w wh) items))"

definition check_transfer_line :: "wms \<Rightarrow> transfer_item \<Rightarrow> unit result" where
  "check_transfer_line w it =
     (if ti_quantity it \<le> 0 then Inl (ValidationException ''Transfer line quantity must be strictly positive.'')
      else and_then (check_stock_product w (ti_product_id it)) (\<lambda>p.
        if is_batch_tracked p \<and> ti_batch_id it = None then Inl (ValidationException ''batch_id is required.'')
        else check_serials p (ti_quantity it) (ti_serial_numbers it)))"

definition validate_transfer ::
  "wms \<Rightarrow> uuid \<Rightarrow> uuid \<Rightarrow> uuid option \<Rightarrow> uuid option \<Rightarrow> transfer_item list \<Rightarrow> unit result" where
  "validate_transfer w src dst sl dl items =
     (if items = [] then Inl (ValidationException ''Stock transfer must have at least one line item.'')
      else if src = dst \<and> sl = dl
        then Inl (ValidationException ''Source must not be identical to destination.'')
      else and_then (check_warehouse w src) (\<lambda>_. and_then (check_warehouse w dst) (\<lambda>_.
        and_then (check_location w src sl) (\<lambda>_. and_then (check_location w dst dl) (\<lambda>_.
          each (check_transfer_line w) items)))))"

section \<open>Movements of the lines\<close>

definition line_movement ::
  "uuid \<Rightarrow> uuid \<Rightarrow> uuid option \<Rightarrow> decimal \<Rightarrow> uuid option \<Rightarrow> string list \<Rightarrow> string \<Rightarrow> uuid \<Rightarrow> string \<Rightarrow> string option \<Rightarrow> movement" where
  "line_movement p wh l q b sns ref ref_id reason notes =
     \<lparr>m_product_id = p, m_warehouse_id = wh, m_location_id = l, m_movement_type = '''', m_direction = None,
      m_quantity = q, m_idempotency_key = None, m_reference_type = Some ref, m_reference_id = Some ref_id,
      m_batch_id = b, m_serial_numbers = sns, m_reason = Some reason, m_notes = notes\<rparr>"

definition receipt_movement :: "uuid \<Rightarrow> receipt \<Rightarrow> receipt_item \<Rightarrow> uuid option \<Rightarrow> movement" where
  "receipt_movement i r it b =
     line_movement (ri_product_id it) (gr_warehouse_id r) (ri_location_id it) (ri_quantity it) b (ri_serial_numbers it)
       ''GoodsReceipt'' i (''Goods Receipt #'' @ gr_number r) (py_or (ri_remarks it) (gr_remarks r))"

definition issue_movement :: "uuid \<Rightarrow> issue \<Rightarrow> issue_item \<Rightarrow> movement" where
  "issue_movement i d it =
     line_movement (ii_product_id it) (gi_warehouse_id d) (ii_location_id it) (ii_quantity it) (ii_batch_id it)
       (ii_serial_numbers it) ''GoodsIssue'' i (''Goods Issue #'' @ gi_number d @ '' ('' @ gi_reason d @ '')'')
       (py_or (ii_remarks it) (gi_remarks d))"

definition out_movement :: "uuid \<Rightarrow> transfer \<Rightarrow> string \<Rightarrow> transfer_item \<Rightarrow> movement" where
  "out_movement i t reason it =
     line_movement (ti_product_id it) (source_warehouse_id t) (source_location_id t) (ti_quantity it) (ti_batch_id it)
       (ti_serial_numbers it) ''StockTransfer'' i reason (py_or (ti_remarks it) (tr_remarks t))"

definition in_movement :: "uuid \<Rightarrow> transfer \<Rightarrow> string \<Rightarrow> transfer_item \<Rightarrow> movement" where
  "in_movement i t reason it =
     line_movement (ti_product_id it) (destination_warehouse_id t) (destination_location_id t) (ti_quantity it)
       (ti_batch_id it) (ti_serial_numbers it) ''StockTransfer'' i reason (py_or (ti_remarks it) (tr_remarks t))"

section \<open>Execution\<close>

text \<open>The batch of a receipt line: given, found by number, or created. Creating one commits.\<close>

definition batch_for_line :: "receipt_item \<Rightarrow> wms \<times> wms \<Rightarrow> (uuid option \<times> wms \<times> wms) result" where
  "batch_for_line it = (\<lambda>(w, saved).
     if ri_batch_id it \<noteq> None \<or> \<not> truthy (ri_batch_number it) then Inr (ri_batch_id it, w, saved)
     else let num = the (ri_batch_number it) in
       (case first_where (\<lambda>b. b_product_id b = ri_product_id it \<and> batch_number b = num) (batches (stock w)) of
          Some (bi, _) \<Rightarrow> Inr (Some bi, w, saved)
        | None \<Rightarrow>
          if exists_where (\<lambda>b. batch_number b = num) (batches (stock w)) then Inl (IntegrityErr ''batches.batch_number'')
          else let bi = fresh_id w;
                   b = \<lparr>batch_number = num, b_product_id = ri_product_id it, expiry_date = ri_expiry_date it,
                        current_quantity = 0, b_status = ''Active''\<rparr>;
                   w1 = take_id w;
                   w2 = wms_emit [Audit ''CREATE'' ''Batch'' bi] (w1\<lparr>stock := (stock w1)\<lparr>batches := add_row bi b (batches (stock w1))\<rparr>\<rparr>)
               in Inr (Some bi, w2, w2)))"

text \<open>Lines are executed until one fails; the second component is what the failure leaves.\<close>

fun execute_goods_receipt ::
  "uuid \<Rightarrow> receipt \<Rightarrow> uuid option \<Rightarrow> timestamp \<Rightarrow> receipt_item list \<Rightarrow> wms \<times> wms \<Rightarrow> wms result \<times> wms" where
  "execute_goods_receipt i r user now [] (w, saved) = (Inr w, saved)"
| "execute_goods_receipt i r user now (it # its) (w, saved) =
     (case batch_for_line it (w, saved) of
        Inl e \<Rightarrow> (Inl e, saved)
      | Inr (b, w1, saved1) \<Rightarrow>
        (case run_in user now (receipt_movement i r it b) (stock w1) of
           Inl e \<Rightarrow> (Inl e, saved1)
         | Inr s \<Rightarrow> execute_goods_receipt i r user now its (w1\<lparr>stock := s\<rparr>, saved1)))"

fun execute_goods_issue ::
  "uuid \<Rightarrow> issue \<Rightarrow> uuid option \<Rightarrow> timestamp \<Rightarrow> issue_item list \<Rightarrow> wms \<times> wms \<Rightarrow> wms result \<times> wms" where
  "execute_goods_issue i d user now [] (w, saved) = (Inr w, saved)"
| "execute_goods_issue i d user now (it # its) (w, saved) =
     (case (case ii_reservation_id it of None \<Rightarrow> Inr (w, saved)
            | Some ri \<Rightarrow> (case consume_reservation w ri (Some (ii_quantity it)) now of
                Inl e \<Rightarrow> Inl e | Inr w1 \<Rightarrow> Inr (w1, w1))) of
        Inl e \<Rightarrow> (Inl e, saved)
      | Inr (w1, saved1) \<Rightarrow>
        (case run_out user now (issue_movement i d it) (stock w1) of
           Inl e \<Rightarrow> (Inl e, saved1)
         | Inr s \<Rightarrow> execute_goods_issue i d user now its (w1\<lparr>stock := s\<rparr>, saved1)))"

definition run_all :: "(movement \<Rightarrow> stk \<Rightarrow> stk result) \<Rightarrow> movement list \<Rightarrow> wms \<Rightarrow> wms result" where
  "run_all f ms w = (case fold_res f ms (stock w) of Inl e \<Rightarrow> Inl e | Inr s \<Rightarrow> Inr (w\<lparr>stock := s\<rparr>))"

text \<open>The locks are taken in the order of the keys as strings: a missing location sorts first.\<close>

definition lock_rank :: "stock_key \<Rightarrow> nat \<times> nat \<times> nat" where
  "lock_rank = (\<lambda>(p, wh, l). (p, wh, case l of None \<Rightarrow> 0 | Some i \<Rightarrow> i + 1))"

definition transfer_keys :: "transfer \<Rightarrow> stock_key list" where
  "transfer_keys t = sort_key lock_rank (remdups (concat (map (\<lambda>it.
     [(ti_product_id it, source_warehouse_id t, source_location_id t),
      (ti_product_id it, destination_warehouse_id t, destination_location_id t)]) (tr_items t))))"

definition lock_balances :: "stock_key list \<Rightarrow> timestamp \<Rightarrow> stk \<Rightarrow> stk" where
  "lock_balances ks now s = fold (\<lambda>k s. snd (get_or_create_for_update s k now)) ks s"

definition execute_stock_transfer_atomic :: "uuid \<Rightarrow> transfer \<Rightarrow> uuid option \<Rightarrow> timestamp \<Rightarrow> wms \<Rightarrow> wms result" where
  "execute_stock_transfer_atomic i t user now w =
     and_then (run_all (run_out user now) (map (out_movement i t (''Stock Transfer #'' @ tr_number t @ '' (Source OUT)'')) (tr_items t))
         (w\<lparr>stock := lock_balances (transfer_keys t) now (stock w)\<rparr>))
       (run_all (run_in user now) (map (in_movement i t (''Stock Transfer #'' @ tr_number t @ '' (Destination IN)'')) (tr_items t)))"

definition execute_stock_transfer_dispatch :: "uuid \<Rightarrow> transfer \<Rightarrow> uuid option \<Rightarrow> timestamp \<Rightarrow> wms \<Rightarrow> wms result" where
  "execute_stock_transfer_dispatch i t user now =
     run_all (run_out user now)
       (map (out_movement i t (''Stock Transfer Dispatch #'' @ tr_number t @ '' (Out of source WH)'')) (tr_items t))"

definition execute_stock_transfer_receive :: "uuid \<Rightarrow> transfer \<Rightarrow> uuid option \<Rightarrow> timestamp \<Rightarrow> wms \<Rightarrow> wms result" where
  "execute_stock_transfer_receive i t user now =
     run_all (run_in user now)
       (map (in_movement i t (''Stock Transfer Completion #'' @ tr_number t @ '' (Into dest WH)'')) (tr_items t))"

end
