(* ===== verification/WarehouseServices.thy ===== *)
theory WarehouseServices
  imports WarehouseDocs
begin

text \<open>
  \<open>GoodsReceiptService\<close>, \<open>GoodsIssueService\<close> and \<open>StockTransferService\<close>
  (\<^verbatim>\<open>src/app/services/warehouse_operations_services.py\<close>): creating, changing, approving, posting,
  cancelling and deleting the documents. An operation that may leave a partial commit behind
  returns its result and the database it leaves; the others return the new database or nothing.
\<close>

section \<open>Requests\<close>

text \<open>A line of a request is the line that is stored and the \<open>notes\<close> that stand in for missing
  \<open>remarks\<close>.\<close>

record receipt_create =
  grc_number :: string
  grc_warehouse_id :: uuid
  grc_supplier_reference :: "string option"
  grc_external_reference :: "string option"
  grc_date :: "timestamp option"
  grc_remarks :: "string option"
  grc_notes :: "string option"
  grc_items :: "(receipt_item \<times> string option) list"

record receipt_update =
  gru_supplier_reference :: "string option"
  gru_external_reference :: "string option"
  gru_remarks :: "string option"
  gru_notes :: "string option"
  gru_items :: "(receipt_item \<times> string option) list option"

record issue_create =
  gic_number :: string
  gic_warehouse_id :: uuid
  gic_date :: "timestamp option"
  gic_reason :: string
  gic_remarks :: "string option"
  gic_notes :: "string option"
  gic_items :: "(issue_item \<times> string option) list"

record issue_update =
  giu_reason :: "string option"
  giu_remarks :: "string option"
  giu_notes :: "string option"
  giu_items :: "(issue_item \<times> string option) list option"

record transfer_create =
  trc_number :: string
  trc_source_warehouse_id :: uuid
  trc_destination_warehouse_id :: uuid
  trc_source_location_id :: "uuid option"
  trc_destination_location_id :: "uuid option"
  trc_date :: "timestamp option"
  trc_remarks :: "string option"
  trc_notes :: "string option"
  trc_items :: "(transfer_item \<times> string option) list"

record transfer_update =
  tru_source_location_id :: "uuid option"
  tru_destination_location_id :: "uuid option"
  tru_remarks :: "string option"
  tru_notes :: "string option"
  tru_items :: "(transfer_item \<times> string option) list option"

definition receipt_line :: "receipt_item \<times> string option \<Rightarrow> receipt_item" where
  "receipt_line = (\<lambda>(it, notes). it\<lparr>ri_remarks := py_or (ri_remarks it) notes\<rparr>)"

definition issue_line :: "issue_item \<times> string option \<Rightarrow> issue_item" where
  "issue_line = (\<lambda>(it, notes). it\<lparr>ii_remarks := py_or (ii_remarks it) notes\<rparr>)"

definition transfer_line :: "transfer_item \<times> string option \<Rightarrow> transfer_item" where
  "transfer_line = (\<lambda>(it, notes). it\<lparr>ti_remarks := py_or (ti_remarks it) notes\<rparr>)"

text \<open>An optional field of an update keeps the old value when it is missing.\<close>

definition keep_some :: "'a option \<Rightarrow> 'a option \<Rightarrow> 'a option" where
  "keep_some u old = (case u of None \<Rightarrow> old | Some v \<Rightarrow> Some v)"

definition new_remarks :: "string option \<Rightarrow> string option \<Rightarrow> string option \<Rightarrow> string option" where
  "new_remarks r n old = (if r = None \<and> n = None then old else py_or r n)"

section \<open>Goods receipts\<close>

definition create_receipt :: "wms \<Rightarrow> receipt_create \<Rightarrow> uuid option \<Rightarrow> timestamp \<Rightarrow> (uuid \<times> wms) result" where
  "create_receipt w rc user now =
     (if exists_where (\<lambda>r. py_upper (gr_number r) = py_upper (grc_number rc)) (receipts w)
        then Inl (DuplicateResourceException ''Goods receipt number already exists.'')
      else and_then (validate_receipt w (grc_warehouse_id rc) (map fst (grc_items rc))) (\<lambda>_.
        let i = fresh_id w;
            r = \<lparr>gr_number = grc_number rc, gr_warehouse_id = grc_warehouse_id rc,
                 gr_supplier_reference = grc_supplier_reference rc, gr_external_reference = grc_external_reference rc,
                 gr_date = (case grc_date rc of None \<Rightarrow> now | Some d \<Rightarrow> d), gr_status = DocDraft,
                 gr_remarks = py_or (grc_remarks rc) (grc_notes rc), gr_created_by = user, gr_approved_by = None,
                 gr_approved_at = None, gr_items = map receipt_line (grc_items rc)\<rparr>
        in Inr (i, wms_emit [Audit ''GOODS_RECEIPT_CREATE'' ''GoodsReceipt'' i]
             ((take_id w)\<lparr>receipts := add_row i r (receipts w)\<rparr>))))"

definition update_receipt :: "wms \<Rightarrow> uuid \<Rightarrow> receipt_update \<Rightarrow> wms result" where
  "update_receipt w i u =
     (case get (receipts w) i of
        None \<Rightarrow> Inl (NotFoundException ''Goods receipt'')
      | Some r \<Rightarrow>
        if gr_status r \<noteq> DocDraft then Inl (ValidationException ''Only Draft goods receipts can be modified.'')
        else and_then (case gru_items u of None \<Rightarrow> Inr ()
               | Some its \<Rightarrow> validate_receipt w (gr_warehouse_id r) (map fst its)) (\<lambda>_.
          Inr (wms_emit [Audit ''GOODS_RECEIPT_UPDATE'' ''GoodsReceipt'' i]
            (w\<lparr>receipts := modify i (\<lambda>r. r\<lparr>
               gr_supplier_reference := keep_some (gru_supplier_reference u) (gr_supplier_reference r),
               gr_external_reference := keep_some (gru_external_reference u) (gr_external_reference r),
               gr_remarks := new_remarks (gru_remarks u) (gru_notes u) (gr_remarks r),
               gr_items := (case gru_items u of None \<Rightarrow> gr_items r | Some its \<Rightarrow> map receipt_line its)\<rparr>) (receipts w)\<rparr>))))"

definition approve_receipt :: "wms \<Rightarrow> uuid \<Rightarrow> uuid option \<Rightarrow> timestamp \<Rightarrow> wms result" where
  "approve_receipt w i user now =
     (case get (receipts w) i of
        None \<Rightarrow> Inl (NotFoundException ''Goods receipt'')
      | Some r \<Rightarrow>
        if gr_status r \<noteq> DocDraft then Inl (ValidationException ''Only Draft receipts can be approved.'')
        else Inr (wms_emit [Audit ''GOODS_RECEIPT_APPROVE'' ''GoodsReceipt'' i]
          (w\<lparr>receipts := modify i (\<lambda>r. r\<lparr>gr_status := DocApproved, gr_approved_by := user,
             gr_approved_at := Some now\<rparr>) (receipts w)\<rparr>)))"

definition posted_receipt :: "doc_status \<Rightarrow> uuid option \<Rightarrow> timestamp \<Rightarrow> receipt \<Rightarrow> receipt" where
  "posted_receipt target user now r =
     (if gr_approved_by r = None
      then r\<lparr>gr_status := target, gr_approved_by := user, gr_approved_at := Some now\<rparr>
      else r\<lparr>gr_status := target\<rparr>)"

definition post_receipt :: "wms \<Rightarrow> uuid \<Rightarrow> uuid option \<Rightarrow> timestamp \<Rightarrow> doc_status \<Rightarrow> unit result \<times> wms" where
  "post_receipt w i user now target =
     (case get (receipts w) i of
        None \<Rightarrow> (Inl (NotFoundException ''Goods receipt''), w)
      | Some r \<Rightarrow>
        if gr_status r = DocPosted \<or> gr_status r = DocReceived
          then (Inl (ValidationException ''Goods receipt is already posted.''), w)
        else if gr_status r = DocCancelled
          then (Inl (ValidationException ''Cannot post goods receipt in terminal status''), w)
        else (case validate_receipt w (gr_warehouse_id r) (gr_items r) of
            Inl e \<Rightarrow> (Inl e, w)
          | Inr _ \<Rightarrow>
            (case execute_goods_receipt i r user now (gr_items r) (w, w) of
               (Inl e, saved) \<Rightarrow> (Inl e, saved)
             | (Inr w1, _) \<Rightarrow>
               (Inr (), wms_emit [Audit ''GOODS_RECEIPT_POST'' ''GoodsReceipt'' i, Notify ''GOODS_RECEIPT_POSTED'' i]
                  (w1\<lparr>receipts := modify i (posted_receipt target user now) (receipts w1)\<rparr>)))))"

definition receive_receipt :: "wms \<Rightarrow> uuid \<Rightarrow> uuid option \<Rightarrow> timestamp \<Rightarrow> unit result \<times> wms" where
  "receive_receipt w i user now = post_receipt w i user now DocReceived"

definition cancel_receipt :: "wms \<Rightarrow> uuid \<Rightarrow> wms result" where
  "cancel_receipt w i =
     (case get (receipts w) i of
        None \<Rightarrow> Inl (NotFoundException ''Goods receipt'')
      | Some r \<Rightarrow>
        if gr_status r = DocPosted \<or> gr_status r = DocReceived \<or> gr_status r = DocCancelled
          then Inl (ValidationException ''Cannot cancel goods receipt in terminal status'')
        else Inr (wms_emit [Audit ''GOODS_RECEIPT_CANCEL'' ''GoodsReceipt'' i]
          (w\<lparr>receipts := modify i (\<lambda>r. r\<lparr>gr_status := DocCancelled\<rparr>) (receipts w)\<rparr>)))"

definition delete_receipt :: "wms \<Rightarrow> uuid \<Rightarrow> wms result" where
  "delete_receipt w i =
     (case get (receipts w) i of
        None \<Rightarrow> Inl (NotFoundException ''Goods receipt'')
      | Some r \<Rightarrow>
        if gr_status r \<noteq> DocDraft then Inl (ValidationException ''Only Draft goods receipts can be deleted.'')
        else Inr (wms_emit [Audit ''DELETE'' ''GoodsReceipt'' i, Audit ''GOODS_RECEIPT_DELETE'' ''GoodsReceipt'' i]
          (w\<lparr>receipts := remove_row i (receipts w)\<rparr>)))"

section \<open>Goods issues\<close>

definition create_issue :: "wms \<Rightarrow> issue_create \<Rightarrow> uuid option \<Rightarrow> timestamp \<Rightarrow> (uuid \<times> wms) result" where
  "create_issue w ic user now =
     (if exists_where (\<lambda>d. py_upper (gi_number d) = py_upper (gic_number ic)) (issues w)
        then Inl (DuplicateResourceException ''Goods issue number already exists.'')
      else and_then (validate_issue w (gic_warehouse_id ic) (map fst (gic_items ic))) (\<lambda>_.
        let i = fresh_id w;
            d = \<lparr>gi_number = gic_number ic, gi_warehouse_id = gic_warehouse_id ic,
                 gi_date = (case gic_date ic of None \<Rightarrow> now | Some x \<Rightarrow> x), gi_reason = gic_reason ic,
                 gi_status = DocDraft, gi_remarks = py_or (gic_remarks ic) (gic_notes ic), gi_created_by = user,
                 gi_approved_by = None, gi_approved_at = None, gi_items = map issue_line (gic_items ic)\<rparr>
        in Inr (i, wms_emit [Audit ''GOODS_ISSUE_CREATE'' ''GoodsIssue'' i]
             ((take_id w)\<lparr>issues := add_row i d (issues w)\<rparr>))))"

definition update_issue :: "wms \<Rightarrow> uuid \<Rightarrow> issue_update \<Rightarrow> wms result" where
  "update_issue w i u =
     (case get (issues w) i of
        None \<Rightarrow> Inl (NotFoundException ''Goods issue'')
      | Some d \<Rightarrow>
        if gi_status d \<noteq> DocDraft then Inl (ValidationException ''Only Draft goods issues can be modified.'')
        else and_then (case giu_items u of None \<Rightarrow> Inr ()
               | Some its \<Rightarrow> validate_issue w (gi_warehouse_id d) (map fst its)) (\<lambda>_.
          Inr (wms_emit [Audit ''GOODS_ISSUE_UPDATE'' ''GoodsIssue'' i]
            (w\<lparr>issues := modify i (\<lambda>d. d\<lparr>
               gi_reason := (case giu_reason u of None \<Rightarrow> gi_reason d | Some x \<Rightarrow> x),
               gi_remarks := new_remarks (giu_remarks u) (giu_notes u) (gi_remarks d),
               gi_items := (case giu_items u of None \<Rightarrow> gi_items d | Some its \<Rightarrow> map issue_line its)\<rparr>) (issues w)\<rparr>))))"

definition approve_issue :: "wms \<Rightarrow> uuid \<Rightarrow> uuid option \<Rightarrow> timestamp \<Rightarrow> wms result" where
  "approve_issue w i user now =
     (case get (issues w) i of
        None \<Rightarrow> Inl (NotFoundException ''Goods issue'')
      | Some d \<Rightarrow>
        if gi_status d \<noteq> DocDraft then Inl (ValidationException ''Only Draft issues can be approved.'')
        else Inr (wms_emit [Audit ''GOODS_ISSUE_APPROVE'' ''GoodsIssue'' i]
          (w\<lparr>issues := modify i (\<lambda>d. d\<lparr>gi_status := DocApproved, gi_approved_by := user,
             gi_approved_at := Some now\<rparr>) (issues w)\<rparr>)))"

definition posted_issue :: "doc_status \<Rightarrow> uuid option \<Rightarrow> timestamp \<Rightarrow> issue \<Rightarrow> issue" where
  "posted_issue target user now d =
     (if gi_approved_by d = None
      then d\<lparr>gi_status := target, gi_approved_by := user, gi_approved_at := Some now\<rparr>
      else d\<lparr>gi_status := target\<rparr>)"

definition post_issue :: "wms \<Rightarrow> uuid \<Rightarrow> uuid option \<Rightarrow> timestamp \<Rightarrow> doc_status \<Rightarrow> unit result \<times> wms" where
  "post_issue w i user now target =
     (case get (issues w) i of
        None \<Rightarrow> (Inl (NotFoundException ''Goods issue''), w)
      | Some d \<Rightarrow>
        if gi_status d = DocPosted \<or> gi_status d = DocIssued
          then (Inl (ValidationException ''Goods issue is already posted.''), w)
        else if gi_status d = DocCancelled
          then (Inl (ValidationException ''Cannot post goods issue in terminal status''), w)
        else (case validate_issue w (gi_warehouse_id d) (gi_items d) of
            Inl e \<Rightarrow> (Inl e, w)
          | Inr _ \<Rightarrow>
            (case execute_goods_issue i d user now (gi_items d) (w, w) of
               (Inl e, saved) \<Rightarrow> (Inl e, saved)
             | (Inr w1, _) \<Rightarrow>
               (Inr (), wms_emit [Audit ''GOODS_ISSUE_POST'' ''GoodsIssue'' i, Notify ''GOODS_ISSUE_POSTED'' i]
                  (w1\<lparr>issues := modify i (posted_issue target user now) (issues w1)\<rparr>)))))"

definition issue_issue :: "wms \<Rightarrow> uuid \<Rightarrow> uuid option \<Rightarrow> timestamp \<Rightarrow> unit result \<times> wms" where
  "issue_issue w i user now = post_issue w i user now DocIssued"

definition cancel_issue :: "wms \<Rightarrow> uuid \<Rightarrow> wms result" where
  "cancel_issue w i =
     (case get (issues w) i of
        None \<Rightarrow> Inl (NotFoundException ''Goods issue'')
      | Some d \<Rightarrow>
        if gi_status d = DocPosted \<or> gi_status d = DocIssued \<or> gi_status d = DocCancelled
          then Inl (ValidationException ''Cannot cancel goods issue in terminal status'')
        else Inr (wms_emit [Audit ''GOODS_ISSUE_CANCEL'' ''GoodsIssue'' i]
          (w\<lparr>issues := modify i (\<lambda>d. d\<lparr>gi_status := DocCancelled\<rparr>) (issues w)\<rparr>)))"

definition delete_issue :: "wms \<Rightarrow> uuid \<Rightarrow> wms result" where
  "delete_issue w i =
     (case get (issues w) i of
        None \<Rightarrow> Inl (NotFoundException ''Goods issue'')
      | Some d \<Rightarrow>
        if gi_status d \<noteq> DocDraft then Inl (ValidationException ''Only Draft goods issues can be deleted.'')
        else Inr (wms_emit [Audit ''DELETE'' ''GoodsIssue'' i, Audit ''GOODS_ISSUE_DELETE'' ''GoodsIssue'' i]
          (w\<lparr>issues := remove_row i (issues w)\<rparr>)))"

section \<open>Stock transfers\<close>

definition create_transfer :: "wms \<Rightarrow> transfer_create \<Rightarrow> uuid option \<Rightarrow> timestamp \<Rightarrow> (uuid \<times> wms) result" where
  "create_transfer w tc user now =
     (if exists_where (\<lambda>t. py_upper (tr_number t) = py_upper (trc_number tc)) (transfers w)
        then Inl (DuplicateResourceException ''Stock transfer number already exists.'')
      else and_then (validate_transfer w (trc_source_warehouse_id tc) (trc_destination_warehouse_id tc)
          (trc_source_location_id tc) (trc_destination_location_id tc) (map fst (trc_items tc))) (\<lambda>_.
        let i = fresh_id w;
            t = \<lparr>tr_number = trc_number tc, source_warehouse_id = trc_source_warehouse_id tc,
                 destination_warehouse_id = trc_destination_warehouse_id tc,
                 source_location_id = trc_source_location_id tc,
                 destination_location_id = trc_destination_location_id tc,
                 tr_date = (case trc_date tc of None \<Rightarrow> now | Some x \<Rightarrow> x), tr_status = DocDraft,
                 tr_remarks = py_or (trc_remarks tc) (trc_notes tc), tr_created_by = user, tr_approved_by = None,
                 completed_by = None, tr_items = map transfer_line (trc_items tc)\<rparr>
        in Inr (i, wms_emit [Audit ''STOCK_TRANSFER_CREATE'' ''StockTransfer'' i]
             ((take_id w)\<lparr>transfers := add_row i t (transfers w)\<rparr>))))"

definition update_transfer :: "wms \<Rightarrow> uuid \<Rightarrow> transfer_update \<Rightarrow> wms result" where
  "update_transfer w i u =
     (case get (transfers w) i of
        None \<Rightarrow> Inl (NotFoundException ''Stock transfer'')
      | Some t \<Rightarrow>
        if tr_status t \<noteq> DocDraft then Inl (ValidationException ''Only Draft stock transfers can be modified.'')
        else let t1 = t\<lparr>source_location_id := keep_some (tru_source_location_id u) (source_location_id t),
                 destination_location_id := keep_some (tru_destination_location_id u) (destination_location_id t),
                 tr_remarks := new_remarks (tru_remarks u) (tru_notes u) (tr_remarks t)\<rparr>
        in and_then (case tru_items u of None \<Rightarrow> Inr ()
             | Some its \<Rightarrow> validate_transfer w (source_warehouse_id t1) (destination_warehouse_id t1)
                 (source_location_id t1) (destination_location_id t1) (map fst its)) (\<lambda>_.
          Inr (wms_emit [Audit ''STOCK_TRANSFER_UPDATE'' ''StockTransfer'' i]
            (w\<lparr>transfers := modify i (\<lambda>_. t1\<lparr>tr_items :=
               (case tru_items u of None \<Rightarrow> tr_items t1 | Some its \<Rightarrow> map transfer_line its)\<rparr>) (transfers w)\<rparr>))))"

definition approve_transfer :: "wms \<Rightarrow> uuid \<Rightarrow> uuid option \<Rightarrow> wms result" where
  "approve_transfer w i user =
     (case get (transfers w) i of
        None \<Rightarrow> Inl (NotFoundException ''Stock transfer'')
      | Some t \<Rightarrow>
        if tr_status t \<noteq> DocDraft then Inl (ValidationException ''Only Draft transfers can be approved.'')
        else Inr (wms_emit [Audit ''STOCK_TRANSFER_APPROVE'' ''StockTransfer'' i]
          (w\<lparr>transfers := modify i (\<lambda>t. t\<lparr>tr_status := DocApproved, tr_approved_by := user\<rparr>) (transfers w)\<rparr>)))"

definition first_user :: "uuid option \<Rightarrow> uuid option \<Rightarrow> uuid option" where
  "first_user a b = (case a of None \<Rightarrow> b | Some x \<Rightarrow> Some x)"

definition validate_stored_transfer :: "wms \<Rightarrow> transfer \<Rightarrow> unit result" where
  "validate_stored_transfer w t =
     validate_transfer w (source_warehouse_id t) (destination_warehouse_id t) (source_location_id t)
       (destination_location_id t) (tr_items t)"

definition post_transfer :: "wms \<Rightarrow> uuid \<Rightarrow> uuid option \<Rightarrow> timestamp \<Rightarrow> wms result" where
  "post_transfer w i user now =
     (case get (transfers w) i of
        None \<Rightarrow> Inl (NotFoundException ''Stock transfer'')
      | Some t \<Rightarrow>
        if tr_status t = DocPosted \<or> tr_status t = DocCompleted \<or> tr_status t = DocInTransit
          then Inl (ValidationException ''Stock transfer is already posted or in progress.'')
        else if tr_status t = DocCancelled
          then Inl (ValidationException ''Cannot post stock transfer in terminal status'')
        else and_then (validate_stored_transfer w t) (\<lambda>_.
          and_then (execute_stock_transfer_atomic i t user now w) (\<lambda>w1.
            Inr (wms_emit [Audit ''STOCK_TRANSFER_POST'' ''StockTransfer'' i, Notify ''STOCK_TRANSFER_POSTED'' i]
              (w1\<lparr>transfers := modify i (\<lambda>t. t\<lparr>tr_status := DocPosted,
                 tr_approved_by := first_user (tr_approved_by t) user, completed_by := user\<rparr>) (transfers w1)\<rparr>)))))"

definition dispatch_transfer :: "wms \<Rightarrow> uuid \<Rightarrow> uuid option \<Rightarrow> timestamp \<Rightarrow> wms result" where
  "dispatch_transfer w i user now =
     (case get (transfers w) i of
        None \<Rightarrow> Inl (NotFoundException ''Stock transfer'')
      | Some t \<Rightarrow>
        if tr_status t \<noteq> DocDraft \<and> tr_status t \<noteq> DocApproved
          then Inl (ValidationException ''Stock transfer cannot be dispatched.'')
        else and_then (validate_stored_transfer w t) (\<lambda>_.
          and_then (execute_stock_transfer_dispatch i t user now w) (\<lambda>w1.
            Inr (wms_emit [Audit ''STOCK_TRANSFER_DISPATCH'' ''StockTransfer'' i, Notify ''STOCK_TRANSFER_DISPATCHED'' i]
              (w1\<lparr>transfers := modify i (\<lambda>t. t\<lparr>tr_status := DocInTransit,
                 tr_approved_by := first_user (tr_approved_by t) user\<rparr>) (transfers w1)\<rparr>)))))"

definition complete_transfer :: "wms \<Rightarrow> uuid \<Rightarrow> uuid option \<Rightarrow> timestamp \<Rightarrow> wms result" where
  "complete_transfer w i user now =
     (case get (transfers w) i of
        None \<Rightarrow> Inl (NotFoundException ''Stock transfer'')
      | Some t \<Rightarrow>
        if tr_status t \<noteq> DocInTransit
          then Inl (ValidationException ''Only In Transit transfers can be completed/received.'')
        else and_then (execute_stock_transfer_receive i t user now w) (\<lambda>w1.
            Inr (wms_emit [Audit ''STOCK_TRANSFER_COMPLETE'' ''StockTransfer'' i, Notify ''STOCK_TRANSFER_COMPLETED'' i]
              (w1\<lparr>transfers := modify i (\<lambda>t. t\<lparr>tr_status := DocCompleted, completed_by := user\<rparr>) (transfers w1)\<rparr>))))"

definition cancel_transfer :: "wms \<Rightarrow> uuid \<Rightarrow> wms result" where
  "cancel_transfer w i =
     (case get (transfers w) i of
        None \<Rightarrow> Inl (NotFoundException ''Stock transfer'')
      | Some t \<Rightarrow>
        if tr_status t = DocPosted \<or> tr_status t = DocCompleted \<or> tr_status t = DocCancelled
          then Inl (ValidationException ''Cannot cancel stock transfer in terminal status'')
        else Inr (wms_emit [Audit ''STOCK_TRANSFER_CANCEL'' ''StockTransfer'' i]
          (w\<lparr>transfers := modify i (\<lambda>t. t\<lparr>tr_status := DocCancelled\<rparr>) (transfers w)\<rparr>)))"

definition delete_transfer :: "wms \<Rightarrow> uuid \<Rightarrow> wms result" where
  "delete_transfer w i =
     (case get (transfers w) i of
        None \<Rightarrow> Inl (NotFoundException ''Stock transfer'')
      | Some t \<Rightarrow>
        if tr_status t \<noteq> DocDraft then Inl (ValidationException ''Only Draft stock transfers can be deleted.'')
        else Inr (wms_emit [Audit ''DELETE'' ''StockTransfer'' i, Audit ''STOCK_TRANSFER_DELETE'' ''StockTransfer'' i]
          (w\<lparr>transfers := remove_row i (transfers w)\<rparr>)))"

end
