(* ===== verification/WarehouseSystem.thy ===== *)
theory WarehouseSystem
  imports WarehouseServices
begin

text \<open>
  Warehouse operations as a state machine: \<open>wms_step\<close> lists the calls of the reservation, receipt,
  issue and transfer services beside the steps of the inventory engine, with the database a failed
  posting leaves behind.

  Two relations carry the proofs. \<open>books_kept\<close> relates the inventory before and after a call: the
  stock of every key stays the sum of its ledger rows, and the ledger only grows. \<open>closed_kept\<close>
  relates two tables: rows in a final status are still there, unchanged.
\<close>

section \<open>Chained results\<close>

lemma and_then_ok [simp]: "(and_then r f = Inr y) = (\<exists>x. r = Inr x \<and> f x = Inr y)"
  by (cases r) (simp_all add: and_then_def)

lemma and_then_Inr [simp]: "and_then (Inr x) f = f x"
  by (simp add: and_then_def)

section \<open>Steps\<close>

inductive wms_step :: "wms \<Rightarrow> wms \<Rightarrow> bool" where
  engine: "stk_step (stock w) s' \<Longrightarrow> wms_step w (w\<lparr>stock := s'\<rparr>)"
| reserve: "create_reservation w rc num user now = Inr (i, w') \<Longrightarrow> wms_step w w'"
| release: "release_reservation w i now = Inr w' \<Longrightarrow> wms_step w w'"
| unreserve: "cancel_reservation w i now = Inr w' \<Longrightarrow> wms_step w w'"
| consume: "consume_reservation w i q now = Inr w' \<Longrightarrow> wms_step w w'"
| draft_receipt: "create_receipt w rc user now = Inr (i, w') \<Longrightarrow> wms_step w w'"
| edit_receipt: "update_receipt w i u = Inr w' \<Longrightarrow> wms_step w w'"
| sign_receipt: "approve_receipt w i user now = Inr w' \<Longrightarrow> wms_step w w'"
| book_receipt: "post_receipt w i user now DocPosted = (r, w') \<Longrightarrow> wms_step w w'"
| take_receipt: "receive_receipt w i user now = (r, w') \<Longrightarrow> wms_step w w'"
| drop_receipt: "cancel_receipt w i = Inr w' \<Longrightarrow> wms_step w w'"
| erase_receipt: "delete_receipt w i = Inr w' \<Longrightarrow> wms_step w w'"
| draft_issue: "create_issue w ic user now = Inr (i, w') \<Longrightarrow> wms_step w w'"
| edit_issue: "update_issue w i u = Inr w' \<Longrightarrow> wms_step w w'"
| sign_issue: "approve_issue w i user now = Inr w' \<Longrightarrow> wms_step w w'"
| book_issue: "post_issue w i user now DocPosted = (r, w') \<Longrightarrow> wms_step w w'"
| hand_issue: "issue_issue w i user now = (r, w') \<Longrightarrow> wms_step w w'"
| drop_issue: "cancel_issue w i = Inr w' \<Longrightarrow> wms_step w w'"
| erase_issue: "delete_issue w i = Inr w' \<Longrightarrow> wms_step w w'"
| draft_transfer: "create_transfer w tc user now = Inr (i, w') \<Longrightarrow> wms_step w w'"
| edit_transfer: "update_transfer w i u = Inr w' \<Longrightarrow> wms_step w w'"
| sign_transfer: "approve_transfer w i user = Inr w' \<Longrightarrow> wms_step w w'"
| book_transfer: "post_transfer w i user now = Inr w' \<Longrightarrow> wms_step w w'"
| dispatch: "dispatch_transfer w i user now = Inr w' \<Longrightarrow> wms_step w w'"
| complete: "complete_transfer w i user now = Inr w' \<Longrightarrow> wms_step w w'"
| drop_transfer: "cancel_transfer w i = Inr w' \<Longrightarrow> wms_step w w'"
| erase_transfer: "delete_transfer w i = Inr w' \<Longrightarrow> wms_step w w'"

definition wms_init :: "wms \<Rightarrow> bool" where
  "wms_init w = (stk_init (stock w) \<and> reservations w = [] \<and> receipts w = [] \<and> issues w = [] \<and> transfers w = [])"

inductive wms_reachable :: "wms \<Rightarrow> bool" where
  init: "wms_init w \<Longrightarrow> wms_reachable w"
| step: "wms_reachable w \<Longrightarrow> wms_step w w' \<Longrightarrow> wms_reachable w'"

section \<open>The books are kept\<close>

definition books_kept :: "stk \<Rightarrow> stk \<Rightarrow> bool" where
  "books_kept s s' = (stk_inv s \<longrightarrow> stk_inv s' \<and> ledger_extends s s' \<and> stk_next s \<le> stk_next s')"

lemma books_kept_refl [simp]: "books_kept s s"
  by (simp add: books_kept_def)

lemma books_kept_trans: "books_kept s t \<Longrightarrow> books_kept t u \<Longrightarrow> books_kept s u"
  by (auto simp: books_kept_def ledger_extends_def)

lemma stk_inv_wf: "stk_inv s \<Longrightarrow> wf_stk s"
  by (simp add: stk_inv_def)

lemma books_kept_same:
  assumes "wf_stk s \<Longrightarrow> wf_stk s'" and "\<And>k. wf_stk s \<Longrightarrow> stock_of s' k = stock_of s k"
    and "wf_stk s \<Longrightarrow> ledger s' = ledger s" and "wf_stk s \<Longrightarrow> stk_next s \<le> stk_next s'"
  shows "books_kept s s'"
  unfolding books_kept_def
proof
  assume inv: "stk_inv s"
  note same = assms(2,3,4) [OF stk_inv_wf [OF inv]]
  have "ledger_stock s' k = ledger_stock s k" for k by (rule ledger_stock_cong [OF same(2)])
  with inv same assms(1) [OF stk_inv_wf [OF inv]] show "stk_inv s' \<and> ledger_extends s s' \<and> stk_next s \<le> stk_next s'"
    by (simp add: stk_inv_def ledger_extends_same)
qed

lemma books_kept_docs:
  assumes "balances s' = balances s" and "ledger s' = ledger s" and "serials s' = serials s"
    and "batches s' = batches s" and "stk_next s \<le> stk_next s'"
  shows "books_kept s s'"
  using stk_inv_docs [OF _ assms] assms(2,5) by (simp add: books_kept_def ledger_extends_same)

lemma books_kept_step: "stk_step s s' \<Longrightarrow> books_kept s s'"
  by (simp add: books_kept_def stk_step_inv stk_step_extends stk_step_next stk_inv_wf)

lemma books_kept_run_in: "run_in user now m s = Inr s' \<Longrightarrow> books_kept s s'"
  by (erule run_inD) (rule books_kept_step [OF stk_step.movement])

lemma books_kept_run_out: "run_out user now m s = Inr s' \<Longrightarrow> books_kept s s'"
  by (erule run_outD) (rule books_kept_step [OF stk_step.movement])

lemma books_kept_fold:
  assumes "fold_res f ms s = Inr s'" and "\<And>m s s'. f m s = Inr s' \<Longrightarrow> books_kept s s'"
  shows "books_kept s s'"
  using assms(1) by (induction ms arbitrary: s) (auto split: sum.splits intro: books_kept_trans assms(2))

lemma books_kept_lock:
  assumes "get_or_create_for_update s k now = ((i, b), s')"
  shows "books_kept s s'"
  by (rule books_kept_same) (simp_all add: get_or_create [OF _ assms])

lemma books_kept_locks: "books_kept s (lock_balances ks now s)"
proof (induction ks arbitrary: s)
  case (Cons k ks)
  obtain i b s1 where g: "get_or_create_for_update s k now = ((i, b), s1)"
    by (cases "get_or_create_for_update s k now") force
  from books_kept_trans [OF books_kept_lock [OF g] Cons.IH] show ?case by (simp add: lock_balances_def g)
qed (simp add: lock_balances_def)

lemma books_kept_take_id: "books_kept (stock w) (stock (take_id w))"
  by (rule books_kept_docs) (simp_all add: take_id_def)

lemma books_kept_reserved: "books_kept s (set_reserved i q s)"
  by (rule books_kept_same) (simp_all add: set_reserved_stock, simp add: set_reserved_def)

lemma books_kept_give_back: "books_kept s (give_back r q now s)"
proof (rule books_kept_same)
  assume wf: "wf_stk s"
  obtain i b s1 where g: "get_or_create_for_update s (rs_product_id r, rs_warehouse_id r, rs_location_id r) now = ((i, b), s1)"
    by (metis prod.exhaust)
  with get_or_create(11) [OF wf g] show "stk_next s \<le> stk_next (give_back r q now s)"
    by (simp add: give_back_def set_reserved_def)
qed (simp_all add: give_back_stock)

text \<open>A document execution keeps the books in the session and in what it has committed.\<close>

lemma books_kept_batch:
  assumes "batch_for_line it (w, saved) = Inr (b, w1, saved1)" and "books_kept s (stock w)" and "books_kept s (stock saved)"
  shows "books_kept s (stock w1) \<and> books_kept s (stock saved1)"
proof -
  have new: "books_kept (stock w) ((stock (take_id w))\<lparr>batches := add_row (fresh_id w) x (batches (stock (take_id w)))\<rparr>)" for x
    by (rule books_kept_same)
      (auto simp: take_id_def wf_stk_def fresh_id_def intro: wf_table_mono wf_table_add_row stock_of_cong)
  show ?thesis
    using assms books_kept_trans [OF assms(2) new]
    by (auto simp: batch_for_line_def Let_def split: if_splits option.splits)
qed

lemma books_kept_receipt:
  assumes "execute_goods_receipt i r user now its (w, saved) = (res, saved')" and "books_kept s (stock w)"
    and "books_kept s (stock saved)"
  shows "books_kept s (stock saved') \<and> (\<forall>w'. res = Inr w' \<longrightarrow> books_kept s (stock w'))"
  using assms
proof (induction its arbitrary: w saved)
  case (Cons it its)
  show ?case
  proof (cases "batch_for_line it (w, saved)")
    case (Inr x)
    obtain b w1 saved1 where x: "x = (b, w1, saved1)" by (cases x) auto
    note bk = books_kept_batch [OF Inr [unfolded x] Cons.prems(2,3)]
    show ?thesis
    proof (cases "run_in user now (receipt_movement i r it b) (stock w1)")
      case (Inr t)
      with Cons.prems(1) \<open>batch_for_line it (w, saved) = Inr x\<close> x
      have "execute_goods_receipt i r user now its (w1\<lparr>stock := t\<rparr>, saved1) = (res, saved')" by simp
      from Cons.IH [OF this] bk books_kept_trans [OF _ books_kept_run_in [OF Inr]] show ?thesis by simp
    qed (use Cons.prems(1) Inr x bk in auto)
  qed (use Cons.prems in auto)
qed auto

lemma consume_books:
  assumes "consume_reservation w ri q now = Inr w1"
  shows "books_kept (stock w) (stock w1)"
  using assms books_kept_give_back [of "stock w"]
  by (auto simp: consume_reservation_def Let_def split: option.splits if_splits)

lemma books_kept_issue:
  assumes "execute_goods_issue i d user now its (w, saved) = (res, saved')" and "books_kept s (stock w)"
    and "books_kept s (stock saved)"
  shows "books_kept s (stock saved') \<and> (\<forall>w'. res = Inr w' \<longrightarrow> books_kept s (stock w'))"
  using assms
proof (induction its arbitrary: w saved)
  case (Cons it its)
  let ?c = "case ii_reservation_id it of None \<Rightarrow> Inr (w, saved)
    | Some ri \<Rightarrow> (case consume_reservation w ri (Some (ii_quantity it)) now of Inl e \<Rightarrow> Inl e | Inr w1 \<Rightarrow> Inr (w1, w1))"
  show ?case
  proof (cases ?c)
    case (Inr x)
    obtain w1 saved1 where x: "x = (w1, saved1)" by (cases x) auto
    have bk: "books_kept s (stock w1) \<and> books_kept s (stock saved1)"
      using Inr x Cons.prems(2,3) consume_books [of w _ _ now]
      by (auto split: option.splits sum.splits intro: books_kept_trans)
    show ?thesis
    proof (cases "run_out user now (issue_movement i d it) (stock w1)")
      case (Inr t)
      with Cons.prems(1) \<open>?c = Inr x\<close> x
      have "execute_goods_issue i d user now its (w1\<lparr>stock := t\<rparr>, saved1) = (res, saved')" by simp
      from Cons.IH [OF this] bk books_kept_trans [OF _ books_kept_run_out [OF Inr]] show ?thesis by simp
    qed (use Cons.prems(1) Inr x bk in auto)
  qed (use Cons.prems in auto)
qed auto

lemma books_kept_run_all:
  assumes "run_all f ms w = Inr w'" and "\<And>m s s'. f m s = Inr s' \<Longrightarrow> books_kept s s'"
  shows "books_kept (stock w) (stock w')"
  using assms(1) books_kept_fold [OF _ assms(2), where ms = ms and s = "stock w"]
  by (auto simp: run_all_def split: sum.splits)

lemma books_kept_transfer:
  "execute_stock_transfer_atomic i t user now w = Inr w' \<Longrightarrow> books_kept (stock w) (stock w')"
  "execute_stock_transfer_dispatch i t user now w = Inr w' \<Longrightarrow> books_kept (stock w) (stock w')"
  "execute_stock_transfer_receive i t user now w = Inr w' \<Longrightarrow> books_kept (stock w) (stock w')"
proof -
  assume "execute_stock_transfer_atomic i t user now w = Inr w'"
  then obtain w1 where o: "run_all (run_out user now) (map (out_movement i t (''Stock Transfer #'' @ tr_number t @ '' (Source OUT)'')) (tr_items t))
         (w\<lparr>stock := lock_balances (transfer_keys t) now (stock w)\<rparr>) = Inr w1"
    and n: "run_all (run_in user now) (map (in_movement i t (''Stock Transfer #'' @ tr_number t @ '' (Destination IN)'')) (tr_items t)) w1 = Inr w'"
    by (auto simp: execute_stock_transfer_atomic_def)
  have "books_kept (stock w) (stock w1)"
    using books_kept_trans [OF books_kept_locks books_kept_run_all [OF o books_kept_run_out, simplified]] .
  with books_kept_run_all [OF n books_kept_run_in] show "books_kept (stock w) (stock w')"
    by (rule books_kept_trans [rotated])
next
  show "execute_stock_transfer_dispatch i t user now w = Inr w' \<Longrightarrow> books_kept (stock w) (stock w')"
    unfolding execute_stock_transfer_dispatch_def by (erule books_kept_run_all) (rule books_kept_run_out)
  show "execute_stock_transfer_receive i t user now w = Inr w' \<Longrightarrow> books_kept (stock w) (stock w')"
    unfolding execute_stock_transfer_receive_def by (erule books_kept_run_all) (rule books_kept_run_in)
qed

lemma reservation_books:
  assumes "create_reservation w rc num user now = Inr (k, w')"
  shows "books_kept (stock w) (stock w')"
proof -
  let ?key = "(rc_product_id rc, rc_warehouse_id rc, rc_location_id rc)"
  obtain i b s1 where g: "get_or_create_for_update (stock w) ?key now = ((i, b), s1)"
    by (cases "get_or_create_for_update (stock w) ?key now") force
  from assms g obtain q where w': "stock w' = stock (take_id (w\<lparr>stock := set_reserved i q s1\<rparr>))"
    by (auto simp: create_reservation_def Let_def split: sum.splits if_splits)
  have "books_kept s1 (set_reserved i q s1)" by (rule books_kept_reserved)
  from books_kept_trans [OF books_kept_lock [OF g] this] books_kept_take_id [of "w\<lparr>stock := set_reserved i q s1\<rparr>"]
  show ?thesis unfolding w' by (auto intro: books_kept_trans)
qed

lemma end_reservation_books: "end_reservation w i f act now = Inr w' \<Longrightarrow> books_kept (stock w) (stock w')"
  using books_kept_give_back by (auto simp: end_reservation_def split: option.splits if_splits)

lemma post_receipt_books:
  assumes "post_receipt w i user now target = (r, w')"
  shows "books_kept (stock w) (stock w')"
  using assms books_kept_receipt [where w = w and saved = w and s = "stock w"]
  by (auto simp: post_receipt_def split: option.splits if_splits sum.splits prod.splits)

lemma post_issue_books:
  assumes "post_issue w i user now target = (r, w')"
  shows "books_kept (stock w) (stock w')"
  using assms books_kept_issue [where w = w and saved = w and s = "stock w"]
  by (auto simp: post_issue_def split: option.splits if_splits sum.splits prod.splits)

lemma wms_step_books:
  assumes "wms_step w w'"
  shows "books_kept (stock w) (stock w')"
  using assms
proof cases
  case (engine s')
  then show ?thesis by (simp add: books_kept_step)
next
  case (draft_receipt rc user now i)
  then show ?thesis using books_kept_take_id [of w] by (auto simp: create_receipt_def Let_def split: if_splits)
next
  case (draft_issue ic user now i)
  then show ?thesis using books_kept_take_id [of w] by (auto simp: create_issue_def Let_def split: if_splits)
next
  case (draft_transfer tc user now i)
  then show ?thesis using books_kept_take_id [of w] by (auto simp: create_transfer_def Let_def split: if_splits)
qed (auto intro: reservation_books end_reservation_books consume_books post_receipt_books post_issue_books
    simp: release_reservation_def cancel_reservation_def receive_receipt_def issue_issue_def
      update_receipt_def approve_receipt_def cancel_receipt_def delete_receipt_def
      update_issue_def approve_issue_def cancel_issue_def delete_issue_def
      update_transfer_def approve_transfer_def cancel_transfer_def delete_transfer_def Let_def
      post_transfer_def dispatch_transfer_def complete_transfer_def
    dest: books_kept_transfer split: option.splits if_splits)

lemma wms_reachable_inv: "wms_reachable w \<Longrightarrow> stk_inv (stock w)"
  by (induction rule: wms_reachable.induct)
    (auto simp: wms_init_def books_kept_def intro: stk_init_inv dest: wms_step_books)

section \<open>Closed documents\<close>

definition closed_kept :: "('r \<Rightarrow> bool) \<Rightarrow> 'r table \<Rightarrow> 'r table \<Rightarrow> bool" where
  "closed_kept P t t' = (\<forall>i r. get t i = Some r \<longrightarrow> P r \<longrightarrow> get t' i = Some r)"

lemma closed_kept_refl [simp]: "closed_kept P t t"
  by (simp add: closed_kept_def)

lemma closed_kept_trans: "closed_kept P t u \<Longrightarrow> closed_kept P u v \<Longrightarrow> closed_kept P t v"
  by (simp add: closed_kept_def)

lemma closed_kept_add_row [simp]: "closed_kept P t (add_row i r t)"
  by (simp add: closed_kept_def get_add_row_eq split: option.splits)

lemma closed_kept_modify: "\<forall>r. get t i = Some r \<longrightarrow> \<not> P r \<Longrightarrow> closed_kept P t (modify i f t)"
  by (auto simp: closed_kept_def get_modify_eq)

lemma closed_kept_remove: "\<forall>r. get t i = Some r \<longrightarrow> \<not> P r \<Longrightarrow> closed_kept P t (remove_row i t)"
  by (auto simp: closed_kept_def get_remove_row)

definition receipt_closed :: "receipt \<Rightarrow> bool" where
  "receipt_closed r = (gr_status r = DocPosted \<or> gr_status r = DocReceived \<or> gr_status r = DocCancelled)"

definition issue_closed :: "issue \<Rightarrow> bool" where
  "issue_closed d = (gi_status d = DocPosted \<or> gi_status d = DocIssued \<or> gi_status d = DocCancelled)"

definition transfer_closed :: "transfer \<Rightarrow> bool" where
  "transfer_closed t = (tr_status t = DocPosted \<or> tr_status t = DocCompleted \<or> tr_status t = DocCancelled)"

definition reservation_closed :: "reservation \<Rightarrow> bool" where
  "reservation_closed r = (rs_status r \<noteq> ResActive)"

definition docs_kept :: "wms \<Rightarrow> wms \<Rightarrow> bool" where
  "docs_kept w w' =
     (closed_kept receipt_closed (receipts w) (receipts w') \<and> closed_kept issue_closed (issues w) (issues w') \<and>
      closed_kept transfer_closed (transfers w) (transfers w') \<and>
      closed_kept reservation_closed (reservations w) (reservations w'))"

lemma docs_kept_refl [simp]: "docs_kept w w"
  by (simp add: docs_kept_def)

lemma docs_kept_trans: "docs_kept w u \<Longrightarrow> docs_kept u v \<Longrightarrow> docs_kept w v"
  by (auto simp: docs_kept_def intro: closed_kept_trans)

lemma docs_kept_emit [simp]: "docs_kept w (wms_emit es w') = docs_kept w w'"
  by (simp add: docs_kept_def)

lemma docs_kept_stock [simp]: "docs_kept w (w'\<lparr>stock := s\<rparr>) = docs_kept w w'"
  by (simp add: docs_kept_def)

text \<open>What the executions do to the document tables: receipts and transfers touch none, an issue
  consumes active reservations.\<close>

lemma batch_keeps:
  assumes "batch_for_line it (w, saved) = Inr (b, w1, saved1)" and "P w" and "P saved"
    and "\<And>w s. P w \<Longrightarrow> P (w\<lparr>stock := s\<rparr>)" and "\<And>w es. P w \<Longrightarrow> P (wms_emit es w)"
  shows "P w1 \<and> P saved1"
  using assms by (auto simp: batch_for_line_def take_id_def Let_def split: if_splits option.splits)

lemma receipt_keeps:
  assumes "execute_goods_receipt i r user now its (w, saved) = (res, saved')" and "P w" and "P saved"
    and st: "\<And>w s. P w \<Longrightarrow> P (w\<lparr>stock := s\<rparr>)" and em: "\<And>w es. P w \<Longrightarrow> P (wms_emit es w)"
  shows "P saved' \<and> (\<forall>w'. res = Inr w' \<longrightarrow> P w')"
  using assms(1-3)
proof (induction its arbitrary: w saved)
  case (Cons it its)
  show ?case
  proof (cases "batch_for_line it (w, saved)")
    case (Inr x)
    obtain b w1 saved1 where x: "x = (b, w1, saved1)" by (cases x) auto
    note bk = batch_keeps [where P = P, OF Inr [unfolded x] Cons.prems(2,3) st em]
    show ?thesis
    proof (cases "run_in user now (receipt_movement i r it b) (stock w1)")
      case (Inr t)
      with Cons.prems(1) \<open>batch_for_line it (w, saved) = Inr x\<close> x
      have "execute_goods_receipt i r user now its (w1\<lparr>stock := t\<rparr>, saved1) = (res, saved')" by simp
      from Cons.IH [OF this] bk st show ?thesis by simp
    qed (use Cons.prems(1) Inr x bk in auto)
  qed (use Cons.prems in auto)
qed auto

lemma receipt_docs:
  assumes "execute_goods_receipt i r user now its (w, saved) = (res, saved')" and "docs_kept w0 w" and "docs_kept w0 saved"
  shows "docs_kept w0 saved' \<and> (\<forall>w'. res = Inr w' \<longrightarrow> docs_kept w0 w')"
  using assms by (rule receipt_keeps) simp_all

lemma consume_docs:
  assumes "consume_reservation w ri q now = Inr w1"
  shows "docs_kept w w1" "issues w1 = issues w"
  using assms
  by (auto simp: consume_reservation_def Let_def docs_kept_def reservation_closed_def intro!: closed_kept_modify
      split: option.splits if_splits)

lemma issue_keeps:
  assumes "execute_goods_issue i d user now its (w, saved) = (res, saved')" and "P w" and "P saved"
    and st: "\<And>w s. P w \<Longrightarrow> P (w\<lparr>stock := s\<rparr>)"
    and co: "\<And>w w' ri q. P w \<Longrightarrow> consume_reservation w ri q now = Inr w' \<Longrightarrow> P w'"
  shows "P saved' \<and> (\<forall>w'. res = Inr w' \<longrightarrow> P w')"
  using assms(1-3)
proof (induction its arbitrary: w saved)
  case (Cons it its)
  let ?c = "case ii_reservation_id it of None \<Rightarrow> Inr (w, saved)
    | Some ri \<Rightarrow> (case consume_reservation w ri (Some (ii_quantity it)) now of Inl e \<Rightarrow> Inl e | Inr w1 \<Rightarrow> Inr (w1, w1))"
  show ?case
  proof (cases ?c)
    case (Inr x)
    obtain w1 saved1 where x: "x = (w1, saved1)" by (cases x) auto
    have bk: "P w1 \<and> P saved1"
      using Inr x Cons.prems(2,3) co by (auto split: option.splits sum.splits)
    show ?thesis
    proof (cases "run_out user now (issue_movement i d it) (stock w1)")
      case (Inr t)
      with Cons.prems(1) \<open>?c = Inr x\<close> x
      have "execute_goods_issue i d user now its (w1\<lparr>stock := t\<rparr>, saved1) = (res, saved')" by simp
      from Cons.IH [OF this] bk st show ?thesis by simp
    qed (use Cons.prems(1) Inr x bk in auto)
  qed (use Cons.prems in auto)
qed auto

lemma issue_docs:
  assumes "execute_goods_issue i d user now its (w, saved) = (res, saved')" and "docs_kept w0 w" and "docs_kept w0 saved"
  shows "docs_kept w0 saved' \<and> (\<forall>w'. res = Inr w' \<longrightarrow> docs_kept w0 w')"
  using assms by (rule issue_keeps) (auto intro: docs_kept_trans consume_docs(1))

lemma issue_issues:
  assumes "execute_goods_issue i d user now its (w, w) = (res, saved')"
  shows "issues saved' = issues w \<and> (\<forall>w'. res = Inr w' \<longrightarrow> issues w' = issues w)"
  using assms by (rule issue_keeps [where P = "\<lambda>v. issues v = issues w"]) (auto dest: consume_docs(2))

lemma receipt_rows:
  assumes "execute_goods_receipt i r user now its (w, w) = (res, saved')"
  shows "(receipts saved' = receipts w \<and> issues saved' = issues w) \<and>
    (\<forall>w'. res = Inr w' \<longrightarrow> receipts w' = receipts w \<and> issues w' = issues w)"
  using assms by (rule receipt_keeps [where P = "\<lambda>v. receipts v = receipts w \<and> issues v = issues w"]) simp_all

lemma run_all_docs: "run_all f ms w = Inr w' \<Longrightarrow> \<exists>s. w' = w\<lparr>stock := s\<rparr>"
  by (auto simp: run_all_def split: sum.splits)

lemma transfer_docs:
  "execute_stock_transfer_atomic i t user now w = Inr w' \<Longrightarrow> \<exists>s. w' = w\<lparr>stock := s\<rparr>"
  "execute_stock_transfer_dispatch i t user now w = Inr w' \<Longrightarrow> \<exists>s. w' = w\<lparr>stock := s\<rparr>"
  "execute_stock_transfer_receive i t user now w = Inr w' \<Longrightarrow> \<exists>s. w' = w\<lparr>stock := s\<rparr>"
  by (force simp: execute_stock_transfer_atomic_def execute_stock_transfer_dispatch_def
      execute_stock_transfer_receive_def dest!: run_all_docs)+

lemma docs_kept_receipts:
  "docs_kept w w' \<Longrightarrow> closed_kept receipt_closed (receipts w') t \<Longrightarrow> docs_kept w (w'\<lparr>receipts := t\<rparr>)"
  by (auto simp: docs_kept_def intro: closed_kept_trans)

lemma docs_kept_issues:
  "docs_kept w w' \<Longrightarrow> closed_kept issue_closed (issues w') t \<Longrightarrow> docs_kept w (w'\<lparr>issues := t\<rparr>)"
  by (auto simp: docs_kept_def intro: closed_kept_trans)

lemma post_receipt_docs:
  assumes "post_receipt w i user now target = (r, w')"
  shows "docs_kept w w'"
  using assms receipt_docs [where w = w and saved = w and ?w0.0 = w] receipt_rows [where w = w]
  by (fastforce simp: post_receipt_def receipt_closed_def intro!: docs_kept_receipts closed_kept_modify
      split: option.splits if_splits sum.splits prod.splits)

lemma post_issue_docs:
  assumes "post_issue w i user now target = (r, w')"
  shows "docs_kept w w'"
  using assms issue_docs [where w = w and saved = w and ?w0.0 = w] issue_issues [where w = w]
  by (fastforce simp: post_issue_def issue_closed_def intro!: docs_kept_issues closed_kept_modify
      split: option.splits if_splits sum.splits prod.splits)

lemmas doc_handlers =
  create_receipt_def update_receipt_def approve_receipt_def cancel_receipt_def delete_receipt_def
  create_issue_def update_issue_def approve_issue_def cancel_issue_def delete_issue_def
  create_transfer_def update_transfer_def approve_transfer_def cancel_transfer_def delete_transfer_def
  post_transfer_def dispatch_transfer_def complete_transfer_def
  create_reservation_def release_reservation_def cancel_reservation_def end_reservation_def
  receive_receipt_def issue_issue_def

lemma wms_step_docs:
  assumes "wms_step w w'"
  shows "docs_kept w w'"
  using assms
proof cases
  case (consume i q now)
  then show ?thesis by (rule consume_docs)
next
  case (book_receipt i user now r)
  then show ?thesis by (rule post_receipt_docs)
next
  case (take_receipt i user now r)
  then show ?thesis by (auto simp: receive_receipt_def intro: post_receipt_docs)
next
  case (book_issue i user now r)
  then show ?thesis by (rule post_issue_docs)
next
  case (hand_issue i user now r)
  then show ?thesis by (auto simp: issue_issue_def intro: post_issue_docs)
qed (auto simp: doc_handlers Let_def docs_kept_def receipt_closed_def issue_closed_def transfer_closed_def
    reservation_closed_def intro!: closed_kept_modify closed_kept_remove
    dest!: transfer_docs split: option.splits if_splits sum.splits prod.splits)

section \<open>Keys of the goods issues\<close>

text \<open>A call adds at most the next key, and that key is then used up.\<close>

lemma post_rows:
  "post_receipt w i user now target = (r, w') \<Longrightarrow> keys (issues w') = keys (issues w)"
  "post_issue w i user now target = (r, w') \<Longrightarrow> keys (issues w') = keys (issues w)"
  using receipt_rows [where w = w] issue_issues [where w = w]
  by (fastforce simp: post_receipt_def post_issue_def table_simps split: option.splits if_splits sum.splits prod.splits)+

lemma keys_remove_row: "set (keys (remove_row i t)) \<subseteq> set (keys t)"
  by (auto simp: keys_def remove_row_def)

lemma wms_step_issue_keys:
  assumes "wms_step w w'"
  shows "set (keys (issues w')) \<subseteq> set (keys (issues w)) \<or>
    set (keys (issues w')) \<subseteq> insert (fresh_id w) (set (keys (issues w))) \<and> fresh_id w < stk_next (stock w')"
  using assms
proof cases
  case (book_receipt i user now r)
  then show ?thesis by (simp add: post_rows)
next
  case (take_receipt i user now r)
  then show ?thesis by (simp add: receive_receipt_def post_rows)
next
  case (book_issue i user now r)
  then show ?thesis by (simp add: post_rows)
next
  case (hand_issue i user now r)
  then show ?thesis by (simp add: issue_issue_def post_rows)
next
  case (consume i q now)
  then show ?thesis by (simp add: consume_docs)
qed (auto simp: doc_handlers Let_def table_simps take_id_def fresh_id_def
    dest: subsetD [OF keys_remove_row] dest!: transfer_docs split: option.splits if_splits sum.splits prod.splits)

lemma wms_reachable_issue_keys: "wms_reachable w \<Longrightarrow> k \<in> set (keys (issues w)) \<Longrightarrow> k < stk_next (stock w)"
proof (induction arbitrary: k rule: wms_reachable.induct)
  case (init w)
  then show ?case by (simp add: wms_init_def table_simps)
next
  case (step w w')
  from step.hyps(2) have "stk_next (stock w) \<le> stk_next (stock w')"
    using wms_step_books wms_reachable_inv [OF step.hyps(1)] by (auto simp: books_kept_def)
  with wms_step_issue_keys [OF step.hyps(2)] step.IH step.prems show ?case by fastforce
qed

end
