(* ===== verification/WarehouseProperties.thy ===== *)
theory WarehouseProperties
  imports WarehouseSystem StockProperties
begin

text \<open>
  What warehouse operations (\<^verbatim>\<open>src/app/services/warehouse_operations_services.py\<close>,
  \<^verbatim>\<open>inventory_advanced_services.py\<close>) do to the stock: the effect of a posted document on every
  key, what a two-phase transfer adds up to, and what a failed posting or a cancelled transfer
  leaves behind. The proofs rest on the two instances of \<open>stock_port\<close>.
\<close>

section \<open>Movements of document lines\<close>

lemma line_movement_fields [simp]:
  "unkeyed (line_movement p wh l q b sns ref ri reason notes)"
  "m_key (line_movement p wh l q b sns ref ri reason notes) = (p, wh, l)"
  "m_quantity (line_movement p wh l q b sns ref ri reason notes) = q"
  by (simp_all add: line_movement_def unkeyed_def m_key_def)

definition src_key :: "transfer \<Rightarrow> transfer_item \<Rightarrow> stock_key" where
  "src_key t it = (ti_product_id it, source_warehouse_id t, source_location_id t)"

definition dst_key :: "transfer \<Rightarrow> transfer_item \<Rightarrow> stock_key" where
  "dst_key t it = (ti_product_id it, destination_warehouse_id t, destination_location_id t)"

lemma transfer_movements [simp]:
  "unkeyed (out_movement i t r it)" "m_key (out_movement i t r it) = src_key t it"
  "m_quantity (out_movement i t r it) = ti_quantity it"
  "unkeyed (in_movement i t r it)" "m_key (in_movement i t r it) = dst_key t it"
  "m_quantity (in_movement i t r it) = ti_quantity it"
  by (simp_all add: out_movement_def in_movement_def src_key_def dst_key_def)

text \<open>What the lines of a document add up to at one key.\<close>

definition total_at :: "('i \<Rightarrow> stock_key) \<Rightarrow> ('i \<Rightarrow> decimal) \<Rightarrow> 'i list \<Rightarrow> stock_key \<Rightarrow> decimal" where
  "total_at key q its k = sum_list (map (\<lambda>it. if key it = k then q it else 0) its)"

lemma run_all_out:
  assumes wf: "wf_stk (stock w)" and run: "run_all (run_out user now) (map (out_movement i t r) its) w = Inr w'"
  shows "wf_stk (stock w')" "stock_of (stock w') k = stock_of (stock w) k - total_at (src_key t) ti_quantity its k"
    "w' = w\<lparr>stock := stock w'\<rparr>"
proof -
  from run obtain s where s: "fold_res (run_out user now) (map (out_movement i t r) its) (stock w) = Inr s"
    and w': "w' = w\<lparr>stock := s\<rparr>" by (auto simp: run_all_def split: sum.splits)
  have u: "list_all unkeyed (map (out_movement i t r) its)" by (simp add: list_all_iff)
  have neg: "sum_list (map (\<lambda>it. if k = src_key t it then - ti_quantity it else 0) its) =
      - total_at (src_key t) ti_quantity its k"
    by (induction its) (auto simp: total_at_def)
  show "wf_stk (stock w')" "stock_of (stock w') k = stock_of (stock w) k - total_at (src_key t) ti_quantity its k"
    "w' = w\<lparr>stock := stock w'\<rparr>"
    using outward.moves_level [OF wf u s, of k] neg by (auto simp: w' outward.amount_at_def comp_def cong: if_cong)
qed

lemma run_all_in:
  assumes wf: "wf_stk (stock w)" and run: "run_all (run_in user now) (map (in_movement i t r) its) w = Inr w'"
  shows "wf_stk (stock w')" "stock_of (stock w') k = stock_of (stock w) k + total_at (dst_key t) ti_quantity its k"
    "w' = w\<lparr>stock := stock w'\<rparr>"
proof -
  from run obtain s where s: "fold_res (run_in user now) (map (in_movement i t r) its) (stock w) = Inr s"
    and w': "w' = w\<lparr>stock := s\<rparr>" by (auto simp: run_all_def split: sum.splits)
  have u: "list_all unkeyed (map (in_movement i t r) its)" by (simp add: list_all_iff)
  have pos: "sum_list (map (\<lambda>it. if k = dst_key t it then ti_quantity it else 0) its) =
      total_at (dst_key t) ti_quantity its k"
    by (induction its) (auto simp: total_at_def)
  show "wf_stk (stock w')" "stock_of (stock w') k = stock_of (stock w) k + total_at (dst_key t) ti_quantity its k"
    "w' = w\<lparr>stock := stock w'\<rparr>"
    using inward.moves_level [OF wf u s, of k] pos by (auto simp: w' inward.amount_at_def comp_def cong: if_cong)
qed

lemma lock_balances_stock:
  assumes "wf_stk s"
  shows "wf_stk (lock_balances ks now s) \<and> stock_of (lock_balances ks now s) k = stock_of s k"
  using assms
proof (induction ks arbitrary: s)
  case (Cons a ks)
  obtain i b s1 where g: "get_or_create_for_update s a now = ((i, b), s1)"
    by (cases "get_or_create_for_update s a now") force
  from Cons.IH [OF get_or_create(3) [OF Cons.prems g]] get_or_create(5) [OF Cons.prems g]
  show ?case by (simp add: lock_balances_def g)
qed (simp add: lock_balances_def)

lemma transfer_keys_props:
  "distinct (transfer_keys t)" "it \<in> set (tr_items t) \<Longrightarrow> src_key t it \<in> set (transfer_keys t)"
  "it \<in> set (tr_items t) \<Longrightarrow> dst_key t it \<in> set (transfer_keys t)"
  by (auto simp: transfer_keys_def src_key_def dst_key_def)

lemma sum_total_at:
  assumes "distinct ks" and "\<And>it. it \<in> set its \<Longrightarrow> key it \<in> set ks"
  shows "sum_list (map (total_at key q its) ks) = sum_list (map q its)"
  using assms(2)
proof (induction its)
  case Nil
  show ?case by (induction ks) (simp_all add: total_at_def)
next
  case (Cons it its)
  have one: "distinct xs \<Longrightarrow> key it \<in> set xs \<Longrightarrow> sum_list (map (\<lambda>k. if key it = k then q it else 0) xs) = q it" for xs
  proof (induction xs)
    case (Cons a xs)
    have "sum_list (map (\<lambda>k. if key it = k then q it else 0) xs) = 0" if "key it \<notin> set xs"
      using that by (induction xs) auto
    with Cons show ?case by auto
  qed simp
  with Cons assms(1) show ?case by (simp add: total_at_def [abs_def] sum_list_addf)
qed

lemma post_transferD:
  assumes "post_transfer w i user now = Inr w'" and "get (transfers w) i = Some t"
  obtains w1 w2 where "run_all (run_out user now) (map (out_movement i t (''Stock Transfer #'' @ tr_number t @ '' (Source OUT)'')) (tr_items t))
         (w\<lparr>stock := lock_balances (transfer_keys t) now (stock w)\<rparr>) = Inr w1"
    "run_all (run_in user now) (map (in_movement i t (''Stock Transfer #'' @ tr_number t @ '' (Destination IN)'')) (tr_items t)) w1 = Inr w2"
    "stock w' = stock w2"
    "transfers w' = modify i (\<lambda>t. t\<lparr>tr_status := DocPosted, tr_approved_by := first_user (tr_approved_by t) user,
       completed_by := user\<rparr>) (transfers w2)"
  using assms by (auto simp: post_transfer_def execute_stock_transfer_atomic_def split: if_splits)

lemma post_transfer_stock:
  assumes wf: "wf_stk (stock w)" and run: "post_transfer w i user now = Inr w'" and t: "get (transfers w) i = Some t"
  shows "stock_of (stock w') k =
      stock_of (stock w) k - total_at (src_key t) ti_quantity (tr_items t) k + total_at (dst_key t) ti_quantity (tr_items t) k"
    "wf_stk (stock w')" "map_option tr_status (get (transfers w') i) = Some DocPosted"
proof -
  let ?w0 = "w\<lparr>stock := lock_balances (transfer_keys t) now (stock w)\<rparr>"
  from run t obtain w1 w2 where
    o: "run_all (run_out user now) (map (out_movement i t (''Stock Transfer #'' @ tr_number t @ '' (Source OUT)'')) (tr_items t)) ?w0 = Inr w1"
    and n: "run_all (run_in user now) (map (in_movement i t (''Stock Transfer #'' @ tr_number t @ '' (Destination IN)'')) (tr_items t)) w1 = Inr w2"
    and s': "stock w' = stock w2"
    and t': "transfers w' = modify i (\<lambda>t. t\<lparr>tr_status := DocPosted, tr_approved_by := first_user (tr_approved_by t) user,
       completed_by := user\<rparr>) (transfers w2)"
    by (rule post_transferD)
  have w0: "wf_stk (stock ?w0)" "stock_of (stock ?w0) k = stock_of (stock w) k"
    using lock_balances_stock [OF wf] by simp_all
  note a = run_all_out [OF w0(1) o] and b = run_all_in [OF run_all_out(1) [OF w0(1) o] n]
  show "stock_of (stock w') k =
      stock_of (stock w) k - total_at (src_key t) ti_quantity (tr_items t) k + total_at (dst_key t) ti_quantity (tr_items t) k"
    "wf_stk (stock w')"
    using a(2) [of k] b(1) b(2) [of k] w0(2) by (simp_all add: s')
  have "transfers w2 = transfers w1" "transfers w1 = transfers ?w0"
    by (subst b(3), simp) (subst a(3), simp)
  then show "map_option tr_status (get (transfers w') i) = Some DocPosted"
    using t by (simp add: t' tbl.lookup_upd)
qed

lemma dispatch_transfer_stock:
  assumes wf: "wf_stk (stock w)" and run: "dispatch_transfer w i user now = Inr w'" and t: "get (transfers w) i = Some t"
  shows "stock_of (stock w') k = stock_of (stock w) k - total_at (src_key t) ti_quantity (tr_items t) k"
    "wf_stk (stock w')"
    "get (transfers w') i = Some (t\<lparr>tr_status := DocInTransit, tr_approved_by := first_user (tr_approved_by t) user\<rparr>)"
proof -
  from run t obtain w1 where
    o: "run_all (run_out user now) (map (out_movement i t (''Stock Transfer Dispatch #'' @ tr_number t @ '' (Out of source WH)'')) (tr_items t)) w = Inr w1"
    and w': "stock w' = stock w1" "transfers w' = modify i (\<lambda>t. t\<lparr>tr_status := DocInTransit,
       tr_approved_by := first_user (tr_approved_by t) user\<rparr>) (transfers w1)"
    by (auto simp: dispatch_transfer_def execute_stock_transfer_dispatch_def split: if_splits)
  note a = run_all_out [OF wf o]
  show "stock_of (stock w') k = stock_of (stock w) k - total_at (src_key t) ti_quantity (tr_items t) k" "wf_stk (stock w')"
    using a(1) a(2) [of k] by (simp_all add: w')
  have "transfers w1 = transfers w" by (subst a(3), simp)
  then show "get (transfers w') i = Some (t\<lparr>tr_status := DocInTransit, tr_approved_by := first_user (tr_approved_by t) user\<rparr>)"
    using t by (simp add: w' tbl.lookup_upd)
qed

lemma complete_transfer_stock:
  assumes wf: "wf_stk (stock w)" and run: "complete_transfer w i user now = Inr w'" and t: "get (transfers w) i = Some t"
  shows "stock_of (stock w') k = stock_of (stock w) k + total_at (dst_key t) ti_quantity (tr_items t) k"
proof -
  from run t obtain w1 where
    o: "run_all (run_in user now) (map (in_movement i t (''Stock Transfer Completion #'' @ tr_number t @ '' (Into dest WH)'')) (tr_items t)) w = Inr w1"
    and w': "stock w' = stock w1"
    by (auto simp: complete_transfer_def execute_stock_transfer_receive_def split: if_splits)
  show ?thesis using run_all_in(2) [OF wf o, of k] by (simp add: w')
qed

section \<open>Receipts and issues\<close>

lemma batch_for_line_stock:
  assumes wf: "wf_stk (stock w)" and run: "batch_for_line it (w, saved) = Inr (b, w1, saved1)"
  shows "wf_stk (stock w1)" "stock_of (stock w1) k = stock_of (stock w) k" "receipts w1 = receipts w"
    "ri_batch_id it \<noteq> None \<or> \<not> truthy (ri_batch_number it) \<Longrightarrow> w1 = w \<and> saved1 = saved"
proof -
  have "wf_stk (stock w1) \<and> stock_of (stock w1) k = stock_of (stock w) k \<and> receipts w1 = receipts w"
    using assms
    by (auto simp: batch_for_line_def Let_def take_id_def wf_stk_def fresh_id_def stock_of_def get_by_keys_def
        intro: wf_table_mono wf_table_add_row split: if_splits option.splits)
  then show "wf_stk (stock w1)" "stock_of (stock w1) k = stock_of (stock w) k" "receipts w1 = receipts w" by auto
  show "ri_batch_id it \<noteq> None \<or> \<not> truthy (ri_batch_number it) \<Longrightarrow> w1 = w \<and> saved1 = saved"
    using run by (simp add: batch_for_line_def)
qed

definition receipt_key :: "receipt \<Rightarrow> receipt_item \<Rightarrow> stock_key" where
  "receipt_key r it = (ri_product_id it, gr_warehouse_id r, ri_location_id it)"

lemma execute_receipt_stock:
  assumes "wf_stk (stock w)" and "execute_goods_receipt i r user now its (w, saved) = (Inr w', saved')"
  shows "stock_of (stock w') k = stock_of (stock w) k + total_at (receipt_key r) ri_quantity its k
    \<and> receipts w' = receipts w"
  using assms
proof (induction its arbitrary: w saved)
  case Nil
  then show ?case by (simp add: total_at_def)
next
  case (Cons it its)
  from Cons.prems(2) obtain b w1 saved1 where b: "batch_for_line it (w, saved) = Inr (b, w1, saved1)"
    by (auto split: sum.splits)
  note bl = batch_for_line_stock [OF Cons.prems(1) b]
  from Cons.prems(2) b obtain s where s: "run_in user now (receipt_movement i r it b) (stock w1) = Inr s"
    and rest: "execute_goods_receipt i r user now its (w1\<lparr>stock := s\<rparr>, saved1) = (Inr w', saved')"
    by (auto split: sum.splits)
  have u: "unkeyed (receipt_movement i r it b)" and mk: "m_key (receipt_movement i r it b) = receipt_key r it"
    and q: "m_quantity (receipt_movement i r it b) = ri_quantity it"
    by (simp_all add: receipt_movement_def receipt_key_def)
  have s1: "wf_stk s" "stock_of s k = stock_of (stock w1) k + (if k = receipt_key r it then ri_quantity it else 0)"
    using inward.move_good [OF bl(1) u s] inward.move_level [OF bl(1) u s, of k] mk q by simp_all
  from Cons.IH [OF _ rest] s1 bl(2) [of k] bl(3) show ?case by (auto simp: total_at_def)
qed

text \<open>Lines that need no new batch leave nothing behind when the posting fails.\<close>

definition needs_no_batch :: "receipt_item \<Rightarrow> bool" where
  "needs_no_batch it = (ri_batch_id it \<noteq> None \<or> \<not> truthy (ri_batch_number it))"

lemma execute_receipt_saved:
  assumes "list_all needs_no_batch its"
  shows "snd (execute_goods_receipt i r user now its (w, saved)) = saved"
  using assms
proof (induction its arbitrary: w)
  case (Cons it its)
  then have "batch_for_line it (w, saved) = Inr (ri_batch_id it, w, saved)"
    by (auto simp: needs_no_batch_def batch_for_line_def)
  with Cons show ?case by (auto split: sum.splits)
qed simp

definition issue_key :: "issue \<Rightarrow> issue_item \<Rightarrow> stock_key" where
  "issue_key d it = (ii_product_id it, gi_warehouse_id d, ii_location_id it)"

lemma consume_reservation_stock:
  assumes "wf_stk (stock w)" and "consume_reservation w ri q now = Inr w'"
  shows "wf_stk (stock w')" "stock_of (stock w') k = stock_of (stock w) k" "issues w' = issues w"
  using assms(2) give_back_stock(1) [OF assms(1), of _ _ _ k] give_back_stock(2) [OF assms(1)]
  by (auto simp: consume_reservation_def Let_def split: option.splits if_splits)

lemma execute_issue_stock:
  assumes "wf_stk (stock w)" and "execute_goods_issue i d user now its (w, saved) = (Inr w', saved')"
  shows "stock_of (stock w') k = stock_of (stock w) k - total_at (issue_key d) ii_quantity its k
    \<and> issues w' = issues w"
  using assms
proof (induction its arbitrary: w saved)
  case Nil
  then show ?case by (simp add: total_at_def)
next
  case (Cons it its)
  from Cons.prems(2) obtain w1 saved1 where c: "(case ii_reservation_id it of None \<Rightarrow> Inr (w, saved)
      | Some ri \<Rightarrow> (case consume_reservation w ri (Some (ii_quantity it)) now of Inl e \<Rightarrow> Inl e | Inr w1 \<Rightarrow> Inr (w1, w1))) = Inr (w1, saved1)"
    by (auto split: sum.splits)
  have w1: "wf_stk (stock w1)" "stock_of (stock w1) k = stock_of (stock w) k" "issues w1 = issues w"
    using c Cons.prems(1) consume_reservation_stock [OF Cons.prems(1)]
    by (auto split: option.splits sum.splits)
  from Cons.prems(2) c obtain s where s: "run_out user now (issue_movement i d it) (stock w1) = Inr s"
    and rest: "execute_goods_issue i d user now its (w1\<lparr>stock := s\<rparr>, saved1) = (Inr w', saved')"
    by (auto split: sum.splits)
  have u: "unkeyed (issue_movement i d it)" and mk: "m_key (issue_movement i d it) = issue_key d it"
    and q: "m_quantity (issue_movement i d it) = ii_quantity it"
    by (simp_all add: issue_movement_def issue_key_def)
  have s1: "wf_stk s" "stock_of s k = stock_of (stock w1) k + (if k = issue_key d it then - ii_quantity it else 0)"
    using outward.move_good [OF w1(1) u s] outward.move_level [OF w1(1) u s, of k] mk q by simp_all
  from Cons.IH [OF _ rest] s1 w1(2,3) show ?case by (auto simp: total_at_def)
qed

section \<open>A concrete warehouse\<close>

text \<open>Ten pieces of product 1 in warehouse 1 and a transfer of four of them to warehouse 2.\<close>

definition demo_transfer :: transfer where
  "demo_transfer = \<lparr>tr_number = ''T1'', source_warehouse_id = 1, destination_warehouse_id = 2,
     source_location_id = None, destination_location_id = None, tr_date = 0, tr_status = DocDraft,
     tr_remarks = None, tr_created_by = None, tr_approved_by = None, completed_by = None,
     tr_items = [\<lparr>ti_product_id = 1, ti_quantity = 4, ti_unit_id = None, ti_batch_id = None,
       ti_serial_numbers = [], ti_remarks = None\<rparr>]\<rparr>"

definition wms0 :: wms where
  "wms0 = \<lparr>stock = stk1, reservations = [], receipts = [], issues = [], transfers = [(50, demo_transfer)],
     wms_effects = []\<rparr>"

definition wms_of :: "wms result \<Rightarrow> wms" where
  "wms_of r = (case r of Inl _ \<Rightarrow> wms0 | Inr w \<Rightarrow> w)"

lemma wf_wms0: "wf_stk (stock wms0)"
  by (simp add: wms0_def reachable_wf [OF stk_runs(2)])

lemmas run_warehouse =
  run_stock take_id_def fresh_id_def wms_emit_def wms_of_def and_then_def validate_stored_transfer_def
  validate_transfer_def check_warehouse_def check_location_def check_transfer_line_def check_stock_product_def
  check_serials_def post_transfer_def dispatch_transfer_def complete_transfer_def cancel_transfer_def
  execute_stock_transfer_atomic_def execute_stock_transfer_dispatch_def execute_stock_transfer_receive_def
  run_all_def run_in_def run_out_def stock_in_def stock_out_def move_request_def out_movement_def in_movement_def
  line_movement_def first_user_def wms0_def demo_transfer_def

definition "wms_dispatched = wms_of (dispatch_transfer wms0 50 (Some 7) 9)"
definition "wms_completed = wms_of (complete_transfer wms_dispatched 50 (Some 7) 10)"
definition "wms_posted = wms_of (post_transfer wms0 50 (Some 7) 9)"

lemma stk1_rows:
  "stk1 = stk0\<lparr>balances := [(100, (new_balance (1, 1, None) 3)\<lparr>available_quantity := 10\<rparr>)],
     ledger := ledger stk1, stk_effects := stk_effects stk1, stk_next := 102\<rparr>"
  by (simp add: stk1_def run_stock)

lemma transfer_locks: "transfer_keys demo_transfer = [(1, 1, None), (1, 2, None)]"
  by (simp add: transfer_keys_def demo_transfer_def lock_rank_def)

lemma dispatched_eq: "dispatch_transfer wms0 50 (Some 7) 9 = Inr wms_dispatched"
  by (simp add: wms_dispatched_def stk1_def run_warehouse)

lemma completed_eq: "complete_transfer wms_dispatched 50 (Some 7) 10 = Inr wms_completed"
  by (simp add: wms_completed_def wms_dispatched_def stk1_def run_warehouse)

lemma posted_eq: "post_transfer wms0 50 (Some 7) 9 = Inr wms_posted"
  using transfer_locks unfolding demo_transfer_def
  by (simp add: wms_posted_def stk1_def run_warehouse lock_balances_def)

section \<open>Transfers\<close>

text \<open>C10: posting a transfer takes the quantity of every line from its source key and adds it to its destination
  key, moves nothing else, and leaves the sum over all the keys of the transfer as it was.\<close>
theorem transfer_conserves_stock:
  assumes "wf_stk (stock w)" and "post_transfer w i user now = Inr w'" and "get (transfers w) i = Some t"
  shows "stock_of (stock w') k = stock_of (stock w) k
      - total_at (src_key t) ti_quantity (tr_items t) k + total_at (dst_key t) ti_quantity (tr_items t) k
    \<and> sum_list (map (stock_of (stock w')) (transfer_keys t)) = sum_list (map (stock_of (stock w)) (transfer_keys t))"
proof -
  let ?o = "total_at (src_key t) ti_quantity (tr_items t)" and ?d = "total_at (dst_key t) ti_quantity (tr_items t)"
  have eff: "stock_of (stock w') = (\<lambda>k. stock_of (stock w) k - ?o k + ?d k)"
    using post_transfer_stock(1) [OF assms] by auto
  have "sum_list (map ?o (transfer_keys t)) = sum_list (map ti_quantity (tr_items t))"
    "sum_list (map ?d (transfer_keys t)) = sum_list (map ti_quantity (tr_items t))"
    by (rule sum_total_at [OF transfer_keys_props(1) transfer_keys_props(2)], assumption,
        rule sum_total_at [OF transfer_keys_props(1) transfer_keys_props(3)], assumption)
  then show ?thesis by (simp add: eff sum_list_addf sum_list_subtractf)
qed

lemma transfer_conserves_stock_witness:
  "stock_of (stock wms_posted) (1, 2, None) = stock_of (stock wms0) (1, 2, None) + 4"
  using transfer_conserves_stock [OF wf_wms0 posted_eq, of demo_transfer "(1, 2, None)"]
  by (simp add: wms0_def get_def demo_transfer_def total_at_def src_key_def dst_key_def)

text \<open>C26: dispatching a transfer and completing it does to the stock of every key what posting it at once does.\<close>
theorem two_phase_equals_atomic:
  assumes "wf_stk (stock w)" and "dispatch_transfer w i user now = Inr w1"
    and "complete_transfer w1 i user now1 = Inr w2" and "post_transfer w i user now = Inr w'"
  shows "stock_of (stock w2) k = stock_of (stock w') k"
proof -
  obtain t where t: "get (transfers w) i = Some t"
    using assms(2) by (cases "get (transfers w) i") (auto simp: dispatch_transfer_def)
  note d = dispatch_transfer_stock [OF assms(1,2) t]
  show ?thesis
    using d(1) [of k] complete_transfer_stock [OF d(2) assms(3) d(3), of k] post_transfer_stock(1) [OF assms(1,4) t, of k]
    by (simp add: total_at_def dst_key_def)
qed

lemma two_phase_equals_atomic_witness:
  "stock_of (stock wms_completed) (1, 2, None) = stock_of (stock wms_posted) (1, 2, None)"
  by (rule two_phase_equals_atomic [OF wf_wms0 dispatched_eq completed_eq posted_eq])

text \<open>a transfer that is on its way can be cancelled; the goods it took from the source are then in no
  warehouse, and the transfer can neither be completed nor posted, dispatched or cancelled again.\<close>
theorem cancelled_in_transit_loses_stock:
  assumes "wf_stk (stock w)" and "dispatch_transfer w i user now = Inr w1" and "get (transfers w) i = Some t"
  shows "\<exists>w2. cancel_transfer w1 i = Inr w2
    \<and> stock_of (stock w2) k = stock_of (stock w) k - total_at (src_key t) ti_quantity (tr_items t) k
    \<and> \<not> is_ok (complete_transfer w2 i user now') \<and> \<not> is_ok (post_transfer w2 i user now')
    \<and> \<not> is_ok (dispatch_transfer w2 i user now') \<and> \<not> is_ok (cancel_transfer w2 i)"
proof -
  note d = dispatch_transfer_stock [OF assms]
  define w2 where "w2 = wms_emit [Audit ''STOCK_TRANSFER_CANCEL'' ''StockTransfer'' i]
    (w1\<lparr>transfers := modify i (\<lambda>t. t\<lparr>tr_status := DocCancelled\<rparr>) (transfers w1)\<rparr>)"
  have c: "cancel_transfer w1 i = Inr w2" using d(3) by (simp add: cancel_transfer_def w2_def)
  have t2: "map_option tr_status (get (transfers w2) i) = Some DocCancelled" "stock w2 = stock w1"
    using d(3) by (simp_all add: w2_def tbl.lookup_upd)
  have refuse: "\<not> is_ok (complete_transfer w2 i user now')" "\<not> is_ok (post_transfer w2 i user now')"
    "\<not> is_ok (dispatch_transfer w2 i user now')" "\<not> is_ok (cancel_transfer w2 i)"
    using t2(1) by (auto simp: complete_transfer_def post_transfer_def dispatch_transfer_def cancel_transfer_def)
  show ?thesis using c d(1) [of k] t2(2) refuse by (intro exI [of _ w2]) simp
qed

lemma cancelled_in_transit_loses_stock_witness:
  "\<exists>w2. cancel_transfer wms_dispatched 50 = Inr w2 \<and> stock_of (stock w2) (1, 1, None) = stock_of (stock wms0) (1, 1, None) - 4"
  using cancelled_in_transit_loses_stock [OF wf_wms0 dispatched_eq, of demo_transfer "(1, 1, None)"]
  by (simp add: wms0_def get_def demo_transfer_def total_at_def src_key_def) blast

section \<open>Receipts and issues\<close>

definition demo_receipt_item :: "decimal \<Rightarrow> uuid \<Rightarrow> string option \<Rightarrow> receipt_item" where
  "demo_receipt_item q p num = \<lparr>ri_product_id = p, ri_location_id = None, ri_quantity = q, ri_unit_id = None,
     ri_unit_cost = None, ri_batch_id = None, ri_batch_number = num, ri_expiry_date = None,
     ri_serial_numbers = [], ri_remarks = None\<rparr>"

definition demo_receipt :: "receipt_item list \<Rightarrow> receipt" where
  "demo_receipt its = \<lparr>gr_number = ''G1'', gr_warehouse_id = 1, gr_supplier_reference = None,
     gr_external_reference = None, gr_date = 0, gr_status = DocDraft, gr_remarks = None, gr_created_by = None,
     gr_approved_by = None, gr_approved_at = None, gr_items = its\<rparr>"

definition receipt_wms :: "receipt_item list \<Rightarrow> wms" where
  "receipt_wms its = \<lparr>stock = stk0, reservations = [], receipts = [(60, demo_receipt its)], issues = [],
     transfers = [], wms_effects = []\<rparr>"

lemmas run_receipt =
  run_warehouse receipt_wms_def demo_receipt_def demo_receipt_item_def post_receipt_def validate_receipt_def
  check_receipt_line_def batch_for_line_def receipt_movement_def posted_receipt_def batch_in_def

text \<open>a receipt that is posted adds the quantity of every line to its key and nothing else, and can then be
  neither posted again, nor cancelled, changed, approved or deleted.\<close>
theorem receipt_posts_once:
  assumes "wf_stk (stock w)" and "post_receipt w i user now target = (Inr (), w')"
    and "get (receipts w) i = Some r" and "target = DocPosted \<or> target = DocReceived"
  shows "stock_of (stock w') k = stock_of (stock w) k + total_at (receipt_key r) ri_quantity (gr_items r) k
    \<and> fst (post_receipt w' i user' now' target') \<noteq> Inr () \<and> \<not> is_ok (cancel_receipt w' i)
    \<and> \<not> is_ok (update_receipt w' i u) \<and> \<not> is_ok (approve_receipt w' i user' now') \<and> \<not> is_ok (delete_receipt w' i)"
proof -
  from assms(2,3) obtain w1 saved where ex: "execute_goods_receipt i r user now (gr_items r) (w, w) = (Inr w1, saved)"
    and w': "stock w' = stock w1" "receipts w' = modify i (posted_receipt target user now) (receipts w1)"
    by (auto simp: post_receipt_def split: if_splits sum.splits prod.splits)
  note st = execute_receipt_stock [OF assms(1) ex, of k]
  then have "get (receipts w') i = Some (posted_receipt target user now r)"
    using assms(3) by (simp add: w' tbl.lookup_upd)
  moreover have "gr_status (posted_receipt target user now r) = target" by (simp add: posted_receipt_def)
  ultimately show ?thesis using st assms(4)
    by (auto simp: w'(1) post_receipt_def cancel_receipt_def update_receipt_def approve_receipt_def delete_receipt_def)
qed

lemma receipt_posts_once_witness:
  "\<exists>w'. post_receipt (receipt_wms [demo_receipt_item 5 1 None]) 60 None 3 DocPosted = (Inr (), w') \<and>
     stock_of (stock w') (1, 1, None) = stock_of stk0 (1, 1, None) + 5"
proof -
  let ?w = "receipt_wms [demo_receipt_item 5 1 None]"
  have "fst (post_receipt ?w 60 None 3 DocPosted) = Inr ()" by (simp add: run_receipt)
  then obtain w' where w': "post_receipt ?w 60 None 3 DocPosted = (Inr (), w')"
    by (cases "post_receipt ?w 60 None 3 DocPosted") auto
  have wf: "wf_stk (stock ?w)" using reachable_wf [OF stk_runs(1)] by (simp add: receipt_wms_def)
  have r: "get (receipts ?w) 60 = Some (demo_receipt [demo_receipt_item 5 1 None])"
    by (simp add: receipt_wms_def get_def)
  from receipt_posts_once [OF wf w' r, of "(1, 1, None)"] have
    "stock_of (stock w') (1, 1, None) = stock_of (stock ?w) (1, 1, None) + 5"
    by (simp add: total_at_def receipt_key_def demo_receipt_def demo_receipt_item_def)
  with w' show ?thesis by (simp add: receipt_wms_def)
qed

text \<open>a receipt whose lines all name their batch, or need none, is posted completely or not at all: when the
  posting fails the database is what it was.\<close>
theorem receipt_atomic_without_new_batch:
  assumes "post_receipt w i user now target = (Inl e, w')" and "get (receipts w) i = Some r"
    and "list_all needs_no_batch (gr_items r)"
  shows "w' = w"
  using assms(1,2) execute_receipt_saved [OF assms(3), of i r user now w w]
  by (auto simp: post_receipt_def split: if_splits sum.splits prod.splits)

lemma receipt_atomic_without_new_batch_witness:
  "post_receipt (receipt_wms [demo_receipt_item 5 1 None, demo_receipt_item (1/2) 2 None]) 60 None 3 DocPosted =
     (Inl (ValidationException ''serial_numbers list is required.''),
      receipt_wms [demo_receipt_item 5 1 None, demo_receipt_item (1/2) 2 None])"
proof -
  let ?its = "[demo_receipt_item 5 1 None, demo_receipt_item (1/2) 2 None]"
  let ?e = "ValidationException ''serial_numbers list is required.''"
  have "fst (post_receipt (receipt_wms ?its) 60 None 3 DocPosted) = Inl ?e" by (simp add: run_receipt)
  then obtain w' where w': "post_receipt (receipt_wms ?its) 60 None 3 DocPosted = (Inl ?e, w')"
    by (cases "post_receipt (receipt_wms ?its) 60 None 3 DocPosted") auto
  have "w' = receipt_wms ?its"
    by (rule receipt_atomic_without_new_batch [OF w', of "demo_receipt ?its"])
      (simp_all add: receipt_wms_def get_def demo_receipt_def demo_receipt_item_def needs_no_batch_def truthy_def)
  with w' show ?thesis by simp
qed

text \<open>with a new batch it is not: the receipt below fails in its third line, stays a draft, and yet leaves the
  first line's five pieces in stock, because creating the batch of the second line commits; posting it
  again would add them again.\<close>
theorem receipt_not_atomic_with_new_batch:
  "case post_receipt (receipt_wms [demo_receipt_item 5 1 None, demo_receipt_item 2 3 (Some ''N''),
       (demo_receipt_item 1 1 None)\<lparr>ri_serial_numbers := [''X'', ''X'']\<rparr>]) 60 None 3 DocPosted of
     (r, w') \<Rightarrow> \<not> is_ok r \<and> map_option gr_status (get (receipts w') 60) = Some DocDraft \<and>
       stock_of (stock w') (1, 1, None) = 5"
  by (simp add: run_receipt stock_of_def)

text \<open>a goods issue that is posted takes the quantity of every line from its key and nothing else; what the
  lines reserve changes no stock.\<close>
theorem issue_takes_stock:
  assumes "wf_stk (stock w)" and "post_issue w i user now target = (Inr (), w')" and "get (issues w) i = Some d"
  shows "stock_of (stock w') k = stock_of (stock w) k - total_at (issue_key d) ii_quantity (gi_items d) k
    \<and> map_option gi_status (get (issues w') i) = Some target"
proof -
  from assms(2,3) obtain w1 saved where ex: "execute_goods_issue i d user now (gi_items d) (w, w) = (Inr w1, saved)"
    and w': "stock w' = stock w1" "issues w' = modify i (posted_issue target user now) (issues w1)"
    by (auto simp: post_issue_def split: if_splits sum.splits prod.splits)
  from execute_issue_stock [OF assms(1) ex, of k] assms(3) show ?thesis
    by (simp add: w' tbl.lookup_upd posted_issue_def)
qed

definition demo_issue :: "uuid option \<Rightarrow> decimal \<Rightarrow> issue" where
  "demo_issue res q = \<lparr>gi_number = ''I1'', gi_warehouse_id = 1, gi_date = 0, gi_reason = ''Internal'',
     gi_status = DocDraft, gi_remarks = None, gi_created_by = None, gi_approved_by = None, gi_approved_at = None,
     gi_items = [\<lparr>ii_product_id = 1, ii_location_id = None, ii_quantity = q, ii_unit_id = None, ii_batch_id = None,
       ii_serial_numbers = [], ii_reservation_id = res, ii_remarks = None\<rparr>]\<rparr>"

definition demo_reservation :: "decimal \<Rightarrow> reservation" where
  "demo_reservation q = \<lparr>rs_number = ''R1'', rs_product_id = 1, rs_warehouse_id = 1, rs_location_id = None,
     rs_batch_id = None, rs_quantity = q, rs_for_type = ''Sales'', rs_for_id = None, rs_status = ResActive,
     rs_expires_at = None, rs_released_at = None, rs_consumed_at = None, rs_remarks = None, rs_created_by = None\<rparr>"

definition issue_wms :: "issue \<Rightarrow> wms" where
  "issue_wms d = \<lparr>stock = stk1, reservations = [(70, demo_reservation 20)], receipts = [], issues = [(61, d)],
     transfers = [], wms_effects = []\<rparr>"

lemmas run_issue =
  run_warehouse issue_wms_def demo_issue_def demo_reservation_def post_issue_def validate_issue_def
  check_issue_line_def issue_movement_def posted_issue_def consume_reservation_def give_back_def set_reserved_def

lemma issue_takes_stock_witness:
  "\<exists>w'. post_issue (issue_wms (demo_issue None 4)) 61 None 9 DocPosted = (Inr (), w') \<and>
     stock_of (stock w') (1, 1, None) = stock_of stk1 (1, 1, None) - 4"
proof -
  let ?w = "issue_wms (demo_issue None 4)"
  have "fst (post_issue ?w 61 None 9 DocPosted) = Inr ()" by (simp add: run_issue stk1_def)
  then obtain w' where w': "post_issue ?w 61 None 9 DocPosted = (Inr (), w')"
    by (cases "post_issue ?w 61 None 9 DocPosted") auto
  have wf: "wf_stk (stock ?w)" using reachable_wf [OF stk_runs(2)] by (simp add: issue_wms_def)
  have d: "get (issues ?w) 61 = Some (demo_issue None 4)" by (simp add: issue_wms_def get_def)
  from issue_takes_stock [OF wf w' d, of "(1, 1, None)"] have
    "stock_of (stock w') (1, 1, None) = stock_of (stock ?w) (1, 1, None) - 4"
    by (simp add: total_at_def issue_key_def demo_issue_def)
  with w' show ?thesis by (simp add: issue_wms_def)
qed

text \<open>a goods issue for a reservation is not atomic: the issue below asks for more than there is and fails,
  and yet its reservation is consumed, because the audit entry of the consumption commits.\<close>
theorem failed_issue_consumes_reservation:
  "case post_issue (issue_wms (demo_issue (Some 70) 20)) 61 None 9 DocPosted of
     (r, w') \<Rightarrow> \<not> is_ok r \<and> map_option rs_status (get (reservations w') 70) = Some ResConsumed \<and>
       map_option gi_status (get (issues w') 61) = Some DocDraft"
  by (simp add: run_issue stk1_def)

section \<open>Reservations\<close>

text \<open>for a product that must not go negative a reservation succeeds only within the unreserved stock of its
  key, and its balance row then holds the larger of what the row had reserved and what is reserved anywhere in
  the warehouse, plus the new quantity, within the available quantity.\<close>
theorem reservation_within_stock:
  assumes "wf_stk (stock w)" and "create_reservation w rc num user now = Inr (i, w')"
    and "get (products (stock w)) (rc_product_id rc) = Some p" and "\<not> allow_negative_stock p"
    and "get_by_keys (stock w) (rc_product_id rc, rc_warehouse_id rc, rc_location_id rc) = Some (j, b)"
  shows "\<exists>b'. get (balances (stock w')) j = Some b'
    \<and> reserved_quantity b' = max (reserved_quantity b)
        (get_active_reserved_quantity w (rc_product_id rc) (rc_warehouse_id rc)) + rc_quantity rc
    \<and> reserved_quantity b' \<le> available_quantity b' \<and> available_quantity b' = available_quantity b
    \<and> stock_of (stock w') k = stock_of (stock w) k"
proof -
  let ?k = "(rc_product_id rc, rc_warehouse_id rc, rc_location_id rc)"
  let ?q = "max (reserved_quantity b) (get_active_reserved_quantity w (rc_product_id rc) (rc_warehouse_id rc)) + rc_quantity rc"
  have g: "get_or_create_for_update (stock w) ?k now = ((j, b), stock w)"
    using assms(5) by (simp add: get_or_create_for_update_def)
  from assms(2) obtain p' where p': "reservation_checks w rc now = Inr p'"
    by (auto simp: create_reservation_def split: sum.splits)
  then have "p' = p" using assms(3)
    by (auto simp: reservation_checks_def split: if_splits option.splits)
  with assms(2,4) g p' have bound: "?q \<le> available_quantity b"
    and w': "stock w' = (set_reserved j ?q (stock w))\<lparr>stk_next := stk_next (stock w) + 1\<rparr>"
    by (auto simp: create_reservation_def Let_def take_id_def set_reserved_def fresh_id_def split: if_splits)
  have "get (balances (stock w)) j = Some b"
    using assms(1,5) by (auto simp: get_by_keys_def wf_stk_def wf_table_def intro: first_where_get)
  moreover have "stock_of (stock w') k = stock_of (stock w) k"
    using set_reserved_stock(1) [OF assms(1), of j ?q k] stock_of_cong [of "stock w'" "set_reserved j ?q (stock w)" k]
    by (simp add: w')
  ultimately show ?thesis using bound by (auto simp: w' set_reserved_def tbl.lookup_upd)
qed

lemma reservation_within_stock_witness:
  "\<exists>w' b'. create_reservation wms0 \<lparr>rc_product_id = 1, rc_warehouse_id = 1, rc_location_id = None, rc_batch_id = None,
      rc_quantity = 6, rc_reserved_for_type = None, rc_reference_type = None, rc_reserved_for_id = None,
      rc_reference_id = None, rc_expires_at = None, rc_remarks = None, rc_notes = None\<rparr> ''R'' None 9 = Inr (102, w')
    \<and> get (balances (stock w')) 100 = Some b' \<and> reserved_quantity b' = 6"
proof -
  let ?rc = "\<lparr>rc_product_id = 1, rc_warehouse_id = 1, rc_location_id = None, rc_batch_id = None,
      rc_quantity = 6, rc_reserved_for_type = None, rc_reference_type = None, rc_reserved_for_id = None,
      rc_reference_id = None, rc_expires_at = None, rc_remarks = None, rc_notes = None\<rparr>"
  let ?b = "(new_balance (1, 1, None) 3)\<lparr>available_quantity := 10\<rparr>"
  define r where "r = create_reservation wms0 ?rc ''R'' None 9"
  have "map_sum id fst r = Inr 102"
    by (simp add: r_def create_reservation_def reservation_checks_def get_active_reserved_quantity_def sum_rows_def
        set_reserved_def stk1_def run_warehouse)
  then obtain w' where w': "create_reservation wms0 ?rc ''R'' None 9 = Inr (102, w')"
    by (cases r) (auto simp: r_def)
  have p: "get (products (stock wms0)) 1 = Some (demo_product ''NONE'')"
    by (simp add: wms0_def stk1_def run_stock)
  have b: "get_by_keys (stock wms0) (1, 1, None) = Some (100, ?b)"
    by (simp add: wms0_def stk1_def run_stock)
  from reservation_within_stock [OF wf_wms0 w', of "demo_product ''NONE''" 100 ?b "(1, 1, None)"] p b
  obtain b' where "get (balances (stock w')) 100 = Some b'" "reserved_quantity b' = 6"
    by (auto simp: demo_product_def get_active_reserved_quantity_def wms0_def sum_rows_def new_balance_def)
  with w' show ?thesis by blast
qed

section \<open>The whole warehouse\<close>

text \<open>An empty warehouse, and its state after a first delivery.\<close>

definition "wms_start = wms0\<lparr>stock := stk0, transfers := []\<rparr>"
definition "wms_stocked = wms_start\<lparr>stock := stk1\<rparr>"

lemma wms_stocked_reachable: "wms_reachable wms_stocked"
proof -
  have "stk_init stk0"
    by (simp add: stk_init_def stk0_def wf_stk_def wf_table_def keys_def unique_on_def)
  then have "wms_reachable wms_start"
    by (intro wms_reachable.init) (simp add: wms_init_def wms_start_def wms0_def)
  moreover have "wms_step wms_start wms_stocked"
    unfolding wms_stocked_def
    by (rule wms_step.engine) (simp add: wms_start_def stk_step.movement [OF stk1_eq])
  ultimately show ?thesis by (rule wms_reachable.step)
qed

text \<open>C5: whatever sequence of warehouse calls is made, failed postings included, the stock of every key is the
  sum of its ledger rows, and the next call only appends to the ledger.\<close>
theorem warehouse_keeps_books:
  assumes "wms_reachable w"
  shows "stock_of (stock w) k = ledger_stock (stock w) k
    \<and> (\<forall>w'. wms_step w w' \<longrightarrow> (\<exists>rows. ledger (stock w') = ledger (stock w) @ rows))"
  using stk_inv_stock [OF wms_reachable_inv [OF assms]] wms_reachable_inv [OF assms] wms_step_books
  by (auto simp: books_kept_def ledger_extends_def)

lemma warehouse_keeps_books_witness:
  "stock_of (stock wms_stocked) (1, 1, None) = ledger_stock (stock wms_stocked) (1, 1, None)"
  using warehouse_keeps_books [OF wms_stocked_reachable] by blast

text \<open>a document in a final status (posted, received, issued, completed or cancelled) and an ended reservation
  never change again and are never deleted, whatever call is made next.\<close>
theorem closed_documents_are_final:
  assumes "wms_step w w'"
  shows "(\<forall>i r. get (receipts w) i = Some r \<and> gr_status r \<in> {DocPosted, DocReceived, DocCancelled}
        \<longrightarrow> get (receipts w') i = Some r)
    \<and> (\<forall>i d. get (issues w) i = Some d \<and> gi_status d \<in> {DocPosted, DocIssued, DocCancelled}
        \<longrightarrow> get (issues w') i = Some d)
    \<and> (\<forall>i t. get (transfers w) i = Some t \<and> tr_status t \<in> {DocPosted, DocCompleted, DocCancelled}
        \<longrightarrow> get (transfers w') i = Some t)
    \<and> (\<forall>i r. get (reservations w) i = Some r \<and> rs_status r \<noteq> ResActive \<longrightarrow> get (reservations w') i = Some r)"
  using wms_step_docs [OF assms]
  unfolding docs_kept_def closed_kept_def receipt_closed_def issue_closed_def transfer_closed_def
    reservation_closed_def by blast

lemma closed_documents_are_final_witness:
  "\<exists>t. get (transfers wms_posted) 50 = Some t \<and> tr_status t = DocPosted \<and>
     get (transfers (wms_posted\<lparr>stock := get_or_create_balance (stock wms_posted) (9, 9, None) 11\<rparr>)) 50 = Some t"
proof -
  have "get (transfers wms0) 50 = Some demo_transfer" by (simp add: wms0_def get_def)
  from post_transfer_stock(3) [OF wf_wms0 posted_eq this]
  obtain t where t: "get (transfers wms_posted) 50 = Some t" "tr_status t = DocPosted" by auto
  with closed_documents_are_final [OF wms_step.engine [OF stk_step.touch_balance], of wms_posted "(9, 9, None)" 11]
  show ?thesis by blast
qed

end
