(* ===== verification/ApprovalModel.thy ===== *)
theory ApprovalModel
  imports ErpPrelude
begin

text \<open>
  The rows of the approval engine (\<^verbatim>\<open>src/app/models/approval_workflow.py\<close>), its queries
  (\<^verbatim>\<open>src/app/repositories/approval_workflow.py\<close>) and the service that maintains workflow
  definitions (\<^verbatim>\<open>src/app/services/approval_workflow.py\<close>). A role row has no \<open>is_deleted\<close>
  attribute (\<^verbatim>\<open>src/app/models/role.py\<close>): reading it raises.
\<close>

section \<open>Rows\<close>

record user =
  user_id :: uuid
  is_superuser :: bool

record workflow =
  wf_code :: string
  wf_name :: string
  wf_description :: "string option"
  wf_module_name :: string
  wf_is_active :: bool
  wf_is_deleted :: bool

record approval_step =
  as_workflow_id :: uuid
  as_step_number :: int
  as_approver_role_id :: uuid
  as_required_approvals :: int
  as_auto_approve :: bool
  as_is_active :: bool
  as_is_deleted :: bool

datatype approval_status = ApPending | ApApproved | ApRejected | ApCancelled

record approval_request =
  ar_workflow_id :: uuid
  ar_entity_type :: string
  ar_entity_id :: string
  current_step_number :: int
  ar_status :: approval_status
  submitted_by :: uuid
  submitted_at :: timestamp
  completed_at :: "timestamp option"
  ar_is_deleted :: bool

datatype approval_action = Submitting | ApprovedStep | RejectedStep | CancelledRequest | CompletedWorkflow

record approval_history =
  ah_request_id :: uuid
  ah_step_number :: int
  ah_action :: approval_action
  ah_comments :: "string option"
  ah_performed_by :: uuid
  ah_action_time :: timestamp

record approvals =
  workflows :: "workflow table"
  approval_steps :: "approval_step table"
  approval_requests :: "approval_request table"
  approval_histories :: "approval_history table"
  roles :: "uuid list"
  user_roles :: "(uuid \<times> uuid) list"
  ap_next :: uuid
  ap_effects :: "effect list"

definition ap_emit :: "effect list \<Rightarrow> approvals \<Rightarrow> approvals" where
  "ap_emit es s = s\<lparr>ap_effects := ap_effects s @ es\<rparr>"

section \<open>Queries\<close>

definition get_by_code :: "approvals \<Rightarrow> string \<Rightarrow> bool \<Rightarrow> (uuid \<times> workflow) option" where
  "get_by_code s code include_deleted =
     first_where (\<lambda>w. wf_code w = code \<and> (include_deleted \<or> \<not> wf_is_deleted w)) (workflows s)"

definition get_workflow :: "approvals \<Rightarrow> uuid \<Rightarrow> workflow option" where
  "get_workflow s i =
     (case get (workflows s) i of None \<Rightarrow> None | Some w \<Rightarrow> if wf_is_deleted w then None else Some w)"

text \<open>The relationship \<open>workflow.steps\<close> has every row of the workflow.\<close>

definition has_steps :: "approvals \<Rightarrow> uuid \<Rightarrow> bool" where
  "has_steps s w = exists_where (\<lambda>st. as_workflow_id st = w) (approval_steps s)"

definition get_step_by_number :: "approvals \<Rightarrow> uuid \<Rightarrow> int \<Rightarrow> approval_step option" where
  "get_step_by_number s w n =
     map_option snd (first_where
       (\<lambda>st. as_workflow_id st = w \<and> as_step_number st = n \<and> \<not> as_is_deleted st) (approval_steps s))"

definition get_active_request_by_entity :: "approvals \<Rightarrow> string \<Rightarrow> string \<Rightarrow> (uuid \<times> approval_request) option" where
  "get_active_request_by_entity s ty ent =
     first_where (\<lambda>r. ar_entity_type r = ty \<and> ar_entity_id r = ent \<and> ar_status r = ApPending
       \<and> \<not> ar_is_deleted r) (approval_requests s)"

definition get_approval_request :: "approvals \<Rightarrow> uuid \<Rightarrow> approval_request option" where
  "get_approval_request s i =
     (case get (approval_requests s) i of None \<Rightarrow> None | Some r \<Rightarrow> if ar_is_deleted r then None else Some r)"

section \<open>Workflow definitions\<close>

record step_create =
  sc_step_number :: int
  sc_approver_role_id :: uuid
  sc_required_approvals :: int
  sc_auto_approve :: bool
  sc_is_active :: bool

record workflow_create =
  wc_code :: string
  wc_name :: string
  wc_description :: "string option"
  wc_module_name :: string
  wc_is_active :: bool
  wc_steps :: "step_create list"

text \<open>The outer option of an updated field says whether the request sets it.\<close>

record workflow_update =
  wu_name :: "string option"
  wu_description :: "string option option"
  wu_module_name :: "string option"
  wu_is_active :: "bool option"
  wu_steps :: "step_create list option"

text \<open>The loop over the steps of a definition: a number seen before, a missing role, and then
  \<open>role.is_deleted\<close> on a row that has no such attribute.\<close>

definition check_step :: "approvals \<Rightarrow> step_create \<Rightarrow> int set \<Rightarrow> int set result" where
  "check_step s sc seen =
     (if sc_step_number sc \<in> seen then Inl (ApnaError ''DUPLICATE_STEP_NUMBER'')
      else if sc_approver_role_id sc \<notin> set (roles s) then Inl (ApnaError ''ROLE_NOT_FOUND'')
      else Inl (AttributeErr ''is_deleted''))"

definition step_row :: "uuid \<Rightarrow> step_create \<Rightarrow> approval_step" where
  "step_row w sc =
     \<lparr>as_workflow_id = w, as_step_number = sc_step_number sc,
      as_approver_role_id = sc_approver_role_id sc, as_required_approvals = sc_required_approvals sc,
      as_auto_approve = sc_auto_approve sc, as_is_active = sc_is_active sc, as_is_deleted = False\<rparr>"

definition add_step :: "uuid \<Rightarrow> step_create \<Rightarrow> approvals \<Rightarrow> approvals" where
  "add_step w sc s =
     s\<lparr>approval_steps := add_row (ap_next s) (step_row w sc) (approval_steps s), ap_next := ap_next s + 1\<rparr>"

definition create_workflow :: "approvals \<Rightarrow> workflow_create \<Rightarrow> (uuid \<times> approvals) result" where
  "create_workflow s wc =
     (if get_by_code s (wc_code wc) True \<noteq> None then Inl (ApnaError ''DUPLICATE_WORKFLOW_CODE'')
      else case fold_res (check_step s) (wc_steps wc) {} of
        Inl e \<Rightarrow> Inl e
      | Inr _ \<Rightarrow>
        (let i = ap_next s;
             w = \<lparr>wf_code = wc_code wc, wf_name = wc_name wc, wf_description = wc_description wc,
                  wf_module_name = wc_module_name wc, wf_is_active = wc_is_active wc, wf_is_deleted = False\<rparr>;
             s1 = s\<lparr>workflows := add_row i w (workflows s), ap_next := i + 1\<rparr>;
             s2 = ap_emit [Audit ''CREATE'' ''ApprovalWorkflow'' i] s1
         in Inr (i, ap_emit [Audit ''WORKFLOW_CREATE'' ''ApprovalWorkflow'' i]
                      (fold (add_step i) (wc_steps wc) s2))))"

definition apply_workflow_update :: "workflow_update \<Rightarrow> workflow \<Rightarrow> workflow" where
  "apply_workflow_update u w =
     w\<lparr>wf_name := (case wu_name u of Some v \<Rightarrow> v | None \<Rightarrow> wf_name w),
       wf_description := (case wu_description u of Some v \<Rightarrow> v | None \<Rightarrow> wf_description w),
       wf_module_name := (case wu_module_name u of Some v \<Rightarrow> v | None \<Rightarrow> wf_module_name w),
       wf_is_active := (case wu_is_active u of Some v \<Rightarrow> v | None \<Rightarrow> wf_is_active w)\<rparr>"

definition replace_steps :: "uuid \<Rightarrow> step_create list \<Rightarrow> approvals \<Rightarrow> approvals" where
  "replace_steps i scs s =
     fold (add_step i) scs
       (s\<lparr>approval_steps := filter (\<lambda>(k, st). as_workflow_id st \<noteq> i) (approval_steps s)\<rparr>)"

definition update_workflow :: "approvals \<Rightarrow> uuid \<Rightarrow> workflow_update \<Rightarrow> approvals result" where
  "update_workflow s i u =
     (case get_workflow s i of
        None \<Rightarrow> Inl (ApnaError ''WORKFLOW_NOT_FOUND'')
      | Some w \<Rightarrow>
        case (case wu_steps u of
                None \<Rightarrow> Inr s
              | Some scs \<Rightarrow> (case fold_res (check_step s) scs {} of
                    Inl e \<Rightarrow> Inl e
                  | Inr _ \<Rightarrow> Inr (replace_steps i scs s))) of
          Inl e \<Rightarrow> Inl e
        | Inr s1 \<Rightarrow>
          Inr (ap_emit [Audit ''UPDATE'' ''ApprovalWorkflow'' i, Audit ''WORKFLOW_UPDATE'' ''ApprovalWorkflow'' i]
            (s1\<lparr>workflows := modify i (apply_workflow_update u) (workflows s1)\<rparr>)))"

section \<open>What a definition changes\<close>

lemma ap_emit_frame [simp]:
  "workflows (ap_emit es s) = workflows s" "approval_steps (ap_emit es s) = approval_steps s"
  "approval_requests (ap_emit es s) = approval_requests s"
  "approval_histories (ap_emit es s) = approval_histories s" "roles (ap_emit es s) = roles s"
  "user_roles (ap_emit es s) = user_roles s" "ap_next (ap_emit es s) = ap_next s"
  by (simp_all add: ap_emit_def)

lemma add_steps_frame [simp]:
  "workflows (fold (add_step w) scs s) = workflows s"
  "approval_requests (fold (add_step w) scs s) = approval_requests s"
  "approval_histories (fold (add_step w) scs s) = approval_histories s"
  "roles (fold (add_step w) scs s) = roles s" "user_roles (fold (add_step w) scs s) = user_roles s"
  by (induction scs arbitrary: s) (simp_all add: add_step_def)

lemma add_steps_next: "ap_next s \<le> ap_next (fold (add_step w) scs s)"
proof (induction scs arbitrary: s)
  case (Cons sc scs)
  have "ap_next s \<le> ap_next (add_step w sc s)" by (simp add: add_step_def)
  also have "\<dots> \<le> ap_next (fold (add_step w) scs (add_step w sc s))" by (rule Cons.IH)
  finally show ?case by simp
qed simp

lemma check_steps_ok: "fold_res (check_step s) scs seen = Inr x \<longleftrightarrow> scs = [] \<and> x = seen"
  by (cases scs) (auto simp: check_step_def)

lemma create_workflowD:
  assumes "create_workflow s wc = Inr (i, s')"
  shows "wc_steps wc = []" "approval_steps s' = approval_steps s" "approval_requests s' = approval_requests s"
    "approval_histories s' = approval_histories s" "ap_next s \<le> ap_next s'"
  using assms by (auto simp: create_workflow_def Let_def check_steps_ok split: if_splits sum.splits)

lemma update_workflowD:
  assumes "update_workflow s i u = Inr s'"
  shows "set (approval_steps s') \<subseteq> set (approval_steps s)" "approval_requests s' = approval_requests s"
    "approval_histories s' = approval_histories s" "ap_next s \<le> ap_next s'"
  using assms
  by (auto simp: update_workflow_def replace_steps_def check_steps_ok split: option.splits sum.splits)

end
