(* ===== verification/ApprovalEngine.thy ===== *)
theory ApprovalEngine
  imports ApprovalModel
begin

text \<open>
  \<open>ApprovalEngineService\<close> (\<^verbatim>\<open>src/app/services/approval_engine.py\<close>): starting a request, approving or
  rejecting its current step, cancelling it. Each handler adds its history rows and changes the
  request in one commit; the audit record and the notification follow.
\<close>

section \<open>Handlers\<close>

record request_create =
  rq_workflow_code :: string
  rq_entity_type :: string
  rq_entity_id :: string
  rq_comments :: "string option"

definition user_has_role :: "approvals \<Rightarrow> user \<Rightarrow> uuid \<Rightarrow> bool" where
  "user_has_role s u r = (is_superuser u \<or> (user_id u, r) \<in> set (user_roles s))"

definition log_history :: "approval_history \<Rightarrow> approvals \<Rightarrow> approvals" where
  "log_history h s =
     s\<lparr>approval_histories := add_row (ap_next s) h (approval_histories s), ap_next := ap_next s + 1\<rparr>"

definition history_row :: "uuid \<Rightarrow> int \<Rightarrow> approval_action \<Rightarrow> string option \<Rightarrow> user \<Rightarrow> timestamp \<Rightarrow> approval_history" where
  "history_row i n act comments u now =
     \<lparr>ah_request_id = i, ah_step_number = n, ah_action = act, ah_comments = comments,
      ah_performed_by = user_id u, ah_action_time = now\<rparr>"

definition new_request :: "uuid \<Rightarrow> request_create \<Rightarrow> user \<Rightarrow> timestamp \<Rightarrow> approval_request" where
  "new_request w rq u now =
     \<lparr>ar_workflow_id = w, ar_entity_type = rq_entity_type rq, ar_entity_id = rq_entity_id rq,
      current_step_number = 1, ar_status = ApPending, submitted_by = user_id u, submitted_at = now,
      completed_at = None, ar_is_deleted = False\<rparr>"

definition start_workflow :: "approvals \<Rightarrow> request_create \<Rightarrow> user \<Rightarrow> timestamp \<Rightarrow> (uuid \<times> approvals) result" where
  "start_workflow s rq u now =
     (case get_by_code s (rq_workflow_code rq) False of
        None \<Rightarrow> Inl (ApnaError ''WORKFLOW_NOT_FOUND'')
      | Some (w, d) \<Rightarrow>
        if \<not> wf_is_active d \<or> wf_is_deleted d then Inl (ApnaError ''WORKFLOW_NOT_FOUND'')
        else if \<not> has_steps s w then Inl (ApnaError ''INVALID_WORKFLOW_DEFINITION'')
        else if get_active_request_by_entity s (rq_entity_type rq) (rq_entity_id rq) \<noteq> None
          then Inl (ApnaError ''DUPLICATE_APPROVAL_REQUEST'')
        else let i = ap_next s;
                 s1 = s\<lparr>approval_requests := add_row i (new_request w rq u now) (approval_requests s),
                        ap_next := i + 1\<rparr>;
                 s2 = log_history (history_row i 1 Submitting (rq_comments rq) u now) s1
             in Inr (i, ap_emit [Audit ''APPROVAL_WORKFLOW_START'' ''ApprovalRequest'' i,
                                Notify ''WORKFLOW_STARTED'' i] s2))"

text \<open>The guards \<open>approve_step\<close> and \<open>reject_step\<close> share.\<close>

definition actionable_step :: "approvals \<Rightarrow> uuid \<Rightarrow> user \<Rightarrow> approval_request result" where
  "actionable_step s i u =
     (case get_approval_request s i of
        None \<Rightarrow> Inl (ApnaError ''APPROVAL_REQUEST_NOT_FOUND'')
      | Some r \<Rightarrow>
        if ar_status r \<noteq> ApPending then Inl (ApnaError ''INVALID_WORKFLOW_TRANSITION'')
        else case get_step_by_number s (ar_workflow_id r) (current_step_number r) of
            None \<Rightarrow> Inl (ApnaError ''INVALID_WORKFLOW_STEP'')
          | Some st \<Rightarrow>
            if \<not> user_has_role s u (as_approver_role_id st) then Inl (ApnaError ''UNAUTHORIZED_APPROVER'')
            else Inr r)"

definition finish :: "approval_status \<Rightarrow> timestamp \<Rightarrow> approval_request \<Rightarrow> approval_request" where
  "finish st now r = r\<lparr>ar_status := st, completed_at := Some now\<rparr>"

definition advance :: "approval_request \<Rightarrow> approval_request" where
  "advance r = r\<lparr>current_step_number := current_step_number r + 1\<rparr>"

definition complete_or_advance :: "uuid \<Rightarrow> approval_request \<Rightarrow> user \<Rightarrow> timestamp \<Rightarrow> approvals \<Rightarrow> string \<times> approvals" where
  "complete_or_advance i r u now s =
     (case get_step_by_number s (ar_workflow_id r) (current_step_number r + 1) of
        Some _ \<Rightarrow> (''STEP_APPROVED'', s\<lparr>approval_requests := modify i advance (approval_requests s)\<rparr>)
      | None \<Rightarrow>
        (''WORKFLOW_APPROVED'',
         log_history (history_row i (current_step_number r) CompletedWorkflow
             (Some ''All approval steps successfully completed'') u now)
           (s\<lparr>approval_requests := modify i (finish ApApproved now) (approval_requests s)\<rparr>)))"

definition approve_step :: "approvals \<Rightarrow> uuid \<Rightarrow> string option \<Rightarrow> user \<Rightarrow> timestamp \<Rightarrow> approvals result" where
  "approve_step s i comments u now =
     (case actionable_step s i u of
        Inl e \<Rightarrow> Inl e
      | Inr r \<Rightarrow>
        (let s1 = log_history (history_row i (current_step_number r) ApprovedStep comments u now) s;
             (event, s2) = complete_or_advance i r u now s1
         in Inr (ap_emit [Audit ''APPROVAL_STEP_APPROVE'' ''ApprovalRequest'' i, Notify event i] s2)))"

definition reject_step :: "approvals \<Rightarrow> uuid \<Rightarrow> string option \<Rightarrow> user \<Rightarrow> timestamp \<Rightarrow> approvals result" where
  "reject_step s i comments u now =
     (case actionable_step s i u of
        Inl e \<Rightarrow> Inl e
      | Inr r \<Rightarrow>
        (let s1 = s\<lparr>approval_requests := modify i (finish ApRejected now) (approval_requests s)\<rparr>;
             s2 = log_history (history_row i (current_step_number r) RejectedStep comments u now) s1
         in Inr (ap_emit [Audit ''APPROVAL_STEP_REJECT'' ''ApprovalRequest'' i,
                          Notify ''WORKFLOW_REJECTED'' i] s2)))"

definition cancel_workflow :: "approvals \<Rightarrow> uuid \<Rightarrow> string option \<Rightarrow> user \<Rightarrow> timestamp \<Rightarrow> approvals result" where
  "cancel_workflow s i comments u now =
     (case get_approval_request s i of
        None \<Rightarrow> Inl (ApnaError ''APPROVAL_REQUEST_NOT_FOUND'')
      | Some r \<Rightarrow>
        if ar_status r \<noteq> ApPending then Inl (ApnaError ''INVALID_WORKFLOW_TRANSITION'')
        else if submitted_by r \<noteq> user_id u \<and> \<not> is_superuser u then Inl (ApnaError ''UNAUTHORIZED_ACTION'')
        else let s1 = s\<lparr>approval_requests := modify i (finish ApCancelled now) (approval_requests s)\<rparr>;
                 s2 = log_history (history_row i (current_step_number r) CancelledRequest comments u now) s1
             in Inr (ap_emit [Audit ''APPROVAL_WORKFLOW_CANCEL'' ''ApprovalRequest'' i,
                              Notify ''WORKFLOW_CANCELLED'' i] s2))"

section \<open>The trail of a request\<close>

definition trail :: "approvals \<Rightarrow> uuid \<Rightarrow> (approval_action \<times> int) list" where
  "trail s i = map (\<lambda>(k, h). (ah_action h, ah_step_number h))
     (filter (\<lambda>(k, h). ah_request_id h = i) (approval_histories s))"

lemma trail_log [simp]:
  "trail (log_history h s) i = trail s i @ (if i = ah_request_id h then [(ah_action h, ah_step_number h)] else [])"
  by (auto simp: trail_def log_history_def add_row_def)

lemma trail_emit [simp]: "trail (ap_emit es s) i = trail s i"
  by (simp add: trail_def)

lemma trail_requests [simp]: "trail (s\<lparr>approval_requests := t\<rparr>) i = trail s i"
  "trail (s\<lparr>approval_requests := t, ap_next := n\<rparr>) i = trail s i"
  by (simp_all add: trail_def)

lemma log_history_frame [simp]:
  "workflows (log_history h s) = workflows s" "approval_steps (log_history h s) = approval_steps s"
  "approval_requests (log_history h s) = approval_requests s" "user_roles (log_history h s) = user_roles s"
  "roles (log_history h s) = roles s" "ap_next (log_history h s) = ap_next s + 1"
  by (simp_all add: log_history_def)

lemma history_row_sel [simp]:
  "ah_request_id (history_row i n act c u now) = i" "ah_step_number (history_row i n act c u now) = n"
  "ah_action (history_row i n act c u now) = act" "ah_performed_by (history_row i n act c u now) = user_id u"
  by (simp_all add: history_row_def)

lemma get_step_cong:
  "approval_steps s' = approval_steps s \<Longrightarrow> get_step_by_number s' w n = get_step_by_number s w n"
  by (simp add: get_step_by_number_def)

lemma get_step_frame [simp]:
  "get_step_by_number (ap_emit es s) = get_step_by_number s"
  "get_step_by_number (log_history h s) = get_step_by_number s"
  "get_step_by_number (s\<lparr>approval_requests := t\<rparr>) = get_step_by_number s"
  by (simp_all add: get_step_by_number_def fun_eq_iff)

lemma user_has_role_cong: "user_roles s' = user_roles s \<Longrightarrow> user_has_role s' u r = user_has_role s u r"
  by (simp add: user_has_role_def)

lemma get_approval_requestD:
  "get_approval_request s i = Some r \<Longrightarrow> get (approval_requests s) i = Some r \<and> \<not> ar_is_deleted r"
  by (auto simp: get_approval_request_def split: option.splits if_splits)

lemma actionable_stepD:
  assumes "actionable_step s i u = Inr r"
  obtains st where "get (approval_requests s) i = Some r" "ar_status r = ApPending" "\<not> ar_is_deleted r"
    "get_step_by_number s (ar_workflow_id r) (current_step_number r) = Some st"
    "user_has_role s u (as_approver_role_id st)"
  using assms by (auto simp: actionable_step_def dest!: get_approval_requestD split: option.splits if_splits)

section \<open>What one call does\<close>

text \<open>Every call changes the row of one request and adds rows to the end of its trail.\<close>

definition extends_trail :: "approvals \<Rightarrow> approvals \<Rightarrow> uuid \<Rightarrow> (approval_action \<times> int) list \<Rightarrow> bool" where
  "extends_trail s s' i es = (\<forall>k. trail s' k = trail s k @ (if k = i then es else []))"

definition histories_grow :: "approvals \<Rightarrow> approvals \<Rightarrow> bool" where
  "histories_grow s s' = (\<exists>hs. approval_histories s' = approval_histories s @ hs)"

lemma histories_grow_simps [simp]:
  "histories_grow s s" "histories_grow s (ap_emit es s') = histories_grow s s'"
  "histories_grow s (s'\<lparr>approval_requests := t\<rparr>) = histories_grow s s'"
  "histories_grow s (s'\<lparr>approval_requests := t, ap_next := n\<rparr>) = histories_grow s s'"
  "histories_grow s s' \<Longrightarrow> histories_grow s (log_history h s')"
  by (auto simp: histories_grow_def log_history_def add_row_def)

lemma histories_grow_trans: "histories_grow s t \<Longrightarrow> histories_grow t u \<Longrightarrow> histories_grow s u"
  by (auto simp: histories_grow_def)

lemma start_workflowD:
  assumes "start_workflow s rq u now = Inr (i, s')"
  obtains w where "i = ap_next s" "has_steps s w"
    "get_active_request_by_entity s (rq_entity_type rq) (rq_entity_id rq) = None"
    "approval_requests s' = add_row i (new_request w rq u now) (approval_requests s)"
    "extends_trail s s' i [(Submitting, 1)]" "ap_next s' = ap_next s + 2"
    "approval_steps s' = approval_steps s" "histories_grow s s'"
  using assms that
  by (fastforce simp: start_workflow_def Let_def extends_trail_def cong: if_cong split: option.splits if_splits prod.splits)

lemma approve_stepD:
  assumes "approve_step s i c u now = Inr s'"
  obtains r st where "get (approval_requests s) i = Some r" "ar_status r = ApPending"
    "get_step_by_number s (ar_workflow_id r) (current_step_number r) = Some st"
    "user_has_role s u (as_approver_role_id st)"
    "approval_requests s' = modify i
       (if get_step_by_number s (ar_workflow_id r) (current_step_number r + 1) = None
        then finish ApApproved now else advance) (approval_requests s)"
    "extends_trail s s' i ((ApprovedStep, current_step_number r) #
       (if get_step_by_number s (ar_workflow_id r) (current_step_number r + 1) = None
        then [(CompletedWorkflow, current_step_number r)] else []))"
    "ap_next s \<le> ap_next s'" "approval_steps s' = approval_steps s" "user_roles s' = user_roles s"
    "histories_grow s s'"
proof -
  from assms obtain r where r: "actionable_step s i u = Inr r"
    by (auto simp: approve_step_def split: sum.splits)
  show thesis
  proof (rule actionable_stepD [OF r], rule that)
  qed (use assms r in \<open>auto simp: approve_step_def complete_or_advance_def Let_def extends_trail_def cong: if_cong split: option.splits\<close>)
qed

lemma reject_stepD:
  assumes "reject_step s i c u now = Inr s'"
  obtains r st where "get (approval_requests s) i = Some r" "ar_status r = ApPending"
    "get_step_by_number s (ar_workflow_id r) (current_step_number r) = Some st"
    "user_has_role s u (as_approver_role_id st)"
    "approval_requests s' = modify i (finish ApRejected now) (approval_requests s)"
    "extends_trail s s' i [(RejectedStep, current_step_number r)]"
    "ap_next s \<le> ap_next s'" "approval_steps s' = approval_steps s" "histories_grow s s'"
proof -
  from assms obtain r where r: "actionable_step s i u = Inr r"
    by (auto simp: reject_step_def split: sum.splits)
  show thesis
  proof (rule actionable_stepD [OF r], rule that)
  qed (use assms r in \<open>auto simp: reject_step_def Let_def extends_trail_def cong: if_cong\<close>)
qed

lemma cancel_workflowD:
  assumes "cancel_workflow s i c u now = Inr s'"
  obtains r where "get (approval_requests s) i = Some r" "ar_status r = ApPending"
    "submitted_by r = user_id u \<or> is_superuser u"
    "approval_requests s' = modify i (finish ApCancelled now) (approval_requests s)"
    "extends_trail s s' i [(CancelledRequest, current_step_number r)]"
    "ap_next s \<le> ap_next s'" "approval_steps s' = approval_steps s" "histories_grow s s'"
  using assms
  by (auto simp: cancel_workflow_def Let_def extends_trail_def cong: if_cong dest!: get_approval_requestD
      split: option.splits if_splits)

section \<open>The engine as a state machine\<close>

text \<open>Definitions may change and roles may be granted or withdrawn between the calls. Initially
  there are any workflow definitions and no requests.\<close>

inductive ap_step :: "approvals \<Rightarrow> approvals \<Rightarrow> bool" where
  start: "start_workflow s rq u now = Inr (i, s') \<Longrightarrow> ap_step s s'"
| approve: "approve_step s i c u now = Inr s' \<Longrightarrow> ap_step s s'"
| reject: "reject_step s i c u now = Inr s' \<Longrightarrow> ap_step s s'"
| cancel: "cancel_workflow s i c u now = Inr s' \<Longrightarrow> ap_step s s'"
| define_wf: "create_workflow s wc = Inr (i, s') \<Longrightarrow> ap_step s s'"
| redefine_wf: "update_workflow s i wu = Inr s' \<Longrightarrow> ap_step s s'"
| grant: "ap_step s (s\<lparr>roles := rs, user_roles := urs\<rparr>)"

definition ap_init :: "approvals \<Rightarrow> bool" where
  "ap_init s = (approval_requests s = [] \<and> approval_histories s = [])"

inductive ap_reachable :: "approvals \<Rightarrow> bool" where
  init: "ap_init s \<Longrightarrow> ap_reachable s"
| step: "ap_reachable s \<Longrightarrow> ap_step s s' \<Longrightarrow> ap_reachable s'"

text \<open>The trail a request at step \<open>n\<close> must have: its submission, one approval of each step
  before the current one, and the closing entries of its status.\<close>

definition steps_before :: "int \<Rightarrow> (approval_action \<times> int) list" where
  "steps_before n = map (\<lambda>k. (ApprovedStep, k)) [1..n - 1]"

fun closing :: "approval_status \<Rightarrow> int \<Rightarrow> (approval_action \<times> int) list" where
  "closing ApPending n = []"
| "closing ApApproved n = [(ApprovedStep, n), (CompletedWorkflow, n)]"
| "closing ApRejected n = [(RejectedStep, n)]"
| "closing ApCancelled n = [(CancelledRequest, n)]"

definition expected_trail :: "approval_request \<Rightarrow> (approval_action \<times> int) list" where
  "expected_trail r = (Submitting, 1) # steps_before (current_step_number r) @
     closing (ar_status r) (current_step_number r)"

lemma expected_trail_finish:
  "ar_status r = ApPending \<Longrightarrow>
     expected_trail (finish st now r) = expected_trail r @ closing st (current_step_number r)"
  by (simp add: expected_trail_def finish_def)

lemma expected_trail_advance:
  assumes "ar_status r = ApPending" and "1 \<le> current_step_number r"
  shows "expected_trail (advance r) = expected_trail r @ [(ApprovedStep, current_step_number r)]"
proof -
  have "[1..current_step_number r] = [1..current_step_number r - 1] @ [current_step_number r]"
    using upto_rec2 [OF assms(2)] .
  with assms(1) show ?thesis by (simp add: expected_trail_def advance_def steps_before_def)
qed

definition request_ok :: "approvals \<Rightarrow> uuid \<Rightarrow> approval_request \<Rightarrow> bool" where
  "request_ok s i r =
     (trail s i = expected_trail r \<and> 1 \<le> current_step_number r \<and> \<not> ar_is_deleted r \<and>
      (completed_at r = None \<longleftrightarrow> ar_status r = ApPending))"

definition rival :: "approval_request \<Rightarrow> approval_request \<Rightarrow> bool" where
  "rival q r = (ar_status q = ApPending \<and> ar_status r = ApPending \<and>
     ar_entity_type q = ar_entity_type r \<and> ar_entity_id q = ar_entity_id r)"

definition ap_inv :: "approvals \<Rightarrow> bool" where
  "ap_inv s =
     (wf_table (ap_next s) (approval_requests s) \<and>
      (\<forall>i. ap_next s \<le> i \<longrightarrow> trail s i = []) \<and>
      (\<forall>i r. get (approval_requests s) i = Some r \<longrightarrow> request_ok s i r) \<and>
      (\<forall>i j q r. get (approval_requests s) i = Some q \<longrightarrow> get (approval_requests s) j = Some r \<longrightarrow>
         rival q r \<longrightarrow> i = j))"

lemma ap_invI:
  assumes "wf_table (ap_next s) (approval_requests s)" and "\<And>i. ap_next s \<le> i \<Longrightarrow> trail s i = []"
    and "\<And>i r. get (approval_requests s) i = Some r \<Longrightarrow> request_ok s i r"
    and "\<And>i j q r. get (approval_requests s) i = Some q \<Longrightarrow> get (approval_requests s) j = Some r \<Longrightarrow>
      rival q r \<Longrightarrow> i = j"
  shows "ap_inv s"
  using assms unfolding ap_inv_def by blast

lemma ap_invD:
  assumes "ap_inv s"
  shows "wf_table (ap_next s) (approval_requests s)" "ap_next s \<le> i \<Longrightarrow> trail s i = []"
    "get (approval_requests s) i = Some r \<Longrightarrow> request_ok s i r"
    "get (approval_requests s) i = Some q \<Longrightarrow> get (approval_requests s) j = Some r \<Longrightarrow> rival q r \<Longrightarrow> i = j"
  using assms unfolding ap_inv_def by blast+

lemma ap_inv_other:
  assumes "ap_inv s" and "approval_requests s' = approval_requests s"
    and "approval_histories s' = approval_histories s" and "ap_next s \<le> ap_next s'"
  shows "ap_inv s'"
proof -
  have "trail s' i = trail s i" for i using assms(3) by (simp add: trail_def)
  with assms show ?thesis by (auto simp: ap_inv_def request_ok_def elim: wf_table_mono)
qed

lemma ap_inv_start:
  assumes inv: "ap_inv s" and run: "start_workflow s rq u now = Inr (i, s')"
  shows "ap_inv s'"
proof -
  from run obtain w where i: "i = ap_next s"
    and free: "get_active_request_by_entity s (rq_entity_type rq) (rq_entity_id rq) = None"
    and rows: "approval_requests s' = add_row i (new_request w rq u now) (approval_requests s)"
    and tr: "extends_trail s s' i [(Submitting, 1)]" and nx: "ap_next s' = ap_next s + 2"
    by (rule start_workflowD)
  note wf = ap_invD(1) [OF inv]
  let ?n = "new_request w rq u now"
  have get': "get (approval_requests s') j = (if j = i then Some ?n else get (approval_requests s) j)" for j
    using wf_table_get_add_row [OF wf] by (simp add: rows i)
  have alone: "\<not> rival r ?n \<and> \<not> rival ?n r" if "get (approval_requests s) j = Some r" for j r
    using free get_in_set [OF that] ap_invD(3) [OF inv that]
    by (auto simp: get_active_request_by_entity_def first_where_None rival_def new_request_def request_ok_def)
  have empty: "trail s i = []" using ap_invD(2) [OF inv, of i] by (simp add: i)
  show ?thesis
  proof (rule ap_invI)
    show "wf_table (ap_next s') (approval_requests s')"
      using wf_table_add_row [OF wf, of i "ap_next s'"] by (simp add: rows nx i)
    show "trail s' j = []" if "ap_next s' \<le> j" for j
      using that ap_invD(2) [OF inv, of j] tr by (simp add: extends_trail_def nx i)
    show "request_ok s' j r" if "get (approval_requests s') j = Some r" for j r
      using that tr empty ap_invD(3) [OF inv]
      by (auto simp: get' extends_trail_def request_ok_def new_request_def expected_trail_def steps_before_def
          split: if_splits)
    show "j = k" if "get (approval_requests s') j = Some q" "get (approval_requests s') k = Some r" "rival q r" for j k q r
      using that alone ap_invD(4) [OF inv] by (auto simp: get' split: if_splits)
  qed
qed

text \<open>A call that updates one pending request keeps the invariant when the row keeps its entity
  and its trail follows.\<close>

lemma ap_inv_update:
  assumes inv: "ap_inv s" and r: "get (approval_requests s) i = Some r" "ar_status r = ApPending"
    and rows: "approval_requests s' = modify i f (approval_requests s)"
    and tr: "extends_trail s s' i es" and nx: "ap_next s \<le> ap_next s'"
    and f: "expected_trail (f r) = expected_trail r @ es" "current_step_number r \<le> current_step_number (f r)"
      "ar_is_deleted (f r) = ar_is_deleted r" "completed_at (f r) = None \<longleftrightarrow> ar_status (f r) = ApPending"
      "ar_entity_type (f r) = ar_entity_type r" "ar_entity_id (f r) = ar_entity_id r"
  shows "ap_inv s'"
proof -
  have i: "i < ap_next s" using get_Some_key [OF r(1)] ap_invD(1) [OF inv]
    by (auto simp: wf_table_def list_all_iff)
  have get': "get (approval_requests s') j = (if j = i then Some (f r) else get (approval_requests s) j)" for j
    using r(1) by (simp add: rows tbl.lookup_upd)
  have weaker: "rival (f r) q \<Longrightarrow> rival r q" "rival q (f r) \<Longrightarrow> rival q r" for q
    using r(2) f(5,6) by (auto simp: rival_def)
  show ?thesis
  proof (rule ap_invI)
    show "wf_table (ap_next s') (approval_requests s')"
      using ap_invD(1) [OF inv] nx by (auto simp: rows wf_table_modify elim: wf_table_mono)
    show "trail s' j = []" if "ap_next s' \<le> j" for j
      using that i nx tr ap_invD(2) [OF inv, of j] by (simp add: extends_trail_def)
    show "request_ok s' j q" if "get (approval_requests s') j = Some q" for j q
      using that tr f(1-4) ap_invD(3) [OF inv] ap_invD(3) [OF inv r(1)]
      by (auto simp: get' extends_trail_def request_ok_def split: if_splits)
    show "j = k" if "get (approval_requests s') j = Some q" "get (approval_requests s') k = Some p" "rival q p" for j k q p
      using that weaker ap_invD(4) [OF inv] r(1) by (auto simp: get' split: if_splits)
  qed
qed

lemma finish_sel [simp]:
  "ar_status (finish st now r) = st" "completed_at (finish st now r) = Some now"
  "current_step_number (finish st now r) = current_step_number r"
  "ar_entity_type (finish st now r) = ar_entity_type r" "ar_entity_id (finish st now r) = ar_entity_id r"
  "ar_is_deleted (finish st now r) = ar_is_deleted r" "ar_workflow_id (finish st now r) = ar_workflow_id r"
  by (simp_all add: finish_def)

lemma advance_sel [simp]:
  "ar_status (advance r) = ar_status r" "completed_at (advance r) = completed_at r"
  "current_step_number (advance r) = current_step_number r + 1"
  "ar_entity_type (advance r) = ar_entity_type r" "ar_entity_id (advance r) = ar_entity_id r"
  "ar_is_deleted (advance r) = ar_is_deleted r" "ar_workflow_id (advance r) = ar_workflow_id r"
  by (simp_all add: advance_def)

lemma ap_inv_step:
  assumes "ap_inv s" and "ap_step s s'"
  shows "ap_inv s'"
  using assms(2)
proof cases
  case (start rq u now i)
  then show ?thesis by (rule ap_inv_start [OF assms(1)])
next
  case (approve i c u now)
  then show ?thesis
  proof (rule approve_stepD)
    fix r
    assume r: "get (approval_requests s) i = Some r" "ar_status r = ApPending"
    note * = expected_trail_advance [OF r(2) ap_invD(3) [OF assms(1) r(1), unfolded request_ok_def, THEN conjunct2, THEN conjunct1]] expected_trail_finish [OF r(2), of ApApproved now]
    assume "approval_requests s' = modify i (if get_step_by_number s (ar_workflow_id r) (current_step_number r + 1) = None
        then finish ApApproved now else advance) (approval_requests s)"
      "extends_trail s s' i ((ApprovedStep, current_step_number r) #
       (if get_step_by_number s (ar_workflow_id r) (current_step_number r + 1) = None
        then [(CompletedWorkflow, current_step_number r)] else []))" "ap_next s \<le> ap_next s'"
    then show ?thesis
      by (rule ap_inv_update [OF assms(1) r])
        (use * r ap_invD(3) [OF assms(1) r(1)] in \<open>auto simp: request_ok_def\<close>)
  qed
next
  case (reject i c u now)
  then show ?thesis
    by (rule reject_stepD) (erule (2) ap_inv_update [OF assms(1)], auto simp: expected_trail_finish)
next
  case (cancel i c u now)
  then show ?thesis
    by (rule cancel_workflowD) (erule (2) ap_inv_update [OF assms(1)], auto simp: expected_trail_finish)
next
  case (define_wf wc i)
  from create_workflowD [OF this] show ?thesis by (auto intro: ap_inv_other [OF assms(1)])
next
  case (redefine_wf i wu)
  from update_workflowD [OF this] show ?thesis by (auto intro: ap_inv_other [OF assms(1)])
next
  case (grant rs urs)
  then show ?thesis by (auto intro: ap_inv_other [OF assms(1)])
qed

lemma ap_init_inv: "ap_init s \<Longrightarrow> ap_inv s"
  by (rule ap_invI) (auto simp: ap_init_def trail_def get_def)

lemma ap_reachable_inv: "ap_reachable s \<Longrightarrow> ap_inv s"
  by (induction rule: ap_reachable.induct) (blast intro: ap_init_inv ap_inv_step)+

text \<open>No call changes a history row or a request that is closed.\<close>

lemma ap_step_histories:
  assumes "ap_step s s'"
  shows "histories_grow s s'"
  using assms
proof cases
  case (start rq u now i)
  then show ?thesis by (rule start_workflowD)
next
  case (approve i c u now)
  then show ?thesis by (rule approve_stepD)
next
  case (reject i c u now)
  then show ?thesis by (rule reject_stepD)
next
  case (cancel i c u now)
  then show ?thesis by (rule cancel_workflowD)
qed (auto simp: histories_grow_def dest: create_workflowD update_workflowD)

lemma ap_step_closed:
  assumes "ap_step s s'" and "get (approval_requests s) i = Some r" and "ar_status r \<noteq> ApPending"
  shows "get (approval_requests s') i = Some r"
  using assms(1)
proof cases
  case (start rq u now j)
  then show ?thesis
  proof (rule start_workflowD)
    fix w
    assume "approval_requests s' = add_row j (new_request w rq u now) (approval_requests s)"
    with assms(2) show ?thesis by (simp add: get_add_row_eq)
  qed
next
  case (approve j c u now)
  then show ?thesis by (rule approve_stepD) (use assms(2,3) in \<open>auto simp: get_modify_eq\<close>)
next
  case (reject j c u now)
  then show ?thesis by (rule reject_stepD) (use assms(2,3) in \<open>auto simp: get_modify_eq\<close>)
next
  case (cancel j c u now)
  then show ?thesis by (rule cancel_workflowD) (use assms(2,3) in \<open>auto simp: get_modify_eq\<close>)
qed (use assms(2) in \<open>auto dest: create_workflowD update_workflowD\<close>)

section \<open>A chain of approvals\<close>

text \<open>The approvers of the steps approve one after the other.\<close>

definition approve_all :: "uuid \<Rightarrow> timestamp \<Rightarrow> user list \<Rightarrow> approvals \<Rightarrow> approvals result" where
  "approve_all i now us s = fold_res (\<lambda>u s. approve_step s i None u now) us s"

text \<open>The steps from number \<open>n\<close> on, each with one of the users as approver, and no step after them.\<close>

fun chain_from :: "approvals \<Rightarrow> uuid \<Rightarrow> int \<Rightarrow> user list \<Rightarrow> bool" where
  "chain_from s w n [] = (get_step_by_number s w n = None)"
| "chain_from s w n (u # us) =
     (case get_step_by_number s w n of
        None \<Rightarrow> False
      | Some st \<Rightarrow> user_has_role s u (as_approver_role_id st) \<and> chain_from s w (n + 1) us)"

lemma chain_from_cong:
  assumes "approval_steps s' = approval_steps s" and "user_roles s' = user_roles s"
  shows "chain_from s' w n us = chain_from s w n us"
  by (induction us arbitrary: n)
    (simp_all add: get_step_cong [OF assms(1)] user_has_role_cong [OF assms(2)] split: option.splits)

lemma approve_step_runs:
  assumes "get_approval_request s i = Some r" and "ar_status r = ApPending"
    and "get_step_by_number s (ar_workflow_id r) (current_step_number r) = Some st"
    and "user_has_role s u (as_approver_role_id st)"
  obtains s' where "approve_step s i c u now = Inr s'"
  using assms that
  by (cases "complete_or_advance i r u now (log_history (history_row i (current_step_number r) ApprovedStep c u now) s)")
    (auto simp: approve_step_def actionable_step_def Let_def)

lemma approve_all_completes:
  assumes "get_approval_request s i = Some r" and "ar_status r = ApPending" and "us \<noteq> []"
    and "chain_from s (ar_workflow_id r) (current_step_number r) us"
  shows "\<exists>s' r'. approve_all i now us s = Inr s' \<and> get (approval_requests s') i = Some r' \<and>
    ar_status r' = ApApproved \<and> completed_at r' = Some now \<and>
    current_step_number r' = current_step_number r + int (length us) - 1"
  using assms
proof (induction us arbitrary: s r)
  case (Cons u us)
  from Cons.prems(4) obtain st where st: "get_step_by_number s (ar_workflow_id r) (current_step_number r) = Some st"
    and role: "user_has_role s u (as_approver_role_id st)"
    and rest: "chain_from s (ar_workflow_id r) (current_step_number r + 1) us"
    by (auto split: option.splits)
  obtain t where t: "approve_step s i None u now = Inr t"
    by (rule approve_step_runs [OF Cons.prems(1,2) st role])
  note r = get_approval_requestD [OF Cons.prems(1)]
  from t show ?case
  proof (rule approve_stepD)
    fix r0 st0
    assume "get (approval_requests s) i = Some r0"
    with r have [simp]: "r0 = r" by simp
    assume rows: "approval_requests t = modify i
        (if get_step_by_number s (ar_workflow_id r0) (current_step_number r0 + 1) = None
         then finish ApApproved now else advance) (approval_requests s)"
      and same: "approval_steps t = approval_steps s" "user_roles t = user_roles s"
    show ?case
    proof (cases us)
      case Nil
      with rest r rows t show ?thesis by (simp add: approve_all_def table_simps)
    next
      case (Cons u' us')
      with rest obtain st' where more: "get_step_by_number s (ar_workflow_id r) (current_step_number r + 1) = Some st'"
        by (auto split: option.splits)
      with rows r have "get_approval_request t i = Some (advance r)"
        by (simp add: get_approval_request_def table_simps)
      moreover have "chain_from t (ar_workflow_id (advance r)) (current_step_number (advance r)) us"
        using rest by (simp add: chain_from_cong [OF same])
      ultimately obtain s' r' where "approve_all i now us t = Inr s'" "get (approval_requests s') i = Some r'"
        "ar_status r' = ApApproved" "completed_at r' = Some now"
        "current_step_number r' = current_step_number r + 1 + int (length us) - 1"
        using Cons.IH [of t "advance r"] Cons.prems(2) Cons by auto
      with t show ?thesis by (auto simp: approve_all_def)
    qed
  qed
qed simp

end
