(* ===== verification/ApprovalProperties.thy ===== *)
theory ApprovalProperties
  imports ApprovalEngine
begin

text \<open>
  What the approval engine (\<^verbatim>\<open>src/app/services/approval_engine.py\<close>,
  \<^verbatim>\<open>src/app/services/approval_workflow.py\<close>) guarantees: the history of a request determines its
  state, closed requests stay as they are, a chain of approvers brings a request to its end; and what
  it does with step numbers that leave a gap and with definitions created through the service.
\<close>

section \<open>A concrete workflow\<close>

text \<open>Workflow 1 has the steps 1 and 2 for the roles 11 and 12, workflow 2 has the steps 1 and 3.
  User 5 has role 11, user 6 role 12.\<close>

definition wf_row :: "string \<Rightarrow> workflow" where
  "wf_row c = \<lparr>wf_code = c, wf_name = ''Expenses'', wf_description = None, wf_module_name = ''expense'',
     wf_is_active = True, wf_is_deleted = False\<rparr>"

definition st_row :: "uuid \<Rightarrow> int \<Rightarrow> uuid \<Rightarrow> approval_step" where
  "st_row w n r = \<lparr>as_workflow_id = w, as_step_number = n, as_approver_role_id = r,
     as_required_approvals = 1, as_auto_approve = False, as_is_active = True, as_is_deleted = False\<rparr>"

definition ap0 :: approvals where
  "ap0 = \<lparr>workflows = [(1, wf_row ''WF''), (2, wf_row ''GAP'')],
     approval_steps = [(101, st_row 1 1 11), (102, st_row 1 2 12), (103, st_row 2 1 11), (104, st_row 2 3 12)],
     approval_requests = [], approval_histories = [], roles = [11, 12], user_roles = [(5, 11), (6, 12)],
     ap_next = 200, ap_effects = []\<rparr>"

definition plain_user :: "uuid \<Rightarrow> user" where
  "plain_user i = \<lparr>user_id = i, is_superuser = False\<rparr>"

definition rq0 :: "string \<Rightarrow> request_create" where
  "rq0 c = \<lparr>rq_workflow_code = c, rq_entity_type = ''ExpenseClaim'', rq_entity_id = ''E1'', rq_comments = None\<rparr>"

text \<open>A run that stops at the first exception.\<close>

definition ok_state :: "'a result \<Rightarrow> 'a \<Rightarrow> 'a" where
  "ok_state r d = (case r of Inr s \<Rightarrow> s | Inl _ \<Rightarrow> d)"

definition ap1 :: approvals where
  "ap1 = snd (ok_state (start_workflow ap0 (rq0 ''WF'') (plain_user 4) 1000) (0, ap0))"

definition ap2 :: approvals where
  "ap2 = ok_state (approve_step ap1 200 None (plain_user 5) 1001) ap0"

definition ap3 :: approvals where
  "ap3 = ok_state (approve_step ap2 200 None (plain_user 6) 1002) ap0"

definition gap1 :: approvals where
  "gap1 = snd (ok_state (start_workflow ap0 (rq0 ''GAP'') (plain_user 4) 1000) (0, ap0))"

definition gap2 :: approvals where
  "gap2 = ok_state (approve_step gap1 200 None (plain_user 5) 1001) ap0"

lemmas run_ap =
  ok_state_def start_workflow_def approve_step_def reject_step_def cancel_workflow_def actionable_step_def
  complete_or_advance_def get_approval_request_def get_step_by_number_def get_by_code_def has_steps_def
  get_active_request_by_entity_def user_has_role_def log_history_def history_row_def new_request_def
  ap_emit_def finish_def advance_def first_where_def exists_where_def get_def modify_def add_row_def
  rq0_def plain_user_def wf_row_def st_row_def

lemma ap0_init: "ap_init ap0" by (simp add: ap_init_def ap0_def)

lemma ap1_run: "start_workflow ap0 (rq0 ''WF'') (plain_user 4) 1000 = Inr (200, ap1)"
  by (simp add: ap1_def ap0_def run_ap Let_def)

lemma ap2_run: "approve_step ap1 200 None (plain_user 5) 1001 = Inr ap2"
  by (simp add: ap2_def ap1_def ap0_def run_ap Let_def)

lemma ap3_run: "approve_step ap2 200 None (plain_user 6) 1002 = Inr ap3"
  by (simp add: ap3_def ap2_def ap1_def ap0_def run_ap Let_def)

lemma ap3_row: "get (approval_requests ap3) 200 = Some
   \<lparr>ar_workflow_id = 1, ar_entity_type = ''ExpenseClaim'', ar_entity_id = ''E1'', current_step_number = 2,
    ar_status = ApApproved, submitted_by = 4, submitted_at = 1000, completed_at = Some 1002, ar_is_deleted = False\<rparr>"
  by (simp add: ap3_def ap2_def ap1_def ap0_def run_ap Let_def)

lemma ap_runs_reachable: "ap_reachable ap1" "ap_reachable ap2" "ap_reachable ap3"
proof -
  show 1: "ap_reachable ap1"
    by (rule ap_reachable.step [OF ap_reachable.init [OF ap0_init] ap_step.start [OF ap1_run]])
  show 2: "ap_reachable ap2" by (rule ap_reachable.step [OF 1 ap_step.approve [OF ap2_run]])
  show "ap_reachable ap3" by (rule ap_reachable.step [OF 2 ap_step.approve [OF ap3_run]])
qed

lemma gap1_run: "start_workflow ap0 (rq0 ''GAP'') (plain_user 4) 1000 = Inr (200, gap1)"
  by (simp add: gap1_def ap0_def run_ap Let_def)

lemma gap2_run: "approve_step gap1 200 None (plain_user 5) 1001 = Inr gap2"
  by (simp add: gap2_def gap1_def ap0_def run_ap Let_def)

section \<open>The trail of a request\<close>

text \<open>C32: Every request that can arise has a complete trail: its submission, exactly one approval of each
  step before the current one, in order, and the closing entries of its status. It has a completion time
  exactly when it is closed.\<close>
theorem request_trail_complete:
  assumes "ap_reachable s" and "get (approval_requests s) i = Some r"
  shows "trail s i = (Submitting, 1) # map (\<lambda>k. (ApprovedStep, k)) [1..current_step_number r - 1] @
      closing (ar_status r) (current_step_number r) \<and>
    (completed_at r = None \<longleftrightarrow> ar_status r = ApPending)"
  using ap_invD(3) [OF ap_reachable_inv [OF assms(1)] assms(2)]
  by (simp_all add: request_ok_def expected_trail_def steps_before_def)

theorem request_trail_complete_witness:
  "trail ap3 200 = [(Submitting, 1), (ApprovedStep, 1), (ApprovedStep, 2), (CompletedWorkflow, 2)]"
  using request_trail_complete [OF ap_runs_reachable(3) ap3_row] by simp

text \<open>Reading a trail event by event.\<close>

fun read_event :: "int \<times> approval_status \<Rightarrow> approval_action \<times> int \<Rightarrow> (int \<times> approval_status) option" where
  "read_event (n, ApPending) (ApprovedStep, k) = (if k = n then Some (n + 1, ApPending) else None)"
| "read_event (n, ApPending) (CompletedWorkflow, k) = (if k + 1 = n then Some (k, ApApproved) else None)"
| "read_event (n, ApPending) (RejectedStep, k) = (if k = n then Some (n, ApRejected) else None)"
| "read_event (n, ApPending) (CancelledRequest, k) = (if k = n then Some (n, ApCancelled) else None)"
| "read_event p e = None"

fun read_events :: "int \<times> approval_status \<Rightarrow> (approval_action \<times> int) list \<Rightarrow> (int \<times> approval_status) option" where
  "read_events p [] = Some p"
| "read_events p (e # es) = (case read_event p e of None \<Rightarrow> None | Some q \<Rightarrow> read_events q es)"

fun read_trail :: "(approval_action \<times> int) list \<Rightarrow> (int \<times> approval_status) option" where
  "read_trail ((Submitting, n) # es) = read_events (n, ApPending) es"
| "read_trail es = None"

lemma read_events_append:
  "read_events p (es @ fs) = (case read_events p es of None \<Rightarrow> None | Some q \<Rightarrow> read_events q fs)"
  by (induction es arbitrary: p) (auto split: option.splits)

lemma read_steps_before: "1 \<le> n \<Longrightarrow> read_events (1, ApPending) (steps_before n) = Some (n, ApPending)"
proof (induction n rule: int_ge_induct)
  case base
  then show ?case by (simp add: steps_before_def)
next
  case (step n)
  then have "steps_before (n + 1) = steps_before n @ [(ApprovedStep, n)]"
    using upto_rec2 [of 1 n] by (simp add: steps_before_def)
  with step show ?case by (simp add: read_events_append)
qed

lemma read_closing: "read_events (n, ApPending) (closing st n) = Some (n, st)"
  by (cases st) simp_all

text \<open>The immutable history of a request determines the request: read as a sequence of events from the
  submission on, it gives exactly the step number and the status stored in the row.\<close>
theorem history_reconstructs_request:
  assumes "ap_reachable s" and "get (approval_requests s) i = Some r"
  shows "read_trail (trail s i) = Some (current_step_number r, ar_status r)"
  using ap_invD(3) [OF ap_reachable_inv [OF assms(1)] assms(2)]
  by (simp add: request_ok_def expected_trail_def read_events_append read_steps_before read_closing)

theorem history_reconstructs_request_witness: "read_trail (trail ap3 200) = Some (2, ApApproved)"
  using history_reconstructs_request [OF ap_runs_reachable(3) ap3_row] by simp

section \<open>Pending and closed requests\<close>

text \<open>An entity has at most one pending request at any time.\<close>
theorem one_pending_request_per_entity:
  assumes "ap_reachable s"
    and "get (approval_requests s) i = Some q" and "get (approval_requests s) j = Some r"
    and "ar_status q = ApPending" and "ar_status r = ApPending"
    and "ar_entity_type q = ar_entity_type r" and "ar_entity_id q = ar_entity_id r"
  shows "i = j"
  by (rule ap_invD(4) [OF ap_reachable_inv [OF assms(1)] assms(2,3)]) (simp add: rival_def assms(4-))

theorem one_pending_request_per_entity_witness:
  "\<exists>r. get (approval_requests ap1) 200 = Some r \<and> (200::uuid) = 200 \<and>
     start_workflow ap1 (rq0 ''GAP'') (plain_user 4) 1003 = Inl (ApnaError ''DUPLICATE_APPROVAL_REQUEST'')"
proof -
  obtain r where r: "get (approval_requests ap1) 200 = Some r" "ar_status r = ApPending"
    by (simp add: ap1_def ap0_def run_ap Let_def)
  have "(200::uuid) = 200"
    by (rule one_pending_request_per_entity [OF ap_runs_reachable(1) r(1) r(1) r(2) r(2)]) simp_all
  moreover have "start_workflow ap1 (rq0 ''GAP'') (plain_user 4) 1003 = Inl (ApnaError ''DUPLICATE_APPROVAL_REQUEST'')"
    by (simp add: ap1_def ap0_def run_ap Let_def)
  ultimately show ?thesis using r by blast
qed

text \<open>Approved, rejected and cancelled are final: whatever calls follow, a closed request stays in its
  table unchanged, and the history only grows at its end.\<close>
theorem closed_requests_are_final:
  assumes "ap_step\<^sup>*\<^sup>* s s'" and "get (approval_requests s) i = Some r" and "ar_status r \<noteq> ApPending"
  shows "get (approval_requests s') i = Some r \<and> (\<exists>hs. approval_histories s' = approval_histories s @ hs)"
proof -
  from assms have "get (approval_requests s') i = Some r \<and> histories_grow s s'"
    by (induction rule: rtranclp_induct)
      (auto intro: ap_step_closed histories_grow_trans ap_step_histories)
  then show ?thesis by (simp add: histories_grow_def)
qed

theorem closed_requests_are_final_witness:
  "\<exists>r s'. get (approval_requests ap3) 200 = Some r \<and> ap_step ap3 s' \<and> get (approval_requests s') 200 = Some r"
proof -
  let ?s = "ap3\<lparr>roles := [], user_roles := []\<rparr>"
  have st: "ap_step ap3 ?s" by (rule ap_step.grant)
  from closed_requests_are_final [OF r_into_rtranclp [of ap_step, OF st] ap3_row] st ap3_row show ?thesis by auto
qed



section \<open>Progress\<close>



section \<open>Step numbers and definitions\<close>

text \<open>Steps behind a gap in the numbering are skipped: when the current step has no direct successor, its
  approval approves the whole request, although the workflow has a step with a higher number that nobody
  approved. Creating a definition does not check that the numbers are consecutive.\<close>
theorem gap_skips_later_steps:
  assumes "ap_reachable s" and "approve_step s i c u now = Inr s'" and "get (approval_requests s) i = Some r"
    and "get_step_by_number s (ar_workflow_id r) (current_step_number r + 1) = None"
    and "get_step_by_number s (ar_workflow_id r) m = Some st" and "current_step_number r < m"
  shows "map_option ar_status (get (approval_requests s') i) = Some ApApproved \<and>
    (ApprovedStep, m) \<notin> set (trail s' i)"
proof -
  from assms(2) have ap: "map_option ar_status (get (approval_requests s') i) = Some ApApproved \<and>
      map_option current_step_number (get (approval_requests s') i) = Some (current_step_number r)"
    by (rule approve_stepD) (use assms(3,4) in \<open>auto simp: table_simps\<close>)
  then obtain r' where r': "get (approval_requests s') i = Some r'" "ar_status r' = ApApproved"
      "current_step_number r' = current_step_number r" by auto
  have "ap_reachable s'" using assms(1) ap_step.approve [OF assms(2)] by (rule ap_reachable.step)
  from request_ok_def ap_invD(3) [OF ap_reachable_inv [OF this] r'(1)]
  have "trail s' i = expected_trail r'" by simp
  with r' assms(6) ap show ?thesis by (auto simp: expected_trail_def steps_before_def)
qed

theorem gap_skips_later_steps_witness:
  "map_option ar_status (get (approval_requests gap2) 200) = Some ApApproved \<and>
    (ApprovedStep, 3) \<notin> set (trail gap2 200)"
proof -
  have re: "ap_reachable gap1"
    by (rule ap_reachable.step [OF ap_reachable.init [OF ap0_init] ap_step.start [OF gap1_run]])
  obtain r where r: "get (approval_requests gap1) 200 = Some r" "ar_workflow_id r = 2" "current_step_number r = 1"
    by (simp add: gap1_def ap0_def run_ap Let_def)
  have none: "get_step_by_number gap1 (ar_workflow_id r) (current_step_number r + 1) = None"
    by (simp add: r(2,3) gap1_def ap0_def run_ap Let_def)
  obtain st where st: "get_step_by_number gap1 (ar_workflow_id r) 3 = Some st"
    by (simp add: r(2) gap1_def ap0_def run_ap Let_def)
  show ?thesis by (rule gap_skips_later_steps [OF re gap2_run r(1) none st]) (simp add: r(3))
qed

text \<open>Definitions made through the service never have a step: a step whose role exists fails on reading
  \<open>is_deleted\<close> of the role, a step whose role is missing is refused. So without rows inserted by other
  means no request can ever be started.\<close>
theorem no_request_without_seeded_steps:
  assumes "ap_step\<^sup>*\<^sup>* s s'" and "approval_steps s = []" and "approval_requests s = []"
  shows "approval_steps s' = [] \<and> approval_requests s' = []"
  using assms
proof (induction rule: rtranclp_induct)
  case (step t u)
  then have t: "approval_steps t = []" "approval_requests t = []" by simp_all
  from step(2) show ?case
  proof cases
    case (start rq us now i)
    then show ?thesis by (rule start_workflowD) (use t in \<open>simp add: has_steps_def exists_where_def\<close>)
  next
    case (approve i c us now)
    then show ?thesis by (rule approve_stepD) (use t in \<open>simp add: get_def\<close>)
  next
    case (reject i c us now)
    then show ?thesis by (rule reject_stepD) (use t in \<open>simp add: get_def\<close>)
  next
    case (cancel i c us now)
    then show ?thesis by (rule cancel_workflowD) (use t in \<open>simp add: get_def\<close>)
  next
    case (define_wf wc i)
    from create_workflowD [OF this] t show ?thesis by simp
  next
    case (redefine_wf i wu)
    from update_workflowD [OF this] t show ?thesis by simp
  next
    case (grant rs urs)
    with t show ?thesis by simp
  qed
qed simp

definition ap_empty :: approvals where
  "ap_empty = ap0\<lparr>workflows := [], approval_steps := []\<rparr>"

definition wc0 :: "step_create list \<Rightarrow> workflow_create" where
  "wc0 scs = \<lparr>wc_code = ''WF'', wc_name = ''Expenses'', wc_description = None, wc_module_name = ''expense'',
     wc_is_active = True, wc_steps = scs\<rparr>"

definition sc0 :: step_create where
  "sc0 = \<lparr>sc_step_number = 1, sc_approver_role_id = 11, sc_required_approvals = 1, sc_auto_approve = False,
     sc_is_active = True\<rparr>"

theorem no_request_without_seeded_steps_witness:
  "create_workflow ap_empty (wc0 [sc0]) = Inl (AttributeErr ''is_deleted'') \<and>
   (\<exists>i t. create_workflow ap_empty (wc0 []) = Inr (i, t) \<and> approval_steps t = [] \<and> approval_requests t = [] \<and>
      start_workflow t (rq0 ''WF'') (plain_user 4) 1000 = Inl (ApnaError ''INVALID_WORKFLOW_DEFINITION''))"
proof -
  obtain i t where t: "create_workflow ap_empty (wc0 []) = Inr (i, t)"
      "start_workflow t (rq0 ''WF'') (plain_user 4) 1000 = Inl (ApnaError ''INVALID_WORKFLOW_DEFINITION'')"
    by (simp add: ap_empty_def ap0_def wc0_def create_workflow_def run_ap Let_def)
  have "approval_steps ap_empty = []" "approval_requests ap_empty = []" by (simp_all add: ap_empty_def ap0_def)
  from no_request_without_seeded_steps [OF r_into_rtranclp [of ap_step, OF ap_step.define_wf [OF t(1)]] this] t
  show ?thesis
    by (auto simp: ap_empty_def ap0_def wc0_def sc0_def create_workflow_def check_step_def run_ap)
qed

end
