(* ===== verification/HrModel.thy ===== *)
theory HrModel
  imports Calendar PyFloat
begin

text \<open>
  The rows of the time and leave modules: employees (\<^verbatim>\<open>src/app/models/employee.py\<close>), shifts and shift
  assignments (\<^verbatim>\<open>shift.py\<close>, \<^verbatim>\<open>shift_assignment.py\<close>), attendance (\<^verbatim>\<open>attendance.py\<close>), holidays, the HR
  configuration, leave types, balances and requests (\<^verbatim>\<open>leave_type.py\<close>, \<^verbatim>\<open>leave_balance.py\<close>,
  \<^verbatim>\<open>leave_request.py\<close>), and the queries the services make. A timestamp is a date with the microseconds
  of the day, in UTC; hours and days of leave are floats.
\<close>

section \<open>Timestamps\<close>

datatype datetime = DT (dt_date: date) (dt_us: int)

definition us :: "datetime \<Rightarrow> int" where
  "us t = combine (dt_date t) (dt_us t)"

definition minute_us :: int where
  "minute_us = 60000000"

section \<open>Rows\<close>

record employee =
  em_code :: string
  em_gender :: "string option"
  em_shift_id :: "uuid option"
  em_is_active :: bool
  em_is_deleted :: bool

record shift =
  sh_start_time :: int
  sh_end_time :: int
  sh_break_duration :: int
  sh_grace_period :: int
  sh_min_hours :: decimal
  sh_is_active :: bool
  sh_is_deleted :: bool

record hr_configuration =
  hc_standard_hours :: decimal
  hc_weekend :: "string list"
  hc_grace_period :: int
  hc_min_hours :: decimal

record holiday =
  ho_date :: date
  ho_country :: string
  ho_recurring :: bool
  ho_is_active :: bool
  ho_is_deleted :: bool

record shift_assignment =
  sa_employee_id :: uuid
  sa_shift_id :: uuid
  sa_from :: date
  sa_to :: "date option"
  sa_type :: string
  sa_reason :: "string option"
  sa_assigned_by :: "uuid option"
  sa_is_active :: bool
  sa_is_deleted :: bool

datatype attendance_status =
  Present | Late | HalfDay | Absent | HolidayStatus | Weekend | OnLeave | MissingCheckIn | MissingCheckOut

record attendance =
  at_employee_id :: uuid
  at_date :: date
  at_shift_id :: "uuid option"
  at_check_in :: "datetime option"
  at_check_out :: "datetime option"
  at_break :: int
  at_worked :: int
  at_expected :: int
  at_late :: int
  at_early :: int
  at_status :: attendance_status
  at_manual :: bool
  at_corrected_by :: "uuid option"
  at_notes :: "string option"
  at_is_locked :: bool
  at_is_deleted :: bool

record leave_type =
  lt_name :: string
  lt_allow_half_day :: bool
  lt_allow_negative :: bool
  lt_carry_forward_allowed :: bool
  lt_max_carry_forward :: decimal
  lt_max_consecutive :: "int option"
  lt_gender :: "string option"
  lt_is_active :: bool
  lt_is_deleted :: bool

record leave_balance =
  lb_employee_id :: uuid
  lb_leave_type_id :: uuid
  lb_year :: int
  lb_opening :: decimal
  lb_allocated :: decimal
  lb_earned :: decimal
  lb_availed :: decimal
  lb_encashed :: decimal
  lb_carried_forward :: decimal
  lb_remaining :: decimal
  lb_updated_by :: "uuid option"
  lb_is_active :: bool
  lb_is_deleted :: bool

datatype leave_status = LDraft | LPending | LApproved | LRejected | LCancelled | LCompleted

record leave_request =
  lr_employee_id :: uuid
  lr_leave_type_id :: uuid
  lr_start :: date
  lr_end :: date
  lr_total_days :: decimal
  lr_is_half_day :: bool
  lr_half_day_session :: "string option"
  lr_reason :: string
  lr_status :: leave_status
  lr_submitted_at :: "timestamp option"
  lr_reviewed_at :: "timestamp option"
  lr_reviewed_by :: "uuid option"
  lr_comments :: "string option"
  lr_is_deleted :: bool

record hr =
  employees :: "employee table"
  shifts :: "shift table"
  hr_config :: "hr_configuration option"
  holidays :: "holiday table"
  assignments :: "shift_assignment table"
  attendances :: "attendance table"
  leave_types :: "leave_type table"
  leave_balances :: "leave_balance table"
  leave_requests :: "leave_request table"
  hr_next :: uuid
  hr_effects :: "effect list"

definition hr_emit :: "effect list \<Rightarrow> hr \<Rightarrow> hr" where
  "hr_emit es s = s\<lparr>hr_effects := hr_effects s @ es\<rparr>"

lemma hr_emit_frame [simp]:
  "employees (hr_emit es s) = employees s" "shifts (hr_emit es s) = shifts s"
  "hr_config (hr_emit es s) = hr_config s" "holidays (hr_emit es s) = holidays s"
  "assignments (hr_emit es s) = assignments s" "attendances (hr_emit es s) = attendances s"
  "leave_types (hr_emit es s) = leave_types s" "leave_balances (hr_emit es s) = leave_balances s"
  "leave_requests (hr_emit es s) = leave_requests s" "hr_next (hr_emit es s) = hr_next s"
  by (simp_all add: hr_emit_def)

section \<open>Queries\<close>

text \<open>\<open>get_by_id\<close> of a table with soft deletion.\<close>

definition live :: "('r \<Rightarrow> bool) \<Rightarrow> 'r table \<Rightarrow> uuid \<Rightarrow> 'r option" where
  "live deleted t i = (case get t i of None \<Rightarrow> None | Some r \<Rightarrow> if deleted r then None else Some r)"

lemma live_Some: "live d t i = Some r \<longleftrightarrow> get t i = Some r \<and> \<not> d r"
  by (auto simp: live_def split: option.splits)

definition employee_of :: "hr \<Rightarrow> uuid \<Rightarrow> employee option" where
  "employee_of s i = live em_is_deleted (employees s) i"

definition shift_of :: "hr \<Rightarrow> uuid \<Rightarrow> shift option" where
  "shift_of s i = live sh_is_deleted (shifts s) i"

definition leave_type_of :: "hr \<Rightarrow> uuid \<Rightarrow> leave_type option" where
  "leave_type_of s i = live lt_is_deleted (leave_types s) i"

text \<open>\<open>get_holidays_by_date\<close>; an employee row has no country, so the caller always asks for India.\<close>

definition is_holiday_on :: "hr \<Rightarrow> date \<Rightarrow> bool" where
  "is_holiday_on s d =
     exists_where (\<lambda>h. ho_is_active h \<and> \<not> ho_is_deleted h \<and>
       (ho_date h = d \<or> ho_recurring h \<and> month (ho_date h) = month d \<and> day (ho_date h) = day d) \<and>
       py_lower (ho_country h) = ''india'') (holidays s)"

definition attendance_on :: "hr \<Rightarrow> uuid \<Rightarrow> date \<Rightarrow> (uuid \<times> attendance) option" where
  "attendance_on s e d =
     first_where (\<lambda>a. at_employee_id a = e \<and> at_date a = d \<and> \<not> at_is_deleted a) (attendances s)"

definition balance_of :: "hr \<Rightarrow> uuid \<Rightarrow> uuid \<Rightarrow> int \<Rightarrow> bool \<Rightarrow> (uuid \<times> leave_balance) option" where
  "balance_of s e lt y include_deleted =
     first_where (\<lambda>b. lb_employee_id b = e \<and> lb_leave_type_id b = lt \<and> lb_year b = y \<and>
       (include_deleted \<or> \<not> lb_is_deleted b)) (leave_balances s)"

end
