(* ===== verification/ShiftAssignments.thy ===== *)
theory ShiftAssignments
  imports HrModel
begin

text \<open>
  \<open>ShiftAssignmentService\<close> (\<^verbatim>\<open>src/app/services/shift_assignment.py\<close>) with its queries
  (\<^verbatim>\<open>src/app/repositories/shift_assignment.py\<close>): assigning a shift to an employee for a range of days,
  changing, ending and deleting an assignment, and finding the shift of a day. The redis cache in front
  of the last one is left out.
\<close>

section \<open>Queries\<close>

definition sa_active :: "shift_assignment \<Rightarrow> bool" where
  "sa_active a = (sa_is_active a \<and> \<not> sa_is_deleted a)"

definition last_day :: date where
  "last_day = Date 9999 12 31"

definition check_overlap :: "hr \<Rightarrow> uuid \<Rightarrow> date \<Rightarrow> date option \<Rightarrow> uuid option \<Rightarrow> bool" where
  "check_overlap s e from to exclude =
     list_ex (\<lambda>(k, a). sa_employee_id a = e \<and> sa_active a \<and> exclude \<noteq> Some k \<and>
       sa_from a \<le> (case to of Some t \<Rightarrow> t | None \<Rightarrow> last_day) \<and>
       (case sa_to a of None \<Rightarrow> True | Some t \<Rightarrow> from \<le> t)) (assignments s)"

definition has_locked_attendance :: "hr \<Rightarrow> uuid \<Rightarrow> date \<Rightarrow> date option \<Rightarrow> bool" where
  "has_locked_attendance s e from to =
     exists_where (\<lambda>a. at_employee_id a = e \<and> at_is_locked a \<and> \<not> at_is_deleted a \<and> from \<le> at_date a \<and>
       (case to of None \<Rightarrow> True | Some t \<Rightarrow> at_date a \<le> t)) (attendances s)"

definition in_force :: "shift_assignment \<Rightarrow> date \<Rightarrow> bool" where
  "in_force a d = (sa_active a \<and> sa_from a \<le> d \<and> (case sa_to a of None \<Rightarrow> True | Some t \<Rightarrow> d \<le> t))"

text \<open>Latest start first, of those the row created last.\<close>

definition later_start :: "shift_assignment option \<Rightarrow> shift_assignment \<Rightarrow> shift_assignment option" where
  "later_start best a =
     (case best of None \<Rightarrow> Some a | Some b \<Rightarrow> if sa_from b \<le> sa_from a then Some a else Some b)"

definition get_active_assignment :: "hr \<Rightarrow> uuid \<Rightarrow> date \<Rightarrow> shift_assignment option" where
  "get_active_assignment s e d =
     foldl later_start None
       (filter (\<lambda>a. sa_employee_id a = e \<and> in_force a d) (map snd (assignments s)))"

section \<open>Handlers\<close>

definition active_shift :: "hr \<Rightarrow> uuid \<Rightarrow> bool" where
  "active_shift s i = (case shift_of s i of None \<Rightarrow> False | Some x \<Rightarrow> sh_is_active x)"

record assignment_create =
  ac_employee_id :: uuid
  ac_shift_id :: uuid
  ac_from :: date
  ac_to :: "date option"
  ac_type :: string
  ac_reason :: "string option"

definition assign_shift :: "hr \<Rightarrow> assignment_create \<Rightarrow> uuid option \<Rightarrow> (uuid \<times> hr) result" where
  "assign_shift s c user =
     (if (case employee_of s (ac_employee_id c) of None \<Rightarrow> True | Some e \<Rightarrow> \<not> em_is_active e)
        then Inl (ApnaError ''EMPLOYEE_NOT_FOUND'')
      else if \<not> active_shift s (ac_shift_id c) then Inl (ApnaError ''SHIFT_NOT_FOUND'')
      else if (case ac_to c of None \<Rightarrow> False | Some t \<Rightarrow> t < ac_from c) then Inl (ApnaError ''INVALID_DATE_RANGE'')
      else if check_overlap s (ac_employee_id c) (ac_from c) (ac_to c) None
        then Inl (ApnaError ''OVERLAPPING_SHIFT_ASSIGNMENT'')
      else if has_locked_attendance s (ac_employee_id c) (ac_from c) (ac_to c)
        then Inl (ApnaError ''ATTENDANCE_LOCKED'')
      else let i = hr_next s;
               a = \<lparr>sa_employee_id = ac_employee_id c, sa_shift_id = ac_shift_id c, sa_from = ac_from c,
                    sa_to = ac_to c, sa_type = ac_type c, sa_reason = ac_reason c, sa_assigned_by = user,
                    sa_is_active = True, sa_is_deleted = False\<rparr>
           in Inr (i, hr_emit [Audit ''CREATE'' ''ShiftAssignment'' i,
                               Audit ''SHIFT_ASSIGNMENT_CREATE'' ''ShiftAssignment'' i,
                               Notify ''SHIFT_ASSIGNMENT_CREATED'' i]
                (s\<lparr>assignments := add_row i a (assignments s), hr_next := i + 1\<rparr>)))"

text \<open>The outer option of a field says whether the request has it; an explicit null in a column that
  takes none fails when the row is written.\<close>

record assignment_update =
  au_shift_id :: "uuid option option"
  au_from :: "date option option"
  au_to :: "date option option"
  au_type :: "string option option"
  au_reason :: "string option option"
  au_is_active :: "bool option option"

definition given :: "'a option option \<Rightarrow> 'a option" where
  "given u = (case u of Some v \<Rightarrow> v | None \<Rightarrow> None)"

definition write_field :: "'a option option \<Rightarrow> 'a \<Rightarrow> 'a" where
  "write_field u old = (case given u of Some v \<Rightarrow> v | None \<Rightarrow> old)"

definition apply_assignment_update :: "assignment_update \<Rightarrow> shift_assignment \<Rightarrow> shift_assignment" where
  "apply_assignment_update u a =
     a\<lparr>sa_shift_id := write_field (au_shift_id u) (sa_shift_id a),
       sa_from := write_field (au_from u) (sa_from a),
       sa_to := (case au_to u of Some v \<Rightarrow> v | None \<Rightarrow> sa_to a),
       sa_type := write_field (au_type u) (sa_type a),
       sa_reason := (case au_reason u of Some v \<Rightarrow> v | None \<Rightarrow> sa_reason a),
       sa_is_active := write_field (au_is_active u) (sa_is_active a)\<rparr>"

definition assignment_nulls :: "assignment_update \<Rightarrow> bool" where
  "assignment_nulls u =
     (au_shift_id u = Some None \<or> au_from u = Some None \<or> au_type u = Some None \<or> au_is_active u = Some None)"

definition update_assignment :: "hr \<Rightarrow> uuid \<Rightarrow> assignment_update \<Rightarrow> hr result" where
  "update_assignment s i u =
     (case live sa_is_deleted (assignments s) i of
        None \<Rightarrow> Inl (ApnaError ''SHIFT_ASSIGNMENT_NOT_FOUND'')
      | Some a \<Rightarrow>
        let new_from = write_field (au_from u) (sa_from a);
            new_to = (case given (au_to u) of Some t \<Rightarrow> Some t | None \<Rightarrow> sa_to a)
        in if (case given (au_shift_id u) of None \<Rightarrow> False | Some sh \<Rightarrow> \<not> active_shift s sh)
             then Inl (ApnaError ''SHIFT_NOT_FOUND'')
           else if (case new_to of None \<Rightarrow> False | Some t \<Rightarrow> t < new_from) then Inl (ApnaError ''INVALID_DATE_RANGE'')
           else if has_locked_attendance s (sa_employee_id a) (sa_from a) (sa_to a)
             then Inl (ApnaError ''ATTENDANCE_LOCKED'')
           else if check_overlap s (sa_employee_id a) new_from new_to (Some i)
             then Inl (ApnaError ''OVERLAPPING_SHIFT_ASSIGNMENT'')
           else if assignment_nulls u then Inl (IntegrityErr ''shift_assignments'')
           else Inr (hr_emit [Audit ''UPDATE'' ''ShiftAssignment'' i, Audit ''SHIFT_ASSIGNMENT_UPDATE'' ''ShiftAssignment'' i]
                  (s\<lparr>assignments := modify i (apply_assignment_update u) (assignments s)\<rparr>)))"

definition end_assignment :: "hr \<Rightarrow> uuid \<Rightarrow> date \<Rightarrow> date \<Rightarrow> hr result" where
  "end_assignment s i end_date today =
     (case live sa_is_deleted (assignments s) i of
        None \<Rightarrow> Inl (ApnaError ''SHIFT_ASSIGNMENT_NOT_FOUND'')
      | Some a \<Rightarrow>
        if end_date < sa_from a then Inl (ApnaError ''INVALID_DATE_RANGE'')
        else if has_locked_attendance s (sa_employee_id a) end_date (sa_to a) then Inl (ApnaError ''ATTENDANCE_LOCKED'')
        else Inr (hr_emit [Audit ''SHIFT_ASSIGNMENT_END'' ''ShiftAssignment'' i]
               (s\<lparr>assignments := modify i (\<lambda>a. a\<lparr>sa_to := Some end_date,
                    sa_is_active := (if end_date < today then False else sa_is_active a)\<rparr>) (assignments s)\<rparr>)))"

definition delete_assignment :: "hr \<Rightarrow> uuid \<Rightarrow> hr result" where
  "delete_assignment s i =
     (case live sa_is_deleted (assignments s) i of
        None \<Rightarrow> Inl (ApnaError ''SHIFT_ASSIGNMENT_NOT_FOUND'')
      | Some a \<Rightarrow>
        if has_locked_attendance s (sa_employee_id a) (sa_from a) (sa_to a) then Inl (ApnaError ''ATTENDANCE_LOCKED'')
        else Inr (hr_emit [Audit ''SOFT_DELETE'' ''ShiftAssignment'' i, Audit ''SHIFT_ASSIGNMENT_DELETE'' ''ShiftAssignment'' i]
               (s\<lparr>assignments := modify i (\<lambda>a. a\<lparr>sa_is_deleted := True\<rparr>) (assignments s)\<rparr>)))"

text \<open>The shift of a day, with its key: the assignment in force, else the one of the employee row.\<close>

definition employee_shift :: "hr \<Rightarrow> uuid \<Rightarrow> (uuid \<times> shift) option" where
  "employee_shift s e =
     (case employee_of s e of
        None \<Rightarrow> None
      | Some em \<Rightarrow>
        (case em_shift_id em of
           None \<Rightarrow> None
         | Some i \<Rightarrow>
           (case shift_of s i of
              None \<Rightarrow> None
            | Some x \<Rightarrow> if sh_is_active x then Some (i, x) else None)))"

definition resolve_shift :: "hr \<Rightarrow> uuid \<Rightarrow> date \<Rightarrow> (uuid \<times> shift) option" where
  "resolve_shift s e d =
     (case get_active_assignment s e d of
        None \<Rightarrow> employee_shift s e
      | Some a \<Rightarrow>
        (case get (shifts s) (sa_shift_id a) of
           Some x \<Rightarrow> Some (sa_shift_id a, x)
         | None \<Rightarrow> employee_shift s e))"

section \<open>Assignments of one employee do not overlap\<close>

definition overlapping :: "shift_assignment \<Rightarrow> shift_assignment \<Rightarrow> bool" where
  "overlapping a b =
     (sa_employee_id a = sa_employee_id b \<and> sa_active a \<and> sa_active b \<and>
      sa_from a \<le> (case sa_to b of Some t \<Rightarrow> t | None \<Rightarrow> last_day) \<and>
      sa_from b \<le> (case sa_to a of Some t \<Rightarrow> t | None \<Rightarrow> last_day))"

definition assignments_disjoint :: "shift_assignment table \<Rightarrow> bool" where
  "assignments_disjoint t =
     (\<forall>i j a b. get t i = Some a \<longrightarrow> get t j = Some b \<longrightarrow> i \<noteq> j \<longrightarrow> \<not> overlapping a b)"

lemma overlapping_sym: "overlapping a b = overlapping b a"
  by (auto simp: overlapping_def)

lemma check_overlapD:
  assumes "\<not> check_overlap s e from to ex" and "get (assignments s) j = Some b" and "ex \<noteq> Some j"
    and "sa_employee_id a = e" "sa_from a = from" "sa_to a = to" and "from \<le> last_day"
  shows "\<not> overlapping a b"
  using assms(1,3-) get_in_set [OF assms(2)]
  by (fastforce simp: check_overlap_def list_ex_iff overlapping_def split: option.splits)

lemma assignments_disjoint_modify:
  assumes "assignments_disjoint t" and "get t i = Some a"
    and "\<And>j b. get t j = Some b \<Longrightarrow> j \<noteq> i \<Longrightarrow> \<not> overlapping (f a) b"
  shows "assignments_disjoint (modify i f t)"
  using assms overlapping_sym unfolding assignments_disjoint_def tbl.lookup_upd
  by (auto split: if_splits)

lemma assignments_disjoint_add:
  assumes "assignments_disjoint t" and "get t i = None" and "\<And>j b. get t j = Some b \<Longrightarrow> \<not> overlapping a b"
  shows "assignments_disjoint (add_row i a t)"
  using assms overlapping_sym unfolding assignments_disjoint_def get_add_row_eq
  by (auto split: option.splits if_splits)

end
