(* ===== verification/AttendanceEngine.thy ===== *)
theory AttendanceEngine
  imports HrModel
begin

text \<open>
  \<open>AttendanceEngine.calculate_attendance\<close> (\<^verbatim>\<open>src/app/services/attendance_engine.py\<close>), cut along its numbered
  sections. Minutes are whole numbers, hours are floats. Days at the very end of the calendar, where
  Python overflows, are left out.
\<close>

record attendance_result =
  r_status :: attendance_status
  r_worked :: int
  r_expected :: int
  r_late :: int
  r_early :: int

section \<open>Parameters\<close>

definition is_weekend :: "hr_configuration option \<Rightarrow> date \<Rightarrow> bool" where
  "is_weekend cfg d =
     (case cfg of None \<Rightarrow> False
      | Some c \<Rightarrow> py_lower (day_name d) \<in> set (map (\<lambda>w. py_lower (py_strip w)) (hc_weekend c)))"

definition standard_hours :: "hr_configuration option \<Rightarrow> decimal" where
  "standard_hours cfg = (case cfg of Some c \<Rightarrow> hc_standard_hours c | None \<Rightarrow> 8)"

definition grace_minutes :: "shift option \<Rightarrow> hr_configuration option \<Rightarrow> int" where
  "grace_minutes sh cfg = (case sh of Some x \<Rightarrow> sh_grace_period x
     | None \<Rightarrow> (case cfg of Some c \<Rightarrow> hc_grace_period c | None \<Rightarrow> 15))"

definition min_hours :: "shift option \<Rightarrow> hr_configuration option \<Rightarrow> decimal" where
  "min_hours sh cfg = (case sh of Some x \<Rightarrow> sh_min_hours x
     | None \<Rightarrow> (case cfg of Some c \<Rightarrow> hc_min_hours c | None \<Rightarrow> 4))"

text \<open>\<open>Shift.duration_hours\<close>: whole seconds between the two times, over midnight if need be.\<close>

definition shift_seconds :: "shift \<Rightarrow> int" where
  "shift_seconds sh =
     (let a = sh_start_time sh div 1000000; b = sh_end_time sh div 1000000
      in if a \<le> b then b - a else 24 * 3600 - a + b)"

definition duration_hours :: "shift \<Rightarrow> decimal" where
  "duration_hours sh = round2 (fl (of_int (shift_seconds sh) / 3600))"

definition expected_minutes :: "date \<Rightarrow> shift option \<Rightarrow> hr_configuration option \<Rightarrow> bool \<Rightarrow> int" where
  "expected_minutes d sh cfg is_holiday =
     (if is_weekend cfg d \<or> is_holiday then 0
      else case sh of
        Some x \<Rightarrow> max 0 (trunc (fl (duration_hours x * 60)) - sh_break_duration x)
      | None \<Rightarrow> trunc (fl (standard_hours cfg * 60)))"

section \<open>The shift window\<close>

definition start_time :: "shift option \<Rightarrow> int" where
  "start_time sh = (case sh of Some x \<Rightarrow> sh_start_time x | None \<Rightarrow> 9 * 3600000000)"

definition end_time :: "shift option \<Rightarrow> int" where
  "end_time sh = (case sh of Some x \<Rightarrow> sh_end_time x | None \<Rightarrow> 17 * 3600000000)"

definition shift_start :: "date \<Rightarrow> shift option \<Rightarrow> int" where
  "shift_start d sh = combine d (start_time sh)"

text \<open>An end time not after the start time belongs to the next day.\<close>

definition shift_end :: "date \<Rightarrow> shift option \<Rightarrow> int" where
  "shift_end d sh =
     (if end_time sh \<le> start_time sh then combine d (end_time sh) + day_us else combine d (end_time sh))"

section \<open>Minutes\<close>

definition worked :: "datetime option \<Rightarrow> datetime option \<Rightarrow> int \<Rightarrow> int" where
  "worked cin cout break =
     (case (cin, cout) of
        (Some a, Some b) \<Rightarrow> max 0 (max 0 ((us b - us a) div minute_us) - break)
      | _ \<Rightarrow> 0)"

definition late :: "datetime option \<Rightarrow> int \<Rightarrow> int \<Rightarrow> int" where
  "late cin start grace =
     (case cin of None \<Rightarrow> 0
      | Some a \<Rightarrow> if us a > start + grace * minute_us then (us a - start) div minute_us else 0)"

definition early :: "datetime option \<Rightarrow> int \<Rightarrow> int" where
  "early cout fin =
     (case cout of None \<Rightarrow> 0
      | Some b \<Rightarrow> if us b < fin then (fin - us b) div minute_us else 0)"

section \<open>The decision matrix\<close>

definition decide_status ::
  "datetime option \<Rightarrow> datetime option \<Rightarrow> bool \<Rightarrow> bool \<Rightarrow> bool \<Rightarrow> int \<Rightarrow> int \<Rightarrow> int \<Rightarrow> attendance_status" where
  "decide_status cin cout on_leave is_holiday weekend worked_mins min_mins late_mins =
     (case (cin, cout) of
        (None, None) \<Rightarrow>
          if on_leave then OnLeave else if is_holiday then HolidayStatus
          else if weekend then Weekend else Absent
      | (Some _, None) \<Rightarrow> MissingCheckOut
      | (None, Some _) \<Rightarrow> MissingCheckIn
      | (Some _, Some _) \<Rightarrow>
          if worked_mins < min_mins then HalfDay else if late_mins > 0 then Late else Present)"

definition calculate_attendance ::
  "date \<Rightarrow> datetime option \<Rightarrow> datetime option \<Rightarrow> int \<Rightarrow> shift option \<Rightarrow> hr_configuration option \<Rightarrow> bool \<Rightarrow> bool
    \<Rightarrow> attendance_result" where
  "calculate_attendance d cin cout break sh cfg is_holiday on_leave =
     (let w = worked cin cout break;
          l = late cin (shift_start d sh) (grace_minutes sh cfg)
      in \<lparr>r_status = decide_status cin cout on_leave is_holiday (is_weekend cfg d) w
             (trunc (fl (min_hours sh cfg * 60))) l,
          r_worked = w,
          r_expected = expected_minutes d sh cfg is_holiday,
          r_late = l,
          r_early = early cout (shift_end d sh)\<rparr>)"

section \<open>Bounds\<close>

lemma worked_bounds: "0 \<le> worked cin cout break"
  "worked (Some a) (Some b) break \<le> max 0 ((us b - us a) div minute_us) \<or> break < 0"
  by (auto simp: worked_def split: option.splits)

lemma late_cases:
  assumes "0 \<le> grace"
  shows "late cin start grace = 0 \<or> grace \<le> late cin start grace"
proof (cases cin)
  case (Some a)
  have "grace \<le> (us a - start) div minute_us" if "us a > start + grace * minute_us"
  proof -
    have "grace = grace * minute_us div minute_us" by (simp add: minute_us_def)
    also have "\<dots> \<le> (us a - start) div minute_us"
      using that by (intro zdiv_mono1) (simp_all add: minute_us_def)
    finally show ?thesis .
  qed
  with Some show ?thesis by (auto simp: late_def)
qed (simp add: late_def)

lemma late_nonneg: "0 \<le> grace \<Longrightarrow> 0 \<le> late cin start grace"
  using late_cases [of grace cin start] by auto

lemma early_nonneg: "0 \<le> early cout fin"
  by (auto simp: early_def minute_us_def split: option.splits)

lemma trunc_nonneg: "0 \<le> x \<Longrightarrow> 0 \<le> trunc x"
  by (simp add: trunc_def)

lemma shift_end_after_start:
  assumes "0 \<le> start_time sh" "start_time sh < day_us" "0 \<le> end_time sh" "end_time sh < day_us"
  shows "shift_start d sh < shift_end d sh" "shift_end d sh \<le> shift_start d sh + day_us"
  using assms by (auto simp: shift_start_def shift_end_def combine_def)

end
