(* ===== verification/AttendanceService.thy ===== *)
theory AttendanceService
  imports ShiftAssignments AttendanceEngine
begin

text \<open>
  \<open>AttendanceService\<close> (\<^verbatim>\<open>src/app/services/attendance.py\<close>): check-in, check-out, manual correction and the
  lock for payroll. Every handler looks up shift, HR configuration and holidays, runs the engine and
  writes the five calculated columns. No handler tells the engine that the employee is on leave.
\<close>

section \<open>Common steps\<close>

definition run_engine :: "hr \<Rightarrow> shift option \<Rightarrow> attendance \<Rightarrow> attendance_result" where
  "run_engine s sh a =
     calculate_attendance (at_date a) (at_check_in a) (at_check_out a) (at_break a) sh (hr_config s)
       (is_holiday_on s (at_date a)) False"

definition set_minutes :: "attendance_result \<Rightarrow> attendance \<Rightarrow> attendance" where
  "set_minutes r a = a\<lparr>at_worked := r_worked r, at_expected := r_expected r, at_late := r_late r, at_early := r_early r\<rparr>"

definition evaluate :: "hr \<Rightarrow> shift option \<Rightarrow> attendance \<Rightarrow> attendance" where
  "evaluate s sh a = (let r = run_engine s sh a in (set_minutes r a)\<lparr>at_status := r_status r\<rparr>)"

text \<open>The shift stored in the row, else the one that holds on the day.\<close>

definition stored_shift :: "hr \<Rightarrow> attendance \<Rightarrow> shift option" where
  "stored_shift s a =
     (case at_shift_id a of
        Some i \<Rightarrow> shift_of s i
      | None \<Rightarrow> map_option snd (resolve_shift s (at_employee_id a) (at_date a)))"

section \<open>Check-in\<close>

record check_in_request =
  ci_employee_id :: uuid
  ci_time :: "datetime option"
  ci_shift_id :: "uuid option"

definition check_in_shift :: "hr \<Rightarrow> check_in_request \<Rightarrow> date \<Rightarrow> (uuid \<times> shift) option" where
  "check_in_shift s ci d =
     (case ci_shift_id ci of
        Some i \<Rightarrow> map_option (Pair i) (shift_of s i)
      | None \<Rightarrow> resolve_shift s (ci_employee_id ci) d)"

definition check_in_effects :: "uuid \<Rightarrow> attendance \<Rightarrow> effect list" where
  "check_in_effects i a = Audit ''ATTENDANCE_CHECKIN'' ''Attendance'' i #
     (if at_status a = Late then [Notify ''LATE_ARRIVAL'' i] else [])"

definition again_checked_in :: "hr \<Rightarrow> (uuid \<times> shift) option \<Rightarrow> datetime \<Rightarrow> attendance \<Rightarrow> attendance" where
  "again_checked_in s sh t a =
     evaluate s (map_option snd sh)
       (a\<lparr>at_check_in := Some t, at_shift_id := (case sh of Some (i, _) \<Rightarrow> Some i | None \<Rightarrow> at_shift_id a)\<rparr>)"

definition first_check_in :: "hr \<Rightarrow> uuid \<Rightarrow> (uuid \<times> shift) option \<Rightarrow> datetime \<Rightarrow> attendance" where
  "first_check_in s e sh t =
     evaluate s (map_option snd sh)
       \<lparr>at_employee_id = e, at_date = dt_date t, at_shift_id = map_option fst sh, at_check_in = Some t,
        at_check_out = None, at_break = 0, at_worked = 0, at_expected = 0, at_late = 0, at_early = 0,
        at_status = Absent, at_manual = False, at_corrected_by = None, at_notes = None, at_is_locked = False,
        at_is_deleted = False\<rparr>"

definition process_check_in :: "hr \<Rightarrow> check_in_request \<Rightarrow> datetime \<Rightarrow> (uuid \<times> hr) result" where
  "process_check_in s ci now =
     (case employee_of s (ci_employee_id ci) of
        None \<Rightarrow> Inl (ApnaError ''EMPLOYEE_NOT_FOUND'')
      | Some em \<Rightarrow>
        if \<not> em_is_active em then Inl (ApnaError ''EMPLOYEE_INACTIVE'')
        else let t = (case ci_time ci of Some x \<Rightarrow> x | None \<Rightarrow> now);
                 sh = check_in_shift s ci (dt_date t)
          in case attendance_on s (ci_employee_id ci) (dt_date t) of
            Some (i, a) \<Rightarrow>
              if at_is_locked a then Inl (ApnaError ''ATTENDANCE_LOCKED'')
              else let a' = again_checked_in s sh t a
                   in Inr (i, hr_emit (Audit ''UPDATE'' ''Attendance'' i # check_in_effects i a')
                        (s\<lparr>attendances := modify i (\<lambda>_. a') (attendances s)\<rparr>))
          | None \<Rightarrow>
              if exists_where (\<lambda>a. at_employee_id a = ci_employee_id ci \<and> at_date a = dt_date t) (attendances s)
              then Inl (IntegrityErr ''uq_attendance_employee_date'')
              else let i = hr_next s; a' = first_check_in s (ci_employee_id ci) sh t
                   in Inr (i, hr_emit (check_in_effects i a')
                        (s\<lparr>attendances := add_row i a' (attendances s), hr_next := i + 1\<rparr>)))"

section \<open>Check-out\<close>

record check_out_request =
  co_employee_id :: uuid
  co_time :: "datetime option"
  co_break :: int

text \<open>The row of the day, else an open row of the day before.\<close>

definition attendance_before :: "hr \<Rightarrow> uuid \<Rightarrow> date \<Rightarrow> (uuid \<times> attendance) option" where
  "attendance_before s e d =
     first_where (\<lambda>a. at_employee_id a = e \<and> next_day (at_date a) = Some d \<and> \<not> at_is_deleted a) (attendances s)"

definition open_attendance :: "hr \<Rightarrow> uuid \<Rightarrow> date \<Rightarrow> (uuid \<times> attendance) option" where
  "open_attendance s e d =
     (case attendance_on s e d of
        Some x \<Rightarrow> Some x
      | None \<Rightarrow>
        (case attendance_before s e d of
           None \<Rightarrow> None
         | Some (i, a) \<Rightarrow> if at_check_in a \<noteq> None \<and> at_check_out a = None then Some (i, a) else None))"

definition process_check_out :: "hr \<Rightarrow> check_out_request \<Rightarrow> datetime \<Rightarrow> hr result" where
  "process_check_out s co now =
     (case employee_of s (co_employee_id co) of
        None \<Rightarrow> Inl (ApnaError ''EMPLOYEE_NOT_FOUND'')
      | Some em \<Rightarrow>
        let t = (case co_time co of Some x \<Rightarrow> x | None \<Rightarrow> now)
        in case open_attendance s (co_employee_id co) (dt_date t) of
          None \<Rightarrow> Inl (ApnaError ''ATTENDANCE_NOT_FOUND'')
        | Some (i, a) \<Rightarrow>
          if at_is_locked a then Inl (ApnaError ''ATTENDANCE_LOCKED'')
          else let a' = evaluate s (stored_shift s a) (a\<lparr>at_check_out := Some t, at_break := co_break co\<rparr>)
               in Inr (hr_emit [Audit ''UPDATE'' ''Attendance'' i, Audit ''ATTENDANCE_CHECKOUT'' ''Attendance'' i]
                    (s\<lparr>attendances := modify i (\<lambda>_. a') (attendances s)\<rparr>)))"

section \<open>Correction and lock\<close>

record correction_request =
  cr_attendance_id :: uuid
  cr_check_in :: "datetime option"
  cr_check_out :: "datetime option"
  cr_break :: "int option"
  cr_status :: "attendance_status option"
  cr_notes :: string

text \<open>The check of the request body compares the two times only when both are given.\<close>

definition correction_valid :: "correction_request \<Rightarrow> bool" where
  "correction_valid cr =
     ((case (cr_check_in cr, cr_check_out cr) of (Some a, Some b) \<Rightarrow> us a \<le> us b | _ \<Rightarrow> True) \<and>
      (case cr_break cr of Some b \<Rightarrow> 0 \<le> b | None \<Rightarrow> True))"

definition corrected :: "hr \<Rightarrow> correction_request \<Rightarrow> uuid option \<Rightarrow> attendance \<Rightarrow> attendance" where
  "corrected s cr user a =
     (let a1 = a\<lparr>at_check_in := (case cr_check_in cr of Some t \<Rightarrow> Some t | None \<Rightarrow> at_check_in a),
                 at_check_out := (case cr_check_out cr of Some t \<Rightarrow> Some t | None \<Rightarrow> at_check_out a),
                 at_break := (case cr_break cr of Some b \<Rightarrow> b | None \<Rightarrow> at_break a)\<rparr>;
          r = run_engine s (stored_shift s a) a1
      in (set_minutes r a1)\<lparr>at_status := (case cr_status cr of Some st \<Rightarrow> st | None \<Rightarrow> r_status r),
           at_manual := True, at_corrected_by := user, at_notes := Some (cr_notes cr)\<rparr>)"

definition correct_attendance :: "hr \<Rightarrow> correction_request \<Rightarrow> uuid option \<Rightarrow> hr result" where
  "correct_attendance s cr user =
     (let i = cr_attendance_id cr in
      case live at_is_deleted (attendances s) i of
        None \<Rightarrow> Inl (ApnaError ''ATTENDANCE_NOT_FOUND'')
      | Some a \<Rightarrow>
        if at_is_locked a then Inl (ApnaError ''ATTENDANCE_LOCKED'')
        else Inr (hr_emit [Audit ''UPDATE'' ''Attendance'' i, Audit ''ATTENDANCE_CORRECT'' ''Attendance'' i,
                           Notify ''ATTENDANCE_CORRECTED'' i]
               (s\<lparr>attendances := modify i (\<lambda>_. corrected s cr user a) (attendances s)\<rparr>)))"

record lock_request =
  lk_ids :: "uuid list option"
  lk_start :: "date option"
  lk_end :: "date option"

text \<open>Locking a range asks for one page of 10000 rows, which \<open>PaginationParams\<close> (at most 100) refuses.\<close>

definition rows_to_lock :: "hr \<Rightarrow> lock_request \<Rightarrow> uuid list result" where
  "rows_to_lock s lk =
     (case lk_ids lk of
        Some (i # is) \<Rightarrow> Inr (filter (\<lambda>j. live at_is_deleted (attendances s) j \<noteq> None) (i # is))
      | _ \<Rightarrow> if lk_start lk \<noteq> None \<and> lk_end lk \<noteq> None then Inl (ValueErr ''page_size'') else Inr [])"

definition lock_row :: "uuid \<Rightarrow> hr \<Rightarrow> hr" where
  "lock_row i s =
     (case get (attendances s) i of
        None \<Rightarrow> s
      | Some a \<Rightarrow>
        if at_is_locked a then s
        else hr_emit [Audit ''UPDATE'' ''Attendance'' i, Audit ''ATTENDANCE_LOCK'' ''Attendance'' i]
               (s\<lparr>attendances := modify i (\<lambda>a. a\<lparr>at_is_locked := True\<rparr>) (attendances s)\<rparr>))"

definition lock_attendance :: "hr \<Rightarrow> lock_request \<Rightarrow> hr result" where
  "lock_attendance s lk =
     (case rows_to_lock s lk of Inl e \<Rightarrow> Inl e | Inr is \<Rightarrow> Inr (fold lock_row is s))"

section \<open>Locked rows\<close>

lemma evaluate_frame [simp]:
  "at_employee_id (evaluate s sh a) = at_employee_id a" "at_date (evaluate s sh a) = at_date a"
  "at_check_in (evaluate s sh a) = at_check_in a" "at_check_out (evaluate s sh a) = at_check_out a"
  "at_break (evaluate s sh a) = at_break a" "at_shift_id (evaluate s sh a) = at_shift_id a"
  "at_is_locked (evaluate s sh a) = at_is_locked a" "at_is_deleted (evaluate s sh a) = at_is_deleted a"
  by (simp_all add: evaluate_def set_minutes_def Let_def)

lemma evaluate_minutes [simp]:
  "at_worked (evaluate s sh a) = r_worked (run_engine s sh a)" "at_late (evaluate s sh a) = r_late (run_engine s sh a)"
  "at_expected (evaluate s sh a) = r_expected (run_engine s sh a)" "at_early (evaluate s sh a) = r_early (run_engine s sh a)"
  "at_status (evaluate s sh a) = r_status (run_engine s sh a)"
  by (simp_all add: evaluate_def set_minutes_def Let_def)

lemma attendance_onD:
  assumes "attendance_on s e d = Some (i, a)" and "distinct (keys (attendances s))"
  shows "get (attendances s) i = Some a" "at_employee_id a = e" "at_date a = d" "\<not> at_is_deleted a"
  using first_where_Some [OF assms(1) [unfolded attendance_on_def]] in_set_get [OF assms(2)] by auto

lemma attendance_beforeD:
  assumes "attendance_before s e d = Some (i, a)" and "distinct (keys (attendances s))"
  shows "get (attendances s) i = Some a" "at_employee_id a = e" "next_day (at_date a) = Some d" "\<not> at_is_deleted a"
  using first_where_Some [OF assms(1) [unfolded attendance_before_def]] in_set_get [OF assms(2)] by auto

lemma open_attendanceD:
  assumes "open_attendance s e d = Some (i, a)" and "distinct (keys (attendances s))"
  shows "get (attendances s) i = Some a" "at_employee_id a = e" "\<not> at_is_deleted a"
  using assms(1) attendance_onD [OF _ assms(2)] attendance_beforeD [OF _ assms(2)]
  by (auto simp: open_attendance_def split: option.splits if_splits)

lemma lock_row_frame [simp]:
  "employees (lock_row i s) = employees s" "assignments (lock_row i s) = assignments s"
  "leave_balances (lock_row i s) = leave_balances s" "leave_requests (lock_row i s) = leave_requests s"
  "leave_types (lock_row i s) = leave_types s" "hr_next (lock_row i s) = hr_next s"
  "keys (attendances (lock_row i s)) = keys (attendances s)"
  by (auto simp: lock_row_def table_simps split: option.splits)

lemma get_lock_row:
  "get (attendances (lock_row i s)) j =
     (if j = i then map_option (\<lambda>a. a\<lparr>at_is_locked := True\<rparr>) (get (attendances s) i) else get (attendances s) j)"
  by (auto simp: lock_row_def table_simps split: option.splits)

lemma get_lock_rows:
  "get (attendances (fold lock_row is s)) j =
     (if j \<in> set is then map_option (\<lambda>a. a\<lparr>at_is_locked := True\<rparr>) (get (attendances s) j) else get (attendances s) j)"
  by (induction "is" arbitrary: s) (auto simp: get_lock_row option.map_comp comp_def)

lemma lock_rows_frame [simp]:
  "employees (fold lock_row is s) = employees s" "assignments (fold lock_row is s) = assignments s"
  "leave_balances (fold lock_row is s) = leave_balances s" "leave_requests (fold lock_row is s) = leave_requests s"
  "leave_types (fold lock_row is s) = leave_types s" "hr_next (fold lock_row is s) = hr_next s"
  "keys (attendances (fold lock_row is s)) = keys (attendances s)"
  by (induction "is" arbitrary: s) simp_all

end
