(* ===== verification/LeaveBalances.thy ===== *)
theory LeaveBalances
  imports ShiftAssignments
begin

text \<open>
  \<open>LeaveBalanceService\<close> (\<^verbatim>\<open>src/app/services/leave_balance.py\<close>): the days of leave of an employee per
  leave type and year, with the derived remaining days. Day counts are floats.
\<close>

section \<open>Remaining days\<close>

text \<open>The sum in the order the code adds it up, rounded to two decimals
  (\<open>LeaveBalance.calculate_remaining_days\<close>).\<close>

definition derive_remaining :: "decimal \<Rightarrow> decimal \<Rightarrow> decimal \<Rightarrow> decimal \<Rightarrow> decimal \<Rightarrow> decimal \<Rightarrow> decimal" where
  "derive_remaining opening allocated earned cf availed encashed =
     round2 (fl (fl (fl (fl (fl (opening + allocated) + earned) + cf) - availed) - encashed))"

definition calculate_remaining_days :: "leave_balance \<Rightarrow> decimal" where
  "calculate_remaining_days b =
     derive_remaining (lb_opening b) (lb_allocated b) (lb_earned b) (lb_carried_forward b) (lb_availed b) (lb_encashed b)"

definition validate_negative_balance :: "decimal \<Rightarrow> bool \<Rightarrow> unit result" where
  "validate_negative_balance remaining allow =
     (if remaining < 0 \<and> \<not> allow then Inl (ApnaError ''NEGATIVE_LEAVE_BALANCE'') else Inr ())"

definition validate_carry_forward :: "decimal \<Rightarrow> leave_type \<Rightarrow> unit result" where
  "validate_carry_forward cf lt =
     (if \<not> lt_carry_forward_allowed lt \<and> cf > 0 then Inl (ApnaError ''INVALID_CARRY_FORWARD'')
      else if lt_carry_forward_allowed lt \<and> cf > lt_max_carry_forward lt then Inl (ApnaError ''INVALID_CARRY_FORWARD'')
      else Inr ())"

section \<open>Create\<close>

record balance_create =
  bc_employee_id :: uuid
  bc_leave_type_id :: uuid
  bc_year :: int
  bc_opening :: decimal
  bc_allocated :: decimal
  bc_earned :: decimal
  bc_availed :: decimal
  bc_encashed :: decimal
  bc_carried_forward :: decimal
  bc_is_active :: bool

definition new_balance :: "balance_create \<Rightarrow> uuid option \<Rightarrow> leave_balance" where
  "new_balance c user =
     \<lparr>lb_employee_id = bc_employee_id c, lb_leave_type_id = bc_leave_type_id c, lb_year = bc_year c,
      lb_opening = bc_opening c, lb_allocated = bc_allocated c, lb_earned = bc_earned c,
      lb_availed = bc_availed c, lb_encashed = bc_encashed c, lb_carried_forward = bc_carried_forward c,
      lb_remaining = derive_remaining (bc_opening c) (bc_allocated c) (bc_earned c) (bc_carried_forward c)
        (bc_availed c) (bc_encashed c),
      lb_updated_by = user, lb_is_active = bc_is_active c, lb_is_deleted = False\<rparr>"

definition create_leave_balance :: "hr \<Rightarrow> balance_create \<Rightarrow> uuid option \<Rightarrow> (uuid \<times> hr) result" where
  "create_leave_balance s c user =
     (if employee_of s (bc_employee_id c) = None then Inl (ApnaError ''EMPLOYEE_NOT_FOUND'')
      else case leave_type_of s (bc_leave_type_id c) of
        None \<Rightarrow> Inl (ApnaError ''LEAVE_TYPE_NOT_FOUND'')
      | Some lt \<Rightarrow>
        if \<not> lt_is_active lt then Inl (ApnaError ''LEAVE_TYPE_NOT_FOUND'')
        else if balance_of s (bc_employee_id c) (bc_leave_type_id c) (bc_year c) True \<noteq> None
          then Inl (ApnaError ''DUPLICATE_LEAVE_BALANCE'')
        else case validate_carry_forward (bc_carried_forward c) lt of
            Inl e \<Rightarrow> Inl e
          | Inr _ \<Rightarrow>
            let b = new_balance c user
            in case validate_negative_balance (lb_remaining b) (lt_allow_negative lt) of
                Inl e \<Rightarrow> Inl e
              | Inr _ \<Rightarrow>
                let i = hr_next s
                in Inr (i, hr_emit [Audit ''CREATE'' ''LeaveBalance'' i, Audit ''LEAVE_BALANCE_CREATE'' ''LeaveBalance'' i]
                     (s\<lparr>leave_balances := add_row i b (leave_balances s), hr_next := i + 1\<rparr>)))"

section \<open>Update\<close>

record balance_update =
  bu_opening :: "decimal option option"
  bu_allocated :: "decimal option option"
  bu_earned :: "decimal option option"
  bu_availed :: "decimal option option"
  bu_encashed :: "decimal option option"
  bu_carried_forward :: "decimal option option"
  bu_is_active :: "bool option option"

definition balance_nulls :: "balance_update \<Rightarrow> bool" where
  "balance_nulls u =
     (bu_opening u = Some None \<or> bu_allocated u = Some None \<or> bu_earned u = Some None \<or> bu_availed u = Some None \<or>
      bu_encashed u = Some None \<or> bu_carried_forward u = Some None \<or> bu_is_active u = Some None)"

definition updated_balance :: "balance_update \<Rightarrow> uuid option \<Rightarrow> leave_balance \<Rightarrow> leave_balance" where
  "updated_balance u user b =
     (let opening = write_field (bu_opening u) (lb_opening b);
          allocated = write_field (bu_allocated u) (lb_allocated b);
          earned = write_field (bu_earned u) (lb_earned b);
          availed = write_field (bu_availed u) (lb_availed b);
          encashed = write_field (bu_encashed u) (lb_encashed b);
          cf = write_field (bu_carried_forward u) (lb_carried_forward b)
      in b\<lparr>lb_opening := opening, lb_allocated := allocated, lb_earned := earned, lb_availed := availed,
           lb_encashed := encashed, lb_carried_forward := cf,
           lb_remaining := derive_remaining opening allocated earned cf availed encashed,
           lb_updated_by := user, lb_is_active := write_field (bu_is_active u) (lb_is_active b)\<rparr>)"

text \<open>The policy checks are skipped when the leave type is gone.\<close>

definition update_leave_balance :: "hr \<Rightarrow> uuid \<Rightarrow> balance_update \<Rightarrow> uuid option \<Rightarrow> hr result" where
  "update_leave_balance s i u user =
     (case live lb_is_deleted (leave_balances s) i of
        None \<Rightarrow> Inl (ApnaError ''LEAVE_BALANCE_NOT_FOUND'')
      | Some b \<Rightarrow>
        let lt = leave_type_of s (lb_leave_type_id b); b' = updated_balance u user b
        in case (case (given (bu_carried_forward u), lt) of
                   (Some cf, Some t) \<Rightarrow> validate_carry_forward cf t | _ \<Rightarrow> Inr ()) of
            Inl e \<Rightarrow> Inl e
          | Inr _ \<Rightarrow>
            (case (case lt of Some t \<Rightarrow> validate_negative_balance (lb_remaining b') (lt_allow_negative t)
                   | None \<Rightarrow> Inr ()) of
               Inl e \<Rightarrow> Inl e
             | Inr _ \<Rightarrow>
               if balance_nulls u then Inl (IntegrityErr ''leave_balances'')
               else Inr (hr_emit [Audit ''UPDATE'' ''LeaveBalance'' i, Audit ''LEAVE_BALANCE_UPDATE'' ''LeaveBalance'' i]
                      (s\<lparr>leave_balances := modify i (\<lambda>_. b') (leave_balances s)\<rparr>))))"

section \<open>Adjust\<close>

datatype balance_field = FAllocated | FEarned | FAvailed | FEncashed | FOpening | FCarriedForward

definition allowed_fields :: "(string \<times> balance_field) list" where
  "allowed_fields = [(''allocated'', FAllocated), (''earned'', FEarned), (''availed'', FAvailed),
     (''encashed'', FEncashed), (''opening'', FOpening), (''carried_forward'', FCarriedForward)]"

fun get_balance_field :: "balance_field \<Rightarrow> leave_balance \<Rightarrow> decimal" where
  "get_balance_field FAllocated b = lb_allocated b"
| "get_balance_field FEarned b = lb_earned b"
| "get_balance_field FAvailed b = lb_availed b"
| "get_balance_field FEncashed b = lb_encashed b"
| "get_balance_field FOpening b = lb_opening b"
| "get_balance_field FCarriedForward b = lb_carried_forward b"

fun set_balance_field :: "balance_field \<Rightarrow> decimal \<Rightarrow> leave_balance \<Rightarrow> leave_balance" where
  "set_balance_field FAllocated v b = b\<lparr>lb_allocated := v\<rparr>"
| "set_balance_field FEarned v b = b\<lparr>lb_earned := v\<rparr>"
| "set_balance_field FAvailed v b = b\<lparr>lb_availed := v\<rparr>"
| "set_balance_field FEncashed v b = b\<lparr>lb_encashed := v\<rparr>"
| "set_balance_field FOpening v b = b\<lparr>lb_opening := v\<rparr>"
| "set_balance_field FCarriedForward v b = b\<lparr>lb_carried_forward := v\<rparr>"

definition rederive :: "leave_balance \<Rightarrow> leave_balance" where
  "rederive b = b\<lparr>lb_remaining := calculate_remaining_days b\<rparr>"

definition adjust_leave_balance :: "hr \<Rightarrow> uuid \<Rightarrow> string \<Rightarrow> decimal \<Rightarrow> uuid option \<Rightarrow> hr result" where
  "adjust_leave_balance s i adjustment_type adjustment_days user =
     (case live lb_is_deleted (leave_balances s) i of
        None \<Rightarrow> Inl (ApnaError ''LEAVE_BALANCE_NOT_FOUND'')
      | Some b \<Rightarrow>
        case map_of allowed_fields adjustment_type of
          None \<Rightarrow> Inl (ApnaError ''INVALID_ADJUSTMENT_TYPE'')
        | Some f \<Rightarrow>
          let lt = leave_type_of s (lb_leave_type_id b);
              v = round2 (fl (get_balance_field f b + adjustment_days))
          in if v < 0 then Inl (ApnaError ''INVALID_BALANCE_AMOUNT'')
             else case (case lt of Some t \<Rightarrow> if f = FCarriedForward then validate_carry_forward v t else Inr ()
                        | None \<Rightarrow> Inr ()) of
                 Inl e \<Rightarrow> Inl e
               | Inr _ \<Rightarrow>
                 let b' = rederive (set_balance_field f v b)
                 in case (case lt of Some t \<Rightarrow> validate_negative_balance (lb_remaining b') (lt_allow_negative t)
                          | None \<Rightarrow> Inr ()) of
                     Inl e \<Rightarrow> Inl e
                   | Inr _ \<Rightarrow> Inr (hr_emit [Audit ''LEAVE_BALANCE_ADJUST'' ''LeaveBalance'' i, Notify ''ADJUSTED'' i]
                        (s\<lparr>leave_balances := modify i (\<lambda>_. b'\<lparr>lb_updated_by := user\<rparr>) (leave_balances s)\<rparr>)))"

section \<open>Delete and restore\<close>

definition delete_leave_balance :: "hr \<Rightarrow> uuid \<Rightarrow> hr result" where
  "delete_leave_balance s i =
     (case live lb_is_deleted (leave_balances s) i of
        None \<Rightarrow> Inl (ApnaError ''LEAVE_BALANCE_NOT_FOUND'')
      | Some b \<Rightarrow>
        Inr (hr_emit [Audit ''SOFT_DELETE'' ''LeaveBalance'' i, Audit ''LEAVE_BALANCE_DELETE'' ''LeaveBalance'' i]
          (s\<lparr>leave_balances := modify i (\<lambda>b. b\<lparr>lb_is_deleted := True\<rparr>) (leave_balances s)\<rparr>)))"

definition restore_leave_balance :: "hr \<Rightarrow> uuid \<Rightarrow> hr result" where
  "restore_leave_balance s i =
     (case get (leave_balances s) i of
        None \<Rightarrow> Inl (ApnaError ''LEAVE_BALANCE_NOT_FOUND'')
      | Some b \<Rightarrow>
        if \<not> lb_is_deleted b then Inr s
        else Inr (hr_emit [Audit ''LEAVE_BALANCE_RESTORE'' ''LeaveBalance'' i]
          (s\<lparr>leave_balances := modify i (\<lambda>b. b\<lparr>lb_is_deleted := False\<rparr>) (leave_balances s)\<rparr>)))"

section \<open>Derived rows\<close>

text \<open>The remaining days of a row are what its other columns add up to.\<close>

definition derived :: "leave_balance \<Rightarrow> bool" where
  "derived b = (lb_remaining b = calculate_remaining_days b)"

lemma derived_simps [simp]:
  "derived (new_balance c user)" "derived (updated_balance u user b)" "derived (rederive b)"
  "derived (b\<lparr>lb_is_deleted := d\<rparr>) = derived b" "derived (b\<lparr>lb_updated_by := user\<rparr>) = derived b"
  by (simp_all add: derived_def calculate_remaining_days_def new_balance_def updated_balance_def rederive_def Let_def)

definition balance_key :: "leave_balance \<Rightarrow> uuid \<times> uuid \<times> int" where
  "balance_key b = (lb_employee_id b, lb_leave_type_id b, lb_year b)"

lemma balance_key_simps [simp]:
  "balance_key (updated_balance u user b) = balance_key b" "balance_key (rederive b) = balance_key b"
  "balance_key (set_balance_field f v b) = balance_key b" "balance_key (b\<lparr>lb_is_deleted := d\<rparr>) = balance_key b"
  "balance_key (b\<lparr>lb_updated_by := user\<rparr>) = balance_key b"
  "balance_key (b\<lparr>lb_availed := v\<rparr>) = balance_key b" "balance_key (b\<lparr>lb_remaining := v\<rparr>) = balance_key b"
  "balance_key (b\<lparr>lb_allocated := v\<rparr>) = balance_key b" "balance_key (b\<lparr>lb_earned := v\<rparr>) = balance_key b"
  "balance_key (b\<lparr>lb_encashed := v\<rparr>) = balance_key b" "balance_key (b\<lparr>lb_opening := v\<rparr>) = balance_key b"
  "balance_key (b\<lparr>lb_carried_forward := v\<rparr>) = balance_key b"
  by (cases f; simp add: balance_key_def updated_balance_def rederive_def Let_def)+

text \<open>With amounts in hundredths of a day the floats do not show: the remaining days are the float of the
  exact sum.\<close>

definition day_amount :: "decimal \<Rightarrow> decimal \<Rightarrow> bool" where
  "day_amount x h = (x = fl h \<and> hundredths h \<and> \<bar>h\<bar> \<le> 1000000)"

lemma day_amount_near: "day_amount x h \<Longrightarrow> near x h (1 / 100000000) 1000000"
  unfolding day_amount_def by (simp add: near_fl)

lemma derive_remaining_exact:
  assumes "day_amount o' o1" "day_amount a a1" "day_amount e e1" "day_amount c c1" "day_amount v v1" "day_amount n n1"
  shows "derive_remaining o' a e c v n = fl (o1 + a1 + e1 + c1 - v1 - n1)"
proof -
  note n = assms [THEN day_amount_near]
  have "near (fl (fl (fl (fl (fl (o' + a) + e) + c) - v) - n)) (o1 + a1 + e1 + c1 - v1 - n1)
      (1 / 100000000 + 1 / 100000000 + 1 / 100000000 + 1 / 100000000 + 1 / 100000000 + 1 / 100000000 + 1 / 100000000 +
       1 / 100000000 + 1 / 100000000 + 1 / 100000000 + 1 / 100000000) (1000000 + 1000000 + 1000000 + 1000000 + 1000000 + 1000000)"
    by (intro near_add near_diff n) simp_all
  moreover have "hundredths (o1 + a1 + e1 + c1 - v1 - n1)"
    using assms unfolding day_amount_def by (intro hundredths_add hundredths_diff) simp_all
  ultimately show ?thesis
    unfolding derive_remaining_def by (rule round2_near) simp
qed

lemma add_days_exact:
  assumes "day_amount v v1" "day_amount t t1"
  shows "round2 (fl (v + t)) = fl (v1 + t1)" "round2 (fl (v - t)) = fl (v1 - t1)"
proof -
  note n = assms [THEN day_amount_near]
  have h: "hundredths v1" "hundredths t1" using assms by (simp_all add: day_amount_def)
  show "round2 (fl (v + t)) = fl (v1 + t1)"
    by (rule round2_near [OF near_add [OF n]]) (use h in auto)
  show "round2 (fl (v - t)) = fl (v1 - t1)"
    by (rule round2_near [OF near_diff [OF n]]) (use h in auto)
qed

end
