(* ===== verification/LeaveRequests.thy ===== *)
theory LeaveRequests
  imports LeaveBalances
begin

text \<open>
  \<open>LeaveRequestService\<close> (\<^verbatim>\<open>src/app/services/leave_request.py\<close>, queries in
  \<^verbatim>\<open>src/app/repositories/leave_request.py\<close>): the working days of a range, the policy checks, and the life
  of a request from draft to approval, rejection or cancellation, with what approval and cancellation do to
  the leave balance. Today's date and the time are parameters.
\<close>

section \<open>Working days\<close>

definition holiday_dates :: "hr \<Rightarrow> date \<Rightarrow> date \<Rightarrow> date list" where
  "holiday_dates s a b =
     map ho_date (filter (\<lambda>h. a \<le> ho_date h \<and> ho_date h \<le> b \<and> ho_is_active h \<and> \<not> ho_is_deleted h) (map snd (holidays s)))"

definition is_working_day :: "date list \<Rightarrow> date \<Rightarrow> bool" where
  "is_working_day hs d = (weekday d \<noteq> 5 \<and> weekday d \<noteq> 6 \<and> d \<notin> set hs)"

text \<open>The loop \<open>while cur <= end_date\<close>; stepping past the last day of the calendar raises.\<close>

function count_days :: "date list \<Rightarrow> date \<Rightarrow> date \<Rightarrow> nat \<Rightarrow> nat result" where
  "count_days hs fin cur n =
     (if cur \<le> fin
      then let n' = (if is_working_day hs cur then n + 1 else n)
           in (case next_day cur of
                 None \<Rightarrow> Inl (OverflowErr ''date value out of range'')
               | Some d \<Rightarrow> count_days hs fin d n')
      else Inr n)"
  by pat_completeness auto

termination
proof (relation "measures [\<lambda>(hs, fin, cur, n). nat (10000 - year cur), \<lambda>(hs, fin, cur, n). nat (13 - month cur),
    \<lambda>(hs, fin, cur, n). nat (32 - day cur)]")
  show "((hs, fin, d, n'), hs, fin, cur, n) \<in> measures [\<lambda>(hs, fin, cur, n). nat (10000 - year cur),
      \<lambda>(hs, fin, cur, n). nat (13 - month cur), \<lambda>(hs, fin, cur, n). nat (32 - day cur)]"
    if "next_day cur = Some d" for hs fin cur n d n'
    using that days_in_month_bounds(2) [of "year cur" "month cur"]
    by (auto simp: next_day_def split: if_splits)
qed simp

declare count_days.simps [simp del]

definition calculate_working_days :: "hr \<Rightarrow> date \<Rightarrow> date \<Rightarrow> bool \<Rightarrow> decimal result" where
  "calculate_working_days s a b is_half_day =
     (if is_half_day then Inr (1 / 2)
      else (case count_days (holiday_dates s a b) b a 0 of Inl e \<Rightarrow> Inl e | Inr n \<Rightarrow> Inr (of_nat n)))"

section \<open>Policy checks\<close>

definition get_overlapping_requests :: "hr \<Rightarrow> uuid \<Rightarrow> date \<Rightarrow> date \<Rightarrow> uuid option \<Rightarrow> leave_request list" where
  "get_overlapping_requests s e a b exclude =
     map snd (filter (\<lambda>(k, r). lr_employee_id r = e \<and> (lr_status r = LPending \<or> lr_status r = LApproved) \<and>
       lr_start r \<le> b \<and> a \<le> lr_end r \<and> \<not> lr_is_deleted r \<and> exclude \<noteq> Some k) (leave_requests s))"

text \<open>Reading an attribute of a missing leave type or employee raises.\<close>

definition gender_mismatch :: "employee \<Rightarrow> leave_type \<Rightarrow> bool" where
  "gender_mismatch em lt =
     (case lt_gender lt of None \<Rightarrow> False
      | Some g \<Rightarrow> g \<noteq> '''' \<and> g \<noteq> ''All'' \<and>
          (let eg = py_strip (case em_gender em of Some x \<Rightarrow> x | None \<Rightarrow> '''')
           in eg \<noteq> '''' \<and> py_lower eg \<noteq> py_lower g))"

definition insufficient :: "(uuid \<times> leave_balance) option \<Rightarrow> leave_type \<Rightarrow> decimal \<Rightarrow> bool" where
  "insufficient bal lt total_days =
     (case bal of
        None \<Rightarrow> \<not> lt_allow_negative lt
      | Some (_, b) \<Rightarrow> lb_remaining b < total_days \<and> \<not> lt_allow_negative lt)"

definition validate_leave_policies ::
  "hr \<Rightarrow> uuid \<Rightarrow> employee option \<Rightarrow> uuid \<Rightarrow> leave_type option \<Rightarrow> date \<Rightarrow> date \<Rightarrow> decimal \<Rightarrow> bool \<Rightarrow> uuid option
    \<Rightarrow> unit result" where
  "validate_leave_policies s e em lti lt a b total_days is_half_day exclude =
     (if b < a then Inl (ApnaError ''INVALID_LEAVE_DATES'')
      else if total_days \<le> 0 then Inl (ApnaError ''INVALID_LEAVE_DATES'')
      else case lt of
        None \<Rightarrow> Inl (AttributeErr ''leave_type'')
      | Some t \<Rightarrow>
        if is_half_day \<and> \<not> lt_allow_half_day t then Inl (ApnaError ''HALF_DAY_NOT_PERMITTED'')
        else case lt_max_consecutive t of
          None \<Rightarrow> Inl (TypeErr ''max_consecutive_days'')
        | Some m \<Rightarrow>
          if total_days > of_int m then Inl (ApnaError ''EXCEEDS_MAX_CONSECUTIVE_DAYS'')
          else case em of
            None \<Rightarrow> Inl (AttributeErr ''employee'')
          | Some x \<Rightarrow>
            if gender_mismatch x t then Inl (ApnaError ''GENDER_RESTRICTION_MISMATCH'')
            else if get_overlapping_requests s e a b exclude \<noteq> [] then Inl (ApnaError ''OVERLAPPING_LEAVE_REQUEST'')
            else if insufficient (balance_of s e lti (year a) False) t total_days
              then Inl (ApnaError ''INSUFFICIENT_LEAVE_BALANCE'')
            else Inr ())"

section \<open>Draft and submission\<close>

record leave_create =
  lc_employee_id :: uuid
  lc_leave_type_id :: uuid
  lc_start :: date
  lc_end :: date
  lc_is_half_day :: bool
  lc_half_day_session :: "string option"
  lc_reason :: string

definition leave_create_valid :: "leave_create \<Rightarrow> bool" where
  "leave_create_valid c = (lc_start c \<le> lc_end c \<and> (lc_is_half_day c \<longrightarrow> lc_start c = lc_end c))"

definition draft_request :: "leave_create \<Rightarrow> decimal \<Rightarrow> leave_request" where
  "draft_request c days_total =
     \<lparr>lr_employee_id = lc_employee_id c, lr_leave_type_id = lc_leave_type_id c, lr_start = lc_start c,
      lr_end = lc_end c, lr_total_days = days_total, lr_is_half_day = lc_is_half_day c,
      lr_half_day_session = lc_half_day_session c, lr_reason = lc_reason c, lr_status = LDraft,
      lr_submitted_at = None, lr_reviewed_at = None, lr_reviewed_by = None, lr_comments = None,
      lr_is_deleted = False\<rparr>"

definition create_leave_request :: "hr \<Rightarrow> leave_create \<Rightarrow> (uuid \<times> hr) result" where
  "create_leave_request s c =
     (case employee_of s (lc_employee_id c) of
        None \<Rightarrow> Inl (ApnaError ''EMPLOYEE_NOT_FOUND'')
      | Some em \<Rightarrow>
        case leave_type_of s (lc_leave_type_id c) of
          None \<Rightarrow> Inl (ApnaError ''LEAVE_TYPE_NOT_FOUND'')
        | Some lt \<Rightarrow>
          if \<not> lt_is_active lt then Inl (ApnaError ''LEAVE_TYPE_NOT_FOUND'')
          else case calculate_working_days s (lc_start c) (lc_end c) (lc_is_half_day c) of
            Inl e \<Rightarrow> Inl e
          | Inr days_total \<Rightarrow>
            case validate_leave_policies s (lc_employee_id c) (Some em) (lc_leave_type_id c) (Some lt)
                   (lc_start c) (lc_end c) days_total (lc_is_half_day c) None of
              Inl e \<Rightarrow> Inl e
            | Inr _ \<Rightarrow>
              let i = hr_next s
              in Inr (i, hr_emit [Audit ''CREATE'' ''LeaveRequest'' i, Audit ''LEAVE_REQUEST_CREATE'' ''LeaveRequest'' i]
                   (s\<lparr>leave_requests := add_row i (draft_request c days_total) (leave_requests s), hr_next := i + 1\<rparr>)))"

record leave_update =
  lu_start :: "date option option"
  lu_end :: "date option option"
  lu_is_half_day :: "bool option option"
  lu_half_day_session :: "string option option"
  lu_reason :: "string option option"

definition leave_nulls :: "leave_update \<Rightarrow> bool" where
  "leave_nulls u =
     (lu_start u = Some None \<or> lu_end u = Some None \<or> lu_is_half_day u = Some None \<or> lu_reason u = Some None)"

definition apply_leave_update :: "leave_update \<Rightarrow> decimal \<Rightarrow> leave_request \<Rightarrow> leave_request" where
  "apply_leave_update u days_total r =
     r\<lparr>lr_start := write_field (lu_start u) (lr_start r), lr_end := write_field (lu_end u) (lr_end r),
       lr_is_half_day := write_field (lu_is_half_day u) (lr_is_half_day r),
       lr_half_day_session := (case lu_half_day_session u of Some v \<Rightarrow> v | None \<Rightarrow> lr_half_day_session r),
       lr_reason := write_field (lu_reason u) (lr_reason r), lr_total_days := days_total\<rparr>"

definition update_leave_request :: "hr \<Rightarrow> uuid \<Rightarrow> leave_update \<Rightarrow> hr result" where
  "update_leave_request s i u =
     (case live lr_is_deleted (leave_requests s) i of
        None \<Rightarrow> Inl (ApnaError ''LEAVE_REQUEST_NOT_FOUND'')
      | Some r \<Rightarrow>
        if lr_status r \<noteq> LDraft then Inl (ApnaError ''CANNOT_EDIT_NON_DRAFT_REQUEST'')
        else let a = write_field (lu_start u) (lr_start r); b = write_field (lu_end u) (lr_end r);
                 half = write_field (lu_is_half_day u) (lr_is_half_day r)
          in case calculate_working_days s a b half of
            Inl e \<Rightarrow> Inl e
          | Inr days_total \<Rightarrow>
            case validate_leave_policies s (lr_employee_id r) (employee_of s (lr_employee_id r)) (lr_leave_type_id r)
                   (leave_type_of s (lr_leave_type_id r)) a b days_total half (Some i) of
              Inl e \<Rightarrow> Inl e
            | Inr _ \<Rightarrow>
              if leave_nulls u then Inl (IntegrityErr ''leave_requests'')
              else Inr (hr_emit [Audit ''UPDATE'' ''LeaveRequest'' i, Audit ''LEAVE_REQUEST_UPDATE'' ''LeaveRequest'' i]
                   (s\<lparr>leave_requests := modify i (apply_leave_update u days_total) (leave_requests s)\<rparr>)))"

definition submit_leave_request :: "hr \<Rightarrow> uuid \<Rightarrow> timestamp \<Rightarrow> hr result" where
  "submit_leave_request s i now =
     (case live lr_is_deleted (leave_requests s) i of
        None \<Rightarrow> Inl (ApnaError ''LEAVE_REQUEST_NOT_FOUND'')
      | Some r \<Rightarrow>
        if lr_status r \<noteq> LDraft then Inl (ApnaError ''INVALID_WORKFLOW_TRANSITION'')
        else case validate_leave_policies s (lr_employee_id r) (employee_of s (lr_employee_id r)) (lr_leave_type_id r)
                   (leave_type_of s (lr_leave_type_id r)) (lr_start r) (lr_end r) (lr_total_days r) (lr_is_half_day r)
                   (Some i) of
            Inl e \<Rightarrow> Inl e
          | Inr _ \<Rightarrow>
            Inr (hr_emit [Audit ''LEAVE_REQUEST_SUBMIT'' ''LeaveRequest'' i, Notify ''SUBMITTED'' i]
              (s\<lparr>leave_requests := modify i (\<lambda>r. r\<lparr>lr_status := LPending, lr_submitted_at := Some now\<rparr>) (leave_requests s)\<rparr>)))"

section \<open>Review\<close>

definition charge :: "decimal \<Rightarrow> leave_balance \<Rightarrow> leave_balance" where
  "charge days b = rederive (b\<lparr>lb_availed := round2 (fl (lb_availed b + days))\<rparr>)"

definition credit :: "decimal \<Rightarrow> leave_balance \<Rightarrow> leave_balance" where
  "credit days b = rederive (b\<lparr>lb_availed := max 0 (round2 (fl (lb_availed b - days)))\<rparr>)"

definition change_balance :: "(uuid \<times> leave_balance) option \<Rightarrow> (leave_balance \<Rightarrow> leave_balance) \<Rightarrow> hr \<Rightarrow> hr" where
  "change_balance bal f s =
     (case bal of None \<Rightarrow> s | Some (k, _) \<Rightarrow> s\<lparr>leave_balances := modify k f (leave_balances s)\<rparr>)"

definition review :: "leave_status \<Rightarrow> uuid option \<Rightarrow> string option \<Rightarrow> timestamp \<Rightarrow> leave_request \<Rightarrow> leave_request" where
  "review st user comments now r =
     r\<lparr>lr_status := st, lr_reviewed_at := Some now, lr_reviewed_by := user, lr_comments := comments\<rparr>"

definition request_balance :: "hr \<Rightarrow> leave_request \<Rightarrow> (uuid \<times> leave_balance) option" where
  "request_balance s r = balance_of s (lr_employee_id r) (lr_leave_type_id r) (year (lr_start r)) False"

text \<open>The balance guard of the approval. The leave type is read only where the code reads it.\<close>

definition approval_guard :: "hr \<Rightarrow> leave_request \<Rightarrow> unit result" where
  "approval_guard s r =
     (case (request_balance s r, leave_type_of s (lr_leave_type_id r)) of
        (None, None) \<Rightarrow> Inl (AttributeErr ''leave_type'')
      | (None, Some t) \<Rightarrow> if lt_allow_negative t then Inr () else Inl (ApnaError ''INSUFFICIENT_LEAVE_BALANCE'')
      | (Some (_, b), lt) \<Rightarrow>
          if lb_remaining b < lr_total_days r
          then (case lt of
              None \<Rightarrow> Inl (AttributeErr ''leave_type'')
            | Some t \<Rightarrow> if lt_allow_negative t then Inr () else Inl (ApnaError ''INSUFFICIENT_LEAVE_BALANCE''))
          else Inr ())"

definition approve_leave_request :: "hr \<Rightarrow> uuid \<Rightarrow> uuid option \<Rightarrow> string option \<Rightarrow> timestamp \<Rightarrow> hr result" where
  "approve_leave_request s i user comments now =
     (case live lr_is_deleted (leave_requests s) i of
        None \<Rightarrow> Inl (ApnaError ''LEAVE_REQUEST_NOT_FOUND'')
      | Some r \<Rightarrow>
        if lr_status r \<noteq> LPending then Inl (ApnaError ''INVALID_WORKFLOW_TRANSITION'')
        else case approval_guard s r of
            Inl e \<Rightarrow> Inl e
          | Inr _ \<Rightarrow>
            let s1 = change_balance (request_balance s r) (charge (lr_total_days r)) s
            in Inr (hr_emit [Audit ''LEAVE_REQUEST_APPROVE'' ''LeaveRequest'' i, Notify ''APPROVED'' i]
                 (s1\<lparr>leave_requests := modify i (review LApproved user comments now) (leave_requests s1)\<rparr>)))"

definition reject_leave_request :: "hr \<Rightarrow> uuid \<Rightarrow> uuid option \<Rightarrow> string option \<Rightarrow> timestamp \<Rightarrow> hr result" where
  "reject_leave_request s i user comments now =
     (case live lr_is_deleted (leave_requests s) i of
        None \<Rightarrow> Inl (ApnaError ''LEAVE_REQUEST_NOT_FOUND'')
      | Some r \<Rightarrow>
        if lr_status r \<noteq> LPending then Inl (ApnaError ''INVALID_WORKFLOW_TRANSITION'')
        else Inr (hr_emit [Audit ''LEAVE_REQUEST_REJECT'' ''LeaveRequest'' i, Notify ''REJECTED'' i]
               (s\<lparr>leave_requests := modify i (review LRejected user comments now) (leave_requests s)\<rparr>)))"

definition cancel_request :: "string option \<Rightarrow> leave_request \<Rightarrow> leave_request" where
  "cancel_request reason r =
     r\<lparr>lr_status := LCancelled,
       lr_comments := (case reason of Some t \<Rightarrow> if t = '''' then lr_comments r else Some (''Cancelled: '' @ t)
                       | None \<Rightarrow> lr_comments r)\<rparr>"

definition cancel_leave_request :: "hr \<Rightarrow> uuid \<Rightarrow> string option \<Rightarrow> date \<Rightarrow> hr result" where
  "cancel_leave_request s i reason today =
     (case live lr_is_deleted (leave_requests s) i of
        None \<Rightarrow> Inl (ApnaError ''LEAVE_REQUEST_NOT_FOUND'')
      | Some r \<Rightarrow>
        if lr_status r = LRejected \<or> lr_status r = LCancelled \<or> lr_status r = LCompleted
          then Inl (ApnaError ''INVALID_WORKFLOW_TRANSITION'')
        else if lr_status r = LApproved \<and> lr_start r \<le> today then Inl (ApnaError ''CANNOT_CANCEL_STARTED_LEAVE'')
        else let s1 = (if lr_status r = LApproved
                       then change_balance (request_balance s r) (credit (lr_total_days r)) s else s)
             in Inr (hr_emit [Audit ''LEAVE_REQUEST_CANCEL'' ''LeaveRequest'' i, Notify ''CANCELLED'' i]
                  (s1\<lparr>leave_requests := modify i (cancel_request reason) (leave_requests s1)\<rparr>)))"

section \<open>The loop counts the working days\<close>

lemma count_days_step:
  assumes "valid_date cur" "cur \<le> fin" "next_day cur = Some d" "valid_date fin"
  shows "{x. valid_date x \<and> cur \<le> x \<and> x \<le> fin} = insert cur {x. valid_date x \<and> d \<le> x \<and> x \<le> fin}"
  using assms next_day_adjacent [OF assms(1,3)] next_day_less [OF assms(3)]
  by (auto simp: order.order_iff_strict)

lemma finite_date_range: "finite {x. valid_date x \<and> a \<le> x \<and> x \<le> (b::date)}"
proof (rule finite_subset)
  show "{x. valid_date x \<and> a \<le> x \<and> x \<le> b} \<subseteq> (\<lambda>(y, m, d). Date y m d) ` ({year a..year b} \<times> {1..12} \<times> {1..31})"
  proof
    fix x
    assume x: "x \<in> {x. valid_date x \<and> a \<le> x \<and> x \<le> b}"
    then have "(year x, month x, day x) \<in> {year a..year b} \<times> {1..12} \<times> {1..31}"
      using days_in_month_bounds(2) [of "year x" "month x"] by (auto simp: valid_date_def date_order_simps)
    moreover have "x = (\<lambda>(y, m, d). Date y m d) (year x, month x, day x)" by simp
    ultimately show "x \<in> (\<lambda>(y, m, d). Date y m d) ` ({year a..year b} \<times> {1..12} \<times> {1..31})" by (rule rev_image_eqI)
  qed
qed simp

lemma count_days_card:
  assumes "valid_date cur" and "valid_date fin" and "fin < last_day"
  shows "count_days hs fin cur n =
    Inr (n + card {x. valid_date x \<and> cur \<le> x \<and> x \<le> fin \<and> is_working_day hs x})"
  using assms
proof (induction hs fin cur n rule: count_days.induct)
  case (1 hs fin cur n)
  show ?case
  proof (cases "cur \<le> fin")
    case False
    then have none: "{x. valid_date x \<and> cur \<le> x \<and> x \<le> fin \<and> is_working_day hs x} = {}" by auto
    show ?thesis unfolding none using False by (simp add: count_days.simps)
  next
    case True
    from True "1.prems"(3) have "cur < last_day" by (rule le_less_trans)
    then have "year cur \<le> 9999" "cur \<noteq> Date 9999 12 31"
      unfolding last_day_def by (auto simp only: less_date_def date.sel order.order_iff_strict)
    with "1.prems"(1) obtain d where d: "next_day cur = Some d" by (cases "next_day cur") (auto simp: next_day_last)
    let ?W = "\<lambda>c. {x. valid_date x \<and> c \<le> x \<and> x \<le> fin \<and> is_working_day hs x}"
    have split: "?W cur = (if is_working_day hs cur then insert cur (?W d) else ?W d)"
      using count_days_step [OF "1.prems"(1) True d "1.prems"(2)] by (auto simp: set_eq_iff)
    have fin: "finite (?W d)" by (rule finite_subset [OF _ finite_date_range [of d fin]]) auto
    have new: "cur \<notin> ?W d" using next_day_less [OF d] by auto
    have card: "card (?W cur) = card (?W d) + (if is_working_day hs cur then 1 else 0)"
      unfolding split using card_insert_disjoint [OF fin new] by (simp only: if_True if_False split: if_split) simp
    from "1.IH" [OF True refl d next_day_valid [OF "1.prems"(1) d] "1.prems"(2,3)] card True d
    show ?thesis by (simp add: count_days.simps [of hs fin cur n])
  qed
qed

end
