(* ===== verification/HrSystem.thy ===== *)
theory HrSystem
  imports AttendanceService LeaveRequests
begin

text \<open>
  The time and leave services as one state machine: \<open>hr_step\<close> lists their calls, with request bodies that
  pass their checks, and the changes other services make to employees, shifts, the HR configuration,
  holidays and leave types. The invariant \<open>hr_inv\<close> ties each table to what its service promises.
\<close>

section \<open>Steps\<close>

definition valid_balance_create :: "balance_create \<Rightarrow> bool" where
  "valid_balance_create c =
     (0 \<le> bc_opening c \<and> 0 \<le> bc_allocated c \<and> 0 \<le> bc_earned c \<and> 0 \<le> bc_availed c \<and> 0 \<le> bc_encashed c \<and>
      0 \<le> bc_carried_forward c \<and> 2000 \<le> bc_year c \<and> bc_year c \<le> 2100)"

inductive hr_step :: "hr \<Rightarrow> hr \<Rightarrow> bool" where
  assign: "assign_shift s ac user = Inr (i, s') \<Longrightarrow> hr_step s s'"
| reassign: "update_assignment s i au = Inr s' \<Longrightarrow> hr_step s s'"
| end_assign: "end_assignment s i d today = Inr s' \<Longrightarrow> hr_step s s'"
| drop_assign: "delete_assignment s i = Inr s' \<Longrightarrow> hr_step s s'"
| check_in: "process_check_in s ci now = Inr (i, s') \<Longrightarrow> hr_step s s'"
| check_out: "process_check_out s co now = Inr s' \<Longrightarrow> 0 \<le> co_break co \<Longrightarrow> hr_step s s'"
| correct: "correct_attendance s cr user = Inr s' \<Longrightarrow> correction_valid cr \<Longrightarrow> hr_step s s'"
| lock: "lock_attendance s lk = Inr s' \<Longrightarrow> hr_step s s'"
| open_balance: "create_leave_balance s bc user = Inr (i, s') \<Longrightarrow> valid_balance_create bc \<Longrightarrow> hr_step s s'"
| edit_balance: "update_leave_balance s i bu user = Inr s' \<Longrightarrow> hr_step s s'"
| adjust_balance: "adjust_leave_balance s i ty days user = Inr s' \<Longrightarrow> hr_step s s'"
| drop_balance: "delete_leave_balance s i = Inr s' \<Longrightarrow> hr_step s s'"
| restore_balance: "restore_leave_balance s i = Inr s' \<Longrightarrow> hr_step s s'"
| draft: "create_leave_request s lc = Inr (i, s') \<Longrightarrow> leave_create_valid lc \<Longrightarrow> hr_step s s'"
| edit_draft: "update_leave_request s i lu = Inr s' \<Longrightarrow> hr_step s s'"
| submit: "submit_leave_request s i now = Inr s' \<Longrightarrow> hr_step s s'"
| approve_leave: "approve_leave_request s i user comments now = Inr s' \<Longrightarrow> hr_step s s'"
| reject_leave: "reject_leave_request s i user comments now = Inr s' \<Longrightarrow> hr_step s s'"
| cancel_leave: "cancel_leave_request s i reason today = Inr s' \<Longrightarrow> hr_step s s'"
| masters: "hr_step s (s\<lparr>employees := es, shifts := shs, hr_config := cfg, holidays := hs, leave_types := lts\<rparr>)"

definition hr_init :: "hr \<Rightarrow> bool" where
  "hr_init s = (assignments s = [] \<and> attendances s = [] \<and> leave_balances s = [] \<and> leave_requests s = [])"

inductive hr_reachable :: "hr \<Rightarrow> bool" where
  init: "hr_init s \<Longrightarrow> hr_reachable s"
| step: "hr_reachable s \<Longrightarrow> hr_step s s' \<Longrightarrow> hr_reachable s'"

section \<open>Which tables a call touches\<close>

lemmas assignment_handlers = assign_shift_def update_assignment_def end_assignment_def delete_assignment_def
lemmas attendance_handlers = process_check_in_def process_check_out_def correct_attendance_def lock_attendance_def
lemmas balance_handlers = create_leave_balance_def update_leave_balance_def adjust_leave_balance_def
  delete_leave_balance_def restore_leave_balance_def
lemmas leave_handlers = create_leave_request_def update_leave_request_def submit_leave_request_def
  approve_leave_request_def reject_leave_request_def cancel_leave_request_def

lemmas hr_splits = option.splits if_splits sum.splits prod.splits

lemma change_leave_balance_frame [simp]:
  "leave_requests (change_balance bal f s) = leave_requests s" "attendances (change_balance bal f s) = attendances s"
  "assignments (change_balance bal f s) = assignments s" "hr_next (change_balance bal f s) = hr_next s"
  by (simp_all add: change_balance_def split: option.splits)

text \<open>Keys: a table grows by the next key only.\<close>

definition keys_step :: "uuid \<Rightarrow> uuid \<Rightarrow> 'r table \<Rightarrow> 'r table \<Rightarrow> bool" where
  "keys_step n n' t t' = (n \<le> n' \<and> (keys t' = keys t \<or> keys t' = keys t @ [n] \<and> n < n'))"

lemma keys_step_wf: "wf_table n t \<Longrightarrow> keys_step n n' t t' \<Longrightarrow> wf_table n' t'"
  by (fastforce simp: keys_step_def wf_table_def list_all_iff)

lemma keys_step_simps [simp]:
  "keys_step n n t (modify i f t)" "keys_step n n t t" "keys_step n (Suc n) t (add_row n r t)" "keys_step n (Suc n) t t"
  by (simp_all add: keys_step_def table_simps)

lemma keys_step_change [simp]:
  "keys_step n n (leave_balances s) (leave_balances (change_balance bal f s))"
  by (auto simp: change_balance_def split: option.splits)

lemma keys_step_lock [simp]: "keys_step n n (attendances s) (attendances (fold lock_row is s))"
  by (simp add: keys_step_def)

definition hr_keys_step :: "hr \<Rightarrow> hr \<Rightarrow> bool" where
  "hr_keys_step s s' =
     (keys_step (hr_next s) (hr_next s') (assignments s) (assignments s') \<and>
      keys_step (hr_next s) (hr_next s') (attendances s) (attendances s') \<and>
      keys_step (hr_next s) (hr_next s') (leave_balances s) (leave_balances s') \<and>
      keys_step (hr_next s) (hr_next s') (leave_requests s) (leave_requests s'))"

lemma hr_step_keys:
  assumes "hr_step s s'"
  shows "hr_keys_step s s'"
  using assms
  by cases (auto simp: hr_keys_step_def assignment_handlers attendance_handlers balance_handlers leave_handlers Let_def
      split: hr_splits)

definition wf_hr :: "hr \<Rightarrow> bool" where
  "wf_hr s =
     (wf_table (hr_next s) (assignments s) \<and> wf_table (hr_next s) (attendances s) \<and>
      wf_table (hr_next s) (leave_balances s) \<and> wf_table (hr_next s) (leave_requests s))"

lemma hr_step_wf: "wf_hr s \<Longrightarrow> hr_step s s' \<Longrightarrow> wf_hr s'"
  using hr_step_keys by (auto simp: wf_hr_def hr_keys_step_def intro: keys_step_wf)

lemma hr_init_wf: "hr_init s \<Longrightarrow> wf_hr s"
  by (simp add: hr_init_def wf_hr_def)

lemma hr_reachable_wf: "hr_reachable s \<Longrightarrow> wf_hr s"
  by (induction rule: hr_reachable.induct) (blast intro: hr_init_wf hr_step_wf)+

lemma wf_hr_fresh:
  assumes "wf_hr s"
  shows "get (assignments s) (hr_next s) = None" "get (attendances s) (hr_next s) = None"
    "get (leave_balances s) (hr_next s) = None" "get (leave_requests s) (hr_next s) = None"
    "distinct (keys (assignments s))" "distinct (keys (attendances s))"
    "distinct (keys (leave_balances s))" "distinct (keys (leave_requests s))"
  using assms by (auto simp: wf_hr_def wf_table_def intro: wf_table_fresh_get)

section \<open>Balances\<close>

text \<open>A call keeps the key of every balance and leaves it derived; a new one has a key of its own.\<close>

definition balance_row_step :: "leave_balance table \<Rightarrow> uuid \<Rightarrow> leave_balance \<Rightarrow> bool" where
  "balance_row_step t j b' =
     ((\<exists>b. get t j = Some b \<and> balance_key b' = balance_key b \<and> (derived b \<longrightarrow> derived b')) \<or>
      get t j = None \<and> derived b' \<and> (\<forall>k b. get t k = Some b \<longrightarrow> balance_key b \<noteq> balance_key b'))"

definition balances_step :: "leave_balance table \<Rightarrow> leave_balance table \<Rightarrow> bool" where
  "balances_step t t' = (\<forall>j b'. get t' j = Some b' \<longrightarrow> balance_row_step t j b')"

lemma balances_step_refl [simp]: "balances_step t t"
  by (simp add: balances_step_def balance_row_step_def)

lemma balances_step_modify:
  assumes "\<forall>b. get t i = Some b \<longrightarrow> balance_key (f b) = balance_key b \<and> derived (f b)"
  shows "balances_step t (modify i f t)"
  using assms by (auto simp: balances_step_def balance_row_step_def get_modify_eq)

lemma balances_step_flag: "balances_step t (modify i (\<lambda>b. b\<lparr>lb_is_deleted := d\<rparr>) t)"
  by (auto simp: balances_step_def balance_row_step_def get_modify_eq)

lemma balances_step_add:
  assumes "get t i = None" and "derived b" and "\<forall>k r. get t k = Some r \<longrightarrow> balance_key r \<noteq> balance_key b"
  shows "balances_step t (add_row i b t)"
  using assms by (auto simp: balances_step_def balance_row_step_def get_add_row_eq split: option.splits if_splits)

lemma charge_credit_simps [simp]:
  "balance_key (charge d b) = balance_key b" "balance_key (credit d b) = balance_key b"
  "derived (charge d b)" "derived (credit d b)"
  by (simp_all add: charge_def credit_def)

lemma balances_step_change:
  "(\<And>b. balance_key (f b) = balance_key b \<and> derived (f b)) \<Longrightarrow>
    balances_step (leave_balances s) (leave_balances (change_balance bal f s))"
  by (auto simp: change_balance_def intro: balances_step_modify split: option.splits)

lemma no_balance_key:
  assumes "balance_of s e lt y True = None" and "get (leave_balances s) k = Some b"
  shows "balance_key b \<noteq> (e, lt, y)"
  using assms(1) get_in_set [OF assms(2)] by (auto simp: balance_of_def first_where_None balance_key_def)

lemma create_balance_step:
  assumes "wf_hr s" and "create_leave_balance s c user = Inr (i, s')"
  shows "balances_step (leave_balances s) (leave_balances s')"
proof -
  from assms(2) have s': "leave_balances s' = add_row (hr_next s) (new_balance c user) (leave_balances s)"
    and "\<not> balance_of s (bc_employee_id c) (bc_leave_type_id c) (bc_year c) True \<noteq> None"
    by (auto simp: create_leave_balance_def Let_def simp del: not_None_eq split: hr_splits)
  then have none: "balance_of s (bc_employee_id c) (bc_leave_type_id c) (bc_year c) True = None" by blast
  show ?thesis
    unfolding s' using wf_hr_fresh(3) [OF assms(1)] no_balance_key [OF none]
    by (intro balances_step_add derived_simps(1)) (auto simp: new_balance_def balance_key_def)
qed

lemma hr_step_balances:
  assumes "wf_hr s" and "hr_step s s'"
  shows "balances_step (leave_balances s) (leave_balances s')"
  using assms(2)
proof cases
  case (open_balance bc user i)
  then show ?thesis by (intro create_balance_step [OF assms(1)])
qed (auto simp: assignment_handlers attendance_handlers update_leave_balance_def adjust_leave_balance_def
    delete_leave_balance_def restore_leave_balance_def leave_handlers Let_def live_Some
    intro!: balances_step_modify balances_step_flag balances_step_change split: hr_splits)

definition balances_ok :: "leave_balance table \<Rightarrow> bool" where
  "balances_ok t =
     ((\<forall>i b. get t i = Some b \<longrightarrow> derived b) \<and>
      (\<forall>i j a b. get t i = Some a \<longrightarrow> get t j = Some b \<longrightarrow> balance_key a = balance_key b \<longrightarrow> i = j))"

lemma balances_step_ok:
  assumes "balances_step t t'" and "balances_ok t"
    and "\<And>i. get t i = None \<Longrightarrow> get t' i \<noteq> None \<Longrightarrow> i = n"
  shows "balances_ok t'"
  using assms unfolding balances_ok_def balances_step_def balance_row_step_def
  by (smt (verit) option.distinct(1))

lemma keys_step_new: "keys_step n n' t t' \<Longrightarrow> get t i = None \<Longrightarrow> get t' i \<noteq> None \<Longrightarrow> i = n"
  unfolding keys_step_def get_None_iff by auto

section \<open>Leave requests\<close>

text \<open>Pending and approved requests of one employee must not share a day.\<close>

definition leave_active :: "leave_request \<Rightarrow> bool" where
  "leave_active r = ((lr_status r = LPending \<or> lr_status r = LApproved) \<and> \<not> lr_is_deleted r)"

definition leaves_clash :: "leave_request \<Rightarrow> leave_request \<Rightarrow> bool" where
  "leaves_clash q r =
     (leave_active q \<and> leave_active r \<and> lr_employee_id q = lr_employee_id r \<and>
      lr_start q \<le> lr_end r \<and> lr_start r \<le> lr_end q)"

lemma leaves_clash_sym: "leaves_clash q r = leaves_clash r q"
  by (auto simp: leaves_clash_def)

text \<open>A call leaves every row inactive, or as it was as far as clashes go, or free of clashes.\<close>

definition less_active :: "leave_request \<Rightarrow> leave_request \<Rightarrow> bool" where
  "less_active r r' =
     (leave_active r' \<longrightarrow> leave_active r \<and> lr_employee_id r' = lr_employee_id r \<and>
        lr_start r' = lr_start r \<and> lr_end r' = lr_end r)"

lemma less_active_refl [simp]: "less_active r r"
  by (simp add: less_active_def)

lemma less_active_inactive: "\<not> leave_active r' \<Longrightarrow> less_active r r'"
  by (simp add: less_active_def)

definition no_clash_with :: "leave_request table \<Rightarrow> uuid \<Rightarrow> leave_request \<Rightarrow> bool" where
  "no_clash_with t i r = (\<forall>k q. get t k = Some q \<longrightarrow> k \<noteq> i \<longrightarrow> \<not> leaves_clash r q)"

definition leaves_step :: "leave_request table \<Rightarrow> leave_request table \<Rightarrow> bool" where
  "leaves_step t t' =
     (\<exists>i. (\<forall>j. j \<noteq> i \<longrightarrow> get t' j = get t j) \<and>
          (\<forall>r'. get t' i = Some r' \<longrightarrow>
             (\<exists>r. get t i = Some r \<and> less_active r r') \<or> \<not> leave_active r' \<or> no_clash_with t i r'))"

lemma leaves_step_refl [simp]: "leaves_step t t"
  unfolding leaves_step_def by (rule exI [of _ 0]) auto

lemma leaves_step_modify:
  assumes "\<forall>r. get t i = Some r \<longrightarrow> less_active r (f r) \<or> no_clash_with t i (f r)"
  shows "leaves_step t (modify i f t)"
  unfolding leaves_step_def by (rule exI [of _ i]) (use assms in \<open>auto simp: get_modify_eq\<close>)

lemma leaves_step_add:
  assumes "\<not> leave_active r" and "get t i = None"
  shows "leaves_step t (add_row i r t)"
  unfolding leaves_step_def by (rule exI [of _ i]) (use assms in \<open>auto simp: get_add_row_eq split: option.splits\<close>)

definition leaves_disjoint :: "leave_request table \<Rightarrow> bool" where
  "leaves_disjoint t = (\<forall>i j q r. get t i = Some q \<longrightarrow> get t j = Some r \<longrightarrow> i \<noteq> j \<longrightarrow> \<not> leaves_clash q r)"

lemma less_active_clash: "less_active r r' \<Longrightarrow> leaves_clash r' q \<Longrightarrow> leaves_clash r q"
  by (auto simp: less_active_def leaves_clash_def)

lemma leaves_step_disjoint:
  assumes st: "leaves_step t t'" and dis: "leaves_disjoint t"
  shows "leaves_disjoint t'"
proof -
  from st obtain i where other: "\<And>j. j \<noteq> i \<Longrightarrow> get t' j = get t j"
    and row: "\<And>r'. get t' i = Some r' \<Longrightarrow>
       (\<exists>r. get t i = Some r \<and> less_active r r') \<or> \<not> leave_active r' \<or> no_clash_with t i r'"
    unfolding leaves_step_def by blast
  have one: "\<not> leaves_clash r' q" if r': "get t' i = Some r'" and q: "get t k = Some q" "k \<noteq> i" for r' k q
  proof (rule disjE [OF row [OF r']])
    assume "\<exists>r. get t i = Some r \<and> less_active r r'"
    then obtain r where "get t i = Some r" "less_active r r'" by blast
    with dis q less_active_clash show ?thesis unfolding leaves_disjoint_def by metis
  next
    assume "\<not> leave_active r' \<or> no_clash_with t i r'"
    with q show ?thesis by (auto simp: no_clash_with_def leaves_clash_def)
  qed
  show ?thesis
    unfolding leaves_disjoint_def
  proof (intro allI impI)
    fix j k q r
    assume jk: "get t' j = Some q" "get t' k = Some r" "j \<noteq> k"
    consider "j = i" | "k = i" | "j \<noteq> i" "k \<noteq> i" by blast
    then show "\<not> leaves_clash q r"
    proof cases
      case 1
      with one [of q k r] jk other [of k] show ?thesis by simp
    next
      case 2
      with one [of r j q] jk other [of j] show ?thesis by (simp add: leaves_clash_sym)
    next
      case 3
      with dis jk other show ?thesis unfolding leaves_disjoint_def by metis
    qed
  qed
qed

lemma validate_policiesD:
  assumes "validate_leave_policies s e em lti lt a b days half ex = Inr u"
  shows "a \<le> b" "0 < days" "get_overlapping_requests s e a b ex = []"
    "\<exists>t. lt = Some t \<and> \<not> insufficient (balance_of s e lti (year a) False) t days"
  using assms by (auto simp: validate_leave_policies_def split: if_splits option.splits)

lemma no_overlapping:
  assumes "get_overlapping_requests s e a b (Some i) = []" and "lr_employee_id r = e" "lr_start r = a" "lr_end r = b"
  shows "no_clash_with (leave_requests s) i r"
  using assms
  by (fastforce simp: get_overlapping_requests_def no_clash_with_def leaves_clash_def leave_active_def filter_empty_conv
      dest!: get_in_set)

lemma submit_step:
  assumes "submit_leave_request s i now = Inr s'"
  shows "leaves_step (leave_requests s) (leave_requests s')"
proof -
  from assms obtain r where r: "live lr_is_deleted (leave_requests s) i = Some r"
    and ok: "validate_leave_policies s (lr_employee_id r) (employee_of s (lr_employee_id r)) (lr_leave_type_id r)
       (leave_type_of s (lr_leave_type_id r)) (lr_start r) (lr_end r) (lr_total_days r) (lr_is_half_day r) (Some i) = Inr ()"
    and s': "leave_requests s' = modify i (\<lambda>r. r\<lparr>lr_status := LPending, lr_submitted_at := Some now\<rparr>) (leave_requests s)"
    by (auto simp: submit_leave_request_def split: hr_splits)
  show ?thesis
    unfolding s' using r no_overlapping [OF validate_policiesD(3) [OF ok]]
    by (intro leaves_step_modify) (simp add: live_Some)
qed

lemma hr_step_leaves:
  assumes "wf_hr s" and "hr_step s s'"
  shows "leaves_step (leave_requests s) (leave_requests s')"
  using assms(2)
proof cases
  case (submit i now)
  then show ?thesis by (rule submit_step)
next
  case (draft lc i)
  then show ?thesis using wf_hr_fresh(4) [OF assms(1)]
    by (auto simp: create_leave_request_def draft_request_def leave_active_def Let_def intro!: leaves_step_add split: hr_splits)
qed (auto simp: assignment_handlers attendance_handlers balance_handlers update_leave_request_def
    approve_leave_request_def reject_leave_request_def cancel_leave_request_def Let_def live_Some
    less_active_def leave_active_def apply_leave_update_def review_def cancel_request_def
    intro!: leaves_step_modify split: hr_splits)

section \<open>The invariant\<close>

definition hr_inv :: "hr \<Rightarrow> bool" where
  "hr_inv s = (wf_hr s \<and> balances_ok (leave_balances s) \<and> leaves_disjoint (leave_requests s))"

lemma hr_step_inv:
  assumes "hr_inv s" and "hr_step s s'"
  shows "hr_inv s'"
proof -
  have wf: "wf_hr s" using assms(1) by (simp add: hr_inv_def)
  have "keys_step (hr_next s) (hr_next s') (leave_balances s) (leave_balances s')"
    using hr_step_keys [OF assms(2)] by (simp add: hr_keys_step_def)
  then have "balances_ok (leave_balances s')"
    using assms(1) by (intro balances_step_ok [OF hr_step_balances [OF wf assms(2)]] keys_step_new) (simp_all add: hr_inv_def)
  with hr_step_wf [OF wf assms(2)] leaves_step_disjoint [OF hr_step_leaves [OF wf assms(2)]] assms(1)
  show ?thesis by (simp add: hr_inv_def)
qed

lemma hr_init_inv: "hr_init s \<Longrightarrow> hr_inv s"
  by (simp add: hr_inv_def hr_init_wf) (simp add: hr_init_def balances_ok_def leaves_disjoint_def get_def)

lemma hr_reachable_inv: "hr_reachable s \<Longrightarrow> hr_inv s"
  by (induction rule: hr_reachable.induct) (blast intro: hr_init_inv hr_step_inv)+

section \<open>Locked attendance\<close>

lemma hr_step_locked:
  assumes "wf_hr s" and "hr_step s s'" and "get (attendances s) i = Some a" and "at_is_locked a"
  shows "get (attendances s') i = Some a"
  using assms(2)
proof cases
  case (check_in ci now j)
  then show ?thesis using assms(3,4) attendance_onD(1) [OF _ wf_hr_fresh(6) [OF assms(1)]]
    by (fastforce simp: process_check_in_def Let_def get_modify_eq get_add_row_eq split: hr_splits)
next
  case (check_out co now)
  then show ?thesis using assms(3,4) open_attendanceD(1) [OF _ wf_hr_fresh(6) [OF assms(1)]]
    by (fastforce simp: process_check_out_def Let_def get_modify_eq split: hr_splits)
next
  case (correct cr user)
  then show ?thesis using assms(3,4)
    by (auto simp: correct_attendance_def Let_def get_modify_eq live_Some split: hr_splits)
next
  case (lock lk)
  then show ?thesis using assms(3,4)
    by (auto simp: lock_attendance_def get_lock_rows split: hr_splits)
qed (use assms(3) in \<open>auto simp: assignment_handlers balance_handlers leave_handlers Let_def split: hr_splits\<close>)

end
