(* ===== verification/HrLifeCycle.thy ===== *)
theory HrLifeCycle
  imports HrSystem
begin

text \<open>
  Row by row through the calls of \<open>hr_step\<close>: the life of a leave request from draft to its decision, and
  the shape of an attendance row, which the engine fills in from the two punches.
\<close>

section \<open>Tables a call leaves alone\<close>

lemma assignment_calls_frame:
  "assign_shift s ac user = Inr (i, s') \<Longrightarrow> leave_requests s' = leave_requests s \<and> attendances s' = attendances s"
  "update_assignment s i au = Inr s' \<Longrightarrow> leave_requests s' = leave_requests s \<and> attendances s' = attendances s"
  "end_assignment s i d today = Inr s' \<Longrightarrow> leave_requests s' = leave_requests s \<and> attendances s' = attendances s"
  "delete_assignment s i = Inr s' \<Longrightarrow> leave_requests s' = leave_requests s \<and> attendances s' = attendances s"
  by (auto simp: assignment_handlers Let_def split: hr_splits)

lemma balance_calls_frame:
  "create_leave_balance s bc user = Inr (i, s') \<Longrightarrow> leave_requests s' = leave_requests s \<and> attendances s' = attendances s"
  "update_leave_balance s i bu user = Inr s' \<Longrightarrow> leave_requests s' = leave_requests s \<and> attendances s' = attendances s"
  "adjust_leave_balance s i ty days user = Inr s' \<Longrightarrow> leave_requests s' = leave_requests s \<and> attendances s' = attendances s"
  "delete_leave_balance s i = Inr s' \<Longrightarrow> leave_requests s' = leave_requests s \<and> attendances s' = attendances s"
  "restore_leave_balance s i = Inr s' \<Longrightarrow> leave_requests s' = leave_requests s \<and> attendances s' = attendances s"
  by (auto simp: balance_handlers Let_def split: hr_splits)

lemma attendance_calls_frame:
  "process_check_in s ci now = Inr (i, s') \<Longrightarrow> leave_requests s' = leave_requests s"
  "process_check_out s co now = Inr s' \<Longrightarrow> leave_requests s' = leave_requests s"
  "correct_attendance s cr user = Inr s' \<Longrightarrow> leave_requests s' = leave_requests s"
  "lock_attendance s lk = Inr s' \<Longrightarrow> leave_requests s' = leave_requests s"
  by (auto simp: attendance_handlers Let_def split: hr_splits)

lemma leave_calls_frame:
  "create_leave_request s lc = Inr (i, s') \<Longrightarrow> attendances s' = attendances s"
  "update_leave_request s i lu = Inr s' \<Longrightarrow> attendances s' = attendances s"
  "submit_leave_request s i now = Inr s' \<Longrightarrow> attendances s' = attendances s"
  "approve_leave_request s i user comments now = Inr s' \<Longrightarrow> attendances s' = attendances s"
  "reject_leave_request s i user comments now = Inr s' \<Longrightarrow> attendances s' = attendances s"
  "cancel_leave_request s i reason today = Inr s' \<Longrightarrow> attendances s' = attendances s"
  by (auto simp: leave_handlers Let_def split: hr_splits)

lemmas calls_frame = assignment_calls_frame balance_calls_frame attendance_calls_frame leave_calls_frame

section \<open>Leave requests\<close>

definition next_statuses :: "leave_status \<Rightarrow> leave_status set" where
  "next_statuses st =
     (case st of LDraft \<Rightarrow> {LDraft, LPending, LCancelled} | LPending \<Rightarrow> {LApproved, LRejected, LCancelled}
      | LApproved \<Rightarrow> {LCancelled} | _ \<Rightarrow> {})"

definition same_claim :: "leave_request \<Rightarrow> leave_request \<Rightarrow> bool" where
  "same_claim r r' =
     (lr_start r' = lr_start r \<and> lr_end r' = lr_end r \<and> lr_total_days r' = lr_total_days r \<and>
      lr_is_half_day r' = lr_is_half_day r \<and> lr_reason r' = lr_reason r)"

definition leave_flow :: "leave_request \<Rightarrow> leave_request \<Rightarrow> bool" where
  "leave_flow r r' =
     (r' = r \<or>
      lr_status r' \<in> next_statuses (lr_status r) \<and> lr_employee_id r' = lr_employee_id r \<and>
      lr_leave_type_id r' = lr_leave_type_id r \<and> (lr_status r' = LDraft \<or> same_claim r r'))"

lemma leave_flow_refl [simp]: "leave_flow r r"
  by (simp add: leave_flow_def)

lemma leave_flowD:
  assumes "leave_flow r r'"
  shows "lr_employee_id r' = lr_employee_id r" "lr_leave_type_id r' = lr_leave_type_id r"
    "lr_status r \<noteq> LDraft \<Longrightarrow> lr_status r' \<noteq> LDraft" "lr_status r \<noteq> LDraft \<Longrightarrow> same_claim r r'"
    "lr_status r = LRejected \<or> lr_status r = LCancelled \<Longrightarrow> r' = r"
    "lr_status r = LApproved \<Longrightarrow> r' = r \<or> lr_status r' = LCancelled"
  using assms by (cases "lr_status r"; auto simp: leave_flow_def next_statuses_def same_claim_def)+

lemmas leave_flow_defs = leave_flow_def same_claim_def next_statuses_def apply_leave_update_def review_def cancel_request_def

lemma cancel_leaveD:
  assumes "cancel_leave_request s i reason today = Inr s'"
  shows "\<exists>r. get (leave_requests s) i = Some r \<and> lr_status r \<notin> {LRejected, LCancelled, LCompleted} \<and>
    leave_requests s' = modify i (cancel_request reason) (leave_requests s)"
proof -
  from assms obtain r where r: "live lr_is_deleted (leave_requests s) i = Some r"
    by (auto simp: cancel_leave_request_def split: option.splits)
  with assms show ?thesis
    by (intro exI [of _ r]) (auto simp: cancel_leave_request_def live_Some Let_def split: if_splits)
qed

lemma hr_step_flow:
  assumes "wf_hr s" and "hr_step s s'" and "get (leave_requests s) i = Some r"
  shows "\<exists>r'. get (leave_requests s') i = Some r' \<and> leave_flow r r'"
  using assms(2)
proof cases
  case (draft lc j)
  then show ?thesis using assms(3) wf_hr_fresh(4) [OF assms(1)]
    by (auto simp: create_leave_request_def Let_def get_add_row_eq split: hr_splits)
next
  case (edit_draft j lu)
  then show ?thesis using assms(3)
    by (auto simp: update_leave_request_def Let_def get_modify_eq live_Some leave_flow_defs split: hr_splits)
next
  case (submit j now)
  then show ?thesis using assms(3)
    by (auto simp: submit_leave_request_def get_modify_eq live_Some leave_flow_defs split: hr_splits)
next
  case (approve_leave j user comments now)
  then show ?thesis using assms(3)
    by (auto simp: approve_leave_request_def Let_def get_modify_eq live_Some leave_flow_defs split: hr_splits)
next
  case (reject_leave j user comments now)
  then show ?thesis using assms(3)
    by (auto simp: reject_leave_request_def get_modify_eq live_Some leave_flow_defs split: hr_splits)
next
  case (cancel_leave j reason today)
  from cancel_leaveD [OF this] obtain q where q: "get (leave_requests s) j = Some q"
    and st: "lr_status q \<notin> {LRejected, LCancelled, LCompleted}"
    and s': "leave_requests s' = modify j (cancel_request reason) (leave_requests s)" by blast
  from st have "LCancelled \<in> next_statuses (lr_status q)"
    by (cases "lr_status q") (simp_all add: next_statuses_def)
  then have "leave_flow q (cancel_request reason q)"
    by (simp add: leave_flow_def same_claim_def cancel_request_def)
  with q s' assms(3) show ?thesis by (auto simp: get_modify_eq)
qed (use assms(3) in \<open>auto dest!: calls_frame\<close>)

section \<open>Attendance rows\<close>

definition attendance_typed :: "attendance \<Rightarrow> bool" where
  "attendance_typed a =
     (at_check_in a \<noteq> None \<and> 0 \<le> at_worked a \<and> 0 \<le> at_early a \<and>
      (at_check_out a = None \<longrightarrow> at_worked a = 0 \<and> at_early a = 0) \<and>
      (\<not> at_manual a \<longrightarrow>
        (if at_check_out a = None then at_status a = MissingCheckOut
         else at_status a = Present \<or> at_status a = HalfDay \<or> at_status a = Late \<and> 0 < at_late a)))"

lemma run_engine_simps [simp]:
  "0 \<le> r_worked (run_engine s sh a)" "0 \<le> r_early (run_engine s sh a)"
  "at_check_out a = None \<Longrightarrow> r_worked (run_engine s sh a) = 0"
  "at_check_out a = None \<Longrightarrow> r_early (run_engine s sh a) = 0"
  by (simp_all add: run_engine_def calculate_attendance_def Let_def worked_bounds early_nonneg)
    (simp_all add: worked_def early_def split: option.splits)

lemma run_engine_status:
  assumes "at_check_in a = Some t"
  shows "r_status (run_engine s sh a) =
    (if at_check_out a = None then MissingCheckOut
     else if r_worked (run_engine s sh a) < trunc (fl (min_hours sh (hr_config s) * 60)) then HalfDay
     else if 0 < r_late (run_engine s sh a) then Late else Present)"
  using assms by (cases "at_check_out a") (simp_all add: run_engine_def calculate_attendance_def decide_status_def Let_def)

lemma evaluate_typed: "at_check_in a \<noteq> None \<Longrightarrow> attendance_typed (evaluate s sh a)"
  by (auto simp: attendance_typed_def run_engine_status simp flip: not_None_eq split: if_splits)

lemma corrected_typed: "at_check_in a \<noteq> None \<Longrightarrow> attendance_typed (corrected s cr user a)"
  by (auto simp: attendance_typed_def corrected_def set_minutes_def Let_def split: option.splits)

definition attendances_typed :: "hr \<Rightarrow> bool" where
  "attendances_typed s = (\<forall>i a. get (attendances s) i = Some a \<longrightarrow> attendance_typed a)"

lemma locked_typed [simp]: "attendance_typed (a\<lparr>at_is_locked := b\<rparr>) = attendance_typed a"
  by (simp add: attendance_typed_def)

lemma typed_check_in: "attendance_typed a \<Longrightarrow> at_check_in a \<noteq> None"
  by (simp add: attendance_typed_def)

lemma check_outD:
  assumes "process_check_out s co now = Inr s'"
  shows "\<exists>d a a'. open_attendance s (co_employee_id co) d = Some a \<and> at_check_in a' = at_check_in (snd a) \<and>
    attendances s' = modify (fst a) (\<lambda>_. evaluate s (stored_shift s (snd a)) a') (attendances s)"
proof -
  from assms obtain i a where a: "open_attendance s (co_employee_id co)
      (dt_date (case co_time co of Some x \<Rightarrow> x | None \<Rightarrow> now)) = Some (i, a)"
    by (auto simp: process_check_out_def Let_def split: option.splits)
  with assms show ?thesis
    by (intro exI [of _ "dt_date (case co_time co of Some x \<Rightarrow> x | None \<Rightarrow> now)"] exI [of _ "(i, a)"]
        exI [of _ "a\<lparr>at_check_out := Some (case co_time co of Some x \<Rightarrow> x | None \<Rightarrow> now), at_break := co_break co\<rparr>"])
      (auto simp: process_check_out_def Let_def split: option.splits if_splits)
qed

lemma hr_step_typed:
  assumes "wf_hr s" and "hr_step s s'" and ty: "attendances_typed s"
  shows "attendances_typed s'"
  using assms(2)
proof cases
  case (check_in ci now j)
  then show ?thesis using ty wf_hr_fresh(2) [OF assms(1)]
    by (auto simp: process_check_in_def Let_def attendances_typed_def get_modify_eq get_add_row_eq again_checked_in_def
        first_check_in_def intro!: evaluate_typed split: hr_splits)
next
  case (check_out co now)
  from check_outD [OF check_out(1)] obtain k a a' where a: "open_attendance s (co_employee_id co) k = Some a"
    and s': "attendances s' = modify (fst a) (\<lambda>_. evaluate s (stored_shift s (snd a)) a') (attendances s)"
    and a': "at_check_in a' = at_check_in (snd a)" by blast
  have "get (attendances s) (fst a) = Some (snd a)"
    using open_attendanceD(1) [OF _ wf_hr_fresh(6) [OF assms(1)]] a by (cases a) simp
  with ty a' have "at_check_in a' \<noteq> None" by (auto simp: attendances_typed_def dest: typed_check_in)
  with ty s' evaluate_typed show ?thesis by (auto simp: attendances_typed_def get_modify_eq)
next
  case (correct cr user)
  then show ?thesis using ty typed_check_in
    by (fastforce simp: correct_attendance_def Let_def attendances_typed_def get_modify_eq live_Some
        intro!: corrected_typed split: hr_splits)
next
  case (lock lk)
  then show ?thesis using ty
    by (auto simp: lock_attendance_def attendances_typed_def get_lock_rows split: hr_splits)
qed (use ty in \<open>auto simp: attendances_typed_def dest!: calls_frame\<close>)

lemma hr_reachable_typed: "hr_reachable s \<Longrightarrow> attendances_typed s"
proof (induction rule: hr_reachable.induct)
  case (init s)
  then show ?case by (simp add: hr_init_def attendances_typed_def get_def)
next
  case (step s s')
  then show ?case using hr_step_typed [OF hr_reachable_wf] by blast
qed

end
