(* ===== verification/HrProperties.thy ===== *)
theory HrProperties
  imports HrLifeCycle
begin

text \<open>
  What the time and leave services (\<^verbatim>\<open>src/app/services/attendance.py\<close>,
  \<^verbatim>\<open>attendance_engine.py\<close>, \<^verbatim>\<open>shift_assignment.py\<close>, \<^verbatim>\<open>leave_balance.py\<close>, \<^verbatim>\<open>leave_request.py\<close>)
  guarantee over every sequence of calls, what approval and cancellation do to a balance, how working days
  and minutes are counted, and where a range of days escapes its checks.
\<close>

section \<open>A concrete history\<close>

text \<open>Employee 1 works shift 2, from 9:00 to 17:12, and takes leave of type 3 from Monday, 6 January 2025,
  to Friday.\<close>

definition shift2 :: shift where
  "shift2 = \<lparr>sh_start_time = 32400000000, sh_end_time = 61920000000, sh_break_duration = 0, sh_grace_period = 15,
     sh_min_hours = 4, sh_is_active = True, sh_is_deleted = False\<rparr>"

definition hr0 :: hr where
  "hr0 = \<lparr>employees = [(1, \<lparr>em_code = ''E1'', em_gender = None, em_shift_id = Some 2, em_is_active = True,
       em_is_deleted = False\<rparr>)],
     shifts = [(2, shift2)], hr_config = None, holidays = [], assignments = [], attendances = [],
     leave_types = [(3, \<lparr>lt_name = ''Annual'', lt_allow_half_day = True, lt_allow_negative = False,
       lt_carry_forward_allowed = False, lt_max_carry_forward = 0, lt_max_consecutive = Some 30, lt_gender = None,
       lt_is_active = True, lt_is_deleted = False\<rparr>)],
     leave_balances = [], leave_requests = [], hr_next = 100, hr_effects = []\<rparr>"

definition day_of :: "int \<Rightarrow> date" where
  "day_of d = Date 2025 1 d"

definition at_time :: "int \<Rightarrow> int \<Rightarrow> datetime" where
  "at_time d h = DT (day_of d) (h * 3600000000)"

definition bc0 :: balance_create where
  "bc0 = \<lparr>bc_employee_id = 1, bc_leave_type_id = 3, bc_year = 2025, bc_opening = 0, bc_allocated = 12,
     bc_earned = 0, bc_availed = 0, bc_encashed = 0, bc_carried_forward = 0, bc_is_active = True\<rparr>"

definition lc0 :: leave_create where
  "lc0 = \<lparr>lc_employee_id = 1, lc_leave_type_id = 3, lc_start = day_of 6, lc_end = day_of 10, lc_is_half_day = False,
     lc_half_day_session = None, lc_reason = ''trip''\<rparr>"

definition run_on :: "'a result \<Rightarrow> 'a \<Rightarrow> 'a" where
  "run_on r d = (case r of Inr s \<Rightarrow> s | Inl _ \<Rightarrow> d)"

definition hr1 :: hr where "hr1 = snd (run_on (create_leave_balance hr0 bc0 None) (0, hr0))"
definition hr2 :: hr where "hr2 = snd (run_on (create_leave_request hr1 lc0) (0, hr0))"
definition hr3 :: hr where "hr3 = run_on (submit_leave_request hr2 101 1000) hr0"
definition hr4 :: hr where "hr4 = run_on (approve_leave_request hr3 101 (Some 9) None 1001) hr0"
definition hr5 :: hr where "hr5 = run_on (cancel_leave_request hr4 101 None (day_of 1)) hr0"

lemma five_days: "count_days [] (Date 2025 1 10) (Date 2025 1 6) 0 = Inr 5"
  by code_simp

lemma balance_numbers:
  "derive_remaining 0 12 0 0 0 0 = 12" "derive_remaining 0 12 0 0 5 0 = 7"
  "round2 (fl 5) = 5" "round2 (fl 0) = 0"
  by code_simp+

lemmas run_hr =
  run_on_def create_leave_balance_def new_balance_def validate_carry_forward_def validate_negative_balance_def
  create_leave_request_def submit_leave_request_def approve_leave_request_def cancel_leave_request_def
  validate_leave_policies_def get_overlapping_requests_def gender_mismatch_def insufficient_def draft_request_def
  calculate_working_days_def holiday_dates_def approval_guard_def request_balance_def change_balance_def charge_def
  credit_def rederive_def calculate_remaining_days_def review_def cancel_request_def employee_of_def shift_of_def
  leave_type_of_def live_def balance_of_def first_where_def exists_where_def get_def modify_def add_row_def
  hr_emit_def bc0_def lc0_def day_of_def five_days balance_numbers

lemma hr1_run: "create_leave_balance hr0 bc0 None = Inr (100, hr1)"
  by (simp add: hr1_def hr0_def run_hr Let_def)

lemma hr2_run: "create_leave_request hr1 lc0 = Inr (101, hr2)"
  by (simp add: hr2_def hr1_def hr0_def run_hr Let_def date_order_simps)

lemma hr3_run: "submit_leave_request hr2 101 1000 = Inr hr3"
  by (simp add: hr3_def hr2_def hr1_def hr0_def run_hr Let_def date_order_simps)

lemma hr4_run: "approve_leave_request hr3 101 (Some 9) None 1001 = Inr hr4"
  by (simp add: hr4_def hr3_def hr2_def hr1_def hr0_def run_hr Let_def date_order_simps)

lemma hr5_run: "cancel_leave_request hr4 101 None (day_of 1) = Inr hr5"
  by (simp add: hr5_def hr4_def hr3_def hr2_def hr1_def hr0_def run_hr Let_def date_order_simps)

lemma hr0_init: "hr_init hr0"
  by (simp add: hr_init_def hr0_def)

lemma hr_runs_reachable: "hr_reachable hr1" "hr_reachable hr2" "hr_reachable hr3" "hr_reachable hr4"
proof -
  have 0: "hr_reachable hr0" by (rule hr_reachable.init [OF hr0_init])
  show 1: "hr_reachable hr1"
    by (rule hr_reachable.step [OF 0 hr_step.open_balance [OF hr1_run]]) (simp add: valid_balance_create_def bc0_def)
  show 2: "hr_reachable hr2"
    by (rule hr_reachable.step [OF 1 hr_step.draft [OF hr2_run]])
      (simp add: leave_create_valid_def lc0_def day_of_def date_order_simps)
  show 3: "hr_reachable hr3"
    by (rule hr_reachable.step [OF 2 hr_step.submit [OF hr3_run]])
  show "hr_reachable hr4"
    by (rule hr_reachable.step [OF 3 hr_step.approve_leave [OF hr4_run]])
qed

section \<open>Leave balances\<close>

text \<open>C33: In every state the services can reach, the remaining days of a leave balance are what its other
  columns add up to, and there is at most one balance of an employee, a leave type and a year, deleted ones
  included.\<close>
theorem balances_stay_derived:
  assumes "hr_reachable s"
  shows "(\<forall>i b. get (leave_balances s) i = Some b \<longrightarrow> lb_remaining b = calculate_remaining_days b) \<and>
    (\<forall>i j a b. get (leave_balances s) i = Some a \<and> get (leave_balances s) j = Some b \<and>
       lb_employee_id a = lb_employee_id b \<and> lb_leave_type_id a = lb_leave_type_id b \<and> lb_year a = lb_year b \<longrightarrow> i = j)"
  using hr_reachable_inv [OF assms] by (simp add: hr_inv_def balances_ok_def derived_def balance_key_def)

theorem balances_stay_derived_witness:
  "\<exists>b. get (leave_balances hr4) 100 = Some b \<and> lb_remaining b = calculate_remaining_days b \<and> lb_remaining b = 7"
proof -
  have "\<exists>b. get (leave_balances hr4) 100 = Some b \<and> lb_remaining b = 7"
    by (simp add: hr4_def hr3_def hr2_def hr1_def hr0_def run_hr Let_def date_order_simps)
  then show ?thesis using balances_stay_derived [OF hr_runs_reachable(4)] by blast
qed

lemma approve_leaveD:
  assumes "approve_leave_request s i user comments now = Inr s'"
  shows "\<exists>r. get (leave_requests s) i = Some r \<and> lr_status r = LPending \<and> \<not> lr_is_deleted r \<and> approval_guard s r = Inr () \<and>
    leave_balances s' = leave_balances (change_balance (request_balance s r) (charge (lr_total_days r)) s) \<and>
    leave_requests s' = modify i (review LApproved user comments now) (leave_requests s)"
proof -
  from assms obtain r where r: "live lr_is_deleted (leave_requests s) i = Some r"
    by (auto simp: approve_leave_request_def split: option.splits)
  with assms show ?thesis
    by (intro exI [of _ r]) (auto simp: approve_leave_request_def live_Some Let_def split: if_splits sum.splits)
qed

lemma change_balance_Some [simp]:
  "leave_balances (change_balance (Some (k, b)) f s) = modify k f (leave_balances s)"
  by (simp add: change_balance_def)

lemma request_balanceD:
  assumes "wf_hr s" and "request_balance s r = Some (k, b)"
  shows "get (leave_balances s) k = Some b" "balance_key b = (lr_employee_id r, lr_leave_type_id r, year (lr_start r))"
    "\<not> lb_is_deleted b"
  using first_where_Some [OF assms(2) [unfolded request_balance_def balance_of_def]]
    in_set_get [OF wf_hr_fresh(7) [OF assms(1)]] by (auto simp: balance_key_def)

lemma charge_exact:
  assumes "day_amount (lb_opening b) o1" "day_amount (lb_allocated b) a1" "day_amount (lb_earned b) e1"
    "day_amount (lb_carried_forward b) c1" "day_amount (lb_availed b) v1" "day_amount (lb_encashed b) n1"
    "day_amount days d1" "\<bar>v1 + d1\<bar> \<le> 1000000"
  shows "lb_availed (charge days b) = fl (v1 + d1)" "lb_remaining (charge days b) = fl (o1 + a1 + e1 + c1 - v1 - n1 - d1)"
proof -
  show av: "lb_availed (charge days b) = fl (v1 + d1)"
    by (simp add: charge_def rederive_def add_days_exact(1) [OF assms(5,7)])
  have "day_amount (fl (v1 + d1)) (v1 + d1)"
    using assms(5,7,8) by (auto simp: day_amount_def)
  from derive_remaining_exact [OF assms(1-4) this assms(6)] av
  have "lb_remaining (charge days b) = fl (o1 + a1 + e1 + c1 - (v1 + d1) - n1)"
    by (simp add: charge_def rederive_def calculate_remaining_days_def)
  then show "lb_remaining (charge days b) = fl (o1 + a1 + e1 + c1 - v1 - n1 - d1)"
    by (simp add: algebra_simps)
qed

text \<open>Approving a leave request marks it approved and charges its days to the balance of its employee,
  leave type and start year: availed grows by the days, remaining falls by them, exactly as long as all
  amounts are hundredths of a day, and no other balance changes. Without the permission to go negative the
  days were there.\<close>
theorem approval_charges_balance:
  assumes "hr_reachable s" and "approve_leave_request s i user comments now = Inr s'"
    and "get (leave_requests s) i = Some r" and "request_balance s r = Some (k, b)"
    and "day_amount (lb_opening b) o1" "day_amount (lb_allocated b) a1" "day_amount (lb_earned b) e1"
    "day_amount (lb_carried_forward b) c1" "day_amount (lb_availed b) v1" "day_amount (lb_encashed b) n1"
    "day_amount (lr_total_days r) d1" "\<bar>v1 + d1\<bar> \<le> 1000000"
  shows "(\<exists>b'. get (leave_balances s') k = Some b' \<and> lb_availed b' = fl (v1 + d1) \<and>
      lb_remaining b' = fl (o1 + a1 + e1 + c1 - v1 - n1 - d1)) \<and>
    (\<forall>j. j \<noteq> k \<longrightarrow> get (leave_balances s') j = get (leave_balances s) j) \<and>
    map_option lr_status (get (leave_requests s') i) = Some LApproved \<and>
    (lb_remaining b < lr_total_days r \<longrightarrow>
      (\<exists>t. leave_type_of s (lr_leave_type_id r) = Some t \<and> lt_allow_negative t))"
proof -
  from approve_leaveD [OF assms(2)] assms(3,4) have guard: "approval_guard s r = Inr ()"
    and b': "leave_balances s' = modify k (charge (lr_total_days r)) (leave_balances s)"
    and r': "leave_requests s' = modify i (review LApproved user comments now) (leave_requests s)" by auto
  have "get (leave_balances s) k = Some b" by (rule request_balanceD(1) [OF hr_reachable_wf [OF assms(1)] assms(4)])
  with b' r' guard charge_exact [OF assms(5-12)] assms(3,4) show ?thesis
    by (auto simp: get_modify_eq review_def approval_guard_def split: option.splits if_splits)
qed

lemma request_balance_charged:
  assumes "leave_balances s' = modify k (charge d) (leave_balances s)" and "request_balance s r = Some (k, b)"
  shows "request_balance s' (review st user comments now r) = Some (k, charge d b)"
proof -
  have "\<And>b. lb_is_deleted (charge d b) = lb_is_deleted b \<and> balance_key (charge d b) = balance_key b"
    by (simp add: charge_def rederive_def balance_key_def)
  then show ?thesis
    using assms by (simp add: request_balance_def balance_of_def review_def balance_key_def first_where_modify)
qed

lemma request_balance_same:
  "leave_balances s' = leave_balances s \<Longrightarrow> request_balance s' (review st user comments now r) = request_balance s r"
  by (simp add: request_balance_def balance_of_def review_def)

lemma credit_charge:
  assumes "derived b" and "day_amount (lb_availed b) v" "day_amount d e" "0 \<le> lb_availed b" "\<bar>v + e\<bar> \<le> 1000000"
  shows "credit d (charge d b) = b"
proof -
  have av: "round2 (fl (lb_availed b + d)) = fl (v + e)"
    by (rule add_days_exact(1) [OF assms(2,3)])
  have "day_amount (fl (v + e)) (v + e)"
    using assms(2,3,5) by (auto simp: day_amount_def)
  from add_days_exact(2) [OF this assms(3)] have "round2 (fl (fl (v + e) - d)) = lb_availed b"
    using assms(2) by (simp add: day_amount_def)
  with av assms(1,4) show ?thesis
    by (simp add: credit_def charge_def rederive_def derived_def calculate_remaining_days_def)
qed

text \<open>C35: Cancelling an approved leave before its first day undoes the charge: as long as the days are
  hundredths and the balance was not negative in availed days, every balance row is again exactly what it
  was before the approval, and the request is cancelled.\<close>
theorem cancelling_undoes_approval:
  assumes "hr_reachable s" and "approve_leave_request s i user comments now = Inr s1"
    and "cancel_leave_request s1 i reason today = Inr s2"
    and "get (leave_requests s) i = Some r" and "request_balance s r = Some (k, b)"
    and "day_amount (lb_availed b) v" "day_amount (lr_total_days r) d" "0 \<le> lb_availed b" "\<bar>v + d\<bar> \<le> 1000000"
  shows "(\<forall>j. get (leave_balances s2) j = get (leave_balances s) j) \<and>
    map_option lr_status (get (leave_requests s2) i) = Some LCancelled"
proof -
  have wf: "wf_hr s" by (rule hr_reachable_wf [OF assms(1)])
  let ?r1 = "review LApproved user comments now r"
  from approve_leaveD [OF assms(2)] assms(4,5) have
    b1: "leave_balances s1 = modify k (charge (lr_total_days r)) (leave_balances s)"
    and r1: "leave_requests s1 = modify i (review LApproved user comments now) (leave_requests s)"
    and live: "\<not> lr_is_deleted r" by auto
  have l1: "live lr_is_deleted (leave_requests s1) i = Some ?r1"
    using assms(4) live by (simp add: r1 live_Some get_modify_eq) (simp add: review_def)
  have st: "lr_status ?r1 = LApproved" "lr_total_days ?r1 = lr_total_days r" by (simp_all add: review_def)
  have "leave_balances s2 = modify k (credit (lr_total_days r)) (leave_balances s1) \<and>
      leave_requests s2 = modify i (cancel_request reason) (leave_requests s1)"
    using assms(3) l1 st request_balance_charged [OF b1 assms(5), of LApproved user comments now]
    by (auto simp: cancel_leave_request_def Let_def split: if_splits)
  moreover have "credit (lr_total_days r) (charge (lr_total_days r) b) = b"
    using hr_reachable_inv [OF assms(1)] request_balanceD(1) [OF wf assms(5)] assms(6-9)
    by (intro credit_charge) (auto simp: hr_inv_def balances_ok_def)
  ultimately show ?thesis
    using request_balanceD(1) [OF wf assms(5)] assms(4)
    by (simp add: b1 r1 get_modify_eq cancel_request_def)
qed

lemma hr3_rows:
  "get (leave_requests hr3) 101 = Some \<lparr>lr_employee_id = 1, lr_leave_type_id = 3, lr_start = Date 2025 1 6,
     lr_end = Date 2025 1 10, lr_total_days = 5, lr_is_half_day = False, lr_half_day_session = None,
     lr_reason = ''trip'', lr_status = LPending, lr_submitted_at = Some 1000, lr_reviewed_at = None,
     lr_reviewed_by = None, lr_comments = None, lr_is_deleted = False\<rparr>"
  "balance_of hr3 1 3 2025 False = Some (100, \<lparr>lb_employee_id = 1, lb_leave_type_id = 3, lb_year = 2025,
     lb_opening = 0, lb_allocated = 12, lb_earned = 0, lb_availed = 0, lb_encashed = 0, lb_carried_forward = 0,
     lb_remaining = 12, lb_updated_by = None, lb_is_active = True, lb_is_deleted = False\<rparr>)"
  by (simp_all add: hr3_def hr2_def hr1_def hr0_def run_hr Let_def date_order_simps)

lemma day_amounts: "day_amount 0 0" "day_amount 5 5" "day_amount 12 12"
  by code_simp+

theorem approval_charges_balance_witness:
  "\<exists>b. get (leave_balances hr4) 100 = Some b \<and> lb_availed b = fl 5 \<and> lb_remaining b = fl 7"
  using approval_charges_balance [OF hr_runs_reachable(3) hr4_run hr3_rows(1), of 100 _ 0 12 0 0 0 0 5] hr3_rows(2) day_amounts
  by (auto simp: request_balance_def)

theorem cancelling_undoes_approval_witness:
  "get (leave_balances hr5) 100 = get (leave_balances hr3) 100 \<and> leave_balances hr4 \<noteq> leave_balances hr3"
proof
  show "get (leave_balances hr5) 100 = get (leave_balances hr3) 100"
    using cancelling_undoes_approval [OF hr_runs_reachable(3) hr4_run hr5_run hr3_rows(1), of 100 _ 0 5] hr3_rows(2) day_amounts
    by (auto simp: request_balance_def)
  show "leave_balances hr4 \<noteq> leave_balances hr3"
    by (simp add: hr4_def hr3_def hr2_def hr1_def hr0_def run_hr Let_def date_order_simps)
qed

section \<open>Leave requests\<close>

text \<open>C34: In every state the services can reach, no day belongs to two different pending or approved leave
  requests of one employee.\<close>
theorem leaves_never_overlap:
  assumes "hr_reachable s"
    and "get (leave_requests s) i = Some q" and "get (leave_requests s) j = Some r" and "i \<noteq> j"
    and "lr_status q = LPending \<or> lr_status q = LApproved" and "lr_status r = LPending \<or> lr_status r = LApproved"
    and "\<not> lr_is_deleted q" and "\<not> lr_is_deleted r" and "lr_employee_id q = lr_employee_id r"
  shows "\<not> (\<exists>d. lr_start q \<le> d \<and> d \<le> lr_end q \<and> lr_start r \<le> d \<and> d \<le> lr_end r)"
proof
  assume "\<exists>d. lr_start q \<le> d \<and> d \<le> lr_end q \<and> lr_start r \<le> d \<and> d \<le> lr_end r"
  then have "lr_start q \<le> lr_end r" "lr_start r \<le> lr_end q" by (auto intro: order_trans)
  with assms(5-) have "leaves_clash q r" by (simp add: leaves_clash_def leave_active_def)
  with hr_reachable_inv [OF assms(1)] assms(2-4) show False
    unfolding hr_inv_def leaves_disjoint_def by blast
qed

text \<open>A second request for the Friday of the first and the Monday after it is refused; for the week after it
  is accepted.\<close>

definition lc1 :: "int \<Rightarrow> int \<Rightarrow> leave_create" where
  "lc1 a b = lc0\<lparr>lc_start := day_of a, lc_end := day_of b\<rparr>"

definition hr6 :: hr where "hr6 = snd (run_on (create_leave_request hr4 (lc1 13 14)) (0, hr0))"
definition hr7 :: hr where "hr7 = run_on (submit_leave_request hr6 102 1003) hr0"

lemma more_days:
  "count_days [] (Date 2025 1 14) (Date 2025 1 13) 0 = Inr 2" "count_days [] (Date 2025 1 13) (Date 2025 1 10) 0 = Inr 2"
  by code_simp+

lemma overlap_refused: "create_leave_request hr4 (lc1 10 13) = Inl (ApnaError ''OVERLAPPING_LEAVE_REQUEST'')"
  by (simp add: hr4_def hr3_def hr2_def hr1_def hr0_def run_hr more_days lc1_def Let_def date_order_simps)

lemma hr6_run: "create_leave_request hr4 (lc1 13 14) = Inr (102, hr6)"
  by (simp add: hr6_def hr4_def hr3_def hr2_def hr1_def hr0_def run_hr more_days lc1_def Let_def date_order_simps)

lemma hr7_run: "submit_leave_request hr6 102 1003 = Inr hr7"
  by (simp add: hr7_def hr6_def hr4_def hr3_def hr2_def hr1_def hr0_def run_hr more_days lc1_def Let_def date_order_simps)

lemma hr7_reachable: "hr_reachable hr7"
proof (rule hr_reachable.step [OF _ hr_step.submit [OF hr7_run]])
  show "hr_reachable hr6"
    by (rule hr_reachable.step [OF hr_runs_reachable(4) hr_step.draft [OF hr6_run]])
      (simp add: leave_create_valid_def lc1_def lc0_def day_of_def date_order_simps)
qed

lemma hr7_rows:
  "\<exists>q r. get (leave_requests hr7) 101 = Some q \<and> get (leave_requests hr7) 102 = Some r \<and> lr_status q = LApproved \<and>
     lr_status r = LPending \<and> \<not> lr_is_deleted q \<and> \<not> lr_is_deleted r \<and> lr_employee_id q = lr_employee_id r"
  by (simp add: hr7_def hr6_def hr4_def hr3_def hr2_def hr1_def hr0_def run_hr more_days lc1_def Let_def date_order_simps)

theorem leaves_never_overlap_witness:
  "\<exists>q r. get (leave_requests hr7) 101 = Some q \<and> get (leave_requests hr7) 102 = Some r \<and>
     \<not> (\<exists>d. lr_start q \<le> d \<and> d \<le> lr_end q \<and> lr_start r \<le> d \<and> d \<le> lr_end r)"
  using hr7_rows leaves_never_overlap [OF hr7_reachable, of 101 _ 102] by fastforce

text \<open>Over any sequence of calls a leave request is never removed, keeps its employee and leave type, and
  keeps its days once it has left the draft state; a rejected or cancelled request stays exactly as it
  is, and an approved one can only become cancelled.\<close>
theorem leave_requests_follow_life_cycle:
  assumes "hr_reachable s" and "hr_step\<^sup>*\<^sup>* s s'" and "get (leave_requests s) i = Some r"
  shows "\<exists>r'. get (leave_requests s') i = Some r' \<and> lr_employee_id r' = lr_employee_id r \<and>
    lr_leave_type_id r' = lr_leave_type_id r \<and>
    (lr_status r \<noteq> LDraft \<longrightarrow> lr_status r' \<noteq> LDraft \<and> lr_start r' = lr_start r \<and> lr_end r' = lr_end r \<and>
       lr_total_days r' = lr_total_days r) \<and>
    (lr_status r = LRejected \<or> lr_status r = LCancelled \<longrightarrow> r' = r) \<and>
    (lr_status r = LApproved \<longrightarrow> r' = r \<or> lr_status r' = LCancelled)"
  using assms(2)
proof (induction rule: rtranclp_induct)
  case base
  then show ?case using assms(3) by simp
next
  case (step t u)
  have "hr_reachable t" using step.hyps(1) assms(1)
    by (induction rule: rtranclp_induct) (auto intro: hr_reachable.step)
  from step.IH obtain q where q: "get (leave_requests t) i = Some q" and ih: "lr_employee_id q = lr_employee_id r"
    "lr_leave_type_id q = lr_leave_type_id r"
    "lr_status r \<noteq> LDraft \<longrightarrow> lr_status q \<noteq> LDraft \<and> lr_start q = lr_start r \<and> lr_end q = lr_end r \<and>
       lr_total_days q = lr_total_days r"
    "lr_status r = LRejected \<or> lr_status r = LCancelled \<longrightarrow> q = r"
    "lr_status r = LApproved \<longrightarrow> q = r \<or> lr_status q = LCancelled" by blast
  from hr_step_flow [OF hr_reachable_wf [OF \<open>hr_reachable t\<close>] step.hyps(2) q]
  obtain r' where r': "get (leave_requests u) i = Some r'" and fl: "leave_flow q r'" by blast
  note flow = leave_flowD [OF fl, unfolded same_claim_def]
  show ?case
    by (rule exI [of _ r'], intro conjI impI) (use r' ih flow in auto)
qed

theorem leave_requests_follow_life_cycle_witness:
  "\<exists>r. get (leave_requests hr5) 101 = Some r \<and> lr_start r = Date 2025 1 6 \<and> lr_end r = Date 2025 1 10 \<and> lr_total_days r = 5"
proof -
  have "hr_step\<^sup>*\<^sup>* hr3 hr5"
    using hr_step.approve_leave [OF hr4_run] hr_step.cancel_leave [OF hr5_run] by auto
  from leave_requests_follow_life_cycle [OF hr_runs_reachable(3) this hr3_rows(1)] show ?thesis by auto
qed

section \<open>Working days\<close>

text \<open>C39: The day loop of a leave request ends for every range that ends before the last day of the calendar,
  and its result is the number of days of the range that are neither Saturday nor Sunday nor the date of an
  active holiday.\<close>
theorem working_days_counted:
  assumes "valid_date a" and "valid_date b" and "b < Date 9999 12 31"
  shows "calculate_working_days s a b False =
    Inr (of_nat (card {d. valid_date d \<and> a \<le> d \<and> d \<le> b \<and> weekday d \<noteq> 5 \<and> weekday d \<noteq> 6 \<and>
      \<not> (\<exists>k h. (k, h) \<in> set (holidays s) \<and> ho_date h = d \<and> ho_is_active h \<and> \<not> ho_is_deleted h)}))"
proof -
  have "{d. valid_date d \<and> a \<le> d \<and> d \<le> b \<and> weekday d \<noteq> 5 \<and> weekday d \<noteq> 6 \<and>
      \<not> (\<exists>k h. (k, h) \<in> set (holidays s) \<and> ho_date h = d \<and> ho_is_active h \<and> \<not> ho_is_deleted h)} =
    {d. valid_date d \<and> a \<le> d \<and> d \<le> b \<and> is_working_day (holiday_dates s a b) d}"
    by (force simp: is_working_day_def holiday_dates_def)
  with count_days_card [OF assms(1,2), of "holiday_dates s a b" 0] assms(3) show ?thesis
    by (simp add: calculate_working_days_def last_day_def)
qed

theorem working_days_counted_witness:
  "card {d. valid_date d \<and> Date 2025 1 6 \<le> d \<and> d \<le> Date 2025 1 10 \<and> weekday d \<noteq> 5 \<and> weekday d \<noteq> 6 \<and>
      \<not> (\<exists>k h. (k, h) \<in> set (holidays hr0) \<and> ho_date h = d \<and> ho_is_active h \<and> \<not> ho_is_deleted h)} = 5"
proof -
  have "calculate_working_days hr0 (Date 2025 1 6) (Date 2025 1 10) False = Inr 5"
    using five_days by (simp add: calculate_working_days_def holiday_dates_def hr0_def)
  moreover have "valid_date (Date 2025 1 6)" "valid_date (Date 2025 1 10)" "Date 2025 1 10 < Date 9999 12 31"
    by code_simp+
  ultimately show ?thesis
    using working_days_counted [of "Date 2025 1 6" "Date 2025 1 10" hr0]
    by (metis (no_types, lifting) of_nat_eq_iff of_nat_numeral sum.inject(2))
qed

section \<open>Minutes of a day\<close>

lemma fl_near: "\<bar>z\<bar> \<le> 10000001 \<Longrightarrow> \<bar>z - y\<bar> \<le> e \<Longrightarrow> \<bar>fl z - y\<bar> \<le> e + 1 / 100000000"
  using fl_error_small [of z] by linarith

lemma duration_hours_near:
  assumes "0 \<le> shift_seconds x" and "shift_seconds x \<le> 86400"
  shows "\<bar>duration_hours x - of_int (shift_seconds x) / 3600\<bar> \<le> 1 / 200 + 2 / 100000000"
proof -
  let ?h = "of_int (shift_seconds x) / 3600 :: rat"
  from assms have h: "0 \<le> ?h" "?h \<le> 24" by simp_all
  then have 1: "\<bar>fl ?h - ?h\<bar> \<le> 1 / 100000000" by (intro fl_error_small) simp
  have 2: "\<bar>round_dp 2 (fl ?h) - fl ?h\<bar> \<le> 1 / 200" using round_dp_near [of 2 "fl ?h"] by simp
  have "\<bar>fl (round_dp 2 (fl ?h)) - ?h\<bar> \<le> (1 / 200 + 1 / 100000000) + 1 / 100000000"
    by (rule fl_near) (use 1 2 h in linarith)+
  then show ?thesis unfolding duration_hours_def round2_def by linarith
qed

text \<open>The expected minutes of a working day with a shift are its minutes less the break, except that the
  hours are rounded to two decimals on the way and the product is cut off: the result can be more than a
  minute short, and a third of a minute long.\<close>
theorem expected_minutes_error:
  assumes "\<not> is_weekend cfg d" and "0 \<le> shift_seconds x" and "shift_seconds x \<le> 86400"
  shows "\<exists>m. expected_minutes d (Some x) cfg False = max 0 (m - sh_break_duration x) \<and>
    of_int (shift_seconds x) / 60 - 131 / 100 < (of_int m :: rat) \<and>
    (of_int m :: rat) < of_int (shift_seconds x) / 60 + 31 / 100"
proof -
  let ?m = "trunc (fl (duration_hours x * 60))"
  have near: "\<bar>duration_hours x * 60 - of_int (shift_seconds x) / 60\<bar> \<le> 3 / 10 + 120 / 100000000"
    using duration_hours_near [OF assms(2,3)] by linarith
  then have "\<bar>duration_hours x * 60\<bar> \<le> 10000001" using assms(2,3) by linarith
  from fl_near [OF this near] have f: "\<bar>fl (duration_hours x * 60) - of_int (shift_seconds x) / 60\<bar>
      \<le> 3 / 10 + 120 / 100000000 + 1 / 100000000" .
  have "of_int (shift_seconds x) / 60 - 131 / 100 < (of_int ?m :: rat) \<and> (of_int ?m :: rat) < of_int (shift_seconds x) / 60 + 31 / 100"
  proof (cases "0 \<le> fl (duration_hours x * 60)")
    case True
    then have "?m = \<lfloor>fl (duration_hours x * 60)\<rfloor>" by (simp add: trunc_def)
    with f show ?thesis by linarith
  next
    case False
    then have "?m = \<lceil>fl (duration_hours x * 60)\<rceil>" by (simp add: trunc_def)
    moreover have "\<lceil>fl (duration_hours x * 60)\<rceil> \<le> 0" using False by simp
    then have "of_int \<lceil>fl (duration_hours x * 60)\<rceil> \<le> (0::rat)" by (simp only: of_int_le_0_iff)
    moreover have "0 \<le> (of_int (shift_seconds x) :: rat)" using assms(2) by simp
    ultimately show ?thesis using f False by (intro conjI) linarith+
  qed
  with assms(1) show ?thesis
    by (intro exI [of _ ?m]) (simp add: expected_minutes_def)
qed

theorem expected_minutes_error_witness:
  "shift_seconds shift2 = 492 * 60 \<and> expected_minutes (Date 2025 1 6) (Some shift2) None False = 491 \<and>
   (\<exists>m. expected_minutes (Date 2025 1 6) (Some shift2) None False = max 0 (m - 0) \<and> (492 :: rat) - 131 / 100 < of_int m)"
proof -
  have s: "shift_seconds shift2 = 29520" and b: "sh_break_duration shift2 = 0" by code_simp+
  have e: "expected_minutes (Date 2025 1 6) (Some shift2) None False = 491" by code_simp
  have "\<not> is_weekend None (Date 2025 1 6)" by (simp add: is_weekend_def)
  from expected_minutes_error [OF this, of shift2] s b
  have "\<exists>m. expected_minutes (Date 2025 1 6) (Some shift2) None False = max 0 (m - 0) \<and> (492 :: rat) - 131 / 100 < of_int m"
    by auto
  with s e show ?thesis by simp
qed

section \<open>Attendance rows\<close>

text \<open>An employee who checks in at the start of a shift and out at its end, over midnight if the shift
  ends there, is neither late nor early, has worked the minutes of the shift less the break, and is Present
  unless that is below the minimum for a full day.\<close>
theorem full_shift_counts:
  assumes "sh_start_time x = a * 1000000" and "sh_end_time x = b * 1000000" and "a \<noteq> b"
    and "0 \<le> a" "a < 86400" "0 \<le> b" "b < 86400" and "0 \<le> sh_grace_period x"
    and "us i = shift_start d (Some x)" and "us out = shift_end d (Some x)"
  shows "\<exists>r. calculate_attendance d (Some i) (Some out) break (Some x) cfg hol lv = r \<and>
    r_worked r = max 0 (shift_seconds x div 60 - break) \<and> r_late r = 0 \<and> r_early r = 0 \<and>
    r_status r = (if r_worked r < trunc (fl (sh_min_hours x * 60)) then HalfDay else Present)"
proof -
  have "us out - us i = shift_seconds x * 1000000"
    using assms(1-7,9,10)
    by (auto simp: shift_start_def shift_end_def combine_def start_time_def end_time_def shift_seconds_def Let_def day_us_def)
  then have "(us out - us i) div minute_us = shift_seconds x div 60"
    by (simp add: minute_us_def div_mult2_eq [of _ 60 1000000, simplified])
  moreover have "0 \<le> shift_seconds x"
    using assms(1-7) by (auto simp: shift_seconds_def Let_def)
  ultimately have w: "worked (Some i) (Some out) break = max 0 (shift_seconds x div 60 - break)"
    by (simp add: worked_def pos_imp_zdiv_nonneg_iff)
  have "0 \<le> sh_grace_period x * minute_us" using assms(8) by (simp add: minute_us_def)
  then have l: "late (Some i) (shift_start d (Some x)) (sh_grace_period x) = 0"
    using assms(9) by (simp add: late_def)
  have e: "early (Some out) (shift_end d (Some x)) = 0" using assms(10) by (simp add: early_def)
  show ?thesis
    by (simp add: calculate_attendance_def Let_def w l e decide_status_def grace_minutes_def min_hours_def)
qed

definition night :: shift where
  "night = shift2\<lparr>sh_start_time := 79200000000, sh_end_time := 21600000000\<rparr>"

theorem full_shift_counts_witness:
  "\<exists>r. calculate_attendance (day_of 6) (Some (at_time 6 22)) (Some (at_time 7 6)) 30 (Some night) None False False = r \<and>
     r_worked r = 450 \<and> r_late r = 0 \<and> r_early r = 0"
proof -
  have "us (at_time 6 22) = shift_start (day_of 6) (Some night)" "us (at_time 7 6) = shift_end (day_of 6) (Some night)"
    "shift_seconds night = 28800"
    by code_simp+
  then show ?thesis
    using full_shift_counts [of night 79200 21600 "at_time 6 22" "day_of 6" "at_time 7 6" 30 None False False]
    by (simp add: night_def shift2_def)
qed

text \<open>C38: In every state the services can reach, an attendance row has a check-in; its worked minutes and
  its early minutes are not negative, and zero without a check-out; and unless the row was corrected by hand
  its status is Missing Check-out without a check-out, and with one Present, Half Day or Late, the last only
  with late minutes. So Absent, Holiday, Weekend and On Leave are never recorded by the services
  themselves.\<close>
theorem attendance_rows_typed:
  assumes "hr_reachable s" and "get (attendances s) i = Some a"
  shows "at_check_in a \<noteq> None \<and> 0 \<le> at_worked a \<and> 0 \<le> at_early a \<and>
    (at_check_out a = None \<longrightarrow> at_worked a = 0 \<and> at_early a = 0) \<and>
    (\<not> at_manual a \<longrightarrow>
      (if at_check_out a = None then at_status a = MissingCheckOut
       else at_status a = Present \<or> at_status a = HalfDay \<or> at_status a = Late \<and> 0 < at_late a))"
  using hr_reachable_typed [OF assms(1)] assms(2) by (simp add: attendances_typed_def attendance_typed_def)

definition ci0 :: "int \<Rightarrow> int \<Rightarrow> check_in_request" where
  "ci0 d h = \<lparr>ci_employee_id = 1, ci_time = Some (at_time d h), ci_shift_id = None\<rparr>"

definition co0 :: "int \<Rightarrow> int \<Rightarrow> check_out_request" where
  "co0 d h = \<lparr>co_employee_id = 1, co_time = Some (at_time d h), co_break = 0\<rparr>"

definition day1 :: hr where "day1 = snd (run_on (process_check_in hr0 (ci0 6 9) (at_time 6 9)) (0, hr0))"
definition day2 :: hr where "day2 = run_on (process_check_out day1 (co0 6 17) (at_time 6 17)) hr0"
definition day3 :: hr where
  "day3 = run_on (lock_attendance day2 \<lparr>lk_ids = Some [100], lk_start = None, lk_end = None\<rparr>) hr0"

lemmas run_day = run_on_def process_check_in_def process_check_out_def lock_attendance_def ci0_def co0_def
  check_in_shift_def resolve_shift_def employee_shift_def get_active_assignment_def attendance_on_def open_attendance_def
  employee_of_def shift_of_def live_def first_where_def exists_where_def get_def modify_def add_row_def hr_emit_def
  rows_to_lock_def lock_row_def hr_effects_def day_of_def at_time_def

lemma day1_run: "process_check_in hr0 (ci0 6 9) (at_time 6 9) = Inr (100, day1)"
  by (simp add: day1_def hr0_def shift2_def run_day Let_def)

lemma day2_run: "process_check_out day1 (co0 6 17) (at_time 6 17) = Inr day2"
  by (simp add: day2_def day1_def hr0_def shift2_def run_day Let_def first_check_in_def check_in_effects_def)

lemma day2_row: "\<exists>a. get (attendances day2) 100 = Some a \<and> at_check_in a = Some (at_time 6 9) \<and>
   at_check_out a = Some (at_time 6 17) \<and> \<not> at_manual a \<and> \<not> at_is_locked a \<and> \<not> at_is_deleted a"
  by (simp add: day2_def day1_def hr0_def shift2_def run_day Let_def first_check_in_def check_in_effects_def
      evaluate_def set_minutes_def)

lemma day3_run: "lock_attendance day2 \<lparr>lk_ids = Some [100], lk_start = None, lk_end = None\<rparr> = Inr day3"
proof -
  obtain a where "get (attendances day2) 100 = Some a" "\<not> at_is_deleted a" using day2_row by blast
  then show ?thesis
    by (simp add: day3_def run_on_def lock_attendance_def rows_to_lock_def live_def)
qed

lemma day_reachable: "hr_reachable day2" "hr_reachable day3"
proof -
  have "hr_reachable hr0" by (rule hr_reachable.init [OF hr0_init])
  then have "hr_reachable day1" by (rule hr_reachable.step [OF _ hr_step.check_in [OF day1_run]])
  then show 2: "hr_reachable day2"
    by (rule hr_reachable.step [OF _ hr_step.check_out [OF day2_run]]) (simp add: co0_def)
  show "hr_reachable day3" by (rule hr_reachable.step [OF 2 hr_step.lock [OF day3_run]])
qed

theorem attendance_rows_typed_witness:
  "\<exists>a. get (attendances day2) 100 = Some a \<and> at_check_out a \<noteq> None \<and>
     (at_status a = Present \<or> at_status a = HalfDay \<or> at_status a = Late \<and> 0 < at_late a)"
  using day2_row attendance_rows_typed [OF day_reachable(1), of 100] by fastforce

text \<open>Once an attendance row is locked, no sequence of calls of the time and leave services changes it
  or removes it.\<close>
theorem locked_attendance_is_final:
  assumes "hr_reachable s" and "hr_step\<^sup>*\<^sup>* s s'" and "get (attendances s) i = Some a" and "at_is_locked a"
  shows "get (attendances s') i = Some a"
proof -
  from assms(2) have "hr_reachable s' \<and> get (attendances s') i = Some a"
  proof (induction rule: rtranclp_induct)
    case (step t u)
    then show ?case
      using hr_step_locked [OF hr_reachable_wf _ _ assms(4)] by (blast intro: hr_reachable.step)
  qed (use assms in blast)
  then show ?thesis ..
qed

lemma day3_row: "\<exists>a. get (attendances day3) 100 = Some a \<and> at_is_locked a \<and> at_check_out a = Some (at_time 6 17)"
proof -
  obtain a where a: "get (attendances day2) 100 = Some a" "\<not> at_is_deleted a" "at_check_out a = Some (at_time 6 17)"
    using day2_row by blast
  then have "attendances day3 = attendances (lock_row 100 day2)"
    by (simp add: day3_def run_on_def lock_attendance_def rows_to_lock_def live_def)
  with a show ?thesis by (simp add: get_lock_row)
qed

theorem locked_attendance_is_final_witness:
  "\<exists>a. get (attendances (hr_emit [] day3)) 100 = Some a \<and> at_is_locked a \<and>
     (\<forall>s'. hr_step day3 s' \<longrightarrow> get (attendances s') 100 = Some a)"
proof -
  obtain a where a: "get (attendances day3) 100 = Some a" "at_is_locked a" using day3_row by blast
  from locked_attendance_is_final [OF day_reachable(2) _ a] a show ?thesis by auto
qed

section \<open>Shift assignments\<close>

lemma assign_shiftD:
  assumes "assign_shift s c user = Inr (i, s')"
  shows "\<exists>a. \<not> check_overlap s (ac_employee_id c) (ac_from c) (ac_to c) None \<and> sa_employee_id a = ac_employee_id c \<and>
    sa_from a = ac_from c \<and> sa_to a = ac_to c \<and> assignments s' = add_row (hr_next s) a (assignments s)"
proof (rule exI [of _ "\<lparr>sa_employee_id = ac_employee_id c, sa_shift_id = ac_shift_id c, sa_from = ac_from c,
    sa_to = ac_to c, sa_type = ac_type c, sa_reason = ac_reason c, sa_assigned_by = user, sa_is_active = True,
    sa_is_deleted = False\<rparr>"])
qed (use assms in \<open>auto simp: assign_shift_def Let_def split: if_splits\<close>)

lemma update_assignmentD:
  assumes "update_assignment s i u = Inr s'"
  shows "\<exists>a. get (assignments s) i = Some a \<and>
    \<not> check_overlap s (sa_employee_id a) (write_field (au_from u) (sa_from a))
        (case given (au_to u) of Some t \<Rightarrow> Some t | None \<Rightarrow> sa_to a) (Some i) \<and>
    assignments s' = modify i (apply_assignment_update u) (assignments s)"
  using assms by (auto simp: update_assignment_def Let_def live_Some split: option.splits if_splits)

lemma end_assignmentD:
  assumes "end_assignment s i d today = Inr s'"
  shows "\<exists>a. get (assignments s) i = Some a \<and> sa_from a \<le> d \<and>
    assignments s' = modify i (\<lambda>a. a\<lparr>sa_to := Some d, sa_is_active := (if d < today then False else sa_is_active a)\<rparr>)
      (assignments s)"
  using assms by (auto simp: end_assignment_def live_Some not_less split: option.splits if_splits)

lemma delete_assignmentD:
  "delete_assignment s i = Inr s' \<Longrightarrow>
    \<exists>a. get (assignments s) i = Some a \<and> assignments s' = modify i (\<lambda>a. a\<lparr>sa_is_deleted := True\<rparr>) (assignments s)"
  by (auto simp: delete_assignment_def live_Some split: option.splits if_splits)

text \<open>The employee has one shift on a day: the active assignments of an employee share no day.\<close>

definition assignments_ok :: "hr \<Rightarrow> bool" where
  "assignments_ok s = (assignments_disjoint (assignments s) \<and> (\<forall>i a. get (assignments s) i = Some a \<longrightarrow> sa_from a \<le> last_day))"

definition checked_assignment_call :: "hr \<Rightarrow> hr \<Rightarrow> bool" where
  "checked_assignment_call s s' =
     ((\<exists>c user i. assign_shift s c user = Inr (i, s') \<and> ac_from c \<le> last_day) \<or>
      (\<exists>i u. update_assignment s i u = Inr s' \<and> au_to u \<noteq> Some None \<and> (\<forall>d. given (au_from u) = Some d \<longrightarrow> d \<le> last_day)) \<or>
      (\<exists>i d today. end_assignment s i d today = Inr s' \<and>
         (\<forall>a. get (assignments s) i = Some a \<longrightarrow> d \<le> (case sa_to a of Some t \<Rightarrow> t | None \<Rightarrow> last_day))) \<or>
      (\<exists>i. delete_assignment s i = Inr s'))"

lemma assignments_ok_modify:
  assumes "assignments_ok s" and "get (assignments s) i = Some a" and "assignments s' = modify i f (assignments s)"
    and "sa_from (f a) \<le> last_day"
    and "\<And>j b. get (assignments s) j = Some b \<Longrightarrow> j \<noteq> i \<Longrightarrow> \<not> overlapping (f a) b"
  shows "assignments_ok s'"
  using assms assignments_disjoint_modify [of "assignments s" i a f] unfolding assignments_ok_def
  by (auto simp: get_modify_eq split: if_splits)

lemma assignments_okD:
  "assignments_ok s \<Longrightarrow> get (assignments s) i = Some a \<Longrightarrow> get (assignments s) j = Some b \<Longrightarrow> j \<noteq> i \<Longrightarrow> \<not> overlapping a b"
  unfolding assignments_ok_def assignments_disjoint_def by metis

lemma overlapping_shorter:
  assumes "overlapping (a\<lparr>sa_to := Some d, sa_is_active := act\<rparr>) b" and "act \<longrightarrow> sa_is_active a"
    and "d \<le> (case sa_to a of Some t \<Rightarrow> t | None \<Rightarrow> last_day)"
  shows "overlapping a b"
  using assms by (auto simp: overlapping_def sa_active_def intro: order_trans)

lemma checked_assign_ok:
  assumes "wf_hr s" and "assignments_ok s" and "assign_shift s c user = Inr (i, s')" and "ac_from c \<le> last_day"
  shows "assignments_ok s'"
proof -
  from assign_shiftD [OF assms(3)] obtain a where
    a: "\<not> check_overlap s (ac_employee_id c) (ac_from c) (ac_to c) None" "sa_employee_id a = ac_employee_id c"
    "sa_from a = ac_from c" "sa_to a = ac_to c" and s': "assignments s' = add_row (hr_next s) a (assignments s)" by blast
  have "assignments_disjoint (assignments s')"
    unfolding s'
  proof (rule assignments_disjoint_add [OF _ wf_hr_fresh(1) [OF assms(1)]])
    show "assignments_disjoint (assignments s)" using assms(2) by (simp add: assignments_ok_def)
    show "\<not> overlapping a b" if "get (assignments s) j = Some b" for j b
      by (rule check_overlapD [OF a(1) that _ a(2-4) assms(4)]) simp
  qed
  with assms(2,4) a(3) s' show ?thesis
    by (auto simp: assignments_ok_def get_add_row_eq split: option.splits if_splits)
qed

lemma checked_update_ok:
  assumes "assignments_ok s" and "update_assignment s i u = Inr s'" and "au_to u \<noteq> Some None"
    and "\<And>d. given (au_from u) = Some d \<Longrightarrow> d \<le> last_day"
  shows "assignments_ok s'"
proof -
  from update_assignmentD [OF assms(2)] obtain a where a: "get (assignments s) i = Some a"
    and no: "\<not> check_overlap s (sa_employee_id a) (write_field (au_from u) (sa_from a))
        (case given (au_to u) of Some t \<Rightarrow> Some t | None \<Rightarrow> sa_to a) (Some i)"
    and s': "assignments s' = modify i (apply_assignment_update u) (assignments s)" by blast
  let ?b = "apply_assignment_update u a"
  have start: "sa_from ?b \<le> last_day"
    using assms(1,4) a by (auto simp: apply_assignment_update_def write_field_def assignments_ok_def split: option.splits)
  have to: "sa_to ?b = (case given (au_to u) of Some t \<Rightarrow> Some t | None \<Rightarrow> sa_to a)"
    using assms(3) by (auto simp: apply_assignment_update_def given_def split: option.splits)
  have b: "sa_employee_id ?b = sa_employee_id a" "sa_from ?b = write_field (au_from u) (sa_from a)"
    by (simp_all add: apply_assignment_update_def)
  show ?thesis
  proof (rule assignments_ok_modify [OF assms(1) a s' start])
    show "\<not> overlapping ?b c" if "get (assignments s) j = Some c" "j \<noteq> i" for j c
      by (rule check_overlapD [OF no that(1) _ b to]) (use that(2) start b(2) in auto)
  qed
qed

text \<open>Assigning a shift, changing an assignment without an explicit null end, ending one no later than
  it ended before, and deleting one keep the active assignments of every employee free of common days.\<close>
theorem assignments_stay_disjoint:
  assumes "hr_reachable s" and "assignments_ok s" and "checked_assignment_call s s'"
  shows "assignments_ok s' \<and>
    (\<forall>i j a b d. get (assignments s') i = Some a \<and> get (assignments s') j = Some b \<and> i \<noteq> j \<and>
       sa_employee_id a = sa_employee_id b \<and> in_force a d \<and> d \<le> last_day \<longrightarrow> \<not> in_force b d)"
proof -
  have ok: "assignments_ok s'"
    using assms(3) unfolding checked_assignment_call_def
  proof (elim disjE exE conjE)
    show ?thesis if "assign_shift s c user = Inr (i, s')" "ac_from c \<le> last_day" for c user i
      by (rule checked_assign_ok [OF hr_reachable_wf [OF assms(1)] assms(2) that])
    show ?thesis if "update_assignment s i u = Inr s'" "au_to u \<noteq> Some None" "\<forall>d. given (au_from u) = Some d \<longrightarrow> d \<le> last_day" for i u
      by (rule checked_update_ok [OF assms(2) that(1,2)]) (use that(3) in blast)
    show ?thesis if c: "end_assignment s i d today = Inr s'"
      and d: "\<forall>a. get (assignments s) i = Some a \<longrightarrow> d \<le> (case sa_to a of Some t \<Rightarrow> t | None \<Rightarrow> last_day)" for i d today
    proof -
      from end_assignmentD [OF c] obtain a where a: "get (assignments s) i = Some a" and s': "assignments s' =
          modify i (\<lambda>a. a\<lparr>sa_to := Some d, sa_is_active := (if d < today then False else sa_is_active a)\<rparr>) (assignments s)"
        by blast
      show ?thesis
      proof (rule assignments_ok_modify [OF assms(2) a s'])
        show "\<not> overlapping (a\<lparr>sa_to := Some d, sa_is_active := (if d < today then False else sa_is_active a)\<rparr>) b"
          if "get (assignments s) j = Some b" "j \<noteq> i" for j b
          using overlapping_shorter [of "if d < today then False else sa_is_active a" d a b] d a assignments_okD [OF assms(2) a that]
          by auto
      qed (use assms(2) a in \<open>simp add: assignments_ok_def\<close>)
    qed
    show ?thesis if c: "delete_assignment s i = Inr s'" for i
    proof -
      from delete_assignmentD [OF c] obtain a where a: "get (assignments s) i = Some a"
        and s': "assignments s' = modify i (\<lambda>a. a\<lparr>sa_is_deleted := True\<rparr>) (assignments s)" by blast
      show ?thesis
        by (rule assignments_ok_modify [OF assms(2) a s'])
          (use assms(2) a in \<open>simp_all add: assignments_ok_def overlapping_def sa_active_def\<close>)
    qed
  qed
  have "overlapping a b" if "in_force a d" "in_force b d" "d \<le> last_day" "sa_employee_id a = sa_employee_id b" for a b d
    using that by (auto simp: in_force_def overlapping_def split: option.splits intro: order_trans)
  with ok assignments_okD [OF ok] show ?thesis by metis
qed

definition ac0 :: "int \<Rightarrow> int \<Rightarrow> assignment_create" where
  "ac0 a b = \<lparr>ac_employee_id = 1, ac_shift_id = 2, ac_from = day_of a, ac_to = Some (day_of b), ac_type = ''Temporary'', ac_reason = None\<rparr>"

definition as1 :: hr where "as1 = snd (run_on (assign_shift hr0 (ac0 1 10) None) (0, hr0))"
definition as2 :: hr where "as2 = snd (run_on (assign_shift as1 (ac0 11 20) None) (0, hr0))"

lemmas run_assign = run_on_def assign_shift_def end_assignment_def check_overlap_def has_locked_attendance_def
  active_shift_def employee_of_def shift_of_def live_def exists_where_def get_def modify_def add_row_def hr_emit_def
  day_of_def ac0_def sa_active_def date_order_simps

lemma as1_run: "assign_shift hr0 (ac0 1 10) None = Inr (100, as1)"
  by (simp add: as1_def hr0_def shift2_def run_assign Let_def)

lemma as2_run: "assign_shift as1 (ac0 11 20) None = Inr (101, as2)"
  by (simp add: as2_def as1_def hr0_def shift2_def run_assign Let_def)

lemma as_reachable: "hr_reachable as1" "hr_reachable as2"
proof -
  show 1: "hr_reachable as1"
    by (rule hr_reachable.step [OF hr_reachable.init [OF hr0_init] hr_step.assign [OF as1_run]])
  show "hr_reachable as2" by (rule hr_reachable.step [OF 1 hr_step.assign [OF as2_run]])
qed

lemma as1_ok: "assignments_ok as1"
proof -
  have "assignments_ok hr0" by (simp add: assignments_ok_def assignments_disjoint_def hr0_def get_def)
  from checked_assign_ok [OF hr_init_wf [OF hr0_init] this as1_run] show ?thesis
    by (simp add: ac0_def day_of_def last_day_def date_order_simps)
qed

theorem assignments_stay_disjoint_witness:
  "assignments_ok as2 \<and> keys (assignments as2) = [100, 101]"
proof
  have "checked_assignment_call as1 as2"
    unfolding checked_assignment_call_def using as2_run
    by (intro disjI1 exI [of _ "ac0 11 20"] exI conjI, assumption) (simp add: ac0_def day_of_def last_day_def date_order_simps)
  from assignments_stay_disjoint [OF as_reachable(1) as1_ok this] show "assignments_ok as2" ..
  show "keys (assignments as2) = [100, 101]"
    by (simp add: as2_def as1_def hr0_def shift2_def run_assign Let_def keys_def)
qed

definition as3 :: hr where "as3 = run_on (end_assignment as2 100 (day_of 15) (day_of 5)) hr0"
definition open_ended :: assignment_update where
  "open_ended = \<lparr>au_shift_id = None, au_from = None, au_to = Some None, au_type = None, au_reason = None, au_is_active = None\<rparr>"
definition as4 :: hr where "as4 = run_on (update_assignment as2 100 open_ended) hr0"

definition double_booked :: "hr \<Rightarrow> bool" where
  "double_booked s = (\<exists>a b. get (assignments s) 100 = Some a \<and> get (assignments s) 101 = Some b \<and>
     sa_employee_id a = sa_employee_id b \<and> in_force a (day_of 12) \<and> in_force b (day_of 12))"

text \<open>Two calls escape the overlap check. Ending an assignment at a later day than it had extends it over
  the next one, and an update with an explicit null end is checked against the old end and then stored open
  ended: in both cases two assignments of the employee are in force on the same day.\<close>
theorem unchecked_ranges_overlap:
  "hr_reachable as2 \<and> \<not> double_booked as2 \<and>
   end_assignment as2 100 (day_of 15) (day_of 5) = Inr as3 \<and> double_booked as3 \<and>
   update_assignment as2 100 open_ended = Inr as4 \<and> double_booked as4"
proof (intro conjI as_reachable)
  show "end_assignment as2 100 (day_of 15) (day_of 5) = Inr as3"
    by (simp add: as3_def as2_def as1_def hr0_def shift2_def run_assign Let_def)
  show "update_assignment as2 100 open_ended = Inr as4"
    by (simp add: as4_def as2_def as1_def hr0_def shift2_def run_assign Let_def update_assignment_def open_ended_def
        given_def write_field_def assignment_nulls_def)
  show "\<not> double_booked as2" "double_booked as3" "double_booked as4"
    by (simp_all add: double_booked_def as3_def as4_def as2_def as1_def hr0_def shift2_def run_assign Let_def
        update_assignment_def open_ended_def given_def write_field_def assignment_nulls_def apply_assignment_update_def
        in_force_def)
qed

section \<open>Leave that is not paid for\<close>

definition half0 :: leave_create where
  "half0 = lc0\<lparr>lc_end := day_of 6, lc_is_half_day := True\<rparr>"

definition longer :: leave_update where
  "longer = \<lparr>lu_start = None, lu_end = Some (Some (day_of 10)), lu_is_half_day = None, lu_half_day_session = None,
     lu_reason = None\<rparr>"

definition hd1 :: hr where "hd1 = snd (run_on (create_leave_request hr1 half0) (0, hr0))"
definition hd2 :: hr where "hd2 = run_on (update_leave_request hd1 101 longer) hr0"
definition hd3 :: hr where "hd3 = run_on (submit_leave_request hd2 101 1000) hr0"
definition hd4 :: hr where "hd4 = run_on (approve_leave_request hd3 101 (Some 9) None 1001) hr0"

lemma half_numbers: "round2 (fl (1 / 2)) = 1 / 2" "derive_remaining 0 12 0 0 (1 / 2) 0 = 23 / 2"
  by code_simp+

lemmas hd_defs = hd4_def hd3_def hd2_def hd1_def hr1_def hr0_def run_hr half0_def longer_def half_numbers
  update_leave_request_def leave_nulls_def apply_leave_update_def write_field_def given_def Let_def date_order_simps

lemma hd1_run: "create_leave_request hr1 half0 = Inr (101, hd1)"
  by (simp add: hd_defs)

lemma hd2_run: "update_leave_request hd1 101 longer = Inr hd2"
  by (simp add: hd_defs)

lemma hd3_run: "submit_leave_request hd2 101 1000 = Inr hd3"
  by (simp add: hd_defs)

lemma hd4_run: "approve_leave_request hd3 101 (Some 9) None 1001 = Inr hd4"
  by (simp add: hd_defs)

lemma hd4_reachable: "hr_reachable hd4"
proof -
  have "hr_reachable hd1"
    by (rule hr_reachable.step [OF hr_runs_reachable(1) hr_step.draft [OF hd1_run]])
      (simp add: leave_create_valid_def half0_def lc0_def day_of_def date_order_simps)
  then have "hr_reachable hd2" by (rule hr_reachable.step [OF _ hr_step.edit_draft [OF hd2_run]])
  then have "hr_reachable hd3" by (rule hr_reachable.step [OF _ hr_step.submit [OF hd3_run]])
  then show ?thesis by (rule hr_reachable.step [OF _ hr_step.approve_leave [OF hd4_run]])
qed

definition charged_half_day :: "hr \<Rightarrow> bool" where
  "charged_half_day s = (\<exists>r b. get (leave_requests s) 101 = Some r \<and> lr_status r = LApproved \<and>
     lr_start r = day_of 6 \<and> lr_end r = day_of 10 \<and> get (leave_balances s) 100 = Some b \<and> lb_remaining b = 23 / 2)"

text \<open>A draft for half a day can be stretched over a week: the update recomputes half a day for any range
  with the half-day flag, and the approval takes half a day off a balance of twelve for a leave of five
  working days.\<close>
theorem half_day_over_a_week:
  "hr_reachable hd4 \<and> charged_half_day hd4 \<and>
   calculate_working_days hr1 (day_of 6) (day_of 10) False = Inr 5 \<and>
   calculate_working_days hr1 (day_of 6) (day_of 10) True = Inr (1 / 2)"
proof (intro conjI hd4_reachable)
  show "charged_half_day hd4" by (simp add: charged_half_day_def hd_defs)
qed (simp_all add: hr1_def hr0_def run_hr Let_def)

text \<open>A leave type that may go negative needs no balance.\<close>

definition un0 :: hr where
  "un0 = hr0\<lparr>leave_types := [(3, \<lparr>lt_name = ''Annual'', lt_allow_half_day = True, lt_allow_negative = True,
       lt_carry_forward_allowed = False, lt_max_carry_forward = 0, lt_max_consecutive = Some 30, lt_gender = None,
       lt_is_active = True, lt_is_deleted = False\<rparr>)]\<rparr>"
definition bc7 :: balance_create where "bc7 = bc0\<lparr>bc_availed := 7\<rparr>"
definition un1 :: hr where "un1 = snd (run_on (create_leave_request un0 lc0) (0, hr0))"
definition un2 :: hr where "un2 = run_on (submit_leave_request un1 100 1000) hr0"
definition un3 :: hr where "un3 = run_on (approve_leave_request un2 100 (Some 9) None 1001) hr0"
definition un4 :: hr where "un4 = snd (run_on (create_leave_balance un3 bc7 None) (0, hr0))"
definition un5 :: hr where "un5 = run_on (cancel_leave_request un4 100 None (day_of 1)) hr0"

lemma un_numbers: "derive_remaining 0 12 0 0 7 0 = 5" "round2 (fl 2) = 2" "derive_remaining 0 12 0 0 2 0 = 10"
  by code_simp+

lemmas un_defs = un5_def un4_def un3_def un2_def un1_def un0_def hr0_def bc7_def run_hr un_numbers Let_def date_order_simps

lemma un_runs:
  "create_leave_request un0 lc0 = Inr (100, un1)" "submit_leave_request un1 100 1000 = Inr un2"
  "approve_leave_request un2 100 (Some 9) None 1001 = Inr un3" "create_leave_balance un3 bc7 None = Inr (101, un4)"
  "cancel_leave_request un4 100 None (day_of 1) = Inr un5"
  by (simp_all add: un_defs)

lemma un_reachable: "hr_reachable un5"
proof -
  have "hr_reachable un0" by (rule hr_reachable.init) (simp add: hr_init_def un0_def hr0_def)
  then have "hr_reachable un1"
    by (rule hr_reachable.step [OF _ hr_step.draft [OF un_runs(1)]])
      (simp add: leave_create_valid_def lc0_def day_of_def date_order_simps)
  then have "hr_reachable un2" by (rule hr_reachable.step [OF _ hr_step.submit [OF un_runs(2)]])
  then have "hr_reachable un3" by (rule hr_reachable.step [OF _ hr_step.approve_leave [OF un_runs(3)]])
  then have "hr_reachable un4"
    by (rule hr_reachable.step [OF _ hr_step.open_balance [OF un_runs(4)]]) (simp add: valid_balance_create_def bc7_def bc0_def)
  then show ?thesis by (rule hr_reachable.step [OF _ hr_step.cancel_leave [OF un_runs(5)]])
qed

definition availed_is :: "hr \<Rightarrow> decimal \<Rightarrow> bool" where
  "availed_is s v = (\<exists>b. get (leave_balances s) 101 = Some b \<and> lb_availed b = v)"

text \<open>Cancelling credits a balance that was never charged: a leave of five days is approved before the
  employee has a balance, a balance with seven availed days is entered afterwards, and the cancellation
  takes the five days off it.\<close>
theorem uncharged_leave_is_credited:
  "hr_reachable un5 \<and> leave_balances un3 = [] \<and> availed_is un4 7 \<and>
   cancel_leave_request un4 100 None (day_of 1) = Inr un5 \<and> availed_is un5 2"
proof (intro conjI un_reachable un_runs)
  show "leave_balances un3 = []" "availed_is un4 7" "availed_is un5 2"
    by (simp_all add: availed_is_def un_defs)
qed

end
