(* ===== verification/Documents.thy ===== *)
theory Documents
  imports ApprovalModel StockMovement
begin

text \<open>
  What purchase and sales documents share: their numbers, made from the highest one in use
  (\<open>get_max_number_suffix\<close> in \<^verbatim>\<open>src/app/repositories/procurement_repos.py\<close> and \<^verbatim>\<open>sales_repos.py\<close>), the user
  on whose behalf they are submitted, and defaults for missing fields.
\<close>

section \<open>Document numbers\<close>

text \<open>\<open>get_max_number_suffix\<close> and the number made from it: the highest numeric suffix after the prefix, plus
  one, padded to five digits.\<close>

definition is_digits :: "string \<Rightarrow> bool" where
  "is_digits s = (s \<noteq> '''' \<and> list_all (\<lambda>c. c \<in> set ''0123456789'') s)"

definition digit_val :: "char \<Rightarrow> nat" where
  "digit_val c = of_char c - 48"

definition parse_nat :: "string \<Rightarrow> nat" where
  "parse_nat s = foldl (\<lambda>n c. 10 * n + digit_val c) 0 s"

definition number_suffix :: "string \<Rightarrow> string \<Rightarrow> nat" where
  "number_suffix prefix num =
     (if take (length prefix) num = prefix \<and> is_digits (drop (length prefix) num)
      then parse_nat (drop (length prefix) num) else 0)"

definition max_number_suffix :: "string \<Rightarrow> string list \<Rightarrow> nat" where
  "max_number_suffix prefix nums = foldl max 0 (map (number_suffix prefix) nums)"

definition pad5 :: "nat \<Rightarrow> string" where
  "pad5 n = replicate (5 - length (str_nat n)) CHR ''0'' @ str_nat n"

definition next_number :: "string \<Rightarrow> string list \<Rightarrow> string" where
  "next_number prefix nums = prefix @ pad5 (max_number_suffix prefix nums + 1)"

definition year_prefix :: "string \<Rightarrow> nat \<Rightarrow> string" where
  "year_prefix doc yr = doc @ ''-'' @ str_nat yr @ ''-''"

lemma parse_nat_append: "parse_nat (s @ [c]) = 10 * parse_nat s + digit_val c"
  by (simp add: parse_nat_def)

lemma digit_table:
  "list_all (\<lambda>d. digit_val (''0123456789'' ! d) = d \<and> ''0123456789'' ! d \<in> set ''0123456789'') [0..<10]"
  by code_simp

lemma digit_char_props: "digit_val (digit_char n) = n mod 10" "digit_char n \<in> set ''0123456789''"
proof -
  have "n mod 10 \<in> set [0..<10]" by simp
  with digit_table show "digit_val (digit_char n) = n mod 10" "digit_char n \<in> set ''0123456789''"
    unfolding list_all_iff digit_char_def by blast+
qed

lemma str_nat_digits: "is_digits (str_nat n)"
proof (induction n rule: str_nat.induct)
  case (1 n)
  then show ?case using digit_char_props(2) [of n]
    by (subst str_nat.simps) (auto simp: is_digits_def)
qed

lemma parse_str_nat: "parse_nat (str_nat n) = n"
proof (induction n rule: str_nat.induct)
  case (1 n)
  show ?case
  proof (cases "n < 10")
    case True
    then show ?thesis by (subst str_nat.simps) (simp add: parse_nat_def digit_char_props)
  next
    case False
    with 1 show ?thesis by (subst str_nat.simps) (simp add: parse_nat_append digit_char_props)
  qed
qed

lemma parse_zeros: "parse_nat (replicate k CHR ''0'' @ s) = parse_nat s"
proof (induction k)
  case (Suc k)
  then show ?case by (simp add: parse_nat_def digit_val_def)
qed simp

lemma digits_zeros: "is_digits s \<Longrightarrow> is_digits (replicate k CHR ''0'' @ s)"
proof (induction k)
  case (Suc k)
  then show ?case by (simp add: is_digits_def)
qed simp

lemma parse_pad5: "parse_nat (pad5 n) = n" "is_digits (pad5 n)"
  using digits_zeros [OF str_nat_digits] by (simp_all add: pad5_def parse_zeros parse_str_nat)

lemma foldl_max_ge: "(m::nat) \<le> foldl max m xs \<and> (\<forall>x\<in>set xs. x \<le> foldl max m xs)"
proof (induction xs arbitrary: m)
  case (Cons y ys)
  from Cons.IH [of "max m y"] show ?case by simp
qed simp

lemma number_suffix_next: "number_suffix prefix (next_number prefix nums) = max_number_suffix prefix nums + 1"
  by (simp add: number_suffix_def next_number_def parse_pad5)

lemma next_number_new: "next_number prefix nums \<notin> set nums"
proof
  assume "next_number prefix nums \<in> set nums"
  then have "number_suffix prefix (next_number prefix nums) \<le> max_number_suffix prefix nums"
    unfolding max_number_suffix_def using foldl_max_ge [of 0] by auto
  then show False by (simp add: number_suffix_next)
qed

section \<open>Users and defaults\<close>

text \<open>The user of the request, or one made up on the spot.\<close>

definition request_user :: "user list \<Rightarrow> uuid option \<Rightarrow> uuid option \<Rightarrow> uuid \<Rightarrow> user" where
  "request_user us i creator fresh =
     (case find (\<lambda>u. i = Some (user_id u)) us of
        Some u \<Rightarrow> u
      | None \<Rightarrow>
        \<lparr>user_id = (case i of Some k \<Rightarrow> k | None \<Rightarrow> (case creator of Some k \<Rightarrow> k | None \<Rightarrow> fresh)),
         is_superuser = False\<rparr>)"

definition is_user :: "user list \<Rightarrow> uuid \<Rightarrow> bool" where
  "is_user us i = list_ex (\<lambda>u. user_id u = i) us"

definition opt_or :: "'a option \<Rightarrow> 'a option \<Rightarrow> 'a option" where
  "opt_or x y = (case x of Some v \<Rightarrow> Some v | None \<Rightarrow> y)"

definition str_or :: "string \<Rightarrow> string \<Rightarrow> string" where
  "str_or x y = (if x = '''' then y else x)"

end
