(* ===== verification/ProcurementModel.thy ===== *)
theory ProcurementModel
  imports WarehouseSystem ApprovalEngine Documents
begin

text \<open>
  The data of procurement: suppliers (\<^verbatim>\<open>src/app/models/supplier.py\<close>), supplier quotations
  (\<^verbatim>\<open>supplier_quotation.py\<close>), purchase orders (\<^verbatim>\<open>purchase_order.py\<close>) and purchase returns
  (\<^verbatim>\<open>purchase_return.py\<close>), beside the state of the warehouse and of the approval engine that purchase
  orders call. Names and descriptions of suppliers and products are left out.
\<close>

section \<open>Rows\<close>

record supplier =
  su_payment_terms :: string
  su_currency :: string
  su_status :: string
  su_is_active :: bool
  su_is_deleted :: bool

datatype item_status = ItPending | ItPartial | ItFull | ItCancelled

record po_item =
  poi_id :: uuid
  poi_product_id :: uuid
  poi_quantity :: decimal
  poi_received :: decimal
  poi_returned :: decimal
  poi_unit_price :: decimal
  poi_discount_pct :: decimal
  poi_tax_pct :: decimal
  poi_total_price :: decimal
  poi_warehouse_id :: uuid
  poi_location_id :: "uuid option"
  poi_expected :: "timestamp option"
  poi_status :: item_status

datatype po_status = PoDraft | PoSubmitted | PoApproved | PoRejected | PoDispatched | PoPartial | PoFull | PoClosed | PoCancelled

record purchase_order =
  po_number :: string
  po_origin_type :: string
  po_origin_id :: "uuid option"
  po_supplier_id :: uuid
  po_order_date :: timestamp
  po_expected :: "timestamp option"
  po_payment_terms :: "string option"
  po_currency :: string
  po_shipping_address :: "string option"
  po_billing_address :: "string option"
  po_subtotal :: decimal
  po_tax :: decimal
  po_discount :: decimal
  po_total :: decimal
  po_status :: po_status
  po_revision :: int
  po_created_by :: "uuid option"
  po_approved_by :: "uuid option"
  po_approved_at :: "timestamp option"
  po_notes :: "string option"
  po_items :: "po_item list"

record quotation_item =
  qi_product_id :: uuid
  qi_quantity :: decimal
  qi_unit_price :: decimal
  qi_discount_pct :: decimal
  qi_tax_pct :: decimal
  qi_total_price :: decimal

record quotation =
  sq_supplier_id :: uuid
  sq_payment_terms :: "string option"
  sq_currency :: string
  sq_status :: string
  sq_notes :: "string option"
  sq_items :: "quotation_item list"

datatype return_status = RetDraft | RetApproved | RetProcessed | RetCancelled

record return_item =
  rti_po_item_id :: uuid
  rti_product_id :: uuid
  rti_quantity :: decimal
  rti_unit_price :: decimal
  rti_reason :: "string option"

record purchase_return =
  rt_number :: string
  rt_order_id :: uuid
  rt_supplier_id :: uuid
  rt_warehouse_id :: uuid
  rt_date :: timestamp
  rt_reason_code :: string
  rt_supplier_ref :: "string option"
  rt_total :: decimal
  rt_status :: return_status
  rt_created_by :: "uuid option"
  rt_approved_by :: "uuid option"
  rt_remarks :: "string option"
  rt_items :: "return_item list"

record proc =
  inv :: wms
  apv :: approvals
  users :: "user list"
  suppliers :: "supplier table"
  quotations :: "quotation table"
  orders :: "purchase_order table"
  purchase_returns :: "purchase_return table"
  proc_next :: uuid
  proc_effects :: "effect list"

definition proc_emit :: "effect list \<Rightarrow> proc \<Rightarrow> proc" where
  "proc_emit es p = p\<lparr>proc_effects := proc_effects p @ es\<rparr>"

lemma proc_emit_frame [simp]:
  "inv (proc_emit es p) = inv p" "apv (proc_emit es p) = apv p" "users (proc_emit es p) = users p"
  "suppliers (proc_emit es p) = suppliers p" "quotations (proc_emit es p) = quotations p"
  "orders (proc_emit es p) = orders p" "purchase_returns (proc_emit es p) = purchase_returns p"
  "proc_next (proc_emit es p) = proc_next p"
  by (simp_all add: proc_emit_def)

text \<open>Fresh keys for a row and its lines.\<close>

definition take_ids :: "nat \<Rightarrow> proc \<Rightarrow> proc" where
  "take_ids n p = p\<lparr>proc_next := proc_next p + n\<rparr>"

lemma take_ids_frame [simp]:
  "inv (take_ids n p) = inv p" "apv (take_ids n p) = apv p" "users (take_ids n p) = users p"
  "suppliers (take_ids n p) = suppliers p" "quotations (take_ids n p) = quotations p" "orders (take_ids n p) = orders p"
  "purchase_returns (take_ids n p) = purchase_returns p" "proc_next (take_ids n p) = proc_next p + n"
  by (simp_all add: take_ids_def)

section \<open>Queries\<close>

definition supplier_of :: "proc \<Rightarrow> uuid \<Rightarrow> supplier option" where
  "supplier_of p i =
     (case get (suppliers p) i of None \<Rightarrow> None | Some s \<Rightarrow> if su_is_deleted s then None else Some s)"

definition find_item :: "uuid \<Rightarrow> po_item list \<Rightarrow> po_item option" where
  "find_item i its = find (\<lambda>it. poi_id it = i) its"

definition net_received :: "po_item \<Rightarrow> decimal" where
  "net_received it = poi_received it - poi_returned it"

text \<open>A supplier that may be ordered from.\<close>

definition check_supplier :: "proc \<Rightarrow> uuid \<Rightarrow> supplier result" where
  "check_supplier p i =
     (case supplier_of p i of
        None \<Rightarrow> Inl (NotFoundException ''Supplier'')
      | Some s \<Rightarrow>
        if \<not> su_is_active s then Inl (ValidationException ''inactive supplier'')
        else if su_status s = ''Blacklisted'' \<or> su_status s = ''Inactive''
          then Inl (ValidationException ''supplier status'')
        else Inr s)"

end
