(* ===== verification/PurchaseOrders.thy ===== *)
theory PurchaseOrders
  imports ProcurementModel
begin

text \<open>
  \<open>PurchaseOrderService\<close> (\<^verbatim>\<open>src/app/services/purchase_order_services.py\<close>): drafting a purchase order,
  its life cycle from submission to closing, amendments, and receiving goods, which runs the warehouse
  execution of a goods receipt line by line. Submission calls the approval engine and ignores what it
  raises. The year of document numbers and the text of the approval comment are parameters.
\<close>

section \<open>Totals\<close>

definition line_gross :: "po_item \<Rightarrow> decimal" where
  "line_gross it = poi_quantity it * poi_unit_price it"

definition line_discount :: "po_item \<Rightarrow> decimal" where
  "line_discount it = line_gross it * (poi_discount_pct it / 100)"

definition line_tax :: "po_item \<Rightarrow> decimal" where
  "line_tax it = (line_gross it - line_discount it) * (poi_tax_pct it / 100)"

definition line_total :: "po_item \<Rightarrow> decimal" where
  "line_total it = line_gross it - line_discount it + line_tax it"

definition calculate_totals :: "po_item list \<Rightarrow> purchase_order \<Rightarrow> purchase_order" where
  "calculate_totals its po =
     (let subtotal = sum_list (map line_gross its);
          disc = sum_list (map line_discount its);
          tax = sum_list (map line_tax its)
      in po\<lparr>po_items := map (\<lambda>it. it\<lparr>poi_total_price := line_total it\<rparr>) its, po_subtotal := subtotal,
           po_tax := tax, po_discount := disc, po_total := subtotal - disc + tax\<rparr>)"

section \<open>Lines of a request\<close>

record po_line =
  pl_product_id :: uuid
  pl_quantity :: decimal
  pl_unit_price :: decimal
  pl_discount_pct :: decimal
  pl_tax_pct :: decimal
  pl_warehouse_id :: uuid
  pl_location_id :: "uuid option"
  pl_expected :: "timestamp option"

definition check_order_line :: "proc \<Rightarrow> po_line \<Rightarrow> unit result" where
  "check_order_line p l =
     (case get (products (stock (inv p))) (pl_product_id l) of
        None \<Rightarrow> Inl (NotFoundException ''Product'')
      | Some x \<Rightarrow>
        if \<not> p_is_active x then Inl (ValidationException ''Product is inactive.'')
        else case get (warehouses (stock (inv p))) (pl_warehouse_id l) of
          None \<Rightarrow> Inl (NotFoundException ''Warehouse'')
        | Some wh \<Rightarrow>
          if \<not> wh_is_active wh then Inl (ValidationException ''Warehouse is inactive.'')
          else if pl_quantity l \<le> 0 then Inl (ValidationException ''Item quantity must be greater than zero.'')
          else if pl_unit_price l < 0 then Inl (ValidationException ''Item unit price cannot be negative.'')
          else if pl_discount_pct l < 0 \<or> pl_discount_pct l > 100
            then Inl (ValidationException ''Item discount percentage must be between 0 and 100.'')
          else if pl_tax_pct l < 0 \<or> pl_tax_pct l > 100
            then Inl (ValidationException ''Item tax percentage must be between 0 and 100.'')
          else Inr ())"

text \<open>Amendments check less.\<close>

definition check_amended_line :: "proc \<Rightarrow> po_line \<Rightarrow> unit result" where
  "check_amended_line p l =
     (if get (products (stock (inv p))) (pl_product_id l) = None then Inl (NotFoundException ''Product'')
      else if get (warehouses (stock (inv p))) (pl_warehouse_id l) = None then Inl (NotFoundException ''Warehouse'')
      else if pl_quantity l \<le> 0 then Inl (ValidationException ''Item quantity must be greater than zero.'')
      else if pl_unit_price l < 0 then Inl (ValidationException ''Item unit price cannot be negative.'')
      else Inr ())"

definition new_item :: "timestamp option \<Rightarrow> uuid \<Rightarrow> po_line \<Rightarrow> po_item" where
  "new_item expected i l =
     \<lparr>poi_id = i, poi_product_id = pl_product_id l, poi_quantity = pl_quantity l, poi_received = 0,
      poi_returned = 0, poi_unit_price = pl_unit_price l, poi_discount_pct = pl_discount_pct l,
      poi_tax_pct = pl_tax_pct l, poi_total_price = 0, poi_warehouse_id = pl_warehouse_id l,
      poi_location_id = pl_location_id l, poi_expected = opt_or (pl_expected l) expected, poi_status = ItPending\<rparr>"

definition new_items :: "timestamp option \<Rightarrow> uuid \<Rightarrow> po_line list \<Rightarrow> po_item list" where
  "new_items expected n ls = map2 (new_item expected) [n..<n + length ls] ls"

section \<open>Creating an order\<close>

record po_create =
  oc_origin_type :: string
  oc_origin_id :: "uuid option"
  oc_supplier_id :: uuid
  oc_order_date :: "timestamp option"
  oc_expected :: "timestamp option"
  oc_payment_terms :: "string option"
  oc_currency :: string
  oc_shipping_address :: "string option"
  oc_billing_address :: "string option"
  oc_notes :: "string option"
  oc_items :: "po_line list"

definition po_numbers :: "proc \<Rightarrow> string list" where
  "po_numbers p = map (\<lambda>(i, po). po_number po) (orders p)"

definition draft_order :: "po_create \<Rightarrow> string \<Rightarrow> supplier \<Rightarrow> uuid option \<Rightarrow> timestamp \<Rightarrow> purchase_order" where
  "draft_order c num v user now =
     \<lparr>po_number = num, po_origin_type = oc_origin_type c, po_origin_id = oc_origin_id c,
      po_supplier_id = oc_supplier_id c, po_order_date = (case oc_order_date c of Some d \<Rightarrow> d | None \<Rightarrow> now),
      po_expected = oc_expected c, po_payment_terms = py_or (oc_payment_terms c) (Some (su_payment_terms v)),
      po_currency = str_or (oc_currency c) (str_or (su_currency v) ''USD''),
      po_shipping_address = oc_shipping_address c, po_billing_address = oc_billing_address c,
      po_subtotal = 0, po_tax = 0, po_discount = 0, po_total = 0, po_status = PoDraft, po_revision = 1,
      po_created_by = user, po_approved_by = None, po_approved_at = None, po_notes = oc_notes c, po_items = []\<rparr>"

definition create_order :: "proc \<Rightarrow> po_create \<Rightarrow> uuid option \<Rightarrow> timestamp \<Rightarrow> nat \<Rightarrow> (uuid \<times> proc) result" where
  "create_order p c user now yr =
     and_then (check_supplier p (oc_supplier_id c)) (\<lambda>v.
       if oc_items c = [] then Inl (ValidationException ''Purchase Order must contain at least one item.'')
       else let i = proc_next p; num = next_number (year_prefix ''PO'' yr) (po_numbers p) in
         and_then (each (check_order_line p) (oc_items c)) (\<lambda>_.
           let po = calculate_totals (new_items (oc_expected c) (i + 1) (oc_items c)) (draft_order c num v user now)
           in Inr (i, proc_emit [Audit ''PURCHASE_ORDER_CREATE'' ''PurchaseOrder'' i]
                ((take_ids (1 + length (oc_items c)) p)\<lparr>orders := add_row i po (orders p)\<rparr>))))"

record from_quotation =
  fq_warehouse_id :: uuid
  fq_expected :: "timestamp option"
  fq_shipping_address :: "string option"
  fq_billing_address :: "string option"
  fq_notes :: "string option"

definition get_by_origin :: "proc \<Rightarrow> string \<Rightarrow> uuid \<Rightarrow> purchase_order list" where
  "get_by_origin p ty i =
     filter (\<lambda>po. po_origin_type po = ty \<and> po_origin_id po = Some i \<and> po_status po \<noteq> PoCancelled) (map snd (orders p))"

definition quoted_item :: "from_quotation \<Rightarrow> uuid \<Rightarrow> quotation_item \<Rightarrow> po_item" where
  "quoted_item f i q =
     \<lparr>poi_id = i, poi_product_id = qi_product_id q, poi_quantity = qi_quantity q, poi_received = 0, poi_returned = 0,
      poi_unit_price = qi_unit_price q, poi_discount_pct = qi_discount_pct q, poi_tax_pct = qi_tax_pct q,
      poi_total_price = qi_total_price q, poi_warehouse_id = fq_warehouse_id f, poi_location_id = None,
      poi_expected = fq_expected f, poi_status = ItPending\<rparr>"

definition quoted_items :: "from_quotation \<Rightarrow> uuid \<Rightarrow> quotation_item list \<Rightarrow> po_item list" where
  "quoted_items f n qs = map2 (quoted_item f) [n..<n + length qs] qs"

definition quoted_order :: "from_quotation \<Rightarrow> uuid \<Rightarrow> quotation \<Rightarrow> string \<Rightarrow> supplier \<Rightarrow> uuid option \<Rightarrow> timestamp \<Rightarrow> purchase_order" where
  "quoted_order f qi q num v user now =
     \<lparr>po_number = num, po_origin_type = ''Quotation'', po_origin_id = Some qi, po_supplier_id = sq_supplier_id q,
      po_order_date = now, po_expected = fq_expected f,
      po_payment_terms = py_or (sq_payment_terms q) (Some (su_payment_terms v)),
      po_currency = str_or (sq_currency q) ''USD'', po_shipping_address = fq_shipping_address f,
      po_billing_address = fq_billing_address f, po_subtotal = 0, po_tax = 0, po_discount = 0, po_total = 0,
      po_status = PoDraft, po_revision = 1, po_created_by = user, po_approved_by = None, po_approved_at = None,
      po_notes = py_or (fq_notes f) (sq_notes q), po_items = []\<rparr>"

text \<open>The query for an order with the same origin raises when it finds two.\<close>

definition create_from_quotation ::
  "proc \<Rightarrow> uuid \<Rightarrow> from_quotation \<Rightarrow> uuid option \<Rightarrow> timestamp \<Rightarrow> nat \<Rightarrow> (uuid \<times> proc) result" where
  "create_from_quotation p qi f user now yr =
     (case get (quotations p) qi of
        None \<Rightarrow> Inl (NotFoundException ''Supplier Quotation'')
      | Some q \<Rightarrow>
        if sq_status q \<noteq> ''Approved'' then Inl (ValidationException ''Quotation must be Approved/Awarded.'')
        else if length (get_by_origin p ''Quotation'' qi) > 1 then Inl (IntegrityErr ''MultipleResultsFound'')
        else if get_by_origin p ''Quotation'' qi \<noteq> []
          then Inl (ValidationException ''A Purchase Order has already been created from this quotation.'')
        else and_then (check_supplier p (sq_supplier_id q)) (\<lambda>v.
          case get (warehouses (stock (inv p))) (fq_warehouse_id f) of
            None \<Rightarrow> Inl (NotFoundException ''Warehouse'')
          | Some wh \<Rightarrow>
            if \<not> wh_is_active wh then Inl (ValidationException ''Warehouse is inactive.'')
            else if sq_items q = [] then Inl (ValidationException ''Quotation contains no line items'')
            else if \<exists>it\<in>set (sq_items q). get (products (stock (inv p))) (qi_product_id it) = None
              then Inl (NotFoundException ''Product'')
            else let i = proc_next p;
                     num = next_number (year_prefix ''PO'' yr) (po_numbers p);
                     po = calculate_totals (quoted_items f (i + 1) (sq_items q)) (quoted_order f qi q num v user now)
                 in Inr (i, proc_emit [Audit ''PURCHASE_ORDER_CREATE'' ''PurchaseOrder'' i]
                      ((take_ids (1 + length (sq_items q)) p)\<lparr>orders := add_row i po (orders p)\<rparr>))))"

section \<open>Changing an order\<close>

definition get_order :: "proc \<Rightarrow> uuid \<Rightarrow> purchase_order result" where
  "get_order p i = (case get (orders p) i of None \<Rightarrow> Inl (NotFoundException ''Purchase Order'') | Some po \<Rightarrow> Inr po)"

definition put_order :: "uuid \<Rightarrow> purchase_order \<Rightarrow> proc \<Rightarrow> proc" where
  "put_order i po p = p\<lparr>orders := modify i (\<lambda>_. po) (orders p)\<rparr>"

record po_update =
  ou_supplier_id :: "uuid option"
  ou_order_date :: "timestamp option"
  ou_expected :: "timestamp option"
  ou_payment_terms :: "string option"
  ou_currency :: "string option"
  ou_shipping_address :: "string option"
  ou_billing_address :: "string option"
  ou_notes :: "string option"
  ou_items :: "po_line list option"

definition apply_po_update :: "po_update \<Rightarrow> purchase_order \<Rightarrow> purchase_order" where
  "apply_po_update u po =
     po\<lparr>po_supplier_id := (case ou_supplier_id u of Some s \<Rightarrow> s | None \<Rightarrow> po_supplier_id po),
        po_order_date := (case ou_order_date u of Some d \<Rightarrow> d | None \<Rightarrow> po_order_date po),
        po_expected := opt_or (ou_expected u) (po_expected po),
        po_payment_terms := opt_or (ou_payment_terms u) (po_payment_terms po),
        po_currency := (if truthy (ou_currency u) then the (ou_currency u) else po_currency po),
        po_shipping_address := opt_or (ou_shipping_address u) (po_shipping_address po),
        po_billing_address := opt_or (ou_billing_address u) (po_billing_address po),
        po_notes := opt_or (ou_notes u) (po_notes po)\<rparr>"

text \<open>New lines replace the old ones and are priced again.\<close>

definition replace_lines :: "(po_line \<Rightarrow> unit result) \<Rightarrow> po_line list option \<Rightarrow> uuid \<Rightarrow> purchase_order \<Rightarrow> purchase_order result" where
  "replace_lines check lines n po =
     (case lines of
        None \<Rightarrow> Inr po
      | Some ls \<Rightarrow>
        if ls = [] then Inl (ValidationException ''Purchase Order must contain at least one item.'')
        else and_then (each check ls) (\<lambda>_. Inr (calculate_totals (new_items (po_expected po) n ls) po)))"

definition line_count :: "po_line list option \<Rightarrow> nat" where
  "line_count lines = (case lines of None \<Rightarrow> 0 | Some ls \<Rightarrow> length ls)"

definition update_order :: "proc \<Rightarrow> uuid \<Rightarrow> po_update \<Rightarrow> proc result" where
  "update_order p i u =
     and_then (get_order p i) (\<lambda>po.
       if po_status po \<noteq> PoDraft then Inl (ValidationException ''Only Draft orders can be updated directly.'')
       else and_then (case ou_supplier_id u of
              Some s \<Rightarrow> if s = po_supplier_id po then Inr () else and_then (check_supplier p s) (\<lambda>_. Inr ())
            | None \<Rightarrow> Inr ()) (\<lambda>_.
         and_then (replace_lines (check_order_line p) (ou_items u) (proc_next p) (apply_po_update u po)) (\<lambda>po'.
           Inr (proc_emit [Audit ''PURCHASE_ORDER_UPDATE'' ''PurchaseOrder'' i]
             (put_order i po' (take_ids (line_count (ou_items u)) p))))))"

section \<open>Submission and approval\<close>

definition po_request :: "uuid \<Rightarrow> string option \<Rightarrow> request_create" where
  "po_request i comments =
     \<lparr>rq_workflow_code = ''WF_PURCHASE_ORDER'', rq_entity_type = ''PurchaseOrder'', rq_entity_id = str_nat i,
      rq_comments = comments\<rparr>"

text \<open>The status is committed before the engine is called. Whatever the engine raises is logged only, but a
  failed flush (a submitter that is no user) makes the commit after it raise.\<close>

definition submit_order :: "proc \<Rightarrow> uuid \<Rightarrow> uuid option \<Rightarrow> string option \<Rightarrow> timestamp \<Rightarrow> unit result \<times> proc" where
  "submit_order p i user comments now =
     (case and_then (get_order p i) (\<lambda>po.
            if po_status po \<noteq> PoDraft \<and> po_status po \<noteq> PoRejected
              then Inl (ValidationException ''Only Draft or Rejected orders can be submitted.'')
            else and_then (check_supplier p (po_supplier_id po)) (\<lambda>_.
              if po_items po = [] then Inl (ValidationException ''Purchase Order must contain at least one item'')
              else Inr po)) of
        Inl e \<Rightarrow> (Inl e, p)
      | Inr po \<Rightarrow>
        let p1 = put_order i (po\<lparr>po_status := PoSubmitted\<rparr>) p;
            u = request_user (users p) user (po_created_by po) (proc_next p);
            done = proc_emit [Audit ''PURCHASE_ORDER_SUBMIT'' ''PurchaseOrder'' i]
        in case start_workflow (apv p1) (po_request i comments) u now of
            Inl _ \<Rightarrow> (Inr (), done p1)
          | Inr (_, a) \<Rightarrow>
            if is_user (users p) (user_id u) then (Inr (), done (p1\<lparr>apv := a\<rparr>))
            else (Inl (IntegrityErr ''approval_requests.submitted_by''), p1))"

text \<open>A call that checks the status and writes the row.\<close>

definition change_order :: "proc \<Rightarrow> uuid \<Rightarrow> (purchase_order \<Rightarrow> purchase_order result) \<Rightarrow> effect list \<Rightarrow> proc result" where
  "change_order p i f es =
     and_then (get_order p i) (\<lambda>po. and_then (f po) (\<lambda>po'. Inr (proc_emit es (put_order i po' p))))"

definition approved_order :: "uuid option \<Rightarrow> timestamp \<Rightarrow> purchase_order \<Rightarrow> purchase_order result" where
  "approved_order approver now po =
     (if po_status po \<in> {PoApproved, PoClosed, PoCancelled, PoDispatched}
      then Inl (ValidationException ''Purchase Order is already in this state.'')
      else Inr (po\<lparr>po_status := PoApproved, po_approved_by := approver, po_approved_at := Some now\<rparr>))"

definition approve_order :: "proc \<Rightarrow> uuid \<Rightarrow> uuid option \<Rightarrow> timestamp \<Rightarrow> proc result" where
  "approve_order p i approver now =
     change_order p i (approved_order approver now)
       [Audit ''PURCHASE_ORDER_APPROVE'' ''PurchaseOrder'' i, Publish ''PurchaseOrderApproved'' i]"

definition append_note :: "string \<Rightarrow> string option \<Rightarrow> string option" where
  "append_note txt notes = Some (if truthy notes then the notes @ [CHR 0x0A] @ txt else txt)"

definition rejected_order :: "string option \<Rightarrow> purchase_order \<Rightarrow> purchase_order result" where
  "rejected_order reason po =
     (if po_status po \<noteq> PoSubmitted then Inl (ValidationException ''Only Submitted orders can be rejected.'')
      else Inr (po\<lparr>po_status := PoRejected,
        po_notes := (if truthy reason then append_note (''Rejection Reason: '' @ the reason) (po_notes po) else po_notes po)\<rparr>))"

definition reject_order :: "proc \<Rightarrow> uuid \<Rightarrow> string option \<Rightarrow> proc result" where
  "reject_order p i reason =
     change_order p i (rejected_order reason) [Audit ''PURCHASE_ORDER_REJECT'' ''PurchaseOrder'' i]"

section \<open>Amendment\<close>

record po_amend =
  oa_expected :: "timestamp option"
  oa_payment_terms :: "string option"
  oa_shipping_address :: "string option"
  oa_billing_address :: "string option"
  oa_notes :: "string option"
  oa_reason :: "string option"
  oa_items :: "po_line list option"

definition total_received :: "purchase_order \<Rightarrow> decimal" where
  "total_received po = sum_list (map poi_received (po_items po))"

definition apply_amendment :: "po_amend \<Rightarrow> purchase_order \<Rightarrow> purchase_order" where
  "apply_amendment a po =
     (let n = po_revision po + 1; notes = opt_or (oa_notes a) (po_notes po)
      in po\<lparr>po_revision := n, po_status := PoDraft, po_approved_by := None, po_approved_at := None,
           po_expected := opt_or (oa_expected a) (po_expected po),
           po_payment_terms := opt_or (oa_payment_terms a) (po_payment_terms po),
           po_shipping_address := opt_or (oa_shipping_address a) (po_shipping_address po),
           po_billing_address := opt_or (oa_billing_address a) (po_billing_address po),
           po_notes := (if truthy (oa_reason a)
             then append_note (''Amendment Rev '' @ str_nat (nat n) @ '': '' @ the (oa_reason a)) notes else notes)\<rparr>)"

definition amend_order :: "proc \<Rightarrow> uuid \<Rightarrow> po_amend \<Rightarrow> proc result" where
  "amend_order p i a =
     and_then (get_order p i) (\<lambda>po.
       if po_status po \<noteq> PoApproved \<and> po_status po \<noteq> PoDispatched
         then Inl (ValidationException ''Only Approved or Dispatched Purchase Orders can be amended.'')
       else if total_received po > 0
         then Inl (ValidationException ''Cannot amend a Purchase Order after physical receiving has started.'')
       else and_then (replace_lines (check_amended_line p) (oa_items a) (proc_next p) (apply_amendment a po)) (\<lambda>po'.
         Inr (proc_emit [Audit ''PURCHASE_ORDER_AMEND'' ''PurchaseOrder'' i]
           (put_order i po' (take_ids (line_count (oa_items a)) p)))))"

section \<open>Dispatch, cancellation, closing\<close>

definition set_status_if :: "po_status set \<Rightarrow> po_status \<Rightarrow> purchase_order \<Rightarrow> purchase_order result" where
  "set_status_if allowed st po =
     (if po_status po \<in> allowed then Inr (po\<lparr>po_status := st\<rparr>) else Inl (ValidationException ''status''))"

definition dispatch_order :: "proc \<Rightarrow> uuid \<Rightarrow> proc result" where
  "dispatch_order p i =
     change_order p i (set_status_if {PoApproved} PoDispatched) [Audit ''PURCHASE_ORDER_DISPATCH'' ''PurchaseOrder'' i]"

definition cancelled_order :: "purchase_order \<Rightarrow> purchase_order result" where
  "cancelled_order po =
     (if po_status po = PoClosed \<or> po_status po = PoCancelled then Inl (ValidationException ''Cannot cancel PO in this state.'')
      else if total_received po > 0
        then Inl (ValidationException ''Cannot cancel a Purchase Order that has received physical goods.'')
      else Inr (po\<lparr>po_status := PoCancelled, po_items := map (\<lambda>it. it\<lparr>poi_status := ItCancelled\<rparr>) (po_items po)\<rparr>))"

definition cancel_order :: "proc \<Rightarrow> uuid \<Rightarrow> proc result" where
  "cancel_order p i =
     change_order p i cancelled_order
       [Audit ''PURCHASE_ORDER_CANCEL'' ''PurchaseOrder'' i, Publish ''PurchaseOrderCancelled'' i]"

definition close_order :: "proc \<Rightarrow> uuid \<Rightarrow> proc result" where
  "close_order p i =
     change_order p i (\<lambda>po. if po_status po = PoClosed \<or> po_status po = PoCancelled
       then Inl (ValidationException ''Order is already closed'') else Inr (po\<lparr>po_status := PoClosed\<rparr>)) []"

definition reopen_order :: "proc \<Rightarrow> uuid \<Rightarrow> proc result" where
  "reopen_order p i =
     change_order p i (\<lambda>po. if po_status po \<noteq> PoClosed
       then Inl (ValidationException ''Only Closed Purchase Orders can be reopened.'')
       else Inr (po\<lparr>po_status := PoApproved, po_revision := po_revision po + 1\<rparr>)) []"

end
