(* ===== verification/PurchaseReceiving.thy ===== *)
theory PurchaseReceiving
  imports PurchaseOrders
begin

text \<open>
  Goods against a purchase order: \<open>PurchaseOrderService.receive_goods\<close>
  (\<^verbatim>\<open>src/app/services/purchase_order_services.py\<close>) and \<open>PurchaseReturnService\<close>
  (\<^verbatim>\<open>src/app/services/purchase_return_services.py\<close>), which move stock through the warehouse execution
  and the stock engine and keep the received and returned quantities of the order lines.
\<close>

section \<open>Receiving\<close>

record receive_line =
  rv_item_id :: uuid
  rv_quantity :: decimal
  rv_location_id :: "uuid option"
  rv_batch_id :: "uuid option"
  rv_batch_number :: "string option"
  rv_expiry :: "timestamp option"
  rv_serials :: "string list"
  rv_remarks :: "string option"

definition remaining :: "po_item \<Rightarrow> decimal" where
  "remaining it = poi_quantity it - poi_received it + poi_returned it"

text \<open>Every line is checked against the order as it was before the call.\<close>

definition check_receive_line :: "proc \<Rightarrow> purchase_order \<Rightarrow> receive_line \<Rightarrow> receipt_item result" where
  "check_receive_line p po rv =
     (if rv_quantity rv \<le> 0 then Inl (ValidationException ''Received quantity must be strictly greater than zero.'')
      else case find_item (rv_item_id rv) (po_items po) of
        None \<Rightarrow> Inl (NotFoundException ''PO Item'')
      | Some it \<Rightarrow>
        if rv_quantity rv > remaining it then Inl (ValidationException ''Received quantity exceeds remaining order quantity'')
        else case get (products (stock (inv p))) (poi_product_id it) of
          None \<Rightarrow> Inl (NotFoundException ''Product'')
        | Some x \<Rightarrow>
          if \<not> p_is_active x then Inl (ValidationException ''Product is inactive.'')
          else if is_batch_tracked x \<and> rv_batch_id rv = None \<and> \<not> truthy (rv_batch_number rv)
            then Inl (ValidationException ''batch information is required.'')
          else if is_serial_tracked x \<and> rv_serials rv = []
            then Inl (ValidationException ''serial numbers are required.'')
          else if is_serial_tracked x \<and> int (length (rv_serials rv)) \<noteq> \<lfloor>rv_quantity rv\<rfloor>
            then Inl (ValidationException ''Serial count does not match received quantity'')
          else if is_serial_tracked x \<and> \<not> distinct (rv_serials rv)
            then Inl (ValidationException ''Duplicate serial numbers provided in receiving list.'')
          else Inr \<lparr>ri_product_id = poi_product_id it, ri_location_id = rv_location_id rv, ri_quantity = rv_quantity rv,
                 ri_unit_id = Some (base_unit_id x), ri_unit_cost = Some (poi_unit_price it),
                 ri_batch_id = rv_batch_id rv, ri_batch_number = rv_batch_number rv, ri_expiry_date = rv_expiry rv,
                 ri_serial_numbers = rv_serials rv,
                 ri_remarks = py_or (rv_remarks rv) (Some (''Received against PO #'' @ po_number po))\<rparr>)"

fun map_res :: "('a \<Rightarrow> 'b result) \<Rightarrow> 'a list \<Rightarrow> 'b list result" where
  "map_res f [] = Inr []"
| "map_res f (x # xs) =
     (case f x of Inl e \<Rightarrow> Inl e | Inr y \<Rightarrow> (case map_res f xs of Inl e \<Rightarrow> Inl e | Inr ys \<Rightarrow> Inr (y # ys)))"

text \<open>The receipt goes to the warehouse of the first line of the order, whatever line is received.\<close>

definition po_receipt ::
  "purchase_order \<Rightarrow> string \<Rightarrow> string option \<Rightarrow> string option \<Rightarrow> receipt_item list \<Rightarrow> uuid option \<Rightarrow> timestamp \<Rightarrow> receipt" where
  "po_receipt po num ref remarks its user now =
     \<lparr>gr_number = num, gr_warehouse_id = poi_warehouse_id (hd (po_items po)), gr_supplier_reference = ref,
      gr_external_reference = Some (po_number po), gr_date = now, gr_status = DocDraft,
      gr_remarks = py_or remarks (Some (''Goods Receipt against Purchase Order #'' @ po_number po)),
      gr_created_by = user, gr_approved_by = user, gr_approved_at = Some now, gr_items = its\<rparr>"

definition receive_item :: "decimal \<Rightarrow> po_item \<Rightarrow> po_item" where
  "receive_item q it =
     (let r = poi_received it + q
      in it\<lparr>poi_received := r,
            poi_status := (if poi_quantity it \<le> r then ItFull else if 0 < r then ItPartial else poi_status it)\<rparr>)"

definition on_item :: "uuid \<Rightarrow> (po_item \<Rightarrow> po_item) \<Rightarrow> po_item list \<Rightarrow> po_item list" where
  "on_item i f its = map (\<lambda>it. if poi_id it = i then f it else it) its"

definition receive_items :: "receive_line list \<Rightarrow> po_item list \<Rightarrow> po_item list" where
  "receive_items rvs its = fold (\<lambda>rv. on_item (rv_item_id rv) (receive_item (rv_quantity rv))) rvs its"

definition received_order :: "receive_line list \<Rightarrow> purchase_order \<Rightarrow> purchase_order" where
  "received_order rvs po =
     (let its = receive_items rvs (po_items po)
      in po\<lparr>po_items := its,
            po_status := (if list_all (\<lambda>it. poi_quantity it \<le> poi_received it) its then PoFull else PoPartial)\<rparr>)"

definition receive_checks :: "proc \<Rightarrow> uuid \<Rightarrow> receive_line list \<Rightarrow> (purchase_order \<times> receipt_item list) result" where
  "receive_checks p i rvs =
     (if rvs = [] then Inl (ValidationException ''At least one line item is required for receiving.'')
      else and_then (get_order p i) (\<lambda>po.
        if po_status po \<noteq> PoApproved \<and> po_status po \<noteq> PoDispatched \<and> po_status po \<noteq> PoPartial
          then Inl (ValidationException ''PO must be Approved, Dispatched, or Partially Received.'')
        else and_then (check_supplier p (po_supplier_id po)) (\<lambda>_.
          and_then (map_res (check_receive_line p po) rvs) (\<lambda>its. Inr (po, its)))))"

definition receive_goods ::
  "proc \<Rightarrow> uuid \<Rightarrow> receive_line list \<Rightarrow> string option \<Rightarrow> string option \<Rightarrow> uuid option \<Rightarrow> timestamp \<Rightarrow> nat
    \<Rightarrow> uuid result \<times> proc" where
  "receive_goods p i rvs ref remarks user now yr =
     (case receive_checks p i rvs of
        Inl e \<Rightarrow> (Inl e, p)
      | Inr (po, its) \<Rightarrow>
        let k = fresh_id (inv p);
            num = next_number (year_prefix ''GRN'' yr) (map (\<lambda>(i, r). gr_number r) (receipts (inv p)));
            r = po_receipt po num ref remarks its user now;
            w0 = (take_id (inv p))\<lparr>receipts := add_row k r (receipts (inv p))\<rparr>
        in case execute_goods_receipt k r user now its (w0, inv p) of
            (Inl e, saved) \<Rightarrow> (Inl e, p\<lparr>inv := saved\<rparr>)
          | (Inr w1, _) \<Rightarrow>
            (Inr k, proc_emit [Audit ''PURCHASE_RECEIPT_CREATE'' ''GoodsReceipt'' k, Audit ''PURCHASE_RECEIPT_POST'' ''GoodsReceipt'' k,
                 Audit (if po_status (received_order rvs po) = PoFull then ''PURCHASE_ORDER_FULLY_RECEIVED'' else ''PURCHASE_ORDER_PARTIAL_RECEIVE'') ''PurchaseOrder'' i, Publish ''GoodsReceived'' k]
               (put_order i (received_order rvs po)
                 (p\<lparr>inv := w1\<lparr>receipts := modify k (\<lambda>r. r\<lparr>gr_status := DocReceived\<rparr>) (receipts w1)\<rparr>\<rparr>))))"

section \<open>Returns\<close>

record return_line =
  rl_po_item_id :: uuid
  rl_product_id :: uuid
  rl_quantity :: decimal
  rl_unit_price :: decimal
  rl_reason :: "string option"

record return_create =
  rtc_order_id :: uuid
  rtc_supplier_id :: uuid
  rtc_warehouse_id :: uuid
  rtc_reason_code :: string
  rtc_supplier_ref :: "string option"
  rtc_remarks :: "string option"
  rtc_items :: "return_line list"

definition check_return_line :: "proc \<Rightarrow> purchase_order \<Rightarrow> return_line \<Rightarrow> unit result" where
  "check_return_line p po l =
     (case find_item (rl_po_item_id l) (po_items po) of
        None \<Rightarrow> Inl (NotFoundException ''PO Item'')
      | Some it \<Rightarrow>
        if poi_product_id it \<noteq> rl_product_id l
          then Inl (ValidationException ''Product ID does not match the purchase order item product.'')
        else if get (products (stock (inv p))) (rl_product_id l) = None then Inl (NotFoundException ''Product'')
        else if rl_quantity l \<le> 0 then Inl (ValidationException ''Return quantity must be strictly greater than zero.'')
        else if rl_quantity l > net_received it then Inl (ValidationException ''Return quantity exceeds net received stock'')
        else if rl_unit_price l < 0 then Inl (ValidationException ''Unit price cannot be negative.'')
        else Inr ())"

definition return_item_of :: "string \<Rightarrow> return_line \<Rightarrow> return_item" where
  "return_item_of code l =
     \<lparr>rti_po_item_id = rl_po_item_id l, rti_product_id = rl_product_id l, rti_quantity = rl_quantity l,
      rti_unit_price = rl_unit_price l, rti_reason = py_or (rl_reason l) (Some code)\<rparr>"

definition return_total :: "return_line list \<Rightarrow> decimal" where
  "return_total ls = sum_list (map (\<lambda>l. rl_quantity l * rl_unit_price l) ls)"

definition new_return :: "return_create \<Rightarrow> string \<Rightarrow> uuid option \<Rightarrow> timestamp \<Rightarrow> purchase_return" where
  "new_return c num user now =
     \<lparr>rt_number = num, rt_order_id = rtc_order_id c, rt_supplier_id = rtc_supplier_id c,
      rt_warehouse_id = rtc_warehouse_id c, rt_date = now, rt_reason_code = rtc_reason_code c,
      rt_supplier_ref = rtc_supplier_ref c, rt_total = return_total (rtc_items c), rt_status = RetDraft,
      rt_created_by = user, rt_approved_by = None, rt_remarks = rtc_remarks c,
      rt_items = map (return_item_of (rtc_reason_code c)) (rtc_items c)\<rparr>"

definition create_return :: "proc \<Rightarrow> return_create \<Rightarrow> uuid option \<Rightarrow> timestamp \<Rightarrow> nat \<Rightarrow> (uuid \<times> proc) result" where
  "create_return p c user now yr =
     and_then (get_order p (rtc_order_id c)) (\<lambda>po.
       if po_status po \<notin> {PoApproved, PoDispatched, PoPartial, PoFull}
         then Inl (ValidationException ''PO must be Approved, Dispatched, or Received.'')
       else if supplier_of p (rtc_supplier_id c) = None then Inl (NotFoundException ''Supplier'')
       else if po_supplier_id po \<noteq> rtc_supplier_id c
         then Inl (ValidationException ''Supplier does not match the purchase order supplier.'')
       else case get (warehouses (stock (inv p))) (rtc_warehouse_id c) of
           None \<Rightarrow> Inl (NotFoundException ''Warehouse'')
         | Some wh \<Rightarrow>
           if \<not> wh_is_active wh then Inl (ValidationException ''Warehouse is inactive.'')
           else if rtc_items c = [] then Inl (ValidationException ''At least one return item is required.'')
           else and_then (each (check_return_line p po) (rtc_items c)) (\<lambda>_.
             let i = proc_next p;
                 num = next_number (year_prefix ''PRTN'' yr) (map (\<lambda>(i, r). rt_number r) (purchase_returns p))
             in Inr (i, proc_emit [Audit ''PURCHASE_RETURN_CREATE'' ''PurchaseReturn'' i]
                  ((take_ids 1 p)\<lparr>purchase_returns := add_row i (new_return c num user now) (purchase_returns p)\<rparr>))))"

record return_update =
  rtu_reason_code :: "string option"
  rtu_supplier_ref :: "string option"
  rtu_remarks :: "string option"
  rtu_items :: "return_line list option"

definition get_return :: "proc \<Rightarrow> uuid \<Rightarrow> purchase_return result" where
  "get_return p i =
     (case get (purchase_returns p) i of None \<Rightarrow> Inl (NotFoundException ''Purchase Return'') | Some r \<Rightarrow> Inr r)"

definition check_edited_line :: "purchase_order \<Rightarrow> return_line \<Rightarrow> unit result" where
  "check_edited_line po l =
     (case find_item (rl_po_item_id l) (po_items po) of
        None \<Rightarrow> Inl (NotFoundException ''PO Item'')
      | Some it \<Rightarrow>
        if rl_quantity l > net_received it then Inl (ValidationException ''Return quantity exceeds net received stock'')
        else Inr ())"

definition edited_lines :: "proc \<Rightarrow> return_line list option \<Rightarrow> purchase_return \<Rightarrow> purchase_return result" where
  "edited_lines p lines r =
     (case lines of
        None \<Rightarrow> Inr r
      | Some ls \<Rightarrow>
        if ls = [] then Inl (ValidationException ''Purchase Return must contain at least one item.'')
        else case get (orders p) (rt_order_id r) of
          None \<Rightarrow> Inl (AttributeErr ''items'')
        | Some po \<Rightarrow>
          and_then (each (check_edited_line po) ls) (\<lambda>_.
            Inr (r\<lparr>rt_items := map (return_item_of (rt_reason_code r)) ls, rt_total := return_total ls\<rparr>)))"

definition apply_return_update :: "return_update \<Rightarrow> purchase_return \<Rightarrow> purchase_return" where
  "apply_return_update u r =
     r\<lparr>rt_reason_code := (case rtu_reason_code u of Some c \<Rightarrow> c | None \<Rightarrow> rt_reason_code r),
       rt_supplier_ref := opt_or (rtu_supplier_ref u) (rt_supplier_ref r),
       rt_remarks := opt_or (rtu_remarks u) (rt_remarks r)\<rparr>"

definition put_return :: "uuid \<Rightarrow> purchase_return \<Rightarrow> proc \<Rightarrow> proc" where
  "put_return i r p = p\<lparr>purchase_returns := modify i (\<lambda>_. r) (purchase_returns p)\<rparr>"

definition update_return :: "proc \<Rightarrow> uuid \<Rightarrow> return_update \<Rightarrow> proc result" where
  "update_return p i u =
     and_then (get_return p i) (\<lambda>r.
       if rt_status r \<noteq> RetDraft then Inl (ValidationException ''Only Draft returns can be edited.'')
       else and_then (edited_lines p (rtu_items u) (apply_return_update u r)) (\<lambda>r'. Inr (put_return i r' p)))"

definition approve_return :: "proc \<Rightarrow> uuid \<Rightarrow> uuid option \<Rightarrow> proc result" where
  "approve_return p i user =
     and_then (get_return p i) (\<lambda>r.
       if rt_status r \<noteq> RetDraft then Inl (ValidationException ''Purchase Return is already in this state.'')
       else Inr (put_return i (r\<lparr>rt_status := RetApproved, rt_approved_by := user\<rparr>) p))"

definition cancel_return :: "proc \<Rightarrow> uuid \<Rightarrow> proc result" where
  "cancel_return p i =
     and_then (get_return p i) (\<lambda>r.
       if rt_status r = RetProcessed \<or> rt_status r = RetCancelled
         then Inl (ValidationException ''Cannot cancel Purchase Return in this state.'')
       else Inr (proc_emit [Audit ''PURCHASE_RETURN_CANCEL'' ''PurchaseReturn'' i]
              (put_return i (r\<lparr>rt_status := RetCancelled\<rparr>) p)))"

text \<open>Every line is checked again against the order before any of them is executed.\<close>

definition recheck_line :: "purchase_order \<Rightarrow> return_item \<Rightarrow> unit result" where
  "recheck_line po it =
     (case find_item (rti_po_item_id it) (po_items po) of
        None \<Rightarrow> Inl (NotFoundException ''PO Item'')
      | Some x \<Rightarrow>
        if rti_quantity it > net_received x then Inl (ValidationException ''Return quantity exceeds available returnable stock'')
        else Inr ())"

definition return_movement :: "uuid \<Rightarrow> purchase_return \<Rightarrow> return_item \<Rightarrow> movement" where
  "return_movement i r it =
     line_movement (rti_product_id it) (rt_warehouse_id r) None (rti_quantity it) None [] ''PurchaseReturn'' i
       (''Purchase Return #'' @ rt_number r @ '' ('' @ rt_reason_code r @ '')'') (py_or (rti_reason it) (rt_remarks r))"

definition return_items :: "return_item list \<Rightarrow> po_item list \<Rightarrow> po_item list" where
  "return_items rs its =
     fold (\<lambda>r. on_item (rti_po_item_id r) (\<lambda>it. it\<lparr>poi_returned := poi_returned it + rti_quantity r\<rparr>)) rs its"

definition process_return :: "proc \<Rightarrow> uuid \<Rightarrow> uuid option \<Rightarrow> timestamp \<Rightarrow> proc result" where
  "process_return p i user now =
     and_then (get_return p i) (\<lambda>r.
       if rt_status r = RetProcessed \<or> rt_status r = RetCancelled
         then Inl (ValidationException ''Cannot process return in this state.'')
       else and_then (get_order p (rt_order_id r)) (\<lambda>po.
         and_then (each (recheck_line po) (rt_items r)) (\<lambda>_.
           and_then (run_all (run_out user now) (map (return_movement i r) (rt_items r)) (inv p)) (\<lambda>w.
             Inr (proc_emit [Audit ''PURCHASE_RETURN_POST'' ''PurchaseReturn'' i, Publish ''PurchaseReturned'' i]
               (put_return i (r\<lparr>rt_status := RetProcessed, rt_approved_by := user\<rparr>)
                 (put_order (rt_order_id r) (po\<lparr>po_items := return_items (rt_items r) (po_items po)\<rparr>) (p\<lparr>inv := w\<rparr>))))))))"

end
