(* ===== verification/ProcurementSystem.thy ===== *)
theory ProcurementSystem
  imports PurchaseReceiving
begin

text \<open>
  Procurement as a state machine over the warehouse and the approval engine: \<open>proc_step\<close> lists the calls
  of the purchase order and purchase return services beside the steps of the two components they use.
  \<open>orders_call\<close> says what a call can do to the table of orders; the invariant \<open>order_inv\<close> and the life
  cycle follow from it.
\<close>

section \<open>Steps\<close>

inductive proc_step :: "proc \<Rightarrow> proc \<Rightarrow> bool" where
  warehouse: "wms_step (inv p) w \<Longrightarrow> proc_step p (p\<lparr>inv := w\<rparr>)"
| engine: "ap_step (apv p) a \<Longrightarrow> proc_step p (p\<lparr>apv := a\<rparr>)"
| masters: "proc_step p (p\<lparr>users := us, suppliers := ss, quotations := qs\<rparr>)"
| create: "create_order p c user now yr = Inr (i, p') \<Longrightarrow> proc_step p p'"
| quoted: "create_from_quotation p qi f user now yr = Inr (i, p') \<Longrightarrow> proc_step p p'"
| update: "update_order p i u = Inr p' \<Longrightarrow> proc_step p p'"
| submit: "submit_order p i user txt now = (r, p') \<Longrightarrow> proc_step p p'"
| approve: "approve_order p i user now = Inr p' \<Longrightarrow> proc_step p p'"
| reject: "reject_order p i txt = Inr p' \<Longrightarrow> proc_step p p'"
| amend: "amend_order p i am = Inr p' \<Longrightarrow> proc_step p p'"
| dispatch: "dispatch_order p i = Inr p' \<Longrightarrow> proc_step p p'"
| cancel: "cancel_order p i = Inr p' \<Longrightarrow> proc_step p p'"
| close: "close_order p i = Inr p' \<Longrightarrow> proc_step p p'"
| reopen: "reopen_order p i = Inr p' \<Longrightarrow> proc_step p p'"
| receive: "receive_goods p i rvs ref txt user now yr = (r, p') \<Longrightarrow> proc_step p p'"
| draft_return: "create_return p rc user now yr = Inr (i, p') \<Longrightarrow> proc_step p p'"
| edit_return: "update_return p i ru = Inr p' \<Longrightarrow> proc_step p p'"
| sign_return: "approve_return p i user = Inr p' \<Longrightarrow> proc_step p p'"
| drop_return: "cancel_return p i = Inr p' \<Longrightarrow> proc_step p p'"
| book_return: "process_return p i user now = Inr p' \<Longrightarrow> proc_step p p'"

definition proc_init :: "proc \<Rightarrow> bool" where
  "proc_init p = (wms_init (inv p) \<and> ap_init (apv p) \<and> orders p = [] \<and> purchase_returns p = [])"

inductive proc_reachable :: "proc \<Rightarrow> bool" where
  init: "proc_init p \<Longrightarrow> proc_reachable p"
| step: "proc_reachable p \<Longrightarrow> proc_step p p' \<Longrightarrow> proc_reachable p'"

section \<open>What a call does to the orders\<close>

text \<open>Moves of the status by calls that leave the lines alone.\<close>

definition status_move :: "po_status \<Rightarrow> po_status \<Rightarrow> bool" where
  "status_move st st' =
     (case st' of
        PoSubmitted \<Rightarrow> st = PoDraft \<or> st = PoRejected
      | PoApproved \<Rightarrow> st \<noteq> PoApproved \<and> st \<noteq> PoCancelled \<and> st \<noteq> PoDispatched
      | PoRejected \<Rightarrow> st = PoSubmitted
      | PoDispatched \<Rightarrow> st = PoApproved
      | PoClosed \<Rightarrow> st \<noteq> PoClosed \<and> st \<noteq> PoCancelled
      | _ \<Rightarrow> False)"

definition same_totals :: "purchase_order \<Rightarrow> purchase_order \<Rightarrow> bool" where
  "same_totals po po' =
     (po_subtotal po' = po_subtotal po \<and> po_tax po' = po_tax po \<and> po_discount po' = po_discount po \<and>
      po_total po' = po_total po)"

definition same_terms :: "purchase_order \<Rightarrow> purchase_order \<Rightarrow> bool" where
  "same_terms po po' = (po_supplier_id po' = po_supplier_id po \<and> same_totals po po')"

definition positive_lines :: "receive_line list \<Rightarrow> bool" where
  "positive_lines rvs = list_all (\<lambda>rv. 0 < rv_quantity rv) rvs"

definition fresh_items :: "po_item list \<Rightarrow> bool" where
  "fresh_items its = (distinct (map poi_id its) \<and> list_all (\<lambda>it. poi_received it = 0 \<and> poi_returned it = 0) its)"

definition fresh_order :: "purchase_order \<Rightarrow> bool" where
  "fresh_order po =
     (\<exists>its q. fresh_items its \<and> po = calculate_totals its q)"

text \<open>The lines are written anew, or left alone together with the totals.\<close>

definition rewritten :: "purchase_order \<Rightarrow> purchase_order \<Rightarrow> bool" where
  "rewritten po po' =
     (po_status po' = PoDraft \<and> (po_status po = PoDraft \<or> total_received po \<le> 0 \<and> (po_status po = PoApproved \<or> po_status po = PoDispatched)) \<and>
      (fresh_order po' \<or> po_items po' = po_items po \<and> same_totals po po'))"

definition order_move :: "purchase_order \<Rightarrow> purchase_order \<Rightarrow> bool" where
  "order_move po po' =
     (po_number po' = po_number po \<and>
      (rewritten po po' \<or>
       same_terms po po' \<and> po_items po' = po_items po \<and> status_move (po_status po) (po_status po') \<or>
       cancelled_order po = Inr po' \<or>
       (po_status po = PoApproved \<or> po_status po = PoDispatched \<or> po_status po = PoPartial) \<and>
         (\<exists>rvs. positive_lines rvs \<and> po' = received_order rvs po) \<or>
       (\<exists>rs. po' = po\<lparr>po_items := return_items rs (po_items po)\<rparr>)))"

inductive orders_call :: "proc \<Rightarrow> proc \<Rightarrow> bool" for p p' where
  same: "orders p' = orders p \<Longrightarrow> proc_next p \<le> proc_next p' \<Longrightarrow> orders_call p p'"
| new: "orders p' = add_row (proc_next p) po (orders p) \<Longrightarrow> fresh_order po \<Longrightarrow> po_status po = PoDraft \<Longrightarrow>
    po_number po \<notin> set (po_numbers p) \<Longrightarrow> proc_next p < proc_next p' \<Longrightarrow> orders_call p p'"
| change: "get (orders p) i = Some po \<Longrightarrow> order_move po po' \<Longrightarrow> orders p' = modify i (\<lambda>_. po') (orders p) \<Longrightarrow>
    proc_next p \<le> proc_next p' \<Longrightarrow> orders_call p p'"

section \<open>Every call is one\<close>

lemma get_order_ok [simp]: "get_order p i = Inr po \<longleftrightarrow> get (orders p) i = Some po"
  by (simp add: get_order_def split: option.splits)

lemma put_order_fields [simp]:
  "orders (put_order i po p) = modify i (\<lambda>_. po) (orders p)" "proc_next (put_order i po p) = proc_next p"
  "inv (put_order i po p) = inv p" "apv (put_order i po p) = apv p" "purchase_returns (put_order i po p) = purchase_returns p"
  by (simp_all add: put_order_def)

lemma put_return_fields [simp]:
  "orders (put_return i r p) = orders p" "proc_next (put_return i r p) = proc_next p" "inv (put_return i r p) = inv p"
  "apv (put_return i r p) = apv p" "purchase_returns (put_return i r p) = modify i (\<lambda>_. r) (purchase_returns p)"
  by (simp_all add: put_return_def)

lemma calculate_totals_fields [simp]:
  "po_status (calculate_totals its po) = po_status po" "po_number (calculate_totals its po) = po_number po"
  "po_supplier_id (calculate_totals its po) = po_supplier_id po"
  by (simp_all add: calculate_totals_def Let_def)

lemma fresh_order_totals [simp]: "fresh_items its \<Longrightarrow> fresh_order (calculate_totals its q)"
  by (auto simp: fresh_order_def)

lemma map2_ids:
  assumes "\<And>i x. poi_id (f i x) = i" and "\<And>i x. poi_received (f i x) = 0 \<and> poi_returned (f i x) = 0"
  shows "fresh_items (map2 f [n..<n + length xs] xs)"
proof -
  have "map poi_id (map2 f [n..<n + length xs] xs) = [n..<n + length xs]"
    using assms(1) by (simp add: comp_def case_prod_beta map_fst_zip)
  with assms(2) show ?thesis by (auto simp: fresh_items_def list_all_iff)
qed

lemma new_items_fresh [simp]: "fresh_items (new_items d n ls)"
  unfolding new_items_def by (rule map2_ids) (simp_all add: new_item_def)

lemma quoted_items_fresh [simp]: "fresh_items (quoted_items f n qs)"
  unfolding quoted_items_def by (rule map2_ids) (simp_all add: quoted_item_def)

lemma replace_lines_cases:
  assumes "replace_lines check lines n po = Inr po'"
  shows "po_status po' = po_status po \<and> po_number po' = po_number po \<and> (fresh_order po' \<or> po' = po)"
  using assms by (auto simp: replace_lines_def split: option.splits if_splits)

lemma change_order_ok:
  "change_order p i f es = Inr p' \<longleftrightarrow>
    (\<exists>po po'. get (orders p) i = Some po \<and> f po = Inr po' \<and> p' = proc_emit es (put_order i po' p))"
  by (auto simp: change_order_def)

lemma change_order_call:
  assumes "change_order p i f es = Inr p'" and "\<And>po po'. f po = Inr po' \<Longrightarrow> order_move po po'"
  shows "orders_call p p'"
  using assms unfolding change_order_ok by (elim exE conjE) (rule orders_call.change, auto)

lemmas order_moves = order_move_def status_move_def same_terms_def same_totals_def

lemma create_order_call: "create_order p c user now yr = Inr (i, p') \<Longrightarrow> orders_call p p'"
  by (auto simp: create_order_def Let_def draft_order_def next_number_new
      intro!: orders_call.new split: if_splits)

lemma quoted_order_call: "create_from_quotation p qi f user now yr = Inr (i, p') \<Longrightarrow> orders_call p p'"
  by (auto simp: create_from_quotation_def Let_def quoted_order_def next_number_new
      intro!: orders_call.new split: if_splits option.splits)

lemma changed_call:
  assumes "get (orders p) i = Some po" and "order_move po po'" and "orders p' = modify i (\<lambda>_. po') (orders p)"
    and "proc_next p \<le> proc_next p'"
  shows "orders_call p p'"
  using assms by (rule orders_call.change)

lemma rewritten_move: "po_number po' = po_number po \<Longrightarrow> rewritten po po' \<Longrightarrow> order_move po po'"
  by (simp add: order_move_def)

lemma update_fields [simp]:
  "po_number (apply_po_update u po) = po_number po" "po_status (apply_po_update u po) = po_status po"
  "po_items (apply_po_update u po) = po_items po" "po_subtotal (apply_po_update u po) = po_subtotal po"
  "po_tax (apply_po_update u po) = po_tax po" "po_discount (apply_po_update u po) = po_discount po"
  "po_total (apply_po_update u po) = po_total po"
  by (simp_all add: apply_po_update_def)

lemma amendment_fields [simp]:
  "po_number (apply_amendment a po) = po_number po" "po_status (apply_amendment a po) = PoDraft"
  "po_items (apply_amendment a po) = po_items po" "po_subtotal (apply_amendment a po) = po_subtotal po"
  "po_tax (apply_amendment a po) = po_tax po" "po_discount (apply_amendment a po) = po_discount po"
  "po_total (apply_amendment a po) = po_total po"
  by (simp_all add: apply_amendment_def Let_def)

lemma update_orderD:
  assumes "update_order p i u = Inr p'"
  shows "\<exists>po po'. get (orders p) i = Some po \<and> po_status po = PoDraft \<and>
    replace_lines (check_order_line p) (ou_items u) (proc_next p) (apply_po_update u po) = Inr po' \<and>
    p' = proc_emit [Audit ''PURCHASE_ORDER_UPDATE'' ''PurchaseOrder'' i]
      (put_order i po' (take_ids (line_count (ou_items u)) p))"
proof (cases "get (orders p) i")
  case None
  with assms show ?thesis by (simp add: update_order_def get_order_def)
next
  case (Some po)
  with assms have "po_status po = PoDraft" by (auto simp: update_order_def get_order_def split: if_splits)
  with assms Some show ?thesis by (auto simp: update_order_def get_order_def)
qed

lemma update_order_call:
  assumes "update_order p i u = Inr p'"
  shows "orders_call p p'"
  using update_orderD [OF assms]
proof (elim exE conjE)
  fix po po'
  assume po: "get (orders p) i = Some po" "po_status po = PoDraft"
    and po': "replace_lines (check_order_line p) (ou_items u) (proc_next p) (apply_po_update u po) = Inr po'"
    and p': "p' = proc_emit [Audit ''PURCHASE_ORDER_UPDATE'' ''PurchaseOrder'' i]
      (put_order i po' (take_ids (line_count (ou_items u)) p))"
  have "order_move po po'"
    using replace_lines_cases [OF po'] po(2) by (intro rewritten_move) (auto simp: rewritten_def same_totals_def)
  with po(1) show ?thesis by (rule changed_call) (simp_all add: p')
qed

lemma amend_orderD:
  assumes "amend_order p i a = Inr p'"
  shows "\<exists>po po'. get (orders p) i = Some po \<and> (po_status po = PoApproved \<or> po_status po = PoDispatched) \<and>
    total_received po \<le> 0 \<and>
    replace_lines (check_amended_line p) (oa_items a) (proc_next p) (apply_amendment a po) = Inr po' \<and>
    p' = proc_emit [Audit ''PURCHASE_ORDER_AMEND'' ''PurchaseOrder'' i]
      (put_order i po' (take_ids (line_count (oa_items a)) p))"
proof (cases "get (orders p) i")
  case None
  with assms show ?thesis by (simp add: amend_order_def get_order_def)
next
  case (Some po)
  with assms have "po_status po = PoApproved \<or> po_status po = PoDispatched" "\<not> 0 < total_received po"
    by (auto simp: amend_order_def get_order_def split: if_splits)
  with assms Some show ?thesis by (auto simp: amend_order_def get_order_def split: if_splits)
qed

lemma amend_order_call:
  assumes "amend_order p i a = Inr p'"
  shows "orders_call p p'"
  using amend_orderD [OF assms]
proof (elim exE conjE)
  fix po po'
  assume po: "get (orders p) i = Some po" "po_status po = PoApproved \<or> po_status po = PoDispatched"
      "total_received po \<le> 0"
    and po': "replace_lines (check_amended_line p) (oa_items a) (proc_next p) (apply_amendment a po) = Inr po'"
    and p': "p' = proc_emit [Audit ''PURCHASE_ORDER_AMEND'' ''PurchaseOrder'' i]
      (put_order i po' (take_ids (line_count (oa_items a)) p))"
  have "order_move po po'"
    using replace_lines_cases [OF po'] po(2,3) by (intro rewritten_move) (auto simp: rewritten_def same_totals_def)
  with po(1) show ?thesis by (rule changed_call) (simp_all add: p')
qed

lemma submit_orderD:
  assumes "submit_order p i user txt now = (r, p')"
  shows "p' = p \<or> (\<exists>po. get (orders p) i = Some po \<and> (po_status po = PoDraft \<or> po_status po = PoRejected) \<and>
     inv p' = inv p \<and> orders p' = modify i (\<lambda>_. po\<lparr>po_status := PoSubmitted\<rparr>) (orders p) \<and> proc_next p' = proc_next p)"
proof (cases "get (orders p) i")
  case None
  with assms show ?thesis by (simp add: submit_order_def get_order_def and_then_def)
next
  case (Some po)
  show ?thesis
  proof (cases "po_status po = PoDraft \<or> po_status po = PoRejected")
    case False
    with assms Some show ?thesis by (simp add: submit_order_def get_order_def and_then_def)
  next
    case True
    with assms Some show ?thesis
      by (auto simp: submit_order_def get_order_def and_then_def Let_def split: sum.splits prod.splits if_splits)
  qed
qed

lemma submit_order_call:
  assumes "submit_order p i user txt now = (r, p')"
  shows "orders_call p p'"
  using submit_orderD [OF assms]
proof
  assume "\<exists>po. get (orders p) i = Some po \<and> (po_status po = PoDraft \<or> po_status po = PoRejected) \<and>
     inv p' = inv p \<and> orders p' = modify i (\<lambda>_. po\<lparr>po_status := PoSubmitted\<rparr>) (orders p) \<and> proc_next p' = proc_next p"
  then obtain po where po: "get (orders p) i = Some po" and st: "po_status po = PoDraft \<or> po_status po = PoRejected"
    and p': "orders p' = modify i (\<lambda>_. po\<lparr>po_status := PoSubmitted\<rparr>) (orders p)" "proc_next p' = proc_next p" by blast
  from st have "order_move po (po\<lparr>po_status := PoSubmitted\<rparr>)" by (simp add: order_moves)
  from po this show ?thesis by (rule changed_call) (simp_all add: p')
qed (auto intro: orders_call.same)

lemma status_calls:
  "approve_order p i user now = Inr p' \<Longrightarrow> orders_call p p'" "reject_order p i txt = Inr p' \<Longrightarrow> orders_call p p'"
  "dispatch_order p i = Inr p' \<Longrightarrow> orders_call p p'" "cancel_order p i = Inr p' \<Longrightarrow> orders_call p p'"
  "close_order p i = Inr p' \<Longrightarrow> orders_call p p'" "reopen_order p i = Inr p' \<Longrightarrow> orders_call p p'"
  unfolding approve_order_def reject_order_def dispatch_order_def cancel_order_def close_order_def reopen_order_def
  by (erule change_order_call;
      force simp: order_moves approved_order_def rejected_order_def set_status_if_def cancelled_order_def split: if_splits)+

lemma map_res_all:
  assumes "map_res f xs = Inr ys" and "x \<in> set xs"
  shows "\<exists>y\<in>set ys. f x = Inr y"
  using assms by (induction xs arbitrary: ys) (auto split: sum.splits)

lemma receive_checksD:
  assumes "receive_checks p i rvs = Inr (po, its)"
  shows "get (orders p) i = Some po" "rvs \<noteq> []" "map_res (check_receive_line p po) rvs = Inr its"
    "po_status po = PoApproved \<or> po_status po = PoDispatched \<or> po_status po = PoPartial"
  using assms by (auto simp: receive_checks_def split: if_splits)

lemma receive_positive:
  assumes "map_res (check_receive_line p po) rvs = Inr its"
  shows "positive_lines rvs"
  using map_res_all [OF assms] by (fastforce simp: positive_lines_def list_all_iff check_receive_line_def split: if_splits)

lemma receive_goods_call:
  assumes "receive_goods p i rvs ref txt user now yr = (r, p')"
  shows "orders_call p p'"
proof (cases "receive_checks p i rvs")
  case (Inl e)
  with assms show ?thesis by (auto simp: receive_goods_def intro: orders_call.same)
next
  case (Inr x)
  obtain po its where x: "x = (po, its)" by force
  note chk = receive_checksD [OF Inr [unfolded x]]
  from assms Inr x have "proc_next p' = proc_next p \<and> (orders p' = orders p \<or>
      orders p' = modify i (\<lambda>_. received_order rvs po) (orders p))"
    by (auto simp: receive_goods_def Let_def split: sum.splits prod.splits)
  then show ?thesis
  proof (elim conjE disjE)
    assume n: "proc_next p' = proc_next p" and o: "orders p' = modify i (\<lambda>_. received_order rvs po) (orders p)"
    have "order_move po (received_order rvs po)"
      using chk(4) receive_positive [OF chk(3)] by (auto simp: order_move_def received_order_def Let_def)
    with chk(1) n o show ?thesis by (auto intro: orders_call.change)
  qed (auto intro: orders_call.same)
qed

lemma return_calls:
  "create_return p rc user now yr = Inr (i, p') \<Longrightarrow> orders_call p p'" "update_return p i ru = Inr p' \<Longrightarrow> orders_call p p'"
  "approve_return p i user = Inr p' \<Longrightarrow> orders_call p p'" "cancel_return p i = Inr p' \<Longrightarrow> orders_call p p'"
  by (auto simp: create_return_def update_return_def approve_return_def cancel_return_def Let_def
      intro!: orders_call.same split: if_splits option.splits)

lemma process_returnD:
  assumes "process_return p i user now = Inr p'"
  shows "\<exists>r po w. get (purchase_returns p) i = Some r \<and> get (orders p) (rt_order_id r) = Some po \<and>
    rt_status r \<noteq> RetProcessed \<and> rt_status r \<noteq> RetCancelled \<and> each (recheck_line po) (rt_items r) = Inr () \<and>
    run_all (run_out user now) (map (return_movement i r) (rt_items r)) (inv p) = Inr w \<and> inv p' = w \<and> apv p' = apv p \<and>
    orders p' = modify (rt_order_id r) (\<lambda>_. po\<lparr>po_items := return_items (rt_items r) (po_items po)\<rparr>) (orders p) \<and>
    purchase_returns p' = modify i (\<lambda>_. r\<lparr>rt_status := RetProcessed, rt_approved_by := user\<rparr>) (purchase_returns p) \<and>
    proc_next p' = proc_next p"
proof -
  from assms obtain r where r: "get (purchase_returns p) i = Some r"
    by (auto simp: process_return_def get_return_def split: option.splits)
  with assms obtain po where po: "get (orders p) (rt_order_id r) = Some po"
    by (auto simp: process_return_def get_return_def split: if_splits)
  from assms r po show ?thesis
    by (intro exI [of _ r] exI [of _ po]) (auto simp: process_return_def get_return_def split: if_splits)
qed

lemma process_return_call:
  assumes "process_return p i user now = Inr p'"
  shows "orders_call p p'"
  using process_returnD [OF assms]
proof (elim exE conjE)
  fix r po
  assume po: "get (orders p) (rt_order_id r) = Some po"
    and p': "orders p' = modify (rt_order_id r) (\<lambda>_. po\<lparr>po_items := return_items (rt_items r) (po_items po)\<rparr>) (orders p)"
      "proc_next p' = proc_next p"
  have "order_move po (po\<lparr>po_items := return_items (rt_items r) (po_items po)\<rparr>)" by (auto simp: order_move_def)
  from po this show ?thesis by (rule changed_call) (simp_all add: p')
qed

lemma proc_step_call:
  assumes "proc_step p p'"
  shows "orders_call p p'"
  using assms
  by cases (auto intro: orders_call.same create_order_call quoted_order_call update_order_call amend_order_call
      submit_order_call status_calls receive_goods_call return_calls process_return_call)

section \<open>Lines under receiving and returning\<close>

lemma on_item_same:
  assumes "\<And>it. g (f it) = g it"
  shows "map g (on_item i f its) = map g its"
  using assms by (induction its) (simp_all add: on_item_def)

lemma receive_items_same:
  assumes "\<And>q it. g (receive_item q it) = g it"
  shows "map g (receive_items rvs its) = map g its"
proof (induction rvs arbitrary: its)
  case (Cons rv rvs)
  from Cons [of "on_item (rv_item_id rv) (receive_item (rv_quantity rv)) its"]
  show ?case by (simp add: receive_items_def on_item_same assms)
qed (simp add: receive_items_def)

lemma return_items_same:
  assumes "\<And>q it. g (it\<lparr>poi_returned := q\<rparr>) = g it"
  shows "map g (return_items rs its) = map g its"
proof (induction rs arbitrary: its)
  case (Cons r rs)
  from Cons [of "on_item (rti_po_item_id r) (\<lambda>it. it\<lparr>poi_returned := poi_returned it + rti_quantity r\<rparr>) its"]
  show ?case by (simp add: return_items_def on_item_same assms)
qed (simp add: return_items_def)

lemma receive_item_fields [simp]:
  "poi_id (receive_item q it) = poi_id it" "poi_product_id (receive_item q it) = poi_product_id it"
  "poi_quantity (receive_item q it) = poi_quantity it" "poi_unit_price (receive_item q it) = poi_unit_price it"
  "poi_discount_pct (receive_item q it) = poi_discount_pct it" "poi_tax_pct (receive_item q it) = poi_tax_pct it"
  "poi_total_price (receive_item q it) = poi_total_price it" "poi_returned (receive_item q it) = poi_returned it"
  "poi_received (receive_item q it) = poi_received it + q" "poi_warehouse_id (receive_item q it) = poi_warehouse_id it"
  by (simp_all add: receive_item_def Let_def)

lemma list_all_map_eq: "map P xs = map P ys \<Longrightarrow> list_all P xs = list_all P ys"
  using list.pred_map [of id P xs] list.pred_map [of id P ys] by (simp add: comp_def)

lemma received_grows:
  assumes "positive_lines rvs" and "list_all (\<lambda>it. 0 \<le> poi_received it) its"
  shows "list_all (\<lambda>it. 0 \<le> poi_received it) (receive_items rvs its) \<and>
    sum_list (map poi_received its) \<le> sum_list (map poi_received (receive_items rvs its))"
  using assms
proof (induction rvs arbitrary: its)
  case (Cons rv rvs)
  let ?its = "on_item (rv_item_id rv) (receive_item (rv_quantity rv)) its"
  from Cons.prems(1) have q: "0 < rv_quantity rv" "positive_lines rvs" by (simp_all add: positive_lines_def)
  have "list_all (\<lambda>it. 0 \<le> poi_received it) ?its"
    using Cons.prems(2) q(1) by (auto simp: on_item_def list_all_iff)
  moreover have "sum_list (map poi_received its) \<le> sum_list (map poi_received ?its)"
    unfolding on_item_def using q(1) by (simp add: sum_list_mono)
  ultimately show ?case using Cons.IH [OF q(2), of ?its] by (auto simp: receive_items_def)
qed (simp add: receive_items_def)

section \<open>The invariant of the orders\<close>

definition priced :: "purchase_order \<Rightarrow> bool" where
  "priced po =
     (list_all (\<lambda>it. poi_total_price it = line_total it) (po_items po) \<and>
      po_subtotal po = sum_list (map line_gross (po_items po)) \<and>
      po_discount po = sum_list (map line_discount (po_items po)) \<and>
      po_tax po = sum_list (map line_tax (po_items po)) \<and>
      po_total po = po_subtotal po - po_discount po + po_tax po)"

definition nothing_received :: "purchase_order \<Rightarrow> bool" where
  "nothing_received po = list_all (\<lambda>it. poi_received it = 0) (po_items po)"

definition order_inv :: "purchase_order \<Rightarrow> bool" where
  "order_inv po =
     (priced po \<and> distinct (map poi_id (po_items po)) \<and> list_all (\<lambda>it. 0 \<le> poi_received it) (po_items po) \<and>
      (po_status po \<in> {PoDraft, PoSubmitted, PoRejected, PoCancelled} \<longrightarrow> nothing_received po))"

definition proc_inv :: "proc \<Rightarrow> bool" where
  "proc_inv p = (wf_table (proc_next p) (orders p) \<and> all_rows order_inv (orders p) \<and> distinct (po_numbers p))"

text \<open>What a line was ordered at.\<close>

definition line_terms :: "po_item \<Rightarrow> uuid \<times> uuid \<times> decimal \<times> decimal \<times> decimal \<times> decimal \<times> decimal" where
  "line_terms it = (poi_id it, poi_product_id it, poi_quantity it, poi_unit_price it, poi_discount_pct it,
     poi_tax_pct it, poi_total_price it)"

lemma line_terms_fields:
  assumes "line_terms x = line_terms y"
  shows "poi_id x = poi_id y" "line_gross x = line_gross y" "line_discount x = line_discount y"
    "line_tax x = line_tax y" "line_total x = line_total y" "poi_total_price x = poi_total_price y"
    "(poi_total_price x = line_total x) = (poi_total_price y = line_total y)"
  using assms by (simp_all add: line_terms_def line_gross_def line_discount_def line_tax_def line_total_def)

lemma terms_map:
  assumes "map line_terms xs = map line_terms ys" and "\<And>x y. line_terms x = line_terms y \<Longrightarrow> g x = g y"
  shows "map g xs = map g ys"
  using assms(1)
proof (induction xs arbitrary: ys)
  case (Cons x xs)
  then obtain y zs where "ys = y # zs" "line_terms x = line_terms y" "map line_terms xs = map line_terms zs" by auto
  with Cons.IH [of zs] assms(2) [of x y] show ?case by simp
qed simp

lemma priced_cong:
  assumes "same_totals po po'" and t: "map line_terms (po_items po') = map line_terms (po_items po)" and "priced po"
  shows "priced po'"
proof -
  have "map line_gross (po_items po') = map line_gross (po_items po)"
    by (rule terms_map [OF t]) (rule line_terms_fields)
  moreover have "map line_discount (po_items po') = map line_discount (po_items po)"
    by (rule terms_map [OF t]) (rule line_terms_fields)
  moreover have "map line_tax (po_items po') = map line_tax (po_items po)"
    by (rule terms_map [OF t]) (rule line_terms_fields)
  moreover have "map (\<lambda>it. poi_total_price it = line_total it) (po_items po') =
      map (\<lambda>it. poi_total_price it = line_total it) (po_items po)"
    by (rule terms_map [OF t]) (rule line_terms_fields)
  note list_all_map_eq [OF this]
  ultimately show ?thesis using assms(1,3) by (simp add: priced_def same_totals_def)
qed

lemma nothing_received:
  assumes "total_received po \<le> 0" and "list_all (\<lambda>it. 0 \<le> poi_received it) (po_items po)"
  shows "nothing_received po"
proof -
  have nn: "\<And>x. x \<in> set (map poi_received (po_items po)) \<Longrightarrow> 0 \<le> x" using assms(2) by (auto simp: list_all_iff)
  with assms(1) have "sum_list (map poi_received (po_items po)) = 0"
    unfolding total_received_def by (intro order_antisym sum_list_nonneg) (auto simp: list_all_iff)
  with sum_list_nonneg_eq_0_iff [of "map poi_received (po_items po)", OF nn]
  show ?thesis by (simp add: nothing_received_def list_all_iff)
qed

lemma priced_line_amounts [simp]:
  "line_gross (it\<lparr>poi_total_price := t\<rparr>) = line_gross it" "line_discount (it\<lparr>poi_total_price := t\<rparr>) = line_discount it"
  "line_tax (it\<lparr>poi_total_price := t\<rparr>) = line_tax it" "line_total (it\<lparr>poi_total_price := t\<rparr>) = line_total it"
  by (simp_all add: line_gross_def line_discount_def line_tax_def line_total_def)

lemma fresh_order_inv:
  assumes "fresh_order po"
  shows "order_inv po"
proof -
  from assms obtain its q where its: "fresh_items its" and po: "po = calculate_totals its q"
    by (auto simp: fresh_order_def)
  have items: "po_items po = map (\<lambda>it. it\<lparr>poi_total_price := line_total it\<rparr>) its"
    by (simp add: po calculate_totals_def Let_def)
  have "priced po"
    by (simp add: priced_def items comp_def list_all_iff) (simp add: po calculate_totals_def Let_def)
  moreover have "map poi_id (po_items po) = map poi_id its" by (simp add: items)
  ultimately have "priced po \<and> distinct (map poi_id (po_items po))" using its by (simp add: fresh_items_def)
  with its show ?thesis by (simp add: order_inv_def fresh_items_def nothing_received_def items list_all_iff)
qed

text \<open>Calls that leave the prices of the lines alone.\<close>

lemma order_inv_same_lines:
  assumes "order_inv po" and "same_totals po po'" and t: "map line_terms (po_items po') = map line_terms (po_items po)"
    and "list_all (\<lambda>it. 0 \<le> poi_received it) (po_items po')"
    and "po_status po' \<in> {PoDraft, PoSubmitted, PoRejected, PoCancelled} \<Longrightarrow> nothing_received po'"
  shows "order_inv po'"
proof -
  have "map poi_id (po_items po') = map poi_id (po_items po)"
    by (rule terms_map [OF t]) (rule line_terms_fields)
  with priced_cong [OF assms(2) t] assms(1,4,5) show ?thesis by (simp add: order_inv_def)
qed

lemma kept_terms:
  "map line_terms (receive_items rvs its) = map line_terms its"
  "map line_terms (return_items rs its) = map line_terms its"
  "map poi_received (return_items rs its) = map poi_received its"
  "map line_terms (map (\<lambda>it. it\<lparr>poi_status := st\<rparr>) its) = map line_terms its"
  by (rule receive_items_same return_items_same, simp add: line_terms_def)+ (simp add: line_terms_def)

lemma order_move_inv:
  assumes mv: "order_move po po'" and inv: "order_inv po"
  shows "order_inv po'"
proof -
  from inv have nn: "list_all (\<lambda>it. 0 \<le> poi_received it) (po_items po)"
    and zero: "po_status po \<in> {PoDraft, PoSubmitted, PoRejected, PoCancelled} \<Longrightarrow> nothing_received po"
    by (simp_all add: order_inv_def)
  from mv consider (rewritten) "rewritten po po'"
    | (status) "same_terms po po'" "po_items po' = po_items po" "status_move (po_status po) (po_status po')"
    | (cancelled) "cancelled_order po = Inr po'"
    | (received) rvs where "positive_lines rvs" "po' = received_order rvs po"
    | (returned) rs where "po' = po\<lparr>po_items := return_items rs (po_items po)\<rparr>"
    unfolding order_move_def by blast
  then show ?thesis
  proof cases
    case rewritten
    with zero nothing_received [OF _ nn] have "nothing_received po" by (auto simp: rewritten_def)
    then show ?thesis using rewritten nn fresh_order_inv order_inv_same_lines [OF inv, of po']
      by (auto simp: rewritten_def nothing_received_def)
  next
    case status
    then show ?thesis using zero nn order_inv_same_lines [OF inv, of po']
      by (auto simp: same_terms_def status_move_def nothing_received_def split: po_status.splits)
  next
    case cancelled
    then have z: "nothing_received po" and po': "po_status po' = PoCancelled" "same_totals po po'"
      "po_items po' = map (\<lambda>it. it\<lparr>poi_status := ItCancelled\<rparr>) (po_items po)"
      using nothing_received [OF _ nn] by (auto simp: cancelled_order_def same_totals_def split: if_splits)
    have "list_all (\<lambda>it. 0 \<le> poi_received it) (po_items po')" "nothing_received po'"
      using nn z by (simp_all add: po'(3) nothing_received_def list_all_iff)
    moreover have "map line_terms (po_items po') = map line_terms (po_items po)"
      unfolding po'(3) by (rule kept_terms)
    ultimately show ?thesis using po'(2) by (intro order_inv_same_lines [OF inv])
  next
    case (received rvs)
    then show ?thesis using received_grows [OF received(1) nn]
      by (intro order_inv_same_lines [OF inv]) (auto simp: received_order_def Let_def same_totals_def kept_terms(1))
  next
    case (returned rs)
    have rc: "map poi_received (po_items po') = map poi_received (po_items po)"
      by (simp add: returned kept_terms)
    have same: "list_all (\<lambda>it. P (poi_received it)) (po_items po') = list_all (\<lambda>it. P (poi_received it)) (po_items po)" for P
      using list.pred_map [of P poi_received "po_items po'"] list.pred_map [of P poi_received "po_items po"] rc
      by (simp add: comp_def)
    have "po_status po' = po_status po" "same_totals po po'"
      "map line_terms (po_items po') = map line_terms (po_items po)"
      by (simp_all add: returned same_totals_def kept_terms(2))
    with nn zero same [of "\<lambda>x. 0 \<le> x"] same [of "\<lambda>x. x = 0"] show ?thesis
      by (intro order_inv_same_lines [OF inv]) (simp_all add: nothing_received_def)
  qed
qed

lemma po_numbers_modify:
  assumes "wf_table n (orders p)" and "get (orders p) i = Some po" and "po_number po' = po_number po"
    and "orders p' = modify i (\<lambda>_. po') (orders p)"
  shows "po_numbers p' = po_numbers p"
  using in_set_get [OF wf_table_distinct [OF assms(1)], of i] assms(2,3)
  by (auto simp: po_numbers_def assms(4) modify_def)

lemma orders_call_inv:
  assumes "orders_call p p'" and inv: "proc_inv p"
  shows "proc_inv p'"
  using assms(1)
proof cases
  case same
  with inv show ?thesis by (auto simp: proc_inv_def po_numbers_def intro: wf_table_mono)
next
  case (new po)
  have "po_numbers p' = po_numbers p @ [po_number po]" by (simp add: po_numbers_def new(1) add_row_def)
  moreover have "wf_table (proc_next p') (orders p')"
    unfolding new(1) using inv new(5) by (intro wf_table_add_row) (auto simp: proc_inv_def)
  ultimately show ?thesis using inv new(4) fresh_order_inv [OF new(2)]
    by (simp add: proc_inv_def new(1) all_rows_add_row)
next
  case (change i po po')
  from change(2) have "po_number po' = po_number po" by (simp add: order_move_def)
  with change inv have "po_numbers p' = po_numbers p" by (intro po_numbers_modify) (auto simp: proc_inv_def)
  moreover have "all_rows order_inv (orders p')"
    unfolding change(3) using inv change(1) order_move_inv [OF change(2)]
    by (intro all_rows_modify) (auto simp: proc_inv_def wf_table_distinct dest: all_rows_get)
  ultimately show ?thesis using inv change(3,4)
    by (auto simp: proc_inv_def wf_table_modify intro: wf_table_mono)
qed

lemma proc_step_inv: "proc_step p p' \<Longrightarrow> proc_inv p \<Longrightarrow> proc_inv p'"
  by (rule orders_call_inv [OF proc_step_call])

lemma proc_reachable_inv: "proc_reachable p \<Longrightarrow> proc_inv p"
proof (induction rule: proc_reachable.induct)
  case (init p)
  then show ?case by (simp add: proc_init_def proc_inv_def all_rows_def po_numbers_def)
qed (rule proc_step_inv)

lemma order_evolves:
  assumes "orders_call p p'" and "proc_inv p" and "get (orders p) i = Some po"
  shows "\<exists>po'. get (orders p') i = Some po' \<and> (po' = po \<or> order_move po po')"
  using assms(1)
proof cases
  case (new po')
  then show ?thesis using assms(3) by (simp add: get_add_row_eq)
next
  case (change j po0 po')
  then show ?thesis using assms(3) by (cases "j = i") (simp_all add: get_modify_eq)
qed (use assms(3) in simp)

section \<open>The books of the warehouse\<close>

lemma receive_goodsD:
  assumes "receive_goods p i rvs ref txt user now yr = (r, p')" and "receive_checks p i rvs = Inr (po, its)"
  shows "\<exists>num d res saved. num \<notin> set (map (\<lambda>(i, r). gr_number r) (receipts (inv p))) \<and>
     d = po_receipt po num ref txt its user now \<and>
     execute_goods_receipt (fresh_id (inv p)) d user now its
       ((take_id (inv p))\<lparr>receipts := add_row (fresh_id (inv p)) d (receipts (inv p))\<rparr>, inv p) = (res, saved) \<and>
     (case res of
        Inl e \<Rightarrow> r = Inl e \<and> p' = p\<lparr>inv := saved\<rparr>
      | Inr w \<Rightarrow> r = Inr (fresh_id (inv p)) \<and> orders p' = modify i (\<lambda>_. received_order rvs po) (orders p) \<and>
          inv p' = w\<lparr>receipts := modify (fresh_id (inv p)) (\<lambda>r. r\<lparr>gr_status := DocReceived\<rparr>) (receipts w)\<rparr>)"
proof -
  define num where "num = next_number (year_prefix ''GRN'' yr) (map (\<lambda>(i, r). gr_number r) (receipts (inv p)))"
  let ?d = "po_receipt po num ref txt its user now"
  let ?k = "fresh_id (inv p)"
  obtain res saved where ex: "execute_goods_receipt ?k ?d user now its
      ((take_id (inv p))\<lparr>receipts := add_row ?k ?d (receipts (inv p))\<rparr>, inv p) = (res, saved)" by force
  have "num \<notin> set (map (\<lambda>(i, r). gr_number r) (receipts (inv p)))" unfolding num_def by (rule next_number_new)
  moreover have "case res of
        Inl e \<Rightarrow> r = Inl e \<and> p' = p\<lparr>inv := saved\<rparr>
      | Inr w \<Rightarrow> r = Inr ?k \<and> orders p' = modify i (\<lambda>_. received_order rvs po) (orders p) \<and>
          inv p' = w\<lparr>receipts := modify ?k (\<lambda>r. r\<lparr>gr_status := DocReceived\<rparr>) (receipts w)\<rparr>"
    using assms ex by (cases res) (auto simp: receive_goods_def Let_def num_def)
  ultimately show ?thesis using ex by blast
qed

lemma receive_goods_books:
  assumes "receive_goods p i rvs ref txt user now yr = (r, p')"
  shows "books_kept (stock (inv p)) (stock (inv p'))"
proof (cases "receive_checks p i rvs")
  case (Inl e)
  with assms show ?thesis by (simp add: receive_goods_def)
next
  case (Inr x)
  obtain po its where x: "x = (po, its)" by force
  from receive_goodsD [OF assms Inr [unfolded x]] obtain d res saved
    where ex: "execute_goods_receipt (fresh_id (inv p)) d user now its
        ((take_id (inv p))\<lparr>receipts := add_row (fresh_id (inv p)) d (receipts (inv p))\<rparr>, inv p) = (res, saved)"
      and res: "case res of Inl e \<Rightarrow> r = Inl e \<and> p' = p\<lparr>inv := saved\<rparr>
      | Inr w \<Rightarrow> r = Inr (fresh_id (inv p)) \<and> orders p' = modify i (\<lambda>_. received_order rvs po) (orders p) \<and>
          inv p' = w\<lparr>receipts := modify (fresh_id (inv p)) (\<lambda>r. r\<lparr>gr_status := DocReceived\<rparr>) (receipts w)\<rparr>" by blast
  from books_kept_receipt [OF ex, of "stock (inv p)"] books_kept_take_id [of "inv p"] res show ?thesis
    by (cases res) auto
qed

lemma return_books:
  "create_return p rc user now yr = Inr (i, p') \<Longrightarrow> inv p' = inv p" "update_return p i ru = Inr p' \<Longrightarrow> inv p' = inv p"
  "approve_return p i user = Inr p' \<Longrightarrow> inv p' = inv p" "cancel_return p i = Inr p' \<Longrightarrow> inv p' = inv p"
  by (auto simp: create_return_def update_return_def approve_return_def cancel_return_def Let_def
      split: if_splits option.splits)

lemma order_books:
  "create_order p c user now yr = Inr (i, p') \<Longrightarrow> inv p' = inv p"
  "create_from_quotation p qi f user now yr = Inr (i, p') \<Longrightarrow> inv p' = inv p"
  "submit_order p i user txt now = (r, p') \<Longrightarrow> inv p' = inv p"
  "update_order p i u = Inr p' \<Longrightarrow> inv p' = inv p" "amend_order p i am = Inr p' \<Longrightarrow> inv p' = inv p"
  "change_order p i g es = Inr p' \<Longrightarrow> inv p' = inv p"
  by (auto simp: create_order_def create_from_quotation_def Let_def change_order_def split: if_splits option.splits
      dest!: submit_orderD update_orderD amend_orderD)

lemma proc_step_books:
  assumes "proc_step p p'"
  shows "books_kept (stock (inv p)) (stock (inv p'))"
  using assms
proof cases
  case (book_return i user now)
  from process_returnD [OF this] obtain ms where "run_all (run_out user now) ms (inv p) = Inr (inv p')" by blast
  then show ?thesis by (rule books_kept_run_all) (rule books_kept_run_out)
qed (auto simp: order_books return_books receive_goods_books wms_step_books approve_order_def reject_order_def
    dispatch_order_def cancel_order_def close_order_def reopen_order_def)

lemma proc_reachable_books: "proc_reachable p \<Longrightarrow> stk_inv (stock (inv p))"
proof (induction rule: proc_reachable.induct)
  case (init p)
  then show ?case by (simp add: proc_init_def wms_init_def stk_init_inv)
next
  case (step p p')
  with proc_step_books show ?case by (auto simp: books_kept_def)
qed

end
