(* ===== verification/ProcurementProperties.thy ===== *)
theory ProcurementProperties
  imports ProcurementSystem WarehouseProperties
begin

text \<open>
  What purchase orders and purchase returns (\<^verbatim>\<open>src/app/services/purchase_order_services.py\<close>,
  \<^verbatim>\<open>src/app/services/purchase_return_services.py\<close>) guarantee: the totals of an order, its life cycle, the
  stock a receipt or a return moves and the quantities it leaves on the lines; and what approving an order
  directly, splitting a line and receiving for several warehouses do.
\<close>

section \<open>Quantities of the lines\<close>

text \<open>What the lines of a receipt add up to for one order line.\<close>

definition received_for :: "receive_line list \<Rightarrow> uuid \<Rightarrow> decimal" where
  "received_for rvs i = sum_list (map (\<lambda>rv. if rv_item_id rv = i then rv_quantity rv else 0) rvs)"

definition returned_for :: "return_item list \<Rightarrow> uuid \<Rightarrow> decimal" where
  "returned_for rs i = sum_list (map (\<lambda>r. if rti_po_item_id r = i then rti_quantity r else 0) rs)"

lemma receive_items_received:
  "map (\<lambda>it. (poi_id it, poi_received it)) (receive_items rvs its) =
   map (\<lambda>it. (poi_id it, poi_received it + received_for rvs (poi_id it))) its"
proof (induction rvs arbitrary: its)
  case Nil
  show ?case by (simp add: receive_items_def received_for_def)
next
  case (Cons rv rvs)
  let ?its = "on_item (rv_item_id rv) (receive_item (rv_quantity rv)) its"
  have "receive_items (rv # rvs) its = receive_items rvs ?its" by (simp add: receive_items_def)
  then show ?case using Cons [of ?its] by (auto simp: on_item_def received_for_def)
qed

lemma receive_items_remaining:
  "map remaining (receive_items rvs its) = map (\<lambda>it. remaining it - received_for rvs (poi_id it)) its"
proof (induction rvs arbitrary: its)
  case Nil
  show ?case by (simp add: receive_items_def received_for_def)
next
  case (Cons rv rvs)
  let ?its = "on_item (rv_item_id rv) (receive_item (rv_quantity rv)) its"
  have "receive_items (rv # rvs) its = receive_items rvs ?its" by (simp add: receive_items_def)
  then show ?case using Cons [of ?its] by (auto simp: on_item_def received_for_def remaining_def)
qed

lemma return_items_returned:
  "map (\<lambda>it. (poi_id it, poi_returned it)) (return_items rs its) =
   map (\<lambda>it. (poi_id it, poi_returned it + returned_for rs (poi_id it))) its"
proof (induction rs arbitrary: its)
  case Nil
  show ?case by (simp add: return_items_def returned_for_def)
next
  case (Cons r rs)
  let ?its = "on_item (rti_po_item_id r) (\<lambda>it. it\<lparr>poi_returned := poi_returned it + rti_quantity r\<rparr>) its"
  have "return_items (r # rs) its = return_items rs ?its" by (simp add: return_items_def)
  then show ?case using Cons [of ?its] by (auto simp: on_item_def returned_for_def)
qed

lemma find_item_Some: "find_item i its = Some it \<Longrightarrow> it \<in> set its \<and> poi_id it = i"
  by (auto simp: find_item_def find_Some_iff)

lemma received_for_none: "i \<notin> set (map rv_item_id rvs) \<Longrightarrow> received_for rvs i = 0"
  by (induction rvs) (auto simp: received_for_def)

lemma received_for_distinct:
  "distinct (map rv_item_id rvs) \<Longrightarrow> rv \<in> set rvs \<Longrightarrow> received_for rvs (rv_item_id rv) = rv_quantity rv"
proof (induction rvs)
  case (Cons x rvs)
  show ?case
  proof (cases "rv_item_id x = rv_item_id rv")
    case True
    with Cons.prems have "rv_item_id rv \<notin> set (map rv_item_id rvs)" "rv = x" by (auto simp: image_iff)
    with received_for_none [of "rv_item_id rv" rvs] show ?thesis by (simp add: received_for_def)
  next
    case False
    with Cons show ?thesis by (auto simp: received_for_def)
  qed
qed simp

section \<open>The stock a receipt moves\<close>

definition ordered_product :: "purchase_order \<Rightarrow> uuid \<Rightarrow> uuid" where
  "ordered_product po i = (case find_item i (po_items po) of Some it \<Rightarrow> poi_product_id it | None \<Rightarrow> 0)"

definition receive_key :: "purchase_order \<Rightarrow> receive_line \<Rightarrow> stock_key" where
  "receive_key po rv =
     (ordered_product po (rv_item_id rv), poi_warehouse_id (hd (po_items po)), rv_location_id rv)"

lemma check_receive_lineD:
  assumes "check_receive_line p po rv = Inr ri"
  shows "ri_quantity ri = rv_quantity rv" "ri_location_id ri = rv_location_id rv"
    "ri_product_id ri = ordered_product po (rv_item_id rv)"
    "\<exists>it. find_item (rv_item_id rv) (po_items po) = Some it \<and> rv_quantity rv \<le> remaining it"
  using assms by (auto simp: check_receive_line_def ordered_product_def split: option.splits if_splits)

lemma receive_total_at:
  assumes "map_res (check_receive_line p po) rvs = Inr its"
  shows "total_at (receipt_key (po_receipt po num ref txt ls user now)) ri_quantity its k
    = total_at (receive_key po) rv_quantity rvs k"
  using assms
proof (induction rvs arbitrary: its)
  case (Cons rv rvs)
  then obtain ri ris where ri: "check_receive_line p po rv = Inr ri" "map_res (check_receive_line p po) rvs = Inr ris"
    "its = ri # ris" by (auto split: sum.splits)
  have "receipt_key (po_receipt po num ref txt ls user now) ri = receive_key po rv"
    by (simp add: receipt_key_def receive_key_def po_receipt_def check_receive_lineD [OF ri(1)])
  with Cons.IH [OF ri(2)] check_receive_lineD(1) [OF ri(1)] show ?case by (simp add: ri(3) total_at_def)
qed (simp add: total_at_def)

text \<open>A successful call, taken apart.\<close>

lemma receive_goods_effect:
  assumes wf: "wf_stk (stock (inv p))" and run: "receive_goods p i rvs ref txt user now yr = (Inr k, p')"
    and po: "get (orders p) i = Some po"
  shows "stock_of (stock (inv p')) s = stock_of (stock (inv p)) s + total_at (receive_key po) rv_quantity rvs s"
    "get (orders p') i = Some (received_order rvs po)"
    "\<exists>its. receive_checks p i rvs = Inr (po, its)"
    "\<exists>d. receipts (inv p') = modify k (\<lambda>r. r\<lparr>gr_status := DocReceived\<rparr>) (add_row k d (receipts (inv p))) \<and>
       gr_external_reference d = Some (po_number po) \<and> gr_number d \<notin> set (map (\<lambda>(i, r). gr_number r) (receipts (inv p)))"
proof -
  obtain x where x: "receive_checks p i rvs = Inr x" using run by (auto simp: receive_goods_def split: sum.splits)
  obtain po0 its where x0: "x = (po0, its)" by force
  note chk = receive_checksD [OF x [unfolded x0]]
  have "po0 = po" using chk(1) po by simp
  note chk = chk [unfolded this] and x = x [unfolded x0 this]
  obtain num d res saved
    where num: "num \<notin> set (map (\<lambda>(i, r). gr_number r) (receipts (inv p)))" "d = po_receipt po num ref txt its user now"
      and ex: "execute_goods_receipt (fresh_id (inv p)) d user now its
        ((take_id (inv p))\<lparr>receipts := add_row (fresh_id (inv p)) d (receipts (inv p))\<rparr>, inv p) = (res, saved)"
      and res: "case res of Inl e \<Rightarrow> Inr k = Inl e \<and> p' = p\<lparr>inv := saved\<rparr>
      | Inr w \<Rightarrow> (Inr k :: uuid result) = Inr (fresh_id (inv p)) \<and> orders p' = modify i (\<lambda>_. received_order rvs po) (orders p) \<and>
          inv p' = w\<lparr>receipts := modify (fresh_id (inv p)) (\<lambda>r. r\<lparr>gr_status := DocReceived\<rparr>) (receipts w)\<rparr>"
    using receive_goodsD [OF run x] by (elim exE conjE) (rule that)
  from res obtain w where w: "res = Inr w" "k = fresh_id (inv p)"
      "orders p' = modify i (\<lambda>_. received_order rvs po) (orders p)"
      "inv p' = w\<lparr>receipts := modify (fresh_id (inv p)) (\<lambda>r. r\<lparr>gr_status := DocReceived\<rparr>) (receipts w)\<rparr>"
    by (cases res) simp_all
  have st0: "stock_of (stock (take_id (inv p))) s = stock_of (stock (inv p)) s"
    by (simp add: take_id_def stock_of_def get_by_keys_def)
  have "wf_stk (stock (take_id (inv p)))"
    using wf by (auto simp: take_id_def wf_stk_def intro: wf_table_mono)
  with execute_receipt_stock [of "(take_id (inv p))\<lparr>receipts := add_row (fresh_id (inv p)) d (receipts (inv p))\<rparr>"
      "fresh_id (inv p)" d user now its "inv p" w saved s] ex st0
  have e: "stock_of (stock w) s = stock_of (stock (inv p)) s + total_at (receipt_key d) ri_quantity its s"
    "receipts w = add_row (fresh_id (inv p)) d (receipts (inv p))" by (simp_all add: w(1))
  show "stock_of (stock (inv p')) s = stock_of (stock (inv p)) s + total_at (receive_key po) rv_quantity rvs s"
    using e(1) receive_total_at [OF chk(3)] by (simp add: w(4) num(2))
  show "get (orders p') i = Some (received_order rvs po)" by (simp add: w(3) po get_modify_eq)
  show "\<exists>its. receive_checks p i rvs = Inr (po, its)" using x by blast
  show "\<exists>d. receipts (inv p') = modify k (\<lambda>r. r\<lparr>gr_status := DocReceived\<rparr>) (add_row k d (receipts (inv p))) \<and>
       gr_external_reference d = Some (po_number po) \<and> gr_number d \<notin> set (map (\<lambda>(i, r). gr_number r) (receipts (inv p)))"
    using num by (intro exI [of _ d]) (simp add: w(2,4) e(2) po_receipt_def)
qed

section \<open>A concrete order\<close>

text \<open>One supplier, the products and warehouses of \<open>stk0\<close>, and an order of ten pieces of product 1 at 3 with a
  discount of 10 and a tax of 20 percent.\<close>

definition po_line_of :: "uuid \<Rightarrow> decimal \<Rightarrow> uuid \<Rightarrow> po_line" where
  "po_line_of x q wh =
     \<lparr>pl_product_id = x, pl_quantity = q, pl_unit_price = 3, pl_discount_pct = 10, pl_tax_pct = 20,
      pl_warehouse_id = wh, pl_location_id = None, pl_expected = None\<rparr>"

definition po_body :: "po_line list \<Rightarrow> po_create" where
  "po_body ls =
     \<lparr>oc_origin_type = ''Manual'', oc_origin_id = None, oc_supplier_id = 1, oc_order_date = None, oc_expected = None,
      oc_payment_terms = None, oc_currency = ''EUR'', oc_shipping_address = None, oc_billing_address = None,
      oc_notes = None, oc_items = ls\<rparr>"

definition proc0 :: proc where
  "proc0 =
     \<lparr>inv = wms_start, apv = \<lparr>workflows = [], approval_steps = [], approval_requests = [], approval_histories = [],
        roles = [], user_roles = [], ap_next = 0, ap_effects = []\<rparr>, users = [],
      suppliers = [(1, \<lparr>su_payment_terms = ''NET30'', su_currency = ''EUR'', su_status = ''Active'',
        su_is_active = True, su_is_deleted = False\<rparr>)],
      quotations = [], orders = [], purchase_returns = [], proc_next = 200, proc_effects = []\<rparr>"

definition proc_of :: "proc result \<Rightarrow> proc" where
  "proc_of r = (case r of Inl _ \<Rightarrow> proc0 | Inr p \<Rightarrow> p)"

definition ordered :: "po_line list \<Rightarrow> proc" where
  "ordered ls = proc_of (map_sum id snd (create_order proc0 (po_body ls) (Some 7) 5 2026))"

definition approved :: "po_line list \<Rightarrow> proc" where
  "approved ls = proc_of (approve_order (ordered ls) 200 (Some 8) 6)"

definition rv_of :: "uuid \<Rightarrow> decimal \<Rightarrow> receive_line" where
  "rv_of i q =
     \<lparr>rv_item_id = i, rv_quantity = q, rv_location_id = None, rv_batch_id = None, rv_batch_number = None,
      rv_expiry = None, rv_serials = [], rv_remarks = None\<rparr>"

definition received :: "po_line list \<Rightarrow> receive_line list \<Rightarrow> uuid result \<times> proc" where
  "received ls rvs = receive_goods (approved ls) 200 rvs None None (Some 8) 7 2026"

lemmas run_order =
  run_stock take_id_def fresh_id_def wms_start_def wms0_def and_then_def
  po_line_of_def po_body_def proc0_def proc_of_def ordered_def create_order_def check_supplier_def supplier_of_def
  check_order_line_def calculate_totals_def new_items_def new_item_def draft_order_def take_ids_def proc_emit_def
  opt_or_def str_or_def line_gross_def line_discount_def line_tax_def line_total_def upt_rec

lemmas run_receiving =
  run_order approved_def approve_order_def change_order_def get_order_def approved_order_def put_order_def rv_of_def
  received_def receive_goods_def receive_checks_def check_receive_line_def find_item_def remaining_def po_receipt_def
  received_order_def receive_items_def on_item_def receive_item_def batch_for_line_def receipt_movement_def
  run_in_def stock_in_def move_request_def line_movement_def first_user_def

abbreviation ten :: "po_line list" where
  "ten \<equiv> [po_line_of 1 10 1]"

lemma created_eq: "create_order proc0 (po_body ten) (Some 7) 5 2026 = Inr (200, ordered ten)"
  by (simp add: run_order)

lemma approved_eq: "approve_order (ordered ten) 200 (Some 8) 6 = Inr (approved ten)"
  by (simp add: run_receiving)

lemma proc0_init: "proc_init proc0"
proof -
  have "stk_init stk0"
    by (simp add: stk_init_def stk0_def wf_stk_def wf_table_def keys_def unique_on_def)
  then show ?thesis by (simp add: proc_init_def proc0_def wms_init_def wms_start_def wms0_def ap_init_def)
qed

lemma order_runs: "proc_reachable (ordered ten)" "proc_reachable (approved ten)"
proof -
  show 1: "proc_reachable (ordered ten)"
    by (rule proc_reachable.step [OF proc_reachable.init [OF proc0_init] proc_step.create [OF created_eq]])
  show "proc_reachable (approved ten)"
    by (rule proc_reachable.step [OF 1 proc_step.approve [OF approved_eq]])
qed

lemma ordered_row:
  "\<exists>po. get (orders (ordered ten)) 200 = Some po \<and> po_status po = PoDraft \<and> po_total po = 162 / 5 \<and> length (po_items po) = 1"
  by (simp add: run_order)

lemma received_eq: "\<exists>p'. received ten [rv_of 201 4] = (Inr 100, p')"
  by (simp add: run_receiving)

section \<open>Orders\<close>



text \<open>the number of a new document is different from every number in use, its numeric suffix is one more than the
  highest one, and the padded suffix reads back as the number it was made from.\<close>
theorem document_numbers_fresh:
  shows "next_number prefix nums \<notin> set nums
    \<and> number_suffix prefix (next_number prefix nums) = max_number_suffix prefix nums + 1
    \<and> parse_nat (pad5 n) = n \<and> number_suffix prefix (prefix @ pad5 n) = n"
  using next_number_new number_suffix_next parse_pad5 by (simp add: number_suffix_def)

text \<open>The moves of the status of an order in one call.\<close>

fun po_moves :: "po_status \<Rightarrow> po_status list" where
  "po_moves PoDraft = [PoSubmitted, PoApproved, PoCancelled, PoClosed]"
| "po_moves PoSubmitted = [PoApproved, PoRejected, PoCancelled, PoClosed]"
| "po_moves PoRejected = [PoSubmitted, PoApproved, PoCancelled, PoClosed]"
| "po_moves PoApproved = [PoDraft, PoDispatched, PoPartial, PoFull, PoCancelled, PoClosed]"
| "po_moves PoDispatched = [PoDraft, PoPartial, PoFull, PoCancelled, PoClosed]"
| "po_moves PoPartial = [PoPartial, PoFull, PoApproved, PoCancelled, PoClosed]"
| "po_moves PoFull = [PoApproved, PoCancelled, PoClosed]"
| "po_moves PoClosed = [PoApproved]"
| "po_moves PoCancelled = []"

lemma order_move_status:
  assumes "order_move po po'"
  shows "po_status po' = po_status po \<or> po_status po' \<in> set (po_moves (po_status po))"
  using assms unfolding order_move_def
  by (cases "po_status po"; cases "po_status po'")
    (auto simp: rewritten_def status_move_def cancelled_order_def received_order_def Let_def split: if_splits)

text \<open>an order is never deleted, keeps its number, and its status only takes the moves of the table; a cancelled
  order stays cancelled.\<close>
theorem orders_follow_life_cycle:
  assumes "proc_reachable p" and "proc_step p p'" and "get (orders p) i = Some po"
  shows "\<exists>po'. get (orders p') i = Some po' \<and> po_number po' = po_number po
    \<and> (po_status po' = po_status po \<or> po_status po' \<in> set (po_moves (po_status po)))"
  using order_evolves [OF proc_step_call [OF assms(2)] proc_reachable_inv [OF assms(1)] assms(3)]
    order_move_status [of po] by (auto simp: order_move_def)

lemma orders_follow_life_cycle_witness:
  "\<exists>po'. get (orders (approved ten)) 200 = Some po' \<and> po_status po' \<in> {PoDraft, PoSubmitted, PoApproved, PoCancelled, PoClosed}"
proof -
  obtain po where po: "get (orders (ordered ten)) 200 = Some po" "po_status po = PoDraft" using ordered_row by blast
  from orders_follow_life_cycle [OF order_runs(1) proc_step.approve [OF approved_eq] po(1)] po(2) show ?thesis by auto
qed

lemma nothing_received_total: "nothing_received po \<Longrightarrow> total_received po = 0"
proof -
  have "list_all (\<lambda>it. poi_received it = 0) its \<Longrightarrow> sum_list (map poi_received its) = 0" for its
    by (induction its) auto
  then show "nothing_received po \<Longrightarrow> total_received po = 0" by (simp add: nothing_received_def total_received_def)
qed

text \<open>once goods have been received, no call changes what was ordered: supplier, totals and the product,
  quantity, price, discount and tax of every line stay, what has been received never decreases, and the order
  can be neither cancelled nor sent back to draft, submission or rejection.\<close>
theorem received_orders_keep_terms:
  assumes "proc_reachable p" and "proc_step p p'" and "get (orders p) i = Some po" and "0 < total_received po"
  shows "\<exists>po'. get (orders p') i = Some po' \<and> same_terms po po'
    \<and> map line_terms (po_items po') = map line_terms (po_items po) \<and> total_received po \<le> total_received po'
    \<and> po_status po' \<notin> {PoDraft, PoSubmitted, PoRejected, PoCancelled}"
proof -
  note inv = proc_reachable_inv [OF assms(1)]
  from order_evolves [OF proc_step_call [OF assms(2)] inv assms(3)] obtain po'
    where po': "get (orders p') i = Some po'" "po' = po \<or> order_move po po'" by blast
  have oi: "order_inv po" using inv assms(3) by (auto simp: proc_inv_def dest: all_rows_get)
  have st: "\<not> nothing_received q" if "0 < total_received q" for q
    using that by (auto dest: nothing_received_total)
  have nn: "list_all (\<lambda>it. 0 \<le> poi_received it) (po_items po)" using oi by (simp add: order_inv_def)
  have "same_terms po po' \<and> map line_terms (po_items po') = map line_terms (po_items po) \<and> total_received po \<le> total_received po'"
    using po'(2)
  proof
    assume "order_move po po'"
    then consider "rewritten po po'" | "same_terms po po'" "po_items po' = po_items po" | "cancelled_order po = Inr po'"
      | rvs where "positive_lines rvs" "po' = received_order rvs po"
      | rs where "po' = po\<lparr>po_items := return_items rs (po_items po)\<rparr>"
      unfolding order_move_def by blast
    then show ?thesis
    proof cases
      case 1
      with assms(4) oi st [OF assms(4)] show ?thesis by (auto simp: rewritten_def order_inv_def)
    next
      case 3
      with assms(4) show ?thesis by (simp add: cancelled_order_def split: if_splits)
    next
      case (4 rvs)
      with received_grows [OF 4(1) nn] show ?thesis
        by (simp add: received_order_def Let_def same_terms_def same_totals_def kept_terms(1) total_received_def)
    qed (simp_all add: same_terms_def same_totals_def kept_terms(2,3) total_received_def)
  qed (simp add: same_terms_def same_totals_def)
  moreover have "order_inv po'" using po'(2) order_move_inv oi by blast
  moreover have "0 < total_received po'" using calculation(1) assms(4) by simp
  ultimately show ?thesis using po'(1) st [of po'] by (auto simp: order_inv_def)
qed

lemma received_reachable: "received ten [rv_of 201 4] = (Inr 100, p') \<Longrightarrow> proc_reachable p'"
  unfolding received_def by (rule proc_reachable.step [OF order_runs(2) proc_step.receive])

lemma approved_row:
  "\<exists>it. get (orders (approved ten)) 200 = Some ((calculate_totals [it] (draft_order (po_body ten) (next_number (year_prefix ''PO'' 2026) [])
      (snd (hd (suppliers proc0))) (Some 7) 5))\<lparr>po_status := PoApproved, po_approved_by := Some 8, po_approved_at := Some 6\<rparr>)
    \<and> poi_id it = 201 \<and> poi_product_id it = 1 \<and> poi_warehouse_id it = 1 \<and> poi_quantity it = 10 \<and> poi_received it = 0"
  by (intro exI [of _ "new_item None 201 (po_line_of 1 10 1)"]) (simp add: run_receiving po_numbers_def)

lemma received_row:
  assumes "received ten [rv_of 201 4] = (Inr 100, p')"
  shows "\<exists>po. get (orders p') 200 = Some po \<and> po_status po = PoPartial \<and> total_received po = 4"
  using assms by (auto simp: run_receiving total_received_def)

lemma received_orders_keep_terms_witness:
  "\<exists>p' q po po'. received ten [rv_of 201 4] = (Inr 100, p') \<and> close_order p' 200 = Inr q \<and> get (orders p') 200 = Some po \<and>
     get (orders q) 200 = Some po' \<and> same_terms po po' \<and> 4 \<le> total_received po'"
proof -
  from received_eq obtain p' where r: "received ten [rv_of 201 4] = (Inr 100, p')" by blast
  from received_row [OF r] obtain po where po: "get (orders p') 200 = Some po" "po_status po = PoPartial" "total_received po = 4" by blast
  then obtain q where q: "close_order p' 200 = Inr q" by (simp add: close_order_def change_order_def)
  from received_orders_keep_terms [OF received_reachable [OF r] proc_step.close [OF q] po(1)] po(3)
  obtain po' where "get (orders q) 200 = Some po'" "same_terms po po'" "4 \<le> total_received po'" by auto
  with r q po(1) show ?thesis by blast
qed

section \<open>Receiving\<close>

text \<open>C28: receiving goods adds the quantity of every line to the stock of its product at the warehouse of the first
  order line and nothing elsewhere, adds it to the received quantity of the order line it names and to no other,
  marks the order received when every line is, and books one goods receipt under a new number.\<close>
theorem receiving_books_stock:
  assumes "proc_reachable p" and "receive_goods p i rvs ref txt user now yr = (Inr k, p')" and "get (orders p) i = Some po"
  shows "stock_of (stock (inv p')) s = stock_of (stock (inv p)) s + total_at (receive_key po) rv_quantity rvs s
    \<and> (\<exists>po'. get (orders p') i = Some po' \<and> same_terms po po'
        \<and> map (\<lambda>it. (poi_id it, poi_received it)) (po_items po')
          = map (\<lambda>it. (poi_id it, poi_received it + received_for rvs (poi_id it))) (po_items po)
        \<and> po_status po' = (if list_all (\<lambda>it. poi_quantity it \<le> poi_received it) (po_items po') then PoFull else PoPartial))
    \<and> (\<exists>d. receipts (inv p') = modify k (\<lambda>r. r\<lparr>gr_status := DocReceived\<rparr>) (add_row k d (receipts (inv p)))
        \<and> gr_external_reference d = Some (po_number po)
        \<and> gr_number d \<notin> set (map (\<lambda>(i, r). gr_number r) (receipts (inv p))))"
proof -
  note wf = stk_inv_wf [OF proc_reachable_books [OF assms(1)]]
  note eff = receive_goods_effect [OF wf assms(2,3)]
  have "map (\<lambda>it. (poi_id it, poi_received it)) (po_items (received_order rvs po))
      = map (\<lambda>it. (poi_id it, poi_received it + received_for rvs (poi_id it))) (po_items po)"
    by (simp only: receive_items_received [symmetric] received_order_def Let_def) simp
  moreover have "same_terms po (received_order rvs po) \<and> po_status (received_order rvs po) =
      (if list_all (\<lambda>it. poi_quantity it \<le> poi_received it) (po_items (received_order rvs po)) then PoFull else PoPartial)"
    by (simp add: received_order_def Let_def same_terms_def same_totals_def)
  ultimately show ?thesis using eff(1) eff(2) eff(4) by blast
qed

lemma receiving_books_stock_witness:
  "\<exists>p'. received ten [rv_of 201 4] = (Inr 100, p') \<and>
     stock_of (stock (inv p')) (1, 1, None) = stock_of (stock (inv (approved ten))) (1, 1, None) + 4"
proof -
  from received_eq obtain p' where r: "received ten [rv_of 201 4] = (Inr 100, p')" by blast
  from approved_row obtain it po where po: "get (orders (approved ten)) 200 = Some po"
    and its: "po_items po = [it\<lparr>poi_total_price := line_total it\<rparr>]"
    and it: "poi_id it = 201" "poi_product_id it = 1" "poi_warehouse_id it = 1" by (auto simp: calculate_totals_def Let_def)
  have "total_at (receive_key po) rv_quantity [rv_of 201 4] (1, 1, None) = 4"
    by (simp add: total_at_def receive_key_def ordered_product_def find_item_def its it rv_of_def)
  with receiving_books_stock [OF order_runs(2) r [unfolded received_def] po, of "(1, 1, None)"] r show ?thesis by auto
qed

text \<open>C40: when no line of the order is named twice, receiving never exceeds what is still open on a line (the
  ordered quantity plus what was sent back).\<close>
theorem receiving_within_order:
  assumes "proc_reachable p" and "receive_goods p i rvs ref txt user now yr = (Inr k, p')" and "get (orders p) i = Some po"
    and "distinct (map rv_item_id rvs)" and "list_all (\<lambda>it. 0 \<le> remaining it) (po_items po)"
  shows "\<exists>po'. get (orders p') i = Some po' \<and> list_all (\<lambda>it. 0 \<le> remaining it) (po_items po')"
proof -
  note eff = receive_goods_effect [OF stk_inv_wf [OF proc_reachable_books [OF assms(1)]] assms(2,3)]
  from eff(3) obtain its where chk: "map_res (check_receive_line p po) rvs = Inr its"
    by (auto dest: receive_checksD(3))
  have ids: "distinct (map poi_id (po_items po))"
    using proc_reachable_inv [OF assms(1)] assms(3) by (auto simp: proc_inv_def order_inv_def dest!: all_rows_get)
  have "0 \<le> remaining it - received_for rvs (poi_id it)" if it: "it \<in> set (po_items po)" for it
  proof (cases "poi_id it \<in> set (map rv_item_id rvs)")
    case True
    then obtain rv where rv: "rv \<in> set rvs" "rv_item_id rv = poi_id it" by auto
    from map_res_all [OF chk rv(1)] obtain it' where "find_item (rv_item_id rv) (po_items po) = Some it'"
      "rv_quantity rv \<le> remaining it'" by (blast dest: check_receive_lineD(4))
    with find_item_Some [of "rv_item_id rv" "po_items po" it'] ids it rv(2) have "rv_quantity rv \<le> remaining it"
      by (auto simp: distinct_map dest: inj_onD)
    with received_for_distinct [OF assms(4) rv(1)] rv(2) show ?thesis by simp
  next
    case False
    with assms(5) it show ?thesis by (simp add: received_for_none list_all_iff)
  qed
  then have "list_all (\<lambda>x. 0 \<le> x) (map remaining (po_items (received_order rvs po)))"
    unfolding received_order_def Let_def by (simp add: receive_items_remaining list_all_iff)
  with eff(2) show ?thesis by (simp add: list_all_iff)
qed

lemma receiving_within_order_witness:
  "\<exists>p' po. received ten [rv_of 201 4] = (Inr 100, p') \<and> get (orders p') 200 = Some po \<and>
     list_all (\<lambda>it. 0 \<le> remaining it) (po_items po)"
proof -
  from received_eq obtain p' where r: "received ten [rv_of 201 4] = (Inr 100, p')" by blast
  have "\<exists>po. get (orders (approved ten)) 200 = Some po \<and> list_all (\<lambda>it. 0 \<le> remaining it) (po_items po)"
    by (simp add: run_receiving)
  then obtain po where po: "get (orders (approved ten)) 200 = Some po" "list_all (\<lambda>it. 0 \<le> remaining it) (po_items po)" by blast
  have "distinct (map rv_item_id [rv_of 201 4])" by simp
  from receiving_within_order [OF order_runs(2) r [unfolded received_def] po(1) this po(2)] r show ?thesis by blast
qed

text \<open>the lines of one call are each checked against the order as it was: an order of ten pieces is received
  twice over by naming its line twice, and twenty pieces go to stock.\<close>
theorem split_lines_over_receive:
  shows "\<exists>p' po. received ten [rv_of 201 10, rv_of 201 10] = (Inr 100, p') \<and> get (orders p') 200 = Some po
    \<and> map (\<lambda>it. (poi_quantity it, poi_received it)) (po_items po) = [(10, 20)] \<and> stock_of (stock (inv p')) (1, 1, None) = 20"
  by (simp add: run_receiving stock_of_def)

text \<open>goods of a line ordered for the second warehouse are booked at the warehouse of the first line.\<close>
theorem receipt_at_first_warehouse:
  shows "\<exists>p' po. received [po_line_of 1 10 1, po_line_of 1 5 2] [rv_of 202 5] = (Inr 100, p') \<and> get (orders p') 200 = Some po
    \<and> map (\<lambda>it. (poi_id it, poi_warehouse_id it, poi_received it)) (po_items po) = [(201, 1, 0), (202, 2, 5)]
    \<and> stock_of (stock (inv p')) (1, 1, None) = 5 \<and> stock_of (stock (inv p')) (1, 2, None) = 0"
  by (simp add: run_receiving stock_of_def)

text \<open>an order that is a draft, was submitted or was rejected can be approved directly, whatever the approval
  engine decided: its request stays as it is.\<close>
theorem approval_bypasses_engine:
  assumes "get (orders p) i = Some po" and "po_status po \<in> {PoDraft, PoSubmitted, PoRejected, PoPartial, PoFull}"
  shows "\<exists>p'. approve_order p i user now = Inr p' \<and> apv p' = apv p
    \<and> get (orders p') i = Some (po\<lparr>po_status := PoApproved, po_approved_by := user, po_approved_at := Some now\<rparr>)"
  using assms by (auto simp: approve_order_def change_order_def approved_order_def get_modify_eq)

lemma approval_bypasses_engine_witness:
  "\<exists>p' po. approve_order (ordered ten) 200 (Some 8) 6 = Inr p' \<and> get (orders p') 200 = Some po \<and> po_status po = PoApproved"
proof -
  from ordered_row obtain po where "get (orders (ordered ten)) 200 = Some po" "po_status po = PoDraft" by blast
  from approval_bypasses_engine [OF this(1), of "Some 8" 6] this(2) show ?thesis by auto
qed

section \<open>Returns\<close>

definition return_key :: "purchase_return \<Rightarrow> return_item \<Rightarrow> stock_key" where
  "return_key r it = (rti_product_id it, rt_warehouse_id r, None)"

lemma return_movement_fields [simp]:
  "unkeyed (return_movement i r it)" "m_key (return_movement i r it) = return_key r it"
  "m_quantity (return_movement i r it) = rti_quantity it"
  by (simp_all add: return_movement_def return_key_def)

lemma run_all_returns:
  assumes "wf_stk (stock w)" and "run_all (run_out user now) (map (return_movement i r) its) w = Inr w'"
  shows "stock_of (stock w') k = stock_of (stock w) k - total_at (return_key r) rti_quantity its k"
proof -
  from assms(2) obtain s where s: "fold_res (run_out user now) (map (return_movement i r) its) (stock w) = Inr s"
    and w': "w' = w\<lparr>stock := s\<rparr>" by (auto simp: run_all_def split: sum.splits)
  have u: "list_all unkeyed (map (return_movement i r) its)" by (simp add: list_all_iff)
  have neg: "sum_list (map (\<lambda>it. if k = return_key r it then - rti_quantity it else 0) its) =
      - total_at (return_key r) rti_quantity its k"
    by (induction its) (auto simp: total_at_def)
  show ?thesis
    using outward.moves_level [OF assms(1) u s, of k] neg by (simp add: w' outward.amount_at_def comp_def cong: if_cong)
qed

text \<open>processing a purchase return takes the quantity of every line from the stock of its product at the warehouse
  of the return and nothing elsewhere, adds it to the returned quantity of the order line it names and to no
  other, and the return can then be neither processed again, nor edited, approved or cancelled.\<close>
theorem returns_take_stock:
  assumes "proc_reachable p" and "process_return p i user now = Inr p'"
    and "get (purchase_returns p) i = Some r" and "get (orders p) (rt_order_id r) = Some po"
  shows "stock_of (stock (inv p')) k = stock_of (stock (inv p)) k - total_at (return_key r) rti_quantity (rt_items r) k
    \<and> (\<exists>po'. get (orders p') (rt_order_id r) = Some po' \<and> same_terms po po' \<and> po_status po' = po_status po
        \<and> map (\<lambda>it. (poi_id it, poi_returned it)) (po_items po')
          = map (\<lambda>it. (poi_id it, poi_returned it + returned_for (rt_items r) (poi_id it))) (po_items po))
    \<and> \<not> is_ok (process_return p' i user' now') \<and> \<not> is_ok (update_return p' i u)
    \<and> \<not> is_ok (approve_return p' i user') \<and> \<not> is_ok (cancel_return p' i)"
proof -
  from process_returnD [OF assms(2)] assms(3,4)
  have run: "run_all (run_out user now) (map (return_movement i r) (rt_items r)) (inv p) = Inr (inv p')"
    and os: "orders p' = modify (rt_order_id r) (\<lambda>_. po\<lparr>po_items := return_items (rt_items r) (po_items po)\<rparr>) (orders p)"
    and rs: "purchase_returns p' = modify i (\<lambda>_. r\<lparr>rt_status := RetProcessed, rt_approved_by := user\<rparr>) (purchase_returns p)"
    by auto
  have "get (orders p') (rt_order_id r) = Some (po\<lparr>po_items := return_items (rt_items r) (po_items po)\<rparr>)"
    by (simp add: os assms(4) get_modify_eq)
  moreover have row: "get (purchase_returns p') i = Some (r\<lparr>rt_status := RetProcessed, rt_approved_by := user\<rparr>)"
    by (simp add: rs assms(3) get_modify_eq)
  have "\<not> is_ok (process_return p' i user' now')" "\<not> is_ok (update_return p' i u)"
    "\<not> is_ok (approve_return p' i user')" "\<not> is_ok (cancel_return p' i)"
    by (simp_all add: process_return_def update_return_def approve_return_def cancel_return_def get_return_def row)
  ultimately show ?thesis
    using run_all_returns [OF stk_inv_wf [OF proc_reachable_books [OF assms(1)]] run, of k]
    by (simp add: same_terms_def same_totals_def return_items_returned)
qed

definition return_body :: "return_line list \<Rightarrow> return_create" where
  "return_body ls =
     \<lparr>rtc_order_id = 200, rtc_supplier_id = 1, rtc_warehouse_id = 1, rtc_reason_code = ''Damaged'',
      rtc_supplier_ref = None, rtc_remarks = None, rtc_items = ls\<rparr>"

definition return_line_of :: "decimal \<Rightarrow> return_line" where
  "return_line_of q = \<lparr>rl_po_item_id = 201, rl_product_id = 1, rl_quantity = q, rl_unit_price = 3, rl_reason = None\<rparr>"

definition returned :: "proc \<Rightarrow> return_line list \<Rightarrow> proc" where
  "returned p ls = proc_of (map_sum id snd (create_return p (return_body ls) (Some 8) 8 2026))"

abbreviation four :: proc where
  "four \<equiv> snd (received ten [rv_of 201 4])"

lemmas run_returning =
  run_receiving returned_def create_return_def return_body_def return_line_of_def check_return_line_def net_received_def
  new_return_def return_item_of_def return_total_def process_return_def get_return_def recheck_line_def return_items_def
  return_movement_def run_all_def run_out_def stock_out_def put_return_def

lemma returned_eq: "create_return four (return_body [return_line_of 3]) (Some 8) 8 2026 = Inr (202, returned four [return_line_of 3])"
  by (simp add: run_returning)

lemma returned_reachable: "proc_reachable (returned four [return_line_of 3])"
proof -
  from received_eq obtain p' where r: "received ten [rv_of 201 4] = (Inr 100, p')" by blast
  then have "four = p'" by (simp only: snd_conv)
  with proc_reachable.step [OF received_reachable [OF r] proc_step.draft_return] returned_eq show ?thesis by simp
qed

lemma returns_take_stock_witness:
  "\<exists>p'. process_return (returned four [return_line_of 3]) 202 None 9 = Inr p' \<and>
     stock_of (stock (inv p')) (1, 1, None) = stock_of (stock (inv (returned four [return_line_of 3]))) (1, 1, None) - 3"
proof -
  let ?q = "returned four [return_line_of 3]"
  have ok: "is_ok (process_return ?q 202 None 9)" by (simp add: run_returning)
  then obtain p' where p': "process_return ?q 202 None 9 = Inr p'" by (cases "process_return ?q 202 None 9") auto
  have "\<exists>r po. get (purchase_returns ?q) 202 = Some r \<and> get (orders ?q) (rt_order_id r) = Some po \<and>
      total_at (return_key r) rti_quantity (rt_items r) (1, 1, None) = 3"
    by (simp add: run_returning total_at_def return_key_def)
  then obtain r po where "get (purchase_returns ?q) 202 = Some r" "get (orders ?q) (rt_order_id r) = Some po"
    and t: "total_at (return_key r) rti_quantity (rt_items r) (1, 1, None) = 3" by blast
  from returns_take_stock [OF returned_reachable p' this(1,2), of "(1, 1, None)"] t p' show ?thesis by auto
qed

text \<open>the lines of a return are checked one by one: where four pieces were received on an order line, a draft
  return that names it twice sends six back, with nobody having approved it.\<close>
theorem split_returns_over_return:
  shows "\<exists>p' po. process_return (returned (snd (received [po_line_of 1 10 1, po_line_of 1 10 1] [rv_of 201 4, rv_of 202 4]))
      [return_line_of 3, return_line_of 3]) 203 None 9 = Inr p'
    \<and> get (orders p') 200 = Some po \<and> map (\<lambda>it. (poi_received it, poi_returned it)) (po_items po) = [(4, 6), (4, 0)]"
  by (simp add: run_returning)

end
