(* ===== verification/SalesModel.thy ===== *)
theory SalesModel
  imports WarehouseSystem ApprovalEngine Documents
begin

text \<open>
  The data of sales: customers (\<^verbatim>\<open>src/app/models/customer.py\<close>), document discount rules
  (\<^verbatim>\<open>pricing.py\<close>), quotations, orders, deliveries and returns (\<^verbatim>\<open>sales_quotation.py\<close>, \<^verbatim>\<open>sales_order.py\<close>,
  \<^verbatim>\<open>delivery_order.py\<close>, \<^verbatim>\<open>sales_return.py\<close>), and the pricing of a line
  (\<open>DiscountService\<close> in \<^verbatim>\<open>src/app/services/pricing_services.py\<close>). An order line is a quotation line with
  what has been delivered, so both are one record and its extension. Descriptions are left out.
\<close>

section \<open>Rows\<close>

record customer =
  cu_credit_limit :: decimal
  cu_status :: string
  cu_is_deleted :: bool

record discount_rule =
  dr_type :: string
  dr_calculation :: string
  dr_value :: decimal
  dr_min_order_value :: decimal
  dr_min_quantity :: decimal
  dr_is_active :: bool
  dr_valid_from :: "timestamp option"
  dr_valid_to :: "timestamp option"

record sales_item =
  si_id :: uuid
  si_product_id :: uuid
  si_quantity :: decimal
  si_unit_price :: decimal
  si_discount_type :: string
  si_discount_value :: decimal
  si_discount_amount :: decimal
  si_tax_rate :: decimal
  si_tax_amount :: decimal
  si_line_total :: decimal
  si_warehouse_id :: "uuid option"

datatype progress = PgPending | PgPartial | PgDelivered | PgCancelled

record order_item = sales_item +
  oi_delivered :: decimal
  oi_delivery_date :: "timestamp option"
  oi_status :: progress

datatype sq_state = SqDraft | SqSubmitted | SqApproved | SqRejected | SqConverted | SqCancelled | SqExpired

record sales_quotation =
  qt_number :: string
  qt_customer_id :: uuid
  qt_date :: timestamp
  qt_validity :: timestamp
  qt_currency :: string
  qt_status :: sq_state
  qt_revision :: int
  qt_subtotal :: decimal
  qt_discount :: decimal
  qt_tax :: decimal
  qt_total :: decimal
  qt_remarks :: "string option"
  qt_created_by :: "uuid option"
  qt_approved_by :: "uuid option"
  qt_approved_at :: "timestamp option"
  qt_items :: "sales_item list"

datatype so_state = SoDraft | SoSubmitted | SoApproved | SoRejected | SoPartial | SoDelivered | SoClosed | SoCancelled

record sales_order =
  so_number :: string
  so_customer_id :: uuid
  so_quotation_id :: "uuid option"
  so_date :: timestamp
  so_status :: so_state
  so_delivery_status :: progress
  so_revision :: int
  so_currency :: string
  so_subtotal :: decimal
  so_discount :: decimal
  so_tax :: decimal
  so_total :: decimal
  so_payment_terms :: string
  so_shipping_id :: "uuid option"
  so_billing_id :: "uuid option"
  so_remarks :: "string option"
  so_created_by :: "uuid option"
  so_approved_by :: "uuid option"
  so_approved_at :: "timestamp option"
  so_items :: "order_item list"

datatype dl_state = DlDraft | DlDelivered | DlCancelled

record delivery_item =
  di_order_item_id :: uuid
  di_product_id :: uuid
  di_quantity :: decimal

record delivery =
  dl_number :: string
  dl_order_id :: uuid
  dl_warehouse_id :: uuid
  dl_issue_id :: "uuid option"
  dl_date :: timestamp
  dl_carrier :: "string option"
  dl_tracking :: "string option"
  dl_status :: dl_state
  dl_notes :: "string option"
  dl_created_by :: "uuid option"
  dl_items :: "delivery_item list"

datatype sr_state = SrDraft | SrSubmitted | SrApproved | SrCompleted

record sales_return_item =
  sri_order_item_id :: uuid
  sri_product_id :: uuid
  sri_quantity :: decimal
  sri_unit_price :: decimal
  sri_refund :: decimal
  sri_reason :: "string option"

record sales_return =
  sr_number :: string
  sr_order_id :: uuid
  sr_delivery_id :: "uuid option"
  sr_customer_id :: uuid
  sr_warehouse_id :: uuid
  sr_receipt_id :: "uuid option"
  sr_date :: timestamp
  sr_status :: sr_state
  sr_reason_code :: string
  sr_refund :: decimal
  sr_remarks :: "string option"
  sr_created_by :: "uuid option"
  sr_approved_by :: "uuid option"
  sr_items :: "sales_return_item list"

record sales =
  depot :: wms
  engine :: approvals
  sale_users :: "user list"
  customers :: "customer table"
  discount_rules :: "discount_rule table"
  sales_quotations :: "sales_quotation table"
  sales_orders :: "sales_order table"
  deliveries :: "delivery table"
  sales_returns :: "sales_return table"
  sale_next :: uuid
  sale_effects :: "effect list"

definition sale_emit :: "effect list \<Rightarrow> sales \<Rightarrow> sales" where
  "sale_emit es s = s\<lparr>sale_effects := sale_effects s @ es\<rparr>"

lemma sale_emit_frame [simp]:
  "depot (sale_emit es s) = depot s" "engine (sale_emit es s) = engine s" "sale_users (sale_emit es s) = sale_users s"
  "customers (sale_emit es s) = customers s" "discount_rules (sale_emit es s) = discount_rules s"
  "sales_quotations (sale_emit es s) = sales_quotations s" "sales_orders (sale_emit es s) = sales_orders s"
  "deliveries (sale_emit es s) = deliveries s" "sales_returns (sale_emit es s) = sales_returns s"
  "sale_next (sale_emit es s) = sale_next s"
  by (simp_all add: sale_emit_def)

definition take_keys :: "nat \<Rightarrow> sales \<Rightarrow> sales" where
  "take_keys n s = s\<lparr>sale_next := sale_next s + n\<rparr>"

lemma take_keys_frame [simp]:
  "depot (take_keys n s) = depot s" "engine (take_keys n s) = engine s" "sale_users (take_keys n s) = sale_users s"
  "customers (take_keys n s) = customers s" "discount_rules (take_keys n s) = discount_rules s"
  "sales_quotations (take_keys n s) = sales_quotations s" "sales_orders (take_keys n s) = sales_orders s"
  "deliveries (take_keys n s) = deliveries s" "sales_returns (take_keys n s) = sales_returns s"
  "sale_next (take_keys n s) = sale_next s + n"
  by (simp_all add: take_keys_def)

section \<open>Customers\<close>

definition customer_of :: "sales \<Rightarrow> uuid \<Rightarrow> customer option" where
  "customer_of s i =
     (case get (customers s) i of None \<Rightarrow> None | Some c \<Rightarrow> if cu_is_deleted c then None else Some c)"

definition check_customer :: "sales \<Rightarrow> uuid \<Rightarrow> unit result" where
  "check_customer s i =
     (case customer_of s i of
        None \<Rightarrow> Inl (NotFoundException ''Customer'')
      | Some c \<Rightarrow> if cu_status c \<noteq> ''Active'' then Inl (ValidationException ''customer status'') else Inr ())"

definition check_credit_limit :: "sales \<Rightarrow> uuid \<Rightarrow> decimal \<Rightarrow> unit result" where
  "check_credit_limit s i amount =
     (case customer_of s i of
        None \<Rightarrow> Inl (NotFoundException ''Customer'')
      | Some c \<Rightarrow>
        if cu_status c \<noteq> ''Active'' then Inl (ValidationException ''customer status'')
        else if cu_credit_limit c > 0 \<and> amount > cu_credit_limit c
          then Inl (ValidationException ''Requested order amount exceeds customer credit limit'')
        else Inr ())"

section \<open>Pricing of a line\<close>

record sales_line =
  sl_product_id :: uuid
  sl_quantity :: decimal
  sl_unit_price :: decimal
  sl_discount_type :: string
  sl_discount_value :: decimal
  sl_tax_rate :: decimal
  sl_warehouse_id :: "uuid option"
  sl_delivery_date :: "timestamp option"

definition calculate_line_discount :: "decimal \<Rightarrow> decimal \<Rightarrow> string \<Rightarrow> decimal \<Rightarrow> decimal" where
  "calculate_line_discount price qty ty v =
     (let gross = price * qty
      in if gross \<le> 0 then 0
         else let amt = (if ty = ''Percentage'' then gross * (v / 100) else v)
              in max 0 (min gross (round_dp 2 amt)))"

definition sale_gross :: "sales_line \<Rightarrow> decimal" where
  "sale_gross l = sl_unit_price l * sl_quantity l"

definition sale_discount :: "sales_line \<Rightarrow> decimal" where
  "sale_discount l =
     calculate_line_discount (sl_unit_price l) (sl_quantity l) (sl_discount_type l) (sl_discount_value l)"

definition sale_tax :: "sales_line \<Rightarrow> decimal" where
  "sale_tax l = round_dp 2 ((sale_gross l - sale_discount l) * (sl_tax_rate l / 100))"

definition check_sale_line :: "sales \<Rightarrow> sales_line \<Rightarrow> unit result" where
  "check_sale_line s l =
     (if sl_quantity l \<le> 0 then Inl (ValidationException ''Item quantity must be greater than 0.'')
      else if sl_unit_price l < 0 then Inl (ValidationException ''Item unit price cannot be negative.'')
      else case get (products (stock (depot s))) (sl_product_id l) of
        None \<Rightarrow> Inl (NotFoundException ''Product'')
      | Some x \<Rightarrow> if \<not> p_is_active x then Inl (ValidationException ''Product is inactive'') else Inr ())"

definition sale_item :: "uuid \<Rightarrow> sales_line \<Rightarrow> sales_item" where
  "sale_item i l =
     \<lparr>si_id = i, si_product_id = sl_product_id l, si_quantity = sl_quantity l, si_unit_price = sl_unit_price l,
      si_discount_type = sl_discount_type l, si_discount_value = sl_discount_value l,
      si_discount_amount = sale_discount l, si_tax_rate = sl_tax_rate l, si_tax_amount = sale_tax l,
      si_line_total = sale_gross l - sale_discount l + sale_tax l, si_warehouse_id = sl_warehouse_id l\<rparr>"

definition order_item_of :: "sales_item \<Rightarrow> timestamp option \<Rightarrow> order_item" where
  "order_item_of it d = sales_item.extend it \<lparr>oi_delivered = 0, oi_delivery_date = d, oi_status = PgPending\<rparr>"

section \<open>Document discounts\<close>

definition get_active_rules :: "sales \<Rightarrow> timestamp \<Rightarrow> discount_rule list" where
  "get_active_rules s now =
     filter (\<lambda>r. dr_is_active r
         \<and> (case dr_valid_from r of None \<Rightarrow> True | Some t \<Rightarrow> t \<le> now)
         \<and> (case dr_valid_to r of None \<Rightarrow> True | Some t \<Rightarrow> now \<le> t) \<and> dr_type r = ''Document'')
       (map snd (discount_rules s))"

definition rule_discount :: "decimal \<Rightarrow> discount_rule \<Rightarrow> decimal" where
  "rule_discount order_total r =
     (if dr_calculation r = ''Percentage'' then order_total * (dr_value r / 100) else dr_value r)"

definition better_discount :: "decimal \<Rightarrow> decimal \<Rightarrow> decimal \<Rightarrow> discount_rule \<Rightarrow> decimal" where
  "better_discount order_total qty best r =
     (if dr_min_order_value r \<le> order_total \<and> dr_min_quantity r \<le> qty \<and> best < rule_discount order_total r
      then rule_discount order_total r else best)"

definition evaluate_document_discounts :: "sales \<Rightarrow> timestamp \<Rightarrow> decimal \<Rightarrow> decimal \<Rightarrow> decimal" where
  "evaluate_document_discounts s now order_total qty =
     round_dp 2 (min order_total (foldl (better_discount order_total qty) 0 (get_active_rules s now)))"

text \<open>The best applicable rule wins, and the discount exceeds the order total at most by the rounding.\<close>

lemma foldl_better:
  "best \<le> foldl (better_discount t q) best rs \<and>
   (\<forall>r\<in>set rs. dr_min_order_value r \<le> t \<and> dr_min_quantity r \<le> q \<longrightarrow> rule_discount t r \<le> foldl (better_discount t q) best rs) \<and>
   (foldl (better_discount t q) best rs = best \<or>
    (\<exists>r\<in>set rs. dr_min_order_value r \<le> t \<and> dr_min_quantity r \<le> q \<and> rule_discount t r = foldl (better_discount t q) best rs))"
proof (induction rs arbitrary: best)
  case (Cons r rs)
  from Cons.IH [of "better_discount t q best r"] show ?case
    by (auto simp: better_discount_def split: if_splits)
qed simp

lemma line_discount_bounds:
  assumes "0 \<le> price * qty"
  shows "0 \<le> calculate_line_discount price qty ty v" "calculate_line_discount price qty ty v \<le> price * qty"
  using assms by (auto simp: calculate_line_discount_def Let_def)

lemma round_dp_mono_zero: "0 \<le> x \<Longrightarrow> 0 \<le> round_dp n x"
proof -
  assume "0 \<le> x"
  then have "0 \<le> \<lfloor>x * 10 ^ n\<rfloor>" by simp
  then have "0 \<le> round_half_even (x * 10 ^ n)" by (auto simp: round_half_even_def Let_def)
  then show ?thesis by (simp add: round_dp_def)
qed

lemma document_discount_bounds:
  assumes "0 \<le> t"
  shows "0 \<le> evaluate_document_discounts s now t q" "evaluate_document_discounts s now t q \<le> t + 1 / 200"
proof -
  let ?b = "foldl (better_discount t q) 0 (get_active_rules s now)"
  have "0 \<le> ?b" using foldl_better [of 0] by blast
  then show "0 \<le> evaluate_document_discounts s now t q"
    using assms round_dp_mono_zero by (simp add: evaluate_document_discounts_def)
  have "round_dp 2 (min t ?b) - min t ?b \<le> 1 / (2 * 10 ^ 2)"
    using round_dp_near [of 2 "min t ?b"] abs_ge_self order_trans by blast
  moreover have "min t ?b \<le> t" by simp
  ultimately have "round_dp 2 (min t ?b) \<le> t + 1 / (2 * 10 ^ 2)" by linarith
  then show "evaluate_document_discounts s now t q \<le> t + 1 / 200"
    by (simp add: evaluate_document_discounts_def)
qed

end
