(* ===== verification/SalesQuotations.thy ===== *)
theory SalesQuotations
  imports SalesModel
begin

text \<open>
  \<open>QuotationService\<close> (\<^verbatim>\<open>src/app/services/quotation_services.py\<close>). The repository commits the row it creates, so
  a quotation whose lines are refused afterwards stays behind as an empty draft: creating returns the
  result beside the database.
\<close>

section \<open>Creating\<close>

record quotation_create =
  qc_customer_id :: uuid
  qc_validity :: "timestamp option"
  qc_currency :: string
  qc_remarks :: "string option"
  qc_items :: "sales_line list"

definition qt_numbers :: "sales \<Rightarrow> string list" where
  "qt_numbers s = map (\<lambda>(i, q). qt_number q) (sales_quotations s)"

definition thirty_days :: timestamp where
  "thirty_days = 30 * 86400000000"

definition empty_quotation :: "quotation_create \<Rightarrow> string \<Rightarrow> uuid option \<Rightarrow> timestamp \<Rightarrow> sales_quotation" where
  "empty_quotation c num user now =
     \<lparr>qt_number = num, qt_customer_id = qc_customer_id c, qt_date = now,
      qt_validity = (case qc_validity c of Some t \<Rightarrow> t | None \<Rightarrow> now + thirty_days), qt_currency = qc_currency c,
      qt_status = SqDraft, qt_revision = 1, qt_subtotal = 0, qt_discount = 0, qt_tax = 0, qt_total = 0,
      qt_remarks = qc_remarks c, qt_created_by = user, qt_approved_by = None, qt_approved_at = None, qt_items = []\<rparr>"

text \<open>The lines with their keys, and the totals.\<close>

definition sale_items :: "uuid \<Rightarrow> sales_line list \<Rightarrow> sales_item list" where
  "sale_items n ls = map2 sale_item [n..<n + length ls] ls"

definition quote_lines :: "uuid \<Rightarrow> sales_line list \<Rightarrow> sales_quotation \<Rightarrow> sales_quotation" where
  "quote_lines n ls q =
     (let subtotal = sum_list (map sale_gross ls); disc = sum_list (map sale_discount ls);
          tax = sum_list (map sale_tax ls)
      in q\<lparr>qt_items := sale_items n ls, qt_subtotal := subtotal, qt_discount := disc, qt_tax := tax,
           qt_total := subtotal - disc + tax\<rparr>)"

definition put_quotation :: "uuid \<Rightarrow> sales_quotation \<Rightarrow> sales \<Rightarrow> sales" where
  "put_quotation i q s = s\<lparr>sales_quotations := modify i (\<lambda>_. q) (sales_quotations s)\<rparr>"

definition create_quotation ::
  "sales \<Rightarrow> quotation_create \<Rightarrow> uuid option \<Rightarrow> timestamp \<Rightarrow> nat \<Rightarrow> uuid result \<times> sales" where
  "create_quotation s c user now yr =
     (case check_customer s (qc_customer_id c) of
        Inl e \<Rightarrow> (Inl e, s)
      | Inr _ \<Rightarrow>
        if qc_items c = [] then (Inl (ValidationException ''Quotation must have at least one line item.''), s)
        else let i = sale_next s;
                 q = empty_quotation c (next_number (year_prefix ''SQ'' yr) (qt_numbers s)) user now;
                 s1 = sale_emit [Audit ''CREATE'' ''SalesQuotation'' i]
                   ((take_keys (1 + length (qc_items c)) s)\<lparr>sales_quotations := add_row i q (sales_quotations s)\<rparr>)
             in (case each (check_sale_line s) (qc_items c) of
                   Inl e \<Rightarrow> (Inl e, s1)
                 | Inr _ \<Rightarrow>
                   (Inr i, sale_emit [Audit ''SALES_QUOTATION_CREATE'' ''SalesQuotation'' i]
                      (put_quotation i (quote_lines (i + 1) (qc_items c) q) s1))))"

section \<open>Changing\<close>

record quotation_update =
  qu_validity :: "timestamp option"
  qu_currency :: "string option"
  qu_remarks :: "string option"
  qu_items :: "sales_line list option"

definition sale_line_count :: "sales_line list option \<Rightarrow> nat" where
  "sale_line_count lines = (case lines of None \<Rightarrow> 0 | Some ls \<Rightarrow> length ls)"

definition apply_quotation_update :: "quotation_update \<Rightarrow> sales_quotation \<Rightarrow> sales_quotation" where
  "apply_quotation_update u q =
     q\<lparr>qt_revision := qt_revision q + 1,
       qt_validity := (case qu_validity u of Some t \<Rightarrow> t | None \<Rightarrow> qt_validity q),
       qt_currency := (if truthy (qu_currency u) then the (qu_currency u) else qt_currency q),
       qt_remarks := opt_or (qu_remarks u) (qt_remarks q)\<rparr>"

definition update_quotation :: "sales \<Rightarrow> uuid \<Rightarrow> quotation_update \<Rightarrow> sales result" where
  "update_quotation s i u =
     (case get (sales_quotations s) i of
        None \<Rightarrow> Inl (NotFoundException ''Quotation'')
      | Some q \<Rightarrow>
        if qt_status q \<noteq> SqDraft then Inl (ValidationException ''Only Draft quotations can be updated.'')
        else and_then (case qu_items u of
               None \<Rightarrow> Inr (apply_quotation_update u q)
             | Some ls \<Rightarrow>
               if ls = [] then Inl (ValidationException ''Quotation must have at least one line item.'')
               else and_then (each (check_sale_line s) ls) (\<lambda>_.
                 Inr (quote_lines (sale_next s) ls (apply_quotation_update u q)))) (\<lambda>q'.
          Inr (sale_emit [Audit ''SALES_QUOTATION_UPDATE'' ''SalesQuotation'' i]
            (put_quotation i q' (take_keys (sale_line_count (qu_items u)) s)))))"

text \<open>A call that checks the status and writes the row.\<close>

definition change_quotation ::
  "sales \<Rightarrow> uuid \<Rightarrow> (sales_quotation \<Rightarrow> sales_quotation result) \<Rightarrow> effect list \<Rightarrow> sales result" where
  "change_quotation s i f es =
     (case get (sales_quotations s) i of
        None \<Rightarrow> Inl (NotFoundException ''Quotation'')
      | Some q \<Rightarrow> and_then (f q) (\<lambda>q'. Inr (sale_emit es (put_quotation i q' s))))"

text \<open>A customer that is gone does not stop the submission, one that is not active does.\<close>

definition customer_inactive :: "sales \<Rightarrow> uuid \<Rightarrow> bool" where
  "customer_inactive s i = (case customer_of s i of None \<Rightarrow> False | Some c \<Rightarrow> cu_status c \<noteq> ''Active'')"

definition submit_quotation :: "sales \<Rightarrow> uuid \<Rightarrow> sales result" where
  "submit_quotation s i =
     change_quotation s i (\<lambda>q.
       if qt_status q \<noteq> SqDraft then Inl (ValidationException ''Quotation cannot be submitted.'')
       else if qt_items q = [] then Inl (ValidationException ''Quotation must have at least one line item before submission.'')
       else if customer_inactive s (qt_customer_id q) then Inl (ValidationException ''customer status'')
       else Inr (q\<lparr>qt_status := SqSubmitted\<rparr>)) [Audit ''SALES_QUOTATION_SUBMIT'' ''SalesQuotation'' i]"

definition approve_quotation :: "sales \<Rightarrow> uuid \<Rightarrow> uuid option \<Rightarrow> timestamp \<Rightarrow> sales result" where
  "approve_quotation s i user now =
     change_quotation s i (\<lambda>q.
       if qt_status q \<noteq> SqDraft \<and> qt_status q \<noteq> SqSubmitted then Inl (ValidationException ''Quotation cannot be approved.'')
       else Inr (q\<lparr>qt_status := SqApproved, qt_approved_by := user, qt_approved_at := Some now\<rparr>))
       [Audit ''SALES_QUOTATION_APPROVE'' ''SalesQuotation'' i]"

definition rejection_remarks :: "string option \<Rightarrow> string option \<Rightarrow> string option" where
  "rejection_remarks reason remarks =
     (if truthy reason
      then Some (py_strip ((case remarks of None \<Rightarrow> '''' | Some r \<Rightarrow> r) @ '' [Rejected: '' @ the reason @ '']''))
      else remarks)"

definition reject_quotation :: "sales \<Rightarrow> uuid \<Rightarrow> string option \<Rightarrow> sales result" where
  "reject_quotation s i reason =
     change_quotation s i (\<lambda>q.
       if qt_status q \<noteq> SqDraft \<and> qt_status q \<noteq> SqSubmitted then Inl (ValidationException ''Quotation cannot be rejected.'')
       else Inr (q\<lparr>qt_status := SqRejected, qt_remarks := rejection_remarks reason (qt_remarks q)\<rparr>))
       [Audit ''SALES_QUOTATION_REJECT'' ''SalesQuotation'' i]"

definition cancel_quotation :: "sales \<Rightarrow> uuid \<Rightarrow> sales result" where
  "cancel_quotation s i =
     change_quotation s i (\<lambda>q.
       if qt_status q = SqConverted \<or> qt_status q = SqCancelled then Inl (ValidationException ''Quotation cannot be cancelled.'')
       else Inr (q\<lparr>qt_status := SqCancelled\<rparr>)) [Audit ''SALES_QUOTATION_CANCEL'' ''SalesQuotation'' i]"

definition copied_items :: "uuid \<Rightarrow> sales_item list \<Rightarrow> sales_item list" where
  "copied_items n its = map2 (\<lambda>k it. it\<lparr>si_id := k\<rparr>) [n..<n + length its] its"

definition clone_quotation :: "sales \<Rightarrow> uuid \<Rightarrow> uuid option \<Rightarrow> timestamp \<Rightarrow> nat \<Rightarrow> (uuid \<times> sales) result" where
  "clone_quotation s i user now yr =
     (case get (sales_quotations s) i of
        None \<Rightarrow> Inl (NotFoundException ''Quotation'')
      | Some q \<Rightarrow>
        let k = sale_next s;
            q' = \<lparr>qt_number = next_number (year_prefix ''SQ'' yr) (qt_numbers s), qt_customer_id = qt_customer_id q,
              qt_date = now, qt_validity = qt_validity q, qt_currency = qt_currency q, qt_status = SqDraft,
              qt_revision = 1, qt_subtotal = qt_subtotal q, qt_discount = qt_discount q, qt_tax = qt_tax q,
              qt_total = qt_total q, qt_remarks = Some (''Cloned from '' @ qt_number q), qt_created_by = user,
              qt_approved_by = None, qt_approved_at = None, qt_items = copied_items (k + 1) (qt_items q)\<rparr>
        in Inr (k, sale_emit [Audit ''CREATE'' ''SalesQuotation'' k]
             ((take_keys (1 + length (qt_items q)) s)\<lparr>sales_quotations := add_row k q' (sales_quotations s)\<rparr>)))"

section \<open>Expiry\<close>

text \<open>The newest five hundred submitted quotations are looked at.\<close>

definition expiry_page :: "sales \<Rightarrow> uuid list" where
  "expiry_page s =
     take 500 (rev (map fst (filter (\<lambda>(i, q). qt_status q = SqSubmitted) (sales_quotations s))))"

definition expire_quotation :: "timestamp \<Rightarrow> sales_quotation \<Rightarrow> sales_quotation" where
  "expire_quotation now q = (if qt_validity q < now then q\<lparr>qt_status := SqExpired\<rparr> else q)"

definition expire_quotations :: "sales \<Rightarrow> timestamp \<Rightarrow> sales" where
  "expire_quotations s now =
     s\<lparr>sales_quotations := fold (\<lambda>i. modify i (expire_quotation now)) (expiry_page s) (sales_quotations s)\<rparr>"

end
