(* ===== verification/SalesOrders.thy ===== *)
theory SalesOrders
  imports SalesQuotations
begin

text \<open>
  \<open>SalesOrderService\<close> (\<^verbatim>\<open>src/app/services/sales_order_services.py\<close>): orders made of request lines or of an
  approved quotation, their submission to the approval engine, the credit check on approval, and closing
  and reopening. Creating an order commits its empty row before the lines are checked.
\<close>

section \<open>Creating\<close>

record sales_order_create =
  sc_customer_id :: uuid
  sc_quotation_id :: "uuid option"
  sc_currency :: string
  sc_payment_terms :: string
  sc_shipping_id :: "uuid option"
  sc_billing_id :: "uuid option"
  sc_remarks :: "string option"
  sc_items :: "sales_line list"

definition so_numbers :: "sales \<Rightarrow> string list" where
  "so_numbers s = map (\<lambda>(i, o'). so_number o') (sales_orders s)"

definition check_convertible :: "sales \<Rightarrow> uuid \<Rightarrow> sales_quotation result" where
  "check_convertible s i =
     (case get (sales_quotations s) i of
        None \<Rightarrow> Inl (NotFoundException ''Sales Quotation'')
      | Some q \<Rightarrow>
        if qt_status q = SqConverted then Inl (ValidationException ''Quotation has already been converted to a Sales Order.'')
        else if qt_status q \<noteq> SqApproved
          then Inl (ValidationException ''Only Approved quotations can be converted to a Sales Order.'')
        else Inr q)"

definition convert_quotation :: "uuid option \<Rightarrow> sales \<Rightarrow> sales" where
  "convert_quotation qi s =
     (case qi of
        None \<Rightarrow> s
      | Some i \<Rightarrow> s\<lparr>sales_quotations := modify i (\<lambda>q. q\<lparr>qt_status := SqConverted\<rparr>) (sales_quotations s)\<rparr>)"

definition empty_order :: "sales_order_create \<Rightarrow> string \<Rightarrow> uuid option \<Rightarrow> timestamp \<Rightarrow> sales_order" where
  "empty_order c num user now =
     \<lparr>so_number = num, so_customer_id = sc_customer_id c, so_quotation_id = sc_quotation_id c, so_date = now,
      so_status = SoDraft, so_delivery_status = PgPending, so_revision = 1, so_currency = sc_currency c,
      so_subtotal = 0, so_discount = 0, so_tax = 0, so_total = 0, so_payment_terms = sc_payment_terms c,
      so_shipping_id = sc_shipping_id c, so_billing_id = sc_billing_id c, so_remarks = sc_remarks c,
      so_created_by = user, so_approved_by = None, so_approved_at = None, so_items = []\<rparr>"

definition order_items :: "uuid \<Rightarrow> sales_line list \<Rightarrow> order_item list" where
  "order_items n ls = map2 (\<lambda>k l. order_item_of (sale_item k l) (sl_delivery_date l)) [n..<n + length ls] ls"

text \<open>\<open>extra\<close> is the discount on the whole document.\<close>

definition order_lines :: "uuid \<Rightarrow> sales_line list \<Rightarrow> decimal \<Rightarrow> sales_order \<Rightarrow> sales_order" where
  "order_lines n ls extra od =
     (let subtotal = sum_list (map sale_gross ls); disc = sum_list (map sale_discount ls) + extra;
          tax = sum_list (map sale_tax ls)
      in od\<lparr>so_items := order_items n ls, so_subtotal := subtotal, so_discount := disc, so_tax := tax,
            so_total := subtotal - disc + tax\<rparr>)"

definition document_discount :: "sales \<Rightarrow> timestamp \<Rightarrow> sales_line list \<Rightarrow> decimal" where
  "document_discount s now ls =
     evaluate_document_discounts s now (sum_list (map sale_gross ls) - sum_list (map sale_discount ls))
       (sum_list (map sl_quantity ls))"

definition put_sales_order :: "uuid \<Rightarrow> sales_order \<Rightarrow> sales \<Rightarrow> sales" where
  "put_sales_order i od s = s\<lparr>sales_orders := modify i (\<lambda>_. od) (sales_orders s)\<rparr>"

definition sales_order_checks :: "sales \<Rightarrow> sales_order_create \<Rightarrow> unit result" where
  "sales_order_checks s c =
     and_then (check_customer s (sc_customer_id c)) (\<lambda>_.
       if sc_items c = [] then Inl (ValidationException ''Sales Order must have at least one line item.'')
       else case sc_quotation_id c of
           None \<Rightarrow> Inr ()
         | Some qi \<Rightarrow> and_then (check_convertible s qi) (\<lambda>_. Inr ()))"

definition create_sales_order ::
  "sales \<Rightarrow> sales_order_create \<Rightarrow> uuid option \<Rightarrow> timestamp \<Rightarrow> nat \<Rightarrow> uuid result \<times> sales" where
  "create_sales_order s c user now yr =
     (case sales_order_checks s c of
        Inl e \<Rightarrow> (Inl e, s)
      | Inr _ \<Rightarrow>
        let i = sale_next s;
            od = empty_order c (next_number (year_prefix ''SO'' yr) (so_numbers s)) user now;
            s1 = sale_emit [Audit ''CREATE'' ''SalesOrder'' i]
              ((take_keys (1 + length (sc_items c)) s)\<lparr>sales_orders := add_row i od (sales_orders s)\<rparr>)
        in (case each (check_sale_line s) (sc_items c) of
              Inl e \<Rightarrow> (Inl e, s1)
            | Inr _ \<Rightarrow>
              (Inr i, sale_emit [Audit ''SALES_ORDER_CREATE'' ''SalesOrder'' i]
                 (convert_quotation (sc_quotation_id c)
                   (put_sales_order i (order_lines (i + 1) (sc_items c) (document_discount s now (sc_items c)) od) s1)))))"

definition ordered_items :: "uuid \<Rightarrow> sales_item list \<Rightarrow> order_item list" where
  "ordered_items n its = map2 (\<lambda>k it. order_item_of (it\<lparr>si_id := k\<rparr>) None) [n..<n + length its] its"

definition sales_order_from_quotation ::
  "sales \<Rightarrow> uuid \<Rightarrow> uuid option \<Rightarrow> timestamp \<Rightarrow> nat \<Rightarrow> (uuid \<times> sales) result" where
  "sales_order_from_quotation s qi user now yr =
     and_then (check_convertible s qi) (\<lambda>q.
       and_then (check_customer s (qt_customer_id q)) (\<lambda>_.
         if qt_items q = [] then Inl (ValidationException ''Source quotation has no line items.'')
         else let i = sale_next s;
                  od = \<lparr>so_number = next_number (year_prefix ''SO'' yr) (so_numbers s), so_customer_id = qt_customer_id q,
                    so_quotation_id = Some qi, so_date = now, so_status = SoDraft, so_delivery_status = PgPending,
                    so_revision = 1, so_currency = qt_currency q, so_subtotal = qt_subtotal q,
                    so_discount = qt_discount q, so_tax = qt_tax q, so_total = qt_total q,
                    so_payment_terms = ''Net 30'', so_shipping_id = None, so_billing_id = None,
                    so_remarks = qt_remarks q, so_created_by = user, so_approved_by = None, so_approved_at = None,
                    so_items = ordered_items (i + 1) (qt_items q)\<rparr>
              in Inr (i, sale_emit [Audit ''CREATE'' ''SalesOrder'' i, Audit ''SALES_ORDER_CREATE'' ''SalesOrder'' i]
                   (convert_quotation (Some qi)
                     ((take_keys (1 + length (qt_items q)) s)\<lparr>sales_orders := add_row i od (sales_orders s)\<rparr>)))))"

section \<open>Changing\<close>

record sales_order_update =
  sou_payment_terms :: "string option"
  sou_shipping_id :: "uuid option"
  sou_billing_id :: "uuid option"
  sou_remarks :: "string option"
  sou_items :: "sales_line list option"

definition get_sales_order :: "sales \<Rightarrow> uuid \<Rightarrow> sales_order result" where
  "get_sales_order s i = (case get (sales_orders s) i of None \<Rightarrow> Inl (NotFoundException ''Sales Order'') | Some od \<Rightarrow> Inr od)"

definition apply_sales_order_update :: "sales_order_update \<Rightarrow> sales_order \<Rightarrow> sales_order" where
  "apply_sales_order_update u od =
     od\<lparr>so_revision := so_revision od + 1,
        so_payment_terms := (if truthy (sou_payment_terms u) then the (sou_payment_terms u) else so_payment_terms od),
        so_shipping_id := opt_or (sou_shipping_id u) (so_shipping_id od),
        so_billing_id := opt_or (sou_billing_id u) (so_billing_id od),
        so_remarks := opt_or (sou_remarks u) (so_remarks od)\<rparr>"

text \<open>New lines are priced without the discount on the document.\<close>

definition update_sales_order :: "sales \<Rightarrow> uuid \<Rightarrow> sales_order_update \<Rightarrow> sales result" where
  "update_sales_order s i u =
     and_then (get_sales_order s i) (\<lambda>od.
       if so_status od \<noteq> SoDraft then Inl (ValidationException ''Only Draft orders can be updated.'')
       else and_then (case sou_items u of
              None \<Rightarrow> Inr (apply_sales_order_update u od)
            | Some ls \<Rightarrow>
              if ls = [] then Inl (ValidationException ''Sales Order must have at least one line item.'')
              else and_then (each (check_sale_line s) ls) (\<lambda>_.
                Inr (order_lines (sale_next s) ls 0 (apply_sales_order_update u od)))) (\<lambda>od'.
         Inr (sale_emit [Audit ''SALES_ORDER_UPDATE'' ''SalesOrder'' i]
           (put_sales_order i od' (take_keys (sale_line_count (sou_items u)) s)))))"

section \<open>Submission and approval\<close>

definition so_request :: "uuid \<Rightarrow> string option \<Rightarrow> request_create" where
  "so_request i comments =
     \<lparr>rq_workflow_code = ''WF_SALES_ORDER'', rq_entity_type = ''SalesOrder'', rq_entity_id = str_nat i,
      rq_comments = comments\<rparr>"

definition submittable_order :: "sales \<Rightarrow> uuid \<Rightarrow> sales_order result" where
  "submittable_order s i =
     and_then (get_sales_order s i) (\<lambda>od.
       if so_status od \<noteq> SoDraft then Inl (ValidationException ''Sales Order cannot be submitted.'')
       else if so_items od = []
         then Inl (ValidationException ''Sales Order must have at least one line item before submission.'')
       else if customer_inactive s (so_customer_id od) then Inl (ValidationException ''customer status'')
       else Inr od)"

text \<open>As with purchase orders, whatever the engine raises is logged only.\<close>

definition submit_sales_order ::
  "sales \<Rightarrow> uuid \<Rightarrow> uuid option \<Rightarrow> string option \<Rightarrow> timestamp \<Rightarrow> unit result \<times> sales" where
  "submit_sales_order s i user comments now =
     (case submittable_order s i of
        Inl e \<Rightarrow> (Inl e, s)
      | Inr od \<Rightarrow>
        let s1 = put_sales_order i (od\<lparr>so_status := SoSubmitted\<rparr>) s;
            u = request_user (sale_users s) user (so_created_by od) (sale_next s);
            done = sale_emit [Audit ''SALES_ORDER_SUBMIT'' ''SalesOrder'' i]
        in case start_workflow (engine s1) (so_request i comments) u now of
            Inl _ \<Rightarrow> (Inr (), done s1)
          | Inr (_, a) \<Rightarrow>
            if is_user (sale_users s) (user_id u) then (Inr (), done (s1\<lparr>engine := a\<rparr>))
            else (Inl (IntegrityErr ''approval_requests.submitted_by''), s1))"

definition change_sales_order ::
  "sales \<Rightarrow> uuid \<Rightarrow> (sales_order \<Rightarrow> sales_order result) \<Rightarrow> effect list \<Rightarrow> sales result" where
  "change_sales_order s i f es =
     and_then (get_sales_order s i) (\<lambda>od. and_then (f od) (\<lambda>od'. Inr (sale_emit es (put_sales_order i od' s))))"

definition approve_sales_order :: "sales \<Rightarrow> uuid \<Rightarrow> uuid option \<Rightarrow> timestamp \<Rightarrow> sales result" where
  "approve_sales_order s i user now =
     change_sales_order s i (\<lambda>od.
       if so_status od \<noteq> SoDraft \<and> so_status od \<noteq> SoSubmitted then Inl (ValidationException ''Sales Order cannot be approved.'')
       else and_then (check_credit_limit s (so_customer_id od) (so_total od)) (\<lambda>_.
         Inr (od\<lparr>so_status := SoApproved, so_approved_by := user, so_approved_at := Some now\<rparr>)))
       [Audit ''SALES_ORDER_APPROVE'' ''SalesOrder'' i]"

definition reject_sales_order :: "sales \<Rightarrow> uuid \<Rightarrow> string option \<Rightarrow> sales result" where
  "reject_sales_order s i reason =
     change_sales_order s i (\<lambda>od.
       if so_status od \<noteq> SoDraft \<and> so_status od \<noteq> SoSubmitted then Inl (ValidationException ''Sales Order cannot be rejected.'')
       else Inr (od\<lparr>so_status := SoRejected, so_remarks := rejection_remarks reason (so_remarks od)\<rparr>))
       [Audit ''SALES_ORDER_REJECT'' ''SalesOrder'' i]"

section \<open>Cancelling, closing, reopening\<close>

definition cancelled_sales_order :: "sales_order \<Rightarrow> sales_order result" where
  "cancelled_sales_order od =
     (if so_status od = SoClosed \<or> so_status od = SoCancelled \<or> so_status od = SoDelivered
        then Inl (ValidationException ''Sales Order cannot be cancelled.'')
      else if list_ex (\<lambda>it. 0 < oi_delivered it) (so_items od)
        then Inl (ValidationException ''Cannot cancel Sales Order that has already had partial or complete fulfillment.'')
      else Inr (od\<lparr>so_status := SoCancelled, so_delivery_status := PgCancelled,
             so_items := map (\<lambda>it. it\<lparr>oi_status := PgCancelled\<rparr>) (so_items od)\<rparr>))"

definition cancel_sales_order :: "sales \<Rightarrow> uuid \<Rightarrow> sales result" where
  "cancel_sales_order s i =
     change_sales_order s i cancelled_sales_order [Audit ''SALES_ORDER_CANCEL'' ''SalesOrder'' i]"

definition close_sales_order :: "sales \<Rightarrow> uuid \<Rightarrow> sales result" where
  "close_sales_order s i =
     change_sales_order s i (\<lambda>od. Inr (od\<lparr>so_status := SoClosed\<rparr>)) [Audit ''SALES_ORDER_CLOSE'' ''SalesOrder'' i]"

definition reopen_sales_order :: "sales \<Rightarrow> uuid \<Rightarrow> sales result" where
  "reopen_sales_order s i =
     change_sales_order s i (\<lambda>od.
       if so_status od \<noteq> SoClosed then Inl (ValidationException ''Sales Order is not closed.'')
       else Inr (od\<lparr>so_status := SoApproved\<rparr>)) [Audit ''SALES_ORDER_REOPEN'' ''SalesOrder'' i]"

end
