(* ===== verification/SalesDelivery.thy ===== *)
theory SalesDelivery
  imports SalesOrders
begin

text \<open>
  Goods against sales orders: \<open>DeliveryService\<close> (\<^verbatim>\<open>src/app/services/delivery_services.py\<close>), which has the warehouse
  issue what is delivered, \<open>SalesReturnService\<close> (\<^verbatim>\<open>sales_return_services.py\<close>), which has it received again, and
  the tax and invoice helpers (\<^verbatim>\<open>tax_and_invoice_services.py\<close>). Document numbers end in random digits, so
  they are parameters.
\<close>

section \<open>Deliveries\<close>

record delivery_create =
  dc_order_id :: uuid
  dc_warehouse_id :: uuid
  dc_carrier :: "string option"
  dc_tracking :: "string option"
  dc_notes :: "string option"
  dc_items :: "delivery_item list"

definition deliver_line :: "decimal \<Rightarrow> order_item \<Rightarrow> order_item" where
  "deliver_line q it =
     it\<lparr>oi_delivered := oi_delivered it + q,
        oi_status := (if si_quantity it \<le> oi_delivered it + q then PgDelivered else PgPartial)\<rparr>"

text \<open>One pass of the loop: the lines delivered before count for the next one. The goods issue line built in
  the same pass refuses quantities that are not positive.\<close>

definition deliver_step :: "delivery_item \<Rightarrow> order_item list \<Rightarrow> order_item list result" where
  "deliver_step d its =
     (case find (\<lambda>it. si_id it = di_order_item_id d) its of
        None \<Rightarrow> Inl (NotFoundException ''SalesOrderItem'')
      | Some it \<Rightarrow>
        if di_quantity d > si_quantity it - oi_delivered it
          then Inl (ValidationException ''Delivery quantity exceeds remaining order item balance'')
        else if di_quantity d \<le> 0 then Inl (ValueErr ''quantity'')
        else Inr (map (\<lambda>x. if si_id x = di_order_item_id d then deliver_line (di_quantity d) x else x) its))"

definition delivered_order :: "order_item list \<Rightarrow> sales_order \<Rightarrow> sales_order" where
  "delivered_order its od =
     (if list_all (\<lambda>it. si_quantity it \<le> oi_delivered it) its
      then od\<lparr>so_items := its, so_delivery_status := PgDelivered, so_status := SoDelivered\<rparr>
      else od\<lparr>so_items := its, so_delivery_status := PgPartial, so_status := SoPartial\<rparr>)"

definition new_delivery :: "delivery_create \<Rightarrow> string \<Rightarrow> uuid option \<Rightarrow> timestamp \<Rightarrow> delivery" where
  "new_delivery c num user now =
     \<lparr>dl_number = num, dl_order_id = dc_order_id c, dl_warehouse_id = dc_warehouse_id c, dl_issue_id = None,
      dl_date = now, dl_carrier = dc_carrier c, dl_tracking = dc_tracking c, dl_status = DlDraft,
      dl_notes = dc_notes c, dl_created_by = user, dl_items = []\<rparr>"

definition put_delivery :: "uuid \<Rightarrow> delivery \<Rightarrow> sales \<Rightarrow> sales" where
  "put_delivery i d s = s\<lparr>deliveries := modify i (\<lambda>_. d) (deliveries s)\<rparr>"

definition delivery_issue_line :: "string \<Rightarrow> delivery_item \<Rightarrow> issue_item \<times> string option" where
  "delivery_issue_line num d =
     (let txt = Some (''Sales Delivery '' @ num)
      in (\<lparr>ii_product_id = di_product_id d, ii_location_id = None, ii_quantity = di_quantity d, ii_unit_id = None,
           ii_batch_id = None, ii_serial_numbers = [], ii_reservation_id = None, ii_remarks = txt\<rparr>, txt))"

definition delivery_issue :: "delivery_create \<Rightarrow> string \<Rightarrow> timestamp \<Rightarrow> issue_create" where
  "delivery_issue c num now =
     (let txt = Some (''Stock issue for Sales Delivery '' @ num)
      in \<lparr>gic_number = ''GI-SO-'' @ num, gic_warehouse_id = dc_warehouse_id c, gic_date = Some now,
          gic_reason = ''Sales'', gic_remarks = txt, gic_notes = txt,
          gic_items = map (delivery_issue_line num) (dc_items c)\<rparr>)"

text \<open>Create, approve and issue, each committed on its own; \<open>None\<close> when one of them raises.\<close>

definition issue_for_delivery ::
  "wms \<Rightarrow> delivery_create \<Rightarrow> string \<Rightarrow> uuid option \<Rightarrow> timestamp \<Rightarrow> uuid option \<times> wms" where
  "issue_for_delivery w c num user now =
     (if dc_items c = [] then (None, w)
      else case create_issue w (delivery_issue c num now) user now of
          Inl _ \<Rightarrow> (None, w)
        | Inr (k, w1) \<Rightarrow>
          (case approve_issue w1 k user now of
             Inl _ \<Rightarrow> (None, w1)
           | Inr w2 \<Rightarrow>
             (case issue_issue w2 k user now of
                (Inl _, saved) \<Rightarrow> (None, saved)
              | (Inr _, w3) \<Rightarrow> (Some k, w3))))"

definition delivery_checks :: "sales \<Rightarrow> delivery_create \<Rightarrow> string \<Rightarrow> sales_order result" where
  "delivery_checks s c num =
     and_then (get_sales_order s (dc_order_id c)) (\<lambda>od.
       if so_status od \<noteq> SoApproved \<and> so_status od \<noteq> SoPartial
         then Inl (ValidationException ''Cannot dispatch delivery for Sales Order in this status.'')
       else if get (warehouses (stock (depot s))) (dc_warehouse_id c) = None then Inl (NotFoundException ''Warehouse'')
       else if exists_where (\<lambda>d. dl_number d = num) (deliveries s) then Inl (IntegrityErr ''delivery_number'')
       else Inr od)"

text \<open>The empty delivery is committed first, the delivered quantities second, and only then the goods are issued.
  A failure of the issue ends in a \<open>NameError\<close>: the handler that should log it names a logger the module
  does not define.\<close>

definition create_delivery ::
  "sales \<Rightarrow> delivery_create \<Rightarrow> string \<Rightarrow> uuid option \<Rightarrow> timestamp \<Rightarrow> uuid result \<times> sales" where
  "create_delivery s c num user now =
     (case delivery_checks s c num of
        Inl e \<Rightarrow> (Inl e, s)
      | Inr od \<Rightarrow>
        let i = sale_next s;
            d = new_delivery c num user now;
            s1 = sale_emit [Audit ''CREATE'' ''DeliveryOrder'' i]
              ((take_keys 1 s)\<lparr>deliveries := add_row i d (deliveries s)\<rparr>)
        in (case fold_res deliver_step (dc_items c) (so_items od) of
              Inl e \<Rightarrow> (Inl e, s1)
            | Inr its \<Rightarrow>
              let s2 = put_delivery i (d\<lparr>dl_items := dc_items c\<rparr>)
                         (put_sales_order (dc_order_id c) (delivered_order its od) s1)
              in (case issue_for_delivery (depot s2) c num user now of
                    (None, w) \<Rightarrow> (Inl (NameErr ''logger''), s2\<lparr>depot := w\<rparr>)
                  | (Some k, w) \<Rightarrow>
                    (Inr i, sale_emit [Audit ''DELIVERY_ORDER_CREATE'' ''DeliveryOrder'' i]
                       (put_delivery i (d\<lparr>dl_items := dc_items c, dl_status := DlDelivered, dl_issue_id := Some k\<rparr>)
                         (s2\<lparr>depot := w\<rparr>))))))"

definition cancel_delivery :: "sales \<Rightarrow> uuid \<Rightarrow> sales result" where
  "cancel_delivery s i =
     (case get (deliveries s) i of
        None \<Rightarrow> Inl (NotFoundException ''Delivery Order'')
      | Some d \<Rightarrow>
        if dl_status d = DlCancelled then Inl (ValidationException ''Delivery Order is already cancelled.'')
        else Inr (sale_emit [Audit ''DELIVERY_ORDER_CANCEL'' ''DeliveryOrder'' i]
               (put_delivery i (d\<lparr>dl_status := DlCancelled\<rparr>) s)))"

section \<open>Returns\<close>

record sales_return_line =
  srl_order_item_id :: uuid
  srl_product_id :: uuid
  srl_quantity :: decimal
  srl_reason :: "string option"

record sales_return_create =
  src_order_id :: uuid
  src_delivery_id :: "uuid option"
  src_warehouse_id :: uuid
  src_reason_code :: string
  src_remarks :: "string option"
  src_items :: "sales_return_line list"

definition returned_item :: "sales_order \<Rightarrow> sales_return_line \<Rightarrow> sales_return_item result" where
  "returned_item od l =
     (case find (\<lambda>it. si_id it = srl_order_item_id l) (so_items od) of
        None \<Rightarrow> Inl (NotFoundException ''SalesOrderItem'')
      | Some it \<Rightarrow>
        Inr \<lparr>sri_order_item_id = si_id it, sri_product_id = srl_product_id l, sri_quantity = srl_quantity l,
             sri_unit_price = si_unit_price it, sri_refund = round_dp 2 (si_unit_price it * srl_quantity l),
             sri_reason = srl_reason l\<rparr>)"

fun collect_res :: "('a \<Rightarrow> 'b result) \<Rightarrow> 'a list \<Rightarrow> 'b list result" where
  "collect_res f [] = Inr []"
| "collect_res f (x # xs) =
     (case f x of Inl e \<Rightarrow> Inl e | Inr y \<Rightarrow> (case collect_res f xs of Inl e \<Rightarrow> Inl e | Inr ys \<Rightarrow> Inr (y # ys)))"

definition sales_return_checks :: "sales \<Rightarrow> sales_return_create \<Rightarrow> string \<Rightarrow> sales_order result" where
  "sales_return_checks s c num =
     and_then (get_sales_order s (src_order_id c)) (\<lambda>od.
       if get (warehouses (stock (depot s))) (src_warehouse_id c) = None then Inl (NotFoundException ''Warehouse'')
       else if exists_where (\<lambda>r. sr_number r = num) (sales_returns s) then Inl (IntegrityErr ''return_number'')
       else if (case src_delivery_id c of None \<Rightarrow> False | Some k \<Rightarrow> get (deliveries s) k = None)
         then Inl (IntegrityErr ''delivery_order_id'')
       else Inr od)"

definition put_sales_return :: "uuid \<Rightarrow> sales_return \<Rightarrow> sales \<Rightarrow> sales" where
  "put_sales_return i r s = s\<lparr>sales_returns := modify i (\<lambda>_. r) (sales_returns s)\<rparr>"

definition create_sales_return ::
  "sales \<Rightarrow> sales_return_create \<Rightarrow> string \<Rightarrow> uuid option \<Rightarrow> timestamp \<Rightarrow> uuid result \<times> sales" where
  "create_sales_return s c num user now =
     (case sales_return_checks s c num of
        Inl e \<Rightarrow> (Inl e, s)
      | Inr od \<Rightarrow>
        let i = sale_next s;
            r = \<lparr>sr_number = num, sr_order_id = src_order_id c, sr_delivery_id = src_delivery_id c,
              sr_customer_id = so_customer_id od, sr_warehouse_id = src_warehouse_id c, sr_receipt_id = None,
              sr_date = now, sr_status = SrDraft, sr_reason_code = src_reason_code c, sr_refund = 0,
              sr_remarks = src_remarks c, sr_created_by = user, sr_approved_by = None, sr_items = []\<rparr>;
            s1 = sale_emit [Audit ''CREATE'' ''SalesReturn'' i]
              ((take_keys 1 s)\<lparr>sales_returns := add_row i r (sales_returns s)\<rparr>)
        in (case collect_res (returned_item od) (src_items c) of
              Inl e \<Rightarrow> (Inl e, s1)
            | Inr its \<Rightarrow>
              (Inr i, sale_emit [Audit ''SALES_RETURN_CREATE'' ''SalesReturn'' i]
                 (put_sales_return i (r\<lparr>sr_items := its, sr_refund := sum_list (map sri_refund its)\<rparr>) s1))))"

definition return_receipt_line :: "string \<Rightarrow> sales_return_item \<Rightarrow> receipt_item \<times> string option" where
  "return_receipt_line num it =
     (let txt = Some (''Sales Return '' @ num)
      in (\<lparr>ri_product_id = sri_product_id it, ri_location_id = None, ri_quantity = sri_quantity it, ri_unit_id = None,
           ri_unit_cost = Some (sri_unit_price it), ri_batch_id = None, ri_batch_number = None, ri_expiry_date = None,
           ri_serial_numbers = [], ri_remarks = txt\<rparr>, txt))"

definition return_receipt :: "sales_return \<Rightarrow> timestamp \<Rightarrow> receipt_create" where
  "return_receipt r now =
     (let txt = Some (''Stock reversal for Sales Return '' @ sr_number r)
      in \<lparr>grc_number = ''GR-SR-'' @ sr_number r, grc_warehouse_id = sr_warehouse_id r, grc_supplier_reference = None,
          grc_external_reference = None, grc_date = Some now, grc_remarks = txt, grc_notes = txt,
          grc_items = map (return_receipt_line (sr_number r)) (sr_items r)\<rparr>)"

text \<open>What the session holds when the execution of a receipt stops: the lines before the one that raised. Lines
  without batch and serial numbers, as here, raise before they write.\<close>

fun booked_lines :: "uuid \<Rightarrow> receipt \<Rightarrow> uuid option \<Rightarrow> timestamp \<Rightarrow> receipt_item list \<Rightarrow> wms \<Rightarrow> wms" where
  "booked_lines i r user now [] w = w"
| "booked_lines i r user now (it # its) w =
     (case run_in user now (receipt_movement i r it (ri_batch_id it)) (stock w) of
        Inl e \<Rightarrow> w
      | Inr s \<Rightarrow> booked_lines i r user now its (w\<lparr>stock := s\<rparr>))"

definition receive_session :: "wms \<Rightarrow> uuid \<Rightarrow> uuid option \<Rightarrow> timestamp \<Rightarrow> uuid option \<times> wms" where
  "receive_session w k user now =
     (case receive_receipt w k user now of
        (Inr _, w1) \<Rightarrow> (Some k, w1)
      | (Inl _, _) \<Rightarrow>
        (case get (receipts w) k of
           None \<Rightarrow> (None, w)
         | Some r \<Rightarrow>
           if is_ok (validate_receipt w (gr_warehouse_id r) (gr_items r))
           then (None, booked_lines k r user now (gr_items r) w) else (None, w)))"

text \<open>Every exception is swallowed, and the commit after it keeps what the session holds.\<close>

definition receipt_for_return :: "wms \<Rightarrow> sales_return \<Rightarrow> uuid option \<Rightarrow> timestamp \<Rightarrow> uuid option \<times> wms" where
  "receipt_for_return w r user now =
     (if sr_items r = [] \<or> list_ex (\<lambda>it. sri_quantity it \<le> 0) (sr_items r) then (None, w)
      else case create_receipt w (return_receipt r now) user now of
          Inl _ \<Rightarrow> (None, w)
        | Inr (k, w1) \<Rightarrow>
          (case approve_receipt w1 k user now of
             Inl _ \<Rightarrow> (None, w1)
           | Inr w2 \<Rightarrow> receive_session w2 k user now))"

definition approve_sales_return :: "sales \<Rightarrow> uuid \<Rightarrow> uuid option \<Rightarrow> timestamp \<Rightarrow> sales result" where
  "approve_sales_return s i user now =
     (case get (sales_returns s) i of
        None \<Rightarrow> Inl (NotFoundException ''Sales Return'')
      | Some r \<Rightarrow>
        if sr_status r \<noteq> SrDraft \<and> sr_status r \<noteq> SrSubmitted
          then Inl (ValidationException ''Sales Return cannot be approved.'')
        else case receipt_for_return (depot s) r user now of
            (k, w) \<Rightarrow>
              Inr (sale_emit [Audit ''SALES_RETURN_APPROVE'' ''SalesReturn'' i]
                (put_sales_return i (r\<lparr>sr_status := SrCompleted, sr_approved_by := user,
                   sr_receipt_id := (case k of None \<Rightarrow> sr_receipt_id r | Some _ \<Rightarrow> k)\<rparr>) (s\<lparr>depot := w\<rparr>))))"

section \<open>Tax and invoice\<close>

definition calculate_item_tax :: "decimal \<Rightarrow> decimal \<Rightarrow> decimal" where
  "calculate_item_tax amount rate = (if amount \<le> 0 \<or> rate \<le> 0 then 0 else round_dp 2 (amount * (rate / 100)))"

record invoice_item =
  iv_product_id :: uuid
  iv_quantity :: decimal
  iv_unit_price :: decimal
  iv_discount :: decimal
  iv_tax_rate :: decimal
  iv_tax :: decimal
  iv_line_total :: decimal

record invoice_payload =
  ip_order_id :: uuid
  ip_order_number :: string
  ip_customer_id :: uuid
  ip_currency :: string
  ip_order_date :: timestamp
  ip_subtotal :: decimal
  ip_discount :: decimal
  ip_tax :: decimal
  ip_total :: decimal
  ip_payment_terms :: string
  ip_items :: "invoice_item list"
  ip_generated_at :: timestamp

definition invoice_line :: "order_item \<Rightarrow> invoice_item" where
  "invoice_line it =
     \<lparr>iv_product_id = si_product_id it,
      iv_quantity = (if oi_delivered it > 0 then oi_delivered it else si_quantity it),
      iv_unit_price = si_unit_price it, iv_discount = si_discount_amount it, iv_tax_rate = si_tax_rate it,
      iv_tax = si_tax_amount it, iv_line_total = si_line_total it\<rparr>"

definition generate_invoice_payload :: "sales \<Rightarrow> uuid \<Rightarrow> timestamp \<Rightarrow> invoice_payload result" where
  "generate_invoice_payload s i now =
     and_then (get_sales_order s i) (\<lambda>od.
       if so_status od \<notin> {SoPartial, SoDelivered, SoApproved, SoClosed}
         then Inl (ValidationException ''Cannot generate invoice payload for Sales Order in this status.'')
       else Inr \<lparr>ip_order_id = i, ip_order_number = so_number od, ip_customer_id = so_customer_id od,
              ip_currency = so_currency od, ip_order_date = so_date od, ip_subtotal = so_subtotal od,
              ip_discount = so_discount od, ip_tax = so_tax od, ip_total = so_total od,
              ip_payment_terms = so_payment_terms od, ip_items = map invoice_line (so_items od),
              ip_generated_at = now\<rparr>)"

end
