(* ===== verification/TableCalls.thy ===== *)
theory TableCalls
  imports ErpPrelude
begin

text \<open>
  What one call does to a table: \<open>table_call P R n n' t t'\<close> says that the rows of \<open>t\<close> stay, each as it was or
  changed by \<open>R\<close>, that at most one row is added, under the next key and with \<open>P\<close>, and that the counter goes
  from \<open>n\<close> to \<open>n'\<close>. A property of new rows that \<open>R\<close> keeps then holds of every row, and each row follows \<open>R\<close>.
\<close>

definition rows_move :: "('r \<Rightarrow> 'r \<Rightarrow> bool) \<Rightarrow> 'r table \<Rightarrow> 'r table \<Rightarrow> bool" where
  "rows_move R t t' = list_all2 (\<lambda>(i, r) (j, r'). j = i \<and> (r' = r \<or> R r r')) t t'"

definition table_call ::
  "('r \<Rightarrow> bool) \<Rightarrow> ('r \<Rightarrow> 'r \<Rightarrow> bool) \<Rightarrow> uuid \<Rightarrow> uuid \<Rightarrow> 'r table \<Rightarrow> 'r table \<Rightarrow> bool" where
  "table_call P R n n' t t' =
     (n \<le> n' \<and> (rows_move R t t' \<or> n < n' \<and> (\<exists>r ts. rows_move R t ts \<and> t' = add_row n r ts \<and> P r)))"

lemma rows_move_refl [simp]: "rows_move R t t"
  by (auto simp: rows_move_def intro: list.rel_refl_strong)

lemma rows_move_keys: "rows_move R t t' \<Longrightarrow> keys t' = keys t"
  unfolding rows_move_def keys_def by (induction rule: list_all2_induct) auto

lemma rows_move_get:
  assumes "rows_move R t t'" and "get t i = Some r"
  shows "\<exists>r'. get t' i = Some r' \<and> (r' = r \<or> R r r')"
  using assms unfolding rows_move_def get_def
  by (induction rule: list_all2_induct) (auto split: if_splits)

lemma rows_move_modify:
  assumes "\<And>r. (i, r) \<in> set t \<Longrightarrow> f r = r \<or> R r (f r)"
  shows "rows_move R t (modify i f t)"
proof -
  have "(\<lambda>(i, r) (j, r'). j = i \<and> (r' = r \<or> R r r')) x ((\<lambda>(k, r). (k, if k = i then f r else r)) x)"
    if "x \<in> set t" for x
    using that assms [of "snd x"] by (cases x) auto
  then show ?thesis unfolding rows_move_def modify_def list.rel_map by (rule list.rel_refl_strong)
qed

lemma rows_move_mono: "rows_move R t t' \<Longrightarrow> (\<And>r r'. R r r' \<Longrightarrow> S r r') \<Longrightarrow> rows_move S t t'"
  unfolding rows_move_def by (erule list_all2_mono) auto

lemma rows_move_all:
  assumes "rows_move R t t'" and "all_rows I t" and "\<And>r r'. R r r' \<Longrightarrow> I r \<Longrightarrow> I r'"
  shows "all_rows I t'"
  using assms unfolding rows_move_def all_rows_def
  by (induction rule: list_all2_induct) auto

lemma table_call_same [intro]: "n \<le> n' \<Longrightarrow> table_call P R n n' t t"
  by (simp add: table_call_def)

lemma table_call_rows: "n \<le> n' \<Longrightarrow> rows_move R t t' \<Longrightarrow> table_call P R n n' t t'"
  by (simp add: table_call_def)

lemma table_call_new: "n < n' \<Longrightarrow> P r \<Longrightarrow> table_call P R n n' t (add_row n r t)"
  by (force simp: table_call_def)

text \<open>A row that is added and filled in by the same call.\<close>

lemma modify_add_row:
  assumes "wf_table n t"
  shows "modify n f (add_row n r t) = add_row n (f r) t"
  using modify_absent [OF wf_table_fresh_get [OF assms order_refl], of f] by (simp add: modify_def add_row_def)

lemma table_call_change:
  assumes "n \<le> n'" and "wf_table m t" and "get t i = Some r" and "R r r'"
  shows "table_call P R n n' t (modify i (\<lambda>_. r') t)"
  using assms in_set_get [OF wf_table_distinct [OF assms(2)], of i]
  by (intro table_call_rows rows_move_modify) auto

lemma table_call_wf:
  assumes "table_call P R n n' t t'" and "wf_table n t"
  shows "wf_table n' t'"
proof -
  have "wf_table n ts" if "rows_move R t ts" for ts
    using rows_move_keys [OF that] assms(2) by (simp add: wf_table_def)
  with assms(1) show ?thesis
    by (auto simp: table_call_def intro: wf_table_mono wf_table_add_row)
qed

lemma table_call_all:
  assumes "table_call P R n n' t t'" and "all_rows I t"
    and "\<And>r. P r \<Longrightarrow> I r" and "\<And>r r'. R r r' \<Longrightarrow> I r \<Longrightarrow> I r'"
  shows "all_rows I t'"
  using assms rows_move_all [of R t _ I] by (auto simp: table_call_def all_rows_add_row)

lemma table_call_get:
  assumes "table_call P R n n' t t'" and "get t i = Some r"
  shows "\<exists>r'. get t' i = Some r' \<and> (r' = r \<or> R r r')"
  using assms rows_move_get [of R t _ i r] by (fastforce simp: table_call_def get_add_row_eq)

end
