(* ===== verification/SalesSystem.thy ===== *)
theory SalesSystem
  imports SalesDelivery TableCalls
begin

text \<open>
  Sales as a state machine over the warehouse and the approval engine: \<open>sale_step\<close> lists the calls of the
  quotation, order, delivery and return services. \<open>sales_call\<close> says what one call can do to the table of
  orders; the invariant \<open>sale_inv\<close>, the life cycle of an order and what quotations keep rest on it.
\<close>

section \<open>Steps\<close>

inductive sale_step :: "sales \<Rightarrow> sales \<Rightarrow> bool" where
  warehouse: "wms_step (depot s) w \<Longrightarrow> sale_step s (s\<lparr>depot := w\<rparr>)"
| approvals: "ap_step (engine s) a \<Longrightarrow> sale_step s (s\<lparr>engine := a\<rparr>)"
| masters: "sale_step s (s\<lparr>sale_users := us, customers := cs, discount_rules := rs\<rparr>)"
| quote: "create_quotation s qc user now yr = (r, s') \<Longrightarrow> sale_step s s'"
| requote: "update_quotation s i qu = Inr s' \<Longrightarrow> sale_step s s'"
| submit_quote: "submit_quotation s i = Inr s' \<Longrightarrow> sale_step s s'"
| approve_quote: "approve_quotation s i user now = Inr s' \<Longrightarrow> sale_step s s'"
| reject_quote: "reject_quotation s i txt = Inr s' \<Longrightarrow> sale_step s s'"
| cancel_quote: "cancel_quotation s i = Inr s' \<Longrightarrow> sale_step s s'"
| clone_quote: "clone_quotation s i user now yr = Inr (k, s') \<Longrightarrow> sale_step s s'"
| expire: "expire_quotations s now = s' \<Longrightarrow> sale_step s s'"
| order: "create_sales_order s oc user now yr = (r, s') \<Longrightarrow> sale_step s s'"
| convert: "sales_order_from_quotation s qi user now yr = Inr (i, s') \<Longrightarrow> sale_step s s'"
| reorder: "update_sales_order s i u = Inr s' \<Longrightarrow> sale_step s s'"
| submit: "submit_sales_order s i user txt now = (r, s') \<Longrightarrow> sale_step s s'"
| approve: "approve_sales_order s i user now = Inr s' \<Longrightarrow> sale_step s s'"
| reject: "reject_sales_order s i txt = Inr s' \<Longrightarrow> sale_step s s'"
| cancel: "cancel_sales_order s i = Inr s' \<Longrightarrow> sale_step s s'"
| close: "close_sales_order s i = Inr s' \<Longrightarrow> sale_step s s'"
| reopen: "reopen_sales_order s i = Inr s' \<Longrightarrow> sale_step s s'"
| deliver: "create_delivery s dc num user now = (r, s') \<Longrightarrow> sale_step s s'"
| undeliver: "cancel_delivery s i = Inr s' \<Longrightarrow> sale_step s s'"
| give_back: "create_sales_return s rc num user now = (r, s') \<Longrightarrow> sale_step s s'"
| take_back: "approve_sales_return s i user now = Inr s' \<Longrightarrow> sale_step s s'"

definition sale_init :: "sales \<Rightarrow> bool" where
  "sale_init s = (wms_init (depot s) \<and> ap_init (engine s) \<and> sales_quotations s = [] \<and> sales_orders s = [] \<and>
     deliveries s = [] \<and> sales_returns s = [])"

inductive sale_reachable :: "sales \<Rightarrow> bool" where
  init: "sale_init s \<Longrightarrow> sale_reachable s"
| step: "sale_reachable s \<Longrightarrow> sale_step s s' \<Longrightarrow> sale_reachable s'"

section \<open>Amounts\<close>

definition item_gross :: "'a sales_item_scheme \<Rightarrow> decimal" where
  "item_gross it = si_unit_price it * si_quantity it"

definition item_priced :: "'a sales_item_scheme \<Rightarrow> bool" where
  "item_priced it =
     (0 < si_quantity it \<and> 0 \<le> si_unit_price it \<and> 0 \<le> si_discount_amount it \<and>
      si_discount_amount it \<le> item_gross it \<and>
      si_line_total it = item_gross it - si_discount_amount it + si_tax_amount it)"

text \<open>The amounts of a document and of its lines: the discount is that of the lines and at most the subtotal,
  up to the rounding of the document discount.\<close>

definition amounts_ok :: "'a sales_item_scheme list \<Rightarrow> decimal \<Rightarrow> decimal \<Rightarrow> decimal \<Rightarrow> decimal \<Rightarrow> bool" where
  "amounts_ok its sub disc tax tot =
     (list_all item_priced its \<and> sub = sum_list (map item_gross its) \<and> tax = sum_list (map si_tax_amount its) \<and>
      tot = sub - disc + tax \<and> sum_list (map si_discount_amount its) \<le> disc \<and> disc \<le> sub + 1 / 200)"

definition qt_ok :: "sales_quotation \<Rightarrow> bool" where
  "qt_ok q = (amounts_ok (qt_items q) (qt_subtotal q) (qt_discount q) (qt_tax q) (qt_total q) \<and>
     distinct (map si_id (qt_items q)))"

definition undelivered :: "order_item list \<Rightarrow> bool" where
  "undelivered its = list_all (\<lambda>it. oi_delivered it = 0) its"

definition so_ok :: "sales_order \<Rightarrow> bool" where
  "so_ok od =
     (amounts_ok (so_items od) (so_subtotal od) (so_discount od) (so_tax od) (so_total od) \<and>
      distinct (map si_id (so_items od)) \<and>
      list_all (\<lambda>it. 0 \<le> oi_delivered it \<and> oi_delivered it \<le> si_quantity it) (so_items od) \<and>
      (so_status od \<in> {SoDraft, SoSubmitted, SoRejected, SoCancelled} \<longrightarrow> undelivered (so_items od)) \<and>
      (so_status od = SoDelivered \<longrightarrow> list_all (\<lambda>it. oi_delivered it = si_quantity it) (so_items od)))"

lemma checked_line:
  assumes "check_sale_line s l = Inr ()"
  shows "item_priced (sale_item k l)"
proof -
  from assms have "0 < sl_quantity l" "0 \<le> sl_unit_price l"
    by (auto simp: check_sale_line_def split: if_splits)
  then show ?thesis
    using line_discount_bounds [of "sl_unit_price l" "sl_quantity l"]
    by (simp add: item_priced_def sale_item_def sale_gross_def sale_discount_def item_gross_def)
qed

lemma item_priced_extend [simp]: "item_priced (order_item_of it d) = item_priced it"
  and item_gross_extend [simp]: "item_gross (order_item_of it d) = item_gross it"
  and order_item_fields [simp]: "si_id (order_item_of it d) = si_id it" "oi_delivered (order_item_of it d) = 0"
    "si_tax_amount (order_item_of it d) = si_tax_amount it" "si_quantity (order_item_of it d) = si_quantity it"
    "si_discount_amount (order_item_of it d) = si_discount_amount it"
  by (simp_all add: item_priced_def item_gross_def order_item_of_def sales_item.defs)

lemma item_update [simp]:
  "item_priced (it\<lparr>si_id := k\<rparr>) = item_priced it" "item_gross (it\<lparr>si_id := k\<rparr>) = item_gross it"
  by (simp_all add: item_priced_def item_gross_def)

lemma sale_item_fields [simp]:
  "si_id (sale_item k l) = k" "item_gross (sale_item k l) = sale_gross l"
  "si_tax_amount (sale_item k l) = sale_tax l" "si_discount_amount (sale_item k l) = sale_discount l"
  by (simp_all add: sale_item_def item_gross_def sale_gross_def)

text \<open>Numbering the lines changes none of their amounts.\<close>

lemma map2_right:
  assumes "\<And>k x. g (f k x) = h x" and "length xs \<le> length ks"
  shows "map g (map2 f ks xs) = map h xs"
  using assms(2)
proof (induction xs arbitrary: ks)
  case (Cons x xs)
  then show ?case by (cases ks) (simp_all add: assms(1))
qed simp

lemma map2_keys:
  assumes "\<And>k x. g (f k x) = k"
  shows "map g (map2 f [n..<n + length xs] xs) = [n..<n + length xs]"
  using assms by (simp add: comp_def case_prod_beta map_fst_zip)

lemma list_all_map2:
  assumes "\<And>k x. x \<in> set xs \<Longrightarrow> P (f k x)"
  shows "list_all P (map2 f ks xs)"
  using assms by (auto simp: list_all_iff dest: set_zip_rightD)

lemma sale_items_map:
  "map si_id (sale_items n ls) = [n..<n + length ls]" "map item_gross (sale_items n ls) = map sale_gross ls"
  "map si_tax_amount (sale_items n ls) = map sale_tax ls" "map si_discount_amount (sale_items n ls) = map sale_discount ls"
  unfolding sale_items_def by (rule map2_keys map2_right; simp)+

lemma order_items_map:
  "map si_id (order_items n ls) = [n..<n + length ls]" "map item_gross (order_items n ls) = map sale_gross ls"
  "map si_tax_amount (order_items n ls) = map sale_tax ls" "map si_discount_amount (order_items n ls) = map sale_discount ls"
  unfolding order_items_def by (rule map2_keys map2_right; simp)+

lemma ordered_items_map:
  "map si_id (ordered_items n its) = [n..<n + length its]" "map item_gross (ordered_items n its) = map item_gross its"
  "map si_tax_amount (ordered_items n its) = map si_tax_amount its"
  "map si_discount_amount (ordered_items n its) = map si_discount_amount its"
  unfolding ordered_items_def by (rule map2_keys map2_right; simp)+

lemma copied_items_map:
  "map si_id (copied_items n its) = [n..<n + length its]" "map item_gross (copied_items n its) = map item_gross its"
  "map si_tax_amount (copied_items n its) = map si_tax_amount its"
  "map si_discount_amount (copied_items n its) = map si_discount_amount its"
  unfolding copied_items_def by (rule map2_keys map2_right; simp)+

lemma eachD: "each f xs = Inr u \<Longrightarrow> x \<in> set xs \<Longrightarrow> f x = Inr ()"
  by (induction xs) (auto split: sum.splits)

lemma checked_lines:
  assumes "each (check_sale_line s) ls = Inr u"
  shows "list_all item_priced (sale_items n ls)" "list_all item_priced (order_items n ls)"
    "sum_list (map sale_discount ls) \<le> sum_list (map sale_gross ls)"
proof -
  have ok: "item_priced (sale_item k l)" if "l \<in> set ls" for k l
    using eachD [OF assms that] by (rule checked_line)
  then show "list_all item_priced (sale_items n ls)" "list_all item_priced (order_items n ls)"
    unfolding sale_items_def order_items_def by (intro list_all_map2; simp)+
  have "sale_discount l \<le> sale_gross l" if "l \<in> set ls" for l
    using ok [OF that, of 0] by (simp add: item_priced_def)
  then show "sum_list (map sale_discount ls) \<le> sum_list (map sale_gross ls)" by (rule sum_list_mono)
qed

lemma item_priced_map:
  "list_all item_priced its \<Longrightarrow> list_all item_priced (ordered_items n its)"
  "list_all item_priced its \<Longrightarrow> list_all item_priced (copied_items n its)"
  unfolding ordered_items_def copied_items_def by (intro list_all_map2; simp add: list_all_iff)+

lemma undelivered_new [simp]: "undelivered (order_items n ls)" "undelivered (ordered_items n its)" "undelivered []"
  unfolding order_items_def ordered_items_def undelivered_def by ((intro list_all_map2)?; simp)+

text \<open>An order on which nothing has been delivered needs only its amounts.\<close>

lemma undelivered_ok:
  assumes "amounts_ok (so_items od) (so_subtotal od) (so_discount od) (so_tax od) (so_total od)"
    and "distinct (map si_id (so_items od))" and "undelivered (so_items od)" and "so_status od \<noteq> SoDelivered"
  shows "so_ok od"
  using assms unfolding so_ok_def by (auto simp: undelivered_def list_all_iff amounts_ok_def item_priced_def less_imp_le)

lemma quote_lines_ok:
  assumes "each (check_sale_line s) ls = Inr u"
  shows "qt_ok (quote_lines n ls q)"
  using checked_lines [OF assms]
  by (auto simp: qt_ok_def amounts_ok_def quote_lines_def Let_def sale_items_map)

lemma order_lines_ok:
  assumes "each (check_sale_line s) ls = Inr u" and "0 \<le> extra"
    and "extra \<le> sum_list (map sale_gross ls) - sum_list (map sale_discount ls) + 1 / 200" and "so_status od \<noteq> SoDelivered"
  shows "so_ok (order_lines n ls extra od)"
  using checked_lines [OF assms(1)] assms(2-)
  by (intro undelivered_ok) (auto simp: amounts_ok_def order_lines_def Let_def order_items_map)

lemma document_discount_fits:
  assumes "each (check_sale_line s) ls = Inr u"
  shows "0 \<le> document_discount s now ls"
    "document_discount s now ls \<le> sum_list (map sale_gross ls) - sum_list (map sale_discount ls) + 1 / 200"
  using checked_lines(3) [OF assms] unfolding document_discount_def
  by (intro document_discount_bounds; simp)+

section \<open>What a call does to the tables\<close>

fun sq_moves :: "sq_state \<Rightarrow> sq_state list" where
  "sq_moves SqDraft = [SqSubmitted, SqApproved, SqRejected, SqCancelled]"
| "sq_moves SqSubmitted = [SqApproved, SqRejected, SqCancelled, SqExpired]"
| "sq_moves SqApproved = [SqConverted, SqCancelled]"
| "sq_moves SqRejected = [SqCancelled]"
| "sq_moves SqExpired = [SqCancelled]"
| "sq_moves SqConverted = []"
| "sq_moves SqCancelled = []"

fun so_moves :: "so_state \<Rightarrow> so_state list" where
  "so_moves SoDraft = [SoSubmitted, SoApproved, SoRejected, SoCancelled, SoClosed]"
| "so_moves SoSubmitted = [SoApproved, SoRejected, SoCancelled, SoClosed]"
| "so_moves SoRejected = [SoCancelled, SoClosed]"
| "so_moves SoApproved = [SoPartial, SoDelivered, SoCancelled, SoClosed]"
| "so_moves SoPartial = [SoPartial, SoDelivered, SoCancelled, SoClosed]"
| "so_moves SoDelivered = [SoClosed]"
| "so_moves SoClosed = [SoClosed, SoApproved]"
| "so_moves SoCancelled = [SoClosed]"

text \<open>A quotation or an order keeps its number and its customer, and its lines and totals change only in a draft. An
  order becomes approved by reopening it or within the credit limit of its customer in \<open>s\<close>.\<close>

definition same_quote :: "sales_quotation \<Rightarrow> sales_quotation \<Rightarrow> bool" where
  "same_quote q q' =
     (qt_items q' = qt_items q \<and> qt_subtotal q' = qt_subtotal q \<and> qt_discount q' = qt_discount q \<and>
      qt_tax q' = qt_tax q \<and> qt_total q' = qt_total q \<and> qt_validity q' = qt_validity q)"

definition qt_move :: "sales_quotation \<Rightarrow> sales_quotation \<Rightarrow> bool" where
  "qt_move q q' =
     (qt_number q' = qt_number q \<and> qt_customer_id q' = qt_customer_id q \<and> (qt_ok q \<longrightarrow> qt_ok q') \<and>
      (qt_status q = SqDraft \<and> qt_status q' = SqDraft \<or>
       qt_status q' \<in> set (sq_moves (qt_status q)) \<and> same_quote q q'))"

definition sale_terms :: "order_item \<Rightarrow> sales_item" where
  "sale_terms it = sales_item.truncate it"

definition same_sale :: "sales_order \<Rightarrow> sales_order \<Rightarrow> bool" where
  "same_sale od od' =
     (map sale_terms (so_items od') = map sale_terms (so_items od) \<and> so_subtotal od' = so_subtotal od \<and>
      so_discount od' = so_discount od \<and> so_tax od' = so_tax od \<and> so_total od' = so_total od \<and>
      list_all2 (\<lambda>x y. oi_delivered x \<le> oi_delivered y) (so_items od) (so_items od'))"

definition so_move :: "sales \<Rightarrow> sales_order \<Rightarrow> sales_order \<Rightarrow> bool" where
  "so_move s od od' =
     (so_number od' = so_number od \<and> so_customer_id od' = so_customer_id od \<and> so_quotation_id od' = so_quotation_id od \<and>
      (so_ok od \<longrightarrow> so_ok od') \<and>
      (so_status od' = SoApproved \<longrightarrow> so_status od = SoApproved \<or> so_status od = SoClosed \<or>
        check_credit_limit s (so_customer_id od) (so_total od) = Inr ()) \<and>
      (so_status od = SoDraft \<and> so_status od' = SoDraft \<or>
       so_status od' \<in> set (so_moves (so_status od)) \<and> same_sale od od'))"

definition qt_new :: "sales_quotation \<Rightarrow> bool" where
  "qt_new q = (qt_ok q \<and> qt_status q = SqDraft)"

definition so_new :: "sales_order \<Rightarrow> bool" where
  "so_new od = (so_ok od \<and> so_status od = SoDraft)"

definition sale_call :: "sales \<Rightarrow> sales \<Rightarrow> bool" where
  "sale_call s s' =
     (table_call qt_new qt_move (sale_next s) (sale_next s') (sales_quotations s) (sales_quotations s') \<and>
      table_call so_new (so_move s) (sale_next s) (sale_next s') (sales_orders s) (sales_orders s'))"

definition sale_inv :: "sales \<Rightarrow> bool" where
  "sale_inv s =
     (wf_table (sale_next s) (sales_quotations s) \<and> wf_table (sale_next s) (sales_orders s) \<and>
      all_rows qt_ok (sales_quotations s) \<and> all_rows so_ok (sales_orders s))"

lemma sale_call_same:
  assumes "sales_quotations s' = sales_quotations s" and "sales_orders s' = sales_orders s" and "sale_next s \<le> sale_next s'"
  shows "sale_call s s'"
  using assms by (auto simp: sale_call_def)

lemma sale_call_inv:
  assumes "sale_call s s'" and "sale_inv s"
  shows "sale_inv s'"
  using assms unfolding sale_call_def sale_inv_def
  by (auto intro: table_call_wf elim!: table_call_all simp: qt_new_def so_new_def qt_move_def so_move_def)

lemma sale_call_new_quotation:
  assumes "qt_new q" and "sales_quotations s' = add_row (sale_next s) q (sales_quotations s)"
    and "sales_orders s' = sales_orders s" and "sale_next s < sale_next s'"
  shows "sale_call s s'"
  using assms by (simp add: sale_call_def table_call_new table_call_same)

text \<open>Calls that rewrite one row.\<close>

lemma sale_call_quotation:
  assumes "sale_inv s" and "get (sales_quotations s) i = Some q" and "qt_move q q'"
    and "sales_quotations s' = modify i (\<lambda>_. q') (sales_quotations s)" and "sales_orders s' = sales_orders s"
    and "sale_next s \<le> sale_next s'"
  shows "sale_call s s'"
  using assms by (auto simp: sale_call_def sale_inv_def intro: table_call_change)

lemma sale_call_order:
  assumes "sale_inv s" and "get (sales_orders s) i = Some od" and "so_move s od od'"
    and "sales_orders s' = modify i (\<lambda>_. od') (sales_orders s)" and "sales_quotations s' = sales_quotations s"
    and "sale_next s \<le> sale_next s'"
  shows "sale_call s s'"
  using assms by (auto simp: sale_call_def sale_inv_def intro: table_call_change)

section \<open>Calls on quotations\<close>

lemma put_quotation_fields [simp]:
  "sales_quotations (put_quotation i q s) = modify i (\<lambda>_. q) (sales_quotations s)" "sale_next (put_quotation i q s) = sale_next s"
  "sales_orders (put_quotation i q s) = sales_orders s" "depot (put_quotation i q s) = depot s"
  "engine (put_quotation i q s) = engine s"
  by (simp_all add: put_quotation_def)

lemma put_sales_order_fields [simp]:
  "sales_orders (put_sales_order i od s) = modify i (\<lambda>_. od) (sales_orders s)" "sale_next (put_sales_order i od s) = sale_next s"
  "sales_quotations (put_sales_order i od s) = sales_quotations s" "depot (put_sales_order i od s) = depot s"
  "engine (put_sales_order i od s) = engine s" "deliveries (put_sales_order i od s) = deliveries s"
  by (simp_all add: put_sales_order_def)

lemma quote_lines_fields [simp]:
  "qt_status (quote_lines n ls q) = qt_status q" "qt_number (quote_lines n ls q) = qt_number q"
  "qt_customer_id (quote_lines n ls q) = qt_customer_id q"
  by (simp_all add: quote_lines_def Let_def)

lemma apply_quotation_update_fields [simp]:
  "qt_status (apply_quotation_update u q) = qt_status q" "qt_number (apply_quotation_update u q) = qt_number q"
  "qt_customer_id (apply_quotation_update u q) = qt_customer_id q" "qt_ok (apply_quotation_update u q) = qt_ok q"
  by (simp_all add: apply_quotation_update_def qt_ok_def)

lemma empty_quotation_new: "qt_new (empty_quotation c num user now)"
  by (simp add: qt_new_def qt_ok_def amounts_ok_def empty_quotation_def)

lemma create_quotation_call:
  assumes "sale_inv s" and "create_quotation s c user now yr = (r, s')"
  shows "sale_call s s'"
proof (cases "check_customer s (qc_customer_id c)")
  case (Inr u)
  show ?thesis
  proof (cases "qc_items c = []")
    case False
    let ?q = "empty_quotation c (next_number (year_prefix ''SQ'' yr) (qt_numbers s)) user now"
    have wf: "wf_table (sale_next s) (sales_quotations s)" using assms(1) by (simp add: sale_inv_def)
    show ?thesis
    proof (cases "each (check_sale_line s) (qc_items c)")
      case (Inl e)
      with assms(2) Inr False show ?thesis
        by (intro sale_call_new_quotation [of ?q]) (auto simp: create_quotation_def Let_def empty_quotation_new)
    next
      case (Inr v)
      have "qt_new (quote_lines (sale_next s + 1) (qc_items c) ?q)"
        using quote_lines_ok [OF Inr] empty_quotation_new by (simp add: qt_new_def)
      with assms(2) Inr False \<open>check_customer s (qc_customer_id c) = Inr u\<close> show ?thesis
        by (intro sale_call_new_quotation [of "quote_lines (sale_next s + 1) (qc_items c) ?q"])
          (auto simp: create_quotation_def Let_def modify_add_row [OF wf])
    qed
  qed (use assms Inr in \<open>auto simp: create_quotation_def intro: sale_call_same\<close>)
qed (use assms in \<open>auto simp: create_quotation_def intro: sale_call_same\<close>)

lemma update_quotation_call:
  assumes "sale_inv s" and "update_quotation s i u = Inr s'"
  shows "sale_call s s'"
proof -
  from assms(2) obtain q where q: "get (sales_quotations s) i = Some q" "qt_status q = SqDraft"
    by (auto simp: update_quotation_def split: option.splits if_splits)
  have mv: "qt_move q (apply_quotation_update u q)"
    "each (check_sale_line s) ls = Inr v \<Longrightarrow> qt_move q (quote_lines n ls (apply_quotation_update u q))" for ls v n
    using q(2) by (simp_all add: qt_move_def quote_lines_ok)
  show ?thesis
  proof (cases "qu_items u")
    case None
    with assms(2) q show ?thesis
      by (intro sale_call_quotation [OF assms(1) q(1) mv(1)]) (auto simp: update_quotation_def)
  next
    case (Some ls)
    with assms(2) q obtain v where "each (check_sale_line s) ls = Inr v"
      by (auto simp: update_quotation_def split: if_splits)
    from mv(2) [OF this, of "sale_next s"] show ?thesis
      by (rule sale_call_quotation [OF assms(1) q(1)]) (use assms(2) q Some in \<open>auto simp: update_quotation_def split: if_splits\<close>)
  qed
qed

lemma change_quotation_ok:
  "change_quotation s i f es = Inr s' \<longleftrightarrow>
    (\<exists>q q'. get (sales_quotations s) i = Some q \<and> f q = Inr q' \<and> s' = sale_emit es (put_quotation i q' s))"
  by (auto simp: change_quotation_def split: option.splits)

lemma change_quotation_call:
  assumes "change_quotation s i f es = Inr s'" and "sale_inv s" and "\<And>q q'. f q = Inr q' \<Longrightarrow> qt_move q q'"
  shows "sale_call s s'"
  using assms(1) unfolding change_quotation_ok
  by (elim exE conjE) (rule sale_call_quotation [OF assms(2)], auto simp: assms(3))

lemma cancel_moves:
  "st \<noteq> SqConverted \<Longrightarrow> st \<noteq> SqCancelled \<Longrightarrow> SqCancelled \<in> set (sq_moves st)"
  "st' \<noteq> SoClosed \<Longrightarrow> st' \<noteq> SoCancelled \<Longrightarrow> st' \<noteq> SoDelivered \<Longrightarrow> SoCancelled \<in> set (so_moves st')"
  "SoClosed \<in> set (so_moves st')"
  by (cases st; simp) (cases st'; simp)+

lemma quotation_calls:
  assumes "sale_inv s"
  shows "submit_quotation s i = Inr s' \<Longrightarrow> sale_call s s'" "approve_quotation s i user now = Inr s' \<Longrightarrow> sale_call s s'"
    "reject_quotation s i txt = Inr s' \<Longrightarrow> sale_call s s'" "cancel_quotation s i = Inr s' \<Longrightarrow> sale_call s s'"
  unfolding submit_quotation_def approve_quotation_def reject_quotation_def cancel_quotation_def
  by (erule change_quotation_call [OF _ assms];
      force simp: qt_move_def same_quote_def qt_ok_def cancel_moves split: if_splits)+

lemma clone_quotation_call:
  assumes "sale_inv s" and "clone_quotation s i user now yr = Inr (k, s')"
  shows "sale_call s s'"
proof -
  from assms(2) obtain q where q: "get (sales_quotations s) i = Some q" by (auto simp: clone_quotation_def split: option.splits)
  have ok: "qt_ok q" using assms(1) q by (auto simp: sale_inv_def dest: all_rows_get)
  then have "amounts_ok (copied_items n (qt_items q)) (qt_subtotal q) (qt_discount q) (qt_tax q) (qt_total q)" for n
    by (simp add: qt_ok_def amounts_ok_def copied_items_map item_priced_map)
  with assms(2) q show ?thesis
    by (auto simp: clone_quotation_def Let_def qt_new_def qt_ok_def copied_items_map intro!: sale_call_new_quotation)
qed

text \<open>Expiry moves the rows of its page only, and those were submitted.\<close>

lemma get_fold_modify:
  assumes "\<And>r. f (f r) = f r"
  shows "get (fold (\<lambda>i. modify i f) ids t) j = (if j \<in> set ids then map_option f (get t j) else get t j)"
  using assms by (induction ids arbitrary: t) (auto simp: get_modify_eq option.map_comp comp_def)

lemma rows_move_iff:
  assumes "keys t' = keys t" and "distinct (keys t)"
    and "\<And>i r. get t i = Some r \<Longrightarrow> \<exists>r'. get t' i = Some r' \<and> (r' = r \<or> R r r')"
  shows "rows_move R t t'"
proof -
  have len: "length t' = length t" using arg_cong [OF assms(1), of length] by (simp add: keys_def)
  have "(\<lambda>(i, r) (j, r'). j = i \<and> (r' = r \<or> R r r')) (t ! n) (t' ! n)" if n: "n < length t" for n
  proof -
    obtain i r j r' where tn: "t ! n = (i, r)" "t' ! n = (j, r')" by force
    have "j = i" using arg_cong [OF assms(1), of "\<lambda>l. l ! n"] n len by (simp add: keys_def tn)
    moreover have "get t i = Some r" using assms(2) n tn nth_mem [of n t] by (auto intro: in_set_get)
    moreover have "get t' j = Some r'" using assms(1,2) n len tn nth_mem [of n t'] by (auto intro: in_set_get)
    ultimately show ?thesis using assms(3) [of i r] by (auto simp: tn)
  qed
  then show ?thesis unfolding rows_move_def by (intro list_all2_all_nthI) (auto simp: len)
qed

lemma keys_fold_modify: "keys (fold (\<lambda>i. modify i f) ids t) = keys t"
  by (induction ids arbitrary: t) (simp_all add: table_simps)

lemma expiry_page_submitted:
  assumes "distinct (keys (sales_quotations s))" and "i \<in> set (expiry_page s)" and "get (sales_quotations s) i = Some q"
  shows "qt_status q = SqSubmitted"
proof -
  obtain q' where "(i, q') \<in> set (sales_quotations s)" "qt_status q' = SqSubmitted"
    using assms(2) set_take_subset by (fastforce simp: expiry_page_def)
  with in_set_get [OF assms(1)] assms(3) show ?thesis by force
qed

lemma expire_call:
  assumes "sale_inv s"
  shows "sale_call s (expire_quotations s now)"
proof -
  have dis: "distinct (keys (sales_quotations s))" using assms by (auto simp: sale_inv_def wf_table_def)
  have idem: "expire_quotation now (expire_quotation now q) = expire_quotation now q" for q
    by (simp add: expire_quotation_def)
  have mv: "expire_quotation now q = q \<or> qt_move q (expire_quotation now q)" if "qt_status q = SqSubmitted" for q
    using that by (auto simp: expire_quotation_def qt_move_def same_quote_def qt_ok_def)
  have "rows_move qt_move (sales_quotations s) (sales_quotations (expire_quotations s now))"
    using expiry_page_submitted [OF dis] mv
    by (intro rows_move_iff [OF _ dis])
      (auto simp: expire_quotations_def keys_fold_modify get_fold_modify [of "expire_quotation now", OF idem])
  then show ?thesis by (auto simp: sale_call_def expire_quotations_def intro: table_call_rows)
qed

section \<open>Calls on orders\<close>

lemma order_lines_fields [simp]:
  "so_status (order_lines n ls extra od) = so_status od" "so_number (order_lines n ls extra od) = so_number od"
  "so_customer_id (order_lines n ls extra od) = so_customer_id od" "so_quotation_id (order_lines n ls extra od) = so_quotation_id od"
  by (simp_all add: order_lines_def Let_def)

lemma empty_order_new: "so_new (empty_order c num user now)"
  by (simp add: so_new_def so_ok_def amounts_ok_def empty_order_def)

lemma get_sales_order_ok [simp]: "get_sales_order s i = Inr od \<longleftrightarrow> get (sales_orders s) i = Some od"
  by (simp add: get_sales_order_def split: option.splits)

lemma check_convertible_ok:
  "check_convertible s i = Inr q \<longleftrightarrow> get (sales_quotations s) i = Some q \<and> qt_status q = SqApproved"
  by (auto simp: check_convertible_def split: option.splits)

lemma convert_quotation_fields [simp]:
  "sales_orders (convert_quotation qi s) = sales_orders s" "sale_next (convert_quotation qi s) = sale_next s"
  "depot (convert_quotation qi s) = depot s" "engine (convert_quotation qi s) = engine s"
  by (simp_all add: convert_quotation_def split: option.splits)

lemma convert_moves:
  assumes "sale_inv s" and "\<And>i. qi = Some i \<Longrightarrow> \<exists>q. check_convertible s i = Inr q" and "sales_quotations s1 = sales_quotations s"
  shows "rows_move qt_move (sales_quotations s) (sales_quotations (convert_quotation qi s1))"
proof (cases qi)
  case (Some i)
  with assms(2) obtain q where q: "get (sales_quotations s) i = Some q" "qt_status q = SqApproved"
    by (auto simp: check_convertible_ok)
  have "r = q" if "(i, r) \<in> set (sales_quotations s)" for r
    using in_set_get [OF _ that] assms(1) q(1) by (auto simp: sale_inv_def wf_table_def)
  with q(2) show ?thesis
    by (auto simp: convert_quotation_def Some assms(3) qt_move_def same_quote_def qt_ok_def intro!: rows_move_modify)
qed (simp add: convert_quotation_def assms(3))

lemma sale_call_new_order:
  assumes "so_new od" and "sales_orders s' = add_row (sale_next s) od (sales_orders s)"
    and "rows_move qt_move (sales_quotations s) (sales_quotations s')" and "sale_next s < sale_next s'"
  shows "sale_call s s'"
  using assms by (simp add: sale_call_def table_call_new table_call_rows)

lemma sales_order_checksD:
  assumes "sales_order_checks s c = Inr v" and "sc_quotation_id c = Some i"
  shows "\<exists>q. check_convertible s i = Inr q"
  using assms by (auto simp: sales_order_checks_def split: if_splits)

lemma create_sales_order_call:
  assumes "sale_inv s" and "create_sales_order s c user now yr = (r, s')"
  shows "sale_call s s'"
proof (cases "sales_order_checks s c")
  case (Inl e)
  with assms(2) show ?thesis by (auto simp: create_sales_order_def intro: sale_call_same)
next
  case chk: (Inr v)
  let ?od = "empty_order c (next_number (year_prefix ''SO'' yr) (so_numbers s)) user now"
  have wf: "wf_table (sale_next s) (sales_orders s)" using assms(1) by (simp add: sale_inv_def)
  show ?thesis
  proof (cases "each (check_sale_line s) (sc_items c)")
    case (Inl e)
    with assms(2) chk show ?thesis
      by (intro sale_call_new_order [of ?od]) (auto simp: create_sales_order_def Let_def empty_order_new)
  next
    case (Inr u)
    let ?full = "order_lines (sale_next s + 1) (sc_items c) (document_discount s now (sc_items c)) ?od"
    have "so_new ?full"
      using order_lines_ok [OF Inr document_discount_fits [OF Inr]] empty_order_new by (simp add: so_new_def)
    moreover have "sales_orders s' = add_row (sale_next s) ?full (sales_orders s)" "sale_next s < sale_next s'"
      using assms(2) chk Inr by (auto simp: create_sales_order_def Let_def modify_add_row [OF wf])
    moreover have "rows_move qt_move (sales_quotations s) (sales_quotations s')"
      using assms(2) chk Inr convert_moves [OF assms(1) sales_order_checksD [OF chk]]
      by (auto simp: create_sales_order_def Let_def)
    ultimately show ?thesis by (intro sale_call_new_order)
  qed
qed

lemma order_from_quotation_call:
  assumes "sale_inv s" and "sales_order_from_quotation s qi user now yr = Inr (i, s')"
  shows "sale_call s s'"
proof -
  from assms(2) obtain q where q: "check_convertible s qi = Inr q" by (auto simp: sales_order_from_quotation_def)
  have ok: "qt_ok q" using assms(1) q by (auto simp: sale_inv_def check_convertible_ok dest: all_rows_get)
  then have am: "amounts_ok (ordered_items n (qt_items q)) (qt_subtotal q) (qt_discount q) (qt_tax q) (qt_total q)" for n
    by (simp add: qt_ok_def amounts_ok_def ordered_items_map item_priced_map)
  from assms(2) q obtain od where od: "sales_orders s' = add_row (sale_next s) od (sales_orders s)"
      "sale_next s < sale_next s'" "so_items od = ordered_items (sale_next s + 1) (qt_items q)" "so_status od = SoDraft"
      "so_subtotal od = qt_subtotal q" "so_discount od = qt_discount q" "so_tax od = qt_tax q" "so_total od = qt_total q"
    by (auto simp: sales_order_from_quotation_def Let_def split: if_splits)
  have "so_new od" using am od(3-) by (auto simp: so_new_def ordered_items_map intro!: undelivered_ok)
  moreover have "rows_move qt_move (sales_quotations s) (sales_quotations s')"
    using assms(2) q convert_moves [OF assms(1), of "Some qi"]
    by (auto simp: sales_order_from_quotation_def Let_def split: if_splits)
  ultimately show ?thesis using od(1,2) by (intro sale_call_new_order)
qed

lemma order_update_fields [simp]:
  "so_status (apply_sales_order_update u od) = so_status od" "so_number (apply_sales_order_update u od) = so_number od"
  "so_customer_id (apply_sales_order_update u od) = so_customer_id od" "so_ok (apply_sales_order_update u od) = so_ok od"
  "so_quotation_id (apply_sales_order_update u od) = so_quotation_id od"
  by (simp_all add: apply_sales_order_update_def so_ok_def)

lemma update_sales_order_call:
  assumes "sale_inv s" and "update_sales_order s i u = Inr s'"
  shows "sale_call s s'"
proof -
  from assms(2) obtain od where od: "get (sales_orders s) i = Some od" "so_status od = SoDraft"
    by (auto simp: update_sales_order_def split: if_splits)
  have mv: "so_move s od (apply_sales_order_update u od)"
    "each (check_sale_line s) ls = Inr v \<Longrightarrow> so_move s od (order_lines n ls 0 (apply_sales_order_update u od))" for ls v n
    using od(2) checked_lines(3) [of s ls v] by (auto simp: so_move_def intro!: order_lines_ok)
  show ?thesis
  proof (cases "sou_items u")
    case None
    with assms(2) od show ?thesis
      by (intro sale_call_order [OF assms(1) od(1) mv(1)]) (auto simp: update_sales_order_def)
  next
    case (Some ls)
    with assms(2) od obtain v where "each (check_sale_line s) ls = Inr v"
      by (auto simp: update_sales_order_def split: if_splits)
    from mv(2) [OF this, of "sale_next s"] show ?thesis
      by (rule sale_call_order [OF assms(1) od(1)]) (use assms(2) od Some in \<open>auto simp: update_sales_order_def split: if_splits\<close>)
  qed
qed

text \<open>A move of the status that leaves the lines alone.\<close>

lemma status_so_move:
  assumes "so_status od' \<in> set (so_moves (so_status od))" and "so_items od' = so_items od"
    and "so_subtotal od' = so_subtotal od" "so_discount od' = so_discount od" "so_tax od' = so_tax od" "so_total od' = so_total od"
    and "so_number od' = so_number od" "so_customer_id od' = so_customer_id od" "so_quotation_id od' = so_quotation_id od"
    and "so_status od' \<in> {SoSubmitted, SoRejected, SoCancelled} \<Longrightarrow> undelivered (so_items od)"
    and "so_status od' \<notin> {SoDraft, SoDelivered}"
    and "so_status od' = SoApproved \<Longrightarrow> so_status od = SoClosed \<or> check_credit_limit s (so_customer_id od) (so_total od) = Inr ()"
  shows "so_move s od od'"
  using assms by (auto simp: so_move_def same_sale_def so_ok_def intro: list.rel_refl_strong)

lemma so_ok_undelivered: "so_ok od \<Longrightarrow> so_status od \<in> {SoDraft, SoSubmitted, SoRejected, SoCancelled} \<Longrightarrow> undelivered (so_items od)"
  unfolding so_ok_def by blast

lemma submit_sales_orderD:
  assumes "submit_sales_order s i user txt now = (r, s')"
  shows "s' = s \<or> (\<exists>od. submittable_order s i = Inr od \<and> depot s' = depot s \<and> sales_quotations s' = sales_quotations s \<and>
     deliveries s' = deliveries s \<and>
     sales_orders s' = modify i (\<lambda>_. od\<lparr>so_status := SoSubmitted\<rparr>) (sales_orders s) \<and> sale_next s' = sale_next s)"
  using assms by (cases "submittable_order s i")
    (auto simp: submit_sales_order_def Let_def split: sum.splits prod.splits if_splits)

lemma submit_sales_order_call:
  assumes "sale_inv s" and "submit_sales_order s i user txt now = (r, s')"
  shows "sale_call s s'"
  using submit_sales_orderD [OF assms(2)]
proof (elim disjE exE conjE)
  fix od
  assume sub: "submittable_order s i = Inr od" and s': "sales_orders s' = modify i (\<lambda>_. od\<lparr>so_status := SoSubmitted\<rparr>) (sales_orders s)"
    "sales_quotations s' = sales_quotations s" "sale_next s' = sale_next s"
  from sub have od: "get (sales_orders s) i = Some od" "so_status od = SoDraft"
    by (auto simp: submittable_order_def split: if_splits)
  have "so_ok od" using assms(1) od(1) by (auto simp: sale_inv_def dest: all_rows_get)
  then have "so_move s od (od\<lparr>so_status := SoSubmitted\<rparr>)"
    using od(2) so_ok_undelivered [of od] by (intro status_so_move) simp_all
  with s' show ?thesis by (intro sale_call_order [OF assms(1) od(1)]) simp_all
qed (auto intro: sale_call_same)

lemma change_sales_order_ok:
  "change_sales_order s i f es = Inr s' \<longleftrightarrow>
    (\<exists>od od'. get (sales_orders s) i = Some od \<and> f od = Inr od' \<and> s' = sale_emit es (put_sales_order i od' s))"
  by (auto simp: change_sales_order_def)

lemma change_sales_order_call:
  assumes "change_sales_order s i f es = Inr s'" and "sale_inv s" and "\<And>od od'. so_ok od \<Longrightarrow> f od = Inr od' \<Longrightarrow> so_move s od od'"
  shows "sale_call s s'"
proof -
  from assms(1) obtain od od' where od: "get (sales_orders s) i = Some od" "f od = Inr od'"
    and s': "s' = sale_emit es (put_sales_order i od' s)" by (auto simp: change_sales_order_ok)
  have "so_ok od" using assms(2) od(1) by (auto simp: sale_inv_def dest: all_rows_get)
  with od assms(3) show ?thesis by (intro sale_call_order [OF assms(2) od(1)]) (auto simp: s')
qed

lemma sale_terms_fields [simp]:
  "si_id (sale_terms it) = si_id it" "item_gross (sale_terms it) = item_gross it" "item_priced (sale_terms it) = item_priced it"
  "si_tax_amount (sale_terms it) = si_tax_amount it" "si_discount_amount (sale_terms it) = si_discount_amount it"
  "si_quantity (sale_terms it) = si_quantity it"
  by (simp_all add: sale_terms_def sales_item.defs item_gross_def item_priced_def)

lemma same_terms_maps:
  assumes "map sale_terms its' = map sale_terms its"
  shows "map si_id its' = map si_id its" "map item_gross its' = map item_gross its" "map item_priced its' = map item_priced its"
    "map si_tax_amount its' = map si_tax_amount its" "map si_discount_amount its' = map si_discount_amount its"
    "map si_quantity its' = map si_quantity its"
  using arg_cong [OF assms, of "map si_id"] arg_cong [OF assms, of "map item_gross"] arg_cong [OF assms, of "map item_priced"]
    arg_cong [OF assms, of "map si_tax_amount"] arg_cong [OF assms, of "map si_discount_amount"]
    arg_cong [OF assms, of "map si_quantity"]
  by (simp_all add: comp_def)

lemma delivered_nonneg:
  assumes "list_all2 (\<lambda>x y. oi_delivered x \<le> oi_delivered y) its its'" and "list_all (\<lambda>it. 0 \<le> oi_delivered it) its"
  shows "list_all (\<lambda>it. 0 \<le> oi_delivered it) its'"
  using assms by (induction rule: list_all2_induct) auto

lemma same_sale_amounts:
  assumes "same_sale od od'" and "so_ok od"
  shows "amounts_ok (so_items od') (so_subtotal od') (so_discount od') (so_tax od') (so_total od')"
    "distinct (map si_id (so_items od'))" "list_all (\<lambda>it. 0 \<le> oi_delivered it) (so_items od')"
proof -
  from assms(1) have t: "map sale_terms (so_items od') = map sale_terms (so_items od)" by (simp add: same_sale_def)
  note m = same_terms_maps [OF t]
  have p: "list_all item_priced (so_items od') = list_all item_priced (so_items od)"
    using arg_cong [OF m(3), of "list_all id"] by (simp add: list.pred_map)
  show "amounts_ok (so_items od') (so_subtotal od') (so_discount od') (so_tax od') (so_total od')"
    using assms by (simp add: same_sale_def so_ok_def amounts_ok_def m(2,4,5) p)
  show "distinct (map si_id (so_items od'))" using assms(2) by (simp add: so_ok_def m(1))
  have "list_all (\<lambda>it. 0 \<le> oi_delivered it) (so_items od)" using assms(2) by (auto simp: so_ok_def list_all_iff)
  then show "list_all (\<lambda>it. 0 \<le> oi_delivered it) (so_items od')"
    using assms(1) delivered_nonneg by (auto simp: same_sale_def)
qed

lemma same_sale_delivered:
  assumes "same_sale od od'" and "so_ok od" and "list_all (\<lambda>it. oi_delivered it \<le> si_quantity it) (so_items od')"
    and "so_status od' \<in> {SoDraft, SoSubmitted, SoRejected, SoCancelled} \<Longrightarrow> undelivered (so_items od')"
    and "so_status od' = SoDelivered \<Longrightarrow> list_all (\<lambda>it. si_quantity it \<le> oi_delivered it) (so_items od')"
  shows "so_ok od'"
  using same_sale_amounts [OF assms(1,2)] assms(3-)
  unfolding so_ok_def by (auto simp: list_all_iff intro: order_antisym)

lemma cancelled_sales_order_move:
  assumes "so_ok od" and "cancelled_sales_order od = Inr od'"
  shows "so_move s od od'"
proof -
  have st: "so_status od \<noteq> SoClosed" "so_status od \<noteq> SoCancelled" "so_status od \<noteq> SoDelivered"
    and z: "\<not> list_ex (\<lambda>it. 0 < oi_delivered it) (so_items od)"
    and od': "od' = od\<lparr>so_status := SoCancelled, so_delivery_status := PgCancelled,
      so_items := map (\<lambda>it. it\<lparr>oi_status := PgCancelled\<rparr>) (so_items od)\<rparr>"
    using assms(2) by (auto simp: cancelled_sales_order_def split: if_splits)
  have u: "undelivered (so_items od)"
    using z assms(1) by (force simp: undelivered_def so_ok_def list_all_iff list_ex_iff)
  have same: "same_sale od od'"
    by (auto simp: same_sale_def od' sale_terms_def sales_item.defs list.rel_map intro: list.rel_refl_strong)
  have "list_all (\<lambda>it. oi_delivered it \<le> si_quantity it) (so_items od')" "undelivered (so_items od')"
    using u assms(1) by (auto simp: od' undelivered_def list_all_iff so_ok_def)
  then have "so_ok od'" by (intro same_sale_delivered [OF same assms(1)]) (auto simp: od')
  with same cancel_moves(2) [OF st] show ?thesis by (simp add: so_move_def od')
qed

lemma order_calls:
  assumes "sale_inv s"
  shows "approve_sales_order s i user now = Inr s' \<Longrightarrow> sale_call s s'" "reject_sales_order s i txt = Inr s' \<Longrightarrow> sale_call s s'"
    "cancel_sales_order s i = Inr s' \<Longrightarrow> sale_call s s'" "close_sales_order s i = Inr s' \<Longrightarrow> sale_call s s'"
    "reopen_sales_order s i = Inr s' \<Longrightarrow> sale_call s s'"
  unfolding approve_sales_order_def reject_sales_order_def cancel_sales_order_def close_sales_order_def reopen_sales_order_def
  by (erule change_sales_order_call [OF _ assms];
      force intro: status_so_move cancelled_sales_order_move simp: cancel_moves dest: so_ok_undelivered split: if_splits)+

section \<open>Deliveries and returns\<close>

definition delivering :: "order_item list \<Rightarrow> order_item list \<Rightarrow> bool" where
  "delivering its its' =
     (map sale_terms its' = map sale_terms its \<and> list_all (\<lambda>it. oi_delivered it \<le> si_quantity it) its' \<and>
      list_all2 (\<lambda>x y. oi_delivered x \<le> oi_delivered y) its its')"

lemma deliver_line_fields [simp]:
  "sale_terms (deliver_line q it) = sale_terms it" "oi_delivered (deliver_line q it) = oi_delivered it + q"
  "si_quantity (deliver_line q it) = si_quantity it" "si_id (deliver_line q it) = si_id it"
  "si_product_id (deliver_line q it) = si_product_id it"
  by (simp_all add: deliver_line_def sale_terms_def sales_item.defs)

lemma deliver_stepD:
  assumes "deliver_step d its = Inr its'"
  shows "\<exists>it\<in>set its. si_id it = di_order_item_id d \<and> 0 < di_quantity d \<and> di_quantity d \<le> si_quantity it - oi_delivered it \<and>
    its' = map (\<lambda>x. if si_id x = di_order_item_id d then deliver_line (di_quantity d) x else x) its"
  using assms by (auto simp: deliver_step_def find_Some_iff split: option.splits if_splits)

lemma deliver_step_delivering:
  assumes "deliver_step d its = Inr its'" and "distinct (map si_id its)" and "list_all (\<lambda>it. oi_delivered it \<le> si_quantity it) its"
  shows "delivering its its'"
proof -
  let ?f = "\<lambda>x. if si_id x = di_order_item_id d then deliver_line (di_quantity d) x else x"
  from deliver_stepD [OF assms(1)] obtain it where it: "it \<in> set its" "si_id it = di_order_item_id d" "0 < di_quantity d"
      "di_quantity d \<le> si_quantity it - oi_delivered it" and its': "its' = map ?f its" by blast
  have "x = it" if "x \<in> set its" "si_id x = di_order_item_id d" for x
    using assms(2) it(1,2) that inj_onD [of si_id "set its" x it] by (simp add: distinct_map)
  with assms(3) it(4) have "list_all (\<lambda>it. oi_delivered it \<le> si_quantity it) its'"
    by (fastforce simp: its' list_all_iff)
  moreover have "map sale_terms its' = map sale_terms its" by (simp add: its' comp_def cong: if_cong)
  moreover have "list_all2 (\<lambda>x y. oi_delivered x \<le> oi_delivered y) its its'"
    unfolding its' list.rel_map using it(3) by (auto intro: list.rel_refl_strong)
  ultimately show ?thesis by (simp add: delivering_def)
qed

lemma delivering_trans:
  assumes "delivering xs ys" and "delivering ys zs"
  shows "delivering xs zs"
proof -
  have "list_all2 (\<lambda>x y. oi_delivered x \<le> oi_delivered y) xs zs"
    using assms list_all2_trans [of "\<lambda>x y. oi_delivered x \<le> oi_delivered y" "\<lambda>x y. oi_delivered x \<le> oi_delivered y"
      "\<lambda>x y. oi_delivered x \<le> oi_delivered y" xs ys zs] order_trans
    by (auto simp: delivering_def)
  with assms show ?thesis by (simp add: delivering_def)
qed

lemma fold_delivering:
  assumes "fold_res deliver_step ds its = Inr its'" and "distinct (map si_id its)"
    and "list_all (\<lambda>it. oi_delivered it \<le> si_quantity it) its"
  shows "delivering its its'"
  using assms
proof (induction ds arbitrary: its)
  case Nil
  then show ?case by (auto simp: delivering_def intro: list.rel_refl_strong)
next
  case (Cons d ds)
  then obtain ys where ys: "deliver_step d its = Inr ys" "fold_res deliver_step ds ys = Inr its'" by (auto split: sum.splits)
  note d = deliver_step_delivering [OF ys(1) Cons.prems(2,3)]
  then have "distinct (map si_id ys)" "list_all (\<lambda>it. oi_delivered it \<le> si_quantity it) ys"
    using Cons.prems(2) by (auto simp: delivering_def dest: same_terms_maps(1))
  from delivering_trans [OF d Cons.IH [OF ys(2) this]] show ?case .
qed

lemma delivered_order_move:
  assumes "so_ok od" and "so_status od = SoApproved \<or> so_status od = SoPartial"
    and "fold_res deliver_step ds (so_items od) = Inr its"
  shows "so_move s od (delivered_order its od)"
proof -
  have d: "delivering (so_items od) its"
    using assms(1) by (intro fold_delivering [OF assms(3)]) (auto simp: so_ok_def list_all_iff)
  then have same: "same_sale od (delivered_order its od)"
    by (simp add: same_sale_def delivered_order_def delivering_def)
  have "so_ok (delivered_order its od)"
    using d by (intro same_sale_delivered [OF same assms(1)]) (auto simp: delivered_order_def delivering_def split: if_splits)
  with same assms(2) show ?thesis by (auto simp: so_move_def delivered_order_def)
qed

lemma put_delivery_fields [simp]:
  "sales_quotations (put_delivery i d s) = sales_quotations s" "sales_orders (put_delivery i d s) = sales_orders s"
  "sale_next (put_delivery i d s) = sale_next s" "depot (put_delivery i d s) = depot s" "engine (put_delivery i d s) = engine s"
  "deliveries (put_delivery i d s) = modify i (\<lambda>_. d) (deliveries s)"
  by (simp_all add: put_delivery_def)

lemma put_sales_return_fields [simp]:
  "sales_quotations (put_sales_return i r s) = sales_quotations s" "sales_orders (put_sales_return i r s) = sales_orders s"
  "sale_next (put_sales_return i r s) = sale_next s" "depot (put_sales_return i r s) = depot s"
  "engine (put_sales_return i r s) = engine s"
  by (simp_all add: put_sales_return_def)

lemma delivery_checksD:
  assumes "delivery_checks s c num = Inr od"
  shows "get (sales_orders s) (dc_order_id c) = Some od" "so_status od = SoApproved \<or> so_status od = SoPartial"
  using assms by (auto simp: delivery_checks_def split: if_splits)

text \<open>A delivery call, taken apart: refused, stopped by a line, or run to the issue of the goods.\<close>

lemma create_delivery_cases:
  assumes "create_delivery s c num user now = (r, s')"
  obtains (refused) e where "delivery_checks s c num = Inl e" "r = Inl e" "s' = s"
  | (stopped) od e where "delivery_checks s c num = Inr od" "fold_res deliver_step (dc_items c) (so_items od) = Inl e"
      "r = Inl e" "sales_orders s' = sales_orders s" "sales_quotations s' = sales_quotations s" "depot s' = depot s"
      "sale_next s' = sale_next s + 1"
  | (run) od its k w where "delivery_checks s c num = Inr od" "fold_res deliver_step (dc_items c) (so_items od) = Inr its"
      "issue_for_delivery (depot s) c num user now = (k, w)" "depot s' = w" "sale_next s' = sale_next s + 1"
      "sales_orders s' = modify (dc_order_id c) (\<lambda>_. delivered_order its od) (sales_orders s)"
      "sales_quotations s' = sales_quotations s" "r = (case k of None \<Rightarrow> Inl (NameErr ''logger'') | Some _ \<Rightarrow> Inr (sale_next s))"
proof (cases "delivery_checks s c num")
  case (Inl e)
  with assms show ?thesis by (intro refused [of e]) (auto simp: create_delivery_def)
next
  case od: (Inr od)
  show ?thesis
  proof (cases "fold_res deliver_step (dc_items c) (so_items od)")
    case (Inl e)
    with assms od show ?thesis by (intro stopped [of od e]) (auto simp: create_delivery_def Let_def)
  next
    case (Inr its)
    obtain k w where k: "issue_for_delivery (depot s) c num user now = (k, w)" by force
    with assms od Inr show ?thesis
      by (intro run [of od its k w]) (auto simp: create_delivery_def Let_def split: option.splits)
  qed
qed

lemma create_delivery_call:
  assumes "sale_inv s" and "create_delivery s c num user now = (r, s')"
  shows "sale_call s s'"
  using assms(2)
proof (cases rule: create_delivery_cases)
  case (run od its k w)
  note od = delivery_checksD [OF run(1)]
  have "so_ok od" using assms(1) od(1) by (auto simp: sale_inv_def dest: all_rows_get)
  with od(2) run(2) have "so_move s od (delivered_order its od)" by (intro delivered_order_move)
  with run show ?thesis by (intro sale_call_order [OF assms(1) od(1)]) simp_all
qed (auto intro: sale_call_same)

lemma cancel_delivery_frame:
  assumes "cancel_delivery s i = Inr s'"
  shows "sales_orders s' = sales_orders s" "sales_quotations s' = sales_quotations s" "sale_next s' = sale_next s"
    "depot s' = depot s"
  using assms by (auto simp: cancel_delivery_def split: option.splits if_splits)

lemma create_sales_return_frame:
  assumes "create_sales_return s rc num user now = (r, s')"
  shows "sales_orders s' = sales_orders s" "sales_quotations s' = sales_quotations s" "sale_next s \<le> sale_next s'"
    "depot s' = depot s"
proof -
  have "sales_orders s' = sales_orders s \<and> sales_quotations s' = sales_quotations s \<and> sale_next s \<le> sale_next s' \<and> depot s' = depot s"
  proof (cases "sales_return_checks s rc num")
    case (Inr od)
    with assms show ?thesis
      by (cases "collect_res (returned_item od) (src_items rc)") (auto simp: create_sales_return_def Let_def)
  qed (use assms in \<open>auto simp: create_sales_return_def\<close>)
  then show "sales_orders s' = sales_orders s" "sales_quotations s' = sales_quotations s" "sale_next s \<le> sale_next s'"
    "depot s' = depot s" by simp_all
qed

lemma approve_sales_returnD:
  assumes "approve_sales_return s i user now = Inr s'"
  shows "\<exists>r. get (sales_returns s) i = Some r \<and> depot s' = snd (receipt_for_return (depot s) r user now) \<and>
    sales_orders s' = sales_orders s \<and> sales_quotations s' = sales_quotations s \<and> sale_next s' = sale_next s"
proof (cases "get (sales_returns s) i")
  case (Some r)
  obtain k w where "receipt_for_return (depot s) r user now = (k, w)" by force
  with assms Some show ?thesis by (auto simp: approve_sales_return_def split: if_splits)
qed (use assms in \<open>simp add: approve_sales_return_def\<close>)

lemma goods_calls:
  "cancel_delivery s i = Inr s' \<Longrightarrow> sale_call s s'"
  "create_sales_return s rc num user now = (r, s') \<Longrightarrow> sale_call s s'"
  "approve_sales_return s i user now = Inr s' \<Longrightarrow> sale_call s s'"
  using cancel_delivery_frame [of s i s'] create_sales_return_frame [of s rc num user now r s']
    approve_sales_returnD [of s i user now s'] by (auto intro: sale_call_same)

lemma sale_step_call:
  assumes "sale_step s s'" and "sale_inv s"
  shows "sale_call s s'"
  using assms(1)
  by cases (auto intro: sale_call_same create_quotation_call update_quotation_call quotation_calls clone_quotation_call
      expire_call create_sales_order_call order_from_quotation_call update_sales_order_call submit_sales_order_call
      order_calls create_delivery_call goods_calls assms(2))

lemma sale_reachable_inv: "sale_reachable s \<Longrightarrow> sale_inv s"
proof (induction rule: sale_reachable.induct)
  case (init s)
  then show ?case by (simp add: sale_init_def sale_inv_def all_rows_def)
next
  case (step s s')
  then show ?case using sale_step_call sale_call_inv by blast
qed

section \<open>The warehouse and the approval engine underneath\<close>

text \<open>Whatever a sales call does in the warehouse is a sequence of warehouse calls.\<close>

lemma wms_two: "wms_step u v \<Longrightarrow> wms_step\<^sup>*\<^sup>* v w \<Longrightarrow> wms_step\<^sup>*\<^sup>* u w"
  by (rule converse_rtranclp_into_rtranclp)

lemma issue_for_delivery_steps:
  assumes "issue_for_delivery w c num user now = (k, w')"
  shows "wms_step\<^sup>*\<^sup>* w w'"
proof (cases "create_issue w (delivery_issue c num now) user now")
  case (Inl e)
  with assms show ?thesis by (simp add: issue_for_delivery_def split: if_splits)
next
  case c: (Inr x)
  obtain i w1 where x: "x = (i, w1)" by force
  note s1 = wms_step.draft_issue [OF c [unfolded x]]
  show ?thesis
  proof (cases "approve_issue w1 i user now")
    case (Inl e)
    with assms c x s1 show ?thesis by (auto simp: issue_for_delivery_def split: if_splits)
  next
    case a: (Inr w2)
    obtain r w3 where r: "issue_issue w2 i user now = (r, w3)" by force
    have "w' = w \<or> w' = w3" using assms c x a r by (auto simp: issue_for_delivery_def split: if_splits sum.splits)
    then show ?thesis
      using wms_two [OF s1 wms_two [OF wms_step.sign_issue [OF a] wms_two [OF wms_step.hand_issue [OF r] rtranclp.rtrancl_refl]]]
      by auto
  qed
qed

lemma booked_lines_steps: "wms_step\<^sup>*\<^sup>* w (booked_lines i r user now its w)"
proof (induction its arbitrary: w)
  case (Cons it its)
  show ?case
  proof (cases "run_in user now (receipt_movement i r it (ri_batch_id it)) (stock w)")
    case (Inr t)
    then have "wms_step w (w\<lparr>stock := t\<rparr>)" by (elim run_inD) (auto intro: wms_step.engine stk_step.movement)
    from wms_two [OF this Cons] Inr show ?thesis by simp
  qed simp
qed simp

lemma receive_session_steps:
  assumes "receive_session w i user now = (k, w')"
  shows "wms_step\<^sup>*\<^sup>* w w'"
proof -
  obtain r w1 where r: "receive_receipt w i user now = (r, w1)" by force
  have "w' = w \<or> w' = w1 \<or> (\<exists>d its. w' = booked_lines i d user now its w)"
    using assms r by (auto simp: receive_session_def split: sum.splits option.splits if_splits)
  then show ?thesis
    using booked_lines_steps wms_two [OF wms_step.take_receipt [OF r] rtranclp.rtrancl_refl] by auto
qed

lemma receipt_for_return_steps:
  assumes "receipt_for_return w d user now = (k, w')"
  shows "wms_step\<^sup>*\<^sup>* w w'"
proof (cases "create_receipt w (return_receipt d now) user now")
  case (Inl e)
  with assms show ?thesis by (simp add: receipt_for_return_def split: if_splits)
next
  case c: (Inr x)
  obtain i w1 where x: "x = (i, w1)" by force
  note s1 = wms_step.draft_receipt [OF c [unfolded x]]
  show ?thesis
  proof (cases "approve_receipt w1 i user now")
    case (Inl e)
    with assms c x s1 show ?thesis by (auto simp: receipt_for_return_def split: if_splits)
  next
    case a: (Inr w2)
    obtain l w3 where r: "receive_session w2 i user now = (l, w3)" by force
    have "w' = w \<or> w' = w3" using assms c x a r by (auto simp: receipt_for_return_def split: if_splits)
    then show ?thesis
      using wms_two [OF s1 wms_two [OF wms_step.sign_receipt [OF a] receive_session_steps [OF r]]] by auto
  qed
qed

text \<open>The calls on quotations and orders leave the warehouse alone, and only submitting an order reaches the engine.\<close>

lemma quotation_frame:
  "create_quotation s qc user now yr = (r, s') \<Longrightarrow> depot s' = depot s \<and> engine s' = engine s"
  "update_quotation s i qu = Inr s' \<Longrightarrow> depot s' = depot s \<and> engine s' = engine s"
  "clone_quotation s i user now yr = Inr (k, s') \<Longrightarrow> depot s' = depot s \<and> engine s' = engine s"
  "change_quotation s i f es = Inr s' \<Longrightarrow> depot s' = depot s \<and> engine s' = engine s"
  "depot (expire_quotations s now) = depot s \<and> engine (expire_quotations s now) = engine s"
  by (auto simp: create_quotation_def update_quotation_def clone_quotation_def change_quotation_def expire_quotations_def Let_def
      split: sum.splits option.splits if_splits)

lemma order_frame:
  "create_sales_order s oc user now yr = (r, s') \<Longrightarrow> depot s' = depot s \<and> engine s' = engine s"
  "sales_order_from_quotation s qi user now yr = Inr (i, s') \<Longrightarrow> depot s' = depot s \<and> engine s' = engine s"
  "update_sales_order s i u = Inr s' \<Longrightarrow> depot s' = depot s \<and> engine s' = engine s"
  "change_sales_order s i g es = Inr s' \<Longrightarrow> depot s' = depot s \<and> engine s' = engine s"
  by (auto simp: create_sales_order_def sales_order_from_quotation_def update_sales_order_def change_sales_order_def Let_def
      split: sum.splits option.splits if_splits)

lemma submit_engine:
  assumes "submit_sales_order s i user txt now = (r, s')"
  shows "depot s' = depot s \<and> ap_step\<^sup>*\<^sup>* (engine s) (engine s')"
  using assms ap_step.start [of "engine s" "so_request i txt" _ now]
  by (cases "submittable_order s i") (fastforce simp: submit_sales_order_def Let_def split: sum.splits prod.splits if_splits)+

lemmas status_call_defs =
  submit_quotation_def approve_quotation_def reject_quotation_def cancel_quotation_def
  approve_sales_order_def reject_sales_order_def cancel_sales_order_def close_sales_order_def reopen_sales_order_def

lemma goods_steps:
  "create_delivery s c num user now = (r, s') \<Longrightarrow> wms_step\<^sup>*\<^sup>* (depot s) (depot s')"
  "cancel_delivery s i = Inr s' \<Longrightarrow> wms_step\<^sup>*\<^sup>* (depot s) (depot s')"
  "create_sales_return s rc num user now = (r, s') \<Longrightarrow> wms_step\<^sup>*\<^sup>* (depot s) (depot s')"
  "approve_sales_return s i user now = Inr s' \<Longrightarrow> wms_step\<^sup>*\<^sup>* (depot s) (depot s')"
proof -
  assume "create_delivery s c num user now = (r, s')"
  then show "wms_step\<^sup>*\<^sup>* (depot s) (depot s')"
    by (cases rule: create_delivery_cases) (auto dest: issue_for_delivery_steps)
next
  assume "approve_sales_return s i user now = Inr s'"
  from approve_sales_returnD [OF this] obtain r
    where "depot s' = snd (receipt_for_return (depot s) r user now)" by blast
  then show "wms_step\<^sup>*\<^sup>* (depot s) (depot s')"
    using receipt_for_return_steps [of "depot s" r user now] by (metis prod.collapse)
qed (simp_all add: cancel_delivery_frame create_sales_return_frame)

lemma goods_engine:
  "create_delivery s c num user now = (r, s') \<Longrightarrow> engine s' = engine s" "cancel_delivery s i = Inr s' \<Longrightarrow> engine s' = engine s"
  "create_sales_return s rc num user now = (r, s') \<Longrightarrow> engine s' = engine s"
  "approve_sales_return s i user now = Inr s' \<Longrightarrow> engine s' = engine s"
  unfolding create_delivery_def cancel_delivery_def create_sales_return_def approve_sales_return_def Let_def
  by (auto split: sum.splits option.splits prod.splits if_splits)

lemma sale_step_under:
  assumes "sale_step s s'"
  shows "wms_step\<^sup>*\<^sup>* (depot s) (depot s') \<and> ap_step\<^sup>*\<^sup>* (engine s) (engine s')"
  using assms
  by cases (auto simp: quotation_frame order_frame submit_engine goods_steps goods_engine status_call_defs)

text \<open>So the warehouse and the engine only ever reach states they reach on their own, and what is proved of them
  holds of them here.\<close>

lemma wms_steps_reachable: "wms_step\<^sup>*\<^sup>* w w' \<Longrightarrow> wms_reachable w \<Longrightarrow> wms_reachable w'"
  by (induction rule: rtranclp_induct) (auto intro: wms_reachable.step)

lemma ap_steps_reachable: "ap_step\<^sup>*\<^sup>* a a' \<Longrightarrow> ap_reachable a \<Longrightarrow> ap_reachable a'"
  by (induction rule: rtranclp_induct) (auto intro: ap_reachable.step)

lemma sale_reachable_under: "sale_reachable s \<Longrightarrow> wms_reachable (depot s) \<and> ap_reachable (engine s)"
proof (induction rule: sale_reachable.induct)
  case (init s)
  then show ?case by (simp add: sale_init_def wms_reachable.init ap_reachable.init)
next
  case (step s s')
  then show ?case using sale_step_under wms_steps_reachable ap_steps_reachable by blast
qed

end
