(* ===== verification/SalesProperties.thy ===== *)
theory SalesProperties
  imports SalesSystem WarehouseProperties
begin

text \<open>
  What quotations, sales orders, deliveries and returns (\<^verbatim>\<open>src/app/services/quotation_services.py\<close>,
  \<^verbatim>\<open>sales_order_services.py\<close>, \<^verbatim>\<open>delivery_services.py\<close>, \<^verbatim>\<open>sales_return_services.py\<close>) guarantee: the amounts of the
  documents, their life cycles, what a delivery moves and what it counts; and what refused orders, failed
  issues, reopened orders and edited lines leave behind.
\<close>

section \<open>A concrete customer\<close>

text \<open>A customer with a credit limit of 100, ten pieces of product 1 in stock, and a discount rule of ten percent on
  documents of at least 50.\<close>

definition sale0 :: sales where
  "sale0 =
     \<lparr>depot = wms_start, engine = \<lparr>workflows = [], approval_steps = [], approval_requests = [], approval_histories = [],
        roles = [], user_roles = [], ap_next = 0, ap_effects = []\<rparr>, sale_users = [],
      customers = [(1, \<lparr>cu_credit_limit = 100, cu_status = ''Active'', cu_is_deleted = False\<rparr>)],
      discount_rules = [(1, \<lparr>dr_type = ''Document'', dr_calculation = ''Percentage'', dr_value = 10, dr_min_order_value = 50,
        dr_min_quantity = 0, dr_is_active = True, dr_valid_from = None, dr_valid_to = None\<rparr>)],
      sales_quotations = [], sales_orders = [], deliveries = [], sales_returns = [], sale_next = 200, sale_effects = []\<rparr>"

definition sale1 :: sales where
  "sale1 = sale0\<lparr>depot := wms_stocked\<rparr>"

definition sl_of :: "decimal \<Rightarrow> sales_line" where
  "sl_of q =
     \<lparr>sl_product_id = 1, sl_quantity = q, sl_unit_price = 5, sl_discount_type = ''Percentage'', sl_discount_value = 10,
      sl_tax_rate = 20, sl_warehouse_id = Some 1, sl_delivery_date = None\<rparr>"

definition so_body :: "uuid option \<Rightarrow> sales_line list \<Rightarrow> sales_order_create" where
  "so_body qi ls =
     \<lparr>sc_customer_id = 1, sc_quotation_id = qi, sc_currency = ''EUR'', sc_payment_terms = ''Net 30'', sc_shipping_id = None,
      sc_billing_id = None, sc_remarks = None, sc_items = ls\<rparr>"

definition sale_of :: "sales result \<Rightarrow> sales" where
  "sale_of r = (case r of Inl _ \<Rightarrow> sale0 | Inr s \<Rightarrow> s)"

definition sold :: "sales_line list \<Rightarrow> sales" where
  "sold ls = snd (create_sales_order sale1 (so_body None ls) (Some 7) 5 2026)"

definition agreed :: "sales_line list \<Rightarrow> sales" where
  "agreed ls = sale_of (approve_sales_order (sold ls) 200 (Some 8) 6)"

definition dc_of :: "(uuid \<times> decimal) list \<Rightarrow> delivery_create" where
  "dc_of qs =
     \<lparr>dc_order_id = 200, dc_warehouse_id = 1, dc_carrier = None, dc_tracking = None, dc_notes = None,
      dc_items = map (\<lambda>(i, q). \<lparr>di_order_item_id = i, di_product_id = 1, di_quantity = q\<rparr>) qs\<rparr>"

definition delivered_run :: "sales_line list \<Rightarrow> (uuid \<times> decimal) list \<Rightarrow> uuid result \<times> sales" where
  "delivered_run ls qs = create_delivery (agreed ls) (dc_of qs) ''D1'' (Some 8) 7"

lemmas run_line =
  sl_of_def sale_gross_def sale_discount_def sale_tax_def calculate_line_discount_def round_dp_def round_half_even_def Let_def

lemma sl_of_lines:
  "order_item_of (sale_item k (sl_of 4)) d =
     \<lparr>si_id = k, si_product_id = 1, si_quantity = 4, si_unit_price = 5, si_discount_type = ''Percentage'',
      si_discount_value = 10, si_discount_amount = 2, si_tax_rate = 20, si_tax_amount = 18 / 5, si_line_total = 108 / 5,
      si_warehouse_id = Some 1, oi_delivered = 0, oi_delivery_date = d, oi_status = PgPending\<rparr>"
  "order_item_of (sale_item k (sl_of 20)) d =
     \<lparr>si_id = k, si_product_id = 1, si_quantity = 20, si_unit_price = 5, si_discount_type = ''Percentage'',
      si_discount_value = 10, si_discount_amount = 10, si_tax_rate = 20, si_tax_amount = 18, si_line_total = 108,
      si_warehouse_id = Some 1, oi_delivered = 0, oi_delivery_date = d, oi_status = PgPending\<rparr>"
  by (simp_all add: run_line sale_item_def order_item_of_def sales_item.defs)

lemma sl_of_amounts:
  "sale_gross (sl_of q) = 5 * q" "sale_discount (sl_of 4) = 2" "sale_tax (sl_of 4) = 18 / 5"
  "sale_discount (sl_of 20) = 10" "sale_tax (sl_of 20) = 18" "sl_quantity (sl_of q) = q" "sl_delivery_date (sl_of q) = None"
  by (simp_all add: run_line)

lemma order_items_simps:
  "order_items n [] = []"
  "order_items n (l # ls) = order_item_of (sale_item n l) (sl_delivery_date l) # order_items (Suc n) ls"
  by (simp_all add: order_items_def upt_conv_Cons del: upt_Suc)

lemma sale1_fields [simp]:
  "depot sale1 = wms_stocked" "engine sale1 = engine sale0" "sale_users sale1 = []" "customers sale1 = customers sale0"
  "discount_rules sale1 = discount_rules sale0" "sales_quotations sale1 = []" "sales_orders sale1 = []"
  "deliveries sale1 = []" "sales_returns sale1 = []" "sale_next sale1 = 200" "sale_effects sale1 = []"
  by (simp_all add: sale1_def sale0_def)

lemma sl_of_checked: "0 < q \<Longrightarrow> check_sale_line sale1 (sl_of q) = Inr ()"
  by (simp add: check_sale_line_def sl_of_def wms_stocked_def stk1_def run_stock)

lemma demo_customer: "check_customer sale1 1 = Inr ()" "customer_of sale1 1 = Some \<lparr>cu_credit_limit = 100, cu_status = ''Active'', cu_is_deleted = False\<rparr>"
  by (simp_all add: check_customer_def customer_of_def sale0_def get_def)

lemma demo_discount:
  "evaluate_document_discounts sale1 now t q = round_dp 2 (if 50 \<le> t \<and> 0 \<le> q then t / 10 else min t 0)"
  by (simp add: evaluate_document_discounts_def get_active_rules_def sale0_def better_discount_def rule_discount_def min_def)

lemmas run_sales =
  so_body_def sale_of_def sold_def get_def add_row_def modify_def Let_def and_then_def
  create_sales_order_def sales_order_checks_def sl_of_checked demo_customer [simplified] demo_discount
  document_discount_def sl_of_lines sl_of_amounts order_items_simps
  round_dp_def round_half_even_def order_lines_def so_numbers_def
  empty_order_def take_keys_def sale_emit_def put_sales_order_def convert_quotation_def

lemma sold_eq: "create_sales_order sale1 (so_body None [sl_of 4]) (Some 7) 5 2026 = (Inr 200, sold [sl_of 4])"
  by (simp add: run_sales)

lemma sold_row:
  "\<exists>od. get (sales_orders (sold [sl_of 4])) 200 = Some od \<and> so_status od = SoDraft \<and> so_total od = 108 / 5 \<and>
     length (so_items od) = 1"
  by (simp add: run_sales)

lemmas run_agreeing =
  run_sales agreed_def approve_sales_order_def change_sales_order_def get_sales_order_def check_credit_limit_def

lemma customer_of_frame [simp]:
  "customer_of (s\<lparr>sales_orders := os\<rparr>) i = customer_of s i" "customer_of (s\<lparr>sale_next := n\<rparr>) i = customer_of s i"
  "customer_of (s\<lparr>sale_effects := es\<rparr>) i = customer_of s i"
  by (simp_all add: customer_of_def)

lemma agreed_eq: "approve_sales_order (sold [sl_of 4]) 200 (Some 8) 6 = Inr (agreed [sl_of 4])"
  "approve_sales_order (sold [sl_of 20]) 200 (Some 8) 6 = Inr (agreed [sl_of 20])"
  by (simp_all add: run_agreeing)

lemma sale1_reachable: "sale_reachable sale1"
proof -
  have "stk_init stk0"
    by (simp add: stk_init_def stk0_def wf_stk_def wf_table_def keys_def unique_on_def)
  then have "sale_reachable sale0"
    by (intro sale_reachable.init) (simp add: sale_init_def sale0_def wms_init_def wms_start_def wms0_def ap_init_def)
  moreover have "wms_step wms_start wms_stocked"
    unfolding wms_stocked_def by (rule wms_step.engine) (simp add: wms_start_def stk_step.movement [OF stk1_eq])
  then have "wms_step (depot sale0) wms_stocked" by (simp add: sale0_def)
  ultimately show ?thesis unfolding sale1_def by (intro sale_reachable.step [OF _ sale_step.warehouse])
qed

lemma sale_runs: "sale_reachable (sold ls)" "sale_reachable (agreed [sl_of 4])" "sale_reachable (agreed [sl_of 20])"
proof -
  have 1: "sale_reachable (sold ls)" for ls
    unfolding sold_def by (rule sale_reachable.step [OF sale1_reachable sale_step.order [OF prod.collapse [symmetric]]])
  show "sale_reachable (sold ls)" "sale_reachable (agreed [sl_of 4])" "sale_reachable (agreed [sl_of 20])"
    using 1 sale_reachable.step [OF 1 sale_step.approve [OF agreed_eq(1)]]
      sale_reachable.step [OF 1 sale_step.approve [OF agreed_eq(2)]] by simp_all
qed

section \<open>Amounts and life cycles\<close>



text \<open>in every reachable state what has been delivered on an order line lies between zero and the ordered quantity;
  it is zero on drafts, submitted, rejected and cancelled orders, and the whole quantity on delivered ones.\<close>
theorem deliveries_within_order:
  assumes "sale_reachable s" and "get (sales_orders s) i = Some od"
  shows "list_all (\<lambda>it. 0 \<le> oi_delivered it \<and> oi_delivered it \<le> si_quantity it) (so_items od)
    \<and> (so_status od \<in> {SoDraft, SoSubmitted, SoRejected, SoCancelled} \<longrightarrow> list_all (\<lambda>it. oi_delivered it = 0) (so_items od))
    \<and> (so_status od = SoDelivered \<longrightarrow> list_all (\<lambda>it. oi_delivered it = si_quantity it) (so_items od))"
proof -
  have "so_ok od" using sale_reachable_inv [OF assms(1)] assms(2) by (auto simp: sale_inv_def dest: all_rows_get)
  then show ?thesis by (simp add: so_ok_def undelivered_def)
qed

text \<open>no call deletes an order or a quotation or changes its number or customer; the status takes only the moves of the
  tables \<open>so_moves\<close> and \<open>sq_moves\<close>; the lines and totals change in drafts only, and what has been delivered
  never decreases. A converted or cancelled quotation never changes again.\<close>
theorem sales_follow_life_cycle:
  assumes "sale_reachable s" and "sale_step s s'"
  shows "(\<forall>i od. get (sales_orders s) i = Some od \<longrightarrow>
      (\<exists>od'. get (sales_orders s') i = Some od' \<and> so_number od' = so_number od \<and> so_customer_id od' = so_customer_id od
        \<and> (so_status od' = so_status od \<or> so_status od' \<in> set (so_moves (so_status od)))
        \<and> (so_status od \<noteq> SoDraft \<longrightarrow> same_sale od od')))
    \<and> (\<forall>i q. get (sales_quotations s) i = Some q \<longrightarrow>
      (\<exists>q'. get (sales_quotations s') i = Some q' \<and> qt_number q' = qt_number q \<and> qt_customer_id q' = qt_customer_id q
        \<and> (qt_status q' = qt_status q \<or> qt_status q' \<in> set (sq_moves (qt_status q)))
        \<and> (qt_status q \<noteq> SqDraft \<longrightarrow> same_quote q q') \<and> (qt_status q \<in> {SqConverted, SqCancelled} \<longrightarrow> q' = q)))"
proof -
  have c: "sale_call s s'" by (rule sale_step_call [OF assms(2) sale_reachable_inv [OF assms(1)]])
  have refl: "same_sale od od" "same_quote q q" for od q
    by (auto simp: same_sale_def same_quote_def intro: list.rel_refl_strong)
  have "\<exists>od'. get (sales_orders s') i = Some od' \<and> (od' = od \<or> so_move s od od')" if "get (sales_orders s) i = Some od" for i od
    using c table_call_get that unfolding sale_call_def by metis
  moreover have "\<exists>q'. get (sales_quotations s') i = Some q' \<and> (q' = q \<or> qt_move q q')" if "get (sales_quotations s) i = Some q" for i q
    using c table_call_get that unfolding sale_call_def by metis
  ultimately show ?thesis using refl by (fastforce simp: so_move_def qt_move_def)
qed

text \<open>an order becomes approved only by being reopened after it was closed, or when its customer exists, is active and
  has no credit limit or one that covers the total of the order.\<close>
theorem approval_respects_credit:
  assumes "sale_reachable s" and "sale_step s s'" and "get (sales_orders s) i = Some od"
    and "get (sales_orders s') i = Some od'" and "so_status od \<noteq> SoApproved" and "so_status od' = SoApproved"
  shows "so_status od = SoClosed \<or> (\<exists>c. get (customers s) (so_customer_id od) = Some c \<and> \<not> cu_is_deleted c
    \<and> cu_status c = ''Active'' \<and> (cu_credit_limit c \<le> 0 \<or> so_total od \<le> cu_credit_limit c))"
proof -
  have "sale_call s s'" by (rule sale_step_call [OF assms(2) sale_reachable_inv [OF assms(1)]])
  with assms(3,4) have "od' = od \<or> so_move s od od'" unfolding sale_call_def by (metis option.inject table_call_get)
  with assms(5,6) have "so_status od = SoClosed \<or> check_credit_limit s (so_customer_id od) (so_total od) = Inr ()"
    by (auto simp: so_move_def)
  then show ?thesis
    by (auto simp: check_credit_limit_def customer_of_def split: option.splits if_splits)
qed

section \<open>What a delivery moves\<close>

definition delivery_key :: "delivery_create \<Rightarrow> delivery_item \<Rightarrow> stock_key" where
  "delivery_key c d = (di_product_id d, dc_warehouse_id c, None)"

definition delivered_for :: "delivery_item list \<Rightarrow> uuid \<Rightarrow> decimal" where
  "delivered_for ds i = sum_list (map (\<lambda>d. if di_order_item_id d = i then di_quantity d else 0) ds)"

lemma issue_total_at:
  "total_at (issue_key d) ii_quantity (map (issue_line \<circ> delivery_issue_line num) ds) k =
   total_at (\<lambda>x. (di_product_id x, gi_warehouse_id d, None)) di_quantity ds k"
  by (induction ds) (simp_all add: total_at_def issue_key_def issue_line_def delivery_issue_line_def Let_def)

lemma stock_take_id [simp]: "stock_of (stock (take_id w)) k = stock_of (stock w) k"
  by (rule stock_of_cong) (simp add: take_id_def)

lemma create_issueD:
  assumes "wms_reachable w" and "create_issue w ic user now = Inr (i, w')"
  shows "\<exists>d. get (issues w') i = Some d \<and> gi_status d = DocDraft \<and> gi_warehouse_id d = gic_warehouse_id ic \<and>
    gi_items d = map issue_line (gic_items ic) \<and> (\<forall>k. stock_of (stock w') k = stock_of (stock w) k)"
proof -
  have "fresh_id w \<notin> set (keys (issues w))"
    using wms_reachable_issue_keys [OF assms(1), of "fresh_id w"] by (auto simp: fresh_id_def)
  with assms(2) show ?thesis
    by (auto simp: create_issue_def Let_def get_add_row_fresh split: if_splits)
qed

lemma approve_issueD:
  assumes "approve_issue w i user now = Inr w'" and "get (issues w) i = Some d"
  shows "get (issues w') i = Some (d\<lparr>gi_status := DocApproved, gi_approved_by := user, gi_approved_at := Some now\<rparr>) \<and>
    stock w' = stock w"
  using assms by (auto simp: approve_issue_def get_modify_eq split: if_splits)

lemma issue_for_delivery_ok:
  assumes w: "wms_reachable w" and run: "issue_for_delivery w c num user now = (Some i, w')"
  shows "stock_of (stock w') k = stock_of (stock w) k - total_at (delivery_key c) di_quantity (dc_items c) k"
    "map_option gi_status (get (issues w') i) = Some DocIssued"
proof -
  from run obtain w1 w2 where c: "create_issue w (delivery_issue c num now) user now = Inr (i, w1)"
      and a: "approve_issue w1 i user now = Inr w2" and p: "post_issue w2 i user now DocIssued = (Inr (), w')"
    by (auto simp: issue_for_delivery_def issue_issue_def split: if_splits sum.splits prod.splits)
  from create_issueD [OF w c] obtain d where d: "get (issues w1) i = Some d" "gi_warehouse_id d = dc_warehouse_id c"
      "gi_items d = map (issue_line \<circ> delivery_issue_line num) (dc_items c)"
      "\<And>k. stock_of (stock w1) k = stock_of (stock w) k"
    by (auto simp: delivery_issue_def Let_def)
  note a2 = approve_issueD [OF a d(1)]
  have "wms_reachable w2"
    using w wms_step.draft_issue [OF c] wms_step.sign_issue [OF a] by (blast intro: wms_reachable.step)
  from issue_takes_stock [OF stk_inv_wf [OF wms_reachable_inv [OF this]] p, of _ k] a2
  have "stock_of (stock w') k = stock_of (stock w1) k - total_at (issue_key d) ii_quantity (gi_items d) k \<and>
      map_option gi_status (get (issues w') i) = Some DocIssued"
    by (simp add: issue_key_def [abs_def])
  then show "stock_of (stock w') k = stock_of (stock w) k - total_at (delivery_key c) di_quantity (dc_items c) k"
    "map_option gi_status (get (issues w') i) = Some DocIssued"
    by (simp_all add: d(3,4) issue_total_at d(2) delivery_key_def [abs_def])
qed

text \<open>An issue that fails takes nothing: its lines carry no reservation, so nothing is committed on the way.\<close>

lemma failed_issue_saved:
  assumes "execute_goods_issue i d user now its (w, saved) = (Inl e, saved')" and "list_all (\<lambda>it. ii_reservation_id it = None) its"
  shows "saved' = saved"
  using assms by (induction its arbitrary: w) (auto split: sum.splits)

lemma issue_for_delivery_failed:
  assumes w: "wms_reachable w" and run: "issue_for_delivery w c num user now = (None, w')"
  shows "stock_of (stock w') k = stock_of (stock w) k"
proof (cases "create_issue w (delivery_issue c num now) user now")
  case (Inl e)
  with run show ?thesis by (simp add: issue_for_delivery_def split: if_splits)
next
  case cr: (Inr x)
  obtain i w1 where x: "x = (i, w1)" by force
  from create_issueD [OF w cr [unfolded x]] obtain d where d: "get (issues w1) i = Some d"
      "gi_items d = map (issue_line \<circ> delivery_issue_line num) (dc_items c)"
      "\<And>k. stock_of (stock w1) k = stock_of (stock w) k"
    by (auto simp: delivery_issue_def Let_def)
  show ?thesis
  proof (cases "approve_issue w1 i user now")
    case (Inl e)
    with run cr x d(3) show ?thesis by (auto simp: issue_for_delivery_def split: if_splits)
  next
    case a: (Inr w2)
    note a2 = approve_issueD [OF a d(1)]
    have none: "list_all (\<lambda>it. ii_reservation_id it = None) (gi_items d)"
      by (simp add: d(2) list_all_iff issue_line_def delivery_issue_line_def Let_def)
    obtain r w3 where p: "post_issue w2 i user now DocIssued = (r, w3)" by force
    have "w' = w \<or> r \<noteq> Inr () \<and> w' = w3"
      using run cr x a p by (auto simp: issue_for_delivery_def issue_issue_def split: if_splits sum.splits)
    moreover have "w3 = w2" if "r \<noteq> Inr ()"
      using p that a2 none failed_issue_saved [where w = w2 and saved = w2]
      by (fastforce simp: post_issue_def split: if_splits sum.splits prod.splits)
    ultimately show ?thesis using a2 d(3) [of k] by auto
  qed
qed

lemma fold_deliver_quantities:
  assumes "fold_res deliver_step ds its = Inr its'"
  shows "map (\<lambda>it. (si_id it, oi_delivered it)) its' =
    map (\<lambda>it. (si_id it, oi_delivered it + delivered_for ds (si_id it))) its"
  using assms
proof (induction ds arbitrary: its)
  case Nil
  then show ?case by (simp add: delivered_for_def)
next
  case (Cons d ds)
  then obtain ys where ys: "deliver_step d its = Inr ys" "fold_res deliver_step ds ys = Inr its'" by (auto split: sum.splits)
  from deliver_stepD [OF ys(1)]
  have "ys = map (\<lambda>x. if si_id x = di_order_item_id d then deliver_line (di_quantity d) x else x) its" by blast
  with Cons.IH [OF ys(2)] show ?case by (auto simp: delivered_for_def)
qed

lemma delivery_run:
  assumes "create_delivery s c num user now = (r, s')" and "delivery_checks s c num = Inr od"
    and "fold_res deliver_step (dc_items c) (so_items od) = Inr its" and "issue_for_delivery (depot s) c num user now = (k, w)"
  shows "depot s' = w" "get (sales_orders s') (dc_order_id c) = Some (delivered_order its od)"
    "r = (case k of None \<Rightarrow> Inl (NameErr ''logger'') | Some _ \<Rightarrow> Inr (sale_next s))"
    "\<exists>d. (sale_next s, d) \<in> set (deliveries s') \<and> dl_issue_id d = k \<and> dl_items d = dc_items c \<and>
       dl_status d = (if k = None then DlDraft else DlDelivered)"
proof -
  from delivery_checksD [OF assms(2)] have od: "get (sales_orders s) (dc_order_id c) = Some od" by simp
  have mem: "(i, d) \<in> set (modify i (\<lambda>_. d) (add_row i d0 t))" "(i, d) \<in> set (modify i (\<lambda>_. d) (modify i (\<lambda>_. d1) (add_row i d0 t)))"
    for i d d0 d1 and t :: "delivery table" by (simp_all add: modify_def add_row_def)
  from assms show "depot s' = w" "r = (case k of None \<Rightarrow> Inl (NameErr ''logger'') | Some _ \<Rightarrow> Inr (sale_next s))"
    "get (sales_orders s') (dc_order_id c) = Some (delivered_order its od)"
    by (auto simp: create_delivery_def Let_def get_modify_eq od split: option.splits)
  show "\<exists>d. (sale_next s, d) \<in> set (deliveries s') \<and> dl_issue_id d = k \<and> dl_items d = dc_items c \<and>
       dl_status d = (if k = None then DlDraft else DlDelivered)"
  proof (cases k)
    case None
    let ?d = "(new_delivery c num user now)\<lparr>dl_items := dc_items c\<rparr>"
    have "(sale_next s, ?d) \<in> set (deliveries s')" using assms None mem(1) by (auto simp: create_delivery_def Let_def)
    then show ?thesis using None by (intro exI [of _ ?d]) (simp add: new_delivery_def)
  next
    case (Some i)
    let ?d = "(new_delivery c num user now)\<lparr>dl_items := dc_items c, dl_status := DlDelivered, dl_issue_id := Some i\<rparr>"
    have "(sale_next s, ?d) \<in> set (deliveries s')" using assms Some mem(2) by (auto simp: create_delivery_def Let_def)
    then show ?thesis using Some by (intro exI [of _ ?d]) (simp add: new_delivery_def)
  qed
qed

text \<open>C30: a delivery that succeeds takes the quantity of every line from the stock of its product at the warehouse of the
  delivery and nothing elsewhere, adds it to the delivered quantity of the order line it names and to no other,
  leaves what was ordered alone, marks the order delivered when every line is, and names an issued goods issue.\<close>
theorem delivery_moves_stock:
  assumes "sale_reachable s" and "create_delivery s c num user now = (Inr i, s')" and "get (sales_orders s) (dc_order_id c) = Some od"
  shows "stock_of (stock (depot s')) k = stock_of (stock (depot s)) k - total_at (delivery_key c) di_quantity (dc_items c) k
    \<and> (\<exists>od'. get (sales_orders s') (dc_order_id c) = Some od' \<and> same_sale od od'
        \<and> map (\<lambda>it. (si_id it, oi_delivered it)) (so_items od')
          = map (\<lambda>it. (si_id it, oi_delivered it + delivered_for (dc_items c) (si_id it))) (so_items od)
        \<and> so_status od' = (if list_all (\<lambda>it. si_quantity it \<le> oi_delivered it) (so_items od') then SoDelivered else SoPartial))
    \<and> (\<exists>d g. (i, d) \<in> set (deliveries s') \<and> dl_status d = DlDelivered \<and> dl_issue_id d = Some g
        \<and> map_option gi_status (get (issues (depot s')) g) = Some DocIssued)"
  using assms(2)
proof (cases rule: create_delivery_cases)
  case (run od0 its g w)
  from run(8) obtain j where g: "g = Some j" "i = sale_next s" by (cases g) auto
  have "od0 = od" using delivery_checksD(1) [OF run(1)] assms(3) by simp
  note run = run [unfolded this]
  note d = delivery_run [OF assms(2) run(1-3)]
  have "so_ok od" using sale_reachable_inv [OF assms(1)] assms(3) by (auto simp: sale_inv_def dest: all_rows_get)
  then have "delivering (so_items od) its" by (intro fold_delivering [OF run(2)]) (auto simp: so_ok_def list_all_iff)
  then have "same_sale od (delivered_order its od)" by (simp add: same_sale_def delivered_order_def delivering_def)
  moreover have "wms_reachable (depot s)" using sale_reachable_under [OF assms(1)] by simp
  note issue_for_delivery_ok [OF this run(3) [unfolded g(1)]]
  ultimately show ?thesis
    using d fold_deliver_quantities [OF run(2)] g by (fastforce simp: delivered_order_def)
qed simp_all

text \<open>when the warehouse cannot issue what is delivered, the call fails with the name of an undefined logger, no stock
  has moved, and yet the order counts the quantities as delivered: the delivery stays a draft without a goods
  issue, and a fully counted order can be delivered no more.\<close>
theorem failed_issue_still_counts:
  assumes "sale_reachable s" and "delivery_checks s c num = Inr od" and "fold_res deliver_step (dc_items c) (so_items od) = Inr its"
    and "fst (issue_for_delivery (depot s) c num user now) = None" and "create_delivery s c num user now = (r, s')"
  shows "r = Inl (NameErr ''logger'') \<and> stock_of (stock (depot s')) k = stock_of (stock (depot s)) k
    \<and> (\<exists>od'. get (sales_orders s') (dc_order_id c) = Some od'
        \<and> map (\<lambda>it. (si_id it, oi_delivered it)) (so_items od')
          = map (\<lambda>it. (si_id it, oi_delivered it + delivered_for (dc_items c) (si_id it))) (so_items od)
        \<and> (so_status od' = SoDelivered \<and> dc_order_id c' = dc_order_id c
            \<longrightarrow> \<not> is_ok (fst (create_delivery s' c' num' user' now'))))
    \<and> (\<exists>d. (sale_next s, d) \<in> set (deliveries s') \<and> dl_status d = DlDraft \<and> dl_issue_id d = None)"
proof -
  obtain w where w: "issue_for_delivery (depot s) c num user now = (None, w)"
    using assms(4) by (cases "issue_for_delivery (depot s) c num user now") auto
  note d = delivery_run [OF assms(5,2,3) w]
  have "wms_reachable (depot s)" using sale_reachable_under [OF assms(1)] by simp
  then have "stock_of (stock (depot s')) k = stock_of (stock (depot s)) k"
    using issue_for_delivery_failed [OF _ w, of k] by (simp add: d(1))
  moreover have "so_items (delivered_order its od) = its" by (simp add: delivered_order_def)
  moreover have "\<not> is_ok (fst (create_delivery s' c' num' user' now'))"
    if "so_status (delivered_order its od) = SoDelivered" "dc_order_id c' = dc_order_id c"
    using that d(2) by (simp add: create_delivery_def delivery_checks_def get_sales_order_def and_then_def)
  ultimately show ?thesis using d fold_deliver_quantities [OF assms(3)] by auto
qed

text \<open>Four of ten pieces are issued; twenty are not.\<close>

lemmas run_issuing =
  run_issue wms_start_def wms_stocked_def stk1_def issue_for_delivery_def create_issue_def delivery_issue_def
  delivery_issue_line_def issue_line_def approve_issue_def issue_issue_def dc_of_def

lemma issue_runs:
  "fst (issue_for_delivery wms_stocked (dc_of [(201, 4)]) ''D1'' (Some 8) 7) = Some 102"
  "fst (issue_for_delivery wms_stocked (dc_of [(201, 20)]) ''D1'' (Some 8) 7) = None"
  by (simp_all add: run_issuing)

lemma depot_frame [simp]: "depot (agreed [sl_of 4]) = wms_stocked" "depot (agreed [sl_of 20]) = wms_stocked"
  by (simp_all add: run_agreeing)

lemma stocked_warehouse [simp]: "get (warehouses (stock wms_stocked)) (Suc 0) \<noteq> None"
  by (simp add: wms_stocked_def stk1_def run_stock)

lemmas run_delivering =
  run_agreeing delivery_checks_def dc_of_def exists_where_def deliver_step_def deliver_line_def

lemma agreed_rows:
  "\<exists>od its. get (sales_orders (agreed [sl_of 4])) 200 = Some od \<and> delivery_checks (agreed [sl_of 4]) (dc_of [(201, 4)]) ''D1'' = Inr od \<and>
     fold_res deliver_step (dc_items (dc_of [(201, 4)])) (so_items od) = Inr its"
  "\<exists>od its. delivery_checks (agreed [sl_of 20]) (dc_of [(201, 20)]) ''D1'' = Inr od \<and>
     fold_res deliver_step (dc_items (dc_of [(201, 20)])) (so_items od) = Inr its \<and> so_status (delivered_order its od) = SoDelivered"
  using stocked_warehouse by (simp_all add: run_delivering delivered_order_def)

lemma delivered_eq: "\<exists>s'. delivered_run [sl_of 4] [(201, 4)] = (Inr 202, s')"
proof -
  from agreed_rows(1) obtain od its where od: "delivery_checks (agreed [sl_of 4]) (dc_of [(201, 4)]) ''D1'' = Inr od"
    "fold_res deliver_step (dc_items (dc_of [(201, 4)])) (so_items od) = Inr its" by blast
  obtain w where w: "issue_for_delivery (depot (agreed [sl_of 4])) (dc_of [(201, 4)]) ''D1'' (Some 8) 7 = (Some 102, w)"
    using issue_runs(1) by (cases "issue_for_delivery wms_stocked (dc_of [(201, 4)]) ''D1'' (Some 8) 7") auto
  have "sale_next (agreed [sl_of 4]) = 202" by (simp add: run_agreeing)
  then show ?thesis
    using delivery_run(3) [OF prod.collapse [symmetric] od w] unfolding delivered_run_def
    by (metis option.simps(5) prod.collapse)
qed

lemma deliveries_within_order_witness:
  "\<exists>s' od'. delivered_run [sl_of 4] [(201, 4)] = (Inr 202, s') \<and> get (sales_orders s') 200 = Some od' \<and>
     list_all (\<lambda>it. oi_delivered it \<le> si_quantity it) (so_items od')"
proof -
  obtain s' where r: "delivered_run [sl_of 4] [(201, 4)] = (Inr 202, s')" using delivered_eq by blast
  from agreed_rows(1) obtain od where od: "get (sales_orders (agreed [sl_of 4])) 200 = Some od" by blast
  have re: "sale_reachable s'"
    by (rule sale_reachable.step [OF sale_runs(2) sale_step.deliver [OF r [unfolded delivered_run_def]]])
  have "\<exists>od'. get (sales_orders s') 200 = Some od'"
    using table_call_get od sale_step_call [OF sale_step.deliver [OF r [unfolded delivered_run_def]] sale_reachable_inv [OF sale_runs(2)]]
    unfolding sale_call_def by metis
  then obtain od' where od': "get (sales_orders s') 200 = Some od'" by blast
  from deliveries_within_order [OF re od'] r od' show ?thesis by (auto simp: list_all_iff)
qed

lemma delivery_moves_stock_witness:
  "\<exists>s'. delivered_run [sl_of 4] [(201, 4)] = (Inr 202, s') \<and>
     stock_of (stock (depot s')) (1, 1, None) = stock_of (stock wms_stocked) (1, 1, None) - 4"
proof -
  obtain s' where r: "delivered_run [sl_of 4] [(201, 4)] = (Inr 202, s')" using delivered_eq by blast
  from agreed_rows(1) obtain od where od: "get (sales_orders (agreed [sl_of 4])) (dc_order_id (dc_of [(201, 4)])) = Some od"
    by (auto simp: dc_of_def)
  from delivery_moves_stock [OF sale_runs(2) r [unfolded delivered_run_def] od, of "(1, 1, None)"] r
  show ?thesis by (simp add: dc_of_def total_at_def delivery_key_def)
qed

lemma failed_issue_still_counts_witness:
  "\<exists>s' od'. delivered_run [sl_of 20] [(201, 20)] = (Inl (NameErr ''logger''), s') \<and> get (sales_orders s') 200 = Some od' \<and>
     stock_of (stock (depot s')) (1, 1, None) = stock_of (stock wms_stocked) (1, 1, None)"
proof -
  from agreed_rows(2) obtain od its where od: "delivery_checks (agreed [sl_of 20]) (dc_of [(201, 20)]) ''D1'' = Inr od"
    "fold_res deliver_step (dc_items (dc_of [(201, 20)])) (so_items od) = Inr its" by blast
  have none: "fst (issue_for_delivery (depot (agreed [sl_of 20])) (dc_of [(201, 20)]) ''D1'' (Some 8) 7) = None"
    using issue_runs(2) by simp
  obtain r s' where r: "delivered_run [sl_of 20] [(201, 20)] = (r, s')" by force
  from failed_issue_still_counts [OF sale_runs(3) od none r [unfolded delivered_run_def],
      where k = "(1, 1, None)" and c' = "dc_of []" and num' = "''D2''" and user' = None and now' = 8] r
  show ?thesis by (auto simp: dc_of_def)
qed

lemma sales_follow_life_cycle_witness:
  "\<exists>od'. get (sales_orders (agreed [sl_of 4])) 200 = Some od' \<and> so_status od' \<in> set (SoDraft # so_moves SoDraft)"
proof -
  obtain od where od: "get (sales_orders (sold [sl_of 4])) 200 = Some od" "so_status od = SoDraft" using sold_row by blast
  from sales_follow_life_cycle [OF sale_runs(1) sale_step.approve [OF agreed_eq(1)]] od show ?thesis by fastforce
qed

lemma approval_respects_credit_witness:
  "\<exists>od c. get (sales_orders (sold [sl_of 4])) 200 = Some od \<and> get (customers (sold [sl_of 4])) (so_customer_id od) = Some c \<and>
     (cu_credit_limit c \<le> 0 \<or> so_total od \<le> cu_credit_limit c)"
proof -
  obtain od where od: "get (sales_orders (sold [sl_of 4])) 200 = Some od" "so_status od = SoDraft" using sold_row by blast
  have "\<exists>od'. get (sales_orders (agreed [sl_of 4])) 200 = Some od' \<and> so_status od' = SoApproved" by (simp add: run_agreeing)
  then obtain od' where od': "get (sales_orders (agreed [sl_of 4])) 200 = Some od'" "so_status od' = SoApproved" by blast
  from approval_respects_credit [OF sale_runs(1) sale_step.approve [OF agreed_eq(1)] od(1) od'(1) _ od'(2)] od
  show ?thesis by auto
qed

section \<open>The components underneath\<close>

text \<open>C31: whatever sales calls are made, the warehouse and the approval engine underneath only make steps of their own:
  each sales call is a sequence of warehouse calls and a sequence of engine calls, so every state they reach is one
  of theirs, and the stock of every key stays the sum of its ledger rows.\<close>
theorem sales_use_components:
  assumes "sale_reachable s"
  shows "wms_reachable (depot s) \<and> ap_reachable (engine s) \<and> stock_of (stock (depot s)) k = ledger_stock (stock (depot s)) k
    \<and> (\<forall>s'. sale_step s s' \<longrightarrow> wms_step\<^sup>*\<^sup>* (depot s) (depot s') \<and> ap_step\<^sup>*\<^sup>* (engine s) (engine s'))"
  using sale_reachable_under [OF assms] sale_step_under stk_inv_stock [OF wms_reachable_inv] by blast

lemma sales_use_components_witness:
  "wms_reachable (depot (agreed [sl_of 4])) \<and> stock_of (stock wms_stocked) (1, 1, None) = ledger_stock (stock wms_stocked) (1, 1, None)"
  using sales_use_components [OF sale_runs(2), of "(1, 1, None)"] by simp

section \<open>What refused, reopened and edited orders leave\<close>

text \<open>an order whose lines are refused stays behind as an empty draft that names its quotation, while the quotation stays
  approved and can be converted again: the row is committed before its lines are looked at.\<close>
theorem refused_order_leaves_draft:
  assumes "sales_order_checks s c = Inr ()" and "each (check_sale_line s) (sc_items c) = Inl e"
  shows "\<exists>s' od. create_sales_order s c user now yr = (Inl e, s') \<and> sales_orders s' = add_row (sale_next s) od (sales_orders s)
    \<and> so_status od = SoDraft \<and> so_items od = [] \<and> so_total od = 0 \<and> so_quotation_id od = sc_quotation_id c
    \<and> so_number od \<notin> set (so_numbers s) \<and> sales_quotations s' = sales_quotations s
    \<and> (\<forall>qi. sc_quotation_id c = Some qi \<longrightarrow> is_ok (check_convertible s' qi))"
proof -
  let ?od = "empty_order c (next_number (year_prefix ''SO'' yr) (so_numbers s)) user now"
  let ?s = "sale_emit [Audit ''CREATE'' ''SalesOrder'' (sale_next s)]
    ((take_keys (1 + length (sc_items c)) s)\<lparr>sales_orders := add_row (sale_next s) ?od (sales_orders s)\<rparr>)"
  have "create_sales_order s c user now yr = (Inl e, ?s)"
    using assms by (simp add: create_sales_order_def Let_def)
  moreover have "is_ok (check_convertible ?s qi)" if "sc_quotation_id c = Some qi" for qi
  proof -
    from sales_order_checksD [OF assms(1) that] obtain q where "check_convertible s qi = Inr q" by blast
    moreover have "check_convertible ?s qi = check_convertible s qi" by (simp add: check_convertible_def)
    ultimately show ?thesis by simp
  qed
  ultimately show ?thesis
    by (intro exI [of _ ?s] exI [of _ ?od]) (simp add: empty_order_def next_number_new)
qed

definition bad_line :: sales_line where
  "bad_line = (sl_of 4)\<lparr>sl_product_id := 99\<rparr>"

lemma refused_order_leaves_draft_witness:
  "\<exists>s' od. create_sales_order sale1 (so_body None [bad_line]) (Some 7) 5 2026 = (Inl (NotFoundException ''Product''), s') \<and>
     sales_orders s' = [(200, od)] \<and> so_items od = []"
proof -
  have "sales_order_checks sale1 (so_body None [bad_line]) = Inr ()"
    by (simp add: sales_order_checks_def so_body_def demo_customer [simplified] and_then_def)
  moreover have "each (check_sale_line sale1) (sc_items (so_body None [bad_line])) = Inl (NotFoundException ''Product'')"
    by (simp add: so_body_def bad_line_def sl_of_def check_sale_line_def wms_stocked_def stk1_def run_stock)
  ultimately show ?thesis using refused_order_leaves_draft by (fastforce simp: add_row_def)
qed

text \<open>closing asks for no status and reopening approves: any order, rejected, cancelled or over the credit limit, is
  approved by two calls that check nothing.\<close>
theorem reopening_approves_anything:
  assumes "get (sales_orders s) i = Some od"
  shows "\<exists>s1 s2. close_sales_order s i = Inr s1 \<and> reopen_sales_order s1 i = Inr s2
    \<and> get (sales_orders s2) i = Some (od\<lparr>so_status := SoApproved\<rparr>)"
  using assms by (simp add: close_sales_order_def reopen_sales_order_def change_sales_order_def get_sales_order_def get_modify_eq)

lemma reopening_approves_anything_witness:
  "\<exists>s1 s2 od. close_sales_order (sold [sl_of 4]) 200 = Inr s1 \<and> reopen_sales_order s1 200 = Inr s2 \<and>
     get (sales_orders s2) 200 = Some od \<and> so_status od = SoApproved"
proof -
  obtain od where "get (sales_orders (sold [sl_of 4])) 200 = Some od" using sold_row by blast
  from reopening_approves_anything [OF this] show ?thesis by fastforce
qed

text \<open>a new order is discounted by its lines and by the best document rule in force; rewriting its lines drops the
  document discount.\<close>
theorem edited_order_loses_document_discount:
  assumes "sale_reachable s" and "update_sales_order s i u = Inr s'" and "sou_items u = Some ls"
  shows "\<exists>od. get (sales_orders s') i = Some od \<and> map si_discount_amount (so_items od) = map sale_discount ls
    \<and> so_discount od = sum_list (map si_discount_amount (so_items od))"
proof -
  from assms obtain od where "get (sales_orders s) i = Some od" by (auto simp: update_sales_order_def split: if_splits)
  with assms show ?thesis
    by (auto simp: update_sales_order_def get_modify_eq order_lines_def Let_def order_items_map split: if_splits)
qed

lemma edited_order_loses_document_discount_witness:
  "\<exists>s' od od'. get (sales_orders (sold [sl_of 20])) 200 = Some od \<and> so_discount od = 19 \<and>
     update_sales_order (sold [sl_of 20]) 200 \<lparr>sou_payment_terms = None, sou_shipping_id = None, sou_billing_id = None,
       sou_remarks = None, sou_items = Some [sl_of 20]\<rparr> = Inr s' \<and> get (sales_orders s') 200 = Some od' \<and> so_discount od' = 10"
proof -
  let ?u = "\<lparr>sou_payment_terms = None, sou_shipping_id = None, sou_billing_id = None, sou_remarks = None, sou_items = Some [sl_of 20]\<rparr>"
  have chk: "check_sale_line (sold [sl_of 20]) (sl_of 20) = Inr ()"
  proof -
    have d: "depot (sold [sl_of 20]) = depot sale1" by (simp add: run_sales)
    show ?thesis using sl_of_checked [of 20] unfolding check_sale_line_def d by simp
  qed
  have row: "\<exists>od. get (sales_orders (sold [sl_of 20])) 200 = Some od \<and> so_discount od = 19 \<and> so_status od = SoDraft"
    by (simp add: run_sales)
  then have "is_ok (update_sales_order (sold [sl_of 20]) 200 ?u)"
    by (auto simp: update_sales_order_def get_sales_order_def chk and_then_def)
  then obtain s' where s': "update_sales_order (sold [sl_of 20]) 200 ?u = Inr s'"
    by (cases "update_sales_order (sold [sl_of 20]) 200 ?u") auto
  from edited_order_loses_document_discount [OF sale_runs(1) s'] obtain od where "get (sales_orders s') 200 = Some od"
    "map si_discount_amount (so_items od) = [10]" "so_discount od = sum_list (map si_discount_amount (so_items od))"
    by (auto simp: sl_of_amounts)
  with row s' show ?thesis by auto
qed

text \<open>the document discount is the largest discount of a rule in force whose minimum value and quantity the document
  reaches, or zero, cut at the value of the document and rounded to cents.\<close>
theorem document_discount_is_best:
  shows "evaluate_document_discounts s now t q =
    round_dp 2 (min t (Max (insert 0 (rule_discount t `
      {r \<in> set (get_active_rules s now). dr_min_order_value r \<le> t \<and> dr_min_quantity r \<le> q}))))"
proof -
  let ?rs = "get_active_rules s now"
  note b = foldl_better [of 0 t q ?rs]
  let ?S = "{r \<in> set ?rs. dr_min_order_value r \<le> t \<and> dr_min_quantity r \<le> q}"
  let ?b = "foldl (better_discount t q) 0 ?rs"
  have "?b = 0 \<or> (\<exists>r\<in>?S. ?b = rule_discount t r)" using b by (metis (mono_tags, lifting) mem_Collect_eq)
  then have "?b \<in> insert 0 (rule_discount t ` ?S)" by blast
  with b have "Max (insert 0 (rule_discount t ` ?S)) = ?b" by (intro Max_eqI) auto
  then show ?thesis by (simp add: evaluate_document_discounts_def)
qed

section \<open>Returns\<close>

text \<open>approving a return always completes it, whether or not the goods were received: a return without lines, or one
  the warehouse refuses, ends up completed with no receipt.\<close>
theorem approved_return_completes:
  assumes "get (sales_returns s) i = Some r" and "sr_status r = SrDraft \<or> sr_status r = SrSubmitted"
  shows "\<exists>s' r'. approve_sales_return s i user now = Inr s' \<and> get (sales_returns s') i = Some r' \<and> sr_status r' = SrCompleted
    \<and> (sr_receipt_id r = None \<longrightarrow> sr_receipt_id r' = fst (receipt_for_return (depot s) r user now))
    \<and> depot s' = snd (receipt_for_return (depot s) r user now)"
  using assms by (auto simp: approve_sales_return_def put_sales_return_def get_modify_eq split: prod.splits option.splits)

text \<open>the invoice of an order delivered in part lists the delivered quantity with the total of the whole line.\<close>
theorem invoice_mixes_quantities:
  assumes "generate_invoice_payload s i now = Inr p" and "get (sales_orders s) i = Some od"
  shows "ip_total p = so_total od \<and> map iv_line_total (ip_items p) = map si_line_total (so_items od)
    \<and> map iv_quantity (ip_items p) = map (\<lambda>it. if oi_delivered it > 0 then oi_delivered it else si_quantity it) (so_items od)"
  using assms by (auto simp: generate_invoice_payload_def invoice_line_def split: if_splits)

end
