(* ===== verification/PayrollModel.thy ===== *)
theory PayrollModel
  imports HrModel PyDecimal
begin

text \<open>
  The rows of payroll: salary components and structures (\<^verbatim>\<open>src/app/models/salary_component.py\<close>,
  \<^verbatim>\<open>salary_structure.py\<close>), the compensation of an employee (\<^verbatim>\<open>employee_compensation.py\<close>), periods and records
  (\<^verbatim>\<open>payroll_period.py\<close>), runs and payslips (\<^verbatim>\<open>payroll_run.py\<close>, \<^verbatim>\<open>payslip.py\<close>), adjustments and closings
  (\<^verbatim>\<open>payroll_adjustment.py\<close>, \<^verbatim>\<open>payroll_closing.py\<close>), the payloads queued for the ledger, and countries,
  statutory rules and profiles (\<^verbatim>\<open>country.py\<close>, \<^verbatim>\<open>statutory_rule.py\<close>, \<^verbatim>\<open>employee_statutory_profile.py\<close>). The
  state holds the time and leave tables of \<open>hr\<close>, which payroll reads. Amounts are columns of two places.
\<close>

section \<open>Rows\<close>

record salary_component =
  sc_code :: string
  sc_name :: string
  sc_description :: "string option"
  sc_type :: string
  sc_method :: string
  sc_default :: decimal
  sc_percentage :: "decimal option"
  sc_taxable :: bool
  sc_pf :: bool
  sc_esi :: bool
  sc_is_active :: bool
  sc_order :: int
  sc_is_deleted :: bool

record salary_structure =
  st_code :: string
  st_name :: string
  st_description :: "string option"
  st_currency :: string
  st_is_active :: bool
  st_from :: date
  st_to :: "date option"
  st_is_deleted :: bool

record structure_component =
  stc_structure_id :: uuid
  stc_component_id :: uuid
  stc_order :: int
  stc_value :: decimal
  stc_override :: "string option"
  stc_is_active :: bool

datatype comp_status = CDraft | CActive | CExpired | CCancelled

record compensation =
  cmp_employee_id :: uuid
  cmp_structure_id :: uuid
  cmp_from :: date
  cmp_to :: "date option"
  cmp_annual_ctc :: decimal
  cmp_monthly_gross :: decimal
  cmp_monthly_net :: "decimal option"
  cmp_status :: comp_status
  cmp_revision :: nat
  cmp_previous :: "uuid option"
  cmp_remarks :: "string option"
  cmp_approved_by :: "uuid option"
  cmp_approved_at :: "timestamp option"
  cmp_is_deleted :: bool

datatype period_status = PpDraft | PpProcessing | PpCompleted | PpLocked | PpClosed | PpOpen | PpArchived

record payroll_period =
  pp_code :: string
  pp_start :: date
  pp_end :: date
  pp_status :: period_status

record record_component =
  rc_component_id :: uuid
  rc_name :: string
  rc_type :: string
  rc_amount :: decimal

datatype record_status = PrDraft | PrCalculated | PrApproved | PrPaid

record payroll_record =
  pr_period_id :: uuid
  pr_employee_id :: uuid
  pr_compensation_id :: uuid
  pr_working_days :: int
  pr_present_days :: decimal
  pr_leave_days :: decimal
  pr_paid_leave_days :: decimal
  pr_unpaid_leave_days :: decimal
  pr_overtime :: decimal
  pr_gross :: decimal
  pr_earnings :: decimal
  pr_deductions :: decimal
  pr_net :: decimal
  pr_status :: record_status
  pr_components :: "record_component list"

datatype run_status = RunDraft | RunProcessing | RunCompleted | RunLocked

record payroll_run =
  ru_period_id :: uuid
  ru_number :: string
  ru_type :: string
  ru_status :: run_status
  ru_started_by :: "uuid option"
  ru_started_at :: "timestamp option"
  ru_completed_at :: "timestamp option"
  ru_locked_at :: "timestamp option"
  ru_remarks :: "string option"

datatype slip_status = SlipDraft | SlipGenerated | SlipPublished

record payslip =
  slip_record_id :: uuid
  slip_number :: string
  slip_employee_id :: uuid
  slip_period_id :: uuid
  slip_gross :: decimal
  slip_earnings :: decimal
  slip_deductions :: decimal
  slip_net :: decimal
  slip_file_id :: uuid
  slip_generated_at :: timestamp
  slip_published_at :: "timestamp option"
  slip_status :: slip_status

datatype adjustment_status = AdPending | AdApproved | AdRejected | AdApplied

record payroll_adjustment =
  pa_employee_id :: uuid
  pa_period_id :: uuid
  pa_type :: string
  pa_amount :: decimal
  pa_currency :: string
  pa_description :: "string option"
  pa_status :: adjustment_status
  pa_approved_by :: "uuid option"
  pa_approved_at :: "timestamp option"

datatype closing_status = ClOpen | ClClosed | ClArchived

record payroll_closing =
  cl_period_id :: uuid
  cl_closed_by :: uuid
  cl_closed_at :: timestamp
  cl_reopened_by :: "uuid option"
  cl_reopened_at :: "timestamp option"
  cl_remarks :: "string option"
  cl_status :: closing_status

text \<open>The payload of a posting: its three amounts are floats.\<close>

record payroll_posting =
  po_period_id :: uuid
  po_period_name :: string
  po_debit_gross :: rat
  po_credit_deductions :: rat
  po_credit_net :: rat
  po_record_count :: nat

record country =
  cn_code :: string
  cn_name :: string
  cn_currency :: string
  cn_is_active :: bool

record statutory_rule =
  sr_code :: string
  sr_name :: string
  sr_country_id :: uuid
  sr_type :: string
  sr_method :: string
  sr_from :: date
  sr_to :: "date option"
  sr_is_active :: bool
  sr_priority :: int
  sr_description :: "string option"
  sr_is_deleted :: bool

record rule_slab =
  sl_rule_id :: uuid
  sl_min :: decimal
  sl_max :: "decimal option"
  sl_percentage :: decimal
  sl_fixed :: decimal
  sl_sequence :: int

record statutory_profile =
  sp_employee_id :: uuid
  sp_country_id :: uuid
  sp_pf :: bool
  sp_esi :: bool
  sp_professional_tax :: bool
  sp_income_tax :: bool
  sp_tax_number :: "string option"
  sp_pf_number :: "string option"
  sp_esi_number :: "string option"
  sp_from :: date
  sp_to :: "date option"
  sp_is_active :: bool

record pay =
  hrs :: hr
  salary_components :: "salary_component table"
  salary_structures :: "salary_structure table"
  structure_components :: "structure_component table"
  compensations :: "compensation table"
  payroll_periods :: "payroll_period table"
  payroll_records :: "payroll_record table"
  payroll_runs :: "payroll_run table"
  payslips :: "payslip table"
  pay_adjustments :: "payroll_adjustment table"
  closings :: "payroll_closing table"
  payroll_postings :: "payroll_posting table"
  countries :: "country table"
  statutory_rules :: "statutory_rule table"
  rule_slabs :: "rule_slab table"
  statutory_profiles :: "statutory_profile table"
  pay_next :: uuid
  pay_effects :: "effect list"

definition pay_emit :: "effect list \<Rightarrow> pay \<Rightarrow> pay" where
  "pay_emit es s = s\<lparr>pay_effects := pay_effects s @ es\<rparr>"

lemma pay_emit_frame [simp]:
  "hrs (pay_emit es s) = hrs s" "salary_components (pay_emit es s) = salary_components s"
  "salary_structures (pay_emit es s) = salary_structures s" "compensations (pay_emit es s) = compensations s"
  "payroll_periods (pay_emit es s) = payroll_periods s" "payroll_records (pay_emit es s) = payroll_records s"
  "payroll_runs (pay_emit es s) = payroll_runs s" "payslips (pay_emit es s) = payslips s"
  "pay_adjustments (pay_emit es s) = pay_adjustments s" "closings (pay_emit es s) = closings s"
  "payroll_postings (pay_emit es s) = payroll_postings s" "structure_components (pay_emit es s) = structure_components s"
  "countries (pay_emit es s) = countries s" "statutory_rules (pay_emit es s) = statutory_rules s"
  "rule_slabs (pay_emit es s) = rule_slabs s" "statutory_profiles (pay_emit es s) = statutory_profiles s" "pay_next (pay_emit es s) = pay_next s"
  by (simp_all add: pay_emit_def)

text \<open>Audit entries of these services are written only when a user is known.\<close>

definition audit_by :: "uuid option \<Rightarrow> string \<Rightarrow> string \<Rightarrow> uuid \<Rightarrow> effect list" where
  "audit_by user action entity i = (case user of None \<Rightarrow> [] | Some u \<Rightarrow> [Audit action entity i])"

section \<open>Queries\<close>

definition period_of :: "pay \<Rightarrow> uuid \<Rightarrow> payroll_period option" where
  "period_of s i = get (payroll_periods s) i"

text \<open>\<open>get_active_compensation\<close>: of the active ones the one that takes effect last.\<close>

definition active_compensations :: "compensation table \<Rightarrow> uuid \<Rightarrow> compensation table" where
  "active_compensations t e =
     filter (\<lambda>(k, c). cmp_employee_id c = e \<and> cmp_status c = CActive \<and> \<not> cmp_is_deleted c) t"

definition active_compensation :: "compensation table \<Rightarrow> uuid \<Rightarrow> (uuid \<times> compensation) option" where
  "active_compensation t e =
     (case sort_key (\<lambda>(k, c). - toordinal (cmp_from c)) (active_compensations t e) of [] \<Rightarrow> None | x # xs \<Rightarrow> Some x)"

definition records_of_period :: "payroll_record table \<Rightarrow> uuid \<Rightarrow> payroll_record table" where
  "records_of_period t p = filter (\<lambda>(k, r). pr_period_id r = p) t"

definition record_of :: "payroll_record table \<Rightarrow> uuid \<Rightarrow> uuid \<Rightarrow> (uuid \<times> payroll_record) option" where
  "record_of t p e = first_where (\<lambda>r. pr_period_id r = p \<and> pr_employee_id r = e) t"

definition closing_of :: "pay \<Rightarrow> uuid \<Rightarrow> (uuid \<times> payroll_closing) option" where
  "closing_of s p = first_where (\<lambda>c. cl_period_id c = p) (closings s)"

lemma active_compensation_Some:
  assumes "active_compensation t e = Some (k, c)"
  shows "(k, c) \<in> set t" and "cmp_employee_id c = e" and "cmp_status c = CActive" and "\<not> cmp_is_deleted c"
proof -
  from assms obtain xs where "sort_key (\<lambda>(k, c). - toordinal (cmp_from c)) (active_compensations t e) = (k, c) # xs"
    by (auto simp: active_compensation_def split: list.splits)
  then have "(k, c) \<in> set (active_compensations t e)" by (metis list.set_intros(1) set_sort)
  then show "(k, c) \<in> set t" "cmp_employee_id c = e" "cmp_status c = CActive" "\<not> cmp_is_deleted c"
    by (auto simp: active_compensations_def)
qed

lemma active_compensation_None:
  "active_compensation t e = None \<longleftrightarrow> active_compensations t e = []"
proof -
  have "sort_key (\<lambda>(k, c). - toordinal (cmp_from c)) (active_compensations t e) = [] \<longleftrightarrow> active_compensations t e = []"
    by (metis set_empty set_sort)
  then show ?thesis by (cases "sort_key (\<lambda>(k, c). - toordinal (cmp_from c)) (active_compensations t e)") (auto simp: active_compensation_def)
qed

end
