(* ===== verification/PayrollEngine.thy ===== *)
theory PayrollEngine
  imports PayrollModel
begin

text \<open>
  \<open>PayrollEngineService\<close> (\<^verbatim>\<open>src/app/services/payroll_engine.py\<close>): periods, the records generated for a period, and
  their approval. Amounts are computed as floats and stored in columns of two places. The loops over attendance
  and leaves read columns their models do not have, \<open>Attendance.status\<close> and \<open>LeaveRequest.leave_days\<close>, and raise at
  their first row. Generation commits the status \<open>Processing\<close> before it starts, so a failure leaves it: its
  outcome is a result and the database that is left.
\<close>

section \<open>Periods\<close>

definition create_payroll_period :: "pay \<Rightarrow> string \<Rightarrow> date \<Rightarrow> date \<Rightarrow> uuid option \<Rightarrow> (uuid \<times> pay) result" where
  "create_payroll_period s code from to user =
     (if exists_where (\<lambda>p. pp_code p = code) (payroll_periods s) then Inl (ApnaError ''DUPLICATE_PERIOD_CODE'')
      else if to < from then Inl (ApnaError ''INVALID_DATE_RANGE'')
      else Inr (pay_next s, pay_emit (Audit ''CREATE'' ''PayrollPeriod'' (pay_next s)
          # audit_by user ''PAYROLL_PERIOD_CREATE'' ''PayrollPeriod'' (pay_next s))
        (s\<lparr>payroll_periods := add_row (pay_next s)
             \<lparr>pp_code = code, pp_start = from, pp_end = to, pp_status = PpDraft\<rparr> (payroll_periods s),
           pay_next := pay_next s + 1\<rparr>)))"

definition set_period :: "uuid \<Rightarrow> period_status \<Rightarrow> pay \<Rightarrow> pay" where
  "set_period i st s = s\<lparr>payroll_periods := modify i (\<lambda>p. p\<lparr>pp_status := st\<rparr>) (payroll_periods s)\<rparr>"

lemma set_period_frame [simp]:
  "hrs (set_period i st s) = hrs s" "salary_components (set_period i st s) = salary_components s"
  "salary_structures (set_period i st s) = salary_structures s" "compensations (set_period i st s) = compensations s"
  "payroll_records (set_period i st s) = payroll_records s" "payroll_runs (set_period i st s) = payroll_runs s"
  "payslips (set_period i st s) = payslips s" "pay_adjustments (set_period i st s) = pay_adjustments s"
  "closings (set_period i st s) = closings s" "payroll_postings (set_period i st s) = payroll_postings s"
  "structure_components (set_period i st s) = structure_components s" "countries (set_period i st s) = countries s"
  "statutory_rules (set_period i st s) = statutory_rules s" "rule_slabs (set_period i st s) = rule_slabs s"
  "statutory_profiles (set_period i st s) = statutory_profiles s" "pay_next (set_period i st s) = pay_next s"
  by (simp_all add: set_period_def)

section \<open>Days\<close>

definition employee_attendance :: "pay \<Rightarrow> uuid \<Rightarrow> payroll_period \<Rightarrow> attendance table" where
  "employee_attendance s e p =
     filter (\<lambda>(k, a). at_employee_id a = e \<and> pp_start p \<le> at_date a \<and> at_date a \<le> pp_end p \<and> \<not> at_is_deleted a)
       (attendances (hrs s))"

definition employee_leaves :: "pay \<Rightarrow> uuid \<Rightarrow> payroll_period \<Rightarrow> leave_request table" where
  "employee_leaves s e p =
     filter (\<lambda>(k, l). lr_employee_id l = e \<and> lr_status l = LApproved \<and> lr_start l \<le> pp_end p \<and> pp_start p \<le> lr_end l
       \<and> \<not> lr_is_deleted l) (leave_requests (hrs s))"

fun count_present_days :: "attendance table \<Rightarrow> rat result" where
  "count_present_days [] = Inr 0"
| "count_present_days (a # as) = Inl (AttributeErr ''status'')"

text \<open>The paid and the unpaid days.\<close>

fun count_leave_days :: "leave_request table \<Rightarrow> (rat \<times> rat) result" where
  "count_leave_days [] = Inr (0, 0)"
| "count_leave_days (l # ls) = Inl (AttributeErr ''leave_days'')"

definition working_days :: "payroll_period \<Rightarrow> int" where
  "working_days p = date_diff_days (pp_end p) (pp_start p) + 1"

definition present_or_all :: "int \<Rightarrow> rat \<Rightarrow> rat \<Rightarrow> rat \<Rightarrow> rat" where
  "present_or_all working present paid unpaid =
     (if present = 0 \<and> paid = 0 \<and> unpaid = 0 then fl (of_int working) else present)"

definition proration_ratio :: "int \<Rightarrow> rat \<Rightarrow> rat \<Rightarrow> rat" where
  "proration_ratio working present paid =
     (if 0 < working then min 1 (max 0 (fl (fl (present + paid) / fl (of_int working)))) else 1)"

section \<open>Amounts\<close>

text \<open>The value of the structure if it has one, else the default of the component; a zero takes the percentage,
  and without one the whole monthly gross.\<close>

definition component_base :: "salary_component \<Rightarrow> decimal \<Rightarrow> rat \<Rightarrow> rat" where
  "component_base c v monthly_gross =
     (let base = fl (if 0 < v then v else sc_default c)
      in if base = 0 \<and> sc_method c = ''Percentage'' \<and> sc_percentage c \<noteq> None \<and> sc_percentage c \<noteq> Some 0
         then round2 (fl (monthly_gross * fl (fl (the (sc_percentage c)) / 100)))
         else if base = 0 then monthly_gross
         else base)"

text \<open>The lines of a structure: components that are not there, not active or deleted are skipped.\<close>

fun structure_lines ::
  "salary_component table \<Rightarrow> rat \<Rightarrow> rat \<Rightarrow> structure_component list \<Rightarrow> (uuid \<times> salary_component \<times> rat) list" where
  "structure_lines t monthly_gross ratio [] = []"
| "structure_lines t monthly_gross ratio (x # xs) =
     (case get t (stc_component_id x) of
        None \<Rightarrow> structure_lines t monthly_gross ratio xs
      | Some c \<Rightarrow>
        if \<not> sc_is_active c \<or> sc_is_deleted c then structure_lines t monthly_gross ratio xs
        else (stc_component_id x, c, round2 (fl (component_base c (stc_value x) monthly_gross * ratio)))
          # structure_lines t monthly_gross ratio xs)"

definition lines_total :: "string \<Rightarrow> (uuid \<times> salary_component \<times> rat) list \<Rightarrow> rat" where
  "lines_total ty ls = float_sum (map (\<lambda>(i, c, a). a) (filter (\<lambda>(i, c, a). sc_type c = ty) ls))"

definition record_lines :: "(nat \<Rightarrow> decimal \<Rightarrow> decimal) \<Rightarrow> (uuid \<times> salary_component \<times> rat) list \<Rightarrow> record_component list" where
  "record_lines rnd ls = map (\<lambda>(i, c, a). \<lparr>rc_component_id = i, rc_name = sc_name c, rc_type = sc_type c,
     rc_amount = stored rnd a\<rparr>) ls"

text \<open>The rows of the structure in the order of their positions, whether it is deleted or not.\<close>

definition structure_of :: "pay \<Rightarrow> compensation \<Rightarrow> structure_component list" where
  "structure_of s c =
     map snd (sort_key (\<lambda>(k, x). stc_order x)
       (filter (\<lambda>(k, x). stc_structure_id x = cmp_structure_id c) (structure_components s)))"

text \<open>The record of one employee. The columns of the days have five digits: more than \<open>999\<close> days overflow them.\<close>

definition employee_record ::
  "(nat \<Rightarrow> decimal \<Rightarrow> decimal) \<Rightarrow> uuid \<Rightarrow> payroll_period \<Rightarrow> uuid \<Rightarrow> uuid \<Rightarrow> compensation \<Rightarrow> pay \<Rightarrow> payroll_record result" where
  "employee_record rnd pid p e k c s =
     (case count_present_days (employee_attendance s e p) of
        Inl x \<Rightarrow> Inl x
      | Inr present0 \<Rightarrow>
        (case count_leave_days (employee_leaves s e p) of
           Inl x \<Rightarrow> Inl x
         | Inr (paid, unpaid) \<Rightarrow>
           let working = working_days p;
               present = present_or_all working present0 paid unpaid;
               ratio = proration_ratio working present paid;
               monthly_gross = fl (cmp_monthly_gross c);
               ls = structure_lines (salary_components s) monthly_gross ratio (structure_of s c);
               earned = lines_total ''Earning'' ls;
               deductions = lines_total ''Deduction'' ls;
               earnings = (if earned = 0 then round2 (fl (monthly_gross * ratio)) else earned);
               gross = round2 earnings;
               net = max 0 (round2 (fl (gross - deductions)))
           in if 1000 \<le> \<bar>stored rnd present\<bar> then Inl (OverflowErr ''present_days'')
              else Inr \<lparr>pr_period_id = pid, pr_employee_id = e, pr_compensation_id = k, pr_working_days = working,
                 pr_present_days = stored rnd present, pr_leave_days = stored rnd (fl (paid + unpaid)),
                 pr_paid_leave_days = stored rnd paid, pr_unpaid_leave_days = stored rnd unpaid, pr_overtime = 0,
                 pr_gross = stored rnd gross, pr_earnings = stored rnd earnings,
                 pr_deductions = stored rnd deductions, pr_net = stored rnd net, pr_status = PrCalculated,
                 pr_components = record_lines rnd ls\<rparr>))"

text \<open>The record replaces the one of the same period and employee; overtime is not written.\<close>

definition save_record :: "payroll_record \<Rightarrow> pay \<Rightarrow> pay" where
  "save_record r s =
     (case record_of (payroll_records s) (pr_period_id r) (pr_employee_id r) of
        None \<Rightarrow> s\<lparr>payroll_records := add_row (pay_next s) r (payroll_records s), pay_next := pay_next s + 1\<rparr>
      | Some (i, old) \<Rightarrow>
          s\<lparr>payroll_records := modify i (\<lambda>old. r\<lparr>pr_overtime := pr_overtime old\<rparr>) (payroll_records s)\<rparr>)"

definition pay_employee :: "(nat \<Rightarrow> decimal \<Rightarrow> decimal) \<Rightarrow> uuid \<Rightarrow> payroll_period \<Rightarrow> uuid \<Rightarrow> pay \<Rightarrow> pay result" where
  "pay_employee rnd pid p e s =
     (case active_compensation (compensations s) e of
        None \<Rightarrow> Inr s
      | Some (k, c) \<Rightarrow>
        (case employee_record rnd pid p e k c s of Inl x \<Rightarrow> Inl x | Inr r \<Rightarrow> Inr (save_record r s)))"

section \<open>Generation, approval and locking\<close>

definition live_employees :: "pay \<Rightarrow> uuid list" where
  "live_employees s = map fst (filter (\<lambda>(k, e). \<not> em_is_deleted e) (employees (hrs s)))"

definition generate_payroll :: "(nat \<Rightarrow> decimal \<Rightarrow> decimal) \<Rightarrow> pay \<Rightarrow> uuid \<Rightarrow> uuid option \<Rightarrow> unit result \<times> pay" where
  "generate_payroll rnd s pid user =
     (case period_of s pid of
        None \<Rightarrow> (Inl (ApnaError ''PERIOD_NOT_FOUND''), s)
      | Some p \<Rightarrow>
        if pp_status p = PpLocked then (Inl (ApnaError ''PERIOD_LOCKED''), s)
        else let s0 = set_period pid PpProcessing s
             in case fold_res (pay_employee rnd pid p) (live_employees s0) s0 of
                  Inl x \<Rightarrow> (Inl x, s0)
                | Inr s1 \<Rightarrow> (Inr (), pay_emit (audit_by user ''PAYROLL_GENERATE'' ''PayrollPeriod'' pid @ [Notify ''GENERATED'' pid])
                    (set_period pid PpCompleted s1)))"

definition approve_payroll :: "pay \<Rightarrow> uuid \<Rightarrow> uuid option \<Rightarrow> pay result" where
  "approve_payroll s pid user =
     (case period_of s pid of
        None \<Rightarrow> Inl (ApnaError ''PERIOD_NOT_FOUND'')
      | Some p \<Rightarrow>
        if pp_status p = PpLocked then Inl (ApnaError ''PERIOD_LOCKED'')
        else Inr (pay_emit (audit_by user ''PAYROLL_APPROVE'' ''PayrollPeriod'' pid @ [Notify ''APPROVED'' pid])
          (s\<lparr>payroll_records := map (\<lambda>(k, r). (k, if pr_period_id r = pid then r\<lparr>pr_status := PrApproved\<rparr> else r))
               (payroll_records s)\<rparr>)))"

definition lock_payroll_period :: "pay \<Rightarrow> uuid \<Rightarrow> uuid option \<Rightarrow> pay result" where
  "lock_payroll_period s pid user =
     (case period_of s pid of
        None \<Rightarrow> Inl (ApnaError ''PERIOD_NOT_FOUND'')
      | Some p \<Rightarrow> Inr (pay_emit (audit_by user ''PAYROLL_LOCK'' ''PayrollPeriod'' pid @ [Notify ''LOCKED'' pid])
          (set_period pid PpLocked s)))"

text \<open>Sums of floats. The rows of a period are read in the order they were created in.\<close>

record payroll_summary =
  sm_employees :: nat
  sm_gross :: rat
  sm_earnings :: rat
  sm_deductions :: rat
  sm_net :: rat
  sm_status :: period_status

definition get_payroll_summary :: "pay \<Rightarrow> uuid \<Rightarrow> payroll_summary result" where
  "get_payroll_summary s pid =
     (case period_of s pid of
        None \<Rightarrow> Inl (ApnaError ''PERIOD_NOT_FOUND'')
      | Some p \<Rightarrow>
        let rs = map snd (records_of_period (payroll_records s) pid)
        in Inr \<lparr>sm_employees = length rs, sm_gross = float_sum (map (\<lambda>r. fl (pr_gross r)) rs),
             sm_earnings = float_sum (map (\<lambda>r. fl (pr_earnings r)) rs),
             sm_deductions = float_sum (map (\<lambda>r. fl (pr_deductions r)) rs),
             sm_net = float_sum (map (\<lambda>r. fl (pr_net r)) rs), sm_status = pp_status p\<rparr>)"

end
