(* ===== verification/PayrollRuns.thy ===== *)
theory PayrollRuns
  imports PayrollEngine
begin

text \<open>
  \<open>PayrollRunService\<close> (\<^verbatim>\<open>src/app/services/payroll_run.py\<close>): runs and the payslips of a period. The file service is
  not under the model: \<open>upload\<close> gives the file of a record and whether it is new, in which case storing it
  commits the payslips made so far.
\<close>

section \<open>Runs\<close>

record run_create =
  rn_period_id :: uuid
  rn_type :: string
  rn_remarks :: "string option"

text \<open>The last part of the number is random; the column is unique and has fifty characters.\<close>

definition run_number_of :: "payroll_period \<Rightarrow> string \<Rightarrow> string \<Rightarrow> string" where
  "run_number_of p ty suffix = ''RUN-'' @ pp_code p @ ''-'' @ py_upper (take 3 ty) @ ''-'' @ suffix"

definition create_payroll_run :: "pay \<Rightarrow> run_create \<Rightarrow> string \<Rightarrow> (uuid \<times> pay) result" where
  "create_payroll_run s d suffix =
     (case period_of s (rn_period_id d) of
        None \<Rightarrow> Inl (NotFoundException ''PayrollPeriod'')
      | Some p \<Rightarrow>
        if exists_where (\<lambda>r. ru_period_id r = rn_period_id d \<and> ru_type r = rn_type d) (payroll_runs s)
          then Inl (DuplicateResourceException ''PayrollRun'')
        else let number = run_number_of p (rn_type d) suffix
             in if 50 < length number \<or> exists_where (\<lambda>r. ru_number r = number) (payroll_runs s)
                then Inl (IntegrityErr ''run_number'')
                else Inr (pay_next s, pay_emit [Audit ''PAYROLL_RUN_CREATE'' ''PayrollRun'' (pay_next s)]
                  (s\<lparr>payroll_runs := add_row (pay_next s)
                       \<lparr>ru_period_id = rn_period_id d, ru_number = number, ru_type = rn_type d, ru_status = RunDraft,
                        ru_started_by = None, ru_started_at = None, ru_completed_at = None, ru_locked_at = None,
                        ru_remarks = rn_remarks d\<rparr> (payroll_runs s),
                     pay_next := pay_next s + 1\<rparr>)))"

definition update_run :: "uuid \<Rightarrow> (payroll_run \<Rightarrow> payroll_run) \<Rightarrow> pay \<Rightarrow> pay" where
  "update_run i f s = s\<lparr>payroll_runs := modify i f (payroll_runs s)\<rparr>"

definition start_payroll_run :: "pay \<Rightarrow> uuid \<Rightarrow> uuid option \<Rightarrow> timestamp \<Rightarrow> pay result" where
  "start_payroll_run s i user now =
     (case get (payroll_runs s) i of
        None \<Rightarrow> Inl (NotFoundException ''PayrollRun'')
      | Some r \<Rightarrow>
        if ru_status r = RunLocked then Inl (ApnaError ''RUN_LOCKED'')
        else Inr (pay_emit [Audit ''PAYROLL_RUN_START'' ''PayrollRun'' i]
          (update_run i (\<lambda>r. r\<lparr>ru_status := RunProcessing, ru_started_at := Some now,
             ru_started_by := (case user of None \<Rightarrow> ru_started_by r | Some u \<Rightarrow> Some u)\<rparr>) s)))"

definition complete_payroll_run :: "pay \<Rightarrow> uuid \<Rightarrow> timestamp \<Rightarrow> pay result" where
  "complete_payroll_run s i now =
     (case get (payroll_runs s) i of
        None \<Rightarrow> Inl (NotFoundException ''PayrollRun'')
      | Some r \<Rightarrow>
        if ru_status r = RunLocked then Inl (ApnaError ''RUN_LOCKED'')
        else Inr (pay_emit [Notify ''COMPLETED'' i, Audit ''PAYROLL_RUN_COMPLETE'' ''PayrollRun'' i]
          (update_run i (\<lambda>r. r\<lparr>ru_status := RunCompleted, ru_completed_at := Some now\<rparr>) s)))"

definition lock_payroll_run :: "pay \<Rightarrow> uuid \<Rightarrow> timestamp \<Rightarrow> pay result" where
  "lock_payroll_run s i now =
     (case get (payroll_runs s) i of
        None \<Rightarrow> Inl (NotFoundException ''PayrollRun'')
      | Some r \<Rightarrow>
        if ru_status r \<noteq> RunCompleted then Inl (ValidationException ''Only Completed payroll runs can be locked'')
        else Inr (pay_emit [Notify ''LOCKED'' i, Audit ''PAYROLL_RUN_LOCK'' ''PayrollRun'' i]
          (update_run i (\<lambda>r. r\<lparr>ru_status := RunLocked, ru_locked_at := Some now\<rparr>) s)))"

section \<open>Payslips\<close>

definition payslip_number_of :: "payroll_period \<Rightarrow> employee \<Rightarrow> string" where
  "payslip_number_of p e = ''PS-'' @ pp_code p @ ''-'' @ em_code e"

definition slip_of :: "pay \<Rightarrow> uuid \<Rightarrow> (uuid \<times> payslip) option" where
  "slip_of s r = first_where (\<lambda>x. slip_record_id x = r) (payslips s)"

text \<open>The payslip of a record is written again or added; \<open>published_at\<close> stays.\<close>

definition save_payslip :: "uuid \<Rightarrow> payroll_record \<Rightarrow> string \<Rightarrow> uuid \<Rightarrow> timestamp \<Rightarrow> pay \<Rightarrow> pay" where
  "save_payslip rid r number file now s =
     (case slip_of s rid of
        Some (i, x) \<Rightarrow> s\<lparr>payslips := modify i (\<lambda>x. x\<lparr>slip_number := number, slip_gross := pr_gross r,
            slip_earnings := pr_earnings r, slip_deductions := pr_deductions r, slip_net := pr_net r, slip_file_id := file,
            slip_generated_at := now, slip_status := SlipGenerated\<rparr>) (payslips s)\<rparr>
      | None \<Rightarrow> s\<lparr>payslips := add_row (pay_next s)
            \<lparr>slip_record_id = rid, slip_number = number, slip_employee_id = pr_employee_id r, slip_period_id = pr_period_id r,
             slip_gross = pr_gross r, slip_earnings = pr_earnings r, slip_deductions = pr_deductions r, slip_net = pr_net r,
             slip_file_id = file, slip_generated_at = now, slip_published_at = None, slip_status = SlipGenerated\<rparr> (payslips s),
          pay_next := pay_next s + 1\<rparr>)"

text \<open>The number is unique and has fifty characters; a clash fails the next statement sent to the database, before
  anything else is committed.\<close>

definition slip_clash :: "uuid \<Rightarrow> string \<Rightarrow> pay \<Rightarrow> bool" where
  "slip_clash rid number s = (50 < length number \<or> exists_where (\<lambda>x. slip_number x = number \<and> slip_record_id x \<noteq> rid) (payslips s))"

fun payslip_loop ::
  "(uuid \<Rightarrow> uuid \<times> bool) \<Rightarrow> payroll_period \<Rightarrow> timestamp \<Rightarrow> payroll_record table \<Rightarrow> pay \<Rightarrow> pay \<Rightarrow> (exn \<times> pay) + pay" where
  "payslip_loop upload p now [] committed s = Inr s"
| "payslip_loop upload p now ((rid, r) # rs) committed s =
     (case get (employees (hrs s)) (pr_employee_id r) of
        None \<Rightarrow> payslip_loop upload p now rs committed s
      | Some e \<Rightarrow>
        let number = payslip_number_of p e; (file, fresh) = upload rid;
            committed = (if fresh then s else committed)
        in if slip_clash rid number s then Inl (IntegrityErr ''payslip_number'', committed)
           else payslip_loop upload p now rs committed (save_payslip rid r number file now s))"

definition generate_payslips :: "(uuid \<Rightarrow> uuid \<times> bool) \<Rightarrow> pay \<Rightarrow> uuid \<Rightarrow> timestamp \<Rightarrow> unit result \<times> pay" where
  "generate_payslips upload s i now =
     (case get (payroll_runs s) i of
        None \<Rightarrow> (Inl (NotFoundException ''PayrollRun''), s)
      | Some run \<Rightarrow>
        if ru_status run = RunLocked then (Inl (ApnaError ''RUN_LOCKED''), s)
        else (case period_of s (ru_period_id run) of
            None \<Rightarrow> (Inl (AttributeErr ''id''), s)
          | Some p \<Rightarrow>
            let rs = records_of_period (payroll_records s) (ru_period_id run)
            in if rs = [] then (Inl (ValidationException ''No generated payroll records found''), s)
               else (case payslip_loop upload p now rs s s of
                   Inl (x, left) \<Rightarrow> (Inl x, left)
                 | Inr s' \<Rightarrow> (Inr (), pay_emit [Audit ''PAYSLIP_GENERATE'' ''PayrollRun'' i] s'))))"

definition publish_payslips :: "pay \<Rightarrow> uuid \<Rightarrow> timestamp \<Rightarrow> pay result" where
  "publish_payslips s i now =
     (case get (payroll_runs s) i of
        None \<Rightarrow> Inl (NotFoundException ''PayrollRun'')
      | Some run \<Rightarrow>
        if ru_status run = RunLocked then Inl (ApnaError ''RUN_LOCKED'')
        else if \<not> exists_where (\<lambda>x. slip_period_id x = ru_period_id run) (payslips s)
          then Inl (ValidationException ''No payslips generated for this run yet'')
        else Inr (pay_emit [Notify ''PUBLISHED'' i, Audit ''PAYSLIP_PUBLISH'' ''PayrollRun'' i]
          (s\<lparr>payslips := map (\<lambda>(k, x). (k, if slip_period_id x = ru_period_id run
               then x\<lparr>slip_status := SlipPublished, slip_published_at := Some now\<rparr> else x)) (payslips s)\<rparr>)))"

text \<open>It does not look for payslips that failed: all are generated again.\<close>

definition regenerate_failed_payslips :: "(uuid \<Rightarrow> uuid \<times> bool) \<Rightarrow> pay \<Rightarrow> uuid \<Rightarrow> timestamp \<Rightarrow> unit result \<times> pay" where
  "regenerate_failed_payslips upload s i now = generate_payslips upload s i now"

section \<open>Payslips hold the amounts of the records\<close>

definition slip_shows :: "payslip \<Rightarrow> payroll_record \<Rightarrow> bool" where
  "slip_shows x r = (slip_gross x = pr_gross r \<and> slip_earnings x = pr_earnings r \<and> slip_deductions x = pr_deductions r
     \<and> slip_net x = pr_net r)"

definition wf_slips :: "pay \<Rightarrow> bool" where
  "wf_slips s = (wf_table (pay_next s) (payslips s) \<and> unique_on slip_record_id (payslips s) \<and> unique_on slip_number (payslips s))"

lemma save_payslip_frame [simp]:
  "hrs (save_payslip rid r n f now s) = hrs s" "payroll_records (save_payslip rid r n f now s) = payroll_records s"
  "payroll_runs (save_payslip rid r n f now s) = payroll_runs s" "payroll_periods (save_payslip rid r n f now s) = payroll_periods s"
  "closings (save_payslip rid r n f now s) = closings s" "pay_adjustments (save_payslip rid r n f now s) = pay_adjustments s"
  "compensations (save_payslip rid r n f now s) = compensations s" "salary_components (save_payslip rid r n f now s) = salary_components s"
  "salary_structures (save_payslip rid r n f now s) = salary_structures s" "payroll_postings (save_payslip rid r n f now s) = payroll_postings s"
  "pay_effects (save_payslip rid r n f now s) = pay_effects s" "pay_next s \<le> pay_next (save_payslip rid r n f now s)"
  by (simp_all add: save_payslip_def split: option.splits prod.splits)

lemma unique_on_change:
  assumes "distinct (keys t)" and "unique_on f t" and "get t i = Some r" and "\<not> exists_where (\<lambda>x. f x = f (g r) \<and> h x \<noteq> h r) t"
    and "unique_on h t"
  shows "unique_on f (modify i g t)"
  using assms
proof (induction t)
  case (Cons x t)
  obtain k q where x: "x = (k, q)" by force
  have e: "exists_where P ((k, q) # t) = (P q \<or> exists_where P t)" for P by (simp add: exists_where_def)
  show ?case
  proof (cases "k = i")
    case True
    with Cons.prems x have m: "modify i g (x # t) = (k, g q) # t" "q = r"
      by (simp_all add: keys_def get_def modify_absent [OF get_None_fresh, unfolded modify_def] modify_def)
    have "f (g r) \<noteq> f y" if "(j, y) \<in> set t" for j y
    proof
      assume "f (g r) = f y"
      moreover have "h y \<noteq> h r" using Cons.prems(5) that x m(2) by (force simp: unique_on_def)
      ultimately show False using Cons.prems(4) that by (force simp: exists_where_iff x)
    qed
    with Cons.prems x m show ?thesis by (force simp: unique_on_def)
  next
    case False
    with Cons x have IH: "unique_on f (modify i g t)" by (simp add: get_def keys_def e unique_on_def)
    have r: "get t i = Some r" using Cons.prems(3) False x by (simp add: get_def)
    have "f q \<noteq> f y" if "(j, y) \<in> set (modify i g t)" for j y
    proof (cases "j = i")
      case True
      have "distinct (keys t)" using Cons.prems(1) x by (simp add: keys_def)
      from in_set_get [OF this] that r True have "y = g r" by (force simp: modify_def)
      moreover have "h q \<noteq> h r" using Cons.prems(5) get_in_set [OF r] x by (force simp: unique_on_def)
      ultimately show ?thesis using Cons.prems(4) by (auto simp: x e)
    next
      case False
      with that have "(j, y) \<in> set t" by (auto simp: modify_def)
      with Cons.prems(2) x show ?thesis by (force simp: unique_on_def)
    qed
    with IH x False show ?thesis by (force simp: unique_on_def modify_def)
  qed
qed (simp add: get_def)

lemma save_payslip_wf:
  assumes wf: "wf_slips s" and clash: "\<not> slip_clash rid n s"
  shows "wf_slips (save_payslip rid r n f now s)"
    and "\<exists>i x. slip_of (save_payslip rid r n f now s) rid = Some (i, x) \<and> slip_shows x r"
    and "rid' \<noteq> rid \<Longrightarrow> slip_of (save_payslip rid r n f now s) rid' = slip_of s rid'"
proof -
  have d: "distinct (keys (payslips s))" using wf wf_table_distinct by (auto simp: wf_slips_def)
  have "wf_slips (save_payslip rid r n f now s)
    \<and> (\<exists>i x. slip_of (save_payslip rid r n f now s) rid = Some (i, x) \<and> slip_shows x r)
    \<and> (rid' \<noteq> rid \<longrightarrow> slip_of (save_payslip rid r n f now s) rid' = slip_of s rid')"
  proof (cases "slip_of s rid")
    case None
    with clash wf have "first_where (\<lambda>x. slip_number x = n) (payslips s) = None"
      by (auto simp: slip_clash_def slip_of_def first_where_None exists_where_iff)
    with None wf show ?thesis
      by (auto simp: save_payslip_def wf_slips_def slip_of_def unique_on_add_row first_where_add_row slip_shows_def
          intro!: wf_table_add_row [OF _ le_refl] split: option.splits)
  next
    case (Some y)
    then obtain i x where y: "slip_of s rid = Some (i, x)" by (cases y) auto
    from first_where_row [OF d this [unfolded slip_of_def]] have x: "get (payslips s) i = Some x" "slip_record_id x = rid" by simp_all
    let ?g = "\<lambda>x. x\<lparr>slip_number := n, slip_gross := pr_gross r, slip_earnings := pr_earnings r,
       slip_deductions := pr_deductions r, slip_net := pr_net r, slip_file_id := f, slip_generated_at := now, slip_status := SlipGenerated\<rparr>"
    have s': "payslips (save_payslip rid r n f now s) = modify i ?g (payslips s)" "pay_next (save_payslip rid r n f now s) = pay_next s"
      by (simp_all add: save_payslip_def y)
    have "unique_on slip_record_id (modify i ?g (payslips s))" using wf by (simp add: unique_on_modify wf_slips_def)
    moreover have "unique_on slip_number (modify i ?g (payslips s))"
      using wf clash x(2) by (intro unique_on_change [OF d _ x(1), where h = slip_record_id])
        (auto simp: wf_slips_def slip_clash_def exists_where_iff)
    moreover have "slip_of (save_payslip rid r n f now s) rid = Some (i, ?g x)"
      using first_where_replace [OF d y [unfolded slip_of_def], of ?g] x(2) by (simp add: slip_of_def s')
    moreover have "slip_of (save_payslip rid r n f now s) rid' = slip_of s rid'" if "rid' \<noteq> rid"
      using first_where_other [OF d x(1), of _ ?g] x(2) that by (simp add: slip_of_def s')
    ultimately show ?thesis using wf by (simp add: wf_slips_def s' wf_table_modify slip_shows_def)
  qed
  then show "wf_slips (save_payslip rid r n f now s)"
    "\<exists>i x. slip_of (save_payslip rid r n f now s) rid = Some (i, x) \<and> slip_shows x r"
    "rid' \<noteq> rid \<Longrightarrow> slip_of (save_payslip rid r n f now s) rid' = slip_of s rid'" by auto
qed

text \<open>What every payslip keeps holds after the loop, also when it fails half-way.\<close>

lemma payslip_loop_invariant:
  assumes "\<And>rid r n f s. (rid, r) \<in> set rs \<Longrightarrow> I s \<Longrightarrow> \<not> slip_clash rid n s \<Longrightarrow> I (save_payslip rid r n f now s)"
    and "I c" and "I s"
  shows "case payslip_loop upload p now rs c s of Inl (x, l) \<Rightarrow> I l | Inr s' \<Rightarrow> I s'"
  using assms
proof (induction upload p now rs c s rule: payslip_loop.induct)
  case (2 upload p now rid r rs c s)
  show ?case
  proof (cases "get (employees (hrs s)) (pr_employee_id r)")
    case None
    with 2 show ?thesis by auto
  next
    case (Some e)
    obtain f fresh where u: "upload rid = (f, fresh)" by force
    let ?c = "if fresh then s else c"
    have "I ?c" using "2.prems" by simp
    then show ?thesis
      using "2.IH"(2) [OF Some refl u [symmetric] refl refl] "2.prems" Some u by (auto simp: Let_def)
  qed
qed simp

lemma payslip_loop_frame:
  "case payslip_loop upload p now rs s s of
     Inl (x, l) \<Rightarrow> \<exists>t n. l = s\<lparr>payslips := t, pay_next := n\<rparr> \<and> pay_next s \<le> n
   | Inr s' \<Rightarrow> \<exists>t n. s' = s\<lparr>payslips := t, pay_next := n\<rparr> \<and> pay_next s \<le> n"
proof (rule payslip_loop_invariant [where I = "\<lambda>s'. \<exists>t n. s' = s\<lparr>payslips := t, pay_next := n\<rparr> \<and> pay_next s \<le> n"])
  fix rid r n f s' assume "\<exists>t k. s' = s\<lparr>payslips := t, pay_next := k\<rparr> \<and> pay_next s \<le> k"
  then obtain t k where s': "s' = s\<lparr>payslips := t, pay_next := k\<rparr>" "pay_next s \<le> k" by blast
  let ?s = "save_payslip rid r n f now s'"
  have "?s = s\<lparr>payslips := payslips ?s, pay_next := pay_next ?s\<rparr>" "pay_next s' \<le> pay_next ?s"
    by (auto simp: save_payslip_def s' split: option.splits)
  with s' show "\<exists>t k. ?s = s\<lparr>payslips := t, pay_next := k\<rparr> \<and> pay_next s \<le> k"
    by (intro exI [of _ "payslips ?s"] exI [of _ "pay_next ?s"]) simp
next
  have "s = s\<lparr>payslips := payslips s, pay_next := pay_next s\<rparr>" by simp
  then show "\<exists>t n. s = s\<lparr>payslips := t, pay_next := n\<rparr> \<and> pay_next s \<le> n" by blast
  then show "\<exists>t n. s = s\<lparr>payslips := t, pay_next := n\<rparr> \<and> pay_next s \<le> n" .
qed

text \<open>After a loop that ends, the payslip of every record shows its amounts.\<close>

lemma payslip_loop_shows:
  assumes "payslip_loop upload p now rs c s = Inr s'" and "wf_slips s" and "distinct (keys rs)"
  shows "wf_slips s'"
    and "(rid \<notin> set (keys rs) \<longrightarrow> slip_of s' rid = slip_of s rid) \<and>
      ((rid, r) \<in> set rs \<longrightarrow> get (employees (hrs s)) (pr_employee_id r) \<noteq> None \<longrightarrow>
        (\<exists>i x. slip_of s' rid = Some (i, x) \<and> slip_shows x r))"
proof -
  have "wf_slips s' \<and> (\<forall>rid r. (rid \<notin> set (keys rs) \<longrightarrow> slip_of s' rid = slip_of s rid) \<and>
      ((rid, r) \<in> set rs \<longrightarrow> get (employees (hrs s)) (pr_employee_id r) \<noteq> None \<longrightarrow>
        (\<exists>i x. slip_of s' rid = Some (i, x) \<and> slip_shows x r)))"
    using assms
  proof (induction upload p now rs c s rule: payslip_loop.induct)
    case (2 upload p now rid0 r0 rs c s)
    have fresh: "rid0 \<notin> set (keys rs)" "distinct (keys rs)" using "2.prems"(3) by (simp_all add: keys_def)
    show ?case
    proof (cases "get (employees (hrs s)) (pr_employee_id r0)")
      case None
      with 2 fresh show ?thesis by (auto simp: keys_def)
    next
      case (Some e)
      obtain f new where u: "upload rid0 = (f, new)" by force
      let ?n = "payslip_number_of p e" and ?c = "if new then s else c"
      let ?s = "save_payslip rid0 r0 (payslip_number_of p e) f now s"
      from "2.prems"(1) Some u have ok: "\<not> slip_clash rid0 ?n s" "payslip_loop upload p now rs ?c ?s = Inr s'"
        by (simp_all add: Let_def split: if_splits)
      note saved = save_payslip_wf [OF "2.prems"(2) ok(1), where r = r0 and f = f and now = now]
      have IH: "wf_slips s'" "\<And>rid. rid \<notin> set (keys rs) \<Longrightarrow> slip_of s' rid = slip_of ?s rid"
        "\<And>rid r. (rid, r) \<in> set rs \<Longrightarrow> get (employees (hrs s)) (pr_employee_id r) \<noteq> None \<Longrightarrow>
          \<exists>i x. slip_of s' rid = Some (i, x) \<and> slip_shows x r"
        using "2.IH"(2) [OF Some refl refl u [symmetric] refl ok(1) ok(2) saved(1) fresh(2)] by simp_all
      have "slip_of s' rid = slip_of s rid" if "rid \<notin> set (keys ((rid0, r0) # rs))" for rid
        using that IH(2) saved(3) by (simp add: keys_def)
      moreover have "\<exists>i x. slip_of s' rid = Some (i, x) \<and> slip_shows x r"
        if "(rid, r) \<in> set ((rid0, r0) # rs)" "get (employees (hrs s)) (pr_employee_id r) \<noteq> None" for rid r
        using that IH(2) [OF fresh(1)] IH(3) saved(2) by auto
      ultimately show ?thesis using IH(1) by blast
    qed
  qed simp
  then show "wf_slips s'" "(rid \<notin> set (keys rs) \<longrightarrow> slip_of s' rid = slip_of s rid) \<and>
      ((rid, r) \<in> set rs \<longrightarrow> get (employees (hrs s)) (pr_employee_id r) \<noteq> None \<longrightarrow>
        (\<exists>i x. slip_of s' rid = Some (i, x) \<and> slip_shows x r))" by blast+
qed

end
