(* ===== verification/PayrollClosing.thy ===== *)
theory PayrollClosing
  imports PayrollRuns
begin

text \<open>
  \<open>PayrollAdjustmentService\<close>, \<open>PayrollClosingService\<close> and \<open>FinancialIntegrationService\<close>
  (\<^verbatim>\<open>src/app/services/payroll_finalization_services.py\<close>): adjustments, which nothing in payroll reads, closing, and
  the payload queued for the ledger. \<open>NotFoundException(entity_type=...)\<close> is not a call the class accepts and
  raises a \<open>TypeError\<close>, and \<open>Enum\<close> is not imported, so that a status in an update raises a \<open>NameError\<close>.
\<close>

section \<open>Adjustments\<close>

definition period_closed :: "pay \<Rightarrow> uuid \<Rightarrow> bool" where
  "period_closed s p = (case closing_of s p of None \<Rightarrow> False | Some (i, c) \<Rightarrow> cl_status c \<in> {ClClosed, ClArchived})"

record payroll_adjustment_create =
  pj_employee_id :: uuid
  pj_period_id :: uuid
  pj_type :: string
  pj_amount :: decimal
  pj_currency :: string
  pj_description :: "string option"

definition create_adjustment :: "(nat \<Rightarrow> decimal \<Rightarrow> decimal) \<Rightarrow> pay \<Rightarrow> payroll_adjustment_create \<Rightarrow> uuid option \<Rightarrow> (uuid \<times> pay) result" where
  "create_adjustment rnd s d user =
     (if period_closed s (pj_period_id d) then Inl (ValidationException ''Payroll period is immutable'')
      else if period_of s (pj_period_id d) = None then Inl (NotFoundException ''PayrollPeriod'')
      else if get (employees (hrs s)) (pj_employee_id d) = None then Inl (NotFoundException ''Employee'')
      else Inr (pay_next s, pay_emit (Audit ''CREATE'' ''PayrollAdjustment'' (pay_next s)
          # audit_by user ''PAYROLL_ADJUSTMENT_CREATE'' ''PayrollAdjustment'' (pay_next s)
          @ [Notify ''PAYROLL_ADJUSTMENT_CREATED'' (pay_next s)])
        (s\<lparr>pay_adjustments := add_row (pay_next s)
             \<lparr>pa_employee_id = pj_employee_id d, pa_period_id = pj_period_id d, pa_type = pj_type d,
              pa_amount = rnd 2 (pj_amount d), pa_currency = pj_currency d, pa_description = pj_description d,
              pa_status = AdPending, pa_approved_by = None, pa_approved_at = None\<rparr> (pay_adjustments s),
           pay_next := pay_next s + 1\<rparr>)))"

text \<open>Fields that are given; an amount or a currency may be given as null, which its column refuses.\<close>

record adjustment_update =
  au_amount :: "decimal option option"
  au_currency :: "string option option"
  au_description :: "string option option"
  au_status :: "adjustment_status option option"

definition set_adjustment :: "uuid \<Rightarrow> (payroll_adjustment \<Rightarrow> payroll_adjustment) \<Rightarrow> pay \<Rightarrow> pay" where
  "set_adjustment i f s = s\<lparr>pay_adjustments := modify i f (pay_adjustments s)\<rparr>"

definition update_adjustment :: "(nat \<Rightarrow> decimal \<Rightarrow> decimal) \<Rightarrow> pay \<Rightarrow> uuid \<Rightarrow> adjustment_update \<Rightarrow> uuid option \<Rightarrow> pay result" where
  "update_adjustment rnd s i d user =
     (case get (pay_adjustments s) i of
        None \<Rightarrow> Inl (NotFoundException ''PayrollAdjustment'')
      | Some a \<Rightarrow>
        if period_closed s (pa_period_id a) then Inl (ValidationException ''Payroll period is immutable'')
        else if au_status d \<noteq> None then Inl (NameErr ''Enum'')
        else if au_amount d = Some None \<or> au_currency d = Some None then Inl (IntegrityErr ''payroll_adjustments'')
        else Inr (pay_emit (Audit ''UPDATE'' ''PayrollAdjustment'' i
            # audit_by user ''PAYROLL_ADJUSTMENT_UPDATE'' ''PayrollAdjustment'' i)
          (set_adjustment i (\<lambda>a. a\<lparr>
             pa_amount := (case au_amount d of Some (Some x) \<Rightarrow> rnd 2 x | _ \<Rightarrow> pa_amount a),
             pa_currency := (case au_currency d of Some (Some x) \<Rightarrow> x | _ \<Rightarrow> pa_currency a),
             pa_description := (case au_description d of None \<Rightarrow> pa_description a | Some x \<Rightarrow> x)\<rparr>) s)))"

definition approve_adjustment :: "pay \<Rightarrow> uuid \<Rightarrow> uuid \<Rightarrow> timestamp \<Rightarrow> pay result" where
  "approve_adjustment s i user now =
     (case get (pay_adjustments s) i of
        None \<Rightarrow> Inl (NotFoundException ''PayrollAdjustment'')
      | Some a \<Rightarrow>
        if period_closed s (pa_period_id a) then Inl (ValidationException ''Payroll period is immutable'')
        else if pa_status a = AdApproved then Inr s
        else Inr (pay_emit [Audit ''PAYROLL_ADJUSTMENT_APPROVE'' ''PayrollAdjustment'' i, Notify ''PAYROLL_ADJUSTMENT_APPROVED'' i]
          (set_adjustment i (\<lambda>a. a\<lparr>pa_status := AdApproved, pa_approved_by := Some user, pa_approved_at := Some now\<rparr>) s)))"

definition reject_adjustment :: "pay \<Rightarrow> uuid \<Rightarrow> pay result" where
  "reject_adjustment s i =
     (case get (pay_adjustments s) i of
        None \<Rightarrow> Inl (NotFoundException ''PayrollAdjustment'')
      | Some a \<Rightarrow>
        if period_closed s (pa_period_id a) then Inl (ValidationException ''Payroll period is immutable'')
        else Inr (pay_emit [Audit ''PAYROLL_ADJUSTMENT_REJECT'' ''PayrollAdjustment'' i]
          (set_adjustment i (\<lambda>a. a\<lparr>pa_status := AdRejected\<rparr>) s)))"

definition delete_adjustment :: "pay \<Rightarrow> uuid \<Rightarrow> uuid option \<Rightarrow> pay result" where
  "delete_adjustment s i user =
     (case get (pay_adjustments s) i of
        None \<Rightarrow> Inl (NotFoundException ''PayrollAdjustment'')
      | Some a \<Rightarrow>
        if period_closed s (pa_period_id a) then Inl (ValidationException ''Payroll period is immutable'')
        else Inr (pay_emit (Audit ''DELETE'' ''PayrollAdjustment'' i
            # audit_by user ''PAYROLL_ADJUSTMENT_DELETE'' ''PayrollAdjustment'' i)
          (s\<lparr>pay_adjustments := remove_row i (pay_adjustments s)\<rparr>)))"

section \<open>Closing\<close>

definition payroll_executed :: "pay \<Rightarrow> uuid \<Rightarrow> bool" where
  "payroll_executed s p = exists_where (\<lambda>r. ru_period_id r = p \<and> ru_status r \<in> {RunCompleted, RunLocked}) (payroll_runs s)"

definition close_payroll :: "pay \<Rightarrow> uuid \<Rightarrow> string option \<Rightarrow> uuid \<Rightarrow> timestamp \<Rightarrow> pay result" where
  "close_payroll s p remarks user now =
     (case period_of s p of
        None \<Rightarrow> Inl (TypeErr ''entity_type'')
      | Some q \<Rightarrow>
        if period_closed s p then Inl (ValidationException ''Payroll period is already closed'')
        else if \<not> payroll_executed s p
          then Inl (ValidationException ''Payroll period cannot be closed until payroll execution is completed'')
        else (case closing_of s p of
            Some (i, c) \<Rightarrow> Inr (pay_emit [Audit ''UPDATE'' ''PayrollClosing'' i, Audit ''PAYROLL_PERIOD_CLOSE'' ''PayrollClosing'' i,
                Notify ''PAYROLL_PERIOD_CLOSED'' p]
              (set_period p PpClosed (s\<lparr>closings := modify i (\<lambda>c. c\<lparr>cl_status := ClClosed, cl_closed_by := user,
                 cl_closed_at := now, cl_remarks := remarks\<rparr>) (closings s)\<rparr>)))
          | None \<Rightarrow> Inr (pay_emit [Audit ''CREATE'' ''PayrollClosing'' (pay_next s),
                Audit ''PAYROLL_PERIOD_CLOSE'' ''PayrollClosing'' (pay_next s), Notify ''PAYROLL_PERIOD_CLOSED'' p]
              (set_period p PpClosed (s\<lparr>closings := add_row (pay_next s)
                 \<lparr>cl_period_id = p, cl_closed_by = user, cl_closed_at = now, cl_reopened_by = None, cl_reopened_at = None,
                  cl_remarks = remarks, cl_status = ClClosed\<rparr> (closings s), pay_next := pay_next s + 1\<rparr>)))))"

definition reopen_payroll :: "pay \<Rightarrow> uuid \<Rightarrow> uuid \<Rightarrow> timestamp \<Rightarrow> pay result" where
  "reopen_payroll s p user now =
     (case period_of s p of
        None \<Rightarrow> Inl (TypeErr ''entity_type'')
      | Some q \<Rightarrow>
        (case closing_of s p of
           None \<Rightarrow> Inl (ValidationException ''Only closed payroll periods can be reopened'')
         | Some (i, c) \<Rightarrow>
           if cl_status c \<noteq> ClClosed then Inl (ValidationException ''Only closed payroll periods can be reopened'')
           else Inr (pay_emit [Audit ''PAYROLL_PERIOD_REOPEN'' ''PayrollClosing'' i, Notify ''PAYROLL_PERIOD_REOPENED'' p]
             (set_period p PpOpen (s\<lparr>closings := modify i (\<lambda>c. c\<lparr>cl_status := ClOpen, cl_reopened_by := Some user,
                cl_reopened_at := Some now\<rparr>) (closings s)\<rparr>)))))"

definition archive_payroll :: "pay \<Rightarrow> uuid \<Rightarrow> pay result" where
  "archive_payroll s p =
     (case period_of s p of
        None \<Rightarrow> Inl (TypeErr ''entity_type'')
      | Some q \<Rightarrow>
        (case closing_of s p of
           None \<Rightarrow> Inl (ValidationException ''Only closed payroll periods can be archived'')
         | Some (i, c) \<Rightarrow>
           if cl_status c \<noteq> ClClosed then Inl (ValidationException ''Only closed payroll periods can be archived'')
           else Inr (pay_emit [Audit ''PAYROLL_PERIOD_ARCHIVE'' ''PayrollClosing'' i]
             (set_period p PpArchived (s\<lparr>closings := modify i (\<lambda>c. c\<lparr>cl_status := ClArchived\<rparr>) (closings s)\<rparr>)))))"

section \<open>The payload for the ledger\<close>

definition publish_financial_payload :: "pay \<Rightarrow> uuid \<Rightarrow> (uuid \<times> pay) result" where
  "publish_financial_payload s p =
     (case period_of s p of
        None \<Rightarrow> Inl (TypeErr ''entity_type'')
      | Some q \<Rightarrow>
        let rs = map snd (records_of_period (payroll_records s) p)
        in if rs = [] then Inl (ValidationException ''Cannot publish financial payload for an unexecuted payroll period'')
           else Inr (pay_next s, pay_emit [Audit ''CREATE'' ''FinancialPostingQueue'' (pay_next s),
               Audit ''PAYROLL_FINANCIAL_PUBLISH'' ''FinancialPostingQueue'' (pay_next s),
               Notify ''PAYROLL_FINANCIAL_PAYLOAD_PUBLISHED'' (pay_next s)]
             (s\<lparr>payroll_postings := add_row (pay_next s)
                  \<lparr>po_period_id = p, po_period_name = pp_code q, po_debit_gross = fl (sum_list (map pr_gross rs)),
                   po_credit_deductions = fl (sum_list (map pr_deductions rs)), po_credit_net = fl (sum_list (map pr_net rs)),
                   po_record_count = length rs\<rparr> (payroll_postings s),
                pay_next := pay_next s + 1\<rparr>)))"

text \<open>A record pays the difference, or nothing when the deductions exceed the earnings; the payload balances exactly
  when no record is of the second kind.\<close>

definition pays_difference :: "payroll_record \<Rightarrow> bool" where
  "pays_difference r = (0 \<le> pr_gross r \<and> 0 \<le> pr_deductions r \<and> pr_net r = max 0 (pr_gross r - pr_deductions r))"

lemma payload_gap:
  assumes "list_all pays_difference rs"
  shows "sum_list (map pr_gross rs) \<le> sum_list (map pr_deductions rs) + sum_list (map pr_net rs)"
    and "sum_list (map pr_gross rs) = sum_list (map pr_deductions rs) + sum_list (map pr_net rs) \<longleftrightarrow>
      list_all (\<lambda>r. pr_deductions r \<le> pr_gross r) rs"
proof -
  have "sum_list (map pr_gross rs) \<le> sum_list (map pr_deductions rs) + sum_list (map pr_net rs) \<and>
    (sum_list (map pr_gross rs) = sum_list (map pr_deductions rs) + sum_list (map pr_net rs) \<longleftrightarrow>
      list_all (\<lambda>r. pr_deductions r \<le> pr_gross r) rs)"
    using assms
  proof (induction rs)
    case (Cons r rs)
    then show ?case by (auto simp: pays_difference_def max_def split: if_splits)
  qed simp
  then show "sum_list (map pr_gross rs) \<le> sum_list (map pr_deductions rs) + sum_list (map pr_net rs)"
    "sum_list (map pr_gross rs) = sum_list (map pr_deductions rs) + sum_list (map pr_net rs) \<longleftrightarrow>
      list_all (\<lambda>r. pr_deductions r \<le> pr_gross r) rs" by simp_all
qed

end
