(* ===== verification/PayrollRecords.thy ===== *)
theory PayrollRecords
  imports PayrollEngine
begin

text \<open>
  What generation does: which employees it can pay, the exact amounts of a record, which the floats of the
  code compute without an error, and the table of records after it.
\<close>

section \<open>One record for a period and an employee\<close>

definition record_key :: "payroll_record \<Rightarrow> uuid \<times> uuid" where
  "record_key r = (pr_period_id r, pr_employee_id r)"

definition wf_records :: "pay \<Rightarrow> bool" where
  "wf_records s = (wf_table (pay_next s) (payroll_records s) \<and> unique_on record_key (payroll_records s))"

lemma record_of_key: "record_of t p e = first_where (\<lambda>r. record_key r = (p, e)) t"
  by (simp add: record_of_def record_key_def)

lemma save_record_shape:
  "\<exists>t n. save_record r s = s\<lparr>payroll_records := t, pay_next := n\<rparr> \<and> pay_next s \<le> n"
proof (cases "record_of (payroll_records s) (pr_period_id r) (pr_employee_id r)")
  case None
  then show ?thesis by (intro exI [of _ "add_row (pay_next s) r (payroll_records s)"] exI [of _ "pay_next s + 1"])
      (simp add: save_record_def)
next
  case (Some x)
  then show ?thesis
    by (intro exI [of _ "modify (fst x) (\<lambda>old. r\<lparr>pr_overtime := pr_overtime old\<rparr>) (payroll_records s)"] exI [of _ "pay_next s"])
      (simp add: save_record_def split: prod.splits)
qed

lemma save_record_key [simp]: "record_key (r\<lparr>pr_overtime := w\<rparr>) = record_key r"
  by (simp add: record_key_def)

lemma save_record_wf:
  assumes wf: "wf_records s"
  shows "wf_records (save_record r s)"
proof -
  have d: "distinct (keys (payroll_records s))" using wf wf_table_distinct by (auto simp: wf_records_def)
  show ?thesis
  proof (cases "record_of (payroll_records s) (pr_period_id r) (pr_employee_id r)")
    case None
    then have "first_where (\<lambda>x. record_key x = record_key r) (payroll_records s) = None"
      by (simp add: record_of_key record_key_def)
    with None wf show ?thesis
      by (simp add: wf_records_def save_record_def unique_on_add_row wf_table_add_row [OF _ le_refl])
  next
    case (Some x)
    then obtain i old where x: "record_of (payroll_records s) (pr_period_id r) (pr_employee_id r) = Some (i, old)"
      by (cases x) auto
    from first_where_row [OF d this [unfolded record_of_key]]
    have "get (payroll_records s) i = Some old" "record_key old = record_key r" by (simp_all add: record_key_def)
    then have "unique_on record_key (modify i (\<lambda>old. r\<lparr>pr_overtime := pr_overtime old\<rparr>) (payroll_records s))
        = unique_on record_key (payroll_records s)"
      by (intro unique_on_modify_row [OF d, where r = old]) simp_all
    with x wf show ?thesis by (simp add: wf_records_def save_record_def wf_table_modify)
  qed
qed

lemma save_record_other:
  assumes wf: "wf_records s" and "(p, e) \<noteq> record_key r"
  shows "record_of (payroll_records (save_record r s)) p e = record_of (payroll_records s) p e"
proof -
  have d: "distinct (keys (payroll_records s))" using wf wf_table_distinct by (auto simp: wf_records_def)
  show ?thesis
  proof (cases "record_of (payroll_records s) (pr_period_id r) (pr_employee_id r)")
    case None
    with assms(2) show ?thesis
      by (auto simp: save_record_def record_of_key first_where_add_row split: option.splits)
  next
    case (Some x)
    then obtain i old where x: "record_of (payroll_records s) (pr_period_id r) (pr_employee_id r) = Some (i, old)"
      by (cases x) auto
    from first_where_row [OF d this [unfolded record_of_key]]
    have "get (payroll_records s) i = Some old" "record_key old = record_key r" by (simp_all add: record_key_def)
    then show ?thesis
      unfolding record_of_key using x assms(2)
      by (subst first_where_other [OF d, of i old _ "\<lambda>old. r\<lparr>pr_overtime := pr_overtime old\<rparr>", symmetric])
        (auto simp: save_record_def)
  qed
qed

lemma save_record_same:
  assumes wf: "wf_records s"
  shows "\<exists>i w. record_of (payroll_records (save_record r s)) (pr_period_id r) (pr_employee_id r) = Some (i, r\<lparr>pr_overtime := w\<rparr>)"
proof -
  have d: "distinct (keys (payroll_records s))" using wf wf_table_distinct by (auto simp: wf_records_def)
  show ?thesis
  proof (cases "record_of (payroll_records s) (pr_period_id r) (pr_employee_id r)")
    case None
    then have "record_of (payroll_records (save_record r s)) (pr_period_id r) (pr_employee_id r) = Some (pay_next s, r\<lparr>pr_overtime := pr_overtime r\<rparr>)"
      by (simp add: save_record_def record_of_def first_where_add_row)
    then show ?thesis by blast
  next
    case (Some x)
    then obtain i old where x: "record_of (payroll_records s) (pr_period_id r) (pr_employee_id r) = Some (i, old)"
      by (cases x) auto
    then show ?thesis
      using first_where_replace [OF d x [unfolded record_of_def], of "\<lambda>old. r\<lparr>pr_overtime := pr_overtime old\<rparr>"]
      by (auto simp: save_record_def record_of_def)
  qed
qed

section \<open>The loop\<close>

lemma reads:
  "employee_attendance (s\<lparr>payroll_records := t, pay_next := n\<rparr>) e p = employee_attendance s e p"
  "employee_leaves (s\<lparr>payroll_records := t, pay_next := n\<rparr>) e p = employee_leaves s e p"
  "structure_of (s\<lparr>payroll_records := t, pay_next := n\<rparr>) c = structure_of s c"
  "salary_components (s\<lparr>payroll_records := t, pay_next := n\<rparr>) = salary_components s"
  "employee_attendance (set_period i st s) e p = employee_attendance s e p"
  "employee_leaves (set_period i st s) e p = employee_leaves s e p"
  "structure_of (set_period i st s) c = structure_of s c"
  by (simp_all add: employee_attendance_def employee_leaves_def structure_of_def)

lemma employee_record_reads:
  "employee_record rnd pid p e k c (s\<lparr>payroll_records := t, pay_next := n\<rparr>) = employee_record rnd pid p e k c s"
  "employee_record rnd pid p e k c (set_period i st s) = employee_record rnd pid p e k c s"
  unfolding employee_record_def reads set_period_frame by (rule refl)+

lemma employee_record_key:
  "employee_record rnd pid p e k c s = Inr r \<Longrightarrow> pr_period_id r = pid \<and> pr_employee_id r = e"
  by (auto simp: employee_record_def Let_def split: sum.splits prod.splits if_splits)

text \<open>What the record of an employee is to be: none without an active compensation.\<close>

definition due_record :: "(nat \<Rightarrow> decimal \<Rightarrow> decimal) \<Rightarrow> uuid \<Rightarrow> payroll_period \<Rightarrow> pay \<Rightarrow> uuid \<Rightarrow> payroll_record option result" where
  "due_record rnd pid p s e =
     (case active_compensation (compensations s) e of
        None \<Rightarrow> Inr None
      | Some (k, c) \<Rightarrow> (case employee_record rnd pid p e k c s of Inl x \<Rightarrow> Inl x | Inr r \<Rightarrow> Inr (Some r)))"

lemma pay_employee_due:
  "pay_employee rnd pid p e s =
     (case due_record rnd pid p s e of Inl x \<Rightarrow> Inl x | Inr None \<Rightarrow> Inr s | Inr (Some r) \<Rightarrow> Inr (save_record r s))"
  by (simp add: pay_employee_def due_record_def split: option.splits prod.splits sum.splits)

lemma due_record_reads: "due_record rnd pid p (s\<lparr>payroll_records := t, pay_next := n\<rparr>) e = due_record rnd pid p s e"
  by (simp add: due_record_def employee_record_reads split: option.splits)

lemma due_record_key: "due_record rnd pid p s e = Inr (Some r) \<Longrightarrow> pr_period_id r = pid \<and> pr_employee_id r = e"
  by (auto simp: due_record_def dest: employee_record_key split: option.splits sum.splits)

lemma due_record_save: "due_record rnd pid p (save_record r s) e = due_record rnd pid p s e"
  using save_record_shape [of r s] due_record_reads by force

lemma pay_fold:
  assumes "fold_res (pay_employee rnd pid p) es s = Inr s'" and "wf_records s" and "distinct es"
  shows "wf_records s'"
    and "\<exists>t n. s' = s\<lparr>payroll_records := t, pay_next := n\<rparr> \<and> pay_next s \<le> n"
    and "p' \<noteq> pid \<or> e' \<notin> set es \<or> due_record rnd pid p s e' = Inr None \<Longrightarrow>
      record_of (payroll_records s') p' e' = record_of (payroll_records s) p' e'"
    and "e \<in> set es \<Longrightarrow> \<exists>d. due_record rnd pid p s e = Inr d \<and>
      (\<forall>r. d = Some r \<longrightarrow> (\<exists>i w. record_of (payroll_records s') pid e = Some (i, r\<lparr>pr_overtime := w\<rparr>)))"
  using assms
proof (induction es arbitrary: s p' e' e)
  case Nil
  { case 1 then show ?case by simp
  next case 2 then have "s' = s\<lparr>payroll_records := payroll_records s, pay_next := pay_next s\<rparr>" by simp
    then show ?case by blast
  next case 3 then show ?case by simp
  next case 4 then show ?case by simp }
next
  case (Cons x es)
  have step: "\<exists>s1. pay_employee rnd pid p x s = Inr s1 \<and> fold_res (pay_employee rnd pid p) es s1 = Inr s' \<and> wf_records s1
      \<and> (\<forall>e. due_record rnd pid p s1 e = due_record rnd pid p s e) \<and> (\<exists>t n. s1 = s\<lparr>payroll_records := t, pay_next := n\<rparr> \<and> pay_next s \<le> n)
      \<and> (\<forall>p' e'. p' \<noteq> pid \<or> e' \<noteq> x \<or> due_record rnd pid p s e' = Inr None \<longrightarrow>
            record_of (payroll_records s1) p' e' = record_of (payroll_records s) p' e')
      \<and> (\<exists>d. due_record rnd pid p s x = Inr d \<and>
          (\<forall>r. d = Some r \<longrightarrow> (\<exists>i w. record_of (payroll_records s1) pid x = Some (i, r\<lparr>pr_overtime := w\<rparr>))))"
    if run: "fold_res (pay_employee rnd pid p) (x # es) s = Inr s'" and wf: "wf_records s" for s
  proof -
    from run obtain d where d: "due_record rnd pid p s x = Inr d" by (auto simp: pay_employee_due split: sum.splits)
    show ?thesis
    proof (cases d)
      case None
      have "s = s\<lparr>payroll_records := payroll_records s, pay_next := pay_next s\<rparr>" by simp
      then have "\<exists>t n. s = s\<lparr>payroll_records := t, pay_next := n\<rparr> \<and> pay_next s \<le> n" by blast
      with run wf d None show ?thesis by (intro exI [of _ s]) (auto simp: pay_employee_due)
    next
      case (Some r)
      note key = due_record_key [OF d [unfolded Some]]
      show ?thesis
        using run wf d Some key save_record_shape [of r s] save_record_same [OF wf, of r]
        by (intro exI [of _ "save_record r s"])
          (auto simp: pay_employee_due save_record_wf due_record_save record_key_def intro!: save_record_other)
    qed
  qed
  { case 1
    from step [OF 1(1,2)] obtain s1 where "fold_res (pay_employee rnd pid p) es s1 = Inr s'" "wf_records s1" by blast
    from Cons.IH(1) [OF this] 1(3) show ?case by simp
  next case 2
    from step [OF 2(1,2)] obtain s1 t n where s1: "fold_res (pay_employee rnd pid p) es s1 = Inr s'" "wf_records s1"
      "s1 = s\<lparr>payroll_records := t, pay_next := n\<rparr>" "pay_next s \<le> n" by blast
    from Cons.IH(2) [OF s1(1,2)] 2 obtain t' n' where "s' = s1\<lparr>payroll_records := t', pay_next := n'\<rparr>" "pay_next s1 \<le> n'" by auto
    with s1 show ?case by (intro exI [of _ t'] exI [of _ n']) simp
  next case 3
    from step [OF 3(2,3)] obtain s1 where s1: "fold_res (pay_employee rnd pid p) es s1 = Inr s'" "wf_records s1"
      "\<And>e. due_record rnd pid p s1 e = due_record rnd pid p s e"
      "p' \<noteq> pid \<or> e' \<noteq> x \<or> due_record rnd pid p s e' = Inr None \<Longrightarrow> record_of (payroll_records s1) p' e' = record_of (payroll_records s) p' e'"
      by blast
    from 3(1) have "p' \<noteq> pid \<or> e' \<noteq> x \<or> due_record rnd pid p s e' = Inr None"
      "p' \<noteq> pid \<or> e' \<notin> set es \<or> due_record rnd pid p s1 e' = Inr None" by (auto simp: s1(3))
    with Cons.IH(3) [OF _ s1(1,2)] s1(4) 3(4) show ?case by simp
  next case (4 s e)
    from step [OF 4(2,3)] obtain s1 d where s1: "fold_res (pay_employee rnd pid p) es s1 = Inr s'" "wf_records s1"
      "\<And>e. due_record rnd pid p s1 e = due_record rnd pid p s e" "due_record rnd pid p s x = Inr d"
      "\<And>r. d = Some r \<Longrightarrow> \<exists>i w. record_of (payroll_records s1) pid x = Some (i, r\<lparr>pr_overtime := w\<rparr>)"
      by blast
    show ?case
    proof (cases "e = x")
      case True
      with Cons.IH(3) [OF _ s1(1,2), where p' = pid and e' = x] 4 s1 show ?thesis by auto
    next
      case False
      with Cons.IH(4) [OF _ s1(1,2)] 4 s1(3) show ?thesis by auto
    qed }
qed

text \<open>The loop fails exactly if the record of one of the employees does.\<close>

lemma pay_fold_ok:
  "is_ok (fold_res (pay_employee rnd pid p) es s) \<longleftrightarrow> (\<forall>e\<in>set es. is_ok (due_record rnd pid p s e))"
  by (induction es arbitrary: s) (auto simp: pay_employee_due due_record_save split: sum.splits option.splits)

end
