(* ===== verification/PayrollAmounts.thy ===== *)
theory PayrollAmounts
  imports PayrollRecords
begin

text \<open>
  The amounts of a record in exact arithmetic. Without attendance and leaves, the only case that does not raise,
  every employee is present on all days, the ratio is one, and the record holds the exact sums of the structure:
  the floats of the code make no error that reaches the columns, below nine million.
\<close>

section \<open>Floats\<close>

lemma fl_zero_iff [simp]: "fl x = 0 \<longleftrightarrow> x = 0"
  using fl_error [of x] by (auto simp: field_simps abs_if split: if_splits)

lemma fl_sign: "0 < fl x \<longleftrightarrow> 0 < x"
proof (cases "x = 0")
  case False
  then have "\<bar>fl x - x\<bar> < \<bar>x\<bar>" using fl_error [of x] by (auto simp: abs_if field_simps split: if_splits)
  then show ?thesis by linarith
qed simp

lemma fl_max: "max 0 (fl x) = fl (max 0 x)"
  using fl_sign [of x] by (cases "0 < x") (simp_all add: max_absorb1 max_absorb2 not_less less_imp_le)

lemma fl_one: "fl 1 = 1"
  using fl_scaled [of 1 0] by simp

lemma round2_fl: "hundredths h \<Longrightarrow> \<bar>h\<bar> \<le> 9000000 \<Longrightarrow> round2 (fl h) = fl h"
  by (rule round2_near [OF near_fl [where b = 9000000]]) simp_all

lemma float_sum_zero:
  assumes "amounts hs"
  shows "float_sum (map fl hs) = 0 \<longleftrightarrow> sum_list hs = 0"
proof
  assume "float_sum (map fl hs) = 0"
  then have "stored round_dp (float_sum (map fl hs)) = stored round_dp (fl 0)" by simp
  also have "\<dots> = 0" by (rule stored_fl) (simp_all add: column_rounding_exists)
  finally show "sum_list hs = 0" using stored_sum [OF column_rounding_exists assms] by simp
next
  assume "sum_list hs = 0"
  then have "\<forall>h\<in>set hs. h = 0"
    using assms sum_list_nonneg_eq_0_iff [of hs] by (auto simp: amounts_def list_all_iff)
  then show "float_sum (map fl hs) = 0" unfolding float_sum_def by (induction hs) auto
qed

lemma float_sum_amounts:
  assumes "amounts hs"
  shows "near (float_sum (map fl hs)) (sum_list hs) (1 / 500) (sum_list hs)"
proof -
  have "near (float_sum (map fl hs)) (sum_list hs) (of_nat (length hs) * (1 / 50000000)) (sum_list hs)"
    using assms by (intro float_sum_near) (auto simp: amounts_def list_all_iff)
  moreover have "(of_nat (length hs) :: rat) \<le> of_nat 100000" using assms by (simp only: of_nat_le_iff amounts_def)
  ultimately show ?thesis by (simp add: near_def)
qed

lemma float_sum_round: "amounts hs \<Longrightarrow> round2 (float_sum (map fl hs)) = fl (sum_list hs)"
  by (rule round2_near [OF float_sum_amounts]) (simp_all add: py_decimal_sum(2))

lemma amounts_nonneg: "amounts hs \<Longrightarrow> 0 \<le> sum_list hs"
  by (auto simp: amounts_def list_all_iff intro: sum_list_nonneg)

section \<open>Full presence\<close>

lemma all_present:
  assumes "0 < working" and "working \<le> 999" and rnd: "column_rounding rnd"
  shows "proration_ratio working (present_or_all working 0 0 0) 0 = 1"
    and "stored rnd (present_or_all working 0 0 0) = of_int working"
proof -
  have "fl (of_int working) \<noteq> 0" using assms(1) by simp
  then show "proration_ratio working (present_or_all working 0 0 0) 0 = 1"
    using assms(1) by (simp add: proration_ratio_def present_or_all_def fl_idem fl_one)
  have "(of_int working :: rat) = of_int (working * 100) / 100" by simp
  then have "hundredths (of_int working)" unfolding hundredths_iff by blast
  moreover have "\<bar>of_int working :: rat\<bar> \<le> 9000000" using assms by (simp add: abs_if)
  ultimately show "stored rnd (present_or_all working 0 0 0) = of_int working"
    using stored_fl [OF rnd] by (simp add: present_or_all_def)
qed

section \<open>The exact amounts\<close>

definition component_amount :: "salary_component \<Rightarrow> decimal \<Rightarrow> decimal \<Rightarrow> decimal" where
  "component_amount c v monthly_gross =
     (if 0 < v then v
      else if sc_default c \<noteq> 0 then sc_default c
      else if sc_method c = ''Percentage'' \<and> sc_percentage c \<noteq> None \<and> sc_percentage c \<noteq> Some 0
        then round_dp 2 (fl (fl monthly_gross * fl (fl (the (sc_percentage c)) / 100)))
      else monthly_gross)"

definition structure_amounts :: "salary_component table \<Rightarrow> decimal \<Rightarrow> structure_component list \<Rightarrow> (uuid \<times> salary_component \<times> decimal) list" where
  "structure_amounts t monthly_gross xs =
     concat (map (\<lambda>x. case get t (stc_component_id x) of None \<Rightarrow> []
        | Some c \<Rightarrow> if sc_is_active c \<and> \<not> sc_is_deleted c then [(stc_component_id x, c, component_amount c (stc_value x) monthly_gross)] else [])
       xs)"

definition amounts_of_type :: "string \<Rightarrow> (uuid \<times> salary_component \<times> decimal) list \<Rightarrow> decimal list" where
  "amounts_of_type ty ls = map (\<lambda>(i, c, a). a) (filter (\<lambda>(i, c, a). sc_type c = ty) ls)"

definition plain_structure :: "salary_component table \<Rightarrow> decimal \<Rightarrow> structure_component list \<Rightarrow> bool" where
  "plain_structure t monthly_gross xs =
     (hundredths monthly_gross \<and> 0 \<le> monthly_gross \<and> length xs \<le> 100000 \<and>
      list_all (\<lambda>(i, c, a). hundredths a \<and> 0 \<le> a) (structure_amounts t monthly_gross xs) \<and>
      monthly_gross + sum_list (map (\<lambda>(i, c, a). a) (structure_amounts t monthly_gross xs)) \<le> 9000000)"

lemma round_dp_2_hundredths: "hundredths (round_dp 2 x)"
  using column_rounding_exists by (simp add: column_rounding_def)

lemma component_base_amount:
  assumes h: "hundredths (component_amount c v mg)" "\<bar>component_amount c v mg\<bar> \<le> 9000000"
  shows "round2 (fl (component_base c v (fl mg) * 1)) = fl (component_amount c v mg)"
proof -
  have "component_base c v (fl mg) = fl (component_amount c v mg)"
    by (auto simp: component_base_def component_amount_def Let_def round2_def)
  then show ?thesis using round2_fl [OF h] by (simp add: fl_idem)
qed

lemma structure_lines_amounts:
  assumes "list_all (\<lambda>(i, c, a). hundredths a \<and> \<bar>a\<bar> \<le> 9000000) (structure_amounts t mg xs)"
  shows "structure_lines t (fl mg) 1 xs = map (\<lambda>(i, c, a). (i, c, fl a)) (structure_amounts t mg xs)"
  using assms
proof (induction xs)
  case (Cons x xs)
  then show ?case
    using component_base_amount [of _ "stc_value x" mg]
    by (auto simp: structure_amounts_def split: option.splits)
qed (simp add: structure_amounts_def)

lemma length_structure_amounts: "length (structure_amounts t mg xs) \<le> length xs"
  by (induction xs) (auto simp: structure_amounts_def split: option.splits)

lemma sum_list_part: "list_all (\<lambda>(i, c, a). 0 \<le> a) ls \<Longrightarrow> ty \<noteq> ty' \<Longrightarrow>
    sum_list (amounts_of_type ty ls) + sum_list (amounts_of_type ty' ls) \<le> sum_list (map (\<lambda>(i, c, a). a) ls)"
  by (induction ls) (auto simp: amounts_of_type_def)

lemma sum_list_member: "list_all (\<lambda>(i, c, a). 0 \<le> a) ls \<Longrightarrow> (i, c, a) \<in> set ls \<Longrightarrow> a \<le> sum_list (map (\<lambda>(i, c, a). a) ls)"
  for a :: decimal
proof (induction ls)
  case (Cons x ls)
  have "0 \<le> sum_list (map (\<lambda>(i, c, a). a) ls)" using Cons.prems(1) by (force simp: list_all_iff intro: sum_list_nonneg)
  with Cons show ?case by fastforce
qed simp

lemma lines_total_amounts:
  "lines_total ty (map (\<lambda>(i, c, a). (i, c, fl a)) ls) = float_sum (map fl (amounts_of_type ty ls))"
proof -
  have "map (\<lambda>(i, c, a). a) (filter (\<lambda>(i, c, a). sc_type c = ty) (map (\<lambda>(i, c, a). (i, c, fl a)) ls)) = map fl (amounts_of_type ty ls)"
    by (induction ls) (auto simp: amounts_of_type_def)
  then show ?thesis by (simp add: lines_total_def)
qed

text \<open>Earnings are the sum of the earning lines, and without any the monthly gross.\<close>

definition exact_earnings :: "salary_component table \<Rightarrow> decimal \<Rightarrow> structure_component list \<Rightarrow> decimal" where
  "exact_earnings t mg xs =
     (let e = sum_list (amounts_of_type ''Earning'' (structure_amounts t mg xs)) in if e = 0 then mg else e)"

definition exact_deductions :: "salary_component table \<Rightarrow> decimal \<Rightarrow> structure_component list \<Rightarrow> decimal" where
  "exact_deductions t mg xs = sum_list (amounts_of_type ''Deduction'' (structure_amounts t mg xs))"

definition exact_record :: "uuid \<Rightarrow> payroll_period \<Rightarrow> uuid \<Rightarrow> uuid \<Rightarrow> compensation \<Rightarrow> pay \<Rightarrow> payroll_record" where
  "exact_record pid p e k c s =
     (let t = salary_components s; mg = cmp_monthly_gross c; xs = structure_of s c
      in \<lparr>pr_period_id = pid, pr_employee_id = e, pr_compensation_id = k, pr_working_days = working_days p,
          pr_present_days = of_int (working_days p), pr_leave_days = 0, pr_paid_leave_days = 0,
          pr_unpaid_leave_days = 0, pr_overtime = 0, pr_gross = exact_earnings t mg xs,
          pr_earnings = exact_earnings t mg xs, pr_deductions = exact_deductions t mg xs,
          pr_net = max 0 (exact_earnings t mg xs - exact_deductions t mg xs), pr_status = PrCalculated,
          pr_components = map (\<lambda>(i, c, a). \<lparr>rc_component_id = i, rc_name = sc_name c, rc_type = sc_type c, rc_amount = a\<rparr>)
            (structure_amounts t mg xs)\<rparr>)"

lemma plain_structure_types:
  assumes "plain_structure t mg xs" and "ty \<noteq> ty'"
  shows "amounts (amounts_of_type ty (structure_amounts t mg xs))"
    and "sum_list (amounts_of_type ty (structure_amounts t mg xs)) + sum_list (amounts_of_type ty' (structure_amounts t mg xs)) + mg \<le> 9000000"
proof -
  let ?ls = "structure_amounts t mg xs"
  from assms have n: "list_all (\<lambda>(i, c, a). 0 \<le> a) ?ls" "list_all (\<lambda>(i, c, a). hundredths a \<and> 0 \<le> a) ?ls" "0 \<le> mg"
      "mg + sum_list (map (\<lambda>(i, c, a). a) ?ls) \<le> 9000000" "length xs \<le> 100000"
    by (auto simp: plain_structure_def list_all_iff)
  then show s: "sum_list (amounts_of_type ty ?ls) + sum_list (amounts_of_type ty' ?ls) + mg \<le> 9000000"
    using sum_list_part [OF n(1) assms(2)] by linarith
  have l: "list_all (\<lambda>a. hundredths a \<and> 0 \<le> a) (amounts_of_type ty'' ?ls)" for ty''
    using n(2) by (force simp: amounts_of_type_def list_all_iff)
  then have "0 \<le> sum_list (amounts_of_type ty' ?ls)" by (auto simp: list_all_iff intro: sum_list_nonneg)
  moreover have "length (amounts_of_type ty ?ls) \<le> 100000"
    using le_trans [OF length_filter_le le_trans [OF length_structure_amounts n(5)]] by (simp add: amounts_of_type_def)
  ultimately show "amounts (amounts_of_type ty ?ls)" using s l [of ty] n(3) by (simp add: amounts_def)
qed

lemma employee_record_exact:
  assumes rnd: "column_rounding rnd" and days: "0 < working_days p" "working_days p \<le> 999"
    and plain: "plain_structure (salary_components s) (cmp_monthly_gross c) (structure_of s c)"
    and free: "employee_attendance s e p = []" "employee_leaves s e p = []"
  shows "employee_record rnd pid p e k c s = Inr (exact_record pid p e k c s)"
proof -
  let ?t = "salary_components s" and ?mg = "cmp_monthly_gross c" and ?xs = "structure_of s c"
  let ?ls = "structure_amounts ?t ?mg ?xs"
  let ?E = "amounts_of_type ''Earning'' ?ls" and ?D = "amounts_of_type ''Deduction'' ?ls"
  note present = all_present [OF days rnd]
  have E: "amounts ?E" "sum_list ?E + sum_list ?D + ?mg \<le> 9000000" and D: "amounts ?D"
    using plain_structure_types [OF plain, of "''Earning''" "''Deduction''"]
      plain_structure_types [OF plain, of "''Deduction''" "''Earning''"] by simp_all
  from plain have mg: "hundredths ?mg" "0 \<le> ?mg" by (simp_all add: plain_structure_def)
  have ls_ok: "list_all (\<lambda>(i, c, a). hundredths a \<and> \<bar>a\<bar> \<le> 9000000) ?ls"
    using plain sum_list_member [of ?ls] by (fastforce simp: plain_structure_def list_all_iff)
  note lines = structure_lines_amounts [OF ls_ok]
  have earned: "lines_total ''Earning'' (structure_lines ?t (fl ?mg) 1 ?xs) = float_sum (map fl ?E)"
    and deducted: "lines_total ''Deduction'' (structure_lines ?t (fl ?mg) 1 ?xs) = float_sum (map fl ?D)"
    by (simp_all add: lines lines_total_amounts)
  define earn where "earn = (if float_sum (map fl ?E) = 0 then round2 (fl (fl ?mg * 1)) else float_sum (map fl ?E))"
  define X where "X = exact_earnings ?t ?mg ?xs"
  have X: "hundredths X" "0 \<le> X" "X + sum_list ?D \<le> 9000000"
    using mg E py_decimal_sum(2) [OF E(1)] amounts_nonneg [OF E(1)] amounts_nonneg [OF D]
    by (auto simp: X_def exact_earnings_def Let_def)
  then have X9: "\<bar>X\<bar> \<le> 9000000" using amounts_nonneg [OF D] by simp
  have gross: "round2 earn = fl X" and earn: "stored rnd earn = X"
    using float_sum_zero [OF E(1)] float_sum_round [OF E(1)] stored_sum [OF rnd E(1)] round2_fl [OF mg(1)] X9
      round2_fl [OF X(1) X9] stored_fl [OF rnd X(1) X9]
    by (auto simp: earn_def X_def exact_earnings_def Let_def fl_idem)
  have "near (fl (fl X - float_sum (map fl ?D))) (X - sum_list ?D) (1 / 100000000 + 1 / 500 + 1 / 100000000) (X + sum_list ?D)"
    using X float_sum_amounts [OF D] amounts_nonneg [OF D] by (intro near_diff near_fl) simp_all
  then have "round2 (fl (fl X - float_sum (map fl ?D))) = fl (X - sum_list ?D)"
    by (rule round2_near) (use X(1) py_decimal_sum(2) [OF D] in auto)
  then have net: "max 0 (round2 (fl (fl X - float_sum (map fl ?D)))) = fl (max 0 (X - sum_list ?D))"
    by (simp add: fl_max)
  have "stored rnd (fl (max 0 (X - sum_list ?D))) = max 0 (X - sum_list ?D)"
    by (rule stored_fl [OF rnd]) (use X amounts_nonneg [OF D] py_decimal_sum(2) [OF D] in \<open>auto simp: max_def\<close>)
  moreover have "record_lines rnd (map (\<lambda>(i, c, a). (i, c, fl a)) ?ls)
      = map (\<lambda>(i, c, a). \<lparr>rc_component_id = i, rc_name = sc_name c, rc_type = sc_type c, rc_amount = a\<rparr>) ?ls"
    using ls_ok stored_fl [OF rnd] by (auto simp: record_lines_def list_all_iff)
  moreover have "stored rnd 0 = 0" using stored_fl [OF rnd, of 0] by simp
  ultimately show ?thesis
    using days present free earned deducted gross earn net stored_sum [OF rnd D] stored_fl [OF rnd X(1) X9]
    unfolding employee_record_def exact_record_def
    by (cases "float_sum (map fl ?E) = 0")
      (simp_all add: Let_def earn_def X_def [symmetric] exact_deductions_def lines)
qed

text \<open>Attendance and leaves make the record fail.\<close>

lemma employee_record_ok:
  assumes "column_rounding rnd" and "0 < working_days p" and "working_days p \<le> 999"
  shows "is_ok (employee_record rnd pid p e k c s) \<longleftrightarrow> employee_attendance s e p = [] \<and> employee_leaves s e p = []"
  using all_present(2) [OF assms(2,3,1)] assms(2,3)
  by (cases "employee_attendance s e p"; cases "employee_leaves s e p") (simp_all add: employee_record_def Let_def)

end
