(* ===== verification/Compensations.thy ===== *)
theory Compensations
  imports PayrollModel
begin

text \<open>
  \<open>EmployeeCompensationService\<close> (\<^verbatim>\<open>src/app/services/employee_compensation.py\<close>): drafts of a compensation, their
  revision and activation, which expires the one active before.
\<close>

section \<open>The handlers\<close>

record compensation_create =
  cc_employee_id :: uuid
  cc_structure_id :: uuid
  cc_from :: date
  cc_to :: "date option"
  cc_annual_ctc :: rat
  cc_monthly_gross :: rat
  cc_monthly_net :: "rat option"
  cc_remarks :: "string option"

text \<open>\<open>check_overlapping_effective_dates\<close>: an open end is infinity.\<close>

definition ranges_overlap :: "date \<Rightarrow> date option \<Rightarrow> date \<Rightarrow> date option \<Rightarrow> bool" where
  "ranges_overlap rec_from rec_to from to =
     (case (rec_to, to) of
        (None, None) \<Rightarrow> True
      | (None, Some t) \<Rightarrow> rec_from \<le> t
      | (Some rt, None) \<Rightarrow> from \<le> rt
      | (Some rt, Some t) \<Rightarrow> from \<le> rt \<and> rec_from \<le> t)"

definition check_overlapping_effective_dates :: "compensation table \<Rightarrow> uuid \<Rightarrow> date \<Rightarrow> date option \<Rightarrow> uuid option \<Rightarrow> bool" where
  "check_overlapping_effective_dates t e from to exclude =
     list_ex (\<lambda>(k, c). cmp_employee_id c = e \<and> cmp_status c \<in> {CDraft, CActive} \<and> \<not> cmp_is_deleted c \<and> Some k \<noteq> exclude
       \<and> ranges_overlap (cmp_from c) (cmp_to c) from to) t"

definition bad_range :: "date \<Rightarrow> date option \<Rightarrow> bool" where
  "bad_range from to = (case to of None \<Rightarrow> False | Some t \<Rightarrow> t < from)"

definition draft_compensation ::
  "(nat \<Rightarrow> decimal \<Rightarrow> decimal) \<Rightarrow> compensation_create \<Rightarrow> nat \<Rightarrow> uuid option \<Rightarrow> compensation" where
  "draft_compensation rnd d revision previous =
     \<lparr>cmp_employee_id = cc_employee_id d, cmp_structure_id = cc_structure_id d, cmp_from = cc_from d, cmp_to = cc_to d,
      cmp_annual_ctc = stored rnd (cc_annual_ctc d), cmp_monthly_gross = stored rnd (cc_monthly_gross d),
      cmp_monthly_net = map_option (stored rnd) (cc_monthly_net d), cmp_status = CDraft, cmp_revision = revision,
      cmp_previous = previous, cmp_remarks = cc_remarks d, cmp_approved_by = None, cmp_approved_at = None,
      cmp_is_deleted = False\<rparr>"

definition assign_compensation ::
  "(nat \<Rightarrow> decimal \<Rightarrow> decimal) \<Rightarrow> pay \<Rightarrow> compensation_create \<Rightarrow> uuid option \<Rightarrow> (uuid \<times> pay) result" where
  "assign_compensation rnd s d user =
     (if employee_of (hrs s) (cc_employee_id d) = None then Inl (ApnaError ''EMPLOYEE_NOT_FOUND'')
      else if live st_is_deleted (salary_structures s) (cc_structure_id d) = None then Inl (ApnaError ''STRUCTURE_NOT_FOUND'')
      else if bad_range (cc_from d) (cc_to d) then Inl (ApnaError ''INVALID_DATE_RANGE'')
      else if check_overlapping_effective_dates (compensations s) (cc_employee_id d) (cc_from d) (cc_to d) None
        then Inl (ApnaError ''OVERLAPPING_COMPENSATION_DATES'')
      else Inr (pay_next s, pay_emit (Audit ''CREATE'' ''EmployeeCompensation'' (pay_next s)
          # audit_by user ''COMPENSATION_ASSIGN'' ''EmployeeCompensation'' (pay_next s) @ [Notify ''ASSIGNED'' (pay_next s)])
        (s\<lparr>compensations := add_row (pay_next s) (draft_compensation rnd d 1 None) (compensations s),
           pay_next := pay_next s + 1\<rparr>)))"

text \<open>The body of a revision has no employee: it is the one of the compensation revised.\<close>

definition revise_compensation ::
  "(nat \<Rightarrow> decimal \<Rightarrow> decimal) \<Rightarrow> pay \<Rightarrow> uuid \<Rightarrow> compensation_create \<Rightarrow> uuid option \<Rightarrow> (uuid \<times> pay) result" where
  "revise_compensation rnd s i d user =
     (case live cmp_is_deleted (compensations s) i of
        None \<Rightarrow> Inl (ApnaError ''COMPENSATION_NOT_FOUND'')
      | Some p \<Rightarrow>
        if live st_is_deleted (salary_structures s) (cc_structure_id d) = None then Inl (ApnaError ''STRUCTURE_NOT_FOUND'')
        else if bad_range (cc_from d) (cc_to d) then Inl (ApnaError ''INVALID_DATE_RANGE'')
        else if check_overlapping_effective_dates (compensations s) (cmp_employee_id p) (cc_from d) (cc_to d) (Some i)
          then Inl (ApnaError ''OVERLAPPING_COMPENSATION_DATES'')
        else Inr (pay_next s, pay_emit (Audit ''CREATE'' ''EmployeeCompensation'' (pay_next s)
            # audit_by user ''COMPENSATION_REVISE'' ''EmployeeCompensation'' (pay_next s) @ [Notify ''REVISED'' (pay_next s)])
          (s\<lparr>compensations := add_row (pay_next s)
               (draft_compensation rnd (d\<lparr>cc_employee_id := cmp_employee_id p\<rparr>) (cmp_revision p + 1) (Some i)) (compensations s),
             pay_next := pay_next s + 1\<rparr>)))"

text \<open>\<open>d - timedelta(days=1)\<close>, which raises before 0001-01-01.\<close>

definition previous_day :: "date \<Rightarrow> date option" where
  "previous_day d =
     (if 1 < day d then Some (Date (year d) (month d) (day d - 1))
      else if 1 < month d then Some (Date (year d) (month d - 1) (days_in_month (year d) (month d - 1)))
      else if 1 < year d then Some (Date (year d - 1) 12 31)
      else None)"

definition expired :: "date \<Rightarrow> compensation \<Rightarrow> compensation" where
  "expired before c = c\<lparr>cmp_status := CExpired, cmp_to := Some (if before < cmp_from c then cmp_from c else before)\<rparr>"

definition activated :: "uuid option \<Rightarrow> timestamp \<Rightarrow> compensation \<Rightarrow> compensation" where
  "activated user now c = c\<lparr>cmp_status := CActive, cmp_approved_at := Some now,
     cmp_approved_by := (case user of None \<Rightarrow> cmp_approved_by c | Some u \<Rightarrow> Some u)\<rparr>"

definition activate_compensation :: "pay \<Rightarrow> uuid \<Rightarrow> uuid option \<Rightarrow> timestamp \<Rightarrow> pay result" where
  "activate_compensation s i user now =
     (case live cmp_is_deleted (compensations s) i of
        None \<Rightarrow> Inl (ApnaError ''COMPENSATION_NOT_FOUND'')
      | Some c \<Rightarrow>
        if cmp_status c = CActive then Inr s
        else if cmp_status c = CCancelled \<or> cmp_status c = CExpired then Inl (ApnaError ''INVALID_COMPENSATION_STATUS'')
        else
          let finish = (\<lambda>t. Inr (pay_emit (audit_by user ''COMPENSATION_ACTIVATE'' ''EmployeeCompensation'' i @ [Notify ''ACTIVATED'' i])
                (s\<lparr>compensations := modify i (activated user now) t\<rparr>)))
          in case active_compensation (compensations s) (cmp_employee_id c) of
               None \<Rightarrow> finish (compensations s)
             | Some (k, old) \<Rightarrow>
                 if k = i then finish (compensations s)
                 else case previous_day (cmp_from c) of
                     None \<Rightarrow> Inl (OverflowErr ''date value out of range'')
                   | Some before \<Rightarrow> finish (modify k (expired before) (compensations s)))"

definition cancel_compensation :: "pay \<Rightarrow> uuid \<Rightarrow> uuid option \<Rightarrow> pay result" where
  "cancel_compensation s i user =
     (case live cmp_is_deleted (compensations s) i of
        None \<Rightarrow> Inl (ApnaError ''COMPENSATION_NOT_FOUND'')
      | Some c \<Rightarrow> Inr (pay_emit (audit_by user ''COMPENSATION_CANCEL'' ''EmployeeCompensation'' i @ [Notify ''CANCELLED'' i])
          (s\<lparr>compensations := modify i (\<lambda>c. c\<lparr>cmp_status := CCancelled\<rparr>) (compensations s)\<rparr>)))"

text \<open>A field that is not given keeps its value; columns that are not nullable refuse an explicit null.\<close>

record compensation_update =
  cu_from :: "date option option"
  cu_to :: "date option option"
  cu_annual_ctc :: "rat option option"
  cu_monthly_gross :: "rat option option"
  cu_monthly_net :: "rat option option"
  cu_remarks :: "string option option"

definition given_or :: "'a option \<Rightarrow> 'a \<Rightarrow> 'a" where
  "given_or u x = (case u of None \<Rightarrow> x | Some v \<Rightarrow> v)"

definition given_stored :: "(nat \<Rightarrow> decimal \<Rightarrow> decimal) \<Rightarrow> rat option option \<Rightarrow> decimal \<Rightarrow> decimal" where
  "given_stored rnd u x = (case u of Some (Some v) \<Rightarrow> stored rnd v | _ \<Rightarrow> x)"

definition update_compensation ::
  "(nat \<Rightarrow> decimal \<Rightarrow> decimal) \<Rightarrow> pay \<Rightarrow> uuid \<Rightarrow> compensation_update \<Rightarrow> uuid option \<Rightarrow> pay result" where
  "update_compensation rnd s i d user =
     (case live cmp_is_deleted (compensations s) i of
        None \<Rightarrow> Inl (ApnaError ''COMPENSATION_NOT_FOUND'')
      | Some c \<Rightarrow>
        if cmp_status c = CExpired \<or> cmp_status c = CCancelled then Inl (ApnaError ''INVALID_COMPENSATION_STATUS'')
        else
          let from = (case cu_from d of Some (Some f) \<Rightarrow> f | _ \<Rightarrow> cmp_from c);
              to = (case cu_to d of Some (Some t) \<Rightarrow> Some t | _ \<Rightarrow> cmp_to c)
          in if bad_range from to then Inl (ApnaError ''INVALID_DATE_RANGE'')
             else if cu_from d = Some None \<or> cu_annual_ctc d = Some None \<or> cu_monthly_gross d = Some None
               then Inl (IntegrityErr ''employee_compensations'')
             else Inr (pay_emit (Audit ''UPDATE'' ''EmployeeCompensation'' i
                 # audit_by user ''COMPENSATION_UPDATE'' ''EmployeeCompensation'' i)
               (s\<lparr>compensations := modify i (\<lambda>c. c\<lparr>cmp_from := from, cmp_to := given_or (cu_to d) (cmp_to c),
                   cmp_annual_ctc := given_stored rnd (cu_annual_ctc d) (cmp_annual_ctc c),
                   cmp_monthly_gross := given_stored rnd (cu_monthly_gross d) (cmp_monthly_gross c),
                   cmp_monthly_net := (case cu_monthly_net d of None \<Rightarrow> cmp_monthly_net c | Some v \<Rightarrow> map_option (stored rnd) v),
                   cmp_remarks := given_or (cu_remarks d) (cmp_remarks c)\<rparr>) (compensations s)\<rparr>)))"

definition delete_compensation :: "pay \<Rightarrow> uuid \<Rightarrow> uuid option \<Rightarrow> pay result" where
  "delete_compensation s i user =
     (case live cmp_is_deleted (compensations s) i of
        None \<Rightarrow> Inl (ApnaError ''COMPENSATION_NOT_FOUND'')
      | Some c \<Rightarrow> Inr (pay_emit (Audit ''SOFT_DELETE'' ''EmployeeCompensation'' i
            # audit_by user ''COMPENSATION_DELETE'' ''EmployeeCompensation'' i)
          (s\<lparr>compensations := modify i (\<lambda>c. c\<lparr>cmp_is_deleted := True\<rparr>) (compensations s)\<rparr>)))"

definition restore_compensation :: "pay \<Rightarrow> uuid \<Rightarrow> uuid option \<Rightarrow> pay result" where
  "restore_compensation s i user =
     (case get (compensations s) i of
        None \<Rightarrow> Inl (ApnaError ''COMPENSATION_NOT_FOUND'')
      | Some c \<Rightarrow> Inr (pay_emit (audit_by user ''COMPENSATION_RESTORE'' ''EmployeeCompensation'' i)
          (s\<lparr>compensations := modify i (\<lambda>c. c\<lparr>cmp_is_deleted := False\<rparr>) (compensations s)\<rparr>)))"

section \<open>One active compensation\<close>

definition one_active :: "compensation table \<Rightarrow> uuid \<Rightarrow> bool" where
  "one_active t e = (length (active_compensations t e) \<le> 1)"

definition is_active_of :: "uuid \<Rightarrow> compensation \<Rightarrow> bool" where
  "is_active_of e c = (cmp_employee_id c = e \<and> cmp_status c = CActive \<and> \<not> cmp_is_deleted c)"

lemma active_compensations_alt: "active_compensations t e = filter (\<lambda>(k, c). is_active_of e c) t"
  by (simp add: active_compensations_def is_active_of_def)

lemma active_add_draft: "cmp_status c = CDraft \<Longrightarrow> active_compensations (add_row i c t) e = active_compensations t e"
  by (simp add: active_compensations_def add_row_def)

text \<open>A change that makes no other compensation active leaves no more active ones than there were.\<close>

lemma active_modify_le:
  assumes "\<And>c. get t i = Some c \<Longrightarrow> is_active_of e (f c) \<Longrightarrow> is_active_of e c" and "distinct (keys t)"
  shows "length (active_compensations (modify i f t) e) \<le> length (active_compensations t e)"
  using assms
proof (induction t)
  case (Cons x t)
  obtain k c where x: "x = (k, c)" by force
  show ?case
  proof (cases "k = i")
    case True
    with Cons.prems x have "i \<notin> set (keys t)" "get (x # t) i = Some c" by (auto simp: keys_def get_def)
    then have "modify i f (x # t) = (k, f c) # t" using True
      by (simp add: x modify_absent [OF get_None_fresh, unfolded modify_def] modify_def)
    with Cons.prems(1) [OF \<open>get (x # t) i = Some c\<close>] show ?thesis
      by (auto simp: active_compensations_alt x)
  next
    case False
    with Cons x have "length (active_compensations (modify i f t) e) \<le> length (active_compensations t e)"
      by (auto simp: get_def keys_def)
    moreover have "modify i f (x # t) = x # modify i f t" using False by (simp add: x modify_def)
    ultimately show ?thesis by (simp add: active_compensations_alt x)
  qed
qed (simp add: modify_def active_compensations_def)

lemma active_modify_Suc:
  assumes "distinct (keys t)"
  shows "length (active_compensations (modify i f t) e) \<le> Suc (length (active_compensations t e))"
  using assms
proof (induction t)
  case (Cons x t)
  obtain k c where x: "x = (k, c)" by force
  show ?case
  proof (cases "k = i")
    case True
    with Cons.prems x have "modify i f (x # t) = (k, f c) # t"
      by (simp add: x keys_def modify_absent [OF get_None_fresh, unfolded modify_def] modify_def)
    then show ?thesis by (simp add: active_compensations_alt x)
  next
    case False
    with Cons x have "length (active_compensations (modify i f t) e) \<le> Suc (length (active_compensations t e))"
      by (auto simp: keys_def)
    moreover have "modify i f (x # t) = x # modify i f t" using False by (simp add: x modify_def)
    ultimately show ?thesis by (simp add: active_compensations_alt x)
  qed
qed (simp add: modify_def active_compensations_def)

lemma active_modify_less:
  assumes "distinct (keys t)" and "get t i = Some c" and "is_active_of e c" and "\<not> is_active_of e (f c)"
  shows "length (active_compensations (modify i f t) e) < length (active_compensations t e)"
  using assms
proof (induction t)
  case (Cons x t)
  obtain k d where x: "x = (k, d)" by force
  show ?case
  proof (cases "k = i")
    case True
    with Cons.prems x have "modify i f (x # t) = (k, f c) # t" "d = c"
      by (simp_all add: x keys_def get_def modify_absent [OF get_None_fresh, unfolded modify_def] modify_def)
    with Cons.prems show ?thesis by (simp add: active_compensations_alt x)
  next
    case False
    with Cons x have "length (active_compensations (modify i f t) e) < length (active_compensations t e)"
      by (auto simp: keys_def get_def)
    moreover have "modify i f (x # t) = x # modify i f t" using False by (simp add: x modify_def)
    ultimately show ?thesis by (simp add: active_compensations_alt x)
  qed
qed (simp add: get_def)

text \<open>Activation expires the compensation that was active, so that there is still at most one.\<close>

lemma activate_one_active:
  assumes act: "activate_compensation s i user now = Inr s'" and one: "\<And>e. one_active (compensations s) e"
    and d: "distinct (keys (compensations s))"
  shows "one_active (compensations s') e"
    and "\<exists>c. get (compensations s') i = Some c \<and> cmp_status c = CActive \<and> \<not> cmp_is_deleted c"
proof -
  from act obtain c where c: "get (compensations s) i = Some c" "\<not> cmp_is_deleted c"
    by (auto simp: activate_compensation_def live_Some split: option.splits)
  have same: "cmp_employee_id (activated user now c) = cmp_employee_id c" for c by (simp add: activated_def)
  let ?g = "modify i (activated user now)"
  have other: "length (active_compensations (?g t) e) \<le> length (active_compensations t e)"
    if "get t i = Some c" "distinct (keys t)" "e \<noteq> cmp_employee_id c" for t e
    using that by (intro active_modify_le) (auto simp: is_active_of_def same)
  consider (same) "cmp_status c = CActive" "s' = s"
    | (none) "active_compensation (compensations s) (cmp_employee_id c) = None \<or>
        (\<exists>old. active_compensation (compensations s) (cmp_employee_id c) = Some (i, old))" "cmp_status c \<noteq> CActive"
        "compensations s' = ?g (compensations s)"
    | (old) k old before where "active_compensation (compensations s) (cmp_employee_id c) = Some (k, old)" "k \<noteq> i" "cmp_status c \<noteq> CActive"
        "compensations s' = ?g (modify k (expired before) (compensations s))"
    using act c by (auto simp: activate_compensation_def live_def Let_def split: option.splits if_splits)
  then have "one_active (compensations s') e \<and> (\<exists>c. get (compensations s') i = Some c \<and> cmp_status c = CActive \<and> \<not> cmp_is_deleted c)"
  proof cases
    case same
    with c one show ?thesis by blast
  next
    case none
    have "active_compensation (compensations s) (cmp_employee_id c) \<noteq> Some (i, old)" for old
      using active_compensation_Some [of "compensations s" "cmp_employee_id c" i old] c none(2) in_set_get [OF d] by fastforce
    with none have "active_compensations (compensations s) (cmp_employee_id c) = []"
      by (auto simp: active_compensation_None)
    then have "one_active (?g (compensations s)) e"
      using active_modify_Suc [OF d, of i "activated user now" e] other [OF c(1) d, of e] one [of e]
      by (cases "e = cmp_employee_id c") (simp_all add: one_active_def)
    with c show ?thesis by (simp add: none(3) table_simps activated_def)
  next
    case old
    let ?t = "modify k (expired before) (compensations s)"
    note a = active_compensation_Some [OF old(1)]
    have k: "get (compensations s) k = Some old" using in_set_get [OF d a(1)] .
    have dt: "distinct (keys ?t)" and ct: "get ?t i = Some c" using d c old(2) by (simp_all add: table_simps)
    have "length (active_compensations ?t (cmp_employee_id c)) < length (active_compensations (compensations s) (cmp_employee_id c))"
      using k a by (intro active_modify_less [OF d k]) (simp_all add: is_active_of_def expired_def)
    moreover have "length (active_compensations ?t e) \<le> length (active_compensations (compensations s) e)"
      by (rule active_modify_le [OF _ d]) (simp add: is_active_of_def expired_def)
    ultimately have "one_active (?g ?t) e"
      using active_modify_Suc [OF dt, of i "activated user now" e] other [OF ct dt, of e] one [of e]
      by (cases "e = cmp_employee_id c") (simp_all add: one_active_def)
    with ct c(2) show ?thesis by (simp add: old(4) table_simps activated_def)
  qed
  then show "one_active (compensations s') e"
    "\<exists>c. get (compensations s') i = Some c \<and> cmp_status c = CActive \<and> \<not> cmp_is_deleted c" by simp_all
qed

end
