(* ===== verification/SalaryStructures.thy ===== *)
theory SalaryStructures
  imports Compensations
begin

text \<open>
  \<open>SalaryComponentService\<close> (\<^verbatim>\<open>src/app/services/salary_component.py\<close>) and \<open>SalaryStructureService\<close>
  (\<^verbatim>\<open>src/app/services/salary_structure.py\<close>): the components of pay and the structures that group them. In an
  update a field is absent, null or a value; a column that is not nullable refuses a null.
\<close>

section \<open>Components\<close>

record component_create =
  kc_code :: string
  kc_name :: string
  kc_description :: "string option"
  kc_type :: string
  kc_method :: string
  kc_default :: rat
  kc_percentage :: "rat option"
  kc_taxable :: bool
  kc_pf :: bool
  kc_esi :: bool
  kc_is_active :: bool
  kc_order :: int

definition validate_calculation_rules :: "string \<Rightarrow> rat \<Rightarrow> rat option \<Rightarrow> bool" where
  "validate_calculation_rules method dflt pct =
     (if method = ''Percentage'' then (case pct of None \<Rightarrow> False | Some x \<Rightarrow> 0 < x \<and> x \<le> 100)
      else if method = ''Fixed'' then 0 \<le> dflt
      else True)"

definition create_component :: "(nat \<Rightarrow> decimal \<Rightarrow> decimal) \<Rightarrow> pay \<Rightarrow> component_create \<Rightarrow> uuid option \<Rightarrow> (uuid \<times> pay) result" where
  "create_component rnd s d user =
     (if exists_where (\<lambda>c. sc_code c = kc_code d) (salary_components s) then Inl (ApnaError ''DUPLICATE_COMPONENT_CODE'')
      else if exists_where (\<lambda>c. sc_name c = kc_name d) (salary_components s) then Inl (ApnaError ''DUPLICATE_COMPONENT_NAME'')
      else if exists_where (\<lambda>c. sc_order c = kc_order d) (salary_components s) then Inl (ApnaError ''DUPLICATE_DISPLAY_ORDER'')
      else if \<not> validate_calculation_rules (kc_method d) (kc_default d) (kc_percentage d)
        then Inl (ApnaError ''INVALID_CALCULATION_METHOD_CONFIG'')
      else Inr (pay_next s, pay_emit (Audit ''CREATE'' ''SalaryComponent'' (pay_next s)
          # audit_by user ''SALARY_COMPONENT_CREATE'' ''SalaryComponent'' (pay_next s) @ [Notify ''CREATED'' (pay_next s)])
        (s\<lparr>salary_components := add_row (pay_next s)
             \<lparr>sc_code = kc_code d, sc_name = kc_name d, sc_description = kc_description d, sc_type = kc_type d,
              sc_method = kc_method d, sc_default = stored rnd (kc_default d),
              sc_percentage = map_option (stored rnd) (kc_percentage d), sc_taxable = kc_taxable d, sc_pf = kc_pf d,
              sc_esi = kc_esi d, sc_is_active = kc_is_active d, sc_order = kc_order d, sc_is_deleted = False\<rparr>
             (salary_components s),
           pay_next := pay_next s + 1\<rparr>)))"

record component_update =
  ku_name :: "string option option"
  ku_description :: "string option option"
  ku_type :: "string option option"
  ku_method :: "string option option"
  ku_default :: "rat option option"
  ku_percentage :: "rat option option"
  ku_taxable :: "bool option option"
  ku_pf :: "bool option option"
  ku_esi :: "bool option option"
  ku_is_active :: "bool option option"
  ku_order :: "int option option"

definition sent :: "'a option option \<Rightarrow> 'a \<Rightarrow> 'a" where
  "sent u x = (case u of Some (Some v) \<Rightarrow> v | _ \<Rightarrow> x)"

definition component_nulls :: "component_update \<Rightarrow> bool" where
  "component_nulls d = (ku_name d = Some None \<or> ku_type d = Some None \<or> ku_method d = Some None \<or> ku_default d = Some None
     \<or> ku_taxable d = Some None \<or> ku_pf d = Some None \<or> ku_esi d = Some None \<or> ku_is_active d = Some None \<or> ku_order d = Some None)"

text \<open>A percentage of zero reads as none, and a null reads as the percentage there is.\<close>

definition effective_percentage :: "component_update \<Rightarrow> salary_component \<Rightarrow> rat option" where
  "effective_percentage d c =
     (case ku_percentage d of Some (Some x) \<Rightarrow> Some x
      | _ \<Rightarrow> if sc_percentage c = Some 0 then None else map_option fl (sc_percentage c))"

definition update_component :: "(nat \<Rightarrow> decimal \<Rightarrow> decimal) \<Rightarrow> pay \<Rightarrow> uuid \<Rightarrow> component_update \<Rightarrow> uuid option \<Rightarrow> pay result" where
  "update_component rnd s i d user =
     (case live sc_is_deleted (salary_components s) i of
        None \<Rightarrow> Inl (ApnaError ''COMPONENT_NOT_FOUND'')
      | Some c \<Rightarrow>
        let name = sent (ku_name d) (sc_name c); order = sent (ku_order d) (sc_order c)
        in if name \<noteq> sc_name c \<and> exists_where (\<lambda>x. sc_name x = name) (salary_components s)
             then Inl (ApnaError ''DUPLICATE_COMPONENT_NAME'')
           else if order \<noteq> sc_order c \<and> exists_where (\<lambda>x. sc_order x = order) (salary_components s)
             then Inl (ApnaError ''DUPLICATE_DISPLAY_ORDER'')
           else if \<not> validate_calculation_rules (sent (ku_method d) (sc_method c)) (sent (ku_default d) (fl (sc_default c)))
               (effective_percentage d c)
             then Inl (ApnaError ''INVALID_CALCULATION_METHOD_CONFIG'')
           else if component_nulls d then Inl (IntegrityErr ''salary_components'')
           else Inr (pay_emit (Audit ''UPDATE'' ''SalaryComponent'' i
               # audit_by user ''SALARY_COMPONENT_UPDATE'' ''SalaryComponent'' i @ [Notify ''UPDATED'' i])
             (s\<lparr>salary_components := modify i (\<lambda>c. c\<lparr>sc_name := name, sc_description := given_or (ku_description d) (sc_description c),
                  sc_type := sent (ku_type d) (sc_type c), sc_method := sent (ku_method d) (sc_method c),
                  sc_default := given_stored rnd (ku_default d) (sc_default c),
                  sc_percentage := (case ku_percentage d of None \<Rightarrow> sc_percentage c | Some v \<Rightarrow> map_option (stored rnd) v),
                  sc_taxable := sent (ku_taxable d) (sc_taxable c), sc_pf := sent (ku_pf d) (sc_pf c),
                  sc_esi := sent (ku_esi d) (sc_esi c), sc_is_active := sent (ku_is_active d) (sc_is_active c),
                  sc_order := order\<rparr>) (salary_components s)\<rparr>)))"

definition delete_component :: "pay \<Rightarrow> uuid \<Rightarrow> uuid option \<Rightarrow> pay result" where
  "delete_component s i user =
     (case live sc_is_deleted (salary_components s) i of
        None \<Rightarrow> Inl (ApnaError ''COMPONENT_NOT_FOUND'')
      | Some c \<Rightarrow> Inr (pay_emit (Audit ''SOFT_DELETE'' ''SalaryComponent'' i
            # audit_by user ''SALARY_COMPONENT_DELETE'' ''SalaryComponent'' i @ [Notify ''DELETED'' i])
          (s\<lparr>salary_components := modify i (\<lambda>c. c\<lparr>sc_is_deleted := True\<rparr>) (salary_components s)\<rparr>)))"

definition restore_component :: "pay \<Rightarrow> uuid \<Rightarrow> uuid option \<Rightarrow> pay result" where
  "restore_component s i user =
     (case get (salary_components s) i of
        None \<Rightarrow> Inl (ApnaError ''COMPONENT_NOT_FOUND'')
      | Some c \<Rightarrow> Inr (pay_emit (audit_by user ''SALARY_COMPONENT_RESTORE'' ''SalaryComponent'' i @ [Notify ''RESTORED'' i])
          (s\<lparr>salary_components := modify i (\<lambda>c. c\<lparr>sc_is_deleted := False\<rparr>) (salary_components s)\<rparr>)))"

section \<open>Structures\<close>

record structure_create =
  tc_code :: string
  tc_name :: string
  tc_description :: "string option"
  tc_currency :: string
  tc_is_active :: bool
  tc_from :: date
  tc_to :: "date option"

definition create_structure :: "pay \<Rightarrow> structure_create \<Rightarrow> uuid option \<Rightarrow> (uuid \<times> pay) result" where
  "create_structure s d user =
     (if exists_where (\<lambda>c. st_code c = tc_code d) (salary_structures s) then Inl (ApnaError ''DUPLICATE_STRUCTURE_CODE'')
      else if exists_where (\<lambda>c. st_name c = tc_name d) (salary_structures s) then Inl (ApnaError ''DUPLICATE_STRUCTURE_NAME'')
      else if bad_range (tc_from d) (tc_to d) then Inl (ApnaError ''INVALID_DATE_RANGE'')
      else Inr (pay_next s, pay_emit (Audit ''CREATE'' ''SalaryStructure'' (pay_next s)
          # audit_by user ''SALARY_STRUCTURE_CREATE'' ''SalaryStructure'' (pay_next s) @ [Notify ''CREATED'' (pay_next s)])
        (s\<lparr>salary_structures := add_row (pay_next s)
             \<lparr>st_code = tc_code d, st_name = tc_name d, st_description = tc_description d, st_currency = tc_currency d,
              st_is_active = tc_is_active d, st_from = tc_from d, st_to = tc_to d, st_is_deleted = False\<rparr>
             (salary_structures s),
           pay_next := pay_next s + 1\<rparr>)))"

record structure_update =
  tu_name :: "string option option"
  tu_description :: "string option option"
  tu_currency :: "string option option"
  tu_is_active :: "bool option option"
  tu_from :: "date option option"
  tu_to :: "date option option"

definition update_structure :: "pay \<Rightarrow> uuid \<Rightarrow> structure_update \<Rightarrow> uuid option \<Rightarrow> pay result" where
  "update_structure s i d user =
     (case live st_is_deleted (salary_structures s) i of
        None \<Rightarrow> Inl (ApnaError ''STRUCTURE_NOT_FOUND'')
      | Some c \<Rightarrow>
        let name = sent (tu_name d) (st_name c)
        in if name \<noteq> st_name c \<and> exists_where (\<lambda>x. st_name x = name) (salary_structures s)
             then Inl (ApnaError ''DUPLICATE_STRUCTURE_NAME'')
           else if bad_range (sent (tu_from d) (st_from c)) (case tu_to d of Some (Some t) \<Rightarrow> Some t | _ \<Rightarrow> st_to c)
             then Inl (ApnaError ''INVALID_DATE_RANGE'')
           else if tu_name d = Some None \<or> tu_currency d = Some None \<or> tu_is_active d = Some None \<or> tu_from d = Some None
             then Inl (IntegrityErr ''salary_structures'')
           else Inr (pay_emit (Audit ''UPDATE'' ''SalaryStructure'' i
               # audit_by user ''SALARY_STRUCTURE_UPDATE'' ''SalaryStructure'' i @ [Notify ''UPDATED'' i])
             (s\<lparr>salary_structures := modify i (\<lambda>c. c\<lparr>st_name := name, st_description := given_or (tu_description d) (st_description c),
                  st_currency := sent (tu_currency d) (st_currency c), st_is_active := sent (tu_is_active d) (st_is_active c),
                  st_from := sent (tu_from d) (st_from c), st_to := given_or (tu_to d) (st_to c)\<rparr>) (salary_structures s)\<rparr>)))"

definition delete_structure :: "pay \<Rightarrow> uuid \<Rightarrow> uuid option \<Rightarrow> pay result" where
  "delete_structure s i user =
     (case live st_is_deleted (salary_structures s) i of
        None \<Rightarrow> Inl (ApnaError ''STRUCTURE_NOT_FOUND'')
      | Some c \<Rightarrow> Inr (pay_emit (Audit ''SOFT_DELETE'' ''SalaryStructure'' i
            # audit_by user ''SALARY_STRUCTURE_DELETE'' ''SalaryStructure'' i @ [Notify ''DELETED'' i])
          (s\<lparr>salary_structures := modify i (\<lambda>c. c\<lparr>st_is_deleted := True\<rparr>) (salary_structures s)\<rparr>)))"

definition restore_structure :: "pay \<Rightarrow> uuid \<Rightarrow> uuid option \<Rightarrow> pay result" where
  "restore_structure s i user =
     (case get (salary_structures s) i of
        None \<Rightarrow> Inl (ApnaError ''STRUCTURE_NOT_FOUND'')
      | Some c \<Rightarrow> Inr (pay_emit (audit_by user ''SALARY_STRUCTURE_RESTORE'' ''SalaryStructure'' i @ [Notify ''RESTORED'' i])
          (s\<lparr>salary_structures := modify i (\<lambda>c. c\<lparr>st_is_deleted := False\<rparr>) (salary_structures s)\<rparr>)))"

record mapping_create =
  mc_component_id :: uuid
  mc_order :: int
  mc_value :: rat
  mc_override :: "string option"
  mc_is_active :: bool

definition add_component_to_structure ::
  "(nat \<Rightarrow> decimal \<Rightarrow> decimal) \<Rightarrow> pay \<Rightarrow> uuid \<Rightarrow> mapping_create \<Rightarrow> uuid option \<Rightarrow> (uuid \<times> pay) result" where
  "add_component_to_structure rnd s i d user =
     (if live st_is_deleted (salary_structures s) i = None then Inl (ApnaError ''STRUCTURE_NOT_FOUND'')
      else if live sc_is_deleted (salary_components s) (mc_component_id d) = None then Inl (ApnaError ''COMPONENT_NOT_FOUND'')
      else if exists_where (\<lambda>x. stc_structure_id x = i \<and> stc_component_id x = mc_component_id d) (structure_components s)
        then Inl (ApnaError ''DUPLICATE_STRUCTURE_COMPONENT'')
      else Inr (pay_next s, pay_emit (Audit ''CREATE'' ''SalaryStructureComponent'' (pay_next s)
          # audit_by user ''SALARY_STRUCTURE_COMPONENT_ADD'' ''SalaryStructureComponent'' (pay_next s))
        (s\<lparr>structure_components := add_row (pay_next s)
             \<lparr>stc_structure_id = i, stc_component_id = mc_component_id d, stc_order = mc_order d,
              stc_value = stored rnd (mc_value d), stc_override = mc_override d, stc_is_active = mc_is_active d\<rparr>
             (structure_components s),
           pay_next := pay_next s + 1\<rparr>)))"

record mapping_update =
  mu_order :: "int option option"
  mu_value :: "rat option option"
  mu_override :: "string option option"
  mu_is_active :: "bool option option"

definition mapping_in :: "pay \<Rightarrow> uuid \<Rightarrow> uuid \<Rightarrow> bool" where
  "mapping_in s i j = (case get (structure_components s) j of None \<Rightarrow> False | Some x \<Rightarrow> stc_structure_id x = i)"

definition update_structure_component ::
  "(nat \<Rightarrow> decimal \<Rightarrow> decimal) \<Rightarrow> pay \<Rightarrow> uuid \<Rightarrow> uuid \<Rightarrow> mapping_update \<Rightarrow> uuid option \<Rightarrow> pay result" where
  "update_structure_component rnd s i j d user =
     (if \<not> mapping_in s i j then Inl (ApnaError ''STRUCTURE_COMPONENT_NOT_FOUND'')
      else if mu_order d = Some None \<or> mu_value d = Some None \<or> mu_is_active d = Some None
        then Inl (IntegrityErr ''salary_structure_components'')
      else Inr (pay_emit (Audit ''UPDATE'' ''SalaryStructureComponent'' j
          # audit_by user ''SALARY_STRUCTURE_COMPONENT_UPDATE'' ''SalaryStructureComponent'' j)
        (s\<lparr>structure_components := modify j (\<lambda>x. x\<lparr>stc_order := sent (mu_order d) (stc_order x),
             stc_value := given_stored rnd (mu_value d) (stc_value x), stc_override := given_or (mu_override d) (stc_override x),
             stc_is_active := sent (mu_is_active d) (stc_is_active x)\<rparr>) (structure_components s)\<rparr>)))"

definition remove_component_from_structure :: "pay \<Rightarrow> uuid \<Rightarrow> uuid \<Rightarrow> uuid option \<Rightarrow> pay result" where
  "remove_component_from_structure s i j user =
     (if \<not> mapping_in s i j then Inl (ApnaError ''STRUCTURE_COMPONENT_NOT_FOUND'')
      else Inr (pay_emit (audit_by user ''SALARY_STRUCTURE_COMPONENT_REMOVE'' ''SalaryStructureComponent'' j)
        (s\<lparr>structure_components := remove_row j (structure_components s)\<rparr>)))"

end
