(* ===== verification/Statutory.thy ===== *)
theory Statutory
  imports SalaryStructures
begin

text \<open>
  \<open>StatutoryComplianceService\<close> (\<^verbatim>\<open>src/app/services/statutory_compliance.py\<close>): countries, statutory rules with their
  slabs, the profile of an employee, and the calculation of the deductions. The repositories' queries are those of
  \<^verbatim>\<open>src/app/repositories/statutory_rule.py\<close>, \<^verbatim>\<open>country.py\<close> and \<^verbatim>\<open>employee_statutory_profile.py\<close>. Generation of payroll
  does not call the calculation.
\<close>

section \<open>Countries\<close>

definition create_country :: "pay \<Rightarrow> country \<Rightarrow> (uuid \<times> pay) result" where
  "create_country s d =
     (if exists_where (\<lambda>c. py_upper (cn_code c) = py_upper (cn_code d)) (countries s)
        then Inl (DuplicateResourceException ''Country'')
      else Inr (pay_next s, pay_emit [Audit ''COUNTRY_CREATE'' ''Country'' (pay_next s)]
        (s\<lparr>countries := add_row (pay_next s) (d\<lparr>cn_code := py_upper (cn_code d), cn_currency := py_upper (cn_currency d)\<rparr>)
             (countries s),
           pay_next := pay_next s + 1\<rparr>)))"

text \<open>In the updates of this service a null is the same as no value.\<close>

definition update_country :: "pay \<Rightarrow> uuid \<Rightarrow> string option \<Rightarrow> string option \<Rightarrow> bool option \<Rightarrow> pay result" where
  "update_country s i name currency active =
     (case get (countries s) i of
        None \<Rightarrow> Inl (NotFoundException ''Country'')
      | Some c \<Rightarrow> Inr (pay_emit [Audit ''COUNTRY_UPDATE'' ''Country'' i]
          (s\<lparr>countries := modify i (\<lambda>c. c\<lparr>cn_name := given_or name (cn_name c),
             cn_currency := (case currency of None \<Rightarrow> cn_currency c | Some x \<Rightarrow> py_upper x),
             cn_is_active := given_or active (cn_is_active c)\<rparr>) (countries s)\<rparr>)))"

text \<open>Deleting a country sets the country of its rules and profiles to null, which their columns refuse; a rule
  that is only marked deleted counts.\<close>

definition delete_country :: "pay \<Rightarrow> uuid \<Rightarrow> pay result" where
  "delete_country s i =
     (case get (countries s) i of
        None \<Rightarrow> Inl (NotFoundException ''Country'')
      | Some c \<Rightarrow>
        if exists_where (\<lambda>r. sr_country_id r = i) (statutory_rules s) \<or> exists_where (\<lambda>p. sp_country_id p = i) (statutory_profiles s)
          then Inl (IntegrityErr ''country_id'')
        else Inr (pay_emit [Audit ''DELETE'' ''Country'' i, Audit ''COUNTRY_DELETE'' ''Country'' i]
          (s\<lparr>countries := remove_row i (countries s)\<rparr>)))"

section \<open>Rules and slabs\<close>

record slab_create =
  bc_min :: rat
  bc_max :: "rat option"
  bc_percentage :: rat
  bc_fixed :: rat
  bc_sequence :: int

record rule_create =
  rl_code :: string
  rl_name :: string
  rl_country_id :: uuid
  rl_type :: string
  rl_method :: string
  rl_from :: date
  rl_to :: "date option"
  rl_is_active :: bool
  rl_priority :: int
  rl_description :: "string option"
  rl_slabs :: "slab_create list"

definition bad_slab :: "rat \<Rightarrow> rat option \<Rightarrow> bool" where
  "bad_slab lo hi = (case hi of None \<Rightarrow> False | Some h \<Rightarrow> h < lo)"

definition new_slab :: "(nat \<Rightarrow> decimal \<Rightarrow> decimal) \<Rightarrow> uuid \<Rightarrow> slab_create \<Rightarrow> rule_slab" where
  "new_slab rnd r d = \<lparr>sl_rule_id = r, sl_min = stored rnd (bc_min d), sl_max = map_option (stored rnd) (bc_max d),
     sl_percentage = stored rnd (bc_percentage d), sl_fixed = stored rnd (bc_fixed d), sl_sequence = bc_sequence d\<rparr>"

text \<open>The initial slabs are only checked one by one.\<close>

definition add_slab_row :: "(nat \<Rightarrow> decimal \<Rightarrow> decimal) \<Rightarrow> uuid \<Rightarrow> slab_create \<Rightarrow> pay \<Rightarrow> pay result" where
  "add_slab_row rnd r d s =
     (if bad_slab (bc_min d) (bc_max d) then Inl (ValidationException ''Slab max_amount cannot be less than min_amount'')
      else Inr (s\<lparr>rule_slabs := add_row (pay_next s) (new_slab rnd r d) (rule_slabs s), pay_next := pay_next s + 1\<rparr>))"

definition rule_of :: "pay \<Rightarrow> uuid \<Rightarrow> statutory_rule option" where
  "rule_of s i = live sr_is_deleted (statutory_rules s) i"

definition rule_row :: "rule_create \<Rightarrow> statutory_rule" where
  "rule_row d = \<lparr>sr_code = py_upper (rl_code d), sr_name = rl_name d, sr_country_id = rl_country_id d, sr_type = rl_type d,
     sr_method = rl_method d, sr_from = rl_from d, sr_to = rl_to d, sr_is_active = rl_is_active d,
     sr_priority = rl_priority d, sr_description = rl_description d, sr_is_deleted = False\<rparr>"

definition create_rule :: "(nat \<Rightarrow> decimal \<Rightarrow> decimal) \<Rightarrow> pay \<Rightarrow> rule_create \<Rightarrow> (uuid \<times> pay) result" where
  "create_rule rnd s d =
     (if get (countries s) (rl_country_id d) = None then Inl (NotFoundException ''Country'')
      else if exists_where (\<lambda>r. py_upper (sr_code r) = py_upper (rl_code d) \<and> \<not> sr_is_deleted r) (statutory_rules s)
        then Inl (DuplicateResourceException ''StatutoryRule'')
      else if bad_range (rl_from d) (rl_to d) then Inl (ValidationException ''effective_to cannot be earlier than effective_from'')
      else if exists_where (\<lambda>r. sr_code r = py_upper (rl_code d)) (statutory_rules s) then Inl (IntegrityErr ''rule_code'')
      else let i = pay_next s;
               s1 = s\<lparr>statutory_rules := add_row i (rule_row d) (statutory_rules s), pay_next := i + 1\<rparr>
           in case fold_res (add_slab_row rnd i) (rl_slabs d) s1 of
                Inl x \<Rightarrow> Inl x
              | Inr s2 \<Rightarrow> Inr (i, pay_emit [Notify ''CREATED'' i, Audit ''STATUTORY_RULE_CREATE'' ''StatutoryRule'' i] s2))"

record rule_update =
  rv_name :: "string option"
  rv_from :: "date option"
  rv_to :: "date option"
  rv_is_active :: "bool option"
  rv_priority :: "int option"
  rv_description :: "string option"

definition update_rule :: "pay \<Rightarrow> uuid \<Rightarrow> rule_update \<Rightarrow> pay result" where
  "update_rule s i d =
     (case rule_of s i of
        None \<Rightarrow> Inl (NotFoundException ''StatutoryRule'')
      | Some r \<Rightarrow>
        let from = given_or (rv_from d) (sr_from r); to = (case rv_to d of None \<Rightarrow> sr_to r | Some t \<Rightarrow> Some t)
        in if bad_range from to then Inl (ValidationException ''effective_to cannot be earlier than effective_from'')
           else Inr (pay_emit [Notify ''UPDATED'' i, Audit ''STATUTORY_RULE_UPDATE'' ''StatutoryRule'' i]
             (s\<lparr>statutory_rules := modify i (\<lambda>r. r\<lparr>sr_name := given_or (rv_name d) (sr_name r), sr_from := from, sr_to := to,
                  sr_is_active := given_or (rv_is_active d) (sr_is_active r), sr_priority := given_or (rv_priority d) (sr_priority r),
                  sr_description := (case rv_description d of None \<Rightarrow> sr_description r | Some x \<Rightarrow> Some x)\<rparr>)
                (statutory_rules s)\<rparr>)))"

definition delete_rule :: "pay \<Rightarrow> uuid \<Rightarrow> pay result" where
  "delete_rule s i =
     (case rule_of s i of
        None \<Rightarrow> Inl (NotFoundException ''StatutoryRule'')
      | Some r \<Rightarrow> Inr (pay_emit [Audit ''SOFT_DELETE'' ''StatutoryRule'' i, Notify ''DELETED'' i,
            Audit ''STATUTORY_RULE_DELETE'' ''StatutoryRule'' i]
          (s\<lparr>statutory_rules := modify i (\<lambda>r. r\<lparr>sr_is_deleted := True\<rparr>) (statutory_rules s)\<rparr>)))"

definition slabs_of :: "pay \<Rightarrow> uuid \<Rightarrow> rule_slab list" where
  "slabs_of s r = map snd (sort_key (\<lambda>(k, x). sl_sequence x) (filter (\<lambda>(k, x). sl_rule_id x = r) (rule_slabs s)))"

text \<open>Both ends belong to a slab; the amounts are compared as floats and an open end is infinite.\<close>

definition slab_overlaps :: "rule_slab \<Rightarrow> rat \<Rightarrow> rat option \<Rightarrow> bool" where
  "slab_overlaps x lo hi =
     ((case hi of None \<Rightarrow> True | Some h \<Rightarrow> fl (sl_min x) \<le> h) \<and> (case sl_max x of None \<Rightarrow> True | Some m \<Rightarrow> lo \<le> fl m))"

definition add_rule_slab :: "(nat \<Rightarrow> decimal \<Rightarrow> decimal) \<Rightarrow> pay \<Rightarrow> uuid \<Rightarrow> slab_create \<Rightarrow> (uuid \<times> pay) result" where
  "add_rule_slab rnd s r d =
     (if rule_of s r = None then Inl (NotFoundException ''StatutoryRule'')
      else if bad_slab (bc_min d) (bc_max d) then Inl (ValidationException ''Slab max_amount cannot be less than min_amount'')
      else if list_ex (\<lambda>x. slab_overlaps x (bc_min d) (bc_max d)) (slabs_of s r)
        then Inl (ValidationException ''Slab boundary overlaps with existing slab'')
      else Inr (pay_next s, pay_emit [Audit ''STATUTORY_SLAB_CREATE'' ''StatutoryRuleSlab'' (pay_next s)]
        (s\<lparr>rule_slabs := add_row (pay_next s) (new_slab rnd r d) (rule_slabs s), pay_next := pay_next s + 1\<rparr>)))"

record slab_update =
  bu_min :: "rat option"
  bu_max :: "rat option"
  bu_percentage :: "rat option"
  bu_fixed :: "rat option"
  bu_sequence :: "int option"

text \<open>An update does not look at the other slabs.\<close>

definition update_rule_slab :: "(nat \<Rightarrow> decimal \<Rightarrow> decimal) \<Rightarrow> pay \<Rightarrow> uuid \<Rightarrow> slab_update \<Rightarrow> pay result" where
  "update_rule_slab rnd s i d =
     (case get (rule_slabs s) i of
        None \<Rightarrow> Inl (NotFoundException ''StatutoryRuleSlab'')
      | Some x \<Rightarrow>
        let lo = given_or (bu_min d) (fl (sl_min x)); hi = (case bu_max d of None \<Rightarrow> map_option fl (sl_max x) | Some h \<Rightarrow> Some h);
            put = (\<lambda>u v. case u of None \<Rightarrow> v | Some w \<Rightarrow> stored rnd w)
        in if bad_slab lo hi then Inl (ValidationException ''Slab max_amount cannot be less than min_amount'')
           else Inr (pay_emit [Audit ''STATUTORY_SLAB_UPDATE'' ''StatutoryRuleSlab'' i]
             (s\<lparr>rule_slabs := modify i (\<lambda>x. x\<lparr>sl_min := put (bu_min d) (sl_min x),
                  sl_max := (case bu_max d of None \<Rightarrow> sl_max x | Some h \<Rightarrow> Some (stored rnd h)),
                  sl_percentage := put (bu_percentage d) (sl_percentage x), sl_fixed := put (bu_fixed d) (sl_fixed x),
                  sl_sequence := given_or (bu_sequence d) (sl_sequence x)\<rparr>) (rule_slabs s)\<rparr>)))"

definition delete_rule_slab :: "pay \<Rightarrow> uuid \<Rightarrow> pay result" where
  "delete_rule_slab s i =
     (case get (rule_slabs s) i of
        None \<Rightarrow> Inl (NotFoundException ''StatutoryRuleSlab'')
      | Some x \<Rightarrow> Inr (pay_emit [Audit ''DELETE'' ''StatutoryRuleSlab'' i, Audit ''STATUTORY_SLAB_DELETE'' ''StatutoryRuleSlab'' i]
          (s\<lparr>rule_slabs := remove_row i (rule_slabs s)\<rparr>)))"

section \<open>Profiles\<close>

definition active_profile :: "pay \<Rightarrow> uuid \<Rightarrow> date \<Rightarrow> (uuid \<times> statutory_profile) option" where
  "active_profile s e on =
     (case sort_key (\<lambda>(k, p). - toordinal (sp_from p))
        (filter (\<lambda>(k, p). sp_employee_id p = e \<and> sp_is_active p \<and> sp_from p \<le> on \<and> (case sp_to p of None \<Rightarrow> True | Some t \<Rightarrow> on \<le> t))
          (statutory_profiles s))
      of [] \<Rightarrow> None | x # xs \<Rightarrow> Some x)"

definition assign_employee_profile :: "pay \<Rightarrow> statutory_profile \<Rightarrow> (uuid \<times> pay) result" where
  "assign_employee_profile s d =
     (if employee_of (hrs s) (sp_employee_id d) = None then Inl (NotFoundException ''Employee'')
      else if get (countries s) (sp_country_id d) = None then Inl (NotFoundException ''Country'')
      else if bad_range (sp_from d) (sp_to d) then Inl (ValidationException ''effective_to cannot be earlier than effective_from'')
      else let t = (if \<not> sp_is_active d then statutory_profiles s
             else case active_profile s (sp_employee_id d) (sp_from d) of
                 None \<Rightarrow> statutory_profiles s
               | Some (k, p) \<Rightarrow> modify k (\<lambda>p. p\<lparr>sp_is_active := False, sp_to := Some (sp_from d)\<rparr>) (statutory_profiles s))
           in Inr (pay_next s, pay_emit [Audit ''STATUTORY_PROFILE_CREATE'' ''EmployeeStatutoryProfile'' (pay_next s)]
             (s\<lparr>statutory_profiles := add_row (pay_next s) d t, pay_next := pay_next s + 1\<rparr>)))"

record profile_update =
  pv_pf :: "bool option"
  pv_esi :: "bool option"
  pv_professional_tax :: "bool option"
  pv_income_tax :: "bool option"
  pv_tax_number :: "string option"
  pv_pf_number :: "string option"
  pv_esi_number :: "string option"
  pv_from :: "date option"
  pv_to :: "date option"
  pv_is_active :: "bool option"

definition or_else :: "'a option \<Rightarrow> 'a option \<Rightarrow> 'a option" where
  "or_else u v = (case u of None \<Rightarrow> v | Some x \<Rightarrow> Some x)"

definition update_employee_profile :: "pay \<Rightarrow> uuid \<Rightarrow> profile_update \<Rightarrow> pay result" where
  "update_employee_profile s i d =
     (case get (statutory_profiles s) i of
        None \<Rightarrow> Inl (NotFoundException ''EmployeeStatutoryProfile'')
      | Some p \<Rightarrow>
        let from = given_or (pv_from d) (sp_from p); to = or_else (pv_to d) (sp_to p)
        in if bad_range from to then Inl (ValidationException ''effective_to cannot be earlier than effective_from'')
           else Inr (pay_emit [Audit ''STATUTORY_PROFILE_UPDATE'' ''EmployeeStatutoryProfile'' i]
             (s\<lparr>statutory_profiles := modify i (\<lambda>p. p\<lparr>sp_pf := given_or (pv_pf d) (sp_pf p), sp_esi := given_or (pv_esi d) (sp_esi p),
                  sp_professional_tax := given_or (pv_professional_tax d) (sp_professional_tax p),
                  sp_income_tax := given_or (pv_income_tax d) (sp_income_tax p),
                  sp_tax_number := or_else (pv_tax_number d) (sp_tax_number p),
                  sp_pf_number := or_else (pv_pf_number d) (sp_pf_number p),
                  sp_esi_number := or_else (pv_esi_number d) (sp_esi_number p), sp_from := from, sp_to := to,
                  sp_is_active := given_or (pv_is_active d) (sp_is_active p)\<rparr>) (statutory_profiles s)\<rparr>)))"

section \<open>The calculation\<close>

definition applicable_rules :: "pay \<Rightarrow> uuid \<Rightarrow> date \<Rightarrow> (uuid \<times> statutory_rule) list" where
  "applicable_rules s c on =
     sort_key (\<lambda>(k, r). sr_priority r)
       (filter (\<lambda>(k, r). sr_country_id r = c \<and> sr_is_active r \<and> \<not> sr_is_deleted r \<and> sr_from r \<le> on
          \<and> (case sr_to r of None \<Rightarrow> True | Some t \<Rightarrow> on \<le> t)) (statutory_rules s))"

definition rule_disabled :: "statutory_profile \<Rightarrow> statutory_rule \<Rightarrow> bool" where
  "rule_disabled p r =
     (sr_type r = ''Provident Fund'' \<and> \<not> sp_pf p \<or> sr_type r = ''ESI'' \<and> \<not> sp_esi p
      \<or> sr_type r = ''Professional Tax'' \<and> \<not> sp_professional_tax p \<or> sr_type r = ''Income Tax'' \<and> \<not> sp_income_tax p)"

definition in_slab :: "rat \<Rightarrow> rule_slab \<Rightarrow> bool" where
  "in_slab gross x = (fl (sl_min x) \<le> gross \<and> (case sl_max x of None \<Rightarrow> True | Some m \<Rightarrow> gross \<le> fl m))"

definition slab_amount :: "rat \<Rightarrow> rule_slab \<Rightarrow> rat" where
  "slab_amount gross x = round2 (fl (fl (sl_fixed x) + fl (fl (gross * fl (sl_percentage x)) / 100)))"

definition deduction_amount :: "string \<Rightarrow> rule_slab list \<Rightarrow> rat \<Rightarrow> rat" where
  "deduction_amount method xs gross =
     (if method = ''Fixed'' then (case xs of [] \<Rightarrow> 0 | x # _ \<Rightarrow> fl (sl_fixed x))
      else if method = ''Percentage''
        then (case xs of [] \<Rightarrow> 0 | x # _ \<Rightarrow> round2 (fl (fl (gross * fl (sl_percentage x)) / 100)))
      else if method = ''Slab'' then (case find (in_slab gross) xs of None \<Rightarrow> 0 | Some x \<Rightarrow> slab_amount gross x)
      else 0)"

definition rule_deductions :: "pay \<Rightarrow> statutory_profile \<Rightarrow> rat \<Rightarrow> date \<Rightarrow> (string \<times> rat) list" where
  "rule_deductions s p gross on =
     map (\<lambda>(k, r). (sr_code r, deduction_amount (sr_method r) (slabs_of s k) gross))
       (filter (\<lambda>(k, r). \<not> rule_disabled p r) (applicable_rules s (sp_country_id p) on))"

text \<open>The deductions by rule and their total, rounded.\<close>

definition calculate_statutory_deductions :: "pay \<Rightarrow> uuid \<Rightarrow> rat \<Rightarrow> date \<Rightarrow> (string \<times> rat) list \<times> rat" where
  "calculate_statutory_deductions s e gross on =
     (case active_profile s e on of
        None \<Rightarrow> ([], 0)
      | Some (k, p) \<Rightarrow> let ds = rule_deductions s p gross on in (ds, round2 (float_sum (map snd ds))))"

section \<open>Slabs that do not overlap\<close>

definition slab_disjoint :: "rule_slab \<Rightarrow> rule_slab \<Rightarrow> bool" where
  "slab_disjoint x y =
     ((case sl_max x of None \<Rightarrow> False | Some m \<Rightarrow> m < sl_min y) \<or> (case sl_max y of None \<Rightarrow> False | Some m \<Rightarrow> m < sl_min x))"

definition small :: "decimal \<Rightarrow> bool" where
  "small h = (hundredths h \<and> 0 \<le> h \<and> h \<le> 9000000)"

definition slab_small :: "rule_slab \<Rightarrow> bool" where
  "slab_small x = (small (sl_min x) \<and> (case sl_max x of None \<Rightarrow> True | Some m \<Rightarrow> small m))"

definition disjoint_slabs :: "rule_slab table \<Rightarrow> uuid \<Rightarrow> bool" where
  "disjoint_slabs t r =
     (\<forall>(i, x)\<in>set t. \<forall>(j, y)\<in>set t. i \<noteq> j \<longrightarrow> sl_rule_id x = r \<longrightarrow> sl_rule_id y = r \<longrightarrow> slab_disjoint x y)"

lemma fl_less:
  assumes "small a" and "small b"
  shows "fl a < fl b \<longleftrightarrow> a < b"
proof -
  have "\<bar>fl a - a\<bar> \<le> 1 / 100000000" "\<bar>fl b - b\<bar> \<le> 1 / 100000000"
    using assms by (intro fl_error_small; simp add: small_def)+
  moreover have "a = b \<or> 1 / 100 \<le> \<bar>a - b\<bar>"
    using assms hundredths_eq [of a b] by (fastforce simp: small_def)
  ultimately consider "a = b" | "a < b" "fl a < fl b" | "b < a" "fl b < fl a" by linarith
  then show ?thesis by cases simp_all
qed

lemma set_slabs_of: "x \<in> set (slabs_of s r) \<longleftrightarrow> (\<exists>k. (k, x) \<in> set (rule_slabs s) \<and> sl_rule_id x = r)"
proof -
  have "set (sort_key (\<lambda>(k, x). sl_sequence x) (filter (\<lambda>(k, x). sl_rule_id x = r) (rule_slabs s)))
      = set (filter (\<lambda>(k, x). sl_rule_id x = r) (rule_slabs s))" by (rule set_sort)
  then show ?thesis unfolding slabs_of_def by force
qed

lemma slab_overlaps_disjoint:
  assumes "slab_small x" and "small lo" and "\<And>h. hi = Some h \<Longrightarrow> small h"
    and y: "sl_min y = lo" "sl_max y = hi" and "\<not> slab_overlaps x (fl lo) (map_option fl hi)"
  shows "slab_disjoint x y"
proof -
  from assms(1) have x: "small (sl_min x)" "\<And>m. sl_max x = Some m \<Longrightarrow> small m" by (auto simp: slab_small_def)
  from assms(6) consider h where "hi = Some h" "fl h < fl (sl_min x)" | m where "sl_max x = Some m" "fl m < fl lo"
    by (auto simp: slab_overlaps_def not_le split: option.splits)
  then show ?thesis
  proof cases
    case (1 h)
    with fl_less [OF assms(3) x(1)] y show ?thesis by (simp add: slab_disjoint_def)
  next
    case (2 m)
    with fl_less [OF x(2) assms(2)] y show ?thesis by (simp add: slab_disjoint_def)
  qed
qed

lemma slab_disjoint_sym: "slab_disjoint x y = slab_disjoint y x"
  by (auto simp: slab_disjoint_def)

text \<open>At most one slab of a rule takes a salary.\<close>

lemma in_slab_unique:
  assumes "slab_small x" and "slab_small y" and "slab_disjoint x y" and "in_slab g x"
  shows "\<not> in_slab g y"
proof
  assume y: "in_slab g y"
  from assms(1,2) have s: "small (sl_min x)" "small (sl_min y)" "\<And>m. sl_max x = Some m \<Longrightarrow> small m" "\<And>m. sl_max y = Some m \<Longrightarrow> small m"
    by (auto simp: slab_small_def)
  from assms(3) consider m where "sl_max x = Some m" "m < sl_min y" | m where "sl_max y = Some m" "m < sl_min x"
    by (auto simp: slab_disjoint_def split: option.splits)
  then show False
  proof cases
    case (1 m)
    with fl_less [OF s(3) s(2)] have "fl m < fl (sl_min y)" by simp
    with 1 assms(4) y show ?thesis by (simp add: in_slab_def)
  next
    case (2 m)
    with fl_less [OF s(4) s(1)] have "fl m < fl (sl_min x)" by simp
    with 2 assms(4) y show ?thesis by (simp add: in_slab_def)
  qed
qed

end
