(* ===== verification/PayrollSystem.thy ===== *)
theory PayrollSystem
  imports PayrollClosing PayrollAmounts Statutory HrSystem
begin

text \<open>
  Payroll as a transition system: a step is one request to a payroll service, seen as what it leaves in the
  database, or a step of time and leave underneath. The requests come in four groups, of which the first two leave
  the tables of payroll itself alone. The invariant is the tables' unique columns; it also holds after a request
  that fails half-way.
\<close>

section \<open>Steps\<close>

text \<open>Components and structures.\<close>

inductive config_step :: "(nat \<Rightarrow> decimal \<Rightarrow> decimal) \<Rightarrow> pay \<Rightarrow> pay \<Rightarrow> bool" for rnd where
  new_component: "create_component rnd s kc user = Inr (i, s') \<Longrightarrow> config_step rnd s s'"
| edit_component: "update_component rnd s i ku user = Inr s' \<Longrightarrow> config_step rnd s s'"
| drop_component: "delete_component s i user = Inr s' \<Longrightarrow> config_step rnd s s'"
| back_component: "restore_component s i user = Inr s' \<Longrightarrow> config_step rnd s s'"
| new_structure: "create_structure s tc user = Inr (i, s') \<Longrightarrow> config_step rnd s s'"
| edit_structure: "update_structure s i tu user = Inr s' \<Longrightarrow> config_step rnd s s'"
| drop_structure: "delete_structure s i user = Inr s' \<Longrightarrow> config_step rnd s s'"
| back_structure: "restore_structure s i user = Inr s' \<Longrightarrow> config_step rnd s s'"
| new_mapping: "add_component_to_structure rnd s i mc user = Inr (j, s') \<Longrightarrow> config_step rnd s s'"
| edit_mapping: "update_structure_component rnd s i j mu user = Inr s' \<Longrightarrow> config_step rnd s s'"
| drop_mapping: "remove_component_from_structure s i j user = Inr s' \<Longrightarrow> config_step rnd s s'"

text \<open>Countries, statutory rules and profiles.\<close>

inductive statutory_step :: "(nat \<Rightarrow> decimal \<Rightarrow> decimal) \<Rightarrow> pay \<Rightarrow> pay \<Rightarrow> bool" for rnd where
  new_country: "create_country s cn = Inr (i, s') \<Longrightarrow> statutory_step rnd s s'"
| edit_country: "update_country s i name currency active = Inr s' \<Longrightarrow> statutory_step rnd s s'"
| drop_country: "delete_country s i = Inr s' \<Longrightarrow> statutory_step rnd s s'"
| new_rule: "create_rule rnd s rl = Inr (i, s') \<Longrightarrow> statutory_step rnd s s'"
| edit_rule: "update_rule s i rv = Inr s' \<Longrightarrow> statutory_step rnd s s'"
| drop_rule: "delete_rule s i = Inr s' \<Longrightarrow> statutory_step rnd s s'"
| new_slab: "add_rule_slab rnd s i bc = Inr (j, s') \<Longrightarrow> statutory_step rnd s s'"
| edit_slab: "update_rule_slab rnd s i bu = Inr s' \<Longrightarrow> statutory_step rnd s s'"
| drop_slab: "delete_rule_slab s i = Inr s' \<Longrightarrow> statutory_step rnd s s'"
| new_profile: "assign_employee_profile s sp = Inr (i, s') \<Longrightarrow> statutory_step rnd s s'"
| edit_profile: "update_employee_profile s i pv = Inr s' \<Longrightarrow> statutory_step rnd s s'"

inductive compensation_step :: "(nat \<Rightarrow> decimal \<Rightarrow> decimal) \<Rightarrow> pay \<Rightarrow> pay \<Rightarrow> bool" for rnd where
  assign_comp: "assign_compensation rnd s cc user = Inr (i, s') \<Longrightarrow> compensation_step rnd s s'"
| revise_comp: "revise_compensation rnd s i cc user = Inr (j, s') \<Longrightarrow> compensation_step rnd s s'"
| activate_comp: "activate_compensation s i user now = Inr s' \<Longrightarrow> compensation_step rnd s s'"
| cancel_comp: "cancel_compensation s i user = Inr s' \<Longrightarrow> compensation_step rnd s s'"
| edit_comp: "update_compensation rnd s i cu user = Inr s' \<Longrightarrow> compensation_step rnd s s'"
| drop_comp: "delete_compensation s i user = Inr s' \<Longrightarrow> compensation_step rnd s s'"
| back_comp: "restore_compensation s i user = Inr s' \<Longrightarrow> compensation_step rnd s s'"

inductive pay_step :: "(nat \<Rightarrow> decimal \<Rightarrow> decimal) \<Rightarrow> pay \<Rightarrow> pay \<Rightarrow> bool" for rnd where
  time_and_leave: "hr_step (hrs s) h \<Longrightarrow> pay_step rnd s (s\<lparr>hrs := h\<rparr>)"
| config: "config_step rnd s s' \<Longrightarrow> pay_step rnd s s'"
| statutory: "statutory_step rnd s s' \<Longrightarrow> pay_step rnd s s'"
| compensation: "compensation_step rnd s s' \<Longrightarrow> pay_step rnd s s'"
| new_period: "create_payroll_period s code from to user = Inr (i, s') \<Longrightarrow> pay_step rnd s s'"
| generate: "generate_payroll rnd s i user = (res, s') \<Longrightarrow> pay_step rnd s s'"
| approve: "approve_payroll s i user = Inr s' \<Longrightarrow> pay_step rnd s s'"
| lock_period: "lock_payroll_period s i user = Inr s' \<Longrightarrow> pay_step rnd s s'"
| new_run: "create_payroll_run s rn suffix = Inr (i, s') \<Longrightarrow> pay_step rnd s s'"
| start_run: "start_payroll_run s i user now = Inr s' \<Longrightarrow> pay_step rnd s s'"
| complete_run: "complete_payroll_run s i now = Inr s' \<Longrightarrow> pay_step rnd s s'"
| lock_run: "lock_payroll_run s i now = Inr s' \<Longrightarrow> pay_step rnd s s'"
| slips: "generate_payslips upload s i now = (res, s') \<Longrightarrow> pay_step rnd s s'"
| publish: "publish_payslips s i now = Inr s' \<Longrightarrow> pay_step rnd s s'"
| new_adjustment: "create_adjustment rnd s ac user = Inr (i, s') \<Longrightarrow> pay_step rnd s s'"
| edit_adjustment: "update_adjustment rnd s i au user = Inr s' \<Longrightarrow> pay_step rnd s s'"
| approve_adjust: "approve_adjustment s i u now = Inr s' \<Longrightarrow> pay_step rnd s s'"
| reject_adjust: "reject_adjustment s i = Inr s' \<Longrightarrow> pay_step rnd s s'"
| drop_adjustment: "delete_adjustment s i user = Inr s' \<Longrightarrow> pay_step rnd s s'"
| close: "close_payroll s i remarks u now = Inr s' \<Longrightarrow> pay_step rnd s s'"
| reopen: "reopen_payroll s i u now = Inr s' \<Longrightarrow> pay_step rnd s s'"
| archive: "archive_payroll s i = Inr s' \<Longrightarrow> pay_step rnd s s'"
| queue: "publish_financial_payload s i = Inr (j, s') \<Longrightarrow> pay_step rnd s s'"

definition pay_init :: "pay \<Rightarrow> bool" where
  "pay_init s = (compensations s = [] \<and> payroll_periods s = [] \<and> payroll_records s = [] \<and> payroll_runs s = []
     \<and> payslips s = [] \<and> pay_adjustments s = [] \<and> closings s = [])"

inductive pay_reachable :: "(nat \<Rightarrow> decimal \<Rightarrow> decimal) \<Rightarrow> pay \<Rightarrow> bool" for rnd where
  init: "pay_init s \<Longrightarrow> pay_reachable rnd s"
| step: "pay_reachable rnd s \<Longrightarrow> pay_step rnd s s' \<Longrightarrow> pay_reachable rnd s'"

section \<open>Which tables a request touches\<close>

lemmas component_handlers = create_component_def update_component_def delete_component_def restore_component_def
lemmas structure_handlers = create_structure_def update_structure_def delete_structure_def restore_structure_def
  add_component_to_structure_def update_structure_component_def remove_component_from_structure_def
lemmas country_handlers = create_country_def update_country_def delete_country_def
lemmas rule_handlers = update_rule_def delete_rule_def add_rule_slab_def update_rule_slab_def delete_rule_slab_def
  assign_employee_profile_def update_employee_profile_def
lemmas compensation_handlers = assign_compensation_def revise_compensation_def activate_compensation_def
  cancel_compensation_def update_compensation_def delete_compensation_def restore_compensation_def
lemmas period_handlers = create_payroll_period_def approve_payroll_def lock_payroll_period_def
lemmas run_handlers = create_payroll_run_def start_payroll_run_def complete_payroll_run_def lock_payroll_run_def
  publish_payslips_def update_run_def
lemmas adjustment_handlers = create_adjustment_def update_adjustment_def approve_adjustment_def reject_adjustment_def
  delete_adjustment_def set_adjustment_def
lemmas closing_handlers = close_payroll_def reopen_payroll_def archive_payroll_def publish_financial_payload_def

definition payroll_same :: "pay \<Rightarrow> pay \<Rightarrow> bool" where
  "payroll_same s s' =
     (payroll_periods s' = payroll_periods s \<and> payroll_records s' = payroll_records s \<and> payroll_runs s' = payroll_runs s \<and>
      payslips s' = payslips s \<and> pay_adjustments s' = pay_adjustments s \<and> closings s' = closings s \<and> pay_next s \<le> pay_next s')"

lemma config_step_same: "config_step rnd s s' \<Longrightarrow> payroll_same s s' \<and> compensations s' = compensations s"
  by (cases rule: config_step.cases)
    (auto simp: payroll_same_def component_handlers structure_handlers Let_def split: option.splits if_splits)

lemma add_slab_row_same: "add_slab_row rnd r d s = Inr s' \<Longrightarrow> payroll_same s s' \<and> compensations s' = compensations s"
  by (auto simp: add_slab_row_def payroll_same_def split: if_splits)

lemma create_rule_same:
  assumes "create_rule rnd s d = Inr (i, s')"
  shows "payroll_same s s' \<and> compensations s' = compensations s"
proof -
  let ?s1 = "s\<lparr>statutory_rules := add_row (pay_next s) (rule_row d) (statutory_rules s), pay_next := pay_next s + 1\<rparr>"
  from assms obtain s2 where s2: "fold_res (add_slab_row rnd (pay_next s)) (rl_slabs d) ?s1 = Inr s2"
      and s': "payroll_same s2 s'" "compensations s' = compensations s2"
    by (auto simp: create_rule_def Let_def payroll_same_def split: if_splits sum.splits)
  have "payroll_same ?s1 s2 \<and> compensations s2 = compensations ?s1"
    by (rule fold_res_invariant [OF _ s2, where I = "\<lambda>x. payroll_same ?s1 x \<and> compensations x = compensations ?s1"])
      (auto dest!: add_slab_row_same simp: payroll_same_def)
  with s' show ?thesis by (auto simp: payroll_same_def)
qed

lemma statutory_step_same: "statutory_step rnd s s' \<Longrightarrow> payroll_same s s' \<and> compensations s' = compensations s"
  by (cases rule: statutory_step.cases)
    (auto simp: payroll_same_def country_handlers rule_handlers Let_def split: option.splits if_splits
      dest: create_rule_same [unfolded payroll_same_def])

lemma compensation_step_same: "compensation_step rnd s s' \<Longrightarrow> payroll_same s s'"
  by (cases rule: compensation_step.cases)
    (auto simp: payroll_same_def compensation_handlers Let_def split: option.splits if_splits)

section \<open>The invariant\<close>

definition run_key :: "payroll_run \<Rightarrow> uuid \<times> string" where
  "run_key r = (ru_period_id r, ru_type r)"

definition pay_tables :: "pay \<Rightarrow> bool" where
  "pay_tables s =
     (wf_table (pay_next s) (compensations s) \<and> wf_table (pay_next s) (payroll_periods s) \<and> wf_table (pay_next s) (payroll_runs s) \<and>
      wf_table (pay_next s) (pay_adjustments s) \<and> wf_table (pay_next s) (closings s) \<and> wf_records s \<and> wf_slips s)"

definition pay_unique :: "pay \<Rightarrow> bool" where
  "pay_unique s =
     (unique_on pp_code (payroll_periods s) \<and> unique_on run_key (payroll_runs s) \<and> unique_on ru_number (payroll_runs s) \<and>
      unique_on cl_period_id (closings s))"

definition pay_inv :: "pay \<Rightarrow> bool" where
  "pay_inv s = (pay_tables s \<and> pay_unique s)"

lemmas pay_inv_defs = pay_inv_def pay_tables_def pay_unique_def wf_records_def wf_slips_def

lemma pay_init_inv: "pay_init s \<Longrightarrow> pay_inv s"
  by (simp add: pay_init_def pay_inv_defs unique_on_def)

lemma pay_inv_emit [simp]: "pay_inv (pay_emit es s) = pay_inv s"
  by (simp add: pay_inv_defs)

lemma pay_inv_period [simp]: "pay_inv (set_period i st s) = pay_inv s"
  by (simp add: pay_inv_defs, simp add: set_period_def wf_table_modify unique_on_modify)

lemma pay_inv_same: "payroll_same s s' \<Longrightarrow> wf_table (pay_next s') (compensations s') \<Longrightarrow> pay_inv s \<Longrightarrow> pay_inv s'"
  by (auto simp: pay_inv_defs payroll_same_def intro: wf_table_mono)

lemma first_where_exists: "first_where P t = None \<longleftrightarrow> \<not> exists_where P t"
  by (auto simp: first_where_None exists_where_iff)

lemma compensation_step_wf:
  "compensation_step rnd s s' \<Longrightarrow> wf_table (pay_next s) (compensations s) \<Longrightarrow> wf_table (pay_next s') (compensations s')"
  by (cases rule: compensation_step.cases)
    (auto simp: compensation_handlers Let_def wf_table_modify intro!: wf_table_add_row [OF _ le_refl]
      split: option.splits if_splits)

lemma next_row_wf:
  "wf_table n t \<Longrightarrow> wf_table (Suc n) t" "wf_table n t \<Longrightarrow> wf_table (Suc n) (add_row n r t)"
  by (erule wf_table_mono, simp) (simp add: wf_table_add_row)

text \<open>The same change of every row.\<close>

lemma map_rows_wf: "wf_table n (map (\<lambda>(k, r). (k, g r)) t) = wf_table n t"
proof -
  have "keys (map (\<lambda>(k, r). (k, g r)) t) = keys t" by (auto simp: keys_def)
  then show ?thesis by (simp only: wf_table_def)
qed

lemma map_rows_unique:
  assumes "\<And>r. f (g r) = f r"
  shows "unique_on f (map (\<lambda>(k, r). (k, g r)) t) = unique_on f t"
proof -
  have "map (\<lambda>(k, r). f r) (map (\<lambda>(k, r). (k, g r)) t) = map (\<lambda>(k, r). f r) t" using assms by auto
  then show ?thesis by (simp only: unique_on_def)
qed

lemma create_period_inv: "create_payroll_period s code from to user = Inr (i, s') \<Longrightarrow> pay_inv s \<Longrightarrow> pay_inv s'"
  by (auto simp: create_payroll_period_def pay_inv_defs unique_on_add_row first_where_exists next_row_wf
      split: if_splits)

lemma save_record_inv: "pay_inv s \<Longrightarrow> pay_inv (save_record r s)"
  using save_record_wf [of s r] save_record_shape [of r s]
  by (auto simp: pay_inv_def pay_tables_def pay_unique_def wf_slips_def intro: wf_table_mono)

lemma generate_inv:
  assumes "generate_payroll rnd s i user = (res, s')" and inv: "pay_inv s"
  shows "pay_inv s'"
proof -
  have "pay_inv s1" if "fold_res (pay_employee rnd i p) (live_employees s0) s0 = Inr s1" "pay_inv s0" for p s0 s1
    using fold_res_invariant [OF _ that(1), of pay_inv] that(2) save_record_inv
    by (fastforce simp: pay_employee_due split: sum.splits option.splits)
  with assms show ?thesis
    by (auto simp: generate_payroll_def Let_def split: option.splits if_splits sum.splits)
qed

lemma approve_inv: "approve_payroll s i user = Inr s' \<Longrightarrow> pay_inv s \<Longrightarrow> pay_inv s'"
  by (auto simp: approve_payroll_def pay_inv_defs map_rows_wf map_rows_unique record_key_def split: option.splits if_splits)

lemma publish_inv: "publish_payslips s i now = Inr s' \<Longrightarrow> pay_inv s \<Longrightarrow> pay_inv s'"
  by (auto simp: publish_payslips_def pay_inv_defs map_rows_wf map_rows_unique split: option.splits if_splits)

lemma save_payslip_inv: "pay_inv s \<Longrightarrow> \<not> slip_clash rid n s \<Longrightarrow> pay_inv (save_payslip rid r n f now s)"
  using save_payslip_wf(1) [of s rid n r f now]
  by (auto simp: pay_inv_def pay_tables_def pay_unique_def wf_records_def intro: wf_table_mono)

lemma payslip_loop_keeps:
  assumes "\<And>rid r n f s. I s \<Longrightarrow> \<not> slip_clash rid n s \<Longrightarrow> I (save_payslip rid r n f now s)" and "I s"
  shows "payslip_loop upload p now rs s s = Inr s' \<Longrightarrow> I s'"
    and "payslip_loop upload p now rs s s = Inl (x, l) \<Longrightarrow> I l"
  using payslip_loop_invariant [where I = I, OF assms(1) assms(2) assms(2), where rs = rs and upload = upload and p = p]
  by simp_all

lemmas payslip_loop_inv = payslip_loop_keeps [where I = pay_inv, OF save_payslip_inv]

lemma slips_inv: "generate_payslips upload s i now = (res, s') \<Longrightarrow> pay_inv s \<Longrightarrow> pay_inv s'"
  unfolding generate_payslips_def Let_def
  by (auto split: option.splits if_splits sum.splits intro: payslip_loop_inv)

lemma new_run_inv: "create_payroll_run s rn suffix = Inr (i, s') \<Longrightarrow> pay_inv s \<Longrightarrow> pay_inv s'"
  by (auto simp: create_payroll_run_def Let_def pay_inv_defs unique_on_add_row first_where_exists run_key_def
      next_row_wf split: if_splits option.splits)

lemma update_run_inv: "(\<And>r. run_key (f r) = run_key r) \<Longrightarrow> (\<And>r. ru_number (f r) = ru_number r) \<Longrightarrow> pay_inv (update_run i f s) = pay_inv s"
  by (simp add: update_run_def pay_inv_defs wf_table_modify unique_on_modify)

lemma run_change_inv:
  "start_payroll_run s i user now = Inr s' \<Longrightarrow> pay_inv s \<Longrightarrow> pay_inv s'"
  "complete_payroll_run s i now = Inr s' \<Longrightarrow> pay_inv s \<Longrightarrow> pay_inv s'"
  "lock_payroll_run s i now = Inr s' \<Longrightarrow> pay_inv s \<Longrightarrow> pay_inv s'"
  by (auto simp: start_payroll_run_def complete_payroll_run_def lock_payroll_run_def update_run_inv run_key_def
      split: option.splits if_splits)

lemma wf_table_remove_row: "wf_table n t \<Longrightarrow> wf_table n (remove_row i t)"
  by (auto simp: wf_table_def remove_row_def keys_def list_all_iff distinct_map inj_on_def)

lemma adjustment_inv:
  "create_adjustment rnd s ac user = Inr (i, s') \<Longrightarrow> pay_inv s \<Longrightarrow> pay_inv s'"
  "update_adjustment rnd s i au user = Inr s' \<Longrightarrow> pay_inv s \<Longrightarrow> pay_inv s'"
  "approve_adjustment s i u now = Inr s' \<Longrightarrow> pay_inv s \<Longrightarrow> pay_inv s'"
  "reject_adjustment s i = Inr s' \<Longrightarrow> pay_inv s \<Longrightarrow> pay_inv s'"
  "delete_adjustment s i user = Inr s' \<Longrightarrow> pay_inv s \<Longrightarrow> pay_inv s'"
  by (auto simp: adjustment_handlers pay_inv_defs wf_table_modify wf_table_remove_row next_row_wf
      split: option.splits if_splits)

lemma closings_inv:
  "pay_inv s \<Longrightarrow> first_where (\<lambda>x. cl_period_id x = cl_period_id c) (closings s) = None \<Longrightarrow>
    pay_inv (s\<lparr>closings := add_row (pay_next s) c (closings s), pay_next := Suc (pay_next s)\<rparr>)"
  "(\<And>c. cl_period_id (g c) = cl_period_id c) \<Longrightarrow> pay_inv (s\<lparr>closings := modify i g (closings s)\<rparr>) = pay_inv s"
  by (simp_all add: pay_inv_defs next_row_wf unique_on_add_row unique_on_modify wf_table_modify)

lemma closing_inv:
  "close_payroll s i remarks u now = Inr s' \<Longrightarrow> pay_inv s \<Longrightarrow> pay_inv s'"
  "reopen_payroll s i u now = Inr s' \<Longrightarrow> pay_inv s \<Longrightarrow> pay_inv s'"
  "archive_payroll s i = Inr s' \<Longrightarrow> pay_inv s \<Longrightarrow> pay_inv s'"
  by (auto simp: close_payroll_def reopen_payroll_def archive_payroll_def closings_inv closing_of_def split: option.splits if_splits)

lemma queue_inv: "publish_financial_payload s i = Inr (j, s') \<Longrightarrow> pay_inv s \<Longrightarrow> pay_inv s'"
  by (auto simp: publish_financial_payload_def Let_def pay_inv_defs next_row_wf split: option.splits if_splits)

lemma pay_step_inv: "pay_step rnd s s' \<Longrightarrow> pay_inv s \<Longrightarrow> pay_inv s'"
proof (induction rule: pay_step.induct)
  case (time_and_leave s h)
  then show ?case by (simp add: pay_inv_defs)
next
  case (config s s')
  note same = config_step_same [OF config(1)]
  with config(2) have "wf_table (pay_next s') (compensations s')" by (auto simp: pay_inv_defs payroll_same_def elim: wf_table_mono)
  with same config(2) show ?case by (blast intro: pay_inv_same)
next
  case (statutory s s')
  note same = statutory_step_same [OF statutory(1)]
  with statutory(2) have "wf_table (pay_next s') (compensations s')" by (auto simp: pay_inv_defs payroll_same_def elim: wf_table_mono)
  with same statutory(2) show ?case by (blast intro: pay_inv_same)
next
  case (compensation s s')
  from compensation(2) have "wf_table (pay_next s) (compensations s)" by (simp add: pay_inv_defs)
  from pay_inv_same [OF compensation_step_same [OF compensation(1)] compensation_step_wf [OF compensation(1) this] compensation(2)]
  show ?case .
next
  case (lock_period s i user s')
  then show ?case by (auto simp: lock_payroll_period_def split: option.splits)
qed (erule create_period_inv generate_inv approve_inv publish_inv slips_inv new_run_inv run_change_inv adjustment_inv
      closing_inv queue_inv, assumption)+

lemma pay_reachable_inv: "pay_reachable rnd s \<Longrightarrow> pay_inv s"
  by (induction rule: pay_reachable.induct) (blast intro: pay_init_inv pay_step_inv)+

end
