(* ===== verification/PayrollExamples.thy ===== *)
theory PayrollExamples
  imports PayrollSystem
begin

text \<open>
  A history of payroll, evaluated by the code of the model: employee 10 is paid thirty thousand less five hundred
  for February 2025, from the assignment of the compensation to the archive of the period.
\<close>

definition pay_hr :: hr where
  "pay_hr = \<lparr>employees = [(10, \<lparr>em_code = ''E7'', em_gender = None, em_shift_id = None, em_is_active = True, em_is_deleted = False\<rparr>)],
     shifts = [], hr_config = None, holidays = [], assignments = [], attendances = [], leave_types = [],
     leave_balances = [], leave_requests = [], hr_next = 50, hr_effects = []\<rparr>"

definition basic_pay :: salary_component where
  "basic_pay = \<lparr>sc_code = ''BASIC'', sc_name = ''Basic'', sc_description = None, sc_type = ''Earning'', sc_method = ''Fixed'',
     sc_default = 0, sc_percentage = None, sc_taxable = True, sc_pf = True, sc_esi = True, sc_is_active = True, sc_order = 2,
     sc_is_deleted = False\<rparr>"

definition fund :: salary_component where
  "fund = basic_pay\<lparr>sc_code := ''PF'', sc_name := ''Fund'', sc_type := ''Deduction'', sc_default := 500, sc_order := 3\<rparr>"

definition structure_row :: "uuid \<Rightarrow> int \<Rightarrow> decimal \<Rightarrow> structure_component" where
  "structure_row i n v = \<lparr>stc_structure_id = 30, stc_component_id = i, stc_order = n, stc_value = v, stc_override = None,
     stc_is_active = True\<rparr>"

definition pay0 :: pay where
  "pay0 = \<lparr>hrs = pay_hr, salary_components = [(20, basic_pay), (21, fund)],
     salary_structures = [(30, \<lparr>st_code = ''STD'', st_name = ''Standard'', st_description = None, st_currency = ''INR'',
       st_is_active = True, st_from = Date 2020 4 2, st_to = None, st_is_deleted = False\<rparr>)],
     structure_components = [(31, structure_row 20 2 30000), (32, structure_row 21 3 0)],
     compensations = [], payroll_periods = [], payroll_records = [], payroll_runs = [], payslips = [], pay_adjustments = [],
     closings = [], payroll_postings = [],
     countries = [(40, \<lparr>cn_code = ''IND'', cn_name = ''India'', cn_currency = ''INR'', cn_is_active = True\<rparr>)],
     statutory_rules = [(41, \<lparr>sr_code = ''PT'', sr_name = ''Tax'', sr_country_id = 40, sr_type = ''Professional Tax'',
       sr_method = ''Slab'', sr_from = Date 2020 4 2, sr_to = None, sr_is_active = True, sr_priority = 2, sr_description = None,
       sr_is_deleted = False\<rparr>)],
     rule_slabs = [(42, \<lparr>sl_rule_id = 41, sl_min = 0, sl_max = Some 10000, sl_percentage = 0, sl_fixed = 0, sl_sequence = 2\<rparr>)],
     statutory_profiles = [], pay_next = 100, pay_effects = []\<rparr>"

definition salary_from :: "date \<Rightarrow> compensation_create" where
  "salary_from d = \<lparr>cc_employee_id = 10, cc_structure_id = 30, cc_from = d, cc_to = None, cc_annual_ctc = 600000,
     cc_monthly_gross = 50000, cc_monthly_net = None, cc_remarks = None\<rparr>"

definition after :: "(uuid \<times> pay) result \<Rightarrow> pay" where
  "after r = (case r of Inr (i, s) \<Rightarrow> s | Inl e \<Rightarrow> pay0)"

definition left :: "pay result \<Rightarrow> pay" where
  "left r = (case r of Inr s \<Rightarrow> s | Inl e \<Rightarrow> pay0)"

definition pay1 :: pay where "pay1 = after (assign_compensation round_dp pay0 (salary_from (Date 2024 4 2)) None)"
definition pay2 :: pay where "pay2 = left (activate_compensation pay1 100 (Some 7) 5)"
definition pay3 :: pay where "pay3 = after (create_payroll_period pay2 ''2025-02'' (Date 2025 2 2) (Date 2025 2 28) None)"
lemma stored_whole: "\<bar>k\<bar> \<le> 9000000 \<Longrightarrow> stored round_dp (of_int k) = of_int k"
proof -
  assume k: "\<bar>k\<bar> \<le> 9000000"
  have "(of_int k :: rat) = of_int (k * 100) / 100" by simp
  then have "hundredths (of_int k)" unfolding hundredths_iff by blast
  moreover have "\<bar>of_int k :: rat\<bar> \<le> 9000000" using k by (simp add: abs_if split: if_splits)
  moreover have "fl (of_int k) = of_int k" using fl_scaled [of k 0] k by simp
  ultimately show ?thesis using stored_fl [OF column_rounding_exists, of "of_int k"] by simp
qed

lemma stored_amounts [simp]: "stored round_dp 600000 = 600000" "stored round_dp 50000 = 50000"
  using stored_whole [of 600000] stored_whole [of 50000] by simp_all

definition raise_row :: "date \<Rightarrow> nat \<Rightarrow> uuid option \<Rightarrow> compensation" where
  "raise_row d n prev = \<lparr>cmp_employee_id = 10, cmp_structure_id = 30, cmp_from = d, cmp_to = None, cmp_annual_ctc = 600000,
     cmp_monthly_gross = 50000, cmp_monthly_net = None, cmp_status = CDraft, cmp_revision = n, cmp_previous = prev, cmp_remarks = None,
     cmp_approved_by = None, cmp_approved_at = None, cmp_is_deleted = False\<rparr>"

lemmas pay_tables_simps = after_def left_def pay_emit_def get_def add_row_def modify_def exists_where_def first_where_def live_def

lemmas run_pay = after_def left_def pay_emit_def get_def add_row_def modify_def exists_where_def first_where_def live_def
  pay0_def pay_hr_def employee_of_def period_of_def salary_from_def bad_range_def date_order_simps

lemma pay1_run: "assign_compensation round_dp pay0 (salary_from (Date 2024 4 2)) None = Inr (100, pay1)"
  by (simp add: pay1_def run_pay assign_compensation_def check_overlapping_effective_dates_def draft_compensation_def)

lemmas pay1_defs = pay1_def assign_compensation_def check_overlapping_effective_dates_def draft_compensation_def

lemma pay2_run: "activate_compensation pay1 100 (Some 7) 5 = Inr pay2"
  by (simp add: pay2_def pay1_defs run_pay activate_compensation_def active_compensation_def active_compensations_def)

lemmas pay2_defs = pay2_def pay1_defs activate_compensation_def active_compensation_def active_compensations_def activated_def

lemma pay3_run: "create_payroll_period pay2 ''2025-02'' (Date 2025 2 2) (Date 2025 2 28) None = Inr (101, pay3)"
  by (simp add: pay3_def pay2_defs run_pay create_payroll_period_def)

lemmas pay3_defs = pay3_def pay2_defs create_payroll_period_def

definition february :: payroll_period where
  "february = \<lparr>pp_code = ''2025-02'', pp_start = Date 2025 2 2, pp_end = Date 2025 2 28, pp_status = PpDraft\<rparr>"

definition salary_row :: "date \<Rightarrow> comp_status \<Rightarrow> compensation" where
  "salary_row d st = \<lparr>cmp_employee_id = 10, cmp_structure_id = 30, cmp_from = d, cmp_to = None, cmp_annual_ctc = 600000,
     cmp_monthly_gross = 50000, cmp_monthly_net = None, cmp_status = st, cmp_revision = 1, cmp_previous = None, cmp_remarks = None,
     cmp_approved_by = (if st = CActive then Some 7 else None), cmp_approved_at = (if st = CActive then Some 5 else None),
     cmp_is_deleted = False\<rparr>"

lemma pay3_rows:
  "hrs pay3 = pay_hr" "salary_components pay3 = salary_components pay0" "structure_components pay3 = structure_components pay0"
  "compensations pay3 = [(100, salary_row (Date 2024 4 2) CActive)]" "payroll_periods pay3 = [(101, february)]"
  "payroll_records pay3 = []" "payroll_runs pay3 = []" "payslips pay3 = []" "closings pay3 = []" "pay_adjustments pay3 = []"
  "pay_next pay3 = 102"
  by (simp_all add: pay3_defs run_pay salary_row_def february_def)

lemma february_days: "working_days february = 27"
  by code_simp

lemma pay_structure:
  "structure_of pay3 (salary_row d st) = [structure_row 20 2 30000, structure_row 21 3 0]"
  "structure_amounts (salary_components pay0) 50000 [structure_row 20 2 30000, structure_row 21 3 0]
    = [(20, basic_pay, 30000), (21, fund, 500)]"
  by (simp_all add: structure_of_def pay3_rows salary_row_def pay0_def structure_row_def structure_amounts_def get_def
      basic_pay_def fund_def component_amount_def)

lemma whole_hundredths: "hundredths (of_int k)"
proof -
  have "(of_int k :: rat) = of_int (k * 100) / 100" by simp
  then show ?thesis unfolding hundredths_iff by blast
qed

lemma pay_plain: "plain_structure (salary_components pay3) (cmp_monthly_gross (salary_row d st)) (structure_of pay3 (salary_row d st))"
  using whole_hundredths [of 30000] whole_hundredths [of 500] whole_hundredths [of 50000]
  by (simp add: plain_structure_def pay_structure pay3_rows) (simp add: salary_row_def pay_structure)

definition february_record :: payroll_record where
  "february_record = \<lparr>pr_period_id = 101, pr_employee_id = 10, pr_compensation_id = 100, pr_working_days = 27,
     pr_present_days = 27, pr_leave_days = 0, pr_paid_leave_days = 0, pr_unpaid_leave_days = 0, pr_overtime = 0,
     pr_gross = 30000, pr_earnings = 30000, pr_deductions = 500, pr_net = 29500, pr_status = PrCalculated,
     pr_components = [\<lparr>rc_component_id = 20, rc_name = ''Basic'', rc_type = ''Earning'', rc_amount = 30000\<rparr>,
       \<lparr>rc_component_id = 21, rc_name = ''Fund'', rc_type = ''Deduction'', rc_amount = 500\<rparr>]\<rparr>"

lemma february_exact: "exact_record 101 february 10 100 (salary_row d st) pay3 = february_record"
  by (simp add: exact_record_def february_record_def Let_def pay_structure pay3_rows february_days exact_earnings_def
      exact_deductions_def) (simp add: salary_row_def pay_structure amounts_of_type_def basic_pay_def fund_def)

lemma february_due: "employee_record round_dp 101 february 10 100 (salary_row d st) pay3 = Inr february_record"
  using employee_record_exact [OF column_rounding_exists _ _ pay_plain, of february 10 101 100 d st]
  by (simp add: february_days february_exact employee_attendance_def employee_leaves_def pay3_rows pay_hr_def)

definition pay4 :: pay where
  "pay4 = pay_emit [Notify ''GENERATED'' 101] (pay3\<lparr>payroll_records := [(102, february_record)], pay_next := 103,
     payroll_periods := [(101, february\<lparr>pp_status := PpCompleted\<rparr>)]\<rparr>)"

definition pay5 :: pay where "pay5 = after (create_payroll_run pay4 \<lparr>rn_period_id = 101, rn_type = ''Regular'', rn_remarks = None\<rparr> ''A7B9'')"
definition pay6 :: pay where "pay6 = left (complete_payroll_run pay5 103 6)"
definition pay7 :: pay where "pay7 = snd (generate_payslips (\<lambda>r. (900, True)) pay6 103 7)"
definition pay8 :: pay where "pay8 = left (close_payroll pay7 101 None 7 8)"
definition pay9 :: pay where "pay9 = left (archive_payroll pay8 101)"

lemma salary_active: "active_compensation [(100, salary_row d CActive)] 10 = Some (100, salary_row d CActive)"
  by (simp add: active_compensation_def active_compensations_def salary_row_def)

lemma pay4_run: "generate_payroll round_dp pay3 101 None = (Inr (), pay4)"
proof -
  let ?s0 = "set_period 101 PpProcessing pay3"
  have "pay_employee round_dp 101 february 10 ?s0 = Inr (save_record february_record ?s0)"
    by (simp add: pay_employee_def pay3_rows salary_active employee_record_reads february_due)
  moreover have "live_employees ?s0 = [10]" by (simp add: live_employees_def pay3_rows pay_hr_def)
  moreover have "save_record february_record ?s0 = ?s0\<lparr>payroll_records := [(102, february_record)], pay_next := 103\<rparr>"
    by (simp add: save_record_def record_of_def pay3_rows first_where_def add_row_def)
  moreover have "period_of pay3 101 = Some february" by (simp add: period_of_def pay3_rows get_def)
  ultimately show ?thesis
    by (simp add: generate_payroll_def pay4_def audit_by_def february_def)
      (simp add: set_period_def pay3_rows modify_def february_def)
qed

lemma pay4_rows:
  "payroll_records pay4 = [(102, february_record)]" "pay_next pay4 = 103"
  "payroll_periods pay4 = [(101, february\<lparr>pp_status := PpCompleted\<rparr>)]" "hrs pay4 = pay_hr" "payslips pay4 = []"
  "payroll_runs pay4 = []" "closings pay4 = []" "pay_adjustments pay4 = []"
  by (simp_all add: pay4_def pay3_rows)

lemma pay5_run: "create_payroll_run pay4 \<lparr>rn_period_id = 101, rn_type = ''Regular'', rn_remarks = None\<rparr> ''A7B9'' = Inr (103, pay5)"
  by (simp add: pay5_def create_payroll_run_def period_of_def pay4_rows get_def exists_where_def run_number_of_def february_def
      py_upper_def upper_char_def upper_table_def after_def Let_def)

definition february_run :: "run_status \<Rightarrow> timestamp option \<Rightarrow> payroll_run" where
  "february_run st done = \<lparr>ru_period_id = 101, ru_number = ''RUN-2025-02-REG-A7B9'', ru_type = ''Regular'', ru_status = st,
     ru_started_by = None, ru_started_at = None, ru_completed_at = done, ru_locked_at = None, ru_remarks = None\<rparr>"

lemma pay5_rows:
  "payroll_runs pay5 = [(103, february_run RunDraft None)]" "payroll_records pay5 = payroll_records pay4"
  "payroll_periods pay5 = payroll_periods pay4" "hrs pay5 = pay_hr" "payslips pay5 = []" "closings pay5 = []" "pay_next pay5 = 104"
  "pay_adjustments pay5 = []"
  by (simp_all add: pay5_def create_payroll_run_def period_of_def pay4_rows get_def exists_where_def run_number_of_def february_def
      py_upper_def upper_char_def upper_table_def after_def Let_def add_row_def february_run_def)

lemma pay6_run: "complete_payroll_run pay5 103 6 = Inr pay6"
  by (simp add: pay6_def complete_payroll_run_def pay5_rows get_def left_def february_run_def)

lemma pay6_rows:
  "payroll_runs pay6 = [(103, february_run RunCompleted (Some 6))]" "payroll_records pay6 = payroll_records pay4"
  "payroll_periods pay6 = payroll_periods pay4" "hrs pay6 = pay_hr" "payslips pay6 = []" "closings pay6 = []" "pay_next pay6 = 104"
  "pay_adjustments pay6 = []"
  by (simp_all add: pay6_def complete_payroll_run_def pay5_rows get_def left_def february_run_def update_run_def modify_def)

definition february_slip :: payslip where
  "february_slip = \<lparr>slip_record_id = 102, slip_number = ''PS-2025-02-E7'', slip_employee_id = 10, slip_period_id = 101,
     slip_gross = 30000, slip_earnings = 30000, slip_deductions = 500, slip_net = 29500, slip_file_id = 900,
     slip_generated_at = 7, slip_published_at = None, slip_status = SlipGenerated\<rparr>"

lemma pay7_run: "generate_payslips (\<lambda>r. (900, True)) pay6 103 7 = (Inr (), pay7)"
  by (simp add: pay7_def generate_payslips_def period_of_def pay6_rows pay4_rows get_def february_run_def records_of_period_def
      february_record_def pay_hr_def slip_clash_def exists_where_def payslip_number_of_def february_def Let_def)

lemma pay7_rows:
  "payslips pay7 = [(104, february_slip)]" "pay_next pay7 = 105" "payroll_runs pay7 = payroll_runs pay6" "closings pay7 = []"
  "payroll_periods pay7 = payroll_periods pay4" "payroll_records pay7 = payroll_records pay4" "pay_adjustments pay7 = []"
  by (simp_all add: pay7_def generate_payslips_def period_of_def pay6_rows pay4_rows get_def february_run_def records_of_period_def
      february_record_def pay_hr_def slip_clash_def exists_where_def payslip_number_of_def february_def Let_def
      save_payslip_def slip_of_def first_where_def add_row_def february_slip_def)

definition february_closing :: "closing_status \<Rightarrow> payroll_closing" where
  "february_closing st = \<lparr>cl_period_id = 101, cl_closed_by = 7, cl_closed_at = 8, cl_reopened_by = None, cl_reopened_at = None,
     cl_remarks = None, cl_status = st\<rparr>"

lemma pay8_run: "close_payroll pay7 101 None 7 8 = Inr pay8"
  by (simp add: pay8_def close_payroll_def period_of_def pay7_rows pay6_rows pay4_rows get_def left_def period_closed_def
      closing_of_def first_where_def payroll_executed_def exists_where_def february_run_def)

lemma pay8_rows: "closings pay8 = [(105, february_closing ClClosed)]" "pay_adjustments pay8 = []" "pay_next pay8 = 106"
    "period_of pay8 101 = Some (february\<lparr>pp_status := PpClosed\<rparr>)"
  by (simp_all add: pay8_def close_payroll_def period_of_def pay7_rows pay6_rows pay4_rows get_def left_def period_closed_def
      closing_of_def first_where_def payroll_executed_def exists_where_def february_run_def february_closing_def add_row_def
      set_period_def modify_def)

lemma pay9_run: "archive_payroll pay8 101 = Inr pay9"
  by (simp add: pay9_def archive_payroll_def pay8_rows closing_of_def first_where_def february_closing_def left_def)

lemma archived_status:
  assumes "archive_payroll s p = Inr s'" and "period_of s p = Some q"
  shows "period_of s' p = Some (q\<lparr>pp_status := PpArchived\<rparr>)"
  using assms by (auto simp: archive_payroll_def period_of_def set_period_def get_modify_eq split: option.splits if_splits)

lemma pay9_rows: "closings pay9 = [(105, february_closing ClArchived)]" "pay_adjustments pay9 = []"
    "period_of pay9 101 = Some (february\<lparr>pp_status := PpArchived\<rparr>)"
proof -
  show "closings pay9 = [(105, february_closing ClArchived)]" "pay_adjustments pay9 = []"
    by (simp_all add: pay9_def archive_payroll_def pay8_rows closing_of_def first_where_def february_closing_def
        left_def modify_def)
  show "period_of pay9 101 = Some (february\<lparr>pp_status := PpArchived\<rparr>)"
    using archived_status [OF pay9_run pay8_rows(4)] by simp
qed

lemma pay_runs_reachable:
  "pay_reachable round_dp pay2" "pay_reachable round_dp pay3" "pay_reachable round_dp pay6" "pay_reachable round_dp pay7"
  "pay_reachable round_dp pay9"
proof -
  have 0: "pay_reachable round_dp pay0" by (rule pay_reachable.init) (simp add: pay_init_def pay0_def)
  note 1 = pay_reachable.step [OF 0 pay_step.compensation [OF compensation_step.assign_comp [OF pay1_run]]]
  note 2 = pay_reachable.step [OF 1 pay_step.compensation [OF compensation_step.activate_comp [OF pay2_run]]]
  note 3 = pay_reachable.step [OF 2 pay_step.new_period [OF pay3_run]]
  note 4 = pay_reachable.step [OF 3 pay_step.generate [OF pay4_run]]
  note 5 = pay_reachable.step [OF 4 pay_step.new_run [OF pay5_run]]
  note 6 = pay_reachable.step [OF 5 pay_step.complete_run [OF pay6_run]]
  note 7 = pay_reachable.step [OF 6 pay_step.slips [OF pay7_run]]
  note 8 = pay_reachable.step [OF 7 pay_step.close [OF pay8_run]]
  note 9 = pay_reachable.step [OF 8 pay_step.archive [OF pay9_run]]
  show "pay_reachable round_dp pay2" "pay_reachable round_dp pay3" "pay_reachable round_dp pay6" "pay_reachable round_dp pay7"
    "pay_reachable round_dp pay9" using 2 3 6 7 9 by simp_all
qed

text \<open>A raise from May: the compensation is revised, and the revision activated.\<close>

definition pay_r :: pay where "pay_r = after (revise_compensation round_dp pay2 100 (salary_from (Date 2024 5 2)) None)"

lemma pay_r_run: "revise_compensation round_dp pay2 100 (salary_from (Date 2024 5 2)) None = Inr (101, pay_r)"
  by (simp add: pay_r_def pay2_defs revise_compensation_def run_pay)

lemma pay_r_row: "pay_reachable round_dp pay_r"
    "compensations pay_r = [(100, salary_row (Date 2024 4 2) CActive),
      (101, (salary_row (Date 2024 5 2) CDraft)\<lparr>cmp_revision := 2, cmp_previous := Some 100\<rparr>)]"
  using pay_reachable.step [OF pay_runs_reachable(1) pay_step.compensation [OF compensation_step.revise_comp [OF pay_r_run]]]
  by (simp_all add: pay_r_def pay2_defs revise_compensation_def run_pay salary_row_def)

lemma raise_activates: "\<exists>s. activate_compensation pay_r 101 (Some 7) 9 = Inr s"
  by (simp add: activate_compensation_def pay_r_row live_def get_def salary_row_def active_compensation_def active_compensations_def
      previous_day_def)

end
