(* ===== verification/PayrollProperties.thy ===== *)
theory PayrollProperties
  imports PayrollExamples
begin

text \<open>
  What payroll does: which periods can be generated, what a record holds, what stays of an archived period, what a
  payslip shows, when the payload for the ledger balances, and which slab takes a salary. The
  examples come from the history in \<open>PayrollExamples\<close>.
\<close>

section \<open>Generation\<close>

lemma generate_ok_iff:
  assumes rnd: "column_rounding rnd" and p: "period_of s pid = Some p" "pp_status p \<noteq> PpLocked"
    and days: "0 < working_days p" "working_days p \<le> 999"
  shows "is_ok (fst (generate_payroll rnd s pid user)) \<longleftrightarrow>
      (\<forall>e\<in>set (live_employees s). active_compensation (compensations s) e \<noteq> None \<longrightarrow>
         employee_attendance s e p = [] \<and> employee_leaves s e p = [])"
    and "\<not> is_ok (fst (generate_payroll rnd s pid user)) \<Longrightarrow> snd (generate_payroll rnd s pid user) = set_period pid PpProcessing s"
proof -
  let ?s = "set_period pid PpProcessing s"
  let ?run = "fold_res (pay_employee rnd pid p) (live_employees ?s) ?s"
  have gen: "is_ok (fst (generate_payroll rnd s pid user)) = is_ok ?run"
    "\<not> is_ok ?run \<Longrightarrow> snd (generate_payroll rnd s pid user) = ?s"
    using p by (auto simp: generate_payroll_def Let_def split: sum.splits)
  then show "\<not> is_ok (fst (generate_payroll rnd s pid user)) \<Longrightarrow> snd (generate_payroll rnd s pid user) = ?s" by blast
  have due: "is_ok (due_record rnd pid p ?s e) \<longleftrightarrow> (active_compensation (compensations s) e \<noteq> None \<longrightarrow>
      employee_attendance s e p = [] \<and> employee_leaves s e p = [])" for e
  proof (cases "active_compensation (compensations s) e")
    case (Some x)
    then show ?thesis
      using employee_record_ok [OF rnd days, of pid e "fst x" "snd x" s]
      by (cases x) (auto simp: due_record_def employee_record_reads split: sum.splits)
  qed (simp add: due_record_def)
  have "live_employees ?s = live_employees s" by (simp add: live_employees_def)
  then show "is_ok (fst (generate_payroll rnd s pid user)) \<longleftrightarrow>
      (\<forall>e\<in>set (live_employees s). active_compensation (compensations s) e \<noteq> None \<longrightarrow>
         employee_attendance s e p = [] \<and> employee_leaves s e p = [])"
    by (simp only: gen(1) pay_fold_ok due)
qed

text \<open>C16: A period that is not locked is generated exactly when no employee with an active compensation has attendance
  or approved leave in it: the engine reads columns that the rows of both do not have. A failure has already
  committed the status Processing, and nothing else.\<close>
theorem attendance_stops_payroll:
  assumes "column_rounding rnd" and "period_of s pid = Some p" and "pp_status p \<noteq> PpLocked"
    and "0 < working_days p" and "working_days p \<le> 999"
  shows "(is_ok (fst (generate_payroll rnd s pid user)) \<longleftrightarrow>
      (\<forall>e\<in>set (live_employees s). active_compensation (compensations s) e \<noteq> None \<longrightarrow>
         employee_attendance s e p = [] \<and> employee_leaves s e p = [])) \<and>
    (\<not> is_ok (fst (generate_payroll rnd s pid user)) \<longrightarrow>
      snd (generate_payroll rnd s pid user) = set_period pid PpProcessing s)"
  using generate_ok_iff [OF assms] by blast

lemma attendance_stops_payroll_witness:
  "\<exists>p. period_of pay3 101 = Some p \<and> \<not> (\<exists>e\<in>set (live_employees pay3). employee_attendance pay3 e p \<noteq> [] \<or> employee_leaves pay3 e p \<noteq> [])
    \<and> is_ok (fst (generate_payroll round_dp pay3 101 None))"
proof -
  have p: "period_of pay3 101 = Some february" "pp_status february \<noteq> PpLocked"
    by (simp_all add: period_of_def pay3_rows get_def february_def)
  have free: "employee_attendance pay3 e february = []" "employee_leaves pay3 e february = []" for e
    by (simp_all add: employee_attendance_def employee_leaves_def pay3_rows pay_hr_def)
  show ?thesis
    using attendance_stops_payroll [OF column_rounding_exists p, of None] p(1) by (simp add: free february_days)
qed




section \<open>Rows\<close>

text \<open>Whatever requests came before, one record belongs to a period and employee, one payslip to a record and to a
  number, one run to a period and type, and one closing to a period.\<close>
theorem payroll_rows_consistent:
  assumes "pay_reachable rnd s"
  shows "((i, r) \<in> set (payroll_records s) \<longrightarrow> (j, q) \<in> set (payroll_records s) \<longrightarrow>
      pr_period_id r = pr_period_id q \<longrightarrow> pr_employee_id r = pr_employee_id q \<longrightarrow> i = j) \<and>
    ((i, x) \<in> set (payslips s) \<longrightarrow> (j, y) \<in> set (payslips s) \<longrightarrow>
      slip_record_id x = slip_record_id y \<or> slip_number x = slip_number y \<longrightarrow> i = j) \<and>
    ((i, u) \<in> set (payroll_runs s) \<longrightarrow> (j, v) \<in> set (payroll_runs s) \<longrightarrow>
      ru_period_id u = ru_period_id v \<longrightarrow> ru_type u = ru_type v \<longrightarrow> i = j) \<and>
    ((i, c) \<in> set (closings s) \<longrightarrow> (j, d) \<in> set (closings s) \<longrightarrow> cl_period_id c = cl_period_id d \<longrightarrow> i = j)"
proof -
  from pay_reachable_inv [OF assms] have u: "unique_on record_key (payroll_records s)" "unique_on slip_record_id (payslips s)"
    "unique_on slip_number (payslips s)" "unique_on run_key (payroll_runs s)" "unique_on cl_period_id (closings s)"
    by (simp_all add: pay_inv_defs)
  from unique_on_same [OF u(1), of i r j q] unique_on_same [OF u(2), of i x j y] unique_on_same [OF u(3), of i x j y]
    unique_on_same [OF u(4), of i u j v] unique_on_same [OF u(5), of i c j d]
  show ?thesis by (auto simp: record_key_def run_key_def)
qed

lemma payroll_rows_consistent_witness:
  "(102, february_record) \<in> set (payroll_records pay7) \<and> (104, february_slip) \<in> set (payslips pay7) \<and>
    (\<forall>j q. (j, q) \<in> set (payroll_records pay7) \<longrightarrow> pr_period_id q = 101 \<longrightarrow> pr_employee_id q = 10 \<longrightarrow> 102 = j)"
proof -
  have r: "(102, february_record) \<in> set (payroll_records pay7)" "(104, february_slip) \<in> set (payslips pay7)"
    by (simp_all add: pay7_rows pay4_rows)
  have k: "pr_period_id february_record = 101" "pr_employee_id february_record = 10" by (simp_all add: february_record_def)
  have "102 = j" if "(j, q) \<in> set (payroll_records pay7)" "pr_period_id q = 101" "pr_employee_id q = 10" for j q
    using payroll_rows_consistent [OF pay_runs_reachable(4), of 102 february_record j q] r(1) that k by simp
  with r show ?thesis by blast
qed

section \<open>Archived periods\<close>

definition adjustments_of :: "payroll_adjustment table \<Rightarrow> uuid \<Rightarrow> payroll_adjustment table" where
  "adjustments_of t p = filter (\<lambda>(k, a). pa_period_id a = p) t"

definition archived :: "pay \<Rightarrow> uuid \<Rightarrow> uuid \<Rightarrow> payroll_closing \<Rightarrow> bool" where
  "archived s p i c = (closing_of s p = Some (i, c) \<and> cl_status c = ClArchived)"

lemma archived_closed: "archived s p i c \<Longrightarrow> period_closed s p"
  by (simp add: archived_def period_closed_def)

lemma archived_other: "archived s p i c \<Longrightarrow> closing_of s q = Some (j, d) \<Longrightarrow> cl_status d = ClClosed \<Longrightarrow> q \<noteq> p"
  by (auto simp: archived_def)

lemma adjustments_of_add: "pa_period_id a \<noteq> p \<Longrightarrow> adjustments_of (add_row i a t) p = adjustments_of t p"
  by (simp add: adjustments_of_def add_row_def)

lemma adjustments_of_modify:
  assumes "distinct (keys t)" and "get t i = Some a" and "pa_period_id a \<noteq> p" and "\<And>a. pa_period_id (f a) = pa_period_id a"
  shows "adjustments_of (modify i f t) p = adjustments_of t p"
  using assms(1-3)
proof (induction t)
  case (Cons x t)
  obtain k q where x: "x = (k, q)" by force
  show ?case
  proof (cases "k = i")
    case True
    with Cons.prems x have "modify i f (x # t) = (k, f q) # t"
      by (simp add: keys_def modify_absent [OF get_None_fresh, unfolded modify_def] modify_def)
    with Cons.prems x True show ?thesis by (simp add: adjustments_of_def get_def assms(4))
  next
    case False
    with Cons x show ?thesis by (simp add: adjustments_of_def get_def keys_def modify_def)
  qed
qed (simp add: get_def)

lemma adjustments_of_remove:
  assumes "distinct (keys t)" and "get t i = Some a" and "pa_period_id a \<noteq> p"
  shows "adjustments_of (remove_row i t) p = adjustments_of t p"
proof -
  have "(case x of (k, b) \<Rightarrow> k \<noteq> i \<and> pa_period_id b = p) = (case x of (k, b) \<Rightarrow> pa_period_id b = p)" if "x \<in> set t" for x
    using that assms(2,3) in_set_get [OF assms(1), of i "snd x"] by (cases x) auto
  then have "filter (\<lambda>x. case x of (k, b) \<Rightarrow> k \<noteq> i \<and> pa_period_id b = p) t = adjustments_of t p"
    unfolding adjustments_of_def by (intro filter_cong) auto
  then show ?thesis by (simp add: adjustments_of_def remove_row_def case_prod_unfold conj_commute)
qed

definition frozen_step :: "uuid \<Rightarrow> pay \<Rightarrow> pay \<Rightarrow> bool" where
  "frozen_step p s s' =
     (closing_of s' p = closing_of s p \<and> adjustments_of (pay_adjustments s') p = adjustments_of (pay_adjustments s) p)"

lemma frozen_same: "closings s' = closings s \<Longrightarrow> pay_adjustments s' = pay_adjustments s \<Longrightarrow> frozen_step p s s'"
  by (simp add: frozen_step_def closing_of_def)

lemma frozen_refl [simp]: "frozen_step p s s"
  by (simp add: frozen_step_def)

lemma save_record_tables [simp]: "closings (save_record r s) = closings s" "pay_adjustments (save_record r s) = pay_adjustments s"
  using save_record_shape [of r s] by auto

lemma generate_frozen: "generate_payroll rnd s i user = (res, s') \<Longrightarrow> frozen_step p s s'"
proof -
  have "closings s1 = closings s0 \<and> pay_adjustments s1 = pay_adjustments s0"
    if "fold_res (pay_employee rnd i q) es s0 = Inr s1" for q es s0 s1
    using fold_res_invariant [OF _ that, where I = "\<lambda>x. closings x = closings s0 \<and> pay_adjustments x = pay_adjustments s0"]
    by (fastforce simp: pay_employee_due split: sum.splits option.splits)
  then show "generate_payroll rnd s i user = (res, s') \<Longrightarrow> frozen_step p s s'"
    by (fastforce simp: generate_payroll_def Let_def split: option.splits if_splits sum.splits intro!: frozen_same)
qed

lemma slips_frozen:
  assumes "generate_payslips upload s i now = (res, s')"
  shows "frozen_step p s s'"
proof -
  let ?I = "\<lambda>x. closings x = closings s \<and> pay_adjustments x = pay_adjustments s"
  have "payslip_loop upload q now rs s s = Inr s'' \<Longrightarrow> ?I s''" "payslip_loop upload q now rs s s = Inl (x, l) \<Longrightarrow> ?I l"
    for q rs s'' x l
    by (rule payslip_loop_keeps [where I = ?I and s = s]; simp)+
  with assms show ?thesis
    unfolding generate_payslips_def Let_def
    by (auto split: option.splits if_splits sum.splits intro!: frozen_same)
qed

lemma other_closing:
  assumes "distinct (keys (closings s))" and "closing_of s q = Some (j, d)" and "q \<noteq> p" and "\<And>c. cl_period_id (f c) = cl_period_id c"
  shows "first_where (\<lambda>c. cl_period_id c = p) (modify j f (closings s)) = closing_of s p"
  unfolding closing_of_def
  using first_where_row [OF assms(1) assms(2) [unfolded closing_of_def]] assms(3,4)
  by (intro first_where_other [OF assms(1)]) auto

lemma adjustment_frozen:
  assumes "period_closed s p" and "distinct (keys (pay_adjustments s))"
  shows "create_adjustment rnd s ac user = Inr (i, s') \<Longrightarrow> frozen_step p s s'"
    and "update_adjustment rnd s i au user = Inr s' \<Longrightarrow> frozen_step p s s'"
    and "approve_adjustment s i u now = Inr s' \<Longrightarrow> frozen_step p s s'"
    and "reject_adjustment s i = Inr s' \<Longrightarrow> frozen_step p s s'"
    and "delete_adjustment s i user = Inr s' \<Longrightarrow> frozen_step p s s'"
proof -
  show "create_adjustment rnd s ac user = Inr (i, s') \<Longrightarrow> frozen_step p s s'"
    using assms(1) by (auto simp: create_adjustment_def frozen_step_def closing_of_def intro!: adjustments_of_add split: if_splits)
  have put: "frozen_step p s (pay_emit es (set_adjustment i f s))"
    if "get (pay_adjustments s) i = Some a" "pa_period_id a \<noteq> p" "\<And>a. pa_period_id (f a) = pa_period_id a" for a f es
    using adjustments_of_modify [OF assms(2) that] by (simp add: frozen_step_def set_adjustment_def closing_of_def)
  show "update_adjustment rnd s i au user = Inr s' \<Longrightarrow> frozen_step p s s'"
    "approve_adjustment s i u now = Inr s' \<Longrightarrow> frozen_step p s s'" "reject_adjustment s i = Inr s' \<Longrightarrow> frozen_step p s s'"
    using assms(1) by (auto simp: update_adjustment_def approve_adjustment_def reject_adjustment_def
        intro!: put split: option.splits if_splits)
  show "delete_adjustment s i user = Inr s' \<Longrightarrow> frozen_step p s s'"
    using assms(1) by (auto simp: delete_adjustment_def frozen_step_def closing_of_def
        intro!: adjustments_of_remove [OF assms(2)] split: option.splits if_splits)
qed

lemma closing_frozen:
  assumes a: "archived s p i0 c" and "distinct (keys (closings s))"
  shows "close_payroll s i remarks u now = Inr s' \<Longrightarrow> frozen_step p s s'"
    and "reopen_payroll s i u now = Inr s' \<Longrightarrow> frozen_step p s s'"
    and "archive_payroll s i = Inr s' \<Longrightarrow> frozen_step p s s'"
proof -
  note closed = archived_closed [OF a]
  have c: "closing_of (pay_emit es (set_period i st (s\<lparr>closings := t\<rparr>))) p = first_where (\<lambda>c. cl_period_id c = p) t"
    "closing_of (pay_emit es (set_period i st (s\<lparr>closings := t, pay_next := n\<rparr>))) p = first_where (\<lambda>c. cl_period_id c = p) t" for es st t n
    by (simp_all add: closing_of_def)
  show "close_payroll s i remarks u now = Inr s' \<Longrightarrow> frozen_step p s s'"
    using closed
    by (auto simp: close_payroll_def frozen_step_def c first_where_add_row closing_of_def [of s p, symmetric]
        intro!: other_closing [OF assms(2)] split: option.splits if_splits)
  { assume "reopen_payroll s i u now = Inr s' \<or> archive_payroll s i = Inr s'"
    then obtain j d where cl: "closing_of s i = Some (j, d)" "cl_status d = ClClosed"
      by (auto simp: reopen_payroll_def archive_payroll_def split: option.splits if_splits)
    note other_closing [OF assms(2) cl(1) archived_other [OF a cl]]
    moreover assume "reopen_payroll s i u now = Inr s' \<or> archive_payroll s i = Inr s'"
    ultimately have "frozen_step p s s'"
      using cl by (auto simp: reopen_payroll_def archive_payroll_def frozen_step_def c split: option.splits) }
  then show "reopen_payroll s i u now = Inr s' \<Longrightarrow> frozen_step p s s'" "archive_payroll s i = Inr s' \<Longrightarrow> frozen_step p s s'"
    by blast+
qed

lemma step_frozen:
  assumes "pay_step rnd s s'" and inv: "pay_inv s" and a: "archived s p i c"
  shows "frozen_step p s s'"
proof -
  have d: "distinct (keys (pay_adjustments s))" "distinct (keys (closings s))"
    using inv wf_table_distinct by (auto simp: pay_inv_defs)
  note adj = adjustment_frozen [OF archived_closed [OF a] d(1)] and cl = closing_frozen [OF a d(2)]
  from assms(1) show ?thesis
  proof cases
    case (time_and_leave h)
    then show ?thesis by (simp add: frozen_same)
  next
    case config
    then show ?thesis using config_step_same by (auto simp: payroll_same_def intro!: frozen_same)
  next
    case statutory
    then show ?thesis using statutory_step_same by (auto simp: payroll_same_def intro!: frozen_same)
  next
    case compensation
    then show ?thesis using compensation_step_same by (auto simp: payroll_same_def intro!: frozen_same)
  qed ((erule generate_frozen slips_frozen adj cl)
      | (rule frozen_same; auto simp: period_handlers run_handlers publish_financial_payload_def Let_def
          split: option.splits if_splits))+
qed

text \<open>C18: Once a period is archived its closing and its adjustments never change again, whatever requests follow.\<close>
theorem archived_period_frozen:
  assumes "pay_reachable rnd s" and "archived s p i c" and "(pay_step rnd)\<^sup>*\<^sup>* s s'"
  shows "archived s' p i c \<and> adjustments_of (pay_adjustments s') p = adjustments_of (pay_adjustments s) p"
  using assms(3)
proof (induction rule: rtranclp_induct)
  case base
  with assms(2) show ?case by simp
next
  case (step s1 s2)
  have "pay_reachable rnd s1" using step(1) assms(1) by (induction rule: rtranclp_induct) (blast intro: pay_reachable.step)+
  from step_frozen [OF step(2) pay_reachable_inv [OF this]] step(3) show ?case
    by (auto simp: frozen_step_def archived_def)
qed

lemma archived_period_frozen_witness:
  "\<exists>s c. approve_payroll pay9 101 None = Inr s \<and> s \<noteq> pay9 \<and> archived s 101 105 c"
proof -
  let ?c = "february_closing ClArchived"
  obtain s where s: "approve_payroll pay9 101 None = Inr s" "pay_effects s \<noteq> pay_effects pay9"
    by (auto simp: approve_payroll_def pay9_rows february_def pay_emit_def)
  have a: "archived pay9 101 105 ?c"
    by (simp add: archived_def closing_of_def pay9_rows first_where_def february_closing_def)
  have "(pay_step round_dp)\<^sup>*\<^sup>* pay9 s" using pay_step.approve [OF s(1)] by blast
  from archived_period_frozen [OF pay_runs_reachable(5) a this] s show ?thesis by blast
qed

text \<open>The status of an archived or closed period does not stop the engine: only a locked one does, and closing a
  locked period takes that status away.\<close>

lemma closing_unlocks_period:
  assumes "close_payroll s p remarks user now = Inr s'" and "period_of s p = Some q"
  shows "period_of s' p = Some (q\<lparr>pp_status := PpClosed\<rparr>)"
    and "fst (generate_payroll rnd s' p u) \<noteq> Inl (ApnaError ''PERIOD_LOCKED'')"
proof -
  have get_closed: "period_of (pay_emit es (set_period p PpClosed x)) p = Some (q\<lparr>pp_status := PpClosed\<rparr>)"
    if "payroll_periods x = payroll_periods s" for es x
    using assms(2) that by (simp add: period_of_def set_period_def get_modify_eq)
  show closed: "period_of s' p = Some (q\<lparr>pp_status := PpClosed\<rparr>)"
    using assms by (auto simp: close_payroll_def intro!: get_closed split: option.splits if_splits)
  have "x \<noteq> ApnaError ''PERIOD_LOCKED''" if "fold_res (pay_employee rnd p r) es s0 = Inl x" for r es s0 x
    using that
  proof (induction es arbitrary: s0)
    case (Cons e es)
    have "y \<noteq> ApnaError ''PERIOD_LOCKED''" if "pay_employee rnd p r e s0 = Inl y" for y
      using that
      by (cases "employee_attendance s0 e r"; cases "employee_leaves s0 e r")
        (auto simp: pay_employee_def employee_record_def Let_def split: option.splits sum.splits if_splits)
    with Cons show ?case by (auto split: sum.splits)
  qed simp
  with closed show "fst (generate_payroll rnd s' p u) \<noteq> Inl (ApnaError ''PERIOD_LOCKED'')"
    by (auto simp: generate_payroll_def Let_def split: sum.splits)
qed

end
