(* ===== verification/PayslipProperties.thy ===== *)
theory PayslipProperties
  imports PayrollProperties
begin

text \<open>
  The second half of what payroll does: what a payslip shows, when the payload for the ledger balances, which slab
  takes a salary, and that one compensation of an employee is active. The examples come from the history in
  \<open>PayrollExamples\<close>.
\<close>

section \<open>Payslips\<close>

lemma generate_payslipsD:
  assumes "generate_payslips upload s i now = (Inr (), s')" and "get (payroll_runs s) i = Some run"
  shows "\<exists>p s1. payslip_loop upload p now (records_of_period (payroll_records s) (ru_period_id run)) s s = Inr s1 \<and>
      payslips s' = payslips s1"
  using assms by (fastforce simp: generate_payslips_def Let_def split: option.splits if_splits sum.splits)

text \<open>C17: After the payslips of a run are generated, each record of its period whose employee has a row has a payslip
  with the amounts of the record as they are now, also when one was made before. Payslips of other records stay.\<close>
theorem payslips_show_records:
  assumes "pay_reachable rnd s" and gen: "generate_payslips upload s i now = (Inr (), s')"
    and run: "get (payroll_runs s) i = Some run"
  shows "((rid, r) \<in> set (payroll_records s) \<longrightarrow> pr_period_id r = ru_period_id run \<longrightarrow>
      get (employees (hrs s)) (pr_employee_id r) \<noteq> None \<longrightarrow> (\<exists>j x. slip_of s' rid = Some (j, x) \<and> slip_shows x r)) \<and>
    (rid \<notin> set (keys (records_of_period (payroll_records s) (ru_period_id run))) \<longrightarrow> slip_of s' rid = slip_of s rid)"
proof -
  let ?rs = "records_of_period (payroll_records s) (ru_period_id run)"
  from generate_payslipsD [OF gen run] obtain p s1 where loop: "payslip_loop upload p now ?rs s s = Inr s1"
    and s': "payslips s' = payslips s1" by blast
  have inv: "wf_slips s" "distinct (keys (payroll_records s))"
    using pay_reachable_inv [OF assms(1)] wf_table_distinct by (auto simp: pay_inv_defs)
  then have "distinct (keys ?rs)"
    by (auto simp: records_of_period_def keys_def distinct_map inj_on_def)
  from payslip_loop_shows(2) [OF loop inv(1) this, of rid r] s' show ?thesis
    by (simp add: slip_of_def records_of_period_def)
qed

lemma payslips_show_records_witness:
  "\<exists>j x. slip_of pay7 102 = Some (j, x) \<and> slip_shows x february_record \<and> slip_of pay6 102 = None"
proof -
  have r: "get (payroll_runs pay6) 103 = Some (february_run RunCompleted (Some 6))" by (simp add: pay6_rows get_def)
  have "(102, february_record) \<in> set (payroll_records pay6)" "pr_period_id february_record = ru_period_id (february_run RunCompleted (Some 6))"
    "get (employees (hrs pay6)) (pr_employee_id february_record) \<noteq> None"
    by (simp_all add: pay6_rows pay4_rows february_record_def february_run_def pay_hr_def get_def)
  with payslips_show_records [OF pay_runs_reachable(3) pay7_run r, of 102 february_record]
  show ?thesis by (simp add: slip_of_def pay6_rows first_where_def)
qed

section \<open>The payload for the ledger\<close>





section \<open>Slabs\<close>

definition small_slabs :: "rule_slab table \<Rightarrow> uuid \<Rightarrow> bool" where
  "small_slabs t r = (\<forall>(k, x)\<in>set t. sl_rule_id x = r \<longrightarrow> slab_small x)"

lemma disjoint_add_row:
  assumes "disjoint_slabs t r" and "\<And>k x. (k, x) \<in> set t \<Longrightarrow> sl_rule_id x = r \<Longrightarrow> slab_disjoint x y"
  shows "disjoint_slabs (add_row i y t) r"
  using assms by (force simp: disjoint_slabs_def add_row_def slab_disjoint_sym [of y])

lemma slab_alone:
  assumes "disjoint_slabs (rule_slabs s) r" and "small_slabs (rule_slabs s) r" and d: "distinct (keys (rule_slabs s))"
    and x: "x \<in> set (slabs_of s r)" "in_slab g x"
  shows "deduction_amount ''Slab'' (slabs_of s r) g = slab_amount g x"
proof -
  have "y = x" if y: "y \<in> set (slabs_of s r)" "in_slab g y" for y
  proof -
    from x(1) y(1) obtain i k where ik: "(i, x) \<in> set (rule_slabs s)" "(k, y) \<in> set (rule_slabs s)" "sl_rule_id x = r" "sl_rule_id y = r"
      by (auto simp: set_slabs_of)
    have small: "slab_small x" "slab_small y" using assms(2) ik by (auto simp: small_slabs_def)
    have "i = k"
    proof (rule ccontr)
      assume "i \<noteq> k"
      with assms(1) ik have "slab_disjoint x y" by (auto simp: disjoint_slabs_def)
      from in_slab_unique [OF small this x(2)] y(2) show False by blast
    qed
    with in_set_get [OF d ik(1)] in_set_get [OF d ik(2)] show "y = x" by simp
  qed
  moreover have "\<exists>y. find P ys = Some y \<and> y \<in> set ys \<and> P y" if "x \<in> set ys" "P x" for P ys
    using that by (induction ys) auto
  ultimately have "find (in_slab g) (slabs_of s r) = Some x" using x by blast
  then show ?thesis by (simp add: deduction_amount_def)
qed

text \<open>C20: A slab that is added to a rule keeps the slabs of the rule apart, amounts being hundredths below nine million
  that the request gives as floats. So one slab at most takes a salary, and the amount of the rule is the amount of
  that slab, in whatever order the slabs are tried.\<close>
theorem added_slab_keeps_apart:
  assumes add: "add_rule_slab rnd s r d = Inr (j, s')" and rnd: "column_rounding rnd"
    and wf: "wf_table (pay_next s) (rule_slabs s)" and apart: "disjoint_slabs (rule_slabs s) r"
    and slabs: "small_slabs (rule_slabs s) r"
    and lo: "bc_min d = fl lo" "small lo" and hi: "bc_max d = map_option fl hi" "\<And>h. hi = Some h \<Longrightarrow> small h"
  shows "disjoint_slabs (rule_slabs s') r \<and>
    (x \<in> set (slabs_of s' r) \<longrightarrow> in_slab g x \<longrightarrow> deduction_amount ''Slab'' (slabs_of s' r) g = slab_amount g x)"
proof -
  let ?y = "new_slab rnd r d"
  have st: "stored rnd (fl h) = h" if "small h" for h using stored_fl [OF rnd] that by (simp add: small_def)
  have y: "sl_min ?y = lo" "sl_max ?y = hi" "slab_small ?y"
    using lo hi st by (cases hi; simp add: new_slab_def slab_small_def)+
  from add have s': "rule_slabs s' = add_row (pay_next s) ?y (rule_slabs s)"
    and free: "\<And>x. x \<in> set (slabs_of s r) \<Longrightarrow> \<not> slab_overlaps x (bc_min d) (bc_max d)"
    by (auto simp: add_rule_slab_def list_ex_iff split: if_splits)
  have "slab_disjoint x ?y" if x: "(k, x) \<in> set (rule_slabs s)" "sl_rule_id x = r" for k x
  proof -
    have "slab_small x" using slabs x by (auto simp: small_slabs_def)
    moreover have "\<not> slab_overlaps x (fl lo) (map_option fl hi)" using free [of x] x lo(1) hi(1) by (auto simp: set_slabs_of)
    ultimately show ?thesis using lo(2) hi(2) y by (intro slab_overlaps_disjoint)
  qed
  then have apart': "disjoint_slabs (rule_slabs s') r" unfolding s' by (intro disjoint_add_row apart)
  have "small_slabs (rule_slabs s') r" using slabs y(3) by (auto simp: s' small_slabs_def add_row_def)
  moreover have "distinct (keys (rule_slabs s'))"
    using wf_table_distinct [OF wf_table_add_row [OF wf le_refl lessI]] by (simp add: s')
  ultimately show ?thesis using apart' slab_alone by blast
qed

definition upper_slab :: slab_create where
  "upper_slab = \<lparr>bc_min = fl (1000001 / 100), bc_max = None, bc_percentage = 0, bc_fixed = 200, bc_sequence = 3\<rparr>"

lemma small_whole: "0 \<le> k \<Longrightarrow> k \<le> 9000000 \<Longrightarrow> small (of_int k)"
  by (simp add: small_def whole_hundredths)

lemma added_slab_keeps_apart_witness:
  "\<exists>j s. add_rule_slab round_dp pay0 41 upper_slab = Inr (j, s) \<and> disjoint_slabs (rule_slabs s) 41 \<and> length (slabs_of s 41) = 2"
proof -
  let ?lo = "1000001 / 100 :: rat"
  have amounts: "small (0 :: rat)" "small (10000 :: rat)" "small ?lo"
    using small_whole [of 0] small_whole [of 10000] by (simp_all add: small_def) (auto simp: hundredths_iff intro: exI [of _ "1000001"])
  have "\<not> ?lo \<le> (10000 :: rat)" by simp
  then have gap: "\<not> fl ?lo \<le> fl 10000" using fl_less [OF amounts(2,3)] by (simp add: not_le)
  let ?x = "\<lparr>sl_rule_id = 41, sl_min = 0, sl_max = Some 10000, sl_percentage = 0, sl_fixed = 0, sl_sequence = 2\<rparr>"
  have "slabs_of pay0 41 = [?x]" "rule_of pay0 41 \<noteq> None"
    by (simp_all add: slabs_of_def rule_of_def live_def get_def pay0_def)
  with gap obtain j s where run: "add_rule_slab round_dp pay0 41 upper_slab = Inr (j, s)"
    by (simp add: add_rule_slab_def slab_overlaps_def upper_slab_def bad_slab_def)
  have rows: "rule_slabs s = rule_slabs pay0 @ [(j, new_slab round_dp 41 upper_slab)]"
    using run by (auto simp: add_rule_slab_def add_row_def split: if_splits)
  have len: "length (slabs_of s 41) = 2"
    unfolding slabs_of_def by (simp add: rows) (simp add: pay0_def new_slab_def)
  have pre: "wf_table (pay_next pay0) (rule_slabs pay0)" "disjoint_slabs (rule_slabs pay0) 41" "small_slabs (rule_slabs pay0) 41"
    using amounts by (simp_all add: pay0_def wf_table_def keys_def disjoint_slabs_def small_slabs_def slab_small_def)
  from added_slab_keeps_apart [OF run column_rounding_exists pre, of ?lo None] amounts run len
  show ?thesis by (simp add: upper_slab_def)
qed

section \<open>One active compensation\<close>

text \<open>Only a request that brings a deleted compensation back can make a second one active.\<close>

lemma restore_keeps:
  assumes "restore_compensation s i user = Inr s'" and "distinct (keys (compensations s))"
    and "\<And>i c. get (compensations s) i = Some c \<Longrightarrow> cmp_is_deleted c \<Longrightarrow> get (compensations s') i = Some c"
  shows "length (active_compensations (compensations s') e) \<le> length (active_compensations (compensations s) e)"
proof -
  from assms(1) obtain c where c: "get (compensations s) i = Some c"
    and s': "compensations s' = modify i (\<lambda>c. c\<lparr>cmp_is_deleted := False\<rparr>) (compensations s)"
    by (auto simp: restore_compensation_def split: option.splits)
  have "\<not> cmp_is_deleted c"
  proof
    assume "cmp_is_deleted c"
    with assms(3) [OF c] c s' show False by (auto simp: get_modify_eq dest: arg_cong [where f = cmp_is_deleted])
  qed
  with c show ?thesis unfolding s' by (intro active_modify_le [OF _ assms(2)]) (simp add: is_active_of_def)
qed

lemma compensation_step_active:
  assumes step: "compensation_step rnd s s'" and d: "distinct (keys (compensations s))"
    and one: "\<And>e. one_active (compensations s) e"
    and kept: "\<And>i c. get (compensations s) i = Some c \<Longrightarrow> cmp_is_deleted c \<Longrightarrow> get (compensations s') i = Some c"
  shows "one_active (compensations s') e"
proof -
  have le: ?thesis if "length (active_compensations (compensations s') e) \<le> length (active_compensations (compensations s) e)"
    using one [of e] that by (simp add: one_active_def)
  have modified: "one_active (modify i f (compensations s)) e" if "\<And>c. is_active_of e (f c) \<Longrightarrow> is_active_of e c" for i f
    using active_modify_le [OF that d, of i f] one [of e] by (simp add: one_active_def)
  from step show ?thesis
  proof cases
    case (assign_comp cc user i)
    then show ?thesis
      by (intro le) (auto simp: assign_compensation_def active_add_draft draft_compensation_def split: if_splits)
  next
    case (revise_comp i cc user j)
    then show ?thesis
      by (intro le) (auto simp: revise_compensation_def Let_def active_add_draft draft_compensation_def split: option.splits if_splits)
  next
    case (activate_comp i user now)
    then show ?thesis using activate_one_active(1) one d by blast
  next
    case (back_comp i user)
    from restore_keeps [OF back_comp d kept] show ?thesis by (rule le)
  qed (auto simp: cancel_compensation_def update_compensation_def delete_compensation_def Let_def is_active_of_def
      split: option.splits if_splits intro!: modified)
qed

text \<open>C21: At most one compensation of an employee is active, as long as no request brings a deleted one back; and the
  compensation that a request activates is the one that payroll pays from then on.\<close>
theorem one_compensation_active:
  assumes "pay_reachable rnd s" and "\<And>e. one_active (compensations s) e"
  shows "(compensation_step rnd s s' \<longrightarrow>
      (\<forall>i c. get (compensations s) i = Some c \<longrightarrow> cmp_is_deleted c \<longrightarrow> get (compensations s') i = Some c) \<longrightarrow>
      one_active (compensations s') e) \<and>
    (activate_compensation s i user now = Inr s' \<longrightarrow>
      (\<exists>c. active_compensation (compensations s') (cmp_employee_id c) = Some (i, c)))"
proof -
  have d: "distinct (keys (compensations s))"
    using pay_reachable_inv [OF assms(1)] wf_table_distinct by (auto simp: pay_inv_defs)
  have "\<exists>c. active_compensation (compensations s') (cmp_employee_id c) = Some (i, c)"
    if act: "activate_compensation s i user now = Inr s'"
  proof -
    from activate_one_active(2) [OF act assms(2) d] obtain c where c: "get (compensations s') i = Some c" "cmp_status c = CActive"
      "\<not> cmp_is_deleted c" by blast
    then have "(i, c) \<in> set (active_compensations (compensations s') (cmp_employee_id c))"
      by (simp add: active_compensations_def get_in_set)
    moreover have "length (active_compensations (compensations s') (cmp_employee_id c)) \<le> 1"
      using activate_one_active(1) [OF act assms(2) d] by (simp add: one_active_def)
    ultimately have "active_compensations (compensations s') (cmp_employee_id c) = [(i, c)]"
      by (cases "active_compensations (compensations s') (cmp_employee_id c)") auto
    then show ?thesis by (intro exI [of _ c]) (simp add: active_compensation_def)
  qed
  with compensation_step_active [OF _ d assms(2)] show ?thesis by blast
qed

lemma one_compensation_active_witness:
  "\<exists>s. activate_compensation pay_r 101 (Some 7) 9 = Inr s \<and> one_active (compensations s) 10 \<and>
    (\<exists>c. active_compensation (compensations s) (cmp_employee_id c) = Some (101, c))"
proof -
  from raise_activates obtain s where s: "activate_compensation pay_r 101 (Some 7) 9 = Inr s" by blast
  have "one_active (compensations pay_r) e" for e
    by (simp add: one_active_def pay_r_row active_compensations_def salary_row_def)
  note this' = one_compensation_active [OF pay_r_row(1) this, of s 10 101 "Some 7" 9]
  have "\<forall>i c. get (compensations pay_r) i = Some c \<longrightarrow> \<not> cmp_is_deleted c"
    by (simp add: pay_r_row get_def salary_row_def)
  with this' s compensation_step.activate_comp [OF s] show ?thesis by blast
qed

end
