(* ===== verification/Spec2Isabelle.thy ===== *)
theory Spec2Isabelle
  imports FinanceProperties FinanceOpsProperties CashProperties StockProperties WarehouseProperties ApprovalProperties HrProperties ProcurementProperties SalesProperties
    PayrollProperties PayslipProperties
begin

text \<open>
  A model of the accounting, inventory, procurement, sales, approval, time keeping and payroll core of ApnaERP, an ERP backend written in Python
  (FastAPI services over SQLAlchemy repositories), with the theorems that make it correct.

  \<^bold>\<open>The program.\<close> An endpoint calls one method of a service class with a database session; the
  method reads rows through a repository, checks them, changes them and commits. These groups of
  services are modelled here:

  \<^item> the general ledger (\<^verbatim>\<open>src/app/services/finance_services.py\<close>, queries in
    \<^verbatim>\<open>src/app/repositories/finance_repos.py\<close>, rows in \<^verbatim>\<open>src/app/models/finance.py\<close>): chart of accounts,
    fiscal years and periods, journals, the posting engine, account ledger and trial balance;
  \<^item> finance operations (\<^verbatim>\<open>src/app/services/finance_ops_services.py\<close>, rows in \<^verbatim>\<open>src/app/models/finance_ops.py\<close>):
    customer invoices, supplier bills, payment vouchers, banks and reconciliation, fixed assets, budgets and
    statements, which post to the ledger through \<open>post_double_entry_journal\<close>;
  \<^item> the stock engine (\<^verbatim>\<open>src/app/services/stock_engine_services.py\<close>,
    \<^verbatim>\<open>src/app/repositories/stock_engine_repos.py\<close>): movements, the append-only stock ledger, balances per
    product, warehouse and location, opening stock and adjustments;
  \<^item> warehouse operations (\<^verbatim>\<open>src/app/services/warehouse_operations_services.py\<close> and the reservations of
    \<^verbatim>\<open>src/app/services/inventory_advanced_services.py\<close>): goods receipts, goods issues and stock
    transfers, which call the stock engine line by line inside one session;
  \<^item> the approval engine (\<^verbatim>\<open>src/app/services/approval_workflow.py\<close>,
    \<^verbatim>\<open>src/app/services/approval_engine.py\<close>): workflow definitions, requests that go from step to step, and
    the history they leave; other modules start requests on it;
  \<^item> procurement (\<^verbatim>\<open>src/app/services/purchase_order_services.py\<close>,
    \<^verbatim>\<open>src/app/services/purchase_return_services.py\<close>): purchase orders, which submit to the approval engine and
    receive goods through the warehouse execution, and purchase returns, which take goods out of stock;
  \<^item> sales (\<^verbatim>\<open>src/app/services/quotation_services.py\<close>, \<^verbatim>\<open>sales_order_services.py\<close>, \<^verbatim>\<open>delivery_services.py\<close>,
    \<^verbatim>\<open>sales_return_services.py\<close>, with the discounts of \<^verbatim>\<open>pricing_services.py\<close>): quotations that become orders,
    orders that go through credit check and approval, deliveries that have the warehouse issue goods and
    returns that have it receive them;
  \<^item> time and leave (\<^verbatim>\<open>src/app/services/attendance_engine.py\<close>, \<^verbatim>\<open>attendance.py\<close>, \<^verbatim>\<open>shift_assignment.py\<close>,
    \<^verbatim>\<open>leave_balance.py\<close>, \<^verbatim>\<open>leave_request.py\<close>): which shift a day has, what check-in and check-out make of it,
    leave balances and the requests that charge them;
  \<^item> payroll (\<^verbatim>\<open>src/app/services/employee_compensation.py\<close>, \<^verbatim>\<open>salary_component.py\<close>, \<^verbatim>\<open>salary_structure.py\<close>,
    \<^verbatim>\<open>payroll_engine.py\<close>, \<^verbatim>\<open>payroll_run.py\<close>, \<^verbatim>\<open>payroll_finalization_services.py\<close>, \<^verbatim>\<open>statutory_compliance.py\<close>): what
    an employee is paid, the records generated for a period, payslips, adjustments, closing, the payload for
    the ledger, and statutory rules with their slabs, which generation does not use.

  \<^bold>\<open>Theories.\<close>
  \<^item> \<open>ErpPrelude\<close>: keys, exact decimals, exceptions, tables as lists of rows (locale \<open>keyed_store\<close>,
    interpreted on the table functions), loops that may raise; \<open>Calendar\<close>: dates.
  \<^item> \<open>FinanceModel\<close>: rows, request bodies and the state \<open>fin\<close>. \<open>ChartOfAccounts\<close>: create, update and
    delete an account, the breadth-first search \<open>get_descendant_ids\<close>. \<open>FiscalCalendar\<close>: every operation of
    \<open>FiscalService\<close>. \<open>Journals\<close>: \<open>JournalService\<close>. \<open>PostingEngine\<close>: \<open>post_journal\<close> and \<open>reverse_journal\<close>.
    \<open>GeneralLedger\<close>: account ledger and trial balance. \<open>FinanceSystem\<close>: the step relation \<open>fin_step\<close> of all
    these calls, \<open>fin_reachable\<close>, the invariant \<open>fin_inv\<close> and its preservation. \<open>FinanceProperties\<close>: the
    properties with their witnesses.
  \<^item> \<open>PyDecimal\<close>: what \<open>Decimal(str(x))\<close> makes of a float, and sums of floats. \<open>AutoPosting\<close>:
    \<open>post_double_entry_journal\<close>. \<open>FinanceOpsModel\<close>: rows, request bodies and the state \<open>fops\<close>, which holds a
    ledger. \<open>Receivables\<close>, \<open>Payments\<close>, \<open>Banking\<close>, \<open>FixedAssets\<close>, \<open>Statements\<close>: the services.
    \<open>FinanceOpsSystem\<close>: the step relation \<open>fops_step\<close> over all their calls and the steps of the ledger, the
    invariant \<open>fops_inv\<close>. \<open>FinanceOpsProperties\<close> (posting, invoices, party ledgers) and \<open>CashProperties\<close>
    (vouchers, banks, assets, statements): the properties.
  \<^item> \<open>StockModel\<close>: rows and queries, the state \<open>stk\<close>, the stock of a key and its ledger sum.
    \<open>StockMovement\<close>: \<open>process_movement\<close> cut along the numbered steps of the method. \<open>StockServices\<close>: legacy
    ledger adapter, recalculation, summaries, opening stock, adjustments. \<open>StockSystem\<close>: the step relation
    \<open>stk_step\<close>, the invariant \<open>stk_inv\<close>, and the locale \<open>stock_port\<close>, the contract the warehouse documents
    rely on, interpreted on incoming and on outgoing movements. \<open>StockProperties\<close>: the properties.
  \<^item> \<open>WarehouseModel\<close>: documents and reservations, the state \<open>wms\<close>. \<open>WarehouseDocs\<close>: the checks of document
    lines and their execution. \<open>WarehouseServices\<close>: the handlers of the three document services.
    \<open>WarehouseSystem\<close>: the step relation \<open>wms_step\<close> over all handlers, with what every call keeps.
    \<open>WarehouseProperties\<close>: the properties.
  \<^item> \<open>ApprovalModel\<close>: definitions, requests, history, the state \<open>approvals\<close>. \<open>ApprovalEngine\<close>: the four calls of
    the engine, the step relation \<open>ap_step\<close> and its invariants. \<open>ApprovalProperties\<close>: the properties.
  \<^item> \<open>Documents\<close>: numbers of documents and the user a request acts for, shared by the next two groups.
    \<open>TableCalls\<close>: the relation \<open>table_call\<close>, what one call does to a table, with the invariants it carries.
  \<^item> \<open>ProcurementModel\<close>: orders, returns, and the state \<open>proc\<close>, which holds a warehouse and an
    approval engine. \<open>PurchaseOrders\<close>: the life cycle of an order. \<open>PurchaseReceiving\<close>: goods received against
    an order and sent back. \<open>ProcurementSystem\<close>: the step relation \<open>proc_step\<close> over these calls and the steps
    of warehouse and engine, what a call can do to the orders (\<open>orders_call\<close>), the invariant \<open>proc_inv\<close>.
    \<open>ProcurementProperties\<close>: the properties.
  \<^item> \<open>SalesModel\<close>: customers, discounts, the rows of the sales documents, and the state \<open>sales\<close>, which holds a
    warehouse and an approval engine. \<open>SalesQuotations\<close>, \<open>SalesOrders\<close>, \<open>SalesDelivery\<close>: the services.
    \<open>SalesSystem\<close>: the step relation \<open>sale_step\<close> over all their calls, what a call does to quotations and
    orders (\<open>sale_call\<close>), the invariant \<open>sale_inv\<close>, and that the calls make only steps of the warehouse and
    the engine underneath. \<open>SalesProperties\<close>: the properties.
  \<^item> \<open>PyFloat\<close>: floats as rationals rounded to 53 bits, \<open>round(x, 2)\<close>. \<open>HrModel\<close>: rows and the state of time
    and leave. \<open>AttendanceEngine\<close>: \<open>calculate_attendance\<close>. \<open>ShiftAssignments\<close>, \<open>AttendanceService\<close>,
    \<open>LeaveBalances\<close>, \<open>LeaveRequests\<close>: the services. \<open>HrSystem\<close>: the step relation and the invariants of
    balances and leaves; \<open>HrLifeCycle\<close>: what a call can do to a request or an attendance row.
    \<open>HrProperties\<close>: the properties.
  \<^item> \<open>PayrollModel\<close>: rows and the state \<open>pay\<close>, which holds the tables of time and leave. \<open>Compensations\<close>,
    \<open>SalaryStructures\<close>, \<open>Statutory\<close>, \<open>PayrollEngine\<close>, \<open>PayrollRuns\<close>, \<open>PayrollClosing\<close>: the services.
    \<open>PayrollRecords\<close>: the loop over the employees as a fold that saves one record each. \<open>PayrollAmounts\<close>: the
    amounts in exact decimals, to which the floats of the engine come. \<open>PayrollSystem\<close>: the step relation
    \<open>pay_step\<close> over all these calls and the steps of time and leave, the invariant \<open>pay_inv\<close>. \<open>PayrollExamples\<close>:
    a history from the assignment of a salary to the archive of a period. \<open>PayrollProperties\<close> and
    \<open>PayslipProperties\<close>: the properties.

  \<^bold>\<open>State and operations.\<close> Every database table is a field of the state, a list of rows with keys in
  insertion order; a query is a search or a filter over it. A handler with one commit at its end is a
  function from the state to an exception or the new state: an exception leaves the database as it was,
  because the session is dropped. A handler that commits half-way returns its result together with the
  database it leaves; executions of documents carry both the session and what is committed so far. Audit
  records, domain events and notifications are the list of effects of the state. The clock, the current
  user and generated numbers are parameters.

  \<^bold>\<open>What the lemmas show.\<close> In the ledger: every reachable journal is a balanced double entry, what posting
  and reversing do to every account, that they keep the accounting equation, the life cycle of a journal,
  that closed periods stay closed for posting, that the account hierarchy has no cycle, what the generated
  periods cover, when the trial balance balances. In finance operations: a journal that passes the comparison of
  float sums is balanced in exact amounts, the party ledgers are running sums that agree with the posted
  documents and with the aging of the statements, automatic matching is as large as it can be, a schedule
  depreciates to the salvage value, the statements balance exactly when the accounting equation holds, and which
  changes are never committed. In the stock engine: stock is the sum of the ledger, what
  one movement changes and records, no negative stock against the policy, idempotency, serial numbers and
  batches, agreement of the legacy adapter with the engine, adjustments, summaries. In the warehouse: the
  effect of every posted document, conservation by transfers, two-phase against direct transfers, which
  documents can no longer change, that every sequence of calls keeps stock and ledger together, and where a
  failed posting is not atomic. In approvals: the history of a request determines its state, only users with
  the role of the step act, a chain of approvers completes a request. In procurement: the totals of an order
  follow from its lines, its life cycle, that its terms are fixed once goods have arrived, what receiving and
  returning do to stock and lines, document numbers. In sales: the amounts of quotations and orders, their
  life cycles, deliveries within the order and the stock they take, approval within the credit limit, the best
  discount, and what failed issues, refused lines and reopened orders leave behind. In time and leave: the derived days of a balance, what
  approval charges and cancellation gives back, leaves and assignments that do not overlap, working days,
  locked attendance. In payroll: what a record pays and when generation fails, that rows are unique per period and
  employee, what a payslip shows, what stays of an archived period, when the payload for the ledger
  balances, that one slab takes a salary and one compensation is active. Where the code departs from its intent the theorem states what it does.

  \<^bold>\<open>Bounds and conventions.\<close>
  \<^item> A \<open>Decimal\<close> is an exact rational. The 28-digit context of Python and the rounding of the numeric columns
    are left out of the state; \<open>stored_line\<close> states that rounding for journal lines and takes the rounding
    function as a parameter. Batch and reserved quantities pass through a float in the code, exact up to
    fifteen significant digits.
  \<^item> Keys are natural numbers drawn from a counter, as \<open>uuid4\<close> never repeats; the lock order of transfers,
    which sorts keys as strings, is an order on these numbers.
  \<^item> Hours and leave days are floats in the code and \<open>fl\<close> of \<open>PyFloat\<close> here: every operation is computed
    exactly and rounded to the nearest double, ties to even; overflow and infinities cannot occur at the sizes
    in question and are left out. Timestamps are microseconds, dates day numbers, all in UTC.
  \<^item> \<open>Decimal(str(x))\<close> is the first decimal, by number of places, that reads back as the float; 25 places are
    enough for amounts of at least \<open>10^-8\<close>. That sums of floats determine exact sums is proved up to nine million,
    where the rounding of the additions stays below half a hundredth. The rounding of the numeric columns is a
    parameter \<open>rnd\<close> of finance operations, of which \<open>column_rounding\<close> says that it gives a nearest hundredth;
    \<open>round_dp\<close> meets it. Where a call commits half-way or leaves changes uncommitted, the model returns the
    session and the database it leaves.
  \<^item> Amounts of payroll are floats that the columns round by \<open>rnd\<close>; that the engine's floats give the exact
    amounts is proved up to nine million. The file service is the parameter \<open>upload\<close>, the random end of a run
    number a parameter of its creation.
  \<^item> Quantities and prices of purchase and sales documents are not rounded to the decimals of their columns.
  \<^item> Recursion is structural except for the breadth-first search, whose termination is proved from the
    number of accounts not visited, the count of working days, which ends by the days left, and the digits of
    a number; no fuel is used anywhere.
  \<^item> \<open>fin_step\<close>, \<open>fops_step\<close>, \<open>stk_step\<close>, \<open>wms_step\<close>, \<open>ap_step\<close>, \<open>proc_step\<close>, \<open>sale_step\<close>, \<open>pay_step\<close> and the steps of time and leave
    take whole calls as steps: the code runs each in one transaction
    with row locks. Recalculating a balance without a location is no step of \<open>stk_step\<close>; the property on
    recalculation shows what it does.
  \<^item> Foreign keys into tables that are not modelled (account groups, cost centers, users, units) are taken
    to hold. Reference masters (products, warehouses, locations, policies, journal types) are part of the
    initial state. Error messages are abbreviated.
  \<^item> Between the two commits of \<open>create_fiscal_year\<close>, \<open>create_journal\<close> and \<open>reverse_journal\<close> nothing can fail
    that the model does not check first, so each is one step.

  \<^bold>\<open>Not modelled.\<close> Caches, task queues, paged listings and response schemas; companies, account groups,
  currencies, cost centers, taxes and posting rules; credit and debit notes, which no service uses; the services for batches, serial numbers, lots and cycle counts; requisitions, requests for
  quotation and the upkeep of suppliers and quotations; the upkeep of employees, shifts, holidays and leave
  types, whose changes are a step of the model; customers, price lists and CRM; payroll analytics, report
  snapshots, the bank export and the contents of payslips as files; every other module (authentication,
  reporting, files), and the web frontend.
\<close>

end
